(* ===== verification/Prelude.thy ===== *)
theory Prelude
  imports Main "HOL-Library.Char_ord" "HOL-Library.List_Lexorder"
begin

text \<open>
  Shared vocabulary of the GreenPMS development: the error values of
  \<^verbatim>\<open>packages/contracts/src/index.ts\<close> (error codes and the class DomainError), the result
  type in which every thrown error is a value, the fragment of the JavaScript run time the
  components use (numbers and their integrality tests, untyped values, string trimming,
  stable sorting, insertion-ordered maps), and the generic lemmas the components share.

  A string is a list of code units. The model works on the code units below 256; the white
  space that \<^verbatim>\<open>trim\<close> strips is the Latin-1 part of the ECMAScript white space. The
  human readable text of an error message is not modelled, its code, HTTP status and
  retryable flag are.
\<close>

named_theorems result_simps \<open>rewriting of the error monad\<close>
named_theorems date_simps \<open>calendar facts the clients of the dates use\<close>

section \<open>Errors as values\<close>

datatype error_code =
    CURSOR_EXPIRED | AUTHENTICATION_REQUIRED | INVALID_CREDENTIALS | TOKEN_EXPIRED
  | TOKEN_REVOKED | SUBJECT_DISABLED | INSUFFICIENT_ACCESS | RESOURCE_SCOPE_DENIED
  | IDEMPOTENCY_KEY_REQUIRED | CORRELATION_ID_REQUIRED | IDEMPOTENCY_KEY_REUSED
  | PREVIEW_REQUIRED | PREVIEW_NOT_FOUND | PREVIEW_STALE | PREVIEW_ALREADY_USED
  | CONFIRMATION_REQUIRED | CONFIRMATION_MISMATCH | REASON_REQUIRED
  | AGGREGATE_VERSION_CONFLICT | INVENTORY_CONFLICT | ENTITLEMENT_CONFLICT
  | INVALID_ORDER_STATE | CROSS_ORDER_FACT_REFERENCE | FACT_ALREADY_REVERSED
  | REFUND_LIMIT_EXCEEDED | PRICING_POLICY_UNCONFIGURED | POLICY_VERSION_NOT_FOUND
  | QUOTE_EXPIRED | VALIDATION_ERROR | NOT_FOUND | COMMAND_STATUS_UNKNOWN
  | COMMAND_INTERRUPTED | RATE_LIMITED | SERVICE_NOT_READY | INTERNAL_ERROR

record domain_error =
  code :: error_code
  statusCode :: nat
  retryable :: bool

text \<open>The constructor's defaults: status 400, not retryable.\<close>

definition DomainError :: "error_code \<Rightarrow> nat \<Rightarrow> bool \<Rightarrow> domain_error" where
  "DomainError c s r = \<lparr>code = c, statusCode = s, retryable = r\<rparr>"

lemma DomainError_sel [simp]:
  "code (DomainError c s r) = c" "statusCode (DomainError c s r) = s"
  "retryable (DomainError c s r) = r"
  by (simp_all add: DomainError_def)

lemma DomainError_inject [simp]:
  "DomainError c s r = DomainError c' s' r' \<longleftrightarrow> c = c' \<and> s = s' \<and> r = r'"
  by (simp add: DomainError_def)

text \<open>
  What ends a computation early: a thrown DomainError, or any other exception of the run
  time or of the database driver (RangeError, TypeError, a missing row under
  \<^verbatim>\<open>executeTakeFirstOrThrow\<close>, a violated constraint).
\<close>

datatype failure = Raised domain_error | Uncaught

type_synonym 'a result = "failure + 'a"

abbreviation throw :: "error_code \<Rightarrow> nat \<Rightarrow> 'a result" where
  "throw c s \<equiv> Inl (Raised (DomainError c s False))"

abbreviation uncaught :: "'a result" where
  "uncaught \<equiv> Inl Uncaught"

abbreviation validation_error :: "'a result" where
  "validation_error \<equiv> throw VALIDATION_ERROR 400"

text \<open>Sequential composition: the first error ends the computation, as an exception does.\<close>

definition bindR :: "'e + 'a \<Rightarrow> ('a \<Rightarrow> 'e + 'b) \<Rightarrow> 'e + 'b" where
  "bindR m f = (case m of Inl e \<Rightarrow> Inl e | Inr x \<Rightarrow> f x)"

lemma bindR_simps [simp, result_simps]:
  "bindR (Inl e) f = Inl e" "bindR (Inr x) f = f x"
  by (simp_all add: bindR_def)

lemma bindR_eq_Inr [simp, result_simps]:
  "bindR m f = Inr y \<longleftrightarrow> (\<exists>x. m = Inr x \<and> f x = Inr y)"
  by (cases m) auto

lemma bindR_eq_Inl [result_simps]:
  "bindR m f = Inl e \<longleftrightarrow> m = Inl e \<or> (\<exists>x. m = Inr x \<and> f x = Inl e)"
  by (cases m) auto

lemma bindR_cong [fundef_cong]:
  "m = m' \<Longrightarrow> (\<And>x. m' = Inr x \<Longrightarrow> f x = f' x) \<Longrightarrow> bindR m f = bindR m' f'"
  by (cases m') auto

lemma bindR_assoc: "bindR (bindR m f) g = bindR m (\<lambda>x. bindR (f x) g)"
  by (cases m) auto

lemma bindR_Inr_right [simp]: "bindR m Inr = m"
  by (cases m) auto

text \<open>A loop whose body may throw: the results in order, or the first error.\<close>

fun mapR :: "('a \<Rightarrow> 'e + 'b) \<Rightarrow> 'a list \<Rightarrow> 'e + 'b list" where
  "mapR f [] = Inr []"
| "mapR f (x # xs) = bindR (f x) (\<lambda>y. bindR (mapR f xs) (\<lambda>ys. Inr (y # ys)))"

fun foldR :: "('s \<Rightarrow> 'a \<Rightarrow> 'e + 's) \<Rightarrow> 's \<Rightarrow> 'a list \<Rightarrow> 'e + 's" where
  "foldR f s [] = Inr s"
| "foldR f s (x # xs) = bindR (f s x) (\<lambda>s'. foldR f s' xs)"

lemma mapR_cong [fundef_cong]:
  "xs = ys \<Longrightarrow> (\<And>x. x \<in> set ys \<Longrightarrow> f x = g x) \<Longrightarrow> mapR f xs = mapR g ys"
  by (induction ys arbitrary: xs) auto

lemma mapR_Inr_iff:
  "mapR f xs = Inr ys \<longleftrightarrow> list_all2 (\<lambda>x y. f x = Inr y) xs ys"
  by (induction xs arbitrary: ys) (auto simp: list_all2_Cons1)

lemma foldR_append: "foldR f s (xs @ ys) = bindR (foldR f s xs) (\<lambda>s'. foldR f s' ys)"
  by (induction xs arbitrary: s) (simp_all add: bindR_assoc)

text \<open>An invariant of the loop body is an invariant of the loop.\<close>

lemma foldR_invariant:
  assumes "foldR f s xs = Inr s'" and "P s"
    and step: "\<And>s x s'. x \<in> set xs \<Longrightarrow> P s \<Longrightarrow> f s x = Inr s' \<Longrightarrow> P s'"
  shows "P s'"
  using assms by (induction xs arbitrary: s) auto

section \<open>Numbers\<close>

text \<open>
  A value of the type \<^verbatim>\<open>number\<close>: an integral double, or one of the values that fail every
  integrality test (NaN, the infinities and the non-integral doubles). The functions that
  take such a value test it before they compute with it.
\<close>

datatype js_number = IntNum int | NonInt

definition MAX_SAFE_INTEGER :: int where "MAX_SAFE_INTEGER = 9007199254740991"

definition safe_int :: "int \<Rightarrow> bool" where
  "safe_int n \<longleftrightarrow> - MAX_SAFE_INTEGER \<le> n \<and> n \<le> MAX_SAFE_INTEGER"

fun isSafeInteger :: "js_number \<Rightarrow> bool" where
  "isSafeInteger (IntNum n) = safe_int n"
| "isSafeInteger NonInt = False"

fun isInteger :: "js_number \<Rightarrow> bool" where
  "isInteger (IntNum n) = True"
| "isInteger NonInt = False"

fun intOf :: "js_number \<Rightarrow> int" where
  "intOf (IntNum n) = n"
| "intOf NonInt = 0"

lemma isSafeInteger_iff: "isSafeInteger v \<longleftrightarrow> (\<exists>n. v = IntNum n \<and> safe_int n)"
  by (cases v) auto

lemma isInteger_iff: "isInteger v \<longleftrightarrow> (\<exists>n. v = IntNum n)"
  by (cases v) auto

lemma safe_int_bounds: "safe_int n \<longleftrightarrow> -9007199254740991 \<le> n \<and> n \<le> 9007199254740991"
  by (simp add: safe_int_def MAX_SAFE_INTEGER_def)

text \<open>
  Addition and multiplication of integral doubles round to the nearest double, ties to the
  even mantissa. \<open>dbl n\<close> is the double nearest to the integer n (an overflow to Infinity is
  not told apart from a huge value: neither passes an integrality test for safe integers).
\<close>

function ulp :: "int \<Rightarrow> int" where
  "ulp n = (if n < 9007199254740992 then 1 else 2 * ulp (n div 2))"
  by auto
termination by (relation "measure nat") auto

declare ulp.simps [simp del]

definition dbl :: "int \<Rightarrow> int" where
  "dbl n =
     (let u = ulp \<bar>n\<bar>; q = n div u; r = n mod u
      in if 2 * r < u \<or> (2 * r = u \<and> even q) then q * u else (q + 1) * u)"

lemma ulp_pos: "0 < ulp n"
  by (induction n rule: ulp.induct) (subst ulp.simps, simp)

lemma ulp_small: "n < 9007199254740992 \<Longrightarrow> ulp n = 1"
  by (simp add: ulp.simps)

lemma dbl_small: "\<bar>n\<bar> < 9007199254740992 \<Longrightarrow> dbl n = n"
  by (simp add: dbl_def ulp_small)

lemma dbl_safe: "safe_int n \<Longrightarrow> dbl n = n"
  by (rule dbl_small) (auto simp: safe_int_bounds)

lemma ulp_large: "9007199254740992 \<le> n \<Longrightarrow> 2 \<le> ulp n \<and> 4503599627370496 * ulp n \<le> n"
proof (induction n rule: ulp.induct)
  case (1 n)
  then have u: "ulp n = 2 * ulp (n div 2)" by (simp add: ulp.simps [of n])
  show ?case
  proof (cases "9007199254740992 \<le> n div 2")
    case True
    with 1 have "2 \<le> ulp (n div 2)" "4503599627370496 * ulp (n div 2) \<le> n div 2" by auto
    with u show ?thesis by linarith
  next
    case False
    then have "ulp n = 2" by (simp add: u ulp_small)
    then show ?thesis using 1 by simp
  qed
qed

text \<open>Rounding never brings a value back into the safe range.\<close>

lemma dbl_large:
  assumes "9007199254740992 \<le> \<bar>n\<bar>"
  shows "9007199254740992 \<le> \<bar>dbl n\<bar>"
proof -
  define u q where "u = ulp \<bar>n\<bar>" and "q = n div u"
  have u: "2 \<le> u" "4503599627370496 * u \<le> \<bar>n\<bar>" using ulp_large [OF assms] by (simp_all add: u_def)
  have n: "n = q * u + n mod u" by (simp add: q_def)
  have r: "0 \<le> n mod u" "n mod u < u" using u(1) by simp_all
  have le: "q * u \<le> n" using n r(1) by linarith
  have lt: "q * u < n" if "\<not> 2 * (n mod u) < u" using n that u(1) by linarith
  have cases: "dbl n = q * u \<or> dbl n = (q + 1) * u \<and> q * u < n"
    using lt by (auto simp: dbl_def Let_def u_def [symmetric] q_def [symmetric])
  show ?thesis
  proof (cases "0 \<le> n")
    case True
    then have "4503599627370496 * u div u \<le> n div u" using u by (intro zdiv_mono1) auto
    then have "4503599627370496 \<le> q" using u(1) by (simp add: q_def)
    then have "4503599627370496 * 2 \<le> q * u" using u(1) by (intro mult_mono) auto
    moreover have "q * u \<le> (q + 1) * u" using u(1) by simp
    ultimately show ?thesis using cases by auto
  next
    case False
    then have big: "n \<le> (- 4503599627370496) * u" using u(2) by simp
    have low: "k * u \<le> - 9007199254740992" if "k \<le> - 4503599627370496" for k
    proof -
      have "k * u \<le> (- 4503599627370496) * u" using that u(1) by (intro mult_right_mono) auto
      then show ?thesis using u(1) by linarith
    qed
    from cases show ?thesis
    proof
      assume "dbl n = q * u"
      with big le u(1) show ?thesis by linarith
    next
      assume c: "dbl n = (q + 1) * u \<and> q * u < n"
      with big have "q * u < (- 4503599627370496) * u" by linarith
      then have "q < - 4503599627370496" using u(1) mult_less_cancel_right_pos [of u q "- 4503599627370496"] by linarith
      then have "(q + 1) * u \<le> - 9007199254740992" by (intro low) simp
      with c show ?thesis by simp
    qed
  qed
qed

lemma safe_dbl [simp]: "safe_int (dbl n) \<longleftrightarrow> safe_int n"
proof (cases "\<bar>n\<bar> < 9007199254740992")
  case False
  then show ?thesis using dbl_large [of n] by (auto simp: safe_int_bounds)
qed (simp add: dbl_small)

text \<open>The left-to-right sum of a \<^verbatim>\<open>reduce((sum, x) => sum + x, 0)\<close>.\<close>

definition dsum :: "int list \<Rightarrow> int" where
  "dsum xs = fold (\<lambda>x acc. dbl (acc + x)) xs 0"

lemma fold_dbl_nonneg:
  assumes "\<forall>x \<in> set xs. 0 \<le> x" "0 \<le> acc" "safe_int (acc + sum_list xs)"
  shows "fold (\<lambda>x acc. dbl (acc + x)) xs acc = acc + sum_list xs"
  using assms
proof (induction xs arbitrary: acc)
  case (Cons x xs)
  have "0 \<le> sum_list xs" using Cons.prems(1) by (simp add: sum_list_nonneg)
  with Cons.prems have "safe_int (acc + x)" by (auto simp: safe_int_bounds)
  then show ?case using Cons by (simp add: dbl_safe add.assoc)
qed simp

lemma dsum_exact: "\<forall>x \<in> set xs. 0 \<le> x \<Longrightarrow> safe_int (sum_list xs) \<Longrightarrow> dsum xs = sum_list xs"
  by (simp add: dsum_def fold_dbl_nonneg)

lemma dbl_nonneg: "0 \<le> n \<Longrightarrow> 0 \<le> dbl n"
  using ulp_pos [of "\<bar>n\<bar>"] by (auto simp: dbl_def Let_def pos_imp_zdiv_nonneg_iff)

lemma fold_dbl_safe_imp:
  assumes "\<forall>x \<in> set xs. 0 \<le> x" "0 \<le> acc" "safe_int (fold (\<lambda>x acc. dbl (acc + x)) xs acc)"
  shows "safe_int (acc + sum_list xs)"
proof (rule ccontr)
  have grow: "9007199254740992 \<le> fold (\<lambda>x acc. dbl (acc + x)) ys c"
    if "\<forall>x \<in> set ys. 0 \<le> x" "9007199254740992 \<le> c" for ys c
    using that
  proof (induction ys arbitrary: c)
    case (Cons y ys)
    then have "9007199254740992 \<le> dbl (c + y)"
      using dbl_large [of "c + y"] dbl_nonneg [of "c + y"] by auto
    with Cons show ?case by simp
  qed simp
  have "9007199254740992 \<le> fold (\<lambda>x acc. dbl (acc + x)) ys c"
    if "\<forall>x \<in> set ys. 0 \<le> x" "0 \<le> c" "\<not> safe_int (c + sum_list ys)" for ys c
    using that
  proof (induction ys arbitrary: c)
    case (Cons y ys)
    show ?case
    proof (cases "safe_int (c + y)")
      case True
      then show ?thesis using Cons by (simp add: dbl_safe add.assoc)
    next
      case False
      then have "9007199254740992 \<le> c + y" using Cons.prems by (auto simp: safe_int_bounds)
      then have "9007199254740992 \<le> dbl (c + y)"
        using dbl_large [of "c + y"] dbl_nonneg [of "c + y"] by auto
      then show ?thesis using grow Cons.prems by simp
    qed
  qed (auto simp: safe_int_bounds)
  moreover assume "\<not> safe_int (acc + sum_list xs)"
  ultimately show False using assms by (fastforce simp: safe_int_bounds)
qed

text \<open>A sum of non-negative terms that passes the safe-integer test is exact.\<close>

lemma safe_dsum:
  assumes "\<forall>x \<in> set xs. 0 \<le> x"
  shows "safe_int (dsum xs) \<longleftrightarrow> safe_int (sum_list xs)"
  using fold_dbl_safe_imp [OF assms, of 0] dsum_exact [OF assms] by (auto simp: dsum_def)

lemma dsum_nonneg: "\<forall>x \<in> set xs. 0 \<le> x \<Longrightarrow> 0 \<le> dsum xs"
proof -
  have "0 \<le> acc \<Longrightarrow> \<forall>x \<in> set xs. 0 \<le> x \<Longrightarrow> 0 \<le> fold (\<lambda>x acc. dbl (acc + x)) xs acc" for acc
    by (induction xs arbitrary: acc) (auto simp: dbl_nonneg)
  then show "\<forall>x \<in> set xs. 0 \<le> x \<Longrightarrow> 0 \<le> dsum xs" by (simp add: dsum_def)
qed

text \<open>The type \<^verbatim>\<open>unknown\<close> of an input that has not been validated yet.\<close>

datatype js_value = Undefined | Null | Bool bool | Num js_number | Str string | Obj

fun nullish :: "js_value \<Rightarrow> bool" where
  "nullish Undefined = True"
| "nullish Null = True"
| "nullish _ = False"

section \<open>Strings\<close>

definition js_space :: "char \<Rightarrow> bool" where
  "js_space c \<longleftrightarrow> c \<in> {CHR 0x09, CHR 0x0A, CHR 0x0B, CHR 0x0C, CHR 0x0D, CHR 0x20, CHR 0xA0}"

definition trim :: "string \<Rightarrow> string" where
  "trim s = rev (dropWhile js_space (rev (dropWhile js_space s)))"

lemma dropWhile_idem_hd: "xs = [] \<or> \<not> P (hd xs) \<Longrightarrow> dropWhile P xs = xs"
  by (cases xs) auto

lemma hd_dropWhile_rev_dropWhile:
  "rev (dropWhile P (rev (dropWhile P s))) = [] \<or>
   \<not> P (hd (rev (dropWhile P (rev (dropWhile P s)))))"
proof (cases "rev (dropWhile P (rev (dropWhile P s))) = []")
  case False
  let ?t = "dropWhile P s"
  obtain p where p: "?t = rev (dropWhile P (rev ?t)) @ p"
    by (metis append_Nil2 rev_append rev_rev_ident takeWhile_dropWhile_id)
  with False have "hd ?t = hd (rev (dropWhile P (rev ?t)))"
    by (metis hd_append2)
  moreover from False p have "?t \<noteq> []" by (metis append_is_Nil_conv)
  ultimately show ?thesis using hd_dropWhile [of P s] by metis
qed simp

lemma trim_idem [simp]: "trim (trim s) = trim s"
proof -
  let ?t = "dropWhile js_space s"
  have "dropWhile js_space (trim s) = trim s"
    unfolding trim_def by (rule dropWhile_idem_hd) (rule hd_dropWhile_rev_dropWhile)
  moreover have "dropWhile js_space (rev (trim s)) = rev (trim s)"
    by (simp add: trim_def)
  ultimately show ?thesis by (simp add: trim_def)
qed

section \<open>Stable sorting by a comparator\<close>

text \<open>
  \<^verbatim>\<open>Array.prototype.sort\<close> is stable; the comparator is given as the test that the left
  element may stay before the right one (comparison at most 0).
\<close>

fun insertBy :: "('a \<Rightarrow> 'a \<Rightarrow> bool) \<Rightarrow> 'a \<Rightarrow> 'a list \<Rightarrow> 'a list" where
  "insertBy le x [] = [x]"
| "insertBy le x (y # ys) = (if le x y then x # y # ys else y # insertBy le x ys)"

fun sortBy :: "('a \<Rightarrow> 'a \<Rightarrow> bool) \<Rightarrow> 'a list \<Rightarrow> 'a list" where
  "sortBy le [] = []"
| "sortBy le (x # xs) = insertBy le x (sortBy le xs)"

lemma set_insertBy [simp]: "set (insertBy le x xs) = insert x (set xs)"
  by (induction xs) auto

lemma set_sortBy [simp]: "set (sortBy le xs) = set xs"
  by (induction xs) auto

lemma length_insertBy [simp]: "length (insertBy le x xs) = Suc (length xs)"
  by (induction xs) auto

lemma length_sortBy [simp]: "length (sortBy le xs) = length xs"
  by (induction xs) auto

lemma sortBy_eq_Nil [simp]: "sortBy le xs = [] \<longleftrightarrow> xs = []"
  by (metis length_0_conv length_sortBy)

lemma distinct_map_insertBy: "distinct (map f (insertBy le x xs)) \<longleftrightarrow> f x \<notin> f ` set xs \<and> distinct (map f xs)"
  by (induction xs) auto

lemma distinct_map_sortBy [simp]: "distinct (map f (sortBy le xs)) \<longleftrightarrow> distinct (map f xs)"
  by (induction xs) (auto simp: distinct_map_insertBy)

lemma distinct_sortBy [simp]: "distinct (sortBy le xs) \<longleftrightarrow> distinct xs"
  using distinct_map_sortBy [of "\<lambda>x. x" le xs] by simp

lemma sum_list_insertBy: "sum_list (map f (insertBy le x xs)) = (f x + sum_list (map f xs) :: 'b :: comm_monoid_add)"
  by (induction xs) (auto simp: ac_simps)

lemma sum_list_sortBy: "sum_list (map f (sortBy le xs)) = (sum_list (map f xs) :: 'b :: comm_monoid_add)"
  by (induction xs) (auto simp: sum_list_insertBy)

lemma filter_insertBy_other: "\<not> P x \<Longrightarrow> filter P (insertBy le x xs) = filter P xs"
  by (induction xs) auto

text \<open>What a comparator has to satisfy for the result to be sorted.\<close>

locale comparator =
  fixes le :: "'a \<Rightarrow> 'a \<Rightarrow> bool"
  assumes total: "le x y \<or> le y x"
    and trans: "le x y \<Longrightarrow> le y z \<Longrightarrow> le x z"
begin

lemma sorted_insertBy: "sorted_wrt le xs \<Longrightarrow> sorted_wrt le (insertBy le x xs)"
proof (induction xs)
  case (Cons y ys)
  then show ?case using total trans by fastforce
qed simp

lemma sorted_sortBy: "sorted_wrt le (sortBy le xs)"
  by (induction xs) (auto intro: sorted_insertBy)

lemma refl: "le x x"
  using total by blast

text \<open>Stability: elements the comparator does not separate keep their order.\<close>

lemma insertBy_stable:
  assumes "\<And>y. y \<in> set xs \<Longrightarrow> P y \<Longrightarrow> P x \<Longrightarrow> le x y"
  shows "filter P (insertBy le x xs) = (if P x then x # filter P xs else filter P xs)"
  using assms by (induction xs) auto

lemma sortBy_stable:
  assumes "\<And>x y. P x \<Longrightarrow> P y \<Longrightarrow> le x y"
  shows "filter P (sortBy le xs) = filter P xs"
  using assms by (induction xs) (simp_all add: insertBy_stable)

lemma hd_sortBy_least:
  assumes "x \<in> set xs"
  shows "le (hd (sortBy le xs)) x"
proof -
  from assms have "x \<in> set (sortBy le xs)" by simp
  then show ?thesis using sorted_sortBy [of xs]
    by (cases "sortBy le xs") (auto simp: refl)
qed

end

interpretation string_order: comparator "(\<le>) :: string \<Rightarrow> string \<Rightarrow> bool"
  by unfold_locales auto

section \<open>Insertion-ordered maps\<close>

text \<open>
  A JavaScript \<^verbatim>\<open>Map\<close> iterates in insertion order and keeps the position of a key that is
  set again: an association list updated in place.
\<close>

fun jmap_set :: "'k \<Rightarrow> 'v \<Rightarrow> ('k \<times> 'v) list \<Rightarrow> ('k \<times> 'v) list" where
  "jmap_set k v [] = [(k, v)]"
| "jmap_set k v ((k', v') # m) = (if k = k' then (k, v) # m else (k', v') # jmap_set k v m)"

definition jmap_get :: "('k \<times> 'v) list \<Rightarrow> 'k \<Rightarrow> 'v option" where
  "jmap_get m k = map_of m k"

definition jmap_of :: "('k \<times> 'v) list \<Rightarrow> ('k \<times> 'v) list" where
  "jmap_of xs = fold (\<lambda>(k, v) m. jmap_set k v m) xs []"

lemma jmap_get_set: "jmap_get (jmap_set k v m) k' = (if k' = k then Some v else jmap_get m k')"
  by (induction m) (auto simp: jmap_get_def)

lemma keys_jmap_set: "set (map fst (jmap_set k v m)) = insert k (set (map fst m))"
proof (induction m)
  case (Cons a m)
  then show ?case by (cases a) (simp add: insert_commute)
qed simp

lemma distinct_jmap_set: "distinct (map fst m) \<Longrightarrow> distinct (map fst (jmap_set k v m))"
proof (induction m)
  case (Cons a m)
  then show ?case using keys_jmap_set [of k v m] by (cases a) auto
qed simp

lemma fold_jmap_set_keys:
  "set (map fst (fold (\<lambda>(k, v) m. jmap_set k v m) xs m)) = set (map fst xs) \<union> set (map fst m)"
proof (induction xs arbitrary: m)
  case (Cons a xs)
  then show ?case using keys_jmap_set [of "fst a" "snd a" m] by (cases a) auto
qed simp

lemma fold_jmap_set_distinct:
  "distinct (map fst m) \<Longrightarrow> distinct (map fst (fold (\<lambda>(k, v) m. jmap_set k v m) xs m))"
  by (induction xs arbitrary: m) (auto simp: distinct_jmap_set)

lemma keys_jmap_of: "set (map fst (jmap_of xs)) = set (map fst xs)"
  using fold_jmap_set_keys [of xs "[]"] by (simp add: jmap_of_def)

lemma distinct_jmap_of [simp]: "distinct (map fst (jmap_of xs))"
  by (simp add: jmap_of_def fold_jmap_set_distinct)

lemma fold_jmap_set_get:
  "jmap_get (fold (\<lambda>(k, v) m. jmap_set k v m) xs m) k =
   (case map_of (rev xs) k of Some v \<Rightarrow> Some v | None \<Rightarrow> jmap_get m k)"
proof (induction xs arbitrary: m)
  case (Cons a xs)
  then show ?case
    by (cases a) (auto simp: jmap_get_set map_add_def split: option.splits)
qed simp

text \<open>A later entry of the source array overwrites an earlier one with the same key.\<close>

lemma jmap_get_of: "jmap_get (jmap_of xs) k = map_of (rev xs) k"
  by (simp add: jmap_of_def fold_jmap_set_get) (simp add: jmap_get_def split: option.splits)

lemma jmap_of_length_iff: "length (jmap_of xs) = length xs \<longleftrightarrow> distinct (map fst xs)"
proof -
  have "card (set (map fst xs)) = length (jmap_of xs)"
    using distinct_card [OF distinct_jmap_of [of xs]] keys_jmap_of [of xs] by simp
  then show ?thesis
    by (metis card_distinct distinct_card length_map)
qed

lemma distinct_map_of_rev:
  assumes "distinct (map fst xs)"
  shows "map_of (rev xs) k = map_of xs k"
proof -
  have "map_of (rev xs) = map_of xs"
    using assms by (intro map_of_inject_set [THEN iffD2]) (auto simp: rev_map [symmetric])
  then show ?thesis by simp
qed

lemma jmap_get_distinct:
  "distinct (map fst xs) \<Longrightarrow> jmap_get (jmap_of xs) k = map_of xs k"
  by (simp add: jmap_get_of distinct_map_of_rev)

section \<open>Rows of a table\<close>

lemma find_SomeD: "find P xs = Some x \<Longrightarrow> x \<in> set xs \<and> P x"
  by (induction xs) (auto split: if_splits)

text \<open>A sum over rows in which the row with one key gives something up.\<close>

lemma sum_shift:
  fixes g :: "'a \<Rightarrow> int"
  assumes "distinct (map key xs)" "c \<in> set xs"
  shows "sum_list (map (\<lambda>x. g x - (if key x = key c then a else 0)) xs) = sum_list (map g xs) - a"
  using assms
proof (induction xs)
  case (Cons x xs)
  show ?case
  proof (cases "x = c")
    case True
    have "key y \<noteq> key c" if "y \<in> set xs" for y using Cons.prems(1) that True by (auto simp: image_iff)
    then have "sum_list (map (\<lambda>x. g x - (if key x = key c then a else 0)) xs) = sum_list (map g xs)"
      by (intro arg_cong [where f = sum_list] map_cong) auto
    with True show ?thesis by simp
  next
    case False
    with Cons.prems have "key x \<noteq> key c" by auto
    with Cons False show ?thesis by simp
  qed
qed simp

text \<open>An UPDATE with a WHERE clause, and the number of rows it touches.\<close>

definition updateWhere :: "('r \<Rightarrow> bool) \<Rightarrow> ('r \<Rightarrow> 'r) \<Rightarrow> 'r list \<Rightarrow> 'r list" where
  "updateWhere P f rows = map (\<lambda>r. if P r then f r else r) rows"

definition countWhere :: "('r \<Rightarrow> bool) \<Rightarrow> 'r list \<Rightarrow> nat" where
  "countWhere P rows = length (filter P rows)"

section \<open>Systems with an invariant\<close>

text \<open>
  The contract a stateful component gives its clients: an invariant that holds initially and is
  kept by every step holds in every reachable state.
\<close>

locale invariant_system =
  fixes start :: "'s \<Rightarrow> bool"
    and step :: "'s \<Rightarrow> 's \<Rightarrow> bool"
    and inv :: "'s \<Rightarrow> bool"
  assumes start_inv: "start s \<Longrightarrow> inv s"
    and step_inv: "inv s \<Longrightarrow> step s t \<Longrightarrow> inv t"
begin

lemma steps_inv: "step\<^sup>*\<^sup>* s t \<Longrightarrow> inv s \<Longrightarrow> inv t"
  by (induction rule: rtranclp_induct) (auto intro: step_inv)

lemma reachable_inv: "start s \<Longrightarrow> step\<^sup>*\<^sup>* s t \<Longrightarrow> inv t"
  using steps_inv start_inv by blast

lemma reachable_consequence: "start s \<Longrightarrow> step\<^sup>*\<^sup>* s t \<Longrightarrow> (\<And>x. inv x \<Longrightarrow> Q x) \<Longrightarrow> Q t"
  using reachable_inv by blast

end

end
