(* ===== verification/Dates.thy ===== *)
theory Dates
  imports Prelude
begin

text \<open>
  Local dates, \<^verbatim>\<open>packages/domain/src/dates.ts\<close>. A local date is a string
  \<^verbatim>\<open>YYYY-MM-DD\<close>; the code turns it into a \<^verbatim>\<open>Date\<close> at midnight UTC, computes with its
  time value and prints it back with \<^verbatim>\<open>toISOString().slice(0, 10)\<close>. A time value at
  midnight is its day number (days since 1970-01-01); the calendar of the run time
  (ECMAScript, "Year Number" to "Date Number") is the proleptic Gregorian one.

  Shown: the calendar computation is inverse to its own reading; parsing and printing are
  mutually inverse; string comparison of valid dates is comparison of days (the code compares
  dates as strings everywhere); the service dates of a stay are exactly the days from
  arrival to departure, and the errors of the enumeration are exactly its three bad inputs.
\<close>

section \<open>The calendar of the run time\<close>

definition dayFromYear :: "int \<Rightarrow> int" where
  "dayFromYear y = 365 * (y - 1970) + (y - 1969) div 4 - (y - 1901) div 100 + (y - 1601) div 400"

definition leapYear :: "int \<Rightarrow> bool" where
  "leapYear y \<longleftrightarrow> (y mod 4 = 0 \<and> y mod 100 \<noteq> 0) \<or> y mod 400 = 0"

definition leapDay :: "int \<Rightarrow> int" where
  "leapDay y = (if leapYear y then 1 else 0)"

text \<open>The last year that does not start after the day, found from its mean-length estimate.\<close>

definition yearFromDay :: "int \<Rightarrow> int" where
  "yearFromDay t =
     (let y = 1970 + (400 * t) div 146097
      in if t < dayFromYear y then y - 1
         else if t < dayFromYear (y + 1) then y else y + 1)"

definition monthStart :: "int \<Rightarrow> int \<Rightarrow> int" where
  "monthStart l m =
     (if m \<le> 1 then 0 else if m = 2 then 31 else if m = 3 then 59 + l else if m = 4 then 90 + l
      else if m = 5 then 120 + l else if m = 6 then 151 + l else if m = 7 then 181 + l
      else if m = 8 then 212 + l else if m = 9 then 243 + l else if m = 10 then 273 + l
      else if m = 11 then 304 + l else 334 + l)"

definition monthOfDayInYear :: "int \<Rightarrow> int \<Rightarrow> int" where
  "monthOfDayInYear l n =
     (if n < 31 then 1 else if n < 59 + l then 2 else if n < 90 + l then 3 else if n < 120 + l then 4
      else if n < 151 + l then 5 else if n < 181 + l then 6 else if n < 212 + l then 7
      else if n < 243 + l then 8 else if n < 273 + l then 9 else if n < 304 + l then 10
      else if n < 334 + l then 11 else 12)"

definition dayInYear :: "int \<Rightarrow> int" where
  "dayInYear t = t - dayFromYear (yearFromDay t)"

definition monthFromDay :: "int \<Rightarrow> int" where
  "monthFromDay t = monthOfDayInYear (leapDay (yearFromDay t)) (dayInYear t)"

definition dateFromDay :: "int \<Rightarrow> int" where
  "dateFromDay t = dayInYear t - monthStart (leapDay (yearFromDay t)) (monthFromDay t) + 1"

definition makeDay :: "int \<Rightarrow> int \<Rightarrow> int \<Rightarrow> int" where
  "makeDay y m d = dayFromYear y + monthStart (leapDay y) m + d - 1"

section \<open>Printing and parsing\<close>

definition digit :: "int \<Rightarrow> char" where
  "digit n = char_of (48 + n)"

definition isDigit :: "char \<Rightarrow> bool" where
  "isDigit c \<longleftrightarrow> 48 \<le> (of_char c :: int) \<and> (of_char c :: int) \<le> 57"

definition digitVal :: "char \<Rightarrow> int" where
  "digitVal c = of_char c - 48"

fun padStart :: "nat \<Rightarrow> int \<Rightarrow> string" where
  "padStart 0 n = []"
| "padStart (Suc k) n = padStart k (n div 10) @ [digit (n mod 10)]"

definition numOf :: "string \<Rightarrow> int" where
  "numOf s = foldl (\<lambda>a c. 10 * a + digitVal c) 0 s"

text \<open>
  The first ten code units of \<^verbatim>\<open>toISOString()\<close>: the plain form for the years 0 to 9999,
  the beginning of the extended form (sign and six digits) for the others.
\<close>

definition toISODate :: "int \<Rightarrow> string" where
  "toISODate t =
     (let y = yearFromDay t; m = monthFromDay t; d = dateFromDay t
      in if 0 \<le> y \<and> y \<le> 9999
         then padStart 4 y @ ''-'' @ padStart 2 m @ ''-'' @ padStart 2 d
         else (if y < 0 then ''-'' else ''+'') @ padStart 6 \<bar>y\<bar> @ ''-'' @ padStart 2 m)"

definition ISO_DATE :: "string \<Rightarrow> bool" where
  "ISO_DATE s \<longleftrightarrow> length s = 10
     \<and> list_all isDigit (take 4 s) \<and> s ! 4 = CHR ''-''
     \<and> list_all isDigit (take 2 (drop 5 s)) \<and> s ! 7 = CHR ''-''
     \<and> list_all isDigit (drop 8 s)"

text \<open>
  \<^verbatim>\<open>new Date(`${s}T00:00:00.000Z`)\<close> for a string of the shape above: None is the invalid
  date. The parser accepts months 1 to 12 and days 1 to 31 and lets a day past the end of
  its month run into the next one.
\<close>

definition newDate :: "string \<Rightarrow> int option" where
  "newDate s =
     (let y = numOf (take 4 s); m = numOf (take 2 (drop 5 s)); d = numOf (drop 8 s)
      in if ISO_DATE s \<and> 1 \<le> m \<and> m \<le> 12 \<and> 1 \<le> d \<and> d \<le> 31 then Some (makeDay y m d) else None)"

definition MAX_SERVICE_NIGHTS :: int where "MAX_SERVICE_NIGHTS = 366"

definition parseLocalDate :: "string \<Rightarrow> int result" where
  "parseLocalDate v =
     (if \<not> ISO_DATE v then validation_error
      else case newDate v of
        None \<Rightarrow> validation_error
      | Some t \<Rightarrow> if toISODate t \<noteq> v then validation_error else Inr t)"

text \<open>The loop that pushes one date per day, from the cursor up to the departure.\<close>

function enumerateLoop :: "int \<Rightarrow> int \<Rightarrow> string list" where
  "enumerateLoop cursor dep =
     (if cursor < dep then toISODate cursor # enumerateLoop (cursor + 1) dep else [])"
  by pat_completeness auto
termination
  by (relation "measure (\<lambda>(cursor, dep). nat (dep - cursor))") auto

declare enumerateLoop.simps [simp del]

definition enumerateServiceDates :: "string \<Rightarrow> string \<Rightarrow> string list result" where
  "enumerateServiceDates arrivalDate departureDate =
     bindR (parseLocalDate arrivalDate) (\<lambda>arrival.
     bindR (parseLocalDate departureDate) (\<lambda>departure.
       if departure \<le> arrival then validation_error
       else if departure - arrival > MAX_SERVICE_NIGHTS then validation_error
       else Inr (enumerateLoop arrival departure)))"

text \<open>The date some days after a valid date (\<^verbatim>\<open>setUTCDate(getUTCDate() + n)\<close>).\<close>

definition shiftLocalDate :: "string \<Rightarrow> int \<Rightarrow> string result" where
  "shiftLocalDate v n = bindR (parseLocalDate v) (\<lambda>t. Inr (toISODate (t + n)))"

section \<open>Years\<close>

lemma div_Suc_step:
  fixes x n :: int
  assumes "0 < n"
  shows "(x + 1) div n = x div n + (if n dvd x + 1 then 1 else 0)"
proof -
  have x: "x = n * (x div n) + x mod n" by simp
  have r: "0 \<le> x mod n" "x mod n < n" using assms by simp_all
  show ?thesis
  proof (cases "x mod n + 1 = n")
    case True
    with x have "x + 1 = n * (x div n) + n" by linarith
    then have *: "x + 1 = n * (x div n + 1)" by (simp only: distrib_left mult_1_right)
    then have "(x + 1) div n = x div n + 1" using assms
      by (metis nonzero_mult_div_cancel_left less_irrefl)
    with * show ?thesis by simp
  next
    case False
    from x have *: "x + 1 = n * (x div n) + (x mod n + 1)" by linarith
    have b: "0 \<le> x mod n + 1" "x mod n + 1 < n" using r False by linarith+
    from int_div_pos_eq [OF * b] int_mod_pos_eq [OF * b]
    have "(x + 1) div n = x div n" "(x + 1) mod n = x mod n + 1" .
    with r show ?thesis by (auto simp: dvd_eq_mod_eq_0)
  qed
qed

lemma div_bounds:
  fixes x n :: int
  assumes "0 < n"
  shows "n * (x div n) \<le> x" "x < n * (x div n) + n"
proof -
  have x: "x = n * (x div n) + x mod n" by simp
  moreover have "0 \<le> x mod n" "x mod n < n" using assms by simp_all
  ultimately show "n * (x div n) \<le> x" "x < n * (x div n) + n" by linarith+
qed

lemma leapYear_dvd: "leapYear y \<longleftrightarrow> (4 dvd y \<and> \<not> 100 dvd y) \<or> 400 dvd y"
  by (simp add: leapYear_def dvd_eq_mod_eq_0)

lemma div_year_step:
  fixes x z n y c :: int
  assumes "0 < n" and "n dvd c" and "x = y - c" and "x = z + 1"
  shows "x div n = z div n + (if n dvd y then 1 else 0)"
proof -
  have "n dvd x \<longleftrightarrow> n dvd y" using assms(2,3) by (simp add: dvd_diff_left_iff)
  with div_Suc_step [OF assms(1), of z] assms(4) show ?thesis by simp
qed

lemma leapDay_dvd:
  "leapDay y = (if 4 dvd y then 1 else 0) - (if 100 dvd y then 1 else 0) + (if 400 dvd y then 1 else 0)"
proof -
  have "400 dvd y \<Longrightarrow> 100 dvd y" "100 dvd y \<Longrightarrow> 4 dvd y"
    using dvd_trans [of 100 400 y] dvd_trans [of 4 100 y] by simp_all
  then show ?thesis by (auto simp: leapDay_def leapYear_dvd)
qed

lemma dayFromYear_Suc: "dayFromYear (y + 1) = dayFromYear y + 365 + leapDay y"
proof -
  have s: "(y + 1 - 1969) div 4 = (y - 1969) div 4 + (if 4 dvd y then 1 else 0)"
    "(y + 1 - 1901) div 100 = (y - 1901) div 100 + (if 100 dvd y then 1 else 0)"
    "(y + 1 - 1601) div 400 = (y - 1601) div 400 + (if 400 dvd y then 1 else 0)"
    by (rule div_year_step [where c = 1968] div_year_step [where c = 1900]
        div_year_step [where c = 1600]; simp; fail)+
  have "365 * (y + 1 - 1970) + (a + p) - (b + q) + (c + r) =
    365 * (y - 1970) + a - b + c + 365 + (p - q + r)" for a b c p q r :: int
    by simp
  then show ?thesis unfolding dayFromYear_def s leapDay_dvd .
qed

lemma leapDay_range: "0 \<le> leapDay y \<and> leapDay y \<le> 1"
  by (simp add: leapDay_def)

lemma leapDay_cases: "leapDay y = 0 \<or> leapDay y = 1"
  by (simp add: leapDay_def)

lemma dayFromYear_less: "y < z \<Longrightarrow> dayFromYear y < dayFromYear z"
proof (induction "nat (z - y)" arbitrary: z)
  case (Suc n)
  have step: "dayFromYear (z - 1) < dayFromYear z"
    using dayFromYear_Suc [of "z - 1"] leapDay_range [of "z - 1"] by simp
  show ?case
  proof (cases "y = z - 1")
    case False
    with Suc.prems Suc.hyps(2) have "dayFromYear y < dayFromYear (z - 1)"
      by (intro Suc.hyps(1)) auto
    with step show ?thesis by simp
  qed (use step in simp)
qed simp

lemma dayFromYear_le: "y \<le> z \<Longrightarrow> dayFromYear y \<le> dayFromYear z"
  using dayFromYear_less [of y z] by (cases "y = z") auto

lemma dayFromYear_mean:
  "400 * dayFromYear y \<le> 146097 * (y - 1970) + 589"
  "146097 * (y - 1970) - 506 \<le> 400 * dayFromYear y"
proof -
  note b = div_bounds [of 4 "y - 1969"] div_bounds [of 100 "y - 1901"] div_bounds [of 400 "y - 1601"]
  show "400 * dayFromYear y \<le> 146097 * (y - 1970) + 589"
    unfolding dayFromYear_def using b by simp
  show "146097 * (y - 1970) - 506 \<le> 400 * dayFromYear y"
    unfolding dayFromYear_def using b by simp
qed

lemma yearFromDay_bracket:
  "dayFromYear (yearFromDay t) \<le> t \<and> t < dayFromYear (yearFromDay t + 1)"
proof -
  define q where "q = (400 * t) div 146097"
  have q: "146097 * q \<le> 400 * t" "400 * t < 146097 * q + 146097"
    unfolding q_def using div_bounds [of 146097 "400 * t"] by simp_all
  have "dayFromYear (1970 + q - 1) \<le> t"
    using dayFromYear_mean(1) [of "1970 + q - 1"] q by simp
  moreover have "t < dayFromYear (1970 + q + 1 + 1)"
    using dayFromYear_mean(2) [of "1970 + q + 1 + 1"] q by simp
  ultimately show ?thesis
    by (auto simp: yearFromDay_def Let_def q_def [symmetric])
qed

lemma yearFromDay_unique:
  assumes "dayFromYear y \<le> t" and "t < dayFromYear (y + 1)"
  shows "yearFromDay t = y"
proof (rule ccontr)
  assume "yearFromDay t \<noteq> y"
  then consider "yearFromDay t + 1 \<le> y" | "y + 1 \<le> yearFromDay t" by linarith
  then show False
    using assms yearFromDay_bracket [of t]
    by cases (auto dest: dayFromYear_le)
qed

lemma yearFromDay_mono: "s \<le> t \<Longrightarrow> yearFromDay s \<le> yearFromDay t"
  using yearFromDay_bracket [of s] yearFromDay_bracket [of t]
    dayFromYear_le [of "yearFromDay t + 1" "yearFromDay s"]
  by linarith

lemma dayInYear_range: "0 \<le> dayInYear t \<and> dayInYear t < 365 + leapDay (yearFromDay t)"
  using yearFromDay_bracket [of t] dayFromYear_Suc [of "yearFromDay t"]
  by (simp add: dayInYear_def)

section \<open>Months and days\<close>

lemma monthOfDayInYear_range: "1 \<le> monthOfDayInYear l n \<and> monthOfDayInYear l n \<le> 12"
  by (simp add: monthOfDayInYear_def)

lemma monthOfDayInYear_mono: "0 \<le> l \<Longrightarrow> m \<le> n \<Longrightarrow> monthOfDayInYear l m \<le> monthOfDayInYear l n"
  by (simp add: monthOfDayInYear_def)

lemma monthStart_le:
  assumes "0 \<le> n" and "l = 0 \<or> l = 1"
  shows "monthStart l (monthOfDayInYear l n) \<le> n"
  using assms by (auto simp: monthOfDayInYear_def monthStart_def)

lemma dayInMonth_bound:
  assumes "n < 365 + l" and "l = 0 \<or> l = 1"
  shows "n - monthStart l (monthOfDayInYear l n) < 31"
  using assms by (auto simp: monthOfDayInYear_def monthStart_def)

lemma monthFromDay_range: "1 \<le> monthFromDay t \<and> monthFromDay t \<le> 12"
  by (simp add: monthFromDay_def monthOfDayInYear_range)

lemma dateFromDay_range: "1 \<le> dateFromDay t \<and> dateFromDay t \<le> 31"
proof -
  let ?l = "leapDay (yearFromDay t)"
  have r: "0 \<le> dayInYear t" "dayInYear t < 365 + ?l" using dayInYear_range by auto
  show ?thesis
    using monthStart_le [OF r(1) leapDay_cases [of "yearFromDay t"]]
      dayInMonth_bound [OF r(2) leapDay_cases [of "yearFromDay t"]]
    by (simp add: dateFromDay_def monthFromDay_def)
qed

lemma makeDay_inverse: "makeDay (yearFromDay t) (monthFromDay t) (dateFromDay t) = t"
  by (simp add: makeDay_def dateFromDay_def dayInYear_def)

section \<open>Decimal fields\<close>

lemma of_char_digit: "0 \<le> n \<Longrightarrow> n < 10 \<Longrightarrow> (of_char (digit n) :: int) = 48 + n"
  by (simp add: digit_def)

lemma less_char_int: "c < d \<longleftrightarrow> (of_char c :: int) < of_char d"
  by (metis less_char_def of_nat_less_iff of_nat_of_char)

lemma digit_less_iff:
  "0 \<le> m \<Longrightarrow> m < 10 \<Longrightarrow> 0 \<le> n \<Longrightarrow> n < 10 \<Longrightarrow> digit m < digit n \<longleftrightarrow> m < n"
  by (simp add: less_char_int of_char_digit)

lemma digitVal_digit: "0 \<le> n \<Longrightarrow> n < 10 \<Longrightarrow> digitVal (digit n) = n"
  by (simp add: digitVal_def of_char_digit)

lemma isDigit_digit: "0 \<le> n \<Longrightarrow> n < 10 \<Longrightarrow> isDigit (digit n)"
  by (simp add: isDigit_def of_char_digit)

lemma length_padStart [simp]: "length (padStart k n) = k"
  by (induction k arbitrary: n) auto

lemma padStart_digits: "list_all isDigit (padStart k n)"
  by (induction k arbitrary: n) (auto simp: isDigit_digit)

lemma append_less_iff:
  fixes xs ys us vs :: string
  assumes "length xs = length ys"
  shows "xs @ us < ys @ vs \<longleftrightarrow> xs < ys \<or> xs = ys \<and> us < vs"
  using assms by (induction xs ys rule: list_induct2) auto

lemma numOf_snoc: "numOf (s @ [c]) = 10 * numOf s + digitVal c"
  by (simp add: numOf_def)

lemma div_ten_bounds: "0 \<le> n \<Longrightarrow> n < 10 * c \<Longrightarrow> 0 \<le> n div 10 \<and> n div 10 < (c :: int)"
  using div_bounds [of 10 n] by (simp add: pos_imp_zdiv_nonneg_iff)

lemma numOf_padStart: "0 \<le> n \<Longrightarrow> n < 10 ^ k \<Longrightarrow> numOf (padStart k n) = n"
proof (induction k arbitrary: n)
  case 0
  then show ?case by (simp add: numOf_def)
next
  case (Suc k)
  then have "numOf (padStart k (n div 10)) = n div 10"
    using div_ten_bounds [of n "10 ^ k"] by simp
  then show ?case by (simp add: numOf_snoc digitVal_digit)
qed

lemma padStart_eq_iff:
  "0 \<le> m \<Longrightarrow> m < 10 ^ k \<Longrightarrow> 0 \<le> n \<Longrightarrow> n < 10 ^ k \<Longrightarrow> padStart k m = padStart k n \<longleftrightarrow> m = n"
  using numOf_padStart by metis

lemma padStart_less_iff:
  "0 \<le> m \<Longrightarrow> m < 10 ^ k \<Longrightarrow> 0 \<le> n \<Longrightarrow> n < 10 ^ k \<Longrightarrow> padStart k m < padStart k n \<longleftrightarrow> m < n"
proof (induction k arbitrary: m n)
  case (Suc k)
  let ?m = "m div 10" and ?n = "n div 10"
  have b: "0 \<le> ?m" "?m < 10 ^ k" "0 \<le> ?n" "?n < 10 ^ k"
    using div_ten_bounds [of m "10 ^ k"] div_ten_bounds [of n "10 ^ k"] Suc.prems by auto
  have "padStart (Suc k) m < padStart (Suc k) n \<longleftrightarrow>
        ?m < ?n \<or> ?m = ?n \<and> m mod 10 < n mod 10"
    by (simp add: append_less_iff Suc.IH [OF b] padStart_eq_iff [OF b] digit_less_iff)
  also have "\<dots> \<longleftrightarrow> m < n"
    using div_mult_mod_eq [of m 10] div_mult_mod_eq [of n 10]
      pos_mod_bound [of 10 m] pos_mod_bound [of 10 n] pos_mod_sign [of 10 m] pos_mod_sign [of 10 n]
    by linarith
  finally show ?case .
qed simp

section \<open>Parsing is the inverse of printing\<close>

definition plainYear :: "int \<Rightarrow> bool" where
  "plainYear t \<longleftrightarrow> 0 \<le> yearFromDay t \<and> yearFromDay t \<le> 9999"

lemma plainYear_iff: "plainYear t \<longleftrightarrow> -719528 \<le> t \<and> t \<le> 2932896"
proof -
  have "0 \<le> yearFromDay t \<longleftrightarrow> dayFromYear 0 \<le> t"
    using yearFromDay_bracket [of t] dayFromYear_le [of 0 "yearFromDay t"]
      dayFromYear_le [of "yearFromDay t + 1" 0] by linarith
  moreover have "yearFromDay t \<le> 9999 \<longleftrightarrow> t < dayFromYear 10000"
    using yearFromDay_bracket [of t] dayFromYear_le [of 10000 "yearFromDay t"]
      dayFromYear_le [of "yearFromDay t + 1" 10000] by linarith
  ultimately show ?thesis by (auto simp: plainYear_def dayFromYear_def)
qed

lemma toISODate_plain:
  "plainYear t \<Longrightarrow> toISODate t =
     padStart 4 (yearFromDay t) @ ''-'' @ padStart 2 (monthFromDay t) @ ''-'' @
     padStart 2 (dateFromDay t)"
  by (simp add: toISODate_def plainYear_def)

lemma iso_shape:
  assumes "list_all isDigit y" "list_all isDigit m" "list_all isDigit d"
    and "length y = 4" "length m = 2" "length d = 2"
  shows "ISO_DATE (y @ ''-'' @ m @ ''-'' @ d)"
  using assms by (simp add: ISO_DATE_def nth_append)

lemma ISO_DATE_toISODate: "plainYear t \<Longrightarrow> ISO_DATE (toISODate t)"
  by (simp only: toISODate_plain) (intro iso_shape padStart_digits length_padStart)

lemma civil_field_bounds:
  assumes "plainYear t"
  shows "0 \<le> yearFromDay t" "yearFromDay t < 10 ^ 4" "0 \<le> monthFromDay t" "monthFromDay t < 10 ^ 2"
    "0 \<le> dateFromDay t" "dateFromDay t < 10 ^ 2"
  using assms monthFromDay_range [of t] dateFromDay_range [of t] by (auto simp: plainYear_def)

lemma newDate_toISODate: "plainYear t \<Longrightarrow> newDate (toISODate t) = Some t"
proof -
  assume p: "plainYear t"
  have "take 4 (toISODate t) = padStart 4 (yearFromDay t)"
    "take 2 (drop 5 (toISODate t)) = padStart 2 (monthFromDay t)"
    "drop 8 (toISODate t) = padStart 2 (dateFromDay t)"
    using p by (simp_all add: toISODate_plain del: padStart.simps)
  then show ?thesis
    using civil_field_bounds [OF p] monthFromDay_range [of t] dateFromDay_range [of t]
      ISO_DATE_toISODate [OF p] makeDay_inverse [of t]
    by (simp add: newDate_def numOf_padStart del: padStart.simps)
qed

lemma parseLocalDate_toISODate [date_simps]: "plainYear t \<Longrightarrow> parseLocalDate (toISODate t) = Inr t"
  by (simp add: parseLocalDate_def ISO_DATE_toISODate newDate_toISODate)

lemma parseLocalDate_InrD:
  assumes "parseLocalDate s = Inr t"
  shows "toISODate t = s" and "ISO_DATE s" and "newDate s = Some t"
  using assms by (auto simp: parseLocalDate_def split: if_splits option.splits)

section \<open>String comparison is comparison of days\<close>

lemma monthFromDay_mono:
  assumes "s \<le> t" and "yearFromDay s = yearFromDay t"
  shows "monthFromDay s \<le> monthFromDay t"
  using assms leapDay_range by (auto simp: monthFromDay_def dayInYear_def intro!: monthOfDayInYear_mono)

text \<open>The civil fields, compared from the most significant on, order the days.\<close>

lemma civil_less_iff:
  "s < t \<longleftrightarrow> yearFromDay s < yearFromDay t \<or> yearFromDay s = yearFromDay t \<and>
     (monthFromDay s < monthFromDay t \<or> monthFromDay s = monthFromDay t \<and> dateFromDay s < dateFromDay t)"
    (is "_ \<longleftrightarrow> ?R s t")
proof -
  have "?R s t" if "s < t" for s t
  proof -
    have le: "yearFromDay s \<le> yearFromDay t" using that by (simp add: yearFromDay_mono)
    moreover have "monthFromDay s \<le> monthFromDay t" if "yearFromDay s = yearFromDay t"
      using \<open>s < t\<close> that by (simp add: monthFromDay_mono)
    moreover have "dateFromDay s < dateFromDay t"
      if "yearFromDay s = yearFromDay t" "monthFromDay s = monthFromDay t"
      using \<open>s < t\<close> that makeDay_inverse [of s] makeDay_inverse [of t] by (simp add: makeDay_def)
    ultimately show ?thesis by force
  qed
  moreover have "?R s t \<Longrightarrow> \<not> ?R t s" "?R s t \<Longrightarrow> s \<noteq> t" by auto
  ultimately show ?thesis by (metis linorder_neqE)
qed

lemma toISODate_less_iff [date_simps]:
  assumes "plainYear s" and "plainYear t"
  shows "toISODate s < toISODate t \<longleftrightarrow> s < t"
  using assms civil_field_bounds [OF assms(1)] civil_field_bounds [OF assms(2)]
  by (simp add: toISODate_plain append_less_iff padStart_less_iff padStart_eq_iff civil_less_iff [of s]
      del: append_Cons append.simps padStart.simps)

lemma toISODate_eq_iff [date_simps]:
  "plainYear s \<Longrightarrow> plainYear t \<Longrightarrow> toISODate s = toISODate t \<longleftrightarrow> s = t"
  by (metis newDate_toISODate option.inject)

text \<open>The extended form starts with a sign, so it is never a valid local date.\<close>

lemma ISO_DATE_plain: "ISO_DATE (toISODate t) \<Longrightarrow> plainYear t"
proof (rule ccontr)
  assume iso: "ISO_DATE (toISODate t)" and "\<not> plainYear t"
  then have "toISODate t ! 0 \<in> {CHR ''-'', CHR ''+''}"
    by (auto simp: toISODate_def plainYear_def)
  moreover from iso have "isDigit (toISODate t ! 0)"
    by (cases "toISODate t") (auto simp: ISO_DATE_def numeral_eq_Suc)
  ultimately show False by (auto simp: isDigit_def)
qed

definition localDate :: "string \<Rightarrow> bool" where
  "localDate s \<longleftrightarrow> (\<exists>t. plainYear t \<and> s = toISODate t)"

lemma parseLocalDate_Inr_iff: "parseLocalDate s = Inr t \<longleftrightarrow> plainYear t \<and> s = toISODate t"
  using parseLocalDate_InrD [of s t] ISO_DATE_plain [of t] parseLocalDate_toISODate [of t] by auto

lemma localDate_iff: "localDate s \<longleftrightarrow> (\<exists>t. parseLocalDate s = Inr t)"
  by (auto simp: localDate_def parseLocalDate_Inr_iff)

lemma parseLocalDate_invalid:
  "\<not> localDate s \<Longrightarrow> parseLocalDate s = validation_error"
  unfolding localDate_iff by (auto simp: parseLocalDate_def split: if_splits option.splits)

section \<open>Service dates\<close>

lemma enumerateLoop_upto: "enumerateLoop a d = map toISODate [a..d - 1]"
proof (induction a d rule: enumerateLoop.induct)
  case (1 a d)
  then show ?case
    by (subst enumerateLoop.simps) (simp add: upto.simps [of a "d - 1"])
qed

lemma length_enumerateLoop: "length (enumerateLoop a d) = nat (d - a)"
  by (simp add: enumerateLoop_upto)

lemma plainYear_between: "plainYear a \<Longrightarrow> plainYear d \<Longrightarrow> a \<le> t \<Longrightarrow> t \<le> d \<Longrightarrow> plainYear t"
  by (simp add: plainYear_iff)

lemma enumerateServiceDates_Inr_iff:
  "enumerateServiceDates a d = Inr ds \<longleftrightarrow>
     (\<exists>s t. parseLocalDate a = Inr s \<and> parseLocalDate d = Inr t \<and> s < t \<and> t - s \<le> 366 \<and>
            ds = map toISODate [s..t - 1])"
proof (cases "parseLocalDate a")
  case (Inr s)
  then show ?thesis
    by (cases "parseLocalDate d")
      (auto simp: enumerateServiceDates_def MAX_SERVICE_NIGHTS_def enumerateLoop_upto)
qed (simp add: enumerateServiceDates_def)

lemma upto_sorted_distinct: "sorted_wrt (<) [a..b::int]"
proof (induction a b rule: upto.induct)
  case (1 a b)
  then show ?case by (subst upto.simps) auto
qed

text \<open>The facts about a successful enumeration that its clients use.\<close>

lemma enumerateServiceDates_facts:
  assumes "enumerateServiceDates a d = Inr ds"
  shows "ds \<noteq> []" and "length ds \<le> 366" and "sorted_wrt (<) ds" and "distinct ds"
    and "hd ds = a" and "a < d" and "localDate a" and "localDate d"
    and "x \<in> set ds \<longleftrightarrow> localDate x \<and> a \<le> x \<and> x < d"
proof -
  from assms obtain s t where p: "parseLocalDate a = Inr s" "parseLocalDate d = Inr t"
    and st: "s < t" "t - s \<le> 366" and ds: "ds = map toISODate [s..t - 1]"
    unfolding enumerateServiceDates_Inr_iff by blast
  from p have pl: "plainYear s" "plainYear t" and a: "a = toISODate s" and d: "d = toISODate t"
    by (auto simp: parseLocalDate_Inr_iff)
  note between = plainYear_between [OF pl]
  show "ds \<noteq> []" "length ds \<le> 366" using st by (simp_all add: ds)
  show sorted: "sorted_wrt (<) ds"
    unfolding ds sorted_wrt_map
    by (rule sorted_wrt_mono_rel [OF _ upto_sorted_distinct])
      (use between in \<open>auto simp: toISODate_less_iff\<close>)
  then show "distinct ds" by (simp add: strict_sorted_iff)
  show "hd ds = a" using st by (simp add: ds a upto.simps [of s])
  show "a < d" using st pl by (simp add: a d toISODate_less_iff)
  show "localDate a" "localDate d" using pl by (auto simp: localDate_def a d)
  show "x \<in> set ds \<longleftrightarrow> localDate x \<and> a \<le> x \<and> x < d"
  proof
    assume "x \<in> set ds"
    then obtain u where u: "s \<le> u" "u < t" "x = toISODate u" by (auto simp: ds)
    with between [of u] pl show "localDate x \<and> a \<le> x \<and> x < d"
      by (auto simp: localDate_def a d toISODate_less_iff not_less [symmetric])
  next
    assume x: "localDate x \<and> a \<le> x \<and> x < d"
    then obtain u where "plainYear u" "x = toISODate u" by (auto simp: localDate_def)
    with x pl show "x \<in> set ds"
      by (auto simp: ds a d toISODate_less_iff not_less [symmetric])
  qed
qed

lemma enumerateServiceDates_length:
  "enumerateServiceDates a d = Inr ds \<Longrightarrow> parseLocalDate a = Inr s \<Longrightarrow> parseLocalDate d = Inr t \<Longrightarrow>
     int (length ds) = t - s"
  by (auto simp: enumerateServiceDates_Inr_iff)

lemma shiftLocalDate_Inr:
  "shiftLocalDate v n = Inr w \<longleftrightarrow> (\<exists>t. parseLocalDate v = Inr t \<and> w = toISODate (t + n))"
  by (auto simp: shiftLocalDate_def)

section \<open>The interface the clients use\<close>

text \<open>
  The components that plan stays rely on no more than this of a calendar: reading and
  printing a date are inverse on the valid strings, and the string order is the day order.
\<close>

locale day_axis =
  fixes parse :: "string \<Rightarrow> int result"
    and print :: "int \<Rightarrow> string"
    and valid :: "int \<Rightarrow> bool"
  assumes parse_iff: "parse v = Inr t \<longleftrightarrow> valid t \<and> v = print t"
    and print_less: "valid s \<Longrightarrow> valid t \<Longrightarrow> print s < print t \<longleftrightarrow> s < t"
    and valid_between: "valid s \<Longrightarrow> valid t \<Longrightarrow> s \<le> u \<Longrightarrow> u \<le> t \<Longrightarrow> valid u"
begin

lemma roundtrip: "valid t \<Longrightarrow> parse (print t) = Inr t"
  by (simp add: parse_iff)

lemma parse_less: "parse a = Inr s \<Longrightarrow> parse b = Inr t \<Longrightarrow> a < b \<longleftrightarrow> s < t"
  by (auto simp: parse_iff print_less)

lemma parse_le: "parse a = Inr s \<Longrightarrow> parse b = Inr t \<Longrightarrow> a \<le> b \<longleftrightarrow> s \<le> t"
  using parse_less [of b t a s] by (simp add: not_less [symmetric])

lemma parse_inj: "parse a = Inr t \<Longrightarrow> parse b = Inr t \<Longrightarrow> a = b"
  by (simp add: parse_iff)

lemma print_inj: "valid s \<Longrightarrow> valid t \<Longrightarrow> print s = print t \<longleftrightarrow> s = t"
  by (metis print_less less_irrefl linorder_neqE)

lemma print_between:
  "parse a = Inr s \<Longrightarrow> parse b = Inr t \<Longrightarrow> s \<le> u \<Longrightarrow> u < t \<Longrightarrow> a \<le> print u \<and> print u < b"
  using valid_between [of s t u] by (auto simp: parse_iff print_less not_less [symmetric])

end

interpretation local_date: day_axis parseLocalDate toISODate plainYear
  by unfold_locales (auto simp: parseLocalDate_Inr_iff toISODate_less_iff intro: plainYear_between)

section \<open>Properties\<close>

text \<open>
  C35: reading a local date back from its printed form gives the day it was printed from, for
  every day of the years 0 to 9999, and no other string is read as that day.
\<close>

theorem parse_print_roundtrip:
  "plainYear t \<Longrightarrow> parseLocalDate (toISODate t) = Inr t \<and>
     (\<forall>s. parseLocalDate s = Inr t \<longrightarrow> s = toISODate t)"
  using local_date.roundtrip local_date.parse_iff by blast

lemma toISODate_leap_day: "toISODate 21243 = ''2028-02-29''"
  by code_simp

theorem parse_print_roundtrip_witness:
  "parseLocalDate ''2028-02-29'' = Inr 21243 \<and> parseLocalDate ''2027-02-29'' = validation_error"
proof
  have "plainYear 21243" by (simp add: plainYear_iff)
  then show "parseLocalDate ''2028-02-29'' = Inr 21243"
    using parse_print_roundtrip [of 21243] by (simp add: toISODate_leap_day)
  show "parseLocalDate ''2027-02-29'' = validation_error" by code_simp
qed

end
