(* ===== verification/Timeline.thy ===== *)
theory Timeline
  imports Dates
begin

text \<open>
  Stay timelines and arrangements: \<^verbatim>\<open>packages/db/src/stay-timeline-plan.ts\<close> (planning of a
  date change, the difference of two timelines, the runs of a timeline) and the arrangement
  functions of \<^verbatim>\<open>packages/db/src/orders.ts\<close> (normalisation of intervals, overlay of a
  change, conversion between intervals and nights).

  Both work on nights, but store intervals of date strings. The proofs go through a
  day-number reading: a timeline is the list of its units from a first day on
  (\<open>mkTimeline\<close>), a run is a triple (unit, first day, day after the last). Shown: planning
  yields a complete timeline of the new dates, which carries the sequence of units along when the length is
  unchanged and otherwise keeps the unit of every night that is in both; the difference partitions the nights; runs and nights are mutually inverse; the overlay of an
  interval is the overlay of its nights.
\<close>

section \<open>The operations\<close>

record stay_timeline_item =
  ti_serviceDate :: string
  ti_inventoryUnitId :: string

record interval =
  iv_inventoryUnitId :: string
  iv_arrivalDate :: string
  iv_departureDate :: string

record stay_timeline_pair_diff =
  preserved :: "stay_timeline_item list"
  released :: "stay_timeline_item list"
  added :: "stay_timeline_item list"

record arrangement_dto =
  ar_arrivalDate :: string
  ar_departureDate :: string
  ar_intervals :: "interval list"

abbreviation internal_error :: "'a result" where
  "internal_error \<equiv> throw INTERNAL_ERROR 500"

definition nextServiceDate :: "string \<Rightarrow> string result" where
  "nextServiceDate d = bindR (parseLocalDate d) (\<lambda>t. Inr (toISODate (t + 1)))"

definition shiftServiceDate :: "string \<Rightarrow> int \<Rightarrow> string result" where
  "shiftServiceDate d days = bindR (parseLocalDate d) (\<lambda>t. Inr (toISODate (t + days)))"

definition dayDelta :: "string \<Rightarrow> string \<Rightarrow> int result" where
  "dayDelta before after =
     bindR (parseLocalDate after) (\<lambda>a. bindR (parseLocalDate before) (\<lambda>b. Inr (a - b)))"

definition assertCompleteTimeline :: "stay_timeline_item list \<Rightarrow> string \<Rightarrow> string \<Rightarrow> unit result" where
  "assertCompleteTimeline timeline arrivalDate departureDate =
     bindR (enumerateServiceDates arrivalDate departureDate) (\<lambda>expected.
       if length timeline \<noteq> length expected
          \<or> list_ex (\<lambda>(item, date). ti_inventoryUnitId item = [] \<or> ti_serviceDate item \<noteq> date)
              (zip timeline expected)
       then internal_error else Inr ())"

text \<open>
  The lookup in the date map is asserted to succeed by the source (\<^verbatim>\<open>get(serviceDate)!\<close>);
  a miss would leave the unit undefined, here the empty string.
\<close>

definition planStayDateChangeTimeline ::
  "stay_timeline_item list \<Rightarrow> string \<Rightarrow> string \<Rightarrow> string \<Rightarrow> string \<Rightarrow> stay_timeline_item list result" where
  "planStayDateChangeTimeline current oldArr oldDep newArr newDep =
     bindR (assertCompleteTimeline current oldArr oldDep) (\<lambda>_.
     bindR (enumerateServiceDates newArr newDep) (\<lambda>newDates.
     bindR (dayDelta oldArr newArr) (\<lambda>arrivalDelta.
     bindR (dayDelta oldDep newDep) (\<lambda>departureDelta.
       if arrivalDelta = departureDelta then
         bindR (mapR (\<lambda>item. bindR (shiftServiceDate (ti_serviceDate item) arrivalDelta)
                        (\<lambda>d. Inr \<lparr>ti_serviceDate = d, ti_inventoryUnitId = ti_inventoryUnitId item\<rparr>)) current)
           (\<lambda>shifted. bindR (assertCompleteTimeline shifted newArr newDep) (\<lambda>_. Inr shifted))
       else
         let currentByDate = jmap_of (map (\<lambda>item. (ti_serviceDate item, ti_inventoryUnitId item)) current);
             firstUnitId = ti_inventoryUnitId (hd current);
             lastUnitId = ti_inventoryUnitId (last current)
         in Inr (map (\<lambda>d. \<lparr>ti_serviceDate = d,
                    ti_inventoryUnitId =
                      (if d < oldArr then firstUnitId
                       else if d \<ge> oldDep then lastUnitId
                       else case jmap_get currentByDate d of Some u \<Rightarrow> u | None \<Rightarrow> [])\<rparr>) newDates)))))"

definition pairKey :: "stay_timeline_item \<Rightarrow> string" where
  "pairKey item = ti_serviceDate item @ [CHR 0x00] @ ti_inventoryUnitId item"

definition timelinePairDiff ::
  "stay_timeline_item list \<Rightarrow> stay_timeline_item list \<Rightarrow> stay_timeline_pair_diff" where
  "timelinePairDiff before after =
     (let beforeKeys = set (map pairKey before); afterKeys = set (map pairKey after)
      in \<lparr>preserved = filter (\<lambda>item. pairKey item \<in> afterKeys) before,
          released = filter (\<lambda>item. pairKey item \<notin> afterKeys) before,
          added = filter (\<lambda>item. pairKey item \<notin> beforeKeys) after\<rparr>)"

definition timelineRunsStep :: "interval list \<Rightarrow> stay_timeline_item \<Rightarrow> interval list result" where
  "timelineRunsStep runs item =
     bindR (nextServiceDate (ti_serviceDate item)) (\<lambda>next.
       if runs \<noteq> [] \<and> iv_inventoryUnitId (last runs) = ti_inventoryUnitId item
          \<and> iv_departureDate (last runs) = ti_serviceDate item
       then Inr (butlast runs @ [(last runs)\<lparr>iv_departureDate := next\<rparr>])
       else Inr (runs @ [\<lparr>iv_inventoryUnitId = ti_inventoryUnitId item,
                          iv_arrivalDate = ti_serviceDate item, iv_departureDate = next\<rparr>]))"

definition timelineRuns :: "stay_timeline_item list \<Rightarrow> interval list result" where
  "timelineRuns timeline = foldR timelineRunsStep [] timeline"

definition lifecycleDate :: "string \<Rightarrow> string result" where
  "lifecycleDate v = (case parseLocalDate v of Inl _ \<Rightarrow> internal_error | Inr _ \<Rightarrow> Inr v)"

text \<open>One round of the normalising loop of \<^verbatim>\<open>arrangement\<close>.\<close>

definition arrangementStep :: "interval list \<Rightarrow> interval \<Rightarrow> interval list result" where
  "arrangementStep normalized iv =
     bindR (lifecycleDate (iv_arrivalDate iv)) (\<lambda>arrivalDate.
     bindR (lifecycleDate (iv_departureDate iv)) (\<lambda>departureDate.
       if departureDate \<le> arrivalDate then internal_error
       else if iv_inventoryUnitId iv = [] then internal_error
       else if normalized \<noteq> [] \<and> arrivalDate \<noteq> iv_departureDate (last normalized) then internal_error
       else if normalized \<noteq> [] \<and> iv_inventoryUnitId (last normalized) = iv_inventoryUnitId iv
       then Inr (butlast normalized @ [(last normalized)\<lparr>iv_departureDate := departureDate\<rparr>])
       else Inr (normalized @ [\<lparr>iv_inventoryUnitId = iv_inventoryUnitId iv,
                                iv_arrivalDate = arrivalDate, iv_departureDate = departureDate\<rparr>])))"

definition arrangement :: "interval list \<Rightarrow> arrangement_dto result" where
  "arrangement intervals =
     (if intervals = [] then internal_error
      else bindR (foldR arrangementStep [] intervals) (\<lambda>normalized.
        Inr \<lparr>ar_arrivalDate = iv_arrivalDate (hd normalized),
             ar_departureDate = iv_departureDate (last normalized),
             ar_intervals = normalized\<rparr>))"

datatype change_type = EXTEND | SHORTEN | MOVE

definition overlayPrefix :: "string \<Rightarrow> interval \<Rightarrow> interval list" where
  "overlayPrefix replacementArrival iv =
     (if iv_departureDate iv \<le> replacementArrival then [iv]
      else if iv_arrivalDate iv < replacementArrival then [iv\<lparr>iv_departureDate := replacementArrival\<rparr>]
      else [])"

definition overlayArrangement :: "arrangement_dto \<Rightarrow> interval \<Rightarrow> change_type \<Rightarrow> arrangement_dto result" where
  "overlayArrangement before replacement changeType =
     bindR (lifecycleDate (iv_arrivalDate replacement)) (\<lambda>ra.
     bindR (lifecycleDate (iv_departureDate replacement)) (\<lambda>rd.
       if rd \<le> ra then internal_error
       else if ra < ar_arrivalDate before \<or> ra \<ge> ar_departureDate before then internal_error
       else if changeType = MOVE \<and> rd \<noteq> ar_departureDate before then internal_error
       else if changeType = EXTEND \<and> rd \<le> ar_departureDate before then internal_error
       else if changeType = SHORTEN \<and> rd \<ge> ar_departureDate before then internal_error
       else if find (\<lambda>iv. iv_arrivalDate iv \<le> ra \<and> ra < iv_departureDate iv) (ar_intervals before) = None
       then internal_error
       else arrangement (concat (map (overlayPrefix ra) (ar_intervals before))
              @ [\<lparr>iv_inventoryUnitId = iv_inventoryUnitId replacement,
                  iv_arrivalDate = ra, iv_departureDate = rd\<rparr>])))"

definition expandInterval :: "interval \<Rightarrow> stay_timeline_item list result" where
  "expandInterval iv = bindR (enumerateServiceDates (iv_arrivalDate iv) (iv_departureDate iv)) (\<lambda>ds.
     Inr (map (\<lambda>d. \<lparr>ti_serviceDate = d, ti_inventoryUnitId = iv_inventoryUnitId iv\<rparr>) ds))"

definition arrangementTimeline :: "arrangement_dto \<Rightarrow> stay_timeline_item list result" where
  "arrangementTimeline value = bindR (mapR expandInterval (ar_intervals value)) (\<lambda>xss. Inr (concat xss))"

text \<open>One round of \<^verbatim>\<open>arrangementFromTimeline\<close>: the intervals so far and the previous item.\<close>

definition arrangementFromTimelineStep ::
  "interval list \<times> stay_timeline_item option \<Rightarrow> stay_timeline_item
     \<Rightarrow> (interval list \<times> stay_timeline_item option) result" where
  "arrangementFromTimelineStep st item =
     (case st of (intervals, previous) \<Rightarrow>
      bindR (lifecycleDate (ti_serviceDate item)) (\<lambda>serviceDate.
      bindR (nextServiceDate serviceDate) (\<lambda>departureDate.
      bindR (case previous of None \<Rightarrow> Inr ()
             | Some p \<Rightarrow> bindR (nextServiceDate (ti_serviceDate p)) (\<lambda>n.
                 if n \<noteq> serviceDate then internal_error else Inr ())) (\<lambda>_.
        if intervals \<noteq> [] \<and> iv_inventoryUnitId (last intervals) = ti_inventoryUnitId item
           \<and> iv_departureDate (last intervals) = serviceDate
        then Inr (butlast intervals @ [(last intervals)\<lparr>iv_departureDate := departureDate\<rparr>], Some item)
        else Inr (intervals @ [\<lparr>iv_inventoryUnitId = ti_inventoryUnitId item,
                     iv_arrivalDate = serviceDate, iv_departureDate = departureDate\<rparr>], Some item)))))"

definition arrangementFromTimeline :: "stay_timeline_item list \<Rightarrow> arrangement_dto result" where
  "arrangementFromTimeline timeline =
     (if timeline = [] then internal_error
      else bindR (foldR arrangementFromTimelineStep ([], None) timeline) (\<lambda>(intervals, _).
        arrangement intervals))"

definition timelineMatches :: "stay_timeline_item list \<Rightarrow> stay_timeline_item list \<Rightarrow> bool" where
  "timelineMatches left right \<longleftrightarrow> length left = length right
     \<and> list_all (\<lambda>(l, r). ti_serviceDate l = ti_serviceDate r \<and> ti_inventoryUnitId l = ti_inventoryUnitId r)
         (zip left right)"

section \<open>The day-number reading\<close>

fun mkTimeline :: "int \<Rightarrow> string list \<Rightarrow> stay_timeline_item list" where
  "mkTimeline s [] = []"
| "mkTimeline s (u # us) = \<lparr>ti_serviceDate = toISODate s, ti_inventoryUnitId = u\<rparr> # mkTimeline (s + 1) us"

lemma length_mkTimeline [simp]: "length (mkTimeline s us) = length us"
  by (induction us arbitrary: s) auto

lemma mkTimeline_append: "mkTimeline s (us @ vs) = mkTimeline s us @ mkTimeline (s + int (length us)) vs"
  by (induction us arbitrary: s) (auto simp: algebra_simps)

lemma mkTimeline_eq_Nil [simp]: "mkTimeline s us = [] \<longleftrightarrow> us = []"
  by (cases us) auto

lemma mkTimeline_zip:
  "mkTimeline s us = map2 (\<lambda>t u. \<lparr>ti_serviceDate = toISODate t, ti_inventoryUnitId = u\<rparr>)
     [s..s + int (length us) - 1] us"
proof (induction us arbitrary: s)
  case (Cons u us)
  then show ?case by (simp add: upto.simps [of s] algebra_simps)
qed simp

lemma map_date_mkTimeline:
  "map ti_serviceDate (mkTimeline s us) = map toISODate [s..s + int (length us) - 1]"
proof (induction us arbitrary: s)
  case (Cons u us)
  then show ?case by (simp add: upto.simps [of s] algebra_simps)
qed simp

lemma map_unit_mkTimeline [simp]: "map ti_inventoryUnitId (mkTimeline s us) = us"
  by (induction us arbitrary: s) auto

text \<open>The complete timelines of a stay are the day-number ones of its length.\<close>

lemma timeline_of_dates:
  assumes "map ti_serviceDate tml = map toISODate [s..s + int (length tml) - 1]"
  shows "tml = mkTimeline s (map ti_inventoryUnitId tml)"
  using assms
proof (induction tml arbitrary: s)
  case (Cons x tml)
  then have "map ti_serviceDate tml = map toISODate [s + 1..s + 1 + int (length tml) - 1]"
    by (simp add: upto.simps [of s] algebra_simps)
  from Cons.IH [OF this] Cons.prems show ?case by (cases x) (simp add: upto.simps [of s])
qed simp

lemma list_ex_zip_date:
  "length tml = length ds \<Longrightarrow>
   \<not> list_ex (\<lambda>(item, date). ti_inventoryUnitId item = [] \<or> ti_serviceDate item \<noteq> date) (zip tml ds)
   \<longleftrightarrow> map ti_serviceDate tml = ds \<and> [] \<notin> set (map ti_inventoryUnitId tml)"
  by (induction tml ds rule: list_induct2) auto

definition completeTimeline :: "stay_timeline_item list \<Rightarrow> string \<Rightarrow> string \<Rightarrow> bool" where
  "completeTimeline tml a d \<longleftrightarrow>
     (\<exists>ds. enumerateServiceDates a d = Inr ds \<and> map ti_serviceDate tml = ds \<and>
           [] \<notin> set (map ti_inventoryUnitId tml))"

lemma assertCompleteTimeline_iff: "assertCompleteTimeline tml a d = Inr () \<longleftrightarrow> completeTimeline tml a d"
proof (cases "enumerateServiceDates a d")
  case (Inr ds)
  then show ?thesis
    by (cases "length tml = length ds")
      (use list_ex_zip_date [of tml ds] in \<open>auto simp: assertCompleteTimeline_def completeTimeline_def\<close>)
qed (auto simp: assertCompleteTimeline_def completeTimeline_def)

lemma completeTimeline_days:
  "completeTimeline tml a d \<longleftrightarrow>
     (\<exists>s us. parseLocalDate a = Inr s \<and> parseLocalDate d = Inr (s + int (length us)) \<and> us \<noteq> [] \<and>
             length us \<le> 366 \<and> [] \<notin> set us \<and> tml = mkTimeline s us)" (is "?L = ?R")
proof
  assume ?L
  then obtain s t where p: "parseLocalDate a = Inr s" "parseLocalDate d = Inr t" "s < t" "t - s \<le> 366"
    and m: "map ti_serviceDate tml = map toISODate [s..t - 1]" and u: "[] \<notin> set (map ti_inventoryUnitId tml)"
    unfolding completeTimeline_def enumerateServiceDates_Inr_iff by auto
  from m have len: "int (length tml) = t - s" using p by (metis length_map length_upto nat_0_le
        diff_ge_0_iff_ge less_imp_le add_diff_cancel_right' diff_add_eq diff_diff_eq2 of_nat_nat)
  with m have "tml = mkTimeline s (map ti_inventoryUnitId tml)"
    by (intro timeline_of_dates) simp
  with p u len show ?R by (intro exI [of _ s] exI [of _ "map ti_inventoryUnitId tml"]) auto
next
  assume ?R
  then show ?L
    by (auto simp: completeTimeline_def enumerateServiceDates_Inr_iff map_date_mkTimeline
        simp del: set_map)
qed

section \<open>Runs of day numbers\<close>

type_synonym drun = "string \<times> int \<times> int"

fun conv :: "drun \<Rightarrow> interval" where
  "conv (u, a, b) = \<lparr>iv_inventoryUnitId = u, iv_arrivalDate = toISODate a, iv_departureDate = toISODate b\<rparr>"

fun chained :: "int \<Rightarrow> drun list \<Rightarrow> int \<Rightarrow> bool" where
  "chained s [] e \<longleftrightarrow> s = e"
| "chained s ((u, a, b) # rs) e \<longleftrightarrow> a = s \<and> a < b \<and> chained b rs e"

definition dunits :: "drun list \<Rightarrow> string list" where
  "dunits rs = concat (map (\<lambda>(u, a, b). replicate (nat (b - a)) u) rs)"

text \<open>No two neighbouring runs have the same unit.\<close>

definition merged :: "drun list \<Rightarrow> bool" where
  "merged rs \<longleftrightarrow> successively (\<lambda>r r'. fst r \<noteq> fst r') rs"

lemma dunits_simps [simp]:
  "dunits [] = []" "dunits ((u, a, b) # rs) = replicate (nat (b - a)) u @ dunits rs"
  "dunits (rs @ rs') = dunits rs @ dunits rs'"
  by (simp_all add: dunits_def)

lemma chained_append [simp]: "chained s (rs @ rs') e \<longleftrightarrow> (\<exists>m. chained s rs m \<and> chained m rs' e)"
  by (induction rs arbitrary: s) auto

lemma chained_le: "chained s rs e \<Longrightarrow> s \<le> e"
proof (induction rs arbitrary: s)
  case (Cons r rs)
  then show ?case by (cases r) force
qed simp

lemma chained_length: "chained s rs e \<Longrightarrow> int (length (dunits rs)) = e - s"
proof (induction rs arbitrary: s)
  case (Cons r rs)
  then show ?case using chained_le [of _ rs e] by (cases r) force
qed simp

lemma chained_bounds:
  "chained s rs e \<Longrightarrow> (u, a, b) \<in> set rs \<Longrightarrow> s \<le> a \<and> a < b \<and> b \<le> e"
proof (induction rs arbitrary: s)
  case (Cons r rs)
  then show ?case using chained_le [of _ rs e] by (cases r) fastforce
qed simp

lemma replicate_Suc_nat: "a < b \<Longrightarrow> replicate (nat (b + 1 - a)) u = replicate (nat (b - a)) u @ [u]"
proof -
  assume "a < b"
  then have "nat (b + 1 - a) = Suc (nat (b - a))" by simp
  then show ?thesis by (metis replicate_append_same replicate_Suc)
qed

text \<open>Adding one night: extend the last run or open a new one.\<close>

definition addNight :: "drun list \<Rightarrow> string \<Rightarrow> int \<Rightarrow> drun list" where
  "addNight rs u e =
     (case rev rs of
        [] \<Rightarrow> [(u, e, e + 1)]
      | (v, a, b) # rest \<Rightarrow> if v = u then rev rest @ [(v, a, e + 1)] else rs @ [(u, e, e + 1)])"

lemma addNight_simps [simp]:
  "addNight [] u e = [(u, e, e + 1)]"
  "addNight (rs @ [(v, a, b)]) u e =
     (if v = u then rs @ [(v, a, e + 1)] else rs @ [(v, a, b), (u, e, e + 1)])"
  by (simp_all add: addNight_def)

lemma successively_snoc:
  "successively P (xs @ [x]) \<longleftrightarrow> successively P xs \<and> (xs \<noteq> [] \<longrightarrow> P (last xs) x)"
  by (auto simp: successively_append_iff)

lemma addNight_correct:
  assumes "chained s rs e"
  shows "chained s (addNight rs u e) (e + 1)" and "dunits (addNight rs u e) = dunits rs @ [u]"
    and "merged rs \<Longrightarrow> merged (addNight rs u e)"
proof -
  consider "rs = []" | rs' v a b where "rs = rs' @ [(v, a, b)]"
    by (metis prod_cases3 rev_exhaust)
  then have "chained s (addNight rs u e) (e + 1) \<and> dunits (addNight rs u e) = dunits rs @ [u]
    \<and> (merged rs \<longrightarrow> merged (addNight rs u e))"
  proof cases
    case 2
    with assms have "b = e" "a < e" by auto
    with 2 assms show ?thesis
      by (auto simp: replicate_Suc_nat merged_def successively_snoc successively_append_iff)
  qed (use assms in \<open>auto simp: merged_def\<close>)
  then show "chained s (addNight rs u e) (e + 1)" "dunits (addNight rs u e) = dunits rs @ [u]"
    "merged rs \<Longrightarrow> merged (addNight rs u e)" by auto
qed

lemma nextServiceDate_print: "plainYear e \<Longrightarrow> nextServiceDate (toISODate e) = Inr (toISODate (e + 1))"
  by (simp add: nextServiceDate_def date_simps)

lemma last_map_conv: "rs \<noteq> [] \<Longrightarrow> chained s rs e \<Longrightarrow> iv_departureDate (last (map conv rs)) = toISODate e"
proof -
  assume "rs \<noteq> []" and c: "chained s rs e"
  then obtain rs' v a b where "rs = rs' @ [(v, a, b)]" by (metis prod_cases3 rev_exhaust)
  with c show ?thesis by auto
qed

text \<open>The two loops that build runs compute \<open>addNight\<close>.\<close>

lemma run_update:
  assumes "chained s rs e"
  shows "(if map conv rs \<noteq> [] \<and> iv_inventoryUnitId (last (map conv rs)) = u
            \<and> iv_departureDate (last (map conv rs)) = toISODate e
          then butlast (map conv rs) @ [(last (map conv rs))\<lparr>iv_departureDate := toISODate (e + 1)\<rparr>]
          else map conv rs @ [\<lparr>iv_inventoryUnitId = u, iv_arrivalDate = toISODate e,
                               iv_departureDate = toISODate (e + 1)\<rparr>])
         = map conv (addNight rs u e)"
proof -
  consider "rs = []" | rs' v a b where "rs = rs' @ [(v, a, b)]"
    by (metis prod_cases3 rev_exhaust)
  then show ?thesis
    using assms by cases auto
qed

lemma timelineRunsStep_addNight:
  assumes "chained s rs e" and "plainYear e"
  shows "timelineRunsStep (map conv rs) \<lparr>ti_serviceDate = toISODate e, ti_inventoryUnitId = u\<rparr>
         = Inr (map conv (addNight rs u e))"
  using run_update [OF assms(1), of u] assms(2)
  by (auto simp: timelineRunsStep_def nextServiceDate_print split: if_splits)

lemma timelineRuns_fold:
  assumes "chained s rs e" and "merged rs" and "\<And>i. e \<le> i \<Longrightarrow> i < e + int (length us) \<Longrightarrow> plainYear i"
  shows "\<exists>rs'. foldR timelineRunsStep (map conv rs) (mkTimeline e us) = Inr (map conv rs')
     \<and> chained s rs' (e + int (length us)) \<and> dunits rs' = dunits rs @ us \<and> merged rs'"
  using assms
proof (induction us arbitrary: rs e)
  case (Cons u us)
  from Cons.prems have "plainYear e" by simp
  note step = timelineRunsStep_addNight [OF Cons.prems(1) this]
  from Cons.IH [OF addNight_correct(1) [OF Cons.prems(1)] addNight_correct(3) [OF Cons.prems(1,2)]]
  show ?case using Cons.prems(1,3) step addNight_correct(2) [OF Cons.prems(1)]
    by (auto simp: algebra_simps)
qed auto

section \<open>Expanding runs\<close>

lemma mkTimeline_replicate:
  "mkTimeline s (replicate n u) =
     map (\<lambda>d. \<lparr>ti_serviceDate = d, ti_inventoryUnitId = u\<rparr>) (map toISODate [s..s + int n - 1])"
proof (induction n arbitrary: s)
  case (Suc n)
  then show ?case by (simp add: upto.simps [of s] algebra_simps)
qed simp

lemma expandInterval_conv:
  assumes "plainYear a" "plainYear b" "a < b" "b - a \<le> 366"
  shows "expandInterval (conv (u, a, b)) = Inr (mkTimeline a (replicate (nat (b - a)) u))"
proof -
  have "enumerateServiceDates (toISODate a) (toISODate b) = Inr (map toISODate [a..b - 1])"
    using assms by (auto simp: enumerateServiceDates_Inr_iff date_simps)
  moreover have "map (\<lambda>d. \<lparr>ti_serviceDate = d, ti_inventoryUnitId = u\<rparr>) (map toISODate [a..b - 1])
    = mkTimeline a (replicate (nat (b - a)) u)"
    using assms(3) by (simp only: mkTimeline_replicate) simp
  ultimately show ?thesis by (simp add: expandInterval_def)
qed

lemma expand_runs:
  assumes "chained s rs e" and "plainYear s" and "plainYear e" and "e - s \<le> 366"
  shows "bindR (mapR expandInterval (map conv rs)) (\<lambda>xss. Inr (concat xss)) = Inr (mkTimeline s (dunits rs))"
  using assms
proof (induction rs arbitrary: s)
  case (Cons r rs)
  obtain u a b where r: "r = (u, a, b)" by (cases r)
  with Cons.prems have c: "a = s" "s < b" "chained b rs e" by auto
  from chained_le [OF c(3)] Cons.prems(4) c(2) have b: "plainYear b" "b - s \<le> 366" "e - b \<le> 366"
    using plainYear_between [OF Cons.prems(2,3), of b] by simp_all
  from Cons.IH [OF c(3) b(1) Cons.prems(3) b(3)]
  obtain xss where "mapR expandInterval (map conv rs) = Inr xss" "concat xss = mkTimeline b (dunits rs)"
    by auto
  then show ?case
    using expandInterval_conv [of s b u] c b(1,2) Cons.prems(2) by (simp add: r mkTimeline_append)
qed simp

section \<open>Normalising an arrangement\<close>

text \<open>What the loop of \<^verbatim>\<open>arrangement\<close> accepts: day runs that join without gap or overlap.\<close>

lemma lifecycleDate_Inr: "lifecycleDate v = Inr w \<longleftrightarrow> w = v \<and> localDate v"
  by (auto simp: lifecycleDate_def localDate_iff split: sum.splits)

definition addRun :: "drun list \<Rightarrow> drun \<Rightarrow> drun list" where
  "addRun rs r =
     (case rev rs of
        [] \<Rightarrow> [r]
      | (v, a, b) # rest \<Rightarrow> if v = fst r then rev rest @ [(v, a, snd (snd r))] else rs @ [r])"

lemma addRun_simps [simp]:
  "addRun [] r = [r]"
  "addRun (rs @ [(v, a, b)]) r = (if v = fst r then rs @ [(v, a, snd (snd r))] else rs @ [(v, a, b), r])"
  by (simp_all add: addRun_def)

lemma replicate_join:
  "a < b \<Longrightarrow> b < c \<Longrightarrow> replicate (nat (c - a)) u = replicate (nat (b - a)) u @ replicate (nat (c - b)) u"
proof -
  assume "a < b" "b < c"
  then have "nat (c - a) = nat (b - a) + nat (c - b)" by simp
  then show ?thesis by (simp add: replicate_add)
qed

lemma addRun_correct:
  assumes "chained s rs e" and "e < f"
  shows "chained s (addRun rs (u, e, f)) f" and "dunits (addRun rs (u, e, f)) = dunits rs @ replicate (nat (f - e)) u"
    and "merged rs \<Longrightarrow> merged (addRun rs (u, e, f))"
proof -
  consider "rs = []" | rs' v a b where "rs = rs' @ [(v, a, b)]"
    by (metis prod_cases3 rev_exhaust)
  then have "chained s (addRun rs (u, e, f)) f
    \<and> dunits (addRun rs (u, e, f)) = dunits rs @ replicate (nat (f - e)) u
    \<and> (merged rs \<longrightarrow> merged (addRun rs (u, e, f)))"
  proof cases
    case 2
    with assms have "b = e" "a < e" by auto
    with 2 assms show ?thesis
      using replicate_join [of a e f v]
      by (auto simp: merged_def successively_snoc successively_append_iff)
  qed (use assms in \<open>auto simp: merged_def\<close>)
  then show "chained s (addRun rs (u, e, f)) f"
    "dunits (addRun rs (u, e, f)) = dunits rs @ replicate (nat (f - e)) u"
    "merged rs \<Longrightarrow> merged (addRun rs (u, e, f))" by auto
qed

lemma arrangementStep_addRun:
  assumes c: "chained s rs e" and p: "plainYear e" and st: "arrangementStep (map conv rs) iv = Inr ivs"
    and first: "rs = [] \<Longrightarrow> iv_arrivalDate iv = toISODate e"
  shows "\<exists>u f. iv = conv (u, e, f) \<and> u \<noteq> [] \<and> e < f \<and> plainYear f \<and> ivs = map conv (addRun rs (u, e, f))"
proof -
  from st obtain f where f: "plainYear f" "iv_departureDate iv = toISODate f"
    and a: "localDate (iv_arrivalDate iv)" "\<not> iv_departureDate iv \<le> iv_arrivalDate iv"
    and u: "iv_inventoryUnitId iv \<noteq> []"
    and join: "rs \<noteq> [] \<Longrightarrow> iv_arrivalDate iv = iv_departureDate (last (map conv rs))"
    by (auto simp: arrangementStep_def lifecycleDate_Inr localDate_def split: if_splits)
  have arr: "iv_arrivalDate iv = toISODate e"
    using first join last_map_conv [OF _ c] by (cases "rs = []") auto
  with a(2) f p have ef: "e < f" by (simp add: toISODate_less_iff not_le)
  have iv: "iv = conv (iv_inventoryUnitId iv, e, f)" using arr f(2) by (cases iv) simp
  have ld: "localDate (toISODate e)" "localDate (toISODate f)" using p f(1) by (auto simp: localDate_def)
  consider "rs = []" | rs' v x y where "rs = rs' @ [(v, x, y)]"
    by (metis prod_cases3 rev_exhaust)
  then have "ivs = map conv (addRun rs (iv_inventoryUnitId iv, e, f))"
    using st arr f(2) u a(2) c ld
    by cases (auto simp: arrangementStep_def lifecycleDate_Inr split: if_splits)
  with iv u ef f(1) show ?thesis by metis
qed

lemma arrangement_fold:
  assumes "foldR arrangementStep (map conv rs) ivs = Inr out" and "chained s rs e" and "merged rs"
    and "plainYear e" and "rs = [] \<Longrightarrow> ivs \<noteq> [] \<Longrightarrow> iv_arrivalDate (hd ivs) = toISODate e"
  shows "\<exists>ds rs' f. ivs = map conv ds \<and> chained e ds f \<and> [] \<notin> fst ` set ds \<and> plainYear f \<and>
     out = map conv rs' \<and> chained s rs' f \<and> merged rs' \<and> dunits rs' = dunits rs @ dunits ds"
  using assms
proof (induction ivs arbitrary: rs e)
  case Nil
  then have "out = map conv rs" by simp
  with Nil show ?case by (intro exI [of _ "[]"] exI [of _ rs] exI [of _ e]) simp
next
  case (Cons iv ivs)
  then obtain mid where mid: "arrangementStep (map conv rs) iv = Inr mid"
    "foldR arrangementStep mid ivs = Inr out" by auto
  from arrangementStep_addRun [OF Cons.prems(2,4) mid(1)] Cons.prems(5)
  obtain u f where f: "iv = conv (u, e, f)" "u \<noteq> []" "e < f" "plainYear f"
    "mid = map conv (addRun rs (u, e, f))" by auto
  have ne: "addRun rs (u, e, f) \<noteq> []" by (auto simp: addRun_def split: list.splits prod.splits)
  note add = addRun_correct [OF Cons.prems(2) f(3), of u]
  have fold: "foldR arrangementStep (map conv (addRun rs (u, e, f))) ivs = Inr out" using mid(2) f(5) by simp
  obtain ds rs' g where "ivs = map conv ds" "chained f ds g" "[] \<notin> fst ` set ds" "plainYear g"
    "out = map conv rs'" "chained s rs' g" "merged rs'"
    "dunits rs' = dunits (addRun rs (u, e, f)) @ dunits ds"
    using Cons.IH [OF fold add(1) add(3) [OF Cons.prems(3)] f(4)] ne by blast
  with f addRun_correct(2) [OF Cons.prems(2) f(3)] show ?case
    by (intro exI [of _ "(u, e, f) # ds"] exI [of _ rs'] exI [of _ g]) auto
qed

lemma arrangement_runs:
  assumes "arrangement ivs = Inr ar"
  shows "\<exists>s e ds rs. ivs = map conv ds \<and> chained s ds e \<and> [] \<notin> fst ` set ds \<and> plainYear s \<and> plainYear e \<and> s < e \<and>
     ar_intervals ar = map conv rs \<and> chained s rs e \<and> merged rs \<and> dunits rs = dunits ds \<and>
     ar_arrivalDate ar = toISODate s \<and> ar_departureDate ar = toISODate e"
proof -
  from assms have ne: "ivs \<noteq> []" and fold: "foldR arrangementStep [] ivs = Inr (ar_intervals ar)"
    and ends: "ar_arrivalDate ar = iv_arrivalDate (hd (ar_intervals ar))"
      "ar_departureDate ar = iv_departureDate (last (ar_intervals ar))"
    by (auto simp: arrangement_def split: if_splits)
  from ne fold have "localDate (iv_arrivalDate (hd ivs))"
    by (cases ivs) (auto simp: arrangementStep_def lifecycleDate_Inr)
  then obtain s where s: "plainYear s" "iv_arrivalDate (hd ivs) = toISODate s" by (auto simp: localDate_def)
  from arrangement_fold [of "[]" ivs "ar_intervals ar" s s] fold s
  obtain ds rs f where r: "ivs = map conv ds" "chained s ds f" "[] \<notin> fst ` set ds" "plainYear f"
    "ar_intervals ar = map conv rs" "chained s rs f" "merged rs" "dunits rs = dunits ds"
    by (auto simp: merged_def)
  from r(1) ne have "ds \<noteq> []" by auto
  then have "s < f" using r(2) chained_le by (cases ds) (auto, force)
  with r(6) have rs: "rs \<noteq> []" by auto
  then have "ar_arrivalDate ar = toISODate s" using ends(1) r(5,6) by (cases rs) auto
  moreover have "ar_departureDate ar = toISODate f" using ends(2) r(5) last_map_conv [OF rs r(6)] by simp
  ultimately show ?thesis using r s \<open>s < f\<close> by blast
qed

text \<open>Conversely, joined day runs with units are accepted.\<close>

lemma arrangementStep_accepts:
  assumes "chained s rs e" "plainYear e" "plainYear f" "e < f" "u \<noteq> []"
  shows "arrangementStep (map conv rs) (conv (u, e, f)) = Inr (map conv (addRun rs (u, e, f)))"
proof -
  have ld: "localDate (toISODate e)" "localDate (toISODate f)" using assms by (auto simp: localDate_def)
  have lt: "\<not> toISODate f \<le> toISODate e" using assms by (simp add: not_le toISODate_less_iff)
  consider "rs = []" | rs' v x y where "rs = rs' @ [(v, x, y)]"
    by (metis prod_cases3 rev_exhaust)
  then show ?thesis
    using assms ld lt lifecycleDate_Inr [of "toISODate e"] lifecycleDate_Inr [of "toISODate f"]
    by cases (auto simp: arrangementStep_def)
qed

lemma arrangement_accepts_fold:
  assumes "chained s rs e" "chained e ds f" "plainYear e" "plainYear f" "[] \<notin> fst ` set ds" "merged rs"
  shows "\<exists>rs'. foldR arrangementStep (map conv rs) (map conv ds) = Inr (map conv rs') \<and>
     chained s rs' f \<and> merged rs' \<and> dunits rs' = dunits rs @ dunits ds"
  using assms
proof (induction ds arbitrary: rs e)
  case (Cons d ds)
  obtain u a b where d: "d = (u, a, b)" by (cases d)
  with Cons.prems have c: "a = e" "e < b" "chained b ds f" "u \<noteq> []" by auto
  have b: "plainYear b"
    using plainYear_between [OF Cons.prems(3,4), of b] c(2) chained_le [OF c(3)] by simp
  note add = addRun_correct [OF Cons.prems(1) c(2), of u]
  have "arrangementStep (map conv rs) (conv d) = Inr (map conv (addRun rs (u, e, b)))"
    using arrangementStep_accepts [OF Cons.prems(1,3) b c(2,4)] by (simp add: d c(1))
  with Cons.IH [OF add(1) c(3) b Cons.prems(4) _ add(3) [OF Cons.prems(6)]] Cons.prems(5) add(2)
  show ?case by (auto simp: d c(1))
qed auto

lemma arrangement_accepts:
  assumes "chained s ds e" "plainYear s" "plainYear e" "[] \<notin> fst ` set ds" "ds \<noteq> []"
  shows "\<exists>rs. arrangement (map conv ds) = Inr \<lparr>ar_arrivalDate = toISODate s, ar_departureDate = toISODate e,
             ar_intervals = map conv rs\<rparr> \<and> chained s rs e \<and> merged rs \<and> dunits rs = dunits ds"
proof -
  from arrangement_accepts_fold [of s "[]" s ds e] assms
  obtain rs where r: "foldR arrangementStep [] (map conv ds) = Inr (map conv rs)"
    "chained s rs e" "merged rs" "dunits rs = dunits ds" by (auto simp: merged_def)
  then obtain ar where ar: "arrangement (map conv ds) = Inr ar" "ar_intervals ar = map conv rs"
    using assms(5) by (auto simp: arrangement_def)
  have "s < e" using assms(1,5) chained_le by (cases ds) (auto, force)
  with r(2) have ne: "rs \<noteq> []" by auto
  then have "iv_arrivalDate (hd (map conv rs)) = toISODate s" using r(2) by (cases rs) auto
  with r ne assms(5) last_map_conv [OF ne r(2)] show ?thesis by (auto simp: arrangement_def)
qed

section \<open>Expansion of an accepted arrangement\<close>

lemma expand_success:
  assumes "chained s rs e" "plainYear s" "plainYear e" "mapR expandInterval (map conv rs) = Inr xss"
  shows "concat xss = mkTimeline s (dunits rs)"
  using assms
proof (induction rs arbitrary: s xss)
  case (Cons r rs)
  obtain u a b where r: "r = (u, a, b)" by (cases r)
  with Cons.prems have c: "a = s" "s < b" "chained b rs e" by auto
  have b: "plainYear b"
    using plainYear_between [OF Cons.prems(2,3), of b] c(2) chained_le [OF c(3)] by simp
  from Cons.prems(4) obtain xs yss where x: "expandInterval (conv (u, s, b)) = Inr xs"
    "mapR expandInterval (map conv rs) = Inr yss" "xss = xs # yss" by (auto simp: r c(1))
  from x(1) have "b - s \<le> 366"
    using Cons.prems(2) b by (auto simp: expandInterval_def enumerateServiceDates_Inr_iff date_simps)
  with expandInterval_conv [of s b u] Cons.prems(2) b c(2) x(1)
  have "xs = mkTimeline s (replicate (nat (b - s)) u)" by simp
  then show ?case using Cons.IH [OF c(3) b Cons.prems(3) x(2)] c(2) by (simp add: r x(3) c(1) mkTimeline_append)
qed simp

lemma arrangementTimeline_runs:
  assumes "ar_intervals ar = map conv rs" "chained s rs e" "plainYear s" "plainYear e"
    and "arrangementTimeline ar = Inr tml"
  shows "tml = mkTimeline s (dunits rs)"
  using assms(5) expand_success [OF assms(2-4)] by (auto simp: arrangementTimeline_def assms(1))

section \<open>From nights to intervals\<close>

lemma arrangementFromTimeline_step:
  assumes "chained s rs e" and "plainYear e" and "plainYear (e - 1)" and "pr = None \<or> (\<exists>v. pr = Some \<lparr>ti_serviceDate = toISODate (e - 1), ti_inventoryUnitId = v\<rparr>)"
  shows "arrangementFromTimelineStep (map conv rs, pr) \<lparr>ti_serviceDate = toISODate e, ti_inventoryUnitId = u\<rparr>
         = Inr (map conv (addNight rs u e), Some \<lparr>ti_serviceDate = toISODate e, ti_inventoryUnitId = u\<rparr>)"
proof -
  have "lifecycleDate (toISODate e) = Inr (toISODate e)" using assms(2) lifecycleDate_Inr by (auto simp: localDate_def)
  moreover have "nextServiceDate (toISODate (e - 1)) = Inr (toISODate e)"
    using nextServiceDate_print [OF assms(3)] by simp
  ultimately show ?thesis
    using run_update [OF assms(1), of u] assms(2,4)
    by (auto simp: arrangementFromTimelineStep_def nextServiceDate_print split: if_splits)
qed

lemma arrangementFromTimeline_first:
  assumes "plainYear e"
  shows "arrangementFromTimelineStep ([], None) \<lparr>ti_serviceDate = toISODate e, ti_inventoryUnitId = u\<rparr>
         = Inr (map conv [(u, e, e + 1)], Some \<lparr>ti_serviceDate = toISODate e, ti_inventoryUnitId = u\<rparr>)"
proof -
  have "lifecycleDate (toISODate e) = Inr (toISODate e)" using assms lifecycleDate_Inr by (auto simp: localDate_def)
  then show ?thesis using assms by (simp add: arrangementFromTimelineStep_def nextServiceDate_print)
qed

lemma arrangementFromTimeline_fold:
  assumes "chained s rs e" "merged rs" "plainYear (e - 1)"
    and "\<And>i. e \<le> i \<Longrightarrow> i < e + int (length us) \<Longrightarrow> plainYear i"
    and "rs \<noteq> []"
  shows "\<exists>rs' pr. foldR arrangementFromTimelineStep
       (map conv rs, Some \<lparr>ti_serviceDate = toISODate (e - 1), ti_inventoryUnitId = v\<rparr>) (mkTimeline e us)
      = Inr (map conv rs', pr) \<and> chained s rs' (e + int (length us)) \<and> dunits rs' = dunits rs @ us \<and> merged rs'"
  using assms
proof (induction us arbitrary: rs e v)
  case (Cons u us)
  from Cons.prems(4) have p: "plainYear e" by simp
  note add = addNight_correct [OF Cons.prems(1), of u]
  have ne: "addNight rs u e \<noteq> []" using add(2) by (metis append_is_Nil_conv dunits_simps(1) not_Cons_self2)
  have step: "arrangementFromTimelineStep (map conv rs, Some \<lparr>ti_serviceDate = toISODate (e - 1), ti_inventoryUnitId = v\<rparr>)
      \<lparr>ti_serviceDate = toISODate e, ti_inventoryUnitId = u\<rparr>
    = Inr (map conv (addNight rs u e), Some \<lparr>ti_serviceDate = toISODate (e + 1 - 1), ti_inventoryUnitId = u\<rparr>)"
    using arrangementFromTimeline_step [OF Cons.prems(1) p Cons.prems(3)] by simp
  have "\<And>i. e + 1 \<le> i \<Longrightarrow> i < e + 1 + int (length us) \<Longrightarrow> plainYear i" using Cons.prems(4) by simp
  from Cons.IH [OF add(1) add(3) [OF Cons.prems(2)] _ this ne, of u] p
  obtain rs' pr where "foldR arrangementFromTimelineStep (map conv (addNight rs u e),
      Some \<lparr>ti_serviceDate = toISODate (e + 1 - 1), ti_inventoryUnitId = u\<rparr>) (mkTimeline (e + 1) us) = Inr (map conv rs', pr)"
    "chained s rs' (e + 1 + int (length us))" "dunits rs' = dunits (addNight rs u e) @ us" "merged rs'"
    by auto
  then show ?case using step add(2)
    by (intro exI [of _ rs'] exI [of _ pr]) (simp add: algebra_simps)
qed auto

lemma plainYear_nights:
  assumes "parseLocalDate a = Inr s" "parseLocalDate d = Inr (s + int n)" "s \<le> i" "i \<le> s + int n"
  shows "plainYear i"
  using assms plainYear_between [of s "s + int n" i] by (auto simp: parseLocalDate_Inr_iff)

text \<open>The loop of \<^verbatim>\<open>arrangementFromTimeline\<close> computes the same merged runs as \<^verbatim>\<open>timelineRuns\<close>.\<close>

lemma arrangementFromTimeline_intervals:
  assumes "plainYear s" and "us \<noteq> []" and "\<And>i. s \<le> i \<Longrightarrow> i < s + int (length us) \<Longrightarrow> plainYear i"
  shows "\<exists>rs pr. foldR arrangementFromTimelineStep ([], None) (mkTimeline s us) = Inr (map conv rs, pr) \<and>
     chained s rs (s + int (length us)) \<and> dunits rs = us \<and> merged rs"
proof -
  obtain u us' where us: "us = u # us'" using assms(2) by (cases us) auto
  have "\<exists>rs pr. foldR arrangementFromTimelineStep
       (map conv [(u, s, s + 1)], Some \<lparr>ti_serviceDate = toISODate (s + 1 - 1), ti_inventoryUnitId = u\<rparr>) (mkTimeline (s + 1) us')
      = Inr (map conv rs, pr) \<and> chained s rs (s + 1 + int (length us')) \<and> dunits rs = dunits [(u, s, s + 1)] @ us' \<and> merged rs"
    by (rule arrangementFromTimeline_fold) (use assms in \<open>auto simp: us merged_def\<close>)
  then show ?thesis
    using arrangementFromTimeline_first [OF assms(1), of u] by (auto simp: us algebra_simps)
qed

text \<open>Merged runs are determined by their nights.\<close>

lemma merged_Cons [simp]: "merged (r # rs) \<longleftrightarrow> (rs = [] \<or> fst r \<noteq> fst (hd rs)) \<and> merged rs"
  by (cases rs) (auto simp: merged_def)

lemma run_prefix:
  assumes "replicate (Suc m) u @ xs = replicate (Suc n) v @ ys"
    and "xs = [] \<or> hd xs \<noteq> u" and "ys = [] \<or> hd ys \<noteq> v"
  shows "m = n \<and> u = v \<and> xs = ys"
proof -
  from assms(1) have uv: "u = v" by simp
  have "takeWhile ((=) u) (replicate (Suc m) u @ xs) = replicate (Suc m) u"
    if "xs = [] \<or> hd xs \<noteq> u" for m :: nat and xs
    using that by (induction m) (cases xs; auto)+
  from this [of xs m] this [of ys n] assms uv have "replicate (Suc m) u = replicate (Suc n) u" by metis
  then have "m = n" by (metis Suc_inject length_replicate)
  with assms(1) uv show ?thesis by simp
qed

lemma dunits_nonempty: "chained s rs e \<Longrightarrow> rs \<noteq> [] \<Longrightarrow> dunits rs \<noteq> [] \<and> hd (dunits rs) = fst (hd rs)"
  by (cases rs) (auto simp: hd_append)

lemma merged_unique:
  assumes "chained s rs e" "chained s rs' e'" "merged rs" "merged rs'" "dunits rs = dunits rs'"
  shows "rs = rs'"
  using assms
proof (induction rs arbitrary: s rs')
  case Nil
  then show ?case using dunits_nonempty [of s rs' e'] by auto
next
  case (Cons r rs)
  obtain u a b where r: "r = (u, a, b)" by (cases r)
  with Cons.prems dunits_nonempty [of s "r # rs" e] obtain r' rs1 where rs': "rs' = r' # rs1"
    by (cases rs') auto
  obtain v c d where r': "r' = (v, c, d)" by (cases r')
  have b: "a = s" "s < b" "chained b rs e" "c = s" "s < d" "chained d rs1 e'"
    using Cons.prems(1,2) by (auto simp: r rs' r')
  obtain m n where mn: "nat (b - s) = Suc m" "nat (d - s) = Suc n"
    using b by (metis diff_gt_0_iff_gt gr0_implies_Suc zero_less_nat_eq)
  have "m = n \<and> u = v \<and> dunits rs = dunits rs1"
  proof (rule run_prefix)
    show "replicate (Suc m) u @ dunits rs = replicate (Suc n) v @ dunits rs1"
      using Cons.prems(5) mn by (auto simp: r rs' r' b)
    show "dunits rs = [] \<or> hd (dunits rs) \<noteq> u"
      using Cons.prems(3) dunits_nonempty [OF b(3)] by (cases "rs = []") (auto simp: r)
    show "dunits rs1 = [] \<or> hd (dunits rs1) \<noteq> v"
      using Cons.prems(4) dunits_nonempty [OF b(6)] by (cases "rs1 = []") (auto simp: rs' r')
  qed
  moreover from this have "b = d" using mn b by simp
  ultimately show ?case using Cons.IH [of b rs1] Cons.prems(3,4) b by (simp add: r rs' r')
qed

section \<open>Planning a date change\<close>

lemma mkTimeline_lookup:
  assumes "s \<le> t" "t < s + int (length us)" and "\<And>i. s \<le> i \<Longrightarrow> i < s + int (length us) \<Longrightarrow> plainYear i"
  shows "map_of (map (\<lambda>item. (ti_serviceDate item, ti_inventoryUnitId item)) (mkTimeline s us)) (toISODate t)
         = Some (us ! nat (t - s))"
  using assms
proof (induction us arbitrary: s)
  case (Cons u us)
  show ?case
  proof (cases "t = s")
    case False
    with Cons.prems have "toISODate t \<noteq> toISODate s" by (simp add: toISODate_eq_iff)
    moreover have "nat (t - s) = Suc (nat (t - (s + 1)))" using False Cons.prems(1) by simp
    ultimately show ?thesis using Cons.IH [of "s + 1"] Cons.prems False by simp
  qed simp
qed simp

lemma mkTimeline_keys:
  assumes "\<And>i. s \<le> i \<Longrightarrow> i < s + int (length us) \<Longrightarrow> plainYear i"
  shows "distinct (map ti_serviceDate (mkTimeline s us))"
  unfolding map_date_mkTimeline distinct_map
  using assms by (auto simp: inj_on_def toISODate_eq_iff)

lemma shift_mkTimeline:
  assumes "\<And>i. s \<le> i \<Longrightarrow> i < s + int (length us) \<Longrightarrow> plainYear i"
  shows "mapR (\<lambda>item. bindR (shiftServiceDate (ti_serviceDate item) k)
            (\<lambda>d. Inr \<lparr>ti_serviceDate = d, ti_inventoryUnitId = ti_inventoryUnitId item\<rparr>)) (mkTimeline s us)
         = Inr (mkTimeline (s + k) us)"
  using assms
proof (induction us arbitrary: s)
  case (Cons u us)
  have "plainYear s" using Cons.prems by simp
  then show ?case using Cons.IH [of "s + 1"] Cons.prems
    by (simp add: shiftServiceDate_def date_simps algebra_simps)
qed simp

text \<open>The unit a plan puts into the night of day t.\<close>

definition plannedUnit :: "int \<Rightarrow> string list \<Rightarrow> int \<Rightarrow> string" where
  "plannedUnit s us t =
     (if t < s then hd us else if t \<ge> s + int (length us) then last us else us ! nat (t - s))"

lemma plannedUnit_in: "us \<noteq> [] \<Longrightarrow> plannedUnit s us t \<in> set us"
  by (auto simp: plannedUnit_def)

lemma mkTimeline_map_upto:
  "map (\<lambda>d. \<lparr>ti_serviceDate = d, ti_inventoryUnitId = g d\<rparr>) (map toISODate [a..a + int n - 1])
   = mkTimeline a (map (g \<circ> toISODate) [a..a + int n - 1])"
proof (induction n arbitrary: a)
  case (Suc n)
  from Suc [of "a + 1"] show ?case by (simp add: upto.simps [of a] algebra_simps)
qed simp

text \<open>
  What planning computes, in day numbers: the shifted nights when the length is unchanged,
  otherwise the new nights with the planned units.
\<close>

lemma plan_days:
  assumes old: "parseLocalDate oa = Inr s" "parseLocalDate od = Inr (s + int (length us))"
      "us \<noteq> []" "length us \<le> 366" "[] \<notin> set us"
    and new: "parseLocalDate na = Inr a" "parseLocalDate nd = Inr (a + int n)" "0 < n" "n \<le> 366"
  shows "planStayDateChangeTimeline (mkTimeline s us) oa od na nd
     = Inr (mkTimeline a (if n = length us then us else map (plannedUnit s us) [a..a + int n - 1]))"
proof -
  have py: "plainYear i" if "s \<le> i" "i < s + int (length us)" for i
    using plainYear_nights [OF old(1,2)] that by simp
  have pa: "plainYear i" if "a \<le> i" "i \<le> a + int n" for i
    using plainYear_nights [OF new(1,2)] that by simp
  have ends: "oa = toISODate s" "od = toISODate (s + int (length us))" "plainYear s" "plainYear (s + int (length us))"
    using old(1,2) by (auto simp: parseLocalDate_Inr_iff)
  have c: "assertCompleteTimeline (mkTimeline s us) oa od = Inr ()"
    unfolding assertCompleteTimeline_iff completeTimeline_days using old by blast
  have e: "enumerateServiceDates na nd = Inr (map toISODate [a..a + int n - 1])"
    unfolding enumerateServiceDates_Inr_iff using new by auto
  have d: "dayDelta oa na = Inr (a - s)" "dayDelta od nd = Inr (a + int n - (s + int (length us)))"
    using old new by (simp_all add: dayDelta_def)
  show ?thesis
  proof (cases "n = length us")
    case True
    then have "assertCompleteTimeline (mkTimeline a us) na nd = Inr ()"
      unfolding assertCompleteTimeline_iff completeTimeline_days using old new by blast
    then show ?thesis using shift_mkTimeline [of s us "a - s", OF py] c e d True
      by (simp add: planStayDateChangeTimeline_def)
  next
    case False
    let ?m = "jmap_of (map (\<lambda>item. (ti_serviceDate item, ti_inventoryUnitId item)) (mkTimeline s us))"
    let ?g = "\<lambda>d. if d < oa then ti_inventoryUnitId (hd (mkTimeline s us)) else if d \<ge> od then ti_inventoryUnitId (last (mkTimeline s us))
       else case jmap_get ?m d of Some u \<Rightarrow> u | None \<Rightarrow> []"
    have hl: "ti_inventoryUnitId (hd (mkTimeline s us)) = hd us" "ti_inventoryUnitId (last (mkTimeline s us)) = last us"
      using hd_map [of "mkTimeline s us" ti_inventoryUnitId] last_map [of "mkTimeline s us" ti_inventoryUnitId] old(3)
      by simp_all
    have get: "jmap_get ?m (toISODate t) = Some (us ! nat (t - s))" if "s \<le> t" "t < s + int (length us)" for t
      using mkTimeline_lookup [OF that py] mkTimeline_keys [OF py]
      by (subst jmap_get_distinct) (simp_all add: comp_def)
    have "(?g \<circ> toISODate) t = plannedUnit s us t" if "t \<in> set [a..a + int n - 1]" for t
    proof -
      have "plainYear t" using that pa by simp
      then have lt: "toISODate t < oa \<longleftrightarrow> t < s" "od \<le> toISODate t \<longleftrightarrow> s + int (length us) \<le> t"
        using ends by (auto simp: toISODate_less_iff not_less [symmetric])
      then show ?thesis using get [of t] by (auto simp: plannedUnit_def hl)
    qed
    then have "map (?g \<circ> toISODate) [a..a + int n - 1] = map (plannedUnit s us) [a..a + int n - 1]"
      by (rule map_cong [OF HOL.refl])
    with mkTimeline_map_upto [of ?g a n]
    have "map (\<lambda>d. \<lparr>ti_serviceDate = d, ti_inventoryUnitId = ?g d\<rparr>) (map toISODate [a..a + int n - 1])
      = mkTimeline a (map (plannedUnit s us) [a..a + int n - 1])" by (rule trans [OF _ arg_cong])
    then show ?thesis using c e d False
      by (simp add: planStayDateChangeTimeline_def Let_def del: map_map)
  qed
qed

section \<open>Overlaying a change\<close>

fun dcut :: "int \<Rightarrow> drun \<Rightarrow> drun list" where
  "dcut r (u, a, b) = (if b \<le> r then [(u, a, b)] else if a < r then [(u, a, r)] else [])"

lemma overlayPrefix_conv:
  "plainYear a \<Longrightarrow> plainYear b \<Longrightarrow> plainYear r \<Longrightarrow>
   overlayPrefix (toISODate r) (conv (u, a, b)) = map conv (dcut r (u, a, b))"
  by (auto simp: overlayPrefix_def toISODate_less_iff not_less [symmetric])

lemma dcut_after: "chained s rs e \<Longrightarrow> r \<le> s \<Longrightarrow> concat (map (dcut r) rs) = []"
proof (induction rs arbitrary: s)
  case (Cons x rs)
  obtain u a b where x: "x = (u, a, b)" by (cases x)
  with Cons.prems show ?case using Cons.IH [of b] by (simp del: concat_eq_Nil_conv)
qed simp

lemma dcut_chain:
  assumes "chained s rs e" "s \<le> r" "r \<le> e"
  shows "chained s (concat (map (dcut r) rs)) r \<and> dunits (concat (map (dcut r) rs)) = take (nat (r - s)) (dunits rs)"
  using assms
proof (induction rs arbitrary: s)
  case (Cons x rs)
  obtain u a b where x: "x = (u, a, b)" by (cases x)
  with Cons.prems have c: "a = s" "s < b" "chained b rs e" by auto
  show ?case
  proof (cases "b \<le> r")
    case True
    moreover have "nat (r - s) - nat (b - s) = nat (r - b)" using True c by simp
    ultimately show ?thesis using Cons.IH [OF c(3)] Cons.prems c by (auto simp: x min_def)
  next
    case False
    moreover from this have "concat (map (dcut r) rs) = []" using dcut_after [OF c(3), of r] by simp
    ultimately show ?thesis using Cons.prems c by (auto simp: x min_def simp del: concat_eq_Nil_conv)
  qed
qed simp

lemma dcut_units: "fst ` set (concat (map (dcut r) rs)) \<subseteq> fst ` set rs"
proof (induction rs)
  case (Cons x rs)
  then show ?case by (cases x) auto
qed simp

lemma overlayPrefix_runs:
  assumes "chained s rs e" "plainYear s" "plainYear e" "plainYear r"
  shows "concat (map (overlayPrefix (toISODate r)) (map conv rs)) = map conv (concat (map (dcut r) rs))"
  using assms
proof (induction rs arbitrary: s)
  case (Cons x rs)
  obtain u a b where x: "x = (u, a, b)" by (cases x)
  with Cons.prems have c: "a = s" "s < b" "chained b rs e" by auto
  then have "plainYear b" using plainYear_between [OF Cons.prems(2,3), of b] chained_le [OF c(3)] by simp
  then show ?case
    using Cons.IH [OF c(3)] overlayPrefix_conv [of s b r u] Cons.prems c by (simp add: x del: conv.simps dcut.simps)
qed simp

lemma successively_conv:
  assumes "chained s rs e" "merged rs"
  shows "successively (\<lambda>i j. iv_departureDate i = iv_arrivalDate j \<and> iv_inventoryUnitId i \<noteq> iv_inventoryUnitId j) (map conv rs)"
  using assms
proof (induction rs arbitrary: s)
  case (Cons x rs)
  obtain u a b where x: "x = (u, a, b)" by (cases x)
  with Cons show ?case by (cases rs) (auto simp: successively_Cons)
qed simp

lemma units_conv: "map conv ds = map conv ds' \<Longrightarrow> fst ` set ds = fst ` set ds'"
proof -
  have "fst ` set ds = iv_inventoryUnitId ` set (map conv ds)" for ds
    by (induction ds) (auto simp: image_iff)
  then show "map conv ds = map conv ds' \<Longrightarrow> fst ` set ds = fst ` set ds'" by metis
qed

lemma filter_mkTimeline:
  assumes "\<And>i. s \<le> i \<Longrightarrow> i < s + int (length us) \<Longrightarrow> plainYear i" "plainYear r" "s \<le> r"
  shows "filter (\<lambda>n. ti_serviceDate n < toISODate r) (mkTimeline s us) = mkTimeline s (take (nat (r - s)) us)"
  using assms
proof (induction us arbitrary: s)
  case (Cons u us)
  show ?case
  proof (cases "s < r")
    case True
    then have "nat (r - s) = Suc (nat (r - (s + 1)))" by simp
    then show ?thesis using Cons.IH [of "s + 1"] Cons.prems True by (simp add: toISODate_less_iff)
  next
    case False
    have "\<not> ti_serviceDate n < toISODate r" if "n \<in> set (mkTimeline s (u # us))" for n
    proof -
      from that have "ti_serviceDate n \<in> set (map ti_serviceDate (mkTimeline s (u # us)))" by (metis imageI set_map)
      then obtain t where t: "s \<le> t" "t < s + int (length (u # us))" "ti_serviceDate n = toISODate t"
        unfolding map_date_mkTimeline by auto
      then show ?thesis using Cons.prems False by (simp add: toISODate_less_iff)
    qed
    then show ?thesis using False Cons.prems(3) by (simp add: filter_False)
  qed
qed simp

section \<open>Properties\<close>

text \<open>
  C32: Planning a date change of a complete stay never fails for valid new dates, and gives a
  complete timeline of them. With an unchanged length the sequence of units moves along with the
  stay: the n-th night keeps the unit of the old n-th night, so that a date in both stays may change its unit.
  Otherwise every date in both stays keeps exactly its old unit, the dates before take the first unit and the
  dates after the last.
\<close>

theorem planStayDateChangeTimeline_correct:
  assumes "completeTimeline current oldArr oldDep" and "enumerateServiceDates newArr newDep = Inr newDates"
  shows "\<exists>plan. planStayDateChangeTimeline current oldArr oldDep newArr newDep = Inr plan \<and>
     completeTimeline plan newArr newDep \<and>
     (if length newDates = length current
      then map ti_inventoryUnitId plan = map ti_inventoryUnitId current
      else \<forall>item \<in> set plan.
         (ti_serviceDate item < oldArr \<longrightarrow> ti_inventoryUnitId item = ti_inventoryUnitId (hd current)) \<and>
         (oldDep \<le> ti_serviceDate item \<longrightarrow> ti_inventoryUnitId item = ti_inventoryUnitId (last current)) \<and>
         (oldArr \<le> ti_serviceDate item \<and> ti_serviceDate item < oldDep \<longrightarrow> item \<in> set current))"
proof -
  from assms(1) obtain s us where old: "parseLocalDate oldArr = Inr s" "parseLocalDate oldDep = Inr (s + int (length us))"
    "us \<noteq> []" "length us \<le> 366" "[] \<notin> set us" and cur: "current = mkTimeline s us"
    unfolding completeTimeline_days by blast
  from assms(2) obtain a d where nd: "parseLocalDate newArr = Inr a" "parseLocalDate newDep = Inr d" "a < d" "d - a \<le> 366"
    "newDates = map toISODate [a..d - 1]" unfolding enumerateServiceDates_Inr_iff by blast
  define n where "n = nat (d - a)"
  have n: "d = a + int n" "0 < n" "n \<le> 366" using nd by (auto simp: n_def)
  define vs where "vs = (if n = length us then us else map (plannedUnit s us) [a..a + int n - 1])"
  have plan: "planStayDateChangeTimeline current oldArr oldDep newArr newDep = Inr (mkTimeline a vs)"
    using plan_days [OF old nd(1) _ n(2,3)] nd(2) n(1) by (simp add: cur vs_def)
  have lvs: "length vs = n" by (simp add: vs_def)
  have "[] \<notin> set vs" using old(5) plannedUnit_in [OF old(3), of s] by (auto simp: vs_def) metis
  then have comp: "completeTimeline (mkTimeline a vs) newArr newDep"
    unfolding completeTimeline_days using nd(1,2) n lvs by (intro exI [of _ a] exI [of _ vs]) auto
  have night: "(ti_serviceDate item < oldArr \<longrightarrow> ti_inventoryUnitId item = hd us) \<and>
      (oldDep \<le> ti_serviceDate item \<longrightarrow> ti_inventoryUnitId item = last us) \<and>
      (oldArr \<le> ti_serviceDate item \<and> ti_serviceDate item < oldDep \<longrightarrow> item \<in> set current)"
    if ne: "n \<noteq> length us" and "item \<in> set (mkTimeline a vs)" for item
  proof -
    from that obtain t where t: "a \<le> t" "t < d" "item = \<lparr>ti_serviceDate = toISODate t, ti_inventoryUnitId = plannedUnit s us t\<rparr>"
      by (auto simp: mkTimeline_zip vs_def n set_zip) (metis le_add_same_cancel1 of_nat_0_le_iff add_less_cancel_left of_nat_less_iff)
    have "plainYear t" using nd(1,2) t plainYear_between [of a d t] by (auto simp: parseLocalDate_Inr_iff)
    then have cmp: "toISODate t < oldArr \<longleftrightarrow> t < s" "oldDep \<le> toISODate t \<longleftrightarrow> s + int (length us) \<le> t"
      using old(1,2) by (auto simp: parseLocalDate_Inr_iff toISODate_less_iff not_less [symmetric])
    have "item \<in> set current" if "s \<le> t" "t < s + int (length us)"
    proof -
      have "mkTimeline s us ! nat (t - s) = item"
        using that by (simp add: mkTimeline_zip t(3) plannedUnit_def)
      moreover have "nat (t - s) < length (mkTimeline s us)" using that by simp
      ultimately show ?thesis using nth_mem cur by metis
    qed
    then show ?thesis using cmp by (auto simp: t(3) plannedUnit_def not_less not_le)
  qed
  have "ti_inventoryUnitId (hd current) = hd us" "ti_inventoryUnitId (last current) = last us"
    using hd_map [of current ti_inventoryUnitId] last_map [of current ti_inventoryUnitId] old(3) by (simp_all add: cur)
  moreover have "length newDates = length current \<longleftrightarrow> n = length us" by (simp add: nd(5) n cur)
  ultimately show ?thesis
    using plan comp night by (auto simp: cur vs_def)
qed

lemma two_night_timeline:
  "completeTimeline [\<lparr>ti_serviceDate = ''2026-07-01'', ti_inventoryUnitId = ''A''\<rparr>,
     \<lparr>ti_serviceDate = ''2026-07-02'', ti_inventoryUnitId = ''B''\<rparr>] ''2026-07-01'' ''2026-07-03''"
  by (subst assertCompleteTimeline_iff [symmetric]) code_simp

lemma three_new_nights:
  "enumerateServiceDates ''2026-07-02'' ''2026-07-05'' = Inr [''2026-07-02'', ''2026-07-03'', ''2026-07-04'']"
  by code_simp

theorem planStayDateChangeTimeline_witness:
  "\<exists>plan. planStayDateChangeTimeline [\<lparr>ti_serviceDate = ''2026-07-01'', ti_inventoryUnitId = ''A''\<rparr>,
     \<lparr>ti_serviceDate = ''2026-07-02'', ti_inventoryUnitId = ''B''\<rparr>] ''2026-07-01'' ''2026-07-03'' ''2026-07-02'' ''2026-07-05''
     = Inr plan \<and> completeTimeline plan ''2026-07-02'' ''2026-07-05''"
  using planStayDateChangeTimeline_correct [OF two_night_timeline three_new_nights] by blast

lemma pairKey_inj:
  assumes "localDate (ti_serviceDate i)" "localDate (ti_serviceDate j)"
  shows "pairKey i = pairKey j \<longleftrightarrow> (i :: stay_timeline_item) = j"
proof -
  have "length (ti_serviceDate i) = length (ti_serviceDate j)"
    using assms by (auto simp: localDate_def toISODate_plain)
  then show ?thesis by (cases i; cases j) (auto simp: pairKey_def)
qed

lemma pairKey_mem:
  assumes "\<forall>j \<in> set xs. localDate (ti_serviceDate j)" "localDate (ti_serviceDate i)"
  shows "pairKey i \<in> set (map pairKey xs) \<longleftrightarrow> (i :: stay_timeline_item) \<in> set xs"
  using assms pairKey_inj by (auto simp: image_iff)

text \<open>
  The difference of two timelines with valid dates splits the old nights, in order, into
  the preserved ones (nights of the same date in the same unit) and the released ones, and
  releasing and adding what the difference says turns the old nights into the new ones.
\<close>

theorem timelinePairDiff_partition:
  assumes "\<forall>item \<in> set before \<union> set after. localDate (ti_serviceDate item)"
  shows "preserved (timelinePairDiff before after) = filter (\<lambda>item. item \<in> set after) before \<and>
     released (timelinePairDiff before after) = filter (\<lambda>item. item \<notin> set after) before \<and>
     set before - set (released (timelinePairDiff before after)) \<union> set (added (timelinePairDiff before after)) = set after \<and>
     set (added (timelinePairDiff before after)) \<inter> set before = {}"
proof -
  have "pairKey i \<in> set (map pairKey after) \<longleftrightarrow> i \<in> set after" if "i \<in> set before" for i
    using pairKey_mem [of after i] assms that by simp
  moreover have "pairKey i \<in> set (map pairKey before) \<longleftrightarrow> i \<in> set before" if "i \<in> set after" for i
    using pairKey_mem [of before i] assms that by simp
  ultimately show ?thesis
    by (auto simp: timelinePairDiff_def Let_def simp del: set_map cong: filter_cong)
qed

lemma two_valid_dates: "localDate ''2026-07-01''" "localDate ''2026-07-02''"
proof -
  have "parseLocalDate ''2026-07-01'' = Inr 20635" "parseLocalDate ''2026-07-02'' = Inr 20636" by code_simp+
  then show "localDate ''2026-07-01''" "localDate ''2026-07-02''" by (auto simp: localDate_iff)
qed

theorem timelinePairDiff_witness:
  "released (timelinePairDiff
     [\<lparr>ti_serviceDate = ''2026-07-01'', ti_inventoryUnitId = ''A''\<rparr>, \<lparr>ti_serviceDate = ''2026-07-02'', ti_inventoryUnitId = ''A''\<rparr>]
     [\<lparr>ti_serviceDate = ''2026-07-01'', ti_inventoryUnitId = ''A''\<rparr>, \<lparr>ti_serviceDate = ''2026-07-02'', ti_inventoryUnitId = ''B''\<rparr>])
   = [\<lparr>ti_serviceDate = ''2026-07-02'', ti_inventoryUnitId = ''A''\<rparr>]"
  by (subst timelinePairDiff_partition [THEN conjunct2, THEN conjunct1]) (simp_all add: two_valid_dates)

text \<open>
  C33: Nights and intervals carry the same information: the intervals computed from a complete
  timeline are an accepted arrangement of its dates, their neighbours differ in the unit, they
  are the runs \<^verbatim>\<open>timelineRuns\<close> computes, and expanding them gives the timeline back.
\<close>

theorem arrangementFromTimeline_roundtrip:
  assumes "completeTimeline tml arrivalDate departureDate"
  shows "\<exists>ar. arrangementFromTimeline tml = Inr ar \<and> arrangementTimeline ar = Inr tml \<and>
     timelineRuns tml = Inr (ar_intervals ar) \<and>
     ar_arrivalDate ar = arrivalDate \<and> ar_departureDate ar = departureDate \<and>
     successively (\<lambda>i j. iv_departureDate i = iv_arrivalDate j \<and> iv_inventoryUnitId i \<noteq> iv_inventoryUnitId j) (ar_intervals ar)"
proof -
  from assms obtain s us where d: "parseLocalDate arrivalDate = Inr s" "parseLocalDate departureDate = Inr (s + int (length us))"
    "us \<noteq> []" "length us \<le> 366" "[] \<notin> set us" and tml: "tml = mkTimeline s us"
    unfolding completeTimeline_days by blast
  let ?e = "s + int (length us)"
  have ends: "plainYear s" "plainYear ?e" "arrivalDate = toISODate s" "departureDate = toISODate ?e"
    using d(1,2) by (auto simp: parseLocalDate_Inr_iff)
  have py: "plainYear i" if "s \<le> i" "i < ?e" for i using plainYear_nights [OF d(1,2)] that by simp
  obtain rs pr where rs: "foldR arrangementFromTimelineStep ([], None) tml = Inr (map conv rs, pr)"
    "chained s rs ?e" "dunits rs = us" "merged rs"
    using arrangementFromTimeline_intervals [OF ends(1) d(3) py] by (auto simp: tml)
  have "[] \<notin> fst ` set rs"
  proof
    assume "[] \<in> fst ` set rs"
    then obtain a b where "([], a, b) \<in> set rs" by auto
    moreover from this have "a < b" using chained_bounds [OF rs(2)] by blast
    ultimately have "[] \<in> set (dunits rs)" by (force simp: dunits_def)
    with d(5) rs(3) show False by simp
  qed
  moreover have "rs \<noteq> []" using rs(3) d(3) by auto
  ultimately obtain rs' where ar: "arrangement (map conv rs) = Inr \<lparr>ar_arrivalDate = arrivalDate, ar_departureDate = departureDate,
      ar_intervals = map conv rs'\<rparr>" "chained s rs' ?e" "merged rs'" "dunits rs' = dunits rs"
    using arrangement_accepts [OF rs(2) ends(1,2)] ends(3,4) by auto
  have same: "rs' = rs" using merged_unique [OF ar(2) rs(2) ar(3) rs(4) ar(4)] .
  obtain rs2 where run: "timelineRuns tml = Inr (map conv rs2)" "chained s rs2 ?e" "dunits rs2 = us" "merged rs2"
    using timelineRuns_fold [of s "[]" s us] py by (auto simp: timelineRuns_def tml merged_def)
  have "rs2 = rs" using merged_unique [OF run(2) rs(2) run(4) rs(4)] run(3) rs(3) by simp
  moreover have "successively (\<lambda>i j. iv_departureDate i = iv_arrivalDate j \<and> iv_inventoryUnitId i \<noteq> iv_inventoryUnitId j) (map conv rs)"
    using rs(2,4) by (rule successively_conv)
  moreover have "arrangementTimeline \<lparr>ar_arrivalDate = arrivalDate, ar_departureDate = departureDate, ar_intervals = map conv rs\<rparr> = Inr tml"
    using expand_runs [OF rs(2) ends(1,2)] d(4) rs(3) by (simp add: arrangementTimeline_def tml)
  ultimately show ?thesis using rs(1) ar(1) run(1) d(3) same by (auto simp: arrangementFromTimeline_def tml)
qed

theorem arrangementFromTimeline_witness:
  "\<exists>ar. arrangementFromTimeline [\<lparr>ti_serviceDate = ''2026-07-01'', ti_inventoryUnitId = ''A''\<rparr>,
     \<lparr>ti_serviceDate = ''2026-07-02'', ti_inventoryUnitId = ''B''\<rparr>] = Inr ar \<and> ar_departureDate ar = ''2026-07-03''"
  using arrangementFromTimeline_roundtrip [OF two_night_timeline] by blast

text \<open>
  C34: Overlaying a change on an accepted arrangement is the overlay of the nights: the nights
  before the change stay as they were, all later nights are those of the replacement, and the
  result is again a normalised arrangement that ends with the replacement.
\<close>

theorem overlayArrangement_nights:
  assumes "arrangement intervals = Inr before" and "overlayArrangement before replacement changeType = Inr after"
    and "arrangementTimeline before = Inr nightsBefore" and "arrangementTimeline after = Inr nightsAfter"
    and "expandInterval replacement = Inr nightsReplaced"
  shows "nightsAfter = filter (\<lambda>n. ti_serviceDate n < iv_arrivalDate replacement) nightsBefore @ nightsReplaced \<and>
     ar_arrivalDate after = ar_arrivalDate before \<and> ar_departureDate after = iv_departureDate replacement"
proof -
  from arrangement_runs [OF assms(1)] obtain s e rs where b: "plainYear s" "plainYear e" "s < e"
    "ar_intervals before = map conv rs" "chained s rs e"
    "ar_arrivalDate before = toISODate s" "ar_departureDate before = toISODate e" by blast
  define cut where "cut = (\<lambda>r. concat (map (dcut r) rs))"
  from assms(2) have r0: "localDate (iv_arrivalDate replacement)" "localDate (iv_departureDate replacement)"
    "\<not> iv_departureDate replacement \<le> iv_arrivalDate replacement"
    "\<not> iv_arrivalDate replacement < ar_arrivalDate before" "\<not> ar_departureDate before \<le> iv_arrivalDate replacement"
    and over: "arrangement (concat (map (overlayPrefix (iv_arrivalDate replacement)) (ar_intervals before)) @
      [\<lparr>iv_inventoryUnitId = iv_inventoryUnitId replacement, iv_arrivalDate = iv_arrivalDate replacement,
        iv_departureDate = iv_departureDate replacement\<rparr>]) = Inr after"
    by (auto simp: overlayArrangement_def lifecycleDate_Inr split: if_splits)
  then obtain r d where rd: "plainYear r" "plainYear d" "iv_arrivalDate replacement = toISODate r"
    "iv_departureDate replacement = toISODate d" by (auto simp: localDate_def)
  with r0 b have o: "r < d" "s \<le> r" "r < e" by (auto simp: toISODate_less_iff not_less [symmetric])
  have c: "chained s (cut r) r" "dunits (cut r) = take (nat (r - s)) (dunits rs)"
    using dcut_chain [OF b(5)] o unfolding cut_def by auto
  have pre: "concat (map (overlayPrefix (toISODate r)) (map conv rs)) = map conv (cut r)"
    unfolding cut_def using overlayPrefix_runs [OF b(5,1,2) rd(1)] .
  define u where "u = iv_inventoryUnitId replacement"
  have all: "arrangement (map conv (cut r @ [(u, r, d)])) = Inr after"
    using over pre rd by (simp add: b(4) u_def)
  have "[] \<notin> fst ` set (cut r @ [(u, r, d)])"
    using arrangement_runs [OF all] by (metis units_conv)
  then obtain rs' where a: "after = \<lparr>ar_arrivalDate = toISODate s, ar_departureDate = toISODate d, ar_intervals = map conv rs'\<rparr>"
    "chained s rs' d" "dunits rs' = dunits (cut r) @ replicate (nat (d - r)) u"
    using arrangement_accepts [of s "cut r @ [(u, r, d)]" d] all c(1) o b(1) rd(2) by (auto simp del: map_append)
  have nb: "nightsBefore = mkTimeline s (dunits rs)" using arrangementTimeline_runs [OF b(4,5,1,2) assms(3)] .
  have "nightsAfter = mkTimeline s (dunits rs')"
    using arrangementTimeline_runs [OF _ a(2) b(1) rd(2) assms(4)] a(1) by simp
  moreover have "length (dunits (cut r)) = nat (r - s)" using chained_length [OF c(1)] by simp
  moreover have "replacement = conv (u, r, d)" using rd by (cases replacement) (simp add: u_def)
  then have "nightsReplaced = mkTimeline r (replicate (nat (d - r)) u)"
    using expand_success [of r "[(u, r, d)]" d "[nightsReplaced]"] assms(5) rd o by simp
  ultimately have na: "nightsAfter = mkTimeline s (take (nat (r - s)) (dunits rs)) @ nightsReplaced"
    using a(3) c(2) o by (simp add: mkTimeline_append)
  have "filter (\<lambda>n. ti_serviceDate n < toISODate r) nightsBefore = mkTimeline s (take (nat (r - s)) (dunits rs))"
    unfolding nb by (rule filter_mkTimeline) (use chained_length [OF b(5)] b plainYear_between [OF b(1,2)] rd o in auto)
  then show ?thesis using na rd a(1) b by simp
qed

lemma overlay_example:
  "arrangement [\<lparr>iv_inventoryUnitId = ''A'', iv_arrivalDate = ''2026-07-01'', iv_departureDate = ''2026-07-03''\<rparr>]
   = Inr \<lparr>ar_arrivalDate = ''2026-07-01'', ar_departureDate = ''2026-07-03'',
          ar_intervals = [\<lparr>iv_inventoryUnitId = ''A'', iv_arrivalDate = ''2026-07-01'', iv_departureDate = ''2026-07-03''\<rparr>]\<rparr>"
  "overlayArrangement \<lparr>ar_arrivalDate = ''2026-07-01'', ar_departureDate = ''2026-07-03'',
          ar_intervals = [\<lparr>iv_inventoryUnitId = ''A'', iv_arrivalDate = ''2026-07-01'', iv_departureDate = ''2026-07-03''\<rparr>]\<rparr>
     \<lparr>iv_inventoryUnitId = ''B'', iv_arrivalDate = ''2026-07-02'', iv_departureDate = ''2026-07-03''\<rparr> MOVE
   = Inr \<lparr>ar_arrivalDate = ''2026-07-01'', ar_departureDate = ''2026-07-03'',
          ar_intervals = [\<lparr>iv_inventoryUnitId = ''A'', iv_arrivalDate = ''2026-07-01'', iv_departureDate = ''2026-07-02''\<rparr>,
                          \<lparr>iv_inventoryUnitId = ''B'', iv_arrivalDate = ''2026-07-02'', iv_departureDate = ''2026-07-03''\<rparr>]\<rparr>"
  "arrangementTimeline \<lparr>ar_arrivalDate = ''2026-07-01'', ar_departureDate = ''2026-07-03'',
          ar_intervals = [\<lparr>iv_inventoryUnitId = ''A'', iv_arrivalDate = ''2026-07-01'', iv_departureDate = ''2026-07-03''\<rparr>]\<rparr>
   = Inr [\<lparr>ti_serviceDate = ''2026-07-01'', ti_inventoryUnitId = ''A''\<rparr>, \<lparr>ti_serviceDate = ''2026-07-02'', ti_inventoryUnitId = ''A''\<rparr>]"
  "arrangementTimeline \<lparr>ar_arrivalDate = ''2026-07-01'', ar_departureDate = ''2026-07-03'',
          ar_intervals = [\<lparr>iv_inventoryUnitId = ''A'', iv_arrivalDate = ''2026-07-01'', iv_departureDate = ''2026-07-02''\<rparr>,
                          \<lparr>iv_inventoryUnitId = ''B'', iv_arrivalDate = ''2026-07-02'', iv_departureDate = ''2026-07-03''\<rparr>]\<rparr>
   = Inr [\<lparr>ti_serviceDate = ''2026-07-01'', ti_inventoryUnitId = ''A''\<rparr>, \<lparr>ti_serviceDate = ''2026-07-02'', ti_inventoryUnitId = ''B''\<rparr>]"
  "expandInterval \<lparr>iv_inventoryUnitId = ''B'', iv_arrivalDate = ''2026-07-02'', iv_departureDate = ''2026-07-03''\<rparr>
   = Inr [\<lparr>ti_serviceDate = ''2026-07-02'', ti_inventoryUnitId = ''B''\<rparr>]"
  by code_simp+

theorem overlayArrangement_witness:
  "[\<lparr>ti_serviceDate = ''2026-07-01'', ti_inventoryUnitId = ''A''\<rparr>, \<lparr>ti_serviceDate = ''2026-07-02'', ti_inventoryUnitId = ''B''\<rparr>]
   = filter (\<lambda>n. ti_serviceDate n < ''2026-07-02'')
       [\<lparr>ti_serviceDate = ''2026-07-01'', ti_inventoryUnitId = ''A''\<rparr>, \<lparr>ti_serviceDate = ''2026-07-02'', ti_inventoryUnitId = ''A''\<rparr>]
     @ [\<lparr>ti_serviceDate = ''2026-07-02'', ti_inventoryUnitId = ''B''\<rparr>]"
  using overlayArrangement_nights [OF overlay_example] by simp

end
