(* ===== verification/Pricing.thy ===== *)
theory Pricing
  imports Timeline
begin

text \<open>
  Pricing of a stay: \<^verbatim>\<open>packages/domain/src/pricing.ts\<close>. Amounts are integral doubles in minor
  units; every addition and multiplication the source makes on plain numbers is rounded
  (\<open>dbl\<close>), the \<^verbatim>\<open>bigint\<close> computations are exact. Descriptions of cash lines and texts of errors
  are not modelled.

  Shown: half-up rounding is rounding to the nearest with ties upwards; the band amount of a
  stay is the exact sum of the anchor shares of its nights, rounded once; the night-by-night
  calculation agrees with the closed formula for a single product; coverage and cash lines
  split the nights of a stay; accepted amounts are non-negative safe integers.
\<close>

section \<open>Data\<close>

datatype stay_type = TRANSIENT | WEEKLY | MONTHLY | CUSTOM | FIXED_TERM | ROLLING | FREE

datatype inventory_unit_kind = ROOM | BED

datatype entitlement_unit_kind = ROOM_NIGHT | BED_NIGHT

datatype calculation_kind = FLAT_NIGHTLY | DURATION_BAND_TOTAL | FREE_KIND

datatype rounding_rule = FINAL_TOTAL_WHOLE_YUAN_HALF_UP

datatype coverage_status = HELD | CONSUMED

record money_dto =
  mo_currency :: string
  mo_minorUnits :: int

text \<open>The four anchors by number of nights; a missing one reads as undefined.\<close>

record duration_band_anchors =
  anchor1 :: js_number
  anchor7 :: js_number
  anchor14 :: js_number
  anchor30 :: js_number

definition anchorAt :: "duration_band_anchors \<Rightarrow> int \<Rightarrow> js_number" where
  "anchorAt anchors n =
     (if n = 1 then anchor1 anchors else if n = 7 then anchor7 anchors
      else if n = 14 then anchor14 anchors else if n = 30 then anchor30 anchors else NonInt)"

record pricing_policy =
  pp_id :: string
  pp_stayType :: "stay_type option"
  pp_calculationKind :: calculation_kind
  pp_nightlyRateMinor :: "js_number option"
  pp_productAnchorRatesMinor :: "(string \<times> duration_band_anchors) list option"
  pp_effectiveFrom :: "string option"
  pp_effectiveUntil :: "string option"
  pp_roundingRule :: "rounding_rule option"
  pp_currency :: string

record exact_duration_band_amount =
  ex_nights :: int
  ex_anchorNights :: int
  ex_anchorAmountMinor :: int
  ex_numeratorMinor :: int
  ex_denominator :: int

record coverage_candidate =
  cc_serviceDate :: string
  cc_entitlementLotId :: string
  cc_status :: "coverage_status option"
  cc_inventoryUnitId :: "string option"
  cc_unitKind :: "entitlement_unit_kind option"

record pricing_input =
  pi_inventoryUnitId :: string
  pi_inventoryUnitKind :: inventory_unit_kind
  pi_inventoryProductCode :: "string option"
  pi_arrivalDate :: string
  pi_departureDate :: string
  pi_stayType :: stay_type
  pi_policy :: pricing_policy
  pi_memberCoverage :: bool
  pi_coverageCandidates :: "coverage_candidate list"
  pi_manualAdjustmentMinor :: "js_number option"

record pricing_timeline_item =
  pt_serviceDate :: string
  pt_inventoryUnitId :: string
  pt_inventoryUnitKind :: inventory_unit_kind
  pt_inventoryProductCode :: "string option"

record duration_timeline_pricing_input =
  di_arrivalDate :: string
  di_departureDate :: string
  di_stayType :: stay_type
  di_policy :: pricing_policy
  di_memberCoverage :: bool
  di_timeline :: "pricing_timeline_item list"
  di_coverageCandidates :: "coverage_candidate list"
  di_manualAdjustmentMinor :: "js_number option"

record coverage_item_dto =
  ci_serviceDate :: string
  ci_inventoryUnitId :: string
  ci_unitKind :: entitlement_unit_kind
  ci_entitlementLotId :: string

record calculation_segment =
  sg_inventoryUnitId :: string
  sg_pricingProductCode :: string
  sg_arrivalDate :: string
  sg_departureDate :: string
  sg_nights :: int
  sg_anchorAmountMinor :: int
  sg_numeratorMinor :: int
  sg_denominator :: int

text \<open>A cash line is one night or the total of the stay.\<close>

datatype cash_line_dto =
    NightlyCashLine (cl_serviceDate: string) (cl_inventoryUnitId: string) (cl_amount: money_dto)
  | StayTotalCashLine (cl_arrivalDate: string) (cl_departureDate: string) (cl_inventoryUnitId: string)
      (cl_pricingBandAnchorNights: int) (cl_calculationSegments: "calculation_segment list") (cl_amount: money_dto)

record pricing_result =
  pr_coverageSet :: "coverage_item_dto list"
  pr_cashLines :: "cash_line_dto list"
  pr_cashRemainder :: money_dto
  pr_currentContractAmount :: money_dto

section \<open>Bands and rounding\<close>

definition entitlementKindFor :: "inventory_unit_kind \<Rightarrow> entitlement_unit_kind" where
  "entitlementKindFor k = (if k = ROOM then ROOM_NIGHT else BED_NIGHT)"

definition isTransientDuration :: "js_number \<Rightarrow> bool result" where
  "isTransientDuration nights =
     (if \<not> isSafeInteger nights \<or> intOf nights < 1 then validation_error else Inr (intOf nights < 7))"

definition paidStayTypeForNights :: "js_number \<Rightarrow> stay_type result" where
  "paidStayTypeForNights nights =
     bindR (isTransientDuration nights) (\<lambda>b. Inr (if b then TRANSIENT else CUSTOM))"

definition durationBandAnchorNights :: "js_number \<Rightarrow> int result" where
  "durationBandAnchorNights nights =
     (if \<not> isSafeInteger nights \<or> intOf nights < 1 then validation_error
      else if intOf nights < 7 then Inr 1
      else if intOf nights < 14 then Inr 7
      else if intOf nights < 30 then Inr 14
      else Inr 30)"

function gcdLoop :: "int \<Rightarrow> int \<Rightarrow> int" where
  "gcdLoop a b = (if b \<noteq> 0 then gcdLoop b (a mod b) else a)"
  by auto
termination by (relation "measure (\<lambda>(a, b). nat \<bar>b\<bar>)") (auto simp: abs_mod_less)

declare gcdLoop.simps [simp del]

text \<open>The operands of \<^verbatim>\<open>%\<close> are absolute values, where it is the mathematical remainder.\<close>

definition greatestCommonDivisor :: "int \<Rightarrow> int \<Rightarrow> int" where
  "greatestCommonDivisor left right = gcdLoop \<bar>left\<bar> \<bar>right\<bar>"

definition exactDurationBandAmount ::
  "js_number \<Rightarrow> duration_band_anchors \<Rightarrow> exact_duration_band_amount result" where
  "exactDurationBandAmount nights anchors =
     bindR (durationBandAnchorNights nights) (\<lambda>anchorNights.
       let anchorAmountMinor = anchorAt anchors anchorNights in
       if \<not> isSafeInteger anchorAmountMinor \<or> intOf anchorAmountMinor \<le> 0 then validation_error
       else
         let rawNumerator = dbl (intOf nights * intOf anchorAmountMinor) in
         if \<not> safe_int rawNumerator then validation_error
         else
           let divisor = greatestCommonDivisor rawNumerator anchorNights in
           Inr \<lparr>ex_nights = intOf nights, ex_anchorNights = anchorNights,
                ex_anchorAmountMinor = intOf anchorAmountMinor,
                ex_numeratorMinor = rawNumerator div divisor,
                ex_denominator = anchorNights div divisor\<rparr>)"

definition roundPositiveRationalHalfUp :: "int \<Rightarrow> int \<Rightarrow> int result" where
  "roundPositiveRationalHalfUp numerator denominator =
     (if numerator < 0 \<or> denominator \<le> 0 then validation_error
      else Inr ((numerator * 2 + denominator) div (denominator * 2)))"

definition roundExactAmountToWholeYuanMinor :: "exact_duration_band_amount \<Rightarrow> int result" where
  "roundExactAmountToWholeYuanMinor amount =
     bindR (roundPositiveRationalHalfUp (ex_numeratorMinor amount) (ex_denominator amount * 100)) (\<lambda>roundedYuan.
       let minorUnits = roundedYuan * 100 in
       if minorUnits > MAX_SAFE_INTEGER then validation_error else Inr (dbl minorUnits))"

definition calculateDurationBandTotalMinor ::
  "js_number \<Rightarrow> duration_band_anchors \<Rightarrow> (exact_duration_band_amount \<times> int) result" where
  "calculateDurationBandTotalMinor nights anchors =
     bindR (exactDurationBandAmount nights anchors) (\<lambda>exact.
     bindR (roundExactAmountToWholeYuanMinor exact) (\<lambda>rounded. Inr (exact, rounded)))"

definition manualRefundAmountFromRecordedFacts :: "js_number \<Rightarrow> js_number \<Rightarrow> int result" where
  "manualRefundAmountFromRecordedFacts current net =
     (if \<not> isSafeInteger current \<or> \<not> isSafeInteger net then validation_error
      else Inr (max 0 (dbl (intOf net - intOf current))))"

section \<open>Pricing a timeline\<close>

abbreviation unconfigured :: "'a result" where
  "unconfigured \<equiv> throw PRICING_POLICY_UNCONFIGURED 422"

definition positive_anchor :: "js_number \<Rightarrow> bool" where
  "positive_anchor a \<longleftrightarrow> isSafeInteger a \<and> intOf a > 0"

text \<open>A product product that is null or empty has no anchors.\<close>

definition anchorsOf :: "pricing_policy \<Rightarrow> string option \<Rightarrow> duration_band_anchors option" where
  "anchorsOf policy productCode =
     (case productCode of None \<Rightarrow> None
      | Some product \<Rightarrow> if product = [] then None
          else case pp_productAnchorRatesMinor policy of None \<Rightarrow> None | Some table \<Rightarrow> map_of table product)"

definition requireDurationAnchors :: "pricing_policy \<Rightarrow> string option \<Rightarrow> duration_band_anchors result" where
  "requireDurationAnchors policy productCode =
     (case anchorsOf policy productCode of
        None \<Rightarrow> unconfigured
      | Some anchors \<Rightarrow>
          if \<not> list_all (\<lambda>n. positive_anchor (anchorAt anchors n)) [1, 7, 14, 30] then unconfigured
          else if pp_roundingRule policy \<noteq> Some FINAL_TOTAL_WHOLE_YUAN_HALF_UP then unconfigured
          else Inr anchors)"

text \<open>Unlike its namesake it does not validate; an invalid date throws a RangeError when printed.\<close>

definition nextServiceDate_pricing :: "string \<Rightarrow> string result" where
  "nextServiceDate_pricing d = (case newDate d of None \<Rightarrow> uncaught | Some t \<Rightarrow> Inr (toISODate (t + 1)))"

definition validateManualAdjustment :: "pricing_policy \<Rightarrow> js_number option \<Rightarrow> int result" where
  "validateManualAdjustment policy value =
     (let manualAdjustment = (case value of None \<Rightarrow> IntNum 0 | Some v \<Rightarrow> v) in
      if \<not> isInteger manualAdjustment then validation_error
      else if pp_calculationKind policy = FREE_KIND \<and> intOf manualAdjustment \<noteq> 0 then validation_error
      else Inr (intOf manualAdjustment))"

definition applyManualAdjustment :: "int \<Rightarrow> int \<Rightarrow> bool \<Rightarrow> int result" where
  "applyManualAdjustment policyBaseMinor manualAdjustmentMinor requireWholeYuan =
     (let targetMinor = dbl (policyBaseMinor + manualAdjustmentMinor) in
      if \<not> safe_int targetMinor \<or> targetMinor < 0 then validation_error
      else if requireWholeYuan \<and> targetMinor mod 100 \<noteq> 0 then validation_error
      else Inr targetMinor)"

text \<open>The candidates by date, refused when a date is repeated or outside the stay.\<close>

definition coverageMap ::
  "coverage_candidate list \<Rightarrow> string list \<Rightarrow> (string \<times> coverage_candidate) list result" where
  "coverageMap cs dates =
     (let candidates = jmap_of (map (\<lambda>c. (cc_serviceDate c, c)) cs) in
      if length candidates \<noteq> length cs \<or> list_ex (\<lambda>d. d \<notin> set dates) (map fst candidates)
      then throw ENTITLEMENT_CONFLICT 409
      else Inr candidates)"

definition coverageItem ::
  "string \<Rightarrow> string \<Rightarrow> inventory_unit_kind \<Rightarrow> coverage_candidate \<Rightarrow> coverage_item_dto result" where
  "coverageItem serviceDate unitId kind candidate =
     (let unitKind = entitlementKindFor kind; consumed = cc_status candidate = Some CONSUMED in
      if consumed \<and> cc_unitKind candidate \<noteq> None \<and> cc_unitKind candidate \<noteq> Some unitKind
      then throw ENTITLEMENT_CONFLICT 409
      else Inr \<lparr>ci_serviceDate = serviceDate,
         ci_inventoryUnitId = (case cc_inventoryUnitId candidate of
             Some u \<Rightarrow> if consumed \<and> u \<noteq> [] then u else unitId | None \<Rightarrow> unitId),
         ci_unitKind = (case cc_unitKind candidate of Some k \<Rightarrow> if consumed then k else unitKind | None \<Rightarrow> unitKind),
         ci_entitlementLotId = cc_entitlementLotId candidate\<rparr>)"

fun coverageLoop ::
  "(string \<times> coverage_candidate) list \<Rightarrow> pricing_timeline_item list \<Rightarrow> coverage_item_dto list result" where
  "coverageLoop candidates [] = Inr []"
| "coverageLoop candidates (item # items) =
     (case jmap_get candidates (pt_serviceDate item) of
        None \<Rightarrow> coverageLoop candidates items
      | Some c \<Rightarrow>
          bindR (coverageItem (pt_serviceDate item) (pt_inventoryUnitId item) (pt_inventoryUnitKind item) c) (\<lambda>x.
          bindR (coverageLoop candidates items) (\<lambda>xs. Inr (x # xs))))"

definition memberCashLine :: "pricing_policy \<Rightarrow> pricing_timeline_item \<Rightarrow> cash_line_dto result" where
  "memberCashLine policy item =
     bindR (requireDurationAnchors policy (pt_inventoryProductCode item)) (\<lambda>anchors.
       let p1 = intOf (anchorAt anchors 1) in
       if p1 mod 100 \<noteq> 0 then unconfigured
       else Inr (NightlyCashLine (pt_serviceDate item) (pt_inventoryUnitId item)
                  \<lparr>mo_currency = pp_currency policy, mo_minorUnits = p1\<rparr>))"

definition segmentStep ::
  "pricing_policy \<Rightarrow> int \<Rightarrow> calculation_segment list \<Rightarrow> pricing_timeline_item \<Rightarrow> calculation_segment list result" where
  "segmentStep policy anchorNights segments item =
     (case pt_inventoryProductCode item of
        None \<Rightarrow> unconfigured
      | Some product \<Rightarrow>
        if product = [] then unconfigured
        else if segments \<noteq> [] \<and> sg_inventoryUnitId (last segments) = pt_inventoryUnitId item
          \<and> sg_pricingProductCode (last segments) = product
          \<and> sg_departureDate (last segments) = pt_serviceDate item
        then bindR (nextServiceDate_pricing (pt_serviceDate item)) (\<lambda>next.
          let current = last segments in
          Inr (butlast segments @ [current\<lparr>sg_departureDate := next, sg_nights := sg_nights current + 1,
             sg_numeratorMinor := dbl (sg_numeratorMinor current + sg_anchorAmountMinor current)\<rparr>]))
        else bindR (requireDurationAnchors policy (Some product)) (\<lambda>anchors.
          bindR (nextServiceDate_pricing (pt_serviceDate item)) (\<lambda>next.
          let amount = intOf (anchorAt anchors anchorNights) in
          Inr (segments @ [\<lparr>sg_inventoryUnitId = pt_inventoryUnitId item, sg_pricingProductCode = product,
             sg_arrivalDate = pt_serviceDate item, sg_departureDate = next, sg_nights = 1,
             sg_anchorAmountMinor = amount, sg_numeratorMinor = amount, sg_denominator = anchorNights\<rparr>]))))"

definition memberPricing ::
  "duration_timeline_pricing_input \<Rightarrow> (string \<times> coverage_candidate) list \<Rightarrow> coverage_item_dto list \<Rightarrow> int
     \<Rightarrow> pricing_result result" where
  "memberPricing input candidates coverageSet manualAdjustment =
     bindR (mapR (memberCashLine (di_policy input))
              (filter (\<lambda>item. jmap_get candidates (pt_serviceDate item) = None) (di_timeline input))) (\<lambda>cashLines.
     bindR (roundPositiveRationalHalfUp (dsum (map (mo_minorUnits \<circ> cl_amount) cashLines)) 100) (\<lambda>yuan.
     let cashSubtotal = dbl (yuan * 100); money = (\<lambda>n. \<lparr>mo_currency = pp_currency (di_policy input), mo_minorUnits = n\<rparr>) in
     bindR (applyManualAdjustment cashSubtotal manualAdjustment True) (\<lambda>contract.
       Inr \<lparr>pr_coverageSet = coverageSet, pr_cashLines = cashLines,
            pr_cashRemainder = money cashSubtotal, pr_currentContractAmount = money contract\<rparr>)))"

definition bandPricing ::
  "duration_timeline_pricing_input \<Rightarrow> string list \<Rightarrow> coverage_item_dto list \<Rightarrow> int \<Rightarrow> pricing_result result" where
  "bandPricing input dates coverageSet manualAdjustment =
     bindR (durationBandAnchorNights (IntNum (int (length dates)))) (\<lambda>anchorNights.
     bindR (foldR (segmentStep (di_policy input) anchorNights) [] (di_timeline input)) (\<lambda>segments.
     let numeratorMinor = dsum (map sg_numeratorMinor segments) in
     if \<not> safe_int numeratorMinor then validation_error
     else bindR (roundPositiveRationalHalfUp numeratorMinor (anchorNights * 100)) (\<lambda>yuan.
       if yuan * 100 > MAX_SAFE_INTEGER then validation_error
       else
         let roundedMinor = dbl (yuan * 100);
             money = (\<lambda>n. \<lparr>mo_currency = pp_currency (di_policy input), mo_minorUnits = n\<rparr>) in
         bindR (applyManualAdjustment roundedMinor manualAdjustment False) (\<lambda>contract.
           Inr \<lparr>pr_coverageSet = coverageSet,
                pr_cashLines = [StayTotalCashLine (di_arrivalDate input) (di_departureDate input)
                   (pt_inventoryUnitId (hd (di_timeline input))) anchorNights segments (money roundedMinor)],
                pr_cashRemainder = money roundedMinor, pr_currentContractAmount = money contract\<rparr>))))"

definition policyEffective :: "pricing_policy \<Rightarrow> string \<Rightarrow> bool" where
  "policyEffective policy arrival \<longleftrightarrow>
     (case pp_effectiveFrom policy of None \<Rightarrow> False | Some from \<Rightarrow> from \<noteq> [] \<and> \<not> arrival < from) \<and>
     (case pp_effectiveUntil policy of None \<Rightarrow> True | Some until \<Rightarrow> \<not> arrival \<ge> until)"

definition calculateDurationTimelinePricing :: "duration_timeline_pricing_input \<Rightarrow> pricing_result result" where
  "calculateDurationTimelinePricing input =
     (let policy = di_policy input in
      if di_stayType input = FREE \<or> pp_calculationKind policy \<noteq> DURATION_BAND_TOTAL \<or> pp_stayType policy \<noteq> None
      then unconfigured
      else if \<not> policyEffective policy (di_arrivalDate input) then unconfigured
      else if pp_roundingRule policy \<noteq> Some FINAL_TOTAL_WHOLE_YUAN_HALF_UP then unconfigured
      else
        bindR (validateManualAdjustment policy (di_manualAdjustmentMinor input)) (\<lambda>manualAdjustment.
        bindR (enumerateServiceDates (di_arrivalDate input) (di_departureDate input)) (\<lambda>dates.
        if map pt_serviceDate (di_timeline input) \<noteq> dates then internal_error
        else
          bindR (coverageMap (di_coverageCandidates input) dates) (\<lambda>candidates.
          bindR (coverageLoop candidates (di_timeline input)) (\<lambda>coverageSet.
          if di_memberCoverage input \<or> coverageSet \<noteq> []
          then memberPricing input candidates coverageSet manualAdjustment
          else bandPricing input dates coverageSet manualAdjustment)))))"

section \<open>Pricing a stay in one unit\<close>

definition approvedPolicyShape :: "pricing_input \<Rightarrow> bool" where
  "approvedPolicyShape input \<longleftrightarrow>
     (let policy = pi_policy input in
        pi_stayType input = TRANSIENT \<and> pp_calculationKind policy = FLAT_NIGHTLY \<and> pp_stayType policy = Some TRANSIENT
      \<or> pi_stayType input = FREE \<and> pp_calculationKind policy = FREE_KIND \<and> pp_stayType policy = Some FREE
      \<or> pi_stayType input \<noteq> FREE \<and> pp_calculationKind policy = DURATION_BAND_TOTAL \<and> pp_stayType policy = None)"

text \<open>The night loop: the covered nights and the cash lines of the others.\<close>

fun nightLoop ::
  "pricing_input \<Rightarrow> (string \<times> coverage_candidate) list \<Rightarrow> int \<Rightarrow> string list
     \<Rightarrow> (coverage_item_dto list \<times> cash_line_dto list) result" where
  "nightLoop input candidates amount [] = Inr ([], [])"
| "nightLoop input candidates amount (d # ds) =
     (case jmap_get candidates d of
        Some c \<Rightarrow> bindR (coverageItem d (pi_inventoryUnitId input) (pi_inventoryUnitKind input) c) (\<lambda>x.
                   bindR (nightLoop input candidates amount ds) (\<lambda>(cov, cash). Inr (x # cov, cash)))
      | None \<Rightarrow> bindR (nightLoop input candidates amount ds) (\<lambda>(cov, cash).
                   Inr (cov, NightlyCashLine d (pi_inventoryUnitId input)
                      \<lparr>mo_currency = pp_currency (pi_policy input), mo_minorUnits = amount\<rparr> # cash)))"

definition timelineInput :: "pricing_input \<Rightarrow> string list \<Rightarrow> duration_timeline_pricing_input" where
  "timelineInput input dates =
     \<lparr>di_arrivalDate = pi_arrivalDate input, di_departureDate = pi_departureDate input,
      di_stayType = pi_stayType input, di_policy = pi_policy input,
      di_memberCoverage = pi_memberCoverage input,
      di_timeline = map (\<lambda>d. \<lparr>pt_serviceDate = d, pt_inventoryUnitId = pi_inventoryUnitId input,
        pt_inventoryUnitKind = pi_inventoryUnitKind input,
        pt_inventoryProductCode = pi_inventoryProductCode input\<rparr>) dates,
      di_coverageCandidates = pi_coverageCandidates input,
      di_manualAdjustmentMinor = pi_manualAdjustmentMinor input\<rparr>"

definition nightlyPricing :: "pricing_input \<Rightarrow> pricing_result result" where
  "nightlyPricing input =
     (let policy = pi_policy input in
      bindR (enumerateServiceDates (pi_arrivalDate input) (pi_departureDate input)) (\<lambda>dates.
      if pp_calculationKind policy = FLAT_NIGHTLY \<and> take 7 (pi_arrivalDate input) \<noteq> take 7 (pi_departureDate input)
      then unconfigured
      else
        bindR (coverageMap (pi_coverageCandidates input) dates) (\<lambda>candidates.
        bindR (validateManualAdjustment policy (pi_manualAdjustmentMinor input)) (\<lambda>manualAdjustment.
        if pp_calculationKind policy = FREE_KIND \<and> (pi_memberCoverage input \<or> candidates \<noteq> [])
        then throw ENTITLEMENT_CONFLICT 409
        else case pp_nightlyRateMinor policy of
          None \<Rightarrow> validation_error
        | Some rate \<Rightarrow>
          if \<not> isInteger rate \<or> intOf rate < 0 then validation_error
          else if pp_calculationKind policy = FREE_KIND \<and> intOf rate \<noteq> 0 then validation_error
          else
            bindR (nightLoop input candidates
                     (if pp_calculationKind policy = FREE_KIND then 0 else intOf rate) dates) (\<lambda>(coverageSet, cashLines).
            let cashSubtotal = dsum (map (mo_minorUnits \<circ> cl_amount) cashLines);
                money = (\<lambda>n. \<lparr>mo_currency = pp_currency policy, mo_minorUnits = n\<rparr>) in
            bindR (applyManualAdjustment cashSubtotal manualAdjustment False) (\<lambda>contract.
              Inr \<lparr>pr_coverageSet = coverageSet, pr_cashLines = cashLines,
                   pr_cashRemainder = money cashSubtotal, pr_currentContractAmount = money contract\<rparr>))))))"

definition calculatePricing :: "pricing_input \<Rightarrow> pricing_result result" where
  "calculatePricing input =
     (if \<not> approvedPolicyShape input then unconfigured
      else if pp_calculationKind (pi_policy input) = DURATION_BAND_TOTAL
      then bindR (enumerateServiceDates (pi_arrivalDate input) (pi_departureDate input)) (\<lambda>dates.
             calculateDurationTimelinePricing (timelineInput input dates))
      else nightlyPricing input)"

record amount_summary =
  as_currentContractAmount :: money_dto
  as_netRecordedCollection :: money_dto
  as_collectionDifference :: money_dto
  as_refundReferenceAmount :: money_dto

definition amountSummary :: "string \<Rightarrow> int \<Rightarrow> int list \<Rightarrow> amount_summary result" where
  "amountSummary cur currentContractAmount signedCollectionEffects =
     (let net = dsum signedCollectionEffects;
          refund = max 0 (dbl (net - currentContractAmount));
          money = (\<lambda>n. \<lparr>mo_currency = cur, mo_minorUnits = n\<rparr>) in
      if \<not> safe_int net \<or> \<not> safe_int refund \<or> refund > 2147483647
      then throw VALIDATION_ERROR 409
      else Inr \<lparr>as_currentContractAmount = money currentContractAmount,
                as_netRecordedCollection = money net,
                as_collectionDifference = money (dbl (currentContractAmount - net)),
                as_refundReferenceAmount = money refund\<rparr>)"

section \<open>Rounding\<close>

lemma gcdLoop_gcd: "0 \<le> a \<Longrightarrow> 0 \<le> b \<Longrightarrow> gcdLoop a b = gcd a b"
proof (induction a b rule: gcdLoop.induct)
  case (1 a b)
  then show ?case
    by (subst gcdLoop.simps) (simp add: gcd_red_int [symmetric] gcd.commute)
qed

lemma greatestCommonDivisor_gcd: "greatestCommonDivisor l r = gcd l r"
  by (simp add: greatestCommonDivisor_def gcdLoop_gcd)

lemma div_pos_iff:
  fixes a b r :: int
  assumes "0 < b"
  shows "a div b = r \<longleftrightarrow> r * b \<le> a \<and> a < (r + 1) * b"
proof
  assume "a div b = r"
  then show "r * b \<le> a \<and> a < (r + 1) * b"
    using div_mult_mod_eq [of a b] pos_mod_bound [OF assms, of a] pos_mod_sign [OF assms, of a]
    by (auto simp: algebra_simps)
next
  assume "r * b \<le> a \<and> a < (r + 1) * b"
  then show "a div b = r"
    by (intro int_div_pos_eq [of a b r "a - b * r"]) (auto simp: algebra_simps)
qed

lemma half_up_iff:
  fixes n d r :: int
  assumes "0 < d"
  shows "(n * 2 + d) div (d * 2) = r \<longleftrightarrow> d * (2 * r - 1) \<le> 2 * n \<and> 2 * n < d * (2 * r + 1)"
  using div_pos_iff [of "d * 2" "n * 2 + d" r] assms by (auto simp: algebra_simps)

lemma half_up_scale:
  fixes n d k :: int
  assumes "0 < k" "0 < d"
  shows "(k * n * 2 + k * d) div (k * d * 2) = (n * 2 + d) div (d * 2)"
proof -
  have "k * n * 2 + k * d = k * (n * 2 + d)" "k * d * 2 = k * (d * 2)" by (simp_all add: algebra_simps)
  then show ?thesis using assms by simp
qed

lemma roundHalfUp_Inr:
  "roundPositiveRationalHalfUp n d = Inr r \<longleftrightarrow> 0 \<le> n \<and> 0 < d \<and> (n * 2 + d) div (d * 2) = r"
  by (auto simp: roundPositiveRationalHalfUp_def)

section \<open>Segments\<close>

definition anchorOfCode :: "pricing_policy \<Rightarrow> int \<Rightarrow> string option \<Rightarrow> int" where
  "anchorOfCode policy band product =
     (case anchorsOf policy product of None \<Rightarrow> 0 | Some anchors \<Rightarrow> intOf (anchorAt anchors band))"

definition isBand :: "int \<Rightarrow> bool" where
  "isBand band \<longleftrightarrow> band \<in> {1, 7, 14, 30}"

lemma durationBand_isBand: "durationBandAnchorNights n = Inr band \<Longrightarrow> isBand band"
  by (auto simp: durationBandAnchorNights_def isBand_def split: if_splits)

lemma durationBand_total: "1 \<le> n \<Longrightarrow> safe_int n \<Longrightarrow> \<exists>band. durationBandAnchorNights (IntNum n) = Inr band"
  by (simp add: durationBandAnchorNights_def)

lemma requireDurationAnchors_Inr:
  assumes "requireDurationAnchors policy product = Inr anchors" and "isBand band"
  shows "anchorsOf policy product = Some anchors" and "anchorOfCode policy band product = intOf (anchorAt anchors band)"
    and "0 < anchorOfCode policy band product" and "safe_int (anchorOfCode policy band product)"
  using assms
  by (auto simp: requireDurationAnchors_def anchorOfCode_def isBand_def positive_anchor_def isSafeInteger_iff
      split: option.splits if_splits)

definition segmentOk :: "pricing_policy \<Rightarrow> int \<Rightarrow> calculation_segment \<Rightarrow> bool" where
  "segmentOk policy band s \<longleftrightarrow>
     sg_anchorAmountMinor s = anchorOfCode policy band (Some (sg_pricingProductCode s)) \<and>
     0 < sg_anchorAmountMinor s \<and> safe_int (sg_anchorAmountMinor s) \<and> 1 \<le> sg_nights s \<and> sg_denominator s = band \<and>
     sg_numeratorMinor s = dsum (replicate (nat (sg_nights s)) (sg_anchorAmountMinor s))"

definition segmentNights :: "calculation_segment list \<Rightarrow> int list" where
  "segmentNights ss = concat (map (\<lambda>s. replicate (nat (sg_nights s)) (sg_anchorAmountMinor s)) ss)"

lemma dsum_snoc: "dsum (xs @ [x]) = dbl (dsum xs + x)"
  by (simp add: dsum_def)

lemma nat_suc_replicate: "1 \<le> n \<Longrightarrow> replicate (nat (n + 1)) x = replicate (nat n) x @ [x]"
proof -
  assume "1 \<le> n"
  then have "nat (n + 1) = Suc (nat n)" by simp
  then show ?thesis by (metis replicate_append_same replicate_Suc)
qed

lemma segmentStep_ok:
  assumes "segmentStep policy band segs item = Inr segs'" and "list_all (segmentOk policy band) segs" and "isBand band"
  shows "list_all (segmentOk policy band) segs'"
    and "segmentNights segs' = segmentNights segs @ [anchorOfCode policy band (pt_inventoryProductCode item)]"
    and "sum_list (map sg_nights segs') = sum_list (map sg_nights segs) + 1"
proof -
  from assms(1) obtain product where p: "pt_inventoryProductCode item = Some product"
    by (auto simp: segmentStep_def split: option.splits)
  consider (extend) ini cur nx where "segs = ini @ [cur]" "sg_pricingProductCode cur = product"
      "segs' = ini @ [cur\<lparr>sg_departureDate := nx, sg_nights := sg_nights cur + 1,
         sg_numeratorMinor := dbl (sg_numeratorMinor cur + sg_anchorAmountMinor cur)\<rparr>]"
    | (fresh) anchors nx where "requireDurationAnchors policy (Some product) = Inr anchors"
      "segs' = segs @ [\<lparr>sg_inventoryUnitId = pt_inventoryUnitId item, sg_pricingProductCode = product,
             sg_arrivalDate = pt_serviceDate item, sg_departureDate = nx, sg_nights = 1,
             sg_anchorAmountMinor = intOf (anchorAt anchors band), sg_numeratorMinor = intOf (anchorAt anchors band),
             sg_denominator = band\<rparr>]"
    using assms(1) by (cases segs rule: rev_cases) (auto simp: segmentStep_def p Let_def split: if_splits)
  then have "list_all (segmentOk policy band) segs' \<and>
    segmentNights segs' = segmentNights segs @ [anchorOfCode policy band (Some product)] \<and>
    sum_list (map sg_nights segs') = sum_list (map sg_nights segs) + 1"
  proof cases
    case extend
    then have ok: "segmentOk policy band cur" using assms(2) by simp
    then have "replicate (nat (sg_nights cur + 1)) (sg_anchorAmountMinor cur)
        = replicate (nat (sg_nights cur)) (sg_anchorAmountMinor cur) @ [sg_anchorAmountMinor cur]"
      by (intro nat_suc_replicate) (simp add: segmentOk_def)
    with extend ok assms(2) show ?thesis
      by (auto simp: segmentOk_def segmentNights_def dsum_snoc)
  next
    case fresh
    note r = requireDurationAnchors_Inr [OF fresh(1) assms(3)]
    have "dsum [anchorOfCode policy band (Some product)] = anchorOfCode policy band (Some product)"
      using r(4) by (simp add: dsum_def dbl_safe)
    with fresh(2) r assms(2) show ?thesis by (auto simp: segmentOk_def segmentNights_def)
  qed
  with p show "list_all (segmentOk policy band) segs'"
    "segmentNights segs' = segmentNights segs @ [anchorOfCode policy band (pt_inventoryProductCode item)]"
    "sum_list (map sg_nights segs') = sum_list (map sg_nights segs) + 1" by simp_all
qed

lemma segment_fold:
  assumes "foldR (segmentStep policy band) segs items = Inr segs'" "list_all (segmentOk policy band) segs" "isBand band"
  shows "list_all (segmentOk policy band) segs' \<and>
     segmentNights segs' = segmentNights segs @ map (anchorOfCode policy band \<circ> pt_inventoryProductCode) items \<and>
     sum_list (map sg_nights segs') = sum_list (map sg_nights segs) + int (length items)"
  using assms
proof (induction items arbitrary: segs)
  case (Cons item items)
  then obtain mid where m: "segmentStep policy band segs item = Inr mid" "foldR (segmentStep policy band) mid items = Inr segs'"
    by auto
  note ok = segmentStep_ok [OF m(1) Cons.prems(2,3)]
  from Cons.IH [OF m(2) ok(1) Cons.prems(3)] ok(2,3) show ?case by simp
qed simp

text \<open>When the sum of the numerators passes the test, every numerator is exact.\<close>

lemma segment_numerators_exact:
  assumes "list_all (segmentOk policy band) segs" and "safe_int (dsum (map sg_numeratorMinor segs))"
  shows "dsum (map sg_numeratorMinor segs) = sum_list (segmentNights segs)"
    and "\<forall>s \<in> set segs. sg_numeratorMinor s = sg_nights s * sg_anchorAmountMinor s"
proof -
  have nn: "\<forall>x \<in> set (map sg_numeratorMinor segs). 0 \<le> x"
    using assms(1) by (auto simp: list_all_iff segmentOk_def intro!: dsum_nonneg)
  then have total: "safe_int (sum_list (map sg_numeratorMinor segs))"
    "dsum (map sg_numeratorMinor segs) = sum_list (map sg_numeratorMinor segs)"
    using assms(2) by (simp_all add: safe_dsum dsum_exact)
  show ex: "\<forall>s \<in> set segs. sg_numeratorMinor s = sg_nights s * sg_anchorAmountMinor s"
  proof
    fix s assume s: "s \<in> set segs"
    then have ok: "segmentOk policy band s" using assms(1) by (simp add: list_all_iff)
    have "sg_numeratorMinor s \<le> sum_list (map sg_numeratorMinor segs)"
      using nn s by (intro member_le_sum_list) auto
    with total(1) nn s have "safe_int (sg_numeratorMinor s)" by (auto simp: safe_int_bounds)
    then have "safe_int (dsum (replicate (nat (sg_nights s)) (sg_anchorAmountMinor s)))"
      using ok by (simp add: segmentOk_def)
    moreover have "\<forall>x \<in> set (replicate (nat (sg_nights s)) (sg_anchorAmountMinor s)). 0 \<le> x"
      using ok by (simp add: segmentOk_def)
    ultimately have "dsum (replicate (nat (sg_nights s)) (sg_anchorAmountMinor s))
        = sum_list (replicate (nat (sg_nights s)) (sg_anchorAmountMinor s))"
      using safe_dsum dsum_exact by blast
    then show "sg_numeratorMinor s = sg_nights s * sg_anchorAmountMinor s"
      using ok by (simp add: segmentOk_def sum_list_replicate)
  qed
  have "sum_list (segmentNights segs) = sum_list (map (\<lambda>s. sg_nights s * sg_anchorAmountMinor s) segs)"
    using assms(1) by (induction segs) (auto simp: segmentNights_def segmentOk_def sum_list_replicate)
  also have "\<dots> = sum_list (map sg_numeratorMinor segs)"
    using ex by (metis (mono_tags, lifting) map_eq_conv)
  finally show "dsum (map sg_numeratorMinor segs) = sum_list (segmentNights segs)" using total(2) by simp
qed

lemma applyManualAdjustment_Inr:
  "applyManualAdjustment base adj whole = Inr t \<longleftrightarrow>
     t = base + adj \<and> safe_int t \<and> 0 \<le> t \<and> (whole \<longrightarrow> t mod 100 = 0)"
proof (cases "safe_int (base + adj)")
  case True
  then show ?thesis by (auto simp: applyManualAdjustment_def Let_def dbl_safe)
qed (auto simp: applyManualAdjustment_def Let_def)

lemma coverageMap_empty [simp]: "coverageMap [] dates = Inr []"
  by (simp add: coverageMap_def jmap_of_def)

lemma coverageLoop_empty [simp]: "coverageLoop [] items = Inr []"
  by (induction items) (auto simp: jmap_get_def)

lemma timelinePricing_Inr:
  assumes "calculateDurationTimelinePricing input = Inr res"
  obtains adj dates candidates covered where
    "validateManualAdjustment (di_policy input) (di_manualAdjustmentMinor input) = Inr adj"
    "enumerateServiceDates (di_arrivalDate input) (di_departureDate input) = Inr dates"
    "map pt_serviceDate (di_timeline input) = dates"
    "coverageMap (di_coverageCandidates input) dates = Inr candidates"
    "coverageLoop candidates (di_timeline input) = Inr covered"
    "if di_memberCoverage input \<or> covered \<noteq> [] then memberPricing input candidates covered adj = Inr res
     else bandPricing input dates covered adj = Inr res"
  using assms by (auto simp: calculateDurationTimelinePricing_def Let_def split: if_splits)

lemma dbl_yuan:
  assumes "0 \<le> y" "y * 100 \<le> MAX_SAFE_INTEGER"
  shows "dbl (y * 100) = y * 100"
  using assms by (intro dbl_safe) (auto simp: safe_int_def MAX_SAFE_INTEGER_def)

lemma roundHalfUp_nonneg: "roundPositiveRationalHalfUp n d = Inr y \<Longrightarrow> 0 \<le> y"
  by (auto simp: roundHalfUp_Inr pos_imp_zdiv_nonneg_iff)

text \<open>What a successful pricing without member coverage went through.\<close>

lemma bandPriced:
  assumes "calculateDurationTimelinePricing input = Inr res"
    and "\<not> di_memberCoverage input" and "di_coverageCandidates input = []"
  obtains adj band segs yuan contract where
    "validateManualAdjustment (di_policy input) (di_manualAdjustmentMinor input) = Inr adj"
    "enumerateServiceDates (di_arrivalDate input) (di_departureDate input) = Inr (map pt_serviceDate (di_timeline input))"
    "durationBandAnchorNights (IntNum (int (length (di_timeline input)))) = Inr band"
    "foldR (segmentStep (di_policy input) band) [] (di_timeline input) = Inr segs"
    "safe_int (dsum (map sg_numeratorMinor segs))"
    "roundPositiveRationalHalfUp (dsum (map sg_numeratorMinor segs)) (band * 100) = Inr yuan"
    "yuan * 100 \<le> MAX_SAFE_INTEGER"
    "applyManualAdjustment (dbl (yuan * 100)) adj False = Inr contract"
    "res = \<lparr>pr_coverageSet = [], pr_cashLines = [StayTotalCashLine (di_arrivalDate input) (di_departureDate input)
         (pt_inventoryUnitId (hd (di_timeline input))) band segs
         \<lparr>mo_currency = pp_currency (di_policy input), mo_minorUnits = dbl (yuan * 100)\<rparr>],
       pr_cashRemainder = \<lparr>mo_currency = pp_currency (di_policy input), mo_minorUnits = dbl (yuan * 100)\<rparr>,
       pr_currentContractAmount = \<lparr>mo_currency = pp_currency (di_policy input), mo_minorUnits = contract\<rparr>\<rparr>"
proof -
  from assms obtain adj dates where d:
    "validateManualAdjustment (di_policy input) (di_manualAdjustmentMinor input) = Inr adj"
    "enumerateServiceDates (di_arrivalDate input) (di_departureDate input) = Inr dates"
    "map pt_serviceDate (di_timeline input) = dates" "bandPricing input dates [] adj = Inr res"
    by (auto elim!: timelinePricing_Inr)
  then have len: "length dates = length (di_timeline input)" by auto
  from d(4) show thesis
    by (auto simp: bandPricing_def len Let_def d(1-3) split: if_splits intro!: that)
qed

section \<open>Properties of the duration band\<close>

text \<open>
  Half-up rounding returns the integer nearest to the fraction, the upper one on a tie,
  and refuses exactly the negative numerators and the non-positive denominators.
\<close>

theorem roundPositiveRationalHalfUp_nearest:
  "roundPositiveRationalHalfUp n d = Inr r \<longleftrightarrow>
     0 \<le> n \<and> 0 < d \<and> d * (2 * r - 1) \<le> 2 * n \<and> 2 * n < d * (2 * r + 1)"
  using half_up_iff [of d n r] by (auto simp: roundHalfUp_Inr)

text \<open>
  C27: The price of a stay without member coverage is the sum over its nights of the anchor
  amount of the night's product in the band of the whole stay, divided by the band's nights and
  rounded half-up to whole yuan once, plus the manual adjustment. The segments of the cash line
  account for every night, and their numerators are exact.
\<close>

theorem durationTimelinePricing_total:
  assumes "calculateDurationTimelinePricing input = Inr res"
    and "\<not> di_memberCoverage input" and "di_coverageCandidates input = []"
  shows "\<exists>band yuan adj segments.
     durationBandAnchorNights (IntNum (int (length (di_timeline input)))) = Inr band \<and>
     roundPositiveRationalHalfUp
       (\<Sum>item \<leftarrow> di_timeline input. anchorOfCode (di_policy input) band (pt_inventoryProductCode item)) (band * 100)
       = Inr yuan \<and>
     validateManualAdjustment (di_policy input) (di_manualAdjustmentMinor input) = Inr adj \<and>
     mo_minorUnits (pr_cashRemainder res) = yuan * 100 \<and>
     mo_minorUnits (pr_currentContractAmount res) = yuan * 100 + adj \<and>
     pr_coverageSet res = [] \<and> map cl_calculationSegments (pr_cashLines res) = [segments] \<and>
     sum_list (map sg_nights segments) = int (length (di_timeline input)) \<and>
     (\<forall>s \<in> set segments. sg_numeratorMinor s = sg_nights s * sg_anchorAmountMinor s)"
proof -
  from assms obtain adj band segs yuan contract where b:
    "durationBandAnchorNights (IntNum (int (length (di_timeline input)))) = Inr band"
    "foldR (segmentStep (di_policy input) band) [] (di_timeline input) = Inr segs"
    "safe_int (dsum (map sg_numeratorMinor segs))"
    "roundPositiveRationalHalfUp (dsum (map sg_numeratorMinor segs)) (band * 100) = Inr yuan"
    "yuan * 100 \<le> MAX_SAFE_INTEGER"
    "applyManualAdjustment (dbl (yuan * 100)) adj False = Inr contract"
    "mo_minorUnits (pr_cashRemainder res) = dbl (yuan * 100)" "mo_minorUnits (pr_currentContractAmount res) = contract"
    "pr_coverageSet res = []" "map cl_calculationSegments (pr_cashLines res) = [segs]"
    and d: "validateManualAdjustment (di_policy input) (di_manualAdjustmentMinor input) = Inr adj"
    by (elim bandPriced) simp_all
  note band = durationBand_isBand [OF b(1)]
  from segment_fold [OF b(2) _ band] have f: "list_all (segmentOk (di_policy input) band) segs"
    "segmentNights segs = map (anchorOfCode (di_policy input) band \<circ> pt_inventoryProductCode) (di_timeline input)"
    "sum_list (map sg_nights segs) = int (length (di_timeline input))" by (auto simp: segmentNights_def)
  note ex = segment_numerators_exact [OF f(1) b(3)]
  have "roundPositiveRationalHalfUp
       (\<Sum>item \<leftarrow> di_timeline input. anchorOfCode (di_policy input) band (pt_inventoryProductCode item)) (band * 100) = Inr yuan"
    using b(4) ex(1) f(2) by (simp add: comp_def)
  moreover have "dbl (yuan * 100) = yuan * 100" using dbl_yuan [OF roundHalfUp_nonneg [OF b(4)] b(5)] .
  ultimately show ?thesis using b d f(3) ex(2) by (auto simp: applyManualAdjustment_Inr)
qed

section \<open>The closed formula\<close>

lemma sum_segmentNights:
  "list_all (segmentOk policy band) segs \<Longrightarrow>
   sum_list (segmentNights segs) = sum_list (map (\<lambda>s. sg_nights s * sg_anchorAmountMinor s) segs)"
  by (induction segs) (auto simp: segmentNights_def segmentOk_def sum_list_replicate)

lemma segment_numerators_safe:
  assumes ok: "list_all (segmentOk policy band) segs"
  shows "safe_int (dsum (map sg_numeratorMinor segs)) \<longleftrightarrow> safe_int (sum_list (segmentNights segs))"
proof
  assume safe: "safe_int (sum_list (segmentNights segs))"
  let ?w = "\<lambda>s. sg_nights s * sg_anchorAmountMinor s"
  have nn: "0 \<le> ?w s" if "s \<in> set segs" for s using ok that by (auto simp: list_all_iff segmentOk_def)
  have "sg_numeratorMinor s = ?w s" if s: "s \<in> set segs" for s
  proof -
    have o: "segmentOk policy band s" using ok s by (simp add: list_all_iff)
    have "?w s \<le> sum_list (map ?w segs)" using nn s by (intro member_le_sum_list) auto
    then have "safe_int (?w s)" using safe nn [OF s] by (auto simp: sum_segmentNights [OF ok] safe_int_bounds)
    with o show ?thesis
      using dsum_exact [of "replicate (nat (sg_nights s)) (sg_anchorAmountMinor s)"]
      by (simp add: segmentOk_def sum_list_replicate)
  qed
  then have "map sg_numeratorMinor segs = map ?w segs" by (intro map_cong) auto
  then show "safe_int (dsum (map sg_numeratorMinor segs))"
    using safe nn safe_dsum [of "map ?w segs"] by (simp only:) (simp add: sum_segmentNights [OF ok])
qed (use segment_numerators_exact [OF ok] in simp)

lemma segmentStep_total:
  assumes "requireDurationAnchors policy (pt_inventoryProductCode item) = Inr anchors" "newDate (pt_serviceDate item) \<noteq> None"
  shows "\<exists>segs'. segmentStep policy band segs item = Inr segs'"
  using assms
  by (auto simp: segmentStep_def nextServiceDate_pricing_def Let_def requireDurationAnchors_def anchorsOf_def
      split: option.splits if_splits)

lemma segment_fold_total:
  assumes "\<forall>item \<in> set items. (\<exists>anchors. requireDurationAnchors policy (pt_inventoryProductCode item) = Inr anchors)
      \<and> newDate (pt_serviceDate item) \<noteq> None"
  shows "\<exists>segs'. foldR (segmentStep policy band) segs items = Inr segs'"
  using assms
proof (induction items arbitrary: segs)
  case (Cons item items)
  then obtain mid where "segmentStep policy band segs item = Inr mid" using segmentStep_total by fastforce
  with Cons show ?case by simp
qed simp

lemma bandTotal_closed:
  assumes anchors: "requireDurationAnchors policy product = Inr anchors"
    and band: "durationBandAnchorNights (IntNum n) = Inr band"
  defines "a \<equiv> anchorOfCode policy band product"
  shows "bindR (calculateDurationBandTotalMinor (IntNum n) anchors) (\<lambda>(e, r). Inr r) =
     (if \<not> safe_int (n * a) then validation_error
      else bindR (roundPositiveRationalHalfUp (n * a) (band * 100)) (\<lambda>yuan.
        if yuan * 100 > MAX_SAFE_INTEGER then validation_error else Inr (dbl (yuan * 100))))"
proof -
  note b = durationBand_isBand [OF band]
  note r = requireDurationAnchors_Inr [OF anchors b]
  have at: "isSafeInteger (anchorAt anchors band)" "intOf (anchorAt anchors band) = a" "0 < a"
    using anchors b r by (auto simp: a_def requireDurationAnchors_def isBand_def positive_anchor_def split: option.splits if_splits)
  have n: "1 \<le> n" using band by (auto simp: durationBandAnchorNights_def split: if_splits)
  show ?thesis
  proof (cases "safe_int (n * a)")
    case False
    then show ?thesis using at band by (simp add: calculateDurationBandTotalMinor_def exactDurationBandAmount_def Let_def)
  next
    case True
    let ?g = "gcd (n * a) band"
    have na0: "\<not> n * a < 0" using n at(3) by (simp add: mult_less_0_iff)
    have g: "0 < ?g" "?g dvd n * a" "?g dvd band" "0 < band" using b by (auto simp: isBand_def)
    then have na: "n * a = ?g * (n * a div ?g)" and ba: "band = ?g * (band div ?g)" by simp_all
    have bp: "0 < band div ?g" "0 \<le> n * a div ?g"
      using g n at(3) by (simp_all add: pos_imp_zdiv_pos_iff pos_imp_zdiv_nonneg_iff zdvd_imp_le)
    have "(n * a div ?g * 2 + band div ?g * 100) div (band div ?g * 100 * 2) = (n * a * 2 + band * 100) div (band * 100 * 2)"
      using half_up_scale [of ?g "band div ?g * 100" "n * a div ?g", OF g(1)] bp(1)
      unfolding mult.assoc [of ?g, symmetric] na [symmetric] ba [symmetric] by simp
    then have "roundPositiveRationalHalfUp (n * a div ?g) (band div ?g * 100) = roundPositiveRationalHalfUp (n * a) (band * 100)"
      using bp g(4) na0 by (simp add: roundPositiveRationalHalfUp_def)
    then show ?thesis
      using True at band by (simp add: calculateDurationBandTotalMinor_def exactDurationBandAmount_def
          roundExactAmountToWholeYuanMinor_def greatestCommonDivisor_gcd Let_def dbl_safe bindR_assoc)
  qed
qed

text \<open>
  C28: For a paid stay in one unit the night-by-night calculation is the closed band formula:
  both give the same amount, or fail with the same error, for every number of nights.
\<close>

theorem calculatePricing_band_equivalence:
  assumes "pi_stayType input \<noteq> FREE" and "pp_calculationKind (pi_policy input) = DURATION_BAND_TOTAL"
    and "pp_stayType (pi_policy input) = None" and "policyEffective (pi_policy input) (pi_arrivalDate input)"
    and "\<not> pi_memberCoverage input" and "pi_coverageCandidates input = []" and "pi_manualAdjustmentMinor input = None"
    and anchors: "requireDurationAnchors (pi_policy input) (pi_inventoryProductCode input) = Inr anchors"
    and dates: "enumerateServiceDates (pi_arrivalDate input) (pi_departureDate input) = Inr dates"
  shows "bindR (calculatePricing input) (\<lambda>res. Inr (mo_minorUnits (pr_currentContractAmount res)))
       = bindR (calculateDurationBandTotalMinor (IntNum (int (length dates))) anchors) (\<lambda>(exact, rounded). Inr rounded)"
proof -
  let ?n = "int (length dates)" and ?policy = "pi_policy input"
  note facts = enumerateServiceDates_facts [OF dates]
  have "1 \<le> ?n" "safe_int ?n" using facts(1,2) by (cases dates; simp add: safe_int_bounds)+
  then obtain band where band: "durationBandAnchorNights (IntNum ?n) = Inr band"
    using durationBand_total by blast
  note isb = durationBand_isBand [OF band]
  define a where "a = anchorOfCode ?policy band (pi_inventoryProductCode input)"
  let ?tl = "di_timeline (timelineInput input dates)"
  have round: "pp_roundingRule ?policy = Some FINAL_TOTAL_WHOLE_YUAN_HALF_UP"
    using anchors by (auto simp: requireDurationAnchors_def split: option.splits if_splits)
  have "newDate d \<noteq> None" if "d \<in> set dates" for d
    using facts(9) [of d] that by (auto simp: localDate_def newDate_toISODate)
  then have "\<forall>item \<in> set ?tl. (\<exists>anchors. requireDurationAnchors ?policy (pt_inventoryProductCode item) = Inr anchors)
      \<and> newDate (pt_serviceDate item) \<noteq> None"
    using anchors by (auto simp: timelineInput_def)
  then obtain segs where segs: "foldR (segmentStep ?policy band) [] ?tl = Inr segs"
    using segment_fold_total by blast
  from segment_fold [OF segs _ isb] have f: "list_all (segmentOk ?policy band) segs"
    "segmentNights segs = replicate (length dates) a"
    by (auto simp: segmentNights_def timelineInput_def a_def comp_def map_replicate_const)
  have sum: "sum_list (segmentNights segs) = ?n * a" by (simp add: f(2) sum_list_replicate)
  have pricing: "calculatePricing input = bandPricing (timelineInput input dates) dates [] 0"
    using assms round by (simp add: calculatePricing_def approvedPolicyShape_def calculateDurationTimelinePricing_def
        timelineInput_def validateManualAdjustment_def comp_def)
  have policy: "di_policy (timelineInput input dates) = ?policy" by (simp add: timelineInput_def)
  have adj: "applyManualAdjustment (dbl (y * 100)) 0 False = Inr (dbl (y * 100))"
    if "0 \<le> y" "y * 100 \<le> MAX_SAFE_INTEGER" for y
    using that by (simp add: applyManualAdjustment_Inr dbl_yuan) (simp add: safe_int_def MAX_SAFE_INTEGER_def)
  show ?thesis
  proof (cases "safe_int (?n * a)")
    case False
    then have "\<not> safe_int (dsum (map sg_numeratorMinor segs))" using segment_numerators_safe [OF f(1)] sum by simp
    then show ?thesis
      using False bandTotal_closed [OF anchors band] band segs
      by (simp add: pricing bandPricing_def policy a_def [symmetric])
  next
    case True
    then have s: "safe_int (dsum (map sg_numeratorMinor segs))" using segment_numerators_safe [OF f(1)] sum by simp
    moreover have "dsum (map sg_numeratorMinor segs) = ?n * a" using segment_numerators_exact(1) [OF f(1) s] sum by simp
    ultimately show ?thesis
      using True bandTotal_closed [OF anchors band] band segs adj
      by (cases "roundPositiveRationalHalfUp (?n * a) (band * 100)")
        (auto simp: pricing bandPricing_def policy a_def [symmetric] Let_def roundHalfUp_nonneg)
  qed
qed

lemma bandTotal_example:
  "bindR (calculateDurationBandTotalMinor (IntNum 10) \<lparr>anchor1 = IntNum 12800, anchor7 = IntNum 80000, anchor14 = IntNum 150000, anchor30 = IntNum 280000\<rparr>)
     (\<lambda>(exact, rounded). Inr rounded) = Inr 114300"
  by code_simp

definition examplePolicy :: pricing_policy where
  "examplePolicy = \<lparr>pp_id = ''p'', pp_stayType = None, pp_calculationKind = DURATION_BAND_TOTAL,
     pp_nightlyRateMinor = None,
     pp_productAnchorRatesMinor = Some [(''R1'', \<lparr>anchor1 = IntNum 12800, anchor7 = IntNum 80000,
        anchor14 = IntNum 150000, anchor30 = IntNum 280000\<rparr>)],
     pp_effectiveFrom = Some ''2026-02-25'', pp_effectiveUntil = None,
     pp_roundingRule = Some FINAL_TOTAL_WHOLE_YUAN_HALF_UP, pp_currency = ''CNY''\<rparr>"

definition exampleInput :: pricing_input where
  "exampleInput = \<lparr>pi_inventoryUnitId = ''A'', pi_inventoryUnitKind = ROOM, pi_inventoryProductCode = Some ''R1'',
     pi_arrivalDate = ''2026-07-01'', pi_departureDate = ''2026-07-11'', pi_stayType = CUSTOM, pi_policy = examplePolicy,
     pi_memberCoverage = False, pi_coverageCandidates = [], pi_manualAdjustmentMinor = None\<rparr>"

lemma exampleInput_dates:
  "enumerateServiceDates (pi_arrivalDate exampleInput) (pi_departureDate exampleInput) = Inr [''2026-07-01'', ''2026-07-02'',
     ''2026-07-03'', ''2026-07-04'', ''2026-07-05'', ''2026-07-06'', ''2026-07-07'', ''2026-07-08'', ''2026-07-09'', ''2026-07-10'']"
  by code_simp

lemma exampleInput_anchors:
  "requireDurationAnchors (pi_policy exampleInput) (pi_inventoryProductCode exampleInput)
   = Inr \<lparr>anchor1 = IntNum 12800, anchor7 = IntNum 80000, anchor14 = IntNum 150000, anchor30 = IntNum 280000\<rparr>"
  by code_simp

theorem calculatePricing_band_witness:
  "bindR (calculatePricing exampleInput) (\<lambda>res. Inr (mo_minorUnits (pr_currentContractAmount res))) = Inr 114300"
proof -
  have "policyEffective (pi_policy exampleInput) (pi_arrivalDate exampleInput)" by code_simp
  then show ?thesis
    using calculatePricing_band_equivalence [OF _ _ _ _ _ _ _ exampleInput_anchors exampleInput_dates] bandTotal_example
    by (simp add: exampleInput_def examplePolicy_def)
qed

definition twoNights :: duration_timeline_pricing_input where
  "twoNights = timelineInput (exampleInput\<lparr>pi_departureDate := ''2026-07-03''\<rparr>) [''2026-07-01'', ''2026-07-02'']"

lemma twoNights_priced: "\<exists>res. calculateDurationTimelinePricing twoNights = Inr res"
proof -
  have "case calculateDurationTimelinePricing twoNights of Inr r \<Rightarrow> True | Inl e \<Rightarrow> False" by code_simp
  then show ?thesis by (auto split: sum.splits)
qed

theorem durationTimelinePricing_witness:
  "\<exists>res band. calculateDurationTimelinePricing twoNights = Inr res \<and>
     durationBandAnchorNights (IntNum 2) = Inr band \<and> pr_coverageSet res = []"
proof -
  from twoNights_priced obtain res where res: "calculateDurationTimelinePricing twoNights = Inr res" by blast
  from durationTimelinePricing_total [OF res] res show ?thesis
    by (auto simp: twoNights_def timelineInput_def exampleInput_def)
qed

section \<open>Coverage and cash lines split the nights\<close>

lemma coverageItem_Inr:
  "coverageItem d u k c = Inr x \<Longrightarrow> ci_serviceDate x = d \<and> ci_entitlementLotId x = cc_entitlementLotId c
     \<and> ci_unitKind x = entitlementKindFor k"
  by (auto simp: coverageItem_def Let_def split: if_splits option.splits)

lemma coverageMap_Inr:
  assumes "coverageMap cs dates = Inr m"
  shows "distinct (map cc_serviceDate cs)" "set (map cc_serviceDate cs) \<subseteq> set dates"
    "jmap_get m d = map_of (map (\<lambda>c. (cc_serviceDate c, c)) cs) d"
    "jmap_get m d = None \<longleftrightarrow> d \<notin> set (map cc_serviceDate cs)"
proof -
  let ?kv = "map (\<lambda>c. (cc_serviceDate c, c)) cs"
  from assms have m: "m = jmap_of ?kv" "length (jmap_of ?kv) = length ?kv" "set (map fst (jmap_of ?kv)) \<subseteq> set dates"
    by (auto simp: coverageMap_def Let_def list_ex_iff split: if_splits)
  have keys: "map fst ?kv = map cc_serviceDate cs" by simp
  show d: "distinct (map cc_serviceDate cs)" using m(2) jmap_of_length_iff [of ?kv] by (simp only: keys simp_thms)
  show "set (map cc_serviceDate cs) \<subseteq> set dates" using m(3) keys_jmap_of [of ?kv] by (simp only: keys)
  show "jmap_get m d = map_of ?kv d" using d m(1) jmap_get_distinct [of ?kv d] by (simp add: comp_def)
  then show "jmap_get m d = None \<longleftrightarrow> d \<notin> set (map cc_serviceDate cs)" by (simp add: map_of_eq_None_iff image_image)
qed

lemma nightLoop_split:
  "nightLoop input m amount ds = Inr (cov, cash) \<Longrightarrow>
     map ci_serviceDate cov = filter (\<lambda>d. jmap_get m d \<noteq> None) ds \<and>
     map cl_serviceDate cash = filter (\<lambda>d. jmap_get m d = None) ds \<and>
     map (mo_minorUnits \<circ> cl_amount) cash = replicate (length cash) amount"
  by (induction ds arbitrary: cov cash) (auto dest: coverageItem_Inr split: option.splits)

lemma coverageLoop_split:
  "coverageLoop m items = Inr cov \<Longrightarrow>
     map ci_serviceDate cov = filter (\<lambda>d. jmap_get m d \<noteq> None) (map pt_serviceDate items)"
  by (induction items arbitrary: cov) (auto dest: coverageItem_Inr split: option.splits)

lemma memberCashLine_Inr:
  "memberCashLine policy item = Inr l \<Longrightarrow>
     cl_serviceDate l = pt_serviceDate item \<and> cl_inventoryUnitId l = pt_inventoryUnitId item \<and>
     mo_minorUnits (cl_amount l) = anchorOfCode policy 1 (pt_inventoryProductCode item) \<and>
     0 < mo_minorUnits (cl_amount l) \<and> mo_minorUnits (cl_amount l) mod 100 = 0"
  using requireDurationAnchors_Inr [of policy "pt_inventoryProductCode item" _ 1]
  by (auto simp: memberCashLine_def isBand_def Let_def split: if_splits)

lemma memberCashLines:
  "mapR (memberCashLine policy) items = Inr ls \<Longrightarrow>
     map cl_serviceDate ls = map pt_serviceDate items \<and>
     map (mo_minorUnits \<circ> cl_amount) ls = map (anchorOfCode policy 1 \<circ> pt_inventoryProductCode) items \<and>
     (\<forall>l \<in> set ls. 0 < mo_minorUnits (cl_amount l) \<and> mo_minorUnits (cl_amount l) mod 100 = 0)"
  by (induction items arbitrary: ls) (auto dest: memberCashLine_Inr)

text \<open>
  C29: Under a nightly or free policy the nights of the stay are split, in order, into the ones
  covered by an entitlement and the ones with a cash line; each cash line carries the nightly
  rate, and the contract amount is the rate times the uncovered nights plus the adjustment. A
  free stay is never covered and costs nothing.
\<close>

theorem nightlyPricing_split:
  assumes "calculatePricing input = Inr res" and "pp_calculationKind (pi_policy input) \<noteq> DURATION_BAND_TOTAL"
    and "safe_int (mo_minorUnits (pr_cashRemainder res))"
  shows "\<exists>dates rate adj. enumerateServiceDates (pi_arrivalDate input) (pi_departureDate input) = Inr dates \<and>
     pp_nightlyRateMinor (pi_policy input) = Some (IntNum rate) \<and>
     map ci_serviceDate (pr_coverageSet res)
       = filter (\<lambda>d. d \<in> set (map cc_serviceDate (pi_coverageCandidates input))) dates \<and>
     map cl_serviceDate (pr_cashLines res)
       = filter (\<lambda>d. d \<notin> set (map cc_serviceDate (pi_coverageCandidates input))) dates \<and>
     mo_minorUnits (pr_currentContractAmount res) = rate * int (length (pr_cashLines res)) + adj \<and>
     0 \<le> mo_minorUnits (pr_currentContractAmount res) \<and>
     (pi_stayType input = FREE \<longrightarrow> pr_coverageSet res = [] \<and> mo_minorUnits (pr_currentContractAmount res) = 0)"
proof -
  let ?policy = "pi_policy input"
  from assms(1,2) have shape: "approvedPolicyShape input" and np: "nightlyPricing input = Inr res"
    by (auto simp: calculatePricing_def split: if_splits)
  from np obtain dates m adj rate cov cash contract where
    n: "enumerateServiceDates (pi_arrivalDate input) (pi_departureDate input) = Inr dates"
      "coverageMap (pi_coverageCandidates input) dates = Inr m"
      "validateManualAdjustment ?policy (pi_manualAdjustmentMinor input) = Inr adj"
      "\<not> (pp_calculationKind ?policy = FREE_KIND \<and> m \<noteq> [])"
      "pp_nightlyRateMinor ?policy = Some (IntNum rate)" "0 \<le> rate" "pp_calculationKind ?policy = FREE_KIND \<longrightarrow> rate = 0"
      "nightLoop input m rate dates = Inr (cov, cash)"
      "applyManualAdjustment (dsum (map (mo_minorUnits \<circ> cl_amount) cash)) adj False = Inr contract"
    and res: "pr_coverageSet res = cov" "pr_cashLines res = cash" "mo_minorUnits (pr_currentContractAmount res) = contract"
      "mo_minorUnits (pr_cashRemainder res) = dsum (map (mo_minorUnits \<circ> cl_amount) cash)"
    by (auto simp: nightlyPricing_def Let_def isInteger_iff split: if_splits option.splits prod.splits)
  note c = coverageMap_Inr(4) [OF n(2)]
  note l = nightLoop_split [OF n(8)]
  have "dsum (map (mo_minorUnits \<circ> cl_amount) cash) = rate * int (length cash)"
    using assms(3) l n(6) safe_dsum [of "replicate (length cash) rate"] dsum_exact [of "replicate (length cash) rate"]
    by (simp add: res(4) sum_list_replicate mult.commute)
  then have amount: "contract = rate * int (length cash) + adj" "0 \<le> contract"
    using n(9) by (auto simp: applyManualAdjustment_Inr)
  have free: "cov = [] \<and> contract = 0" if "pi_stayType input = FREE"
  proof -
    have "pp_calculationKind ?policy = FREE_KIND" using that shape by (auto simp: approvedPolicyShape_def Let_def)
    then have "m = []" "rate = 0" "adj = 0" using n(3,4,7)
      by (auto simp: validateManualAdjustment_def Let_def split: if_splits)
    then show ?thesis using l amount by (simp add: jmap_get_def)
  qed
  show ?thesis using n(1,5) l amount free c by (simp add: res cong: filter_cong)
qed

definition flatInput :: pricing_input where
  "flatInput = exampleInput\<lparr>pi_departureDate := ''2026-07-03'', pi_stayType := TRANSIENT,
     pi_policy := examplePolicy\<lparr>pp_stayType := Some TRANSIENT, pp_calculationKind := FLAT_NIGHTLY,
       pp_nightlyRateMinor := Some (IntNum 10000)\<rparr>,
     pi_coverageCandidates := [\<lparr>cc_serviceDate = ''2026-07-02'', cc_entitlementLotId = ''L'', cc_status = None,
       cc_inventoryUnitId = None, cc_unitKind = None\<rparr>]\<rparr>"

lemma flatInput_priced:
  "calculatePricing flatInput = Inr
     \<lparr>pr_coverageSet = [\<lparr>ci_serviceDate = ''2026-07-02'', ci_inventoryUnitId = ''A'', ci_unitKind = ROOM_NIGHT, ci_entitlementLotId = ''L''\<rparr>],
      pr_cashLines = [NightlyCashLine ''2026-07-01'' ''A'' \<lparr>mo_currency = ''CNY'', mo_minorUnits = 10000\<rparr>],
      pr_cashRemainder = \<lparr>mo_currency = ''CNY'', mo_minorUnits = 10000\<rparr>,
      pr_currentContractAmount = \<lparr>mo_currency = ''CNY'', mo_minorUnits = 10000\<rparr>\<rparr>"
  by code_simp

theorem nightlyPricing_witness:
  "\<exists>dates. enumerateServiceDates ''2026-07-01'' ''2026-07-03'' = Inr dates \<and>
     filter (\<lambda>d. d \<noteq> ''2026-07-02'') dates = [''2026-07-01'']"
  using nightlyPricing_split [OF flatInput_priced]
  by (auto simp: flatInput_def exampleInput_def examplePolicy_def safe_int_bounds)

text \<open>
  A stay with member coverage is charged night by night: every night is either covered by
  the entitlement of its date or has a cash line at the one-night anchor of its product, and
  the contract amount is the sum of those anchors plus the adjustment, in whole yuan.
\<close>

theorem memberPricing_split:
  assumes "calculateDurationTimelinePricing input = Inr res"
    and "di_memberCoverage input \<or> di_coverageCandidates input \<noteq> []"
    and "safe_int (sum_list (map (mo_minorUnits \<circ> cl_amount) (pr_cashLines res)))"
  shows "\<exists>adj. validateManualAdjustment (di_policy input) (di_manualAdjustmentMinor input) = Inr adj \<and>
     map ci_serviceDate (pr_coverageSet res) = filter (\<lambda>d. d \<in> set (map cc_serviceDate (di_coverageCandidates input))) (map pt_serviceDate (di_timeline input)) \<and>
     map cl_serviceDate (pr_cashLines res) = filter (\<lambda>d. d \<notin> set (map cc_serviceDate (di_coverageCandidates input))) (map pt_serviceDate (di_timeline input)) \<and>
     mo_minorUnits (pr_currentContractAmount res) =
       (\<Sum>item \<leftarrow> filter (\<lambda>i. pt_serviceDate i \<notin> set (map cc_serviceDate (di_coverageCandidates input))) (di_timeline input).
          anchorOfCode (di_policy input) 1 (pt_inventoryProductCode item)) + adj \<and>
     0 \<le> mo_minorUnits (pr_currentContractAmount res) \<and> mo_minorUnits (pr_currentContractAmount res) mod 100 = 0"
proof -
  let ?tl = "di_timeline input"
  from assms(1) obtain adj m cov where d:
    "validateManualAdjustment (di_policy input) (di_manualAdjustmentMinor input) = Inr adj"
    "coverageMap (di_coverageCandidates input) (map pt_serviceDate ?tl) = Inr m" "coverageLoop m ?tl = Inr cov"
    "if di_memberCoverage input \<or> cov \<noteq> [] then memberPricing input m cov adj = Inr res
     else bandPricing input (map pt_serviceDate ?tl) cov adj = Inr res"
    by (elim timelinePricing_Inr) (hypsubst, blast)
  note c = coverageMap_Inr [OF d(2)]
  note cov = coverageLoop_split [OF d(3)]
  have "cov \<noteq> []" if "di_coverageCandidates input \<noteq> []"
  proof -
    from that obtain x where "x \<in> set (map cc_serviceDate (di_coverageCandidates input))"
      by (cases "di_coverageCandidates input") auto
    with c(2,4) have "x \<in> set (filter (\<lambda>d. jmap_get m d \<noteq> None) (map pt_serviceDate ?tl))" by (auto simp: subset_iff)
    then show ?thesis using cov by (metis empty_iff list.simps(8) list.set(1))
  qed
  with assms(2) d(4) have "memberPricing input m cov adj = Inr res" by (auto split: if_splits)
  then obtain ls yuan contract where l:
    "mapR (memberCashLine (di_policy input)) (filter (\<lambda>i. jmap_get m (pt_serviceDate i) = None) ?tl) = Inr ls"
    "roundPositiveRationalHalfUp (dsum (map (mo_minorUnits \<circ> cl_amount) ls)) 100 = Inr yuan"
    "applyManualAdjustment (dbl (yuan * 100)) adj True = Inr contract"
    "pr_coverageSet res = cov" "pr_cashLines res = ls" "mo_minorUnits (pr_currentContractAmount res) = contract"
    by (auto simp: memberPricing_def Let_def)
  note lines = memberCashLines [OF l(1)]
  let ?S = "sum_list (map (mo_minorUnits \<circ> cl_amount) ls)"
  have whole: "?S mod 100 = 0" using lines
  proof -
    have "\<forall>l \<in> set ls. mo_minorUnits (cl_amount l) mod 100 = 0 \<Longrightarrow> ?S mod 100 = 0"
      by (induction ls) (auto simp: mod_eq_0_iff_dvd)
    then show ?thesis using lines by blast
  qed
  have safe: "safe_int ?S" using assms(3) l(5) by simp
  have "dsum (map (mo_minorUnits \<circ> cl_amount) ls) = ?S"
    using lines [THEN conjunct2, THEN conjunct2] safe by (intro dsum_exact) auto
  with l(2) have round: "0 \<le> ?S" "(?S * 2 + 100) div (100 * 2) = yuan" by (simp_all add: roundHalfUp_Inr)
  from whole obtain k where k: "?S = 100 * k" by (auto simp: mod_eq_0_iff_dvd)
  with round(2) have "yuan = k" by (simp add: div_pos_iff)
  with k safe have "dbl (yuan * 100) = ?S" by (simp add: dbl_safe mult.commute)
  with l(3) have "contract = ?S + adj" "0 \<le> contract" "contract mod 100 = 0" by (auto simp: applyManualAdjustment_Inr)
  then show ?thesis
    using d(1) cov lines c(4) by (simp add: l filter_map comp_def cong: filter_cong)
qed

definition memberNights :: duration_timeline_pricing_input where
  "memberNights = twoNights\<lparr>di_coverageCandidates := [\<lparr>cc_serviceDate = ''2026-07-02'', cc_entitlementLotId = ''L'',
     cc_status = None, cc_inventoryUnitId = None, cc_unitKind = None\<rparr>]\<rparr>"

lemma memberNights_priced:
  "calculateDurationTimelinePricing memberNights = Inr
     \<lparr>pr_coverageSet = [\<lparr>ci_serviceDate = ''2026-07-02'', ci_inventoryUnitId = ''A'', ci_unitKind = ROOM_NIGHT, ci_entitlementLotId = ''L''\<rparr>],
      pr_cashLines = [NightlyCashLine ''2026-07-01'' ''A'' \<lparr>mo_currency = ''CNY'', mo_minorUnits = 12800\<rparr>],
      pr_cashRemainder = \<lparr>mo_currency = ''CNY'', mo_minorUnits = 12800\<rparr>,
      pr_currentContractAmount = \<lparr>mo_currency = ''CNY'', mo_minorUnits = 12800\<rparr>\<rparr>"
  by code_simp

theorem memberPricing_witness:
  "\<exists>adj. 12800 = (\<Sum>item \<leftarrow> filter (\<lambda>i. pt_serviceDate i \<noteq> ''2026-07-02'') (di_timeline memberNights).
      anchorOfCode (di_policy memberNights) 1 (pt_inventoryProductCode item)) + adj"
  using memberPricing_split [OF memberNights_priced]
  by (auto simp: safe_int_bounds) (auto simp: memberNights_def)

text \<open>
  C30: The amount summary of an order, decided exactly. As long as the sums stay within the exact integers of
  a JavaScript number, it refuses an order if and only if what was collected beyond the contract passes
  the 32-bit range of the ledger; every other order is summed up with the exact net of the recorded effects, the
  difference to the contract and, as refund reference, what was collected beyond the contract (never negative).
\<close>

theorem amountSummary_exact:
  assumes "\<forall>k \<le> length effects. safe_int (sum_list (take k effects))" and "safe_int (contract - sum_list effects)"
  shows "amountSummary cur contract effects =
    (if 2147483647 < sum_list effects - contract then throw VALIDATION_ERROR 409
     else Inr \<lparr>as_currentContractAmount = \<lparr>mo_currency = cur, mo_minorUnits = contract\<rparr>,
       as_netRecordedCollection = \<lparr>mo_currency = cur, mo_minorUnits = sum_list effects\<rparr>,
       as_collectionDifference = \<lparr>mo_currency = cur, mo_minorUnits = contract - sum_list effects\<rparr>,
       as_refundReferenceAmount = \<lparr>mo_currency = cur, mo_minorUnits = max 0 (sum_list effects - contract)\<rparr>\<rparr>)"
proof -
  have "dsum (take k effects) = sum_list (take k effects)" if "k \<le> length effects" for k
    using that
  proof (induction k)
    case (Suc k)
    then have "take (Suc k) effects = take k effects @ [effects ! k]" by (simp add: take_Suc_conv_app_nth)
    moreover have "safe_int (sum_list (take (Suc k) effects))" using assms(1) Suc.prems by blast
    ultimately show ?case using Suc by (simp add: dsum_snoc dbl_safe)
  qed (simp add: dsum_def)
  from this [of "length effects"] have net: "dsum effects = sum_list effects" by simp
  have "safe_int (sum_list effects)" using assms(1) by (metis order_refl take_all)
  moreover have "safe_int (sum_list effects - contract)" "safe_int (max 0 (sum_list effects - contract))"
    using assms(2) by (auto simp: safe_int_bounds)
  ultimately show ?thesis
    using assms(2) by (auto simp: amountSummary_def Let_def net dbl_safe)
qed

theorem amountSummary_witness:
  "amountSummary ''CNY'' 10000 [12000, -500] = Inr
     \<lparr>as_currentContractAmount = \<lparr>mo_currency = ''CNY'', mo_minorUnits = 10000\<rparr>,
      as_netRecordedCollection = \<lparr>mo_currency = ''CNY'', mo_minorUnits = 11500\<rparr>,
      as_collectionDifference = \<lparr>mo_currency = ''CNY'', mo_minorUnits = -1500\<rparr>,
      as_refundReferenceAmount = \<lparr>mo_currency = ''CNY'', mo_minorUnits = 1500\<rparr>\<rparr>
   \<and> amountSummary ''CNY'' 10000 [2147493648] = throw VALIDATION_ERROR 409"
proof -
  have "\<forall>k \<le> length [12000, -500 :: int]. safe_int (sum_list (take k [12000, -500]))"
  proof (intro allI impI)
    fix k assume "k \<le> length [12000, -500 :: int]"
    then have "k = 0 \<or> k = 1 \<or> k = 2" by auto
    then show "safe_int (sum_list (take k [12000, -500]))" by (auto simp: safe_int_bounds)
  qed
  moreover have "\<forall>k \<le> length [2147493648 :: int]. safe_int (sum_list (take k [2147493648]))"
    by (auto simp: le_Suc_eq safe_int_bounds)
  ultimately show ?thesis
    using amountSummary_exact [of "[12000, -500]" 10000 "''CNY''"] amountSummary_exact [of "[2147493648]" 10000 "''CNY''"]
    by (simp add: safe_int_bounds)
qed

end
