(* ===== verification/OperationalFacts.thy ===== *)
theory OperationalFacts
  imports Pricing
begin

text \<open>
  Operational facts of an order: \<^verbatim>\<open>packages/domain/src/operational-facts.ts\<close> (booking channels,
  target amounts, the pricing decision of a new or changed order) and the recognition of channel
  income, \<^verbatim>\<open>packages/domain/src/channel-recognition.ts\<close>. Inputs of type \<^verbatim>\<open>unknown\<close> are values of
  \<open>js_value\<close>; lengths of strings count code units.

  Shown: what an accepted decision guarantees in every branch and which inputs are accepted,
  that the fifteen percent test is exact, and that recognition never recognises a channel sale
  twice.
\<close>

section \<open>The operations\<close>

datatype booking_channel_code = YOUMUDAO | CTRIP | MEITUAN | WECOM

definition bookingChannelCodes :: "(string \<times> booking_channel_code) list" where
  "bookingChannelCodes = [(''YOUMUDAO'', YOUMUDAO), (''CTRIP'', CTRIP), (''MEITUAN'', MEITUAN), (''WECOM'', WECOM)]"

fun parseBookingChannelCode :: "js_value \<Rightarrow> booking_channel_code result" where
  "parseBookingChannelCode (Str s) =
     (case map_of bookingChannelCodes s of None \<Rightarrow> validation_error | Some c \<Rightarrow> Inr c)"
| "parseBookingChannelCode _ = validation_error"

definition normalizeChannelOrderReference :: "js_value \<Rightarrow> string option result" where
  "normalizeChannelOrderReference value =
     (if nullish value then Inr None
      else case value of Str s \<Rightarrow> Inr (if trim s = [] then None else Some (trim s)) | _ \<Rightarrow> validation_error)"

definition validateBookingChannel :: "js_value \<Rightarrow> js_value \<Rightarrow> (booking_channel_code \<times> string option) result" where
  "validateBookingChannel codeValue referenceValue =
     bindR (parseBookingChannelCode codeValue) (\<lambda>channel.
     bindR (normalizeChannelOrderReference referenceValue) (\<lambda>reference.
       if channel = WECOM \<and> reference \<noteq> None then validation_error
       else if channel \<noteq> WECOM \<and> reference = None then validation_error
       else Inr (channel, reference)))"

definition postgresIntegerMaximum :: int where "postgresIntegerMaximum = 2147483647"

definition postgresWholeYuanMaximumMinor :: int where "postgresWholeYuanMaximumMinor = 2147483600"

fun nonNegativePostgresAmount :: "js_value \<Rightarrow> int result" where
  "nonNegativePostgresAmount (Num n) =
     (if \<not> isSafeInteger n \<or> intOf n < 0 \<or> intOf n > postgresIntegerMaximum then validation_error
      else Inr (intOf n))"
| "nonNegativePostgresAmount _ = validation_error"

definition nonNegativeWholeYuanPostgresAmount :: "js_value \<Rightarrow> int result" where
  "nonNegativeWholeYuanPostgresAmount value =
     bindR (nonNegativePostgresAmount value) (\<lambda>amount.
       if amount > postgresWholeYuanMaximumMinor \<or> amount mod 100 \<noteq> 0 then validation_error else Inr amount)"

definition validateOrderTargetAmount :: "booking_channel_code option \<Rightarrow> js_value \<Rightarrow> int result" where
  "validateOrderTargetAmount channel value =
     (if channel \<noteq> Some WECOM \<and> channel \<noteq> Some YOUMUDAO \<and> channel \<noteq> Some CTRIP \<and> channel \<noteq> Some MEITUAN
      then nonNegativeWholeYuanPostgresAmount value
      else bindR (nonNegativePostgresAmount value) (\<lambda>amount.
        if amount > postgresWholeYuanMaximumMinor then validation_error
        else if channel = Some WECOM \<and> amount = 0 then validation_error
        else Inr amount))"

definition channelPriceDifferenceExceedsThreshold :: "js_value \<Rightarrow> js_value \<Rightarrow> bool result" where
  "channelPriceDifferenceExceedsThreshold base target =
     bindR (nonNegativePostgresAmount base) (\<lambda>policyBase.
     bindR (nonNegativePostgresAmount target) (\<lambda>t.
       let difference = t - policyBase;
           absoluteDifference = (if difference < 0 then - difference else difference)
       in Inr (absoluteDifference * 100 > policyBase * 15)))"

definition optionalPricingReason :: "js_value \<Rightarrow> string result" where
  "optionalPricingReason value =
     (if nullish value then Inr []
      else case value of
        Str s \<Rightarrow> if length (trim s) > 1000 then validation_error else Inr (trim s)
      | _ \<Rightarrow> validation_error)"

datatype pricing_basis = POLICY | MANUAL_ADJUSTMENT | CHANNEL_CONTRACT | MEMBER_ENTITLEMENT | FREE_BASIS

record pricing_decision =
  pd_pricingBasis :: pricing_basis
  pd_policyBaseAmountMinor :: int
  pd_currentContractAmountMinor :: int
  pd_differenceFromPolicyMinor :: int
  pd_manualAdjustmentMinor :: int
  pd_differenceExceedsThreshold :: bool
  pd_reasonCode :: string
  pd_reasonNote :: string

record pricing_decision_input =
  in_bookingChannelCode :: "booking_channel_code option"
  in_stayType :: string
  in_memberStay :: bool
  in_policyBaseAmountMinor :: js_value
  in_targetCurrentContractAmountMinor :: js_value
  in_channelPriceDifferenceReason :: js_value
  in_manualPriceAdjustmentReason :: js_value

text \<open>The branch of a paid order through the property's own channel.\<close>

definition wecomDecision :: "int \<Rightarrow> int \<Rightarrow> bool \<Rightarrow> string \<Rightarrow> string \<Rightarrow> pricing_decision result" where
  "wecomDecision base current exceeds channelReason manualReason =
     (let difference = current - base in
      if current = 0 then validation_error
      else if channelReason \<noteq> [] then validation_error
      else if difference \<noteq> 0 \<and> manualReason = [] then validation_error
      else if difference = 0 \<and> manualReason \<noteq> [] then validation_error
      else Inr \<lparr>pd_pricingBasis = (if difference = 0 then POLICY else MANUAL_ADJUSTMENT),
        pd_policyBaseAmountMinor = base, pd_currentContractAmountMinor = current,
        pd_differenceFromPolicyMinor = difference, pd_manualAdjustmentMinor = difference,
        pd_differenceExceedsThreshold = exceeds,
        pd_reasonCode = (if difference = 0 then ''CREATE_ORDER_POLICY_PRICE'' else ''CREATE_ORDER_MANUAL_PRICE''),
        pd_reasonNote = manualReason\<rparr>)"

definition channelDecision :: "int \<Rightarrow> int \<Rightarrow> bool \<Rightarrow> string \<Rightarrow> string \<Rightarrow> pricing_decision result" where
  "channelDecision base current exceeds channelReason manualReason =
     (if manualReason \<noteq> [] then validation_error
      else if exceeds \<and> channelReason = [] then validation_error
      else Inr \<lparr>pd_pricingBasis = CHANNEL_CONTRACT, pd_policyBaseAmountMinor = base,
        pd_currentContractAmountMinor = current, pd_differenceFromPolicyMinor = current - base,
        pd_manualAdjustmentMinor = 0, pd_differenceExceedsThreshold = exceeds,
        pd_reasonCode = ''CREATE_ORDER_CHANNEL_CONTRACT'', pd_reasonNote = channelReason\<rparr>)"

definition paidDecision ::
  "booking_channel_code option \<Rightarrow> js_value \<Rightarrow> int \<Rightarrow> string \<Rightarrow> string \<Rightarrow> pricing_decision result" where
  "paidDecision channelOpt target base channelReason manualReason =
     (case channelOpt of
        None \<Rightarrow> validation_error
      | Some channel \<Rightarrow>
        if channel \<noteq> WECOM \<and> nullish target then validation_error
        else
          bindR (if nullish target then Inr base else validateOrderTargetAmount (Some channel) target) (\<lambda>current.
          bindR (channelPriceDifferenceExceedsThreshold (Num (IntNum base)) (Num (IntNum current))) (\<lambda>exceeds.
          if channel = WECOM then wecomDecision base current exceeds channelReason manualReason
          else channelDecision base current exceeds channelReason manualReason)))"

definition unpaidDecision :: "bool \<Rightarrow> js_value \<Rightarrow> int \<Rightarrow> string \<Rightarrow> string \<Rightarrow> pricing_decision result" where
  "unpaidDecision freeStay target base channelReason manualReason =
     (if \<not> nullish target then validation_error
      else if channelReason \<noteq> [] \<or> manualReason \<noteq> [] then validation_error
      else Inr \<lparr>pd_pricingBasis = (if freeStay then FREE_BASIS else MEMBER_ENTITLEMENT),
        pd_policyBaseAmountMinor = base, pd_currentContractAmountMinor = base,
        pd_differenceFromPolicyMinor = 0, pd_manualAdjustmentMinor = 0,
        pd_differenceExceedsThreshold = False,
        pd_reasonCode = (if freeStay then ''CREATE_ORDER_FREE'' else ''CREATE_ORDER_MEMBER''),
        pd_reasonNote = []\<rparr>)"

definition createOrderPricingDecision :: "pricing_decision_input \<Rightarrow> pricing_decision result" where
  "createOrderPricingDecision input =
     bindR (nonNegativePostgresAmount (in_policyBaseAmountMinor input)) (\<lambda>base.
     bindR (optionalPricingReason (in_channelPriceDifferenceReason input)) (\<lambda>channelReason.
     bindR (optionalPricingReason (in_manualPriceAdjustmentReason input)) (\<lambda>manualReason.
     let freeStay = in_stayType input = ''FREE'' in
     if freeStay \<or> in_memberStay input
     then unpaidDecision freeStay (in_targetCurrentContractAmountMinor input) base channelReason manualReason
     else paidDecision (in_bookingChannelCode input) (in_targetCurrentContractAmountMinor input) base channelReason manualReason)))"

fun basisName :: "pricing_basis \<Rightarrow> string" where
  "basisName POLICY = ''POLICY''"
| "basisName MANUAL_ADJUSTMENT = ''MANUAL_ADJUSTMENT''"
| "basisName CHANNEL_CONTRACT = ''CHANNEL_CONTRACT''"
| "basisName MEMBER_ENTITLEMENT = ''MEMBER_ENTITLEMENT''"
| "basisName FREE_BASIS = ''FREE''"

definition stayChangePricingDecision :: "string \<Rightarrow> pricing_decision_input \<Rightarrow> pricing_decision result" where
  "stayChangePricingDecision commandType input =
     bindR (createOrderPricingDecision input) (\<lambda>decision.
       let suffix = (if pd_pricingBasis decision = CHANNEL_CONTRACT then ''CHANNEL_CONTRACT''
                     else if pd_pricingBasis decision = MANUAL_ADJUSTMENT then ''MANUAL_PRICE''
                     else if pd_pricingBasis decision = MEMBER_ENTITLEMENT then ''MEMBER''
                     else basisName (pd_pricingBasis decision))
       in Inr (decision\<lparr>pd_reasonCode := commandType @ ''_'' @ suffix\<rparr>))"

fun requireTransactionReference :: "js_value \<Rightarrow> string result" where
  "requireTransactionReference (Str s) = (if trim s = [] then validation_error else Inr (trim s))"
| "requireTransactionReference _ = validation_error"

definition canRepriceOrder :: "string \<Rightarrow> string option \<Rightarrow> bool" where
  "canRepriceOrder status channel \<longleftrightarrow>
     status = ''RESERVED'' \<or> status = ''CHECKED_IN'' \<or>
     (status = ''CHECKED_OUT'' \<and> (channel = Some ''YOUMUDAO'' \<or> channel = Some ''CTRIP'' \<or> channel = Some ''MEITUAN''))"

section \<open>Channel recognition\<close>

datatype recognition_kind = SALE_KIND | CORRECTION_KIND

text \<open>The results are below the 32-bit bound, where the conversion from bigint is exact.\<close>

definition channelRecognitionDelta :: "recognition_kind \<Rightarrow> js_number \<Rightarrow> int \<Rightarrow> js_number \<Rightarrow> int result" where
  "channelRecognitionDelta kind prior net target =
     (if \<not> isSafeInteger prior \<or> \<not> isSafeInteger target \<or> intOf prior < 0 \<or> intOf target < 0
         \<or> intOf prior > 2147483600 \<or> intOf target > 2147483600 \<or> net < 0
      then validation_error
      else if kind = CORRECTION_KIND then
        (if net < intOf prior then validation_error
         else Inr (if net = intOf prior then intOf target - intOf prior
                   else if intOf target > net then intOf target - net else 0))
      else if intOf target \<le> intOf prior then Inr 0
      else if net < intOf prior then validation_error
      else Inr (if intOf target > net then intOf target - net else 0))"

section \<open>Lemmas\<close>

lemma nonNegativePostgresAmount_Inr:
  "nonNegativePostgresAmount v = Inr n \<longleftrightarrow> v = Num (IntNum n) \<and> 0 \<le> n \<and> n \<le> 2147483647"
proof (cases v)
  case (Num x)
  then show ?thesis by (cases x) (auto simp: safe_int_bounds postgresIntegerMaximum_def)
qed auto

declare nonNegativePostgresAmount.simps [simp del]

lemma nonNegativePostgresAmount_num [simp]:
  "0 \<le> n \<Longrightarrow> n \<le> 2147483647 \<Longrightarrow> nonNegativePostgresAmount (Num (IntNum n)) = Inr n"
  by (simp add: nonNegativePostgresAmount_Inr)

lemma validateOrderTargetAmount_channel:
  "validateOrderTargetAmount (Some c) v = Inr n \<longleftrightarrow>
     v = Num (IntNum n) \<and> 0 \<le> n \<and> n \<le> 2147483600 \<and> (c = WECOM \<longrightarrow> n \<noteq> 0)" (is "?L \<longleftrightarrow> ?R")
proof -
  have eq: "validateOrderTargetAmount (Some c) v = bindR (nonNegativePostgresAmount v) (\<lambda>amount.
        if amount > 2147483600 then validation_error
        else if c = WECOM \<and> amount = 0 then validation_error else Inr amount)"
    by (cases c) (simp_all add: validateOrderTargetAmount_def postgresWholeYuanMaximumMinor_def cong: if_cong)
  show ?thesis
  proof
    assume ?L
    then obtain m where "nonNegativePostgresAmount v = Inr m"
      "(if m > 2147483600 then validation_error else if c = WECOM \<and> m = 0 then validation_error else Inr m) = Inr n"
      unfolding eq bindR_eq_Inr by blast
    then show ?R unfolding nonNegativePostgresAmount_Inr by (simp split: if_splits)
  qed (unfold eq, auto)
qed

lemma validateOrderTargetAmount_none:
  "validateOrderTargetAmount None v = Inr n \<longleftrightarrow>
     v = Num (IntNum n) \<and> 0 \<le> n \<and> n \<le> 2147483600 \<and> n mod 100 = 0" (is "?L \<longleftrightarrow> ?R")
proof -
  have eq: "validateOrderTargetAmount None v = bindR (nonNegativePostgresAmount v) (\<lambda>amount.
        if amount > 2147483600 \<or> amount mod 100 \<noteq> 0 then validation_error else Inr amount)"
    by (simp add: validateOrderTargetAmount_def nonNegativeWholeYuanPostgresAmount_def postgresWholeYuanMaximumMinor_def)
  show ?thesis
  proof
    assume ?L
    then obtain m where "nonNegativePostgresAmount v = Inr m"
      "(if m > 2147483600 \<or> m mod 100 \<noteq> 0 then validation_error else Inr m) = Inr n"
      unfolding eq bindR_eq_Inr by blast
    then show ?R unfolding nonNegativePostgresAmount_Inr by (simp split: if_splits)
  qed (unfold eq, auto)
qed

lemma threshold_Inr:
  "channelPriceDifferenceExceedsThreshold (Num (IntNum b)) (Num (IntNum t)) = Inr e \<longleftrightarrow>
     0 \<le> b \<and> b \<le> 2147483647 \<and> 0 \<le> t \<and> t \<le> 2147483647 \<and> e = (\<bar>t - b\<bar> * 100 > b * 15)"
proof -
  have "(if t - b < 0 then - (t - b) else t - b) = \<bar>t - b\<bar>" by simp
  then show ?thesis
    by (auto simp: channelPriceDifferenceExceedsThreshold_def nonNegativePostgresAmount_Inr Let_def)
qed

text \<open>What each branch of an accepted decision guarantees.\<close>

definition decisionOk :: "pricing_decision_input \<Rightarrow> pricing_decision \<Rightarrow> bool" where
  "decisionOk input d \<longleftrightarrow>
     pd_currentContractAmountMinor d = pd_policyBaseAmountMinor d + pd_differenceFromPolicyMinor d \<and>
     0 \<le> pd_currentContractAmountMinor d \<and> pd_currentContractAmountMinor d \<le> 2147483647 \<and>
     (case pd_pricingBasis d of
        FREE_BASIS \<Rightarrow> in_stayType input = ''FREE'' \<and> pd_differenceFromPolicyMinor d = 0 \<and> pd_reasonNote d = []
      | MEMBER_ENTITLEMENT \<Rightarrow> in_memberStay input \<and> pd_differenceFromPolicyMinor d = 0 \<and> pd_reasonNote d = []
      | POLICY \<Rightarrow> in_bookingChannelCode input = Some WECOM \<and> pd_differenceFromPolicyMinor d = 0 \<and>
          0 < pd_currentContractAmountMinor d \<and> pd_reasonNote d = []
      | MANUAL_ADJUSTMENT \<Rightarrow> in_bookingChannelCode input = Some WECOM \<and> pd_differenceFromPolicyMinor d \<noteq> 0 \<and>
          0 < pd_currentContractAmountMinor d \<and> pd_reasonNote d \<noteq> [] \<and>
          pd_manualAdjustmentMinor d = pd_differenceFromPolicyMinor d
      | CHANNEL_CONTRACT \<Rightarrow> in_bookingChannelCode input \<notin> {None, Some WECOM} \<and> pd_manualAdjustmentMinor d = 0 \<and>
          (\<bar>pd_differenceFromPolicyMinor d\<bar> * 100 > pd_policyBaseAmountMinor d * 15 \<longrightarrow> pd_reasonNote d \<noteq> []))"

lemma unpaidDecision_ok:
  assumes "unpaidDecision (in_stayType input = ''FREE'') target base cr mr = Inr d" "0 \<le> base" "base \<le> 2147483647"
    "in_stayType input = ''FREE'' \<or> in_memberStay input"
  shows "decisionOk input d"
  using assms by (auto simp: unpaidDecision_def decisionOk_def split: if_splits)

lemma paidDecision_ok:
  assumes "paidDecision (in_bookingChannelCode input) target base cr mr = Inr d"
  shows "decisionOk input d"
proof -
  from assms obtain channel current exceeds where c: "in_bookingChannelCode input = Some channel"
    "channelPriceDifferenceExceedsThreshold (Num (IntNum base)) (Num (IntNum current)) = Inr exceeds"
    "(if channel = WECOM then wecomDecision base current exceeds cr mr else channelDecision base current exceeds cr mr) = Inr d"
    by (auto simp: paidDecision_def split: option.splits if_splits simp del: bindR_eq_Inr) (auto split: if_splits)
  from c(2) have t: "0 \<le> current" "current \<le> 2147483647" "exceeds = (\<bar>current - base\<bar> * 100 > base * 15)"
    unfolding threshold_Inr by auto
  show ?thesis
  proof (cases "channel = WECOM")
    case True
    with c t show ?thesis by (auto simp: wecomDecision_def decisionOk_def Let_def split: if_splits)
  next
    case False
    with c t show ?thesis by (auto simp: channelDecision_def decisionOk_def split: if_splits)
  qed
qed

section \<open>Properties\<close>

text \<open>
  C31: An accepted pricing decision is consistent in every branch (\<open>decisionOk\<close>): the contract
  amount is the policy base plus the reported difference and fits the ledger; free and member
  stays keep the base; an own-channel order has a positive amount and a reason exactly when it
  differs from the policy; an external order may differ by more than fifteen percent of the base
  only with a reason, and is never booked as a manual adjustment. A changed stay is decided by
  the same rules.
\<close>

theorem createOrderPricingDecision_consistent:
  assumes "stayChangePricingDecision commandType input = Inr d \<or> createOrderPricingDecision input = Inr d"
  shows "decisionOk input d"
proof -
  have create: "decisionOk input d" if "createOrderPricingDecision input = Inr d" for d
    using that unpaidDecision_ok paidDecision_ok
    by (auto simp: createOrderPricingDecision_def Let_def nonNegativePostgresAmount_Inr split: if_splits)
  moreover have "decisionOk input (d\<lparr>pd_reasonCode := c\<rparr>) = decisionOk input d" for d c
    by (simp add: decisionOk_def split: pricing_basis.splits)
  ultimately show ?thesis using assms by (auto simp: stayChangePricingDecision_def Let_def)
qed

lemma channel_example:
  "createOrderPricingDecision \<lparr>in_bookingChannelCode = Some CTRIP, in_stayType = ''TRANSIENT'', in_memberStay = False,
     in_policyBaseAmountMinor = Num (IntNum 10000), in_targetCurrentContractAmountMinor = Num (IntNum 12000),
     in_channelPriceDifferenceReason = Str ''promotion '', in_manualPriceAdjustmentReason = Undefined\<rparr>
   = Inr \<lparr>pd_pricingBasis = CHANNEL_CONTRACT, pd_policyBaseAmountMinor = 10000, pd_currentContractAmountMinor = 12000,
       pd_differenceFromPolicyMinor = 2000, pd_manualAdjustmentMinor = 0, pd_differenceExceedsThreshold = True,
       pd_reasonCode = ''CREATE_ORDER_CHANNEL_CONTRACT'', pd_reasonNote = ''promotion''\<rparr>"
  by code_simp

theorem createOrderPricingDecision_witness:
  "\<exists>input d. createOrderPricingDecision input = Inr d \<and> pd_pricingBasis d = CHANNEL_CONTRACT \<and>
     in_bookingChannelCode input \<noteq> Some WECOM \<and> decisionOk input d"
  using createOrderPricingDecision_consistent [OF disjI2, OF channel_example] channel_example
  by (intro exI conjI) auto

text \<open>
  Recognition of channel income brings the recognised net to the target exactly once: a
  sale that does not raise the contract recognises nothing; otherwise the new net is the target
  when it is above the old net, and the old net stays when a refund is still open. A correction
  of a fully recognised order moves the net to the target in both directions. Everything else,
  a net below the prior contract in particular, is refused.
\<close>

theorem channelRecognitionDelta_spec:
  "channelRecognitionDelta kind (IntNum prior) net (IntNum target) = Inr delta \<longleftrightarrow>
     0 \<le> prior \<and> prior \<le> 2147483600 \<and> 0 \<le> target \<and> target \<le> 2147483600 \<and> 0 \<le> net \<and>
     (if kind = SALE_KIND \<and> target \<le> prior then delta = 0
      else prior \<le> net \<and> net + delta = (if kind = CORRECTION_KIND \<and> net = prior then target else max net target))"
proof -
  have safe: "safe_int n" if "0 \<le> n" "n \<le> 2147483600" for n using that by (simp add: safe_int_bounds)
  show ?thesis
  proof (cases "0 \<le> prior \<and> prior \<le> 2147483600 \<and> 0 \<le> target \<and> target \<le> 2147483600 \<and> 0 \<le> net")
    case True
    then show ?thesis using safe [of prior] safe [of target]
      by (cases kind) (auto simp: channelRecognitionDelta_def)
  next
    case False
    then show ?thesis by (auto simp: channelRecognitionDelta_def)
  qed
qed

text \<open>
  A target amount is accepted exactly when it is a whole number of minor units within the
  ledger's range; an own-channel order may not be free, and without an ordinary channel (a member
  order) the amount must be whole yuan.
\<close>

theorem validateOrderTargetAmount_iff:
  "validateOrderTargetAmount channel v = Inr n \<longleftrightarrow>
     v = Num (IntNum n) \<and> 0 \<le> n \<and> n \<le> 2147483600 \<and>
     (channel = Some WECOM \<longrightarrow> n \<noteq> 0) \<and> (channel = None \<longrightarrow> n mod 100 = 0)"
  using validateOrderTargetAmount_channel validateOrderTargetAmount_none by (cases channel) auto

theorem validateOrderTargetAmount_witness:
  "validateOrderTargetAmount (Some WECOM) (Num (IntNum 0)) \<noteq> Inr 0 \<and> validateOrderTargetAmount None (Num (IntNum 500)) = Inr 500"
  by (simp add: validateOrderTargetAmount_iff)

end
