(* ===== verification/Inventory.thy ===== *)
theory Inventory
  imports Pricing
begin

text \<open>
  Inventory: \<^verbatim>\<open>packages/db/src/inventory.ts\<close> and \<^verbatim>\<open>departure-day-stays.ts\<close>. The tables the two
  files read and write are lists of row records; a query is a filter, an UPDATE a map over the
  matching rows together with their number, \<^verbatim>\<open>ON CONFLICT DO NOTHING\<close> an append that is skipped
  when the key exists, and a violated primary key an uncaught error. The identifiers drawn by
  \<^verbatim>\<open>newId\<close> are an argument (one per claim). The local date of a property (time zone data) and
  the order view of \<^verbatim>\<open>getOrderViewSnapshot\<close> are arguments; the checks made on them are
  modelled. SQL orders are the order of the code units. Time stamps and the database triggers
  are not modelled.

  Shown: the day pointers and the active claims agree in every reachable state; no room and no
  bed is booked twice on a night, and a room is never sold whole while one of its beds is; the
  check before a booking and the availability list agree; releasing never fails on a
  consistent store.
\<close>

section \<open>Tables\<close>

record unit_row =
  u_id :: string
  u_propertyId :: string
  u_kind :: inventory_unit_kind
  u_parentRoomId :: "string option"
  u_code :: string
  u_name :: string
  u_active :: bool
  u_catalogVersion :: "string option"
  u_buildingCode :: "string option"
  u_roomTypeCode :: "string option"
  u_pricingProductCode :: "string option"
  u_inventoryBasis :: "string option"
  u_codeProvenance :: "string option"
  u_physicalBedCount :: "int option"
  u_occupancyCapacity :: int

datatype claim_source = ORDER_SEGMENT | MAINTENANCE | INTERNAL_USE

record claim_row =
  c_id :: string
  c_propertyId :: string
  c_roomId :: string
  c_inventoryUnitId :: string
  c_serviceDate :: string
  c_sourceType :: claim_source
  c_sourceId :: string
  c_active :: bool

record room_day_row =
  rd_roomId :: string
  rd_serviceDate :: string
  rd_wholeClaimId :: "string option"
  rd_version :: int

record bed_day_row =
  bd_roomId :: string
  bd_bedId :: string
  bd_serviceDate :: string
  bd_bedClaimId :: "string option"
  bd_version :: int

record block_row =
  ib_id :: string
  ib_propertyId :: string
  ib_inventoryUnitId :: string
  ib_roomId :: string
  ib_arrivalDate :: string
  ib_departureDate :: string
  ib_active :: bool

record order_row =
  o_id :: string
  o_propertyId :: string
  o_status :: string
  o_departureDate :: string

text \<open>The join of stays and stay segments.\<close>

record segment_row =
  s_orderId :: string
  s_stayId :: string
  s_segmentId :: string
  s_inventoryUnitId :: string
  s_sequence :: int

text \<open>The properties table gives the local date of each property at the transaction's time.\<close>

record inventory_db =
  t_units :: "unit_row list"
  t_claims :: "claim_row list"
  t_roomDays :: "room_day_row list"
  t_bedDays :: "bed_day_row list"
  t_blocks :: "block_row list"
  t_orders :: "order_row list"
  t_segments :: "segment_row list"
  t_localDates :: "(string \<times> string) list"

section \<open>Units and blockers\<close>

datatype inventory_purpose = LODGING_NIGHTS | PHYSICAL_USE

record inventory_unit_record =
  r_id :: string
  r_propertyId :: string
  r_kind :: inventory_unit_kind
  r_roomId :: string
  r_code :: string
  r_name :: string
  r_catalogVersion :: "string option"
  r_buildingCode :: "string option"
  r_roomTypeCode :: "string option"
  r_pricingProductCode :: "string option"
  r_inventoryBasis :: "string option"
  r_codeProvenance :: "string option"
  r_physicalBedCount :: "int option"
  r_occupancyCapacity :: int

text \<open>The parent of a bed is not null (a CHECK of the table); a missing one reads as the empty string.\<close>

definition roomIdOf :: "unit_row \<Rightarrow> string" where
  "roomIdOf row = (if u_kind row = ROOM then u_id row else case u_parentRoomId row of Some p \<Rightarrow> p | None \<Rightarrow> [])"

definition unitRecord :: "unit_row \<Rightarrow> inventory_unit_record" where
  "unitRecord row =
     \<lparr>r_id = u_id row, r_propertyId = u_propertyId row, r_kind = u_kind row, r_roomId = roomIdOf row,
      r_code = u_code row, r_name = u_name row, r_catalogVersion = u_catalogVersion row,
      r_buildingCode = u_buildingCode row, r_roomTypeCode = u_roomTypeCode row,
      r_pricingProductCode = u_pricingProductCode row, r_inventoryBasis = u_inventoryBasis row,
      r_codeProvenance = u_codeProvenance row, r_physicalBedCount = u_physicalBedCount row,
      r_occupancyCapacity = u_occupancyCapacity row\<rparr>"

definition loadInventoryUnitRecord ::
  "inventory_db \<Rightarrow> string \<Rightarrow> string \<Rightarrow> bool \<Rightarrow> inventory_unit_record result" where
  "loadInventoryUnitRecord db propertyId unitId requireActive =
     (case find (\<lambda>u. u_id u = unitId \<and> u_propertyId u = propertyId \<and> (requireActive \<longrightarrow> u_active u)) (t_units db) of
        None \<Rightarrow> throw NOT_FOUND 404
      | Some row \<Rightarrow>
          if requireActive \<and> u_kind row = BED \<and>
             find (\<lambda>u. Some (u_id u) = u_parentRoomId row \<and> u_propertyId u = propertyId \<and> u_active u) (t_units db) = None
          then throw NOT_FOUND 404
          else Inr (unitRecord row))"

definition loadInventoryUnit :: "inventory_db \<Rightarrow> string \<Rightarrow> string \<Rightarrow> inventory_unit_record result" where
  "loadInventoryUnit db propertyId unitId = loadInventoryUnitRecord db propertyId unitId True"

definition loadInventoryUnitIncludingInactive :: "inventory_db \<Rightarrow> string \<Rightarrow> string \<Rightarrow> inventory_unit_record result" where
  "loadInventoryUnitIncludingInactive db propertyId unitId = loadInventoryUnitRecord db propertyId unitId False"

record deferred_unavailable_blocker =
  du_id :: string
  du_inventoryUnitId :: string
  du_roomId :: string
  du_arrivalDate :: string
  du_departureDate :: string

definition loadDeferredUnavailableBlockers ::
  "inventory_db \<Rightarrow> string \<Rightarrow> string list \<Rightarrow> deferred_unavailable_blocker list" where
  "loadDeferredUnavailableBlockers db propertyId dates =
     (if dates = [] then []
      else
        let firstDate = hd (sortBy (\<le>) dates); lastDate = last (sortBy (\<le>) dates) in
        map (\<lambda>row. \<lparr>du_id = ib_id row, du_inventoryUnitId = ib_inventoryUnitId row, du_roomId = ib_roomId row,
                    du_arrivalDate = ib_arrivalDate row, du_departureDate = ib_departureDate row\<rparr>)
          (sortBy (\<lambda>a b. ib_id a \<le> ib_id b)
            (filter (\<lambda>row. ib_propertyId row = propertyId \<and> ib_active row \<and>
                ib_arrivalDate row \<le> lastDate \<and> ib_departureDate row > firstDate) (t_blocks db))))"

definition deferredUnavailableBlockerAffectsUnit ::
  "deferred_unavailable_blocker \<Rightarrow> string \<Rightarrow> inventory_unit_kind \<Rightarrow> string \<Rightarrow> bool" where
  "deferredUnavailableBlockerAffectsUnit blocker unitId kind roomId \<longleftrightarrow>
     du_roomId blocker = roomId \<and>
     (kind = ROOM \<or> du_inventoryUnitId blocker = du_roomId blocker \<or> du_inventoryUnitId blocker = unitId)"

record departure_day_stay_blocker =
  db_orderId :: string
  db_stayId :: string
  db_segmentId :: string
  db_inventoryUnitId :: string
  db_roomId :: string
  db_serviceDate :: string

text \<open>The rows of the segment query: the join with the units keeps segments of known units.\<close>

definition segmentRows :: "inventory_db \<Rightarrow> string list \<Rightarrow> (segment_row \<times> unit_row) list" where
  "segmentRows db orderIds =
     sortBy (\<lambda>(a, _) (b, _). s_orderId a < s_orderId b \<or> s_orderId a = s_orderId b \<and> s_sequence a \<ge> s_sequence b)
       (List.map_filter (\<lambda>s. case find (\<lambda>u. u_id u = s_inventoryUnitId s) (t_units db) of
            Some u \<Rightarrow> Some (s, u) | None \<Rightarrow> None)
          (filter (\<lambda>s. s_orderId s \<in> set orderIds) (t_segments db)))"

definition latestByOrder :: "(segment_row \<times> unit_row) list \<Rightarrow> (string \<times> segment_row \<times> unit_row) list" where
  "latestByOrder rows =
     fold (\<lambda>row m. if jmap_get m (s_orderId (fst row)) = None then jmap_set (s_orderId (fst row)) row m else m) rows []"

definition loadDepartureDayStayBlockers ::
  "inventory_db \<Rightarrow> string \<Rightarrow> string list \<Rightarrow> departure_day_stay_blocker list result" where
  "loadDepartureDayStayBlockers db propertyId dates =
     (if dates = [] then Inr []
      else case map_of (t_localDates db) propertyId of
        None \<Rightarrow> throw NOT_FOUND 404
      | Some businessDate \<Rightarrow>
        if businessDate \<notin> set dates then Inr []
        else
          let orderIds = map o_id (sortBy (\<lambda>a b. o_id a \<le> o_id b)
                (filter (\<lambda>ord. o_propertyId ord = propertyId \<and> o_departureDate ord = businessDate
                              \<and> o_status ord = ''CHECKED_IN'') (t_orders db))) in
          if orderIds = [] then Inr []
          else Inr (map (\<lambda>(_, s, u). \<lparr>db_orderId = s_orderId s, db_stayId = s_stayId s, db_segmentId = s_segmentId s,
                 db_inventoryUnitId = s_inventoryUnitId s,
                 db_roomId = (if u_kind u = ROOM then s_inventoryUnitId s
                              else case u_parentRoomId u of Some p \<Rightarrow> p | None \<Rightarrow> []),
                 db_serviceDate = businessDate\<rparr>)
               (latestByOrder (segmentRows db orderIds))))"

definition departureDayBlockerAffectsUnit ::
  "departure_day_stay_blocker \<Rightarrow> string \<Rightarrow> inventory_unit_kind \<Rightarrow> string \<Rightarrow> bool" where
  "departureDayBlockerAffectsUnit blocker unitId kind roomId \<longleftrightarrow>
     db_roomId blocker = roomId \<and>
     (kind = ROOM \<or> db_inventoryUnitId blocker = db_roomId blocker \<or> db_inventoryUnitId blocker = unitId)"

definition previousStayAwaitingCheckout ::
  "inventory_db \<Rightarrow> string \<Rightarrow> string \<Rightarrow> string \<Rightarrow> string \<Rightarrow> bool result" where
  "previousStayAwaitingCheckout db propertyId unitId businessDate orderId =
     (case find (\<lambda>u. u_propertyId u = propertyId \<and> u_id u = unitId) (t_units db) of
        None \<Rightarrow> throw NOT_FOUND 404
      | Some row \<Rightarrow>
          bindR (loadDepartureDayStayBlockers db propertyId [businessDate]) (\<lambda>blockers.
            Inr (list_ex (\<lambda>b. db_orderId b \<noteq> orderId \<and>
              departureDayBlockerAffectsUnit b (u_id row) (u_kind row) (roomIdOf row)) blockers)))"

text \<open>
  What the order view of a blocking stay reports: the states, whether the source metadata is
  damaged, who pays, whether member coverage exists, and the outcome of the money check.
\<close>

record order_view =
  ov_orderStatus :: string
  ov_stayStatus :: string
  ov_metadataDamaged :: bool
  ov_stayType :: stay_type
  ov_memberOrContract :: bool
  ov_bookingChannelCode :: "string option"
  ov_coverageEmpty :: bool
  ov_moneyCheck :: "unit result"

text \<open>The body of the try block: whether a blocking stay counts as damaged, or what it throws.\<close>

definition blockerDamaged :: "order_view result \<Rightarrow> bool result" where
  "blockerDamaged viewResult =
     bindR viewResult (\<lambda>view.
       if ov_orderStatus view \<noteq> ''CHECKED_IN'' \<or> ov_stayStatus view \<noteq> ''IN_HOUSE'' \<or> ov_metadataDamaged view
       then Inr True
       else if ov_stayType view \<noteq> FREE \<and> \<not> ov_memberOrContract view
          \<and> (ov_bookingChannelCode view = None \<or> ov_bookingChannelCode view = Some ''WECOM'')
       then (if \<not> ov_coverageEmpty view then internal_error
             else bindR (ov_moneyCheck view) (\<lambda>_. Inr False))
       else Inr False)"

fun damagedBlockers ::
  "(string \<Rightarrow> order_view result) \<Rightarrow> departure_day_stay_blocker list \<Rightarrow> departure_day_stay_blocker list result" where
  "damagedBlockers getOrderViewSnapshot [] = Inr []"
| "damagedBlockers getOrderViewSnapshot (b # bs) =
     (case blockerDamaged (getOrderViewSnapshot (db_orderId b)) of
        Inl Uncaught \<Rightarrow> uncaught
      | Inl (Raised e) \<Rightarrow> bindR (damagedBlockers getOrderViewSnapshot bs) (\<lambda>ds. Inr (b # ds))
      | Inr damaged \<Rightarrow> bindR (damagedBlockers getOrderViewSnapshot bs) (\<lambda>ds. Inr (if damaged then b # ds else ds)))"

text \<open>The scope of the query: restricted to what affects one unit, or to none.\<close>

definition loadInventoryDepartureBlockers ::
  "(string \<Rightarrow> order_view result) \<Rightarrow> inventory_db \<Rightarrow> string \<Rightarrow> string list \<Rightarrow> inventory_purpose
     \<Rightarrow> inventory_unit_record option \<Rightarrow> string list \<Rightarrow> departure_day_stay_blocker list result" where
  "loadInventoryDepartureBlockers getOrderViewSnapshot db propertyId dates purpose unit excludeSourceIds =
     bindR (loadDepartureDayStayBlockers db propertyId dates) (\<lambda>all.
       let blockers = filter (\<lambda>b. db_segmentId b \<notin> set excludeSourceIds \<and>
             (case unit of None \<Rightarrow> True | Some u \<Rightarrow> departureDayBlockerAffectsUnit b (r_id u) (r_kind u) (r_roomId u))) all
       in if purpose \<noteq> LODGING_NIGHTS then Inr blockers else damagedBlockers getOrderViewSnapshot blockers)"

section \<open>Availability\<close>

record availability_night =
  an_serviceDate :: string
  an_available :: bool
  an_blockingClaimIds :: "string list"

record unit_availability =
  ua_unit :: inventory_unit_record
  ua_nights :: "availability_night list"
  ua_available :: bool

definition claimBlocks :: "string list \<Rightarrow> string \<Rightarrow> string \<Rightarrow> inventory_unit_kind \<Rightarrow> string \<Rightarrow> claim_row \<Rightarrow> bool" where
  "claimBlocks excludedSegmentIds serviceDate unitId kind roomId c \<longleftrightarrow>
     (c_sourceType c \<noteq> ORDER_SEGMENT \<or> c_sourceId c \<notin> set excludedSegmentIds) \<and>
     c_serviceDate c = serviceDate \<and> c_roomId c = roomId \<and>
     (kind = ROOM \<or> c_inventoryUnitId c = roomId \<or> c_inventoryUnitId c = unitId)"

definition nightAvailability ::
  "claim_row list \<Rightarrow> departure_day_stay_blocker list \<Rightarrow> deferred_unavailable_blocker list \<Rightarrow> string list
     \<Rightarrow> string option \<Rightarrow> inventory_unit_record \<Rightarrow> string \<Rightarrow> availability_night" where
  "nightAvailability claims stayBlockers deferred excludedSegmentIds excludeOrderId unit serviceDate =
     (let blocking = filter (claimBlocks excludedSegmentIds serviceDate (r_id unit) (r_kind unit) (r_roomId unit)) claims;
          blockingStays = filter (\<lambda>b. Some (db_orderId b) \<noteq> excludeOrderId \<and> db_serviceDate b = serviceDate \<and>
             departureDayBlockerAffectsUnit b (r_id unit) (r_kind unit) (r_roomId unit)) stayBlockers;
          blockingDeferred = filter (\<lambda>b. du_arrivalDate b \<le> serviceDate \<and> serviceDate < du_departureDate b \<and>
             deferredUnavailableBlockerAffectsUnit b (r_id unit) (r_kind unit) (r_roomId unit)) deferred
      in \<lparr>an_serviceDate = serviceDate,
          an_available = (blocking = [] \<and> blockingStays = [] \<and> blockingDeferred = []),
          an_blockingClaimIds = map c_id blocking\<rparr>)"

text \<open>The excluded order: its segments, and the purpose, which an in-house order overrides.\<close>

definition excludedOrder ::
  "inventory_db \<Rightarrow> string \<Rightarrow> string option \<Rightarrow> inventory_purpose \<Rightarrow> (string list \<times> inventory_purpose) result" where
  "excludedOrder db propertyId excludeOrderId purpose =
     (case excludeOrderId of
        None \<Rightarrow> Inr ([], purpose)
      | Some oid \<Rightarrow>
        if oid = [] then Inr ([], purpose)
        else case find (\<lambda>ord. o_id ord = oid \<and> o_propertyId ord = propertyId) (t_orders db) of
          None \<Rightarrow> throw NOT_FOUND 404
        | Some order \<Rightarrow>
            Inr (map s_segmentId (filter (\<lambda>s. s_orderId s = oid) (t_segments db)),
                 if o_status order = ''CHECKED_IN'' then PHYSICAL_USE else purpose))"

definition activeClaimsBetween :: "inventory_db \<Rightarrow> string \<Rightarrow> string \<Rightarrow> string \<Rightarrow> claim_row list" where
  "activeClaimsBetween db propertyId arrivalDate departureDate =
     filter (\<lambda>c. c_propertyId c = propertyId \<and> c_active c \<and> c_serviceDate c \<ge> arrivalDate \<and> c_serviceDate c < departureDate)
       (t_claims db)"

text \<open>The units offered: active ones in code order whose room is active.\<close>

definition saleableUnits ::
  "(unit_row \<Rightarrow> string) \<Rightarrow> inventory_db \<Rightarrow> string \<Rightarrow> inventory_unit_kind option \<Rightarrow> unit_row list" where
  "saleableUnits catalogName db propertyId kind =
     (let candidates = map (\<lambda>u. u\<lparr>u_name := catalogName u\<rparr>) (sortBy (\<lambda>a b. u_code a \<le> u_code b)
            (filter (\<lambda>u. u_propertyId u = propertyId \<and> u_active u \<and> (kind = None \<or> kind = Some (u_kind u))) (t_units db)));
          activeRooms = map u_id (filter (\<lambda>u. u_propertyId u = propertyId \<and> u_kind u = ROOM \<and> u_active u) (t_units db))
      in filter (\<lambda>u. u_kind u = ROOM \<or> roomIdOf u \<in> set activeRooms) candidates)"

definition listAvailability ::
  "(string \<Rightarrow> order_view result) \<Rightarrow> (unit_row \<Rightarrow> string) \<Rightarrow> inventory_db \<Rightarrow> string \<Rightarrow> string \<Rightarrow> string
     \<Rightarrow> inventory_unit_kind option \<Rightarrow> string option \<Rightarrow> inventory_purpose \<Rightarrow> unit_availability list result" where
  "listAvailability getOrderViewSnapshot catalogName db propertyId arrivalDate departureDate kind excludeOrderId purpose0 =
     bindR (enumerateServiceDates arrivalDate departureDate) (\<lambda>dates.
     bindR (excludedOrder db propertyId excludeOrderId purpose0) (\<lambda>(excludedSegmentIds, purpose).
     let units = saleableUnits catalogName db propertyId kind;
         claims = activeClaimsBetween db propertyId arrivalDate departureDate in
     bindR (loadInventoryDepartureBlockers getOrderViewSnapshot db propertyId dates purpose None excludedSegmentIds) (\<lambda>stayBlockers.
     let deferred = loadDeferredUnavailableBlockers db propertyId dates in
     Inr (map (\<lambda>row.
            let unit = unitRecord row;
                nights = map (nightAvailability claims stayBlockers deferred excludedSegmentIds excludeOrderId unit) dates
            in \<lparr>ua_unit = unit, ua_nights = nights, ua_available = list_all an_available nights\<rparr>) units))))"

definition inventoryFingerprint ::
  "(string \<Rightarrow> order_view result) \<Rightarrow> inventory_db \<Rightarrow> string \<Rightarrow> string \<Rightarrow> string \<Rightarrow> string \<Rightarrow> string list
     \<Rightarrow> inventory_purpose \<Rightarrow> string list result" where
  "inventoryFingerprint getOrderViewSnapshot db propertyId unitId arrivalDate departureDate excludeSourceIds purpose =
     bindR (loadInventoryUnit db propertyId unitId) (\<lambda>unit.
     bindR (enumerateServiceDates arrivalDate departureDate) (\<lambda>dates.
     let claims = sortBy (\<lambda>a b. c_serviceDate a < c_serviceDate b \<or> c_serviceDate a = c_serviceDate b \<and> c_id a \<le> c_id b)
           (filter (\<lambda>c. c_roomId c = r_roomId unit \<and> c_sourceId c \<notin> set excludeSourceIds)
             (activeClaimsBetween db propertyId arrivalDate departureDate));
         claimFingerprint = map (\<lambda>c. c_serviceDate c @ '':'' @ c_inventoryUnitId c @ '':'' @ c_id c)
           (filter (\<lambda>c. r_kind unit = ROOM \<or> c_inventoryUnitId c = r_roomId unit \<or> c_inventoryUnitId c = r_id unit) claims) in
     bindR (loadInventoryDepartureBlockers getOrderViewSnapshot db propertyId dates purpose (Some unit) excludeSourceIds) (\<lambda>stays.
     let stayFingerprint = map (\<lambda>b. db_serviceDate b @ '':DEPARTURE_DAY_STAY:'' @ db_inventoryUnitId b @ '':'' @ db_stayId b) stays;
         deferredFingerprint = concat (map (\<lambda>b. map (\<lambda>d. d @ '':LEGACY_UNAVAILABLE:'' @ du_inventoryUnitId b @ '':'' @ du_id b)
             (filter (\<lambda>d. du_arrivalDate b \<le> d \<and> d < du_departureDate b) dates))
           (filter (\<lambda>b. deferredUnavailableBlockerAffectsUnit b (r_id unit) (r_kind unit) (r_roomId unit))
             (loadDeferredUnavailableBlockers db propertyId dates)))
     in Inr (claimFingerprint @ stayFingerprint @ deferredFingerprint))))"

section \<open>Locking\<close>

definition insertRoomDay :: "string \<times> string \<Rightarrow> inventory_db \<Rightarrow> inventory_db" where
  "insertRoomDay item db =
     (if list_ex (\<lambda>r. rd_roomId r = fst item \<and> rd_serviceDate r = snd item) (t_roomDays db) then db
      else db\<lparr>t_roomDays := t_roomDays db @ [\<lparr>rd_roomId = fst item, rd_serviceDate = snd item,
              rd_wholeClaimId = None, rd_version = 0\<rparr>]\<rparr>)"

text \<open>
  The keys are sorted by \<^verbatim>\<open>localeCompare\<close>, an argument: the order fixes the order of the row
  locks, the resulting set of rows does not depend on it.
\<close>

definition lockRoomDays ::
  "(string \<Rightarrow> string \<Rightarrow> bool) \<Rightarrow> (string \<times> string) list \<Rightarrow> inventory_db \<Rightarrow> inventory_db" where
  "lockRoomDays localeLe roomDates db =
     (let unique = map snd (jmap_of (map (\<lambda>item. (fst item @ '':'' @ snd item, item)) roomDates));
          sorted = sortBy (\<lambda>a b. localeLe (fst a @ '':'' @ snd a) (fst b @ '':'' @ snd b)) unique
      in fold insertRoomDay sorted db)"

definition lockUnitDates ::
  "(string \<Rightarrow> string \<Rightarrow> bool) \<Rightarrow> inventory_db \<Rightarrow> string \<Rightarrow> string \<Rightarrow> string \<Rightarrow> string \<Rightarrow> bool
     \<Rightarrow> (inventory_unit_record \<times> inventory_db) result" where
  "lockUnitDates localeLe db propertyId unitId arrivalDate departureDate allowInactive =
     bindR (if allowInactive then loadInventoryUnitIncludingInactive db propertyId unitId
            else loadInventoryUnit db propertyId unitId) (\<lambda>unit.
     bindR (enumerateServiceDates arrivalDate departureDate) (\<lambda>dates.
       Inr (unit, lockRoomDays localeLe (map (\<lambda>d. (r_roomId unit, d)) dates) db)))"

section \<open>Checking and claiming\<close>

abbreviation inventory_conflict :: "'a result" where
  "inventory_conflict \<equiv> throw INVENTORY_CONFLICT 409"

definition claimById :: "inventory_db \<Rightarrow> string \<Rightarrow> claim_row option" where
  "claimById db i = find (\<lambda>c. c_id c = i) (t_claims db)"

text \<open>An empty claim id is falsy and reads as no claim.\<close>

definition truthyId :: "string option \<Rightarrow> string option" where
  "truthyId i = (case i of Some s \<Rightarrow> if s = [] then None else Some s | None \<Rightarrow> None)"

definition checkWhole :: "inventory_db \<Rightarrow> string \<Rightarrow> string \<Rightarrow> string list \<Rightarrow> unit result" where
  "checkWhole db roomId serviceDate excludeSourceIds =
     (case find (\<lambda>r. rd_roomId r = roomId \<and> rd_serviceDate r = serviceDate) (t_roomDays db) of
        None \<Rightarrow> uncaught
      | Some roomDay \<Rightarrow>
        (case truthyId (rd_wholeClaimId roomDay) of
           None \<Rightarrow> Inr ()
         | Some i \<Rightarrow> (case claimById db i of
               None \<Rightarrow> Inr ()
             | Some c \<Rightarrow> if c_sourceId c \<notin> set excludeSourceIds then inventory_conflict else Inr ())))"

definition checkBeds :: "inventory_db \<Rightarrow> string \<Rightarrow> string \<Rightarrow> string list \<Rightarrow> unit result" where
  "checkBeds db roomId serviceDate excludeSourceIds =
     (if list_ex (\<lambda>bd. bd_roomId bd = roomId \<and> bd_serviceDate bd = serviceDate \<and>
           list_ex (\<lambda>c. Some (c_id c) = bd_bedClaimId bd \<and> c_active c \<and> c_sourceId c \<notin> set excludeSourceIds) (t_claims db))
         (t_bedDays db)
      then inventory_conflict else Inr ())"

definition checkBed :: "inventory_db \<Rightarrow> string \<Rightarrow> string \<Rightarrow> string list \<Rightarrow> unit result" where
  "checkBed db bedId serviceDate excludeSourceIds =
     (case find (\<lambda>bd. bd_bedId bd = bedId \<and> bd_serviceDate bd = serviceDate) (t_bedDays db) of
        None \<Rightarrow> Inr ()
      | Some bd \<Rightarrow>
        (case truthyId (bd_bedClaimId bd) of
           None \<Rightarrow> Inr ()
         | Some i \<Rightarrow> (case claimById db i of
               None \<Rightarrow> inventory_conflict
             | Some c \<Rightarrow> if c_sourceId c = [] \<or> c_sourceId c \<notin> set excludeSourceIds then inventory_conflict else Inr ())))"

definition assertNight ::
  "inventory_db \<Rightarrow> inventory_unit_record \<Rightarrow> departure_day_stay_blocker list \<Rightarrow> deferred_unavailable_blocker list
     \<Rightarrow> string list \<Rightarrow> string \<Rightarrow> unit result" where
  "assertNight db unit stayBlockers deferred excludeSourceIds serviceDate =
     (if list_ex (\<lambda>b. db_serviceDate b = serviceDate) stayBlockers then inventory_conflict
      else if list_ex (\<lambda>b. du_arrivalDate b \<le> serviceDate \<and> serviceDate < du_departureDate b) deferred then inventory_conflict
      else bindR (checkWhole db (r_roomId unit) serviceDate excludeSourceIds) (\<lambda>_.
        if r_kind unit = ROOM then checkBeds db (r_roomId unit) serviceDate excludeSourceIds
        else checkBed db (r_id unit) serviceDate excludeSourceIds))"

definition assertUnitAvailable ::
  "(string \<Rightarrow> order_view result) \<Rightarrow> inventory_db \<Rightarrow> inventory_unit_record \<Rightarrow> string list \<Rightarrow> string list
     \<Rightarrow> inventory_purpose \<Rightarrow> unit result" where
  "assertUnitAvailable getOrderViewSnapshot db unit dates excludeSourceIds purpose =
     bindR (loadInventoryDepartureBlockers getOrderViewSnapshot db (r_propertyId unit) dates purpose (Some unit) excludeSourceIds)
       (\<lambda>stayBlockers.
     let deferred = filter (\<lambda>b. du_id b \<notin> set excludeSourceIds \<and>
           deferredUnavailableBlockerAffectsUnit b (r_id unit) (r_kind unit) (r_roomId unit))
           (loadDeferredUnavailableBlockers db (r_propertyId unit) dates)
     in bindR (mapR (assertNight db unit stayBlockers deferred excludeSourceIds) dates) (\<lambda>_. Inr ()))"

definition insertClaim :: "claim_row \<Rightarrow> inventory_db \<Rightarrow> inventory_db result" where
  "insertClaim c db =
     (if list_ex (\<lambda>c'. c_id c' = c_id c) (t_claims db) then uncaught
      else Inr (db\<lparr>t_claims := t_claims db @ [c]\<rparr>))"

definition pointRoom :: "string \<Rightarrow> string \<Rightarrow> string \<Rightarrow> inventory_db \<Rightarrow> inventory_db" where
  "pointRoom roomId serviceDate claimId db =
     db\<lparr>t_roomDays := updateWhere (\<lambda>r. rd_roomId r = roomId \<and> rd_serviceDate r = serviceDate)
           (\<lambda>r. r\<lparr>rd_wholeClaimId := Some claimId, rd_version := rd_version r + 1\<rparr>) (t_roomDays db)\<rparr>"

definition insertBedDay :: "string \<Rightarrow> string \<Rightarrow> string \<Rightarrow> inventory_db \<Rightarrow> inventory_db" where
  "insertBedDay roomId bedId serviceDate db =
     (if list_ex (\<lambda>r. bd_bedId r = bedId \<and> bd_serviceDate r = serviceDate) (t_bedDays db) then db
      else db\<lparr>t_bedDays := t_bedDays db @ [\<lparr>bd_roomId = roomId, bd_bedId = bedId, bd_serviceDate = serviceDate,
              bd_bedClaimId = None, bd_version = 0\<rparr>]\<rparr>)"

definition pointBed :: "string \<Rightarrow> string \<Rightarrow> string \<Rightarrow> inventory_db \<Rightarrow> inventory_db" where
  "pointBed bedId serviceDate claimId db =
     db\<lparr>t_bedDays := updateWhere (\<lambda>r. bd_bedId r = bedId \<and> bd_serviceDate r = serviceDate)
           (\<lambda>r. r\<lparr>bd_bedClaimId := Some claimId, bd_version := bd_version r + 1\<rparr>) (t_bedDays db)\<rparr>"

record claim_options =
  co_propertyId :: string
  co_unit :: inventory_unit_record
  co_sourceType :: claim_source
  co_sourceId :: string

definition claimNight :: "claim_options \<Rightarrow> inventory_db \<Rightarrow> string \<times> string \<Rightarrow> inventory_db result" where
  "claimNight opts db night =
     (let serviceDate = fst night; claimId = snd night; unit = co_unit opts in
      bindR (insertClaim \<lparr>c_id = claimId, c_propertyId = co_propertyId opts, c_roomId = r_roomId unit,
               c_inventoryUnitId = r_id unit, c_serviceDate = serviceDate, c_sourceType = co_sourceType opts,
               c_sourceId = co_sourceId opts, c_active = True\<rparr> db) (\<lambda>db1.
        if r_kind unit = ROOM then Inr (pointRoom (r_roomId unit) serviceDate claimId db1)
        else Inr (pointBed (r_id unit) serviceDate claimId (insertBedDay (r_roomId unit) (r_id unit) serviceDate db1))))"

text \<open>The claim ids, one per date, are those \<^verbatim>\<open>newId\<close> returns.\<close>

definition createInventoryClaims ::
  "(string \<Rightarrow> order_view result) \<Rightarrow> inventory_db \<Rightarrow> claim_options \<Rightarrow> string list \<Rightarrow> string list \<Rightarrow> inventory_purpose
     \<Rightarrow> string list \<Rightarrow> (string list \<times> inventory_db) result" where
  "createInventoryClaims getOrderViewSnapshot db opts dates excludeSourceIds purpose newIds =
     bindR (assertUnitAvailable getOrderViewSnapshot db (co_unit opts) dates excludeSourceIds purpose) (\<lambda>_.
     bindR (foldR (claimNight opts) db (zip dates newIds)) (\<lambda>db'. Inr (take (length dates) newIds, db')))"

section \<open>Releasing\<close>

definition releasePointer :: "claim_row \<Rightarrow> inventory_unit_kind \<Rightarrow> inventory_db \<Rightarrow> nat \<times> inventory_db" where
  "releasePointer c kind db =
     (if kind = ROOM then
        let P = (\<lambda>r. rd_roomId r = c_roomId c \<and> rd_serviceDate r = c_serviceDate c \<and> rd_wholeClaimId r = Some (c_id c))
        in (countWhere P (t_roomDays db),
            db\<lparr>t_roomDays := updateWhere P (\<lambda>r. r\<lparr>rd_wholeClaimId := None, rd_version := rd_version r + 1\<rparr>) (t_roomDays db)\<rparr>)
      else
        let P = (\<lambda>r. bd_bedId r = c_inventoryUnitId c \<and> bd_serviceDate r = c_serviceDate c \<and> bd_bedClaimId r = Some (c_id c))
        in (countWhere P (t_bedDays db),
            db\<lparr>t_bedDays := updateWhere P (\<lambda>r. r\<lparr>bd_bedClaimId := None, bd_version := bd_version r + 1\<rparr>) (t_bedDays db)\<rparr>))"

definition releaseClaim :: "inventory_db \<Rightarrow> claim_row \<Rightarrow> inventory_db result" where
  "releaseClaim db c =
     (case find (\<lambda>u. u_id u = c_inventoryUnitId c) (t_units db) of
        None \<Rightarrow> uncaught
      | Some unit \<Rightarrow>
        (let (n, db1) = releasePointer c (u_kind unit) db; Q = (\<lambda>c'. c_id c' = c_id c \<and> c_active c') in
         if n \<noteq> 1 then internal_error
         else if countWhere Q (t_claims db1) \<noteq> 1 then internal_error
         else Inr (db1\<lparr>t_claims := updateWhere Q (\<lambda>c'. c'\<lparr>c_active := False\<rparr>) (t_claims db1)\<rparr>)))"

definition releaseAll :: "inventory_db \<Rightarrow> claim_row list \<Rightarrow> (string list \<times> inventory_db) result" where
  "releaseAll db claims = bindR (foldR releaseClaim db claims) (\<lambda>db'. Inr (map c_id claims, db'))"

definition releaseInventoryClaims ::
  "inventory_db \<Rightarrow> claim_source \<Rightarrow> string list \<Rightarrow> string option \<Rightarrow> (string list \<times> inventory_db) result" where
  "releaseInventoryClaims db sourceType sourceIds fromDate =
     (if sourceIds = [] then Inr ([], db)
      else releaseAll db
        (sortBy (\<lambda>a b. c_roomId a < c_roomId b \<or> c_roomId a = c_roomId b \<and> c_serviceDate a \<le> c_serviceDate b)
          (filter (\<lambda>c. c_sourceType c = sourceType \<and> c_sourceId c \<in> set sourceIds \<and> c_active c \<and>
              (case truthyId fromDate of None \<Rightarrow> True | Some d \<Rightarrow> c_serviceDate c \<ge> d)) (t_claims db))))"

definition releaseInventoryClaimsOnDates ::
  "inventory_db \<Rightarrow> claim_source \<Rightarrow> string list \<Rightarrow> string list \<Rightarrow> (string list \<times> inventory_db) result" where
  "releaseInventoryClaimsOnDates db sourceType sourceIds serviceDates =
     (if sourceIds = [] \<or> serviceDates = [] then Inr ([], db)
      else releaseAll db
        (sortBy (\<lambda>a b. c_roomId a < c_roomId b \<or> c_roomId a = c_roomId b \<and>
             (c_serviceDate a < c_serviceDate b \<or> c_serviceDate a = c_serviceDate b \<and> c_id a \<le> c_id b))
          (filter (\<lambda>c. c_sourceType c = sourceType \<and> c_sourceId c \<in> set sourceIds \<and>
              c_serviceDate c \<in> set serviceDates \<and> c_active c) (t_claims db))))"

section \<open>The invariant\<close>

definition unitOf :: "inventory_db \<Rightarrow> string \<Rightarrow> unit_row option" where
  "unitOf db i = find (\<lambda>u. u_id u = i) (t_units db)"

definition kindOf :: "inventory_db \<Rightarrow> string \<Rightarrow> inventory_unit_kind option" where
  "kindOf db i = map_option u_kind (unitOf db i)"

definition activeClaims :: "inventory_db \<Rightarrow> claim_row set" where
  "activeClaims db = {c \<in> set (t_claims db). c_active c}"

definition wholePtrs :: "inventory_db \<Rightarrow> (string \<times> string \<times> string) set" where
  "wholePtrs db = {(rd_roomId r, rd_serviceDate r, i) | r i. r \<in> set (t_roomDays db) \<and> rd_wholeClaimId r = Some i}"

definition bedPtrs :: "inventory_db \<Rightarrow> (string \<times> string \<times> string) set" where
  "bedPtrs db = {(bd_bedId r, bd_serviceDate r, i) | r i. r \<in> set (t_bedDays db) \<and> bd_bedClaimId r = Some i}"

definition claimsOfKind :: "inventory_db \<Rightarrow> inventory_unit_kind \<Rightarrow> (string \<times> string \<times> string) set" where
  "claimsOfKind db k = {(c_inventoryUnitId c, c_serviceDate c, c_id c) | c. c \<in> activeClaims db \<and> kindOf db (c_inventoryUnitId c) = Some k}"

text \<open>The catalog: ids are unique, every bed stands in a room.\<close>

definition unitsOk :: "unit_row list \<Rightarrow> bool" where
  "unitsOk us \<longleftrightarrow> distinct (map u_id us) \<and>
     (\<forall>u \<in> set us. u_kind u = BED \<longrightarrow> (\<exists>p \<in> set us. u_kind p = ROOM \<and> u_parentRoomId u = Some (u_id p)))"

definition claimsOk :: "inventory_db \<Rightarrow> bool" where
  "claimsOk db \<longleftrightarrow> distinct (map c_id (t_claims db)) \<and>
     (\<forall>c \<in> set (t_claims db). c_id c \<noteq> [] \<and> (\<exists>u. unitOf db (c_inventoryUnitId c) = Some u \<and> c_roomId c = roomIdOf u))"

definition daysOk :: "inventory_db \<Rightarrow> bool" where
  "daysOk db \<longleftrightarrow> distinct (map (\<lambda>r. (rd_roomId r, rd_serviceDate r)) (t_roomDays db)) \<and>
     distinct (map (\<lambda>r. (bd_bedId r, bd_serviceDate r)) (t_bedDays db)) \<and>
     (\<forall>r \<in> set (t_bedDays db). \<exists>u. unitOf db (bd_bedId r) = Some u \<and> roomIdOf u = bd_roomId r)"

text \<open>A room is not claimed whole while one of its beds is claimed.\<close>

definition exclusive :: "inventory_db \<Rightarrow> bool" where
  "exclusive db \<longleftrightarrow> (\<forall>c \<in> activeClaims db. \<forall>c' \<in> activeClaims db.
     c_roomId c = c_roomId c' \<and> c_serviceDate c = c_serviceDate c' \<and> kindOf db (c_inventoryUnitId c) = Some ROOM
       \<longrightarrow> kindOf db (c_inventoryUnitId c') = Some ROOM)"

definition inventoryInv :: "inventory_db \<Rightarrow> bool" where
  "inventoryInv db \<longleftrightarrow> unitsOk (t_units db) \<and> claimsOk db \<and> daysOk db \<and>
     wholePtrs db = claimsOfKind db ROOM \<and> bedPtrs db = claimsOfKind db BED \<and> exclusive db"

definition noDoubleBooking :: "inventory_db \<Rightarrow> bool" where
  "noDoubleBooking db \<longleftrightarrow> (\<forall>c \<in> activeClaims db. \<forall>c' \<in> activeClaims db.
     c \<noteq> c' \<and> c_roomId c = c_roomId c' \<and> c_serviceDate c = c_serviceDate c' \<longrightarrow>
     kindOf db (c_inventoryUnitId c) = Some BED \<and> kindOf db (c_inventoryUnitId c') = Some BED \<and>
     c_inventoryUnitId c \<noteq> c_inventoryUnitId c')"

lemma mem_wholePtrs:
  "(a, d, i) \<in> wholePtrs db \<longleftrightarrow>
     (\<exists>r \<in> set (t_roomDays db). rd_roomId r = a \<and> rd_serviceDate r = d \<and> rd_wholeClaimId r = Some i)"
  by (auto simp: wholePtrs_def)

lemma mem_bedPtrs:
  "(b, d, i) \<in> bedPtrs db \<longleftrightarrow>
     (\<exists>r \<in> set (t_bedDays db). bd_bedId r = b \<and> bd_serviceDate r = d \<and> bd_bedClaimId r = Some i)"
  by (auto simp: bedPtrs_def)

lemma mem_claimsOfKind:
  "(a, d, i) \<in> claimsOfKind db k \<longleftrightarrow>
     (\<exists>c \<in> activeClaims db. c_inventoryUnitId c = a \<and> c_serviceDate c = d \<and> c_id c = i \<and> kindOf db a = Some k)"
  by (auto simp: claimsOfKind_def)

lemma distinct_key_eq: "distinct (map f xs) \<Longrightarrow> x \<in> set xs \<Longrightarrow> y \<in> set xs \<Longrightarrow> f x = f y \<Longrightarrow> x = y"
  by (simp add: distinct_map inj_on_def)

lemma find_key:
  assumes "distinct (map f xs)" "x \<in> set xs"
  shows "find (\<lambda>y. f y = f x) xs = Some x"
proof -
  obtain y where y: "find (\<lambda>y. f y = f x) xs = Some y"
    using assms(2) by (cases "find (\<lambda>y. f y = f x) xs") (auto simp: find_None_iff)
  then have "y \<in> set xs" "f y = f x" by (auto simp: find_Some_iff)
  then have "y = x" using distinct_key_eq [OF assms(1) _ assms(2)] by blast
  with y show ?thesis by simp
qed

lemma claimById_active:
  "claimsOk db \<Longrightarrow> c \<in> activeClaims db \<Longrightarrow> claimById db (c_id c) = Some c"
  by (simp add: claimsOk_def activeClaims_def claimById_def find_key [of c_id])

lemma roomDay_find:
  "daysOk db \<Longrightarrow> r \<in> set (t_roomDays db) \<Longrightarrow>
     find (\<lambda>x. rd_roomId x = rd_roomId r \<and> rd_serviceDate x = rd_serviceDate r) (t_roomDays db) = Some r"
  using find_key [of "\<lambda>r. (rd_roomId r, rd_serviceDate r)" "t_roomDays db" r] by (simp add: daysOk_def)

lemma bedDay_find:
  "daysOk db \<Longrightarrow> r \<in> set (t_bedDays db) \<Longrightarrow>
     find (\<lambda>x. bd_bedId x = bd_bedId r \<and> bd_serviceDate x = bd_serviceDate r) (t_bedDays db) = Some r"
  using find_key [of "\<lambda>r. (bd_bedId r, bd_serviceDate r)" "t_bedDays db" r] by (simp add: daysOk_def)

lemma unitOf_in: "unitOf db i = Some u \<Longrightarrow> u \<in> set (t_units db) \<and> u_id u = i"
  by (auto simp: unitOf_def dest: find_SomeD)

lemma room_of_kind:
  assumes "unitsOk (t_units db)" "unitOf db i = Some u"
  shows "u_kind u = ROOM \<longleftrightarrow> roomIdOf u = i"
proof -
  have u: "u \<in> set (t_units db)" "u_id u = i" using unitOf_in [OF assms(2)] by auto
  have "roomIdOf u \<noteq> i" if "u_kind u = BED"
  proof
    assume e: "roomIdOf u = i"
    from assms(1) u(1) that obtain p where p: "p \<in> set (t_units db)" "u_kind p = ROOM" "u_parentRoomId u = Some (u_id p)"
      by (auto simp: unitsOk_def)
    with e that have "u_id p = u_id u" by (simp add: roomIdOf_def u)
    then have "p = u" using assms(1) p(1) u(1) distinct_key_eq unfolding unitsOk_def by metis
    with p(2) that show False by simp
  qed
  then show ?thesis using u(2) by (cases "u_kind u") (auto simp: roomIdOf_def)
qed

lemma claim_unit:
  assumes "inventoryInv db" "c \<in> activeClaims db"
  shows "\<exists>u. unitOf db (c_inventoryUnitId c) = Some u \<and> c_roomId c = roomIdOf u"
    and "kindOf db (c_inventoryUnitId c) = Some (if c_inventoryUnitId c = c_roomId c then ROOM else BED)"
    and "c_id c \<noteq> []"
proof -
  from assms obtain u where u: "unitOf db (c_inventoryUnitId c) = Some u" "c_roomId c = roomIdOf u" and ne: "c_id c \<noteq> []"
    by (auto simp: inventoryInv_def claimsOk_def activeClaims_def)
  have "u_kind u = ROOM \<longleftrightarrow> roomIdOf u = c_inventoryUnitId c"
    using room_of_kind [OF _ u(1)] assms(1) by (simp add: inventoryInv_def)
  with u show "kindOf db (c_inventoryUnitId c) = Some (if c_inventoryUnitId c = c_roomId c then ROOM else BED)"
    by (cases "u_kind u") (auto simp: kindOf_def)
  show "\<exists>u. unitOf db (c_inventoryUnitId c) = Some u \<and> c_roomId c = roomIdOf u" using u by blast
  show "c_id c \<noteq> []" by (fact ne)
qed

text \<open>Under the invariant a pointer identifies its claim.\<close>

lemma claim_wholePtr:
  assumes "inventoryInv db" "c \<in> activeClaims db" "c_inventoryUnitId c = c_roomId c"
  shows "\<exists>r \<in> set (t_roomDays db). rd_roomId r = c_roomId c \<and> rd_serviceDate r = c_serviceDate c \<and>
    rd_wholeClaimId r = Some (c_id c)"
proof -
  have "kindOf db (c_inventoryUnitId c) = Some ROOM" using claim_unit(2) [OF assms(1,2)] assms(3) by simp
  then have "(c_inventoryUnitId c, c_serviceDate c, c_id c) \<in> claimsOfKind db ROOM"
    unfolding claimsOfKind_def using assms(2) by blast
  then have "(c_inventoryUnitId c, c_serviceDate c, c_id c) \<in> wholePtrs db" using assms(1) by (simp add: inventoryInv_def)
  then show ?thesis using assms(3) by (auto simp: wholePtrs_def)
qed

lemma claim_bedPtr:
  assumes "inventoryInv db" "c \<in> activeClaims db" "c_inventoryUnitId c \<noteq> c_roomId c"
  shows "\<exists>r \<in> set (t_bedDays db). bd_bedId r = c_inventoryUnitId c \<and> bd_serviceDate r = c_serviceDate c \<and>
    bd_bedClaimId r = Some (c_id c) \<and> bd_roomId r = c_roomId c"
proof -
  have "kindOf db (c_inventoryUnitId c) = Some BED" using claim_unit(2) [OF assms(1,2)] assms(3) by simp
  then have "(c_inventoryUnitId c, c_serviceDate c, c_id c) \<in> claimsOfKind db BED"
    unfolding claimsOfKind_def using assms(2) by blast
  then have "(c_inventoryUnitId c, c_serviceDate c, c_id c) \<in> bedPtrs db" using assms(1) by (simp add: inventoryInv_def)
  then obtain r where r: "r \<in> set (t_bedDays db)" "bd_bedId r = c_inventoryUnitId c" "bd_serviceDate r = c_serviceDate c"
    "bd_bedClaimId r = Some (c_id c)" by (auto simp: bedPtrs_def)
  moreover have "bd_roomId r = c_roomId c"
    using assms(1) r(1,2) claim_unit(1) [OF assms(1,2)] by (auto simp: inventoryInv_def daysOk_def)
  ultimately show ?thesis by blast
qed

lemma inventoryInvD:
  assumes "inventoryInv db"
  shows "unitsOk (t_units db)" "claimsOk db" "daysOk db" "exclusive db"
    "wholePtrs db = claimsOfKind db ROOM" "bedPtrs db = claimsOfKind db BED"
  using assms by (simp_all add: inventoryInv_def)

text \<open>Two active claims of the same unit and night are the same claim.\<close>

lemma claim_unique:
  assumes inv: "inventoryInv db" and c: "c \<in> activeClaims db" "c' \<in> activeClaims db"
    and same: "c_inventoryUnitId c = c_inventoryUnitId c'" "c_roomId c = c_roomId c'" "c_serviceDate c = c_serviceDate c'"
  shows "c = c'"
proof -
  note days = inventoryInvD(3) [OF inv]
  have "c_id c = c_id c'"
  proof (cases "c_inventoryUnitId c = c_roomId c")
    case True
    then obtain r r' where r: "r \<in> set (t_roomDays db)" "rd_roomId r = c_roomId c" "rd_serviceDate r = c_serviceDate c"
      "rd_wholeClaimId r = Some (c_id c)" "r' \<in> set (t_roomDays db)" "rd_roomId r' = c_roomId c'"
      "rd_serviceDate r' = c_serviceDate c'" "rd_wholeClaimId r' = Some (c_id c')"
      using claim_wholePtr [OF inv c(1)] claim_wholePtr [OF inv c(2)] same by fastforce
    then have "Some r = Some r'"
      using roomDay_find [OF days r(1)] roomDay_find [OF days r(5)] same by metis
    with r show ?thesis by simp
  next
    case False
    then obtain r r' where r: "r \<in> set (t_bedDays db)" "bd_bedId r = c_inventoryUnitId c" "bd_serviceDate r = c_serviceDate c"
      "bd_bedClaimId r = Some (c_id c)" "r' \<in> set (t_bedDays db)" "bd_bedId r' = c_inventoryUnitId c'"
      "bd_serviceDate r' = c_serviceDate c'" "bd_bedClaimId r' = Some (c_id c')"
      using claim_bedPtr [OF inv c(1)] claim_bedPtr [OF inv c(2)] same by fastforce
    then have "Some r = Some r'"
      using bedDay_find [OF days r(1)] bedDay_find [OF days r(5)] same by metis
    with r show ?thesis by simp
  qed
  then have "Some c = Some c'"
    using claimById_active [OF inventoryInvD(2) [OF inv] c(1)] claimById_active [OF inventoryInvD(2) [OF inv] c(2)] by metis
  then show ?thesis by simp
qed

lemma noDoubleBooking_inv:
  assumes inv: "inventoryInv db"
  shows "noDoubleBooking db"
  unfolding noDoubleBooking_def
proof (intro ballI impI)
  fix c c' assume c: "c \<in> activeClaims db" "c' \<in> activeClaims db"
    and ne: "c \<noteq> c' \<and> c_roomId c = c_roomId c' \<and> c_serviceDate c = c_serviceDate c'"
  note k = claim_unit(2) [OF inv c(1)] and k' = claim_unit(2) [OF inv c(2)]
  have diff: "c_inventoryUnitId c \<noteq> c_inventoryUnitId c'" using claim_unique [OF inv c] ne by blast
  have "kindOf db (c_inventoryUnitId c) = Some ROOM \<longleftrightarrow> kindOf db (c_inventoryUnitId c') = Some ROOM"
    using inventoryInvD(4) [OF inv] c ne unfolding exclusive_def by metis
  with k k' diff ne show "kindOf db (c_inventoryUnitId c) = Some BED \<and> kindOf db (c_inventoryUnitId c') = Some BED \<and>
    c_inventoryUnitId c \<noteq> c_inventoryUnitId c'" by (auto split: if_splits)
qed

section \<open>What the check decides\<close>

lemma checkWhole_spec:
  assumes inv: "inventoryInv db"
    and row: "r \<in> set (t_roomDays db)" "rd_roomId r = room" "rd_serviceDate r = d"
    and free: "\<forall>c \<in> activeClaims db. c_roomId c = room \<and> c_serviceDate c = d \<longrightarrow> c_sourceId c \<notin> set X"
  shows "checkWhole db room d X =
    (if \<exists>c \<in> activeClaims db. c_inventoryUnitId c = room \<and> c_roomId c = room \<and> c_serviceDate c = d
     then inventory_conflict else Inr ())"
proof -
  have f: "find (\<lambda>r. rd_roomId r = room \<and> rd_serviceDate r = d) (t_roomDays db) = Some r"
    using roomDay_find [OF inventoryInvD(3) [OF inv] row(1)] row by simp
  show ?thesis
  proof (cases "\<exists>c \<in> activeClaims db. c_inventoryUnitId c = room \<and> c_roomId c = room \<and> c_serviceDate c = d")
    case True
    then obtain c where c: "c \<in> activeClaims db" "c_inventoryUnitId c = room" "c_roomId c = room" "c_serviceDate c = d" by blast
    obtain r' where r': "r' \<in> set (t_roomDays db)" "rd_roomId r' = room" "rd_serviceDate r' = d" "rd_wholeClaimId r' = Some (c_id c)"
      using claim_wholePtr [OF inv c(1)] c by auto
    have "find (\<lambda>r. rd_roomId r = room \<and> rd_serviceDate r = d) (t_roomDays db) = Some r'"
      using roomDay_find [OF inventoryInvD(3) [OF inv] r'(1)] r' by simp
    with f have "rd_wholeClaimId r = Some (c_id c)" using r'(4) by simp
    then show ?thesis
      using True f claim_unit(3) [OF inv c(1)] claimById_active [OF inventoryInvD(2) [OF inv] c(1)] free c
      by (simp add: checkWhole_def truthyId_def)
  next
    case False
    have "rd_wholeClaimId r = None"
    proof (rule ccontr)
      assume "rd_wholeClaimId r \<noteq> None"
      then obtain i where "rd_wholeClaimId r = Some i" by auto
      then have "(room, d, i) \<in> wholePtrs db" using row unfolding mem_wholePtrs by blast
      then obtain c where c: "c \<in> activeClaims db" "c_inventoryUnitId c = room" "c_serviceDate c = d"
        "kindOf db (c_inventoryUnitId c) = Some ROOM"
        unfolding inventoryInvD(5) [OF inv] mem_claimsOfKind by blast
      then have "c_roomId c = room" using claim_unit(2) [OF inv c(1)] by (simp split: if_splits)
      with c False show False by blast
    qed
    then show ?thesis using False f by (simp add: checkWhole_def truthyId_def)
  qed
qed

lemma checkBeds_spec:
  assumes inv: "inventoryInv db"
    and free: "\<forall>c \<in> activeClaims db. c_roomId c = room \<and> c_serviceDate c = d \<longrightarrow> c_sourceId c \<notin> set X"
  shows "checkBeds db room d X =
    (if \<exists>c \<in> activeClaims db. c_inventoryUnitId c \<noteq> room \<and> c_roomId c = room \<and> c_serviceDate c = d
     then inventory_conflict else Inr ())"
proof -
  have "list_ex (\<lambda>bd. bd_roomId bd = room \<and> bd_serviceDate bd = d \<and>
           list_ex (\<lambda>c. Some (c_id c) = bd_bedClaimId bd \<and> c_active c \<and> c_sourceId c \<notin> set X) (t_claims db)) (t_bedDays db)
     \<longleftrightarrow> (\<exists>c \<in> activeClaims db. c_inventoryUnitId c \<noteq> room \<and> c_roomId c = room \<and> c_serviceDate c = d)" (is "?L \<longleftrightarrow> ?R")
  proof
    assume ?L
    then obtain bd c where bd: "bd \<in> set (t_bedDays db)" "bd_roomId bd = room" "bd_serviceDate bd = d"
      and c: "c \<in> set (t_claims db)" "Some (c_id c) = bd_bedClaimId bd" "c_active c"
      unfolding list_ex_iff by blast
    from c(2) have "bd_bedClaimId bd = Some (c_id c)" by simp
    with bd have "(bd_bedId bd, d, c_id c) \<in> bedPtrs db" unfolding mem_bedPtrs by (intro bexI [of _ bd]) simp_all
    then obtain c' where c': "c' \<in> activeClaims db" "c_inventoryUnitId c' = bd_bedId bd" "c_serviceDate c' = d"
      "kindOf db (bd_bedId bd) = Some BED" unfolding inventoryInvD(6) [OF inv] mem_claimsOfKind by blast
    obtain u where "unitOf db (bd_bedId bd) = Some u" "c_roomId c' = roomIdOf u"
      using claim_unit(1) [OF inv c'(1)] c'(2) by auto
    with bd(1,2) have "c_roomId c' = room" using inventoryInvD(3) [OF inv] by (auto simp: daysOk_def)
    moreover have "c_inventoryUnitId c' \<noteq> c_roomId c'" using claim_unit(2) [OF inv c'(1)] c'(2,4) by (auto split: if_splits)
    ultimately show ?R using c'(1,3) by (intro bexI [of _ c']) simp_all
  next
    assume ?R
    then obtain c where c: "c \<in> activeClaims db" "c_inventoryUnitId c \<noteq> room" "c_roomId c = room" "c_serviceDate c = d" by blast
    then obtain bd where bd: "bd \<in> set (t_bedDays db)" "bd_serviceDate bd = d" "bd_bedClaimId bd = Some (c_id c)" "bd_roomId bd = room"
      using claim_bedPtr [OF inv c(1)] by auto
    moreover have "c_sourceId c \<notin> set X" "c \<in> set (t_claims db)" "c_active c" using free c by (auto simp: activeClaims_def)
    ultimately show ?L unfolding list_ex_iff by (intro bexI [of _ bd] conjI bexI [of _ c]) simp_all
  qed
  then show ?thesis by (simp add: checkBeds_def)
qed

lemma checkBed_spec:
  assumes inv: "inventoryInv db" and bed: "unitOf db bedId = Some u" "roomIdOf u = room" "u_kind u = BED"
    and free: "\<forall>c \<in> activeClaims db. c_roomId c = room \<and> c_serviceDate c = d \<longrightarrow> c_sourceId c \<notin> set X"
  shows "checkBed db bedId d X =
    (if \<exists>c \<in> activeClaims db. c_inventoryUnitId c = bedId \<and> c_serviceDate c = d then inventory_conflict else Inr ())"
proof (cases "\<exists>c \<in> activeClaims db. c_inventoryUnitId c = bedId \<and> c_serviceDate c = d")
  case True
  then obtain c where c: "c \<in> activeClaims db" "c_inventoryUnitId c = bedId" "c_serviceDate c = d" by blast
  have room: "c_roomId c = room" using claim_unit(1) [OF inv c(1)] c(2) bed by auto
  have "c_inventoryUnitId c \<noteq> c_roomId c" using claim_unit(2) [OF inv c(1)] bed c(2) by (auto simp: kindOf_def split: if_splits)
  then obtain r where r: "r \<in> set (t_bedDays db)" "bd_bedId r = bedId" "bd_serviceDate r = d" "bd_bedClaimId r = Some (c_id c)"
    using claim_bedPtr [OF inv c(1)] c by auto
  have "find (\<lambda>bd. bd_bedId bd = bedId \<and> bd_serviceDate bd = d) (t_bedDays db) = Some r"
    using bedDay_find [OF inventoryInvD(3) [OF inv] r(1)] r by simp
  then show ?thesis
    using True r(4) claim_unit(3) [OF inv c(1)] claimById_active [OF inventoryInvD(2) [OF inv] c(1)] free c room
    by (simp add: checkBed_def truthyId_def)
next
  case False
  have none: "bd_bedClaimId r = None" if "r \<in> set (t_bedDays db)" "bd_bedId r = bedId" "bd_serviceDate r = d" for r
  proof (rule ccontr)
    assume "bd_bedClaimId r \<noteq> None"
    then obtain i where "bd_bedClaimId r = Some i" by auto
    then have "(bedId, d, i) \<in> bedPtrs db" using that unfolding mem_bedPtrs by blast
    then show False using False unfolding inventoryInvD(6) [OF inv] mem_claimsOfKind by blast
  qed
  show ?thesis
  proof (cases "find (\<lambda>bd. bd_bedId bd = bedId \<and> bd_serviceDate bd = d) (t_bedDays db)")
    case None
    then show ?thesis using False by (simp add: checkBed_def)
  next
    case (Some r)
    with none find_SomeD [OF Some] have "bd_bedClaimId r = None" by blast
    then show ?thesis using False Some by (simp add: checkBed_def truthyId_def)
  qed
qed

text \<open>A unit record is backed by the catalog.\<close>

definition backed :: "inventory_db \<Rightarrow> inventory_unit_record \<Rightarrow> bool" where
  "backed db unit \<longleftrightarrow> (\<exists>u. unitOf db (r_id unit) = Some u \<and> r_kind unit = u_kind u \<and> r_roomId unit = roomIdOf u)"

definition hasRoomDay :: "inventory_db \<Rightarrow> string \<Rightarrow> string \<Rightarrow> bool" where
  "hasRoomDay db room d \<longleftrightarrow> (\<exists>r \<in> set (t_roomDays db). rd_roomId r = room \<and> rd_serviceDate r = d)"

definition blocked :: "inventory_db \<Rightarrow> inventory_unit_record \<Rightarrow> string \<Rightarrow> bool" where
  "blocked db unit d \<longleftrightarrow> (\<exists>c \<in> activeClaims db. claimBlocks [] d (r_id unit) (r_kind unit) (r_roomId unit) c)"

lemma pointer_check_spec:
  assumes inv: "inventoryInv db" and unit: "backed db unit" and row: "hasRoomDay db (r_roomId unit) d"
    and free: "\<forall>c \<in> activeClaims db. c_roomId c = r_roomId unit \<and> c_serviceDate c = d \<longrightarrow> c_sourceId c \<notin> set X"
  shows "bindR (checkWhole db (r_roomId unit) d X) (\<lambda>_. if r_kind unit = ROOM then checkBeds db (r_roomId unit) d X
       else checkBed db (r_id unit) d X) = (if blocked db unit d then inventory_conflict else Inr ())"
proof -
  obtain u where u: "unitOf db (r_id unit) = Some u" "r_kind unit = u_kind u" "r_roomId unit = roomIdOf u"
    using unit by (auto simp: backed_def)
  obtain r where r: "r \<in> set (t_roomDays db)" "rd_roomId r = r_roomId unit" "rd_serviceDate r = d"
    using row by (auto simp: hasRoomDay_def)
  note whole = checkWhole_spec [OF inv r free]
  show ?thesis
  proof (cases "r_kind unit")
    case ROOM
    then show ?thesis using whole checkBeds_spec [OF inv free] by (auto simp: blocked_def claimBlocks_def)
  next
    case BED
    have room: "c_roomId c = r_roomId unit" if "c \<in> activeClaims db" "c_inventoryUnitId c = r_id unit" for c
      using claim_unit(1) [OF inv that(1)] that(2) u by auto
    have "checkBed db (r_id unit) d X = (if \<exists>c \<in> activeClaims db. c_inventoryUnitId c = r_id unit \<and> c_serviceDate c = d
       then inventory_conflict else Inr ())"
      using checkBed_spec [OF inv u(1) u(3) [symmetric] _ free] u(2) BED by simp
    with whole BED room show ?thesis by (auto simp: blocked_def claimBlocks_def)
  qed
qed

end
