(* ===== verification/InventorySafety.thy ===== *)
theory InventorySafety
  imports Inventory
begin

text \<open>
  Safety of the inventory operations of \<open>Inventory\<close>: claiming and releasing keep the invariant,
  what they do to the set of active claims, and the properties that follow for every reachable
  store.
\<close>

section \<open>Claiming keeps the invariant\<close>

lemma map_updateWhere: "(\<And>r. k (f r) = k r) \<Longrightarrow> map k (updateWhere P f rows) = map k rows"
  by (simp add: updateWhere_def)

lemma set_updateWhere: "set (updateWhere P f rows) = (\<lambda>r. if P r then f r else r) ` set rows"
  by (simp add: updateWhere_def)

lemma unitOf_cong:
  "t_units db' = t_units db \<Longrightarrow> unitOf db' = unitOf db"
  "t_units db' = t_units db \<Longrightarrow> kindOf db' = kindOf db"
  by (auto simp: unitOf_def kindOf_def fun_eq_iff)

lemma pointRoom_sets [simp]:
  "t_units (pointRoom room d i db) = t_units db" "t_claims (pointRoom room d i db) = t_claims db"
  "t_bedDays (pointRoom room d i db) = t_bedDays db" "t_blocks (pointRoom room d i db) = t_blocks db"
  by (simp_all add: pointRoom_def)

lemma pointBed_sets [simp]:
  "t_units (pointBed b d i db) = t_units db" "t_claims (pointBed b d i db) = t_claims db"
  "t_roomDays (pointBed b d i db) = t_roomDays db" "t_blocks (pointBed b d i db) = t_blocks db"
  by (simp_all add: pointBed_def)

lemma insertBedDay_sets [simp]:
  "t_units (insertBedDay room b d db) = t_units db" "t_claims (insertBedDay room b d db) = t_claims db"
  "t_roomDays (insertBedDay room b d db) = t_roomDays db" "t_blocks (insertBedDay room b d db) = t_blocks db"
  by (simp_all add: insertBedDay_def)

lemma bex_updateWhere: "(\<exists>r \<in> set (updateWhere P f rows). Q r) \<longleftrightarrow> (\<exists>r \<in> set rows. Q (if P r then f r else r))"
  by (auto simp: updateWhere_def)

lemma ptr_set_eqI: "(\<And>a d j. (a, d, j) \<in> A \<longleftrightarrow> (a, d, j) \<in> B) \<Longrightarrow> A = (B :: (string \<times> string \<times> string) set)"
  by auto

lemma wholePtrs_pointRoom:
  assumes row: "hasRoomDay db room d" and none: "\<And>i. (room, d, i) \<notin> wholePtrs db"
  shows "wholePtrs (pointRoom room d i db) = insert (room, d, i) (wholePtrs db)"
proof (rule ptr_set_eqI)
  fix a x j
  have "(a, x, j) \<in> wholePtrs (pointRoom room d i db) \<longleftrightarrow>
    (\<exists>r \<in> set (t_roomDays db). rd_roomId r = a \<and> rd_serviceDate r = x \<and>
       (if a = room \<and> x = d then j = i else rd_wholeClaimId r = Some j))"
    unfolding mem_wholePtrs pointRoom_def
    by (simp add: bex_updateWhere) (rule bex_cong [OF HOL.refl], auto)
  also have "\<dots> \<longleftrightarrow> (a, x, j) \<in> insert (room, d, i) (wholePtrs db)"
    using row none [of j] unfolding hasRoomDay_def by (cases "a = room \<and> x = d") (auto simp: mem_wholePtrs)
  finally show "(a, x, j) \<in> wholePtrs (pointRoom room d i db) \<longleftrightarrow> (a, x, j) \<in> insert (room, d, i) (wholePtrs db)" .
qed

lemma hasRoomDay_pointRoom: "hasRoomDay (pointRoom room d i db) r x \<longleftrightarrow> hasRoomDay db r x"
  unfolding hasRoomDay_def pointRoom_def
  by (simp add: bex_updateWhere) (rule bex_cong [OF HOL.refl], auto)

lemma bedPtrs_insertBedDay [simp]: "bedPtrs (insertBedDay room b d db) = bedPtrs db"
  by (rule ptr_set_eqI) (auto simp: mem_bedPtrs insertBedDay_def)

lemma bedPtrs_pointBed:
  assumes row: "\<exists>r \<in> set (t_bedDays db). bd_bedId r = b \<and> bd_serviceDate r = d" and none: "\<And>i. (b, d, i) \<notin> bedPtrs db"
  shows "bedPtrs (pointBed b d i db) = insert (b, d, i) (bedPtrs db)"
proof (rule ptr_set_eqI)
  fix a x j
  have "(a, x, j) \<in> bedPtrs (pointBed b d i db) \<longleftrightarrow>
    (\<exists>r \<in> set (t_bedDays db). bd_bedId r = a \<and> bd_serviceDate r = x \<and>
       (if a = b \<and> x = d then j = i else bd_bedClaimId r = Some j))"
    unfolding mem_bedPtrs pointBed_def
    by (simp add: bex_updateWhere) (rule bex_cong [OF HOL.refl], auto)
  also have "\<dots> \<longleftrightarrow> (a, x, j) \<in> insert (b, d, i) (bedPtrs db)"
    using row none [of j] by (cases "a = b \<and> x = d") (auto simp: mem_bedPtrs)
  finally show "(a, x, j) \<in> bedPtrs (pointBed b d i db) \<longleftrightarrow> (a, x, j) \<in> insert (b, d, i) (bedPtrs db)" .
qed

lemma bedDay_exists: "\<exists>r \<in> set (t_bedDays (insertBedDay room b d db)). bd_bedId r = b \<and> bd_serviceDate r = d"
  by (auto simp: insertBedDay_def list_ex_iff)

lemma daysOk_cong:
  assumes "daysOk db" "t_units db' = t_units db"
    and "map (\<lambda>r. (rd_roomId r, rd_serviceDate r)) (t_roomDays db') = map (\<lambda>r. (rd_roomId r, rd_serviceDate r)) (t_roomDays db)"
    and "map (\<lambda>r. (bd_bedId r, bd_serviceDate r, bd_roomId r)) (t_bedDays db') = map (\<lambda>r. (bd_bedId r, bd_serviceDate r, bd_roomId r)) (t_bedDays db)"
  shows "daysOk db'"
proof -
  let ?k = "\<lambda>r. (bd_bedId r, bd_serviceDate r, bd_roomId r)"
  have "list_all2 (=) (map ?k (t_bedDays db')) (map ?k (t_bedDays db))" using assms(4) by (simp add: list.rel_eq)
  then have "list_all2 (\<lambda>r r'. ?k r = ?k r') (t_bedDays db') (t_bedDays db)"
    by (simp only: list_all2_map1 list_all2_map2)
  then have keys: "map (\<lambda>r. (bd_bedId r, bd_serviceDate r)) (t_bedDays db') = map (\<lambda>r. (bd_bedId r, bd_serviceDate r)) (t_bedDays db)"
    and rooms: "\<forall>r \<in> set (t_bedDays db'). \<exists>r' \<in> set (t_bedDays db). bd_bedId r = bd_bedId r' \<and> bd_roomId r = bd_roomId r'"
    by (induction rule: list_all2_induct) auto
  have "\<exists>u. unitOf db (bd_bedId r) = Some u \<and> roomIdOf u = bd_roomId r" if "r \<in> set (t_bedDays db')" for r
    using rooms that assms(1) unfolding daysOk_def by auto
  then show ?thesis using assms(1,3) keys unfolding daysOk_def unitOf_cong(1) [OF assms(2)] by simp
qed

lemma daysOk_pointRoom: "daysOk db \<Longrightarrow> daysOk (pointRoom room d i db)"
  by (erule daysOk_cong) (simp_all add: pointRoom_def map_updateWhere)

lemma daysOk_pointBed: "daysOk db \<Longrightarrow> daysOk (pointBed b d i db)"
  by (erule daysOk_cong) (simp_all add: pointBed_def map_updateWhere)

lemma daysOk_insertBedDay:
  "daysOk db \<Longrightarrow> unitOf db b = Some u \<Longrightarrow> roomIdOf u = room \<Longrightarrow> daysOk (insertBedDay room b d db)"
  by (auto simp: daysOk_def insertBedDay_def list_ex_iff unitOf_def)

text \<open>The store after the insertion of a claim row whose pointer has been set.\<close>

lemma inventoryInv_add:
  assumes inv: "inventoryInv db" and days: "daysOk db'" and units: "t_units db' = t_units db"
    and claims: "t_claims db' = t_claims db @ [c]" and c: "c_active c" "c_id c \<noteq> []" "c_id c \<notin> c_id ` set (t_claims db)"
    and u: "unitOf db (c_inventoryUnitId c) = Some u" "c_roomId c = roomIdOf u"
    and ptrs: "wholePtrs db' = (if u_kind u = ROOM then insert (c_inventoryUnitId c, c_serviceDate c, c_id c) (wholePtrs db) else wholePtrs db)"
      "bedPtrs db' = (if u_kind u = BED then insert (c_inventoryUnitId c, c_serviceDate c, c_id c) (bedPtrs db) else bedPtrs db)"
    and free: "\<forall>x \<in> activeClaims db. c_roomId x = c_roomId c \<and> c_serviceDate x = c_serviceDate c \<longrightarrow>
       u_kind u = BED \<and> c_inventoryUnitId x \<noteq> c_roomId c"
  shows "inventoryInv db'" and "activeClaims db' = insert c (activeClaims db)"
proof -
  show act: "activeClaims db' = insert c (activeClaims db)" using c(1) by (auto simp: activeClaims_def claims)
  have k: "kindOf db (c_inventoryUnitId c) = Some (u_kind u)" by (simp add: kindOf_def u)
  have claimsK: "claimsOfKind db' K = (if u_kind u = K then insert (c_inventoryUnitId c, c_serviceDate c, c_id c) (claimsOfKind db K)
     else claimsOfKind db K)" for K
    using k by (intro ptr_set_eqI) (auto simp: mem_claimsOfKind act unitOf_cong [OF units])
  have "claimsOk db'" using inventoryInvD(2) [OF inv] c u by (auto simp: claimsOk_def claims unitOf_cong [OF units])
  moreover have "exclusive db'"
    unfolding exclusive_def act unitOf_cong [OF units]
  proof (intro ballI impI)
    fix x y assume xy: "x \<in> insert c (activeClaims db)" "y \<in> insert c (activeClaims db)"
      "c_roomId x = c_roomId y \<and> c_serviceDate x = c_serviceDate y \<and> kindOf db (c_inventoryUnitId x) = Some ROOM"
    consider "x = c" "y = c" | "x = c" "y \<in> activeClaims db" | "y = c" "x \<in> activeClaims db"
      | "x \<in> activeClaims db" "y \<in> activeClaims db" using xy by blast
    then show "kindOf db (c_inventoryUnitId y) = Some ROOM"
    proof cases
      case 2
      with free xy(3) k show ?thesis by auto
    next
      case 3
      then have "c_inventoryUnitId x = c_roomId x" using claim_unit(2) [OF inv 3(2)] xy(3) by (auto split: if_splits)
      with free xy(3) 3 show ?thesis by auto
    next
      case 4
      then show ?thesis using inventoryInvD(4) [OF inv] xy(3) unfolding exclusive_def by blast
    qed (use xy in auto)
  qed
  ultimately show "inventoryInv db'"
    using inventoryInvD [OF inv] days ptrs claimsK by (cases "u_kind u") (simp_all add: inventoryInv_def units)
qed

definition newClaim :: "claim_options \<Rightarrow> string \<Rightarrow> string \<Rightarrow> claim_row" where
  "newClaim opts d i = \<lparr>c_id = i, c_propertyId = co_propertyId opts, c_roomId = r_roomId (co_unit opts),
     c_inventoryUnitId = r_id (co_unit opts), c_serviceDate = d, c_sourceType = co_sourceType opts,
     c_sourceId = co_sourceId opts, c_active = True\<rparr>"

lemma newClaim_sel [simp]:
  "c_id (newClaim opts d i) = i" "c_roomId (newClaim opts d i) = r_roomId (co_unit opts)"
  "c_inventoryUnitId (newClaim opts d i) = r_id (co_unit opts)" "c_serviceDate (newClaim opts d i) = d"
  "c_sourceType (newClaim opts d i) = co_sourceType opts" "c_sourceId (newClaim opts d i) = co_sourceId opts"
  "c_active (newClaim opts d i)"
  by (simp_all add: newClaim_def)

lemma claimNight_inv:
  assumes inv: "inventoryInv db" and unit: "backed db (co_unit opts)" and row: "hasRoomDay db (r_roomId (co_unit opts)) d"
    and free: "\<not> blocked db (co_unit opts) d" and i: "i \<noteq> []" "i \<notin> c_id ` set (t_claims db)"
  shows "\<exists>db'. claimNight opts db (d, i) = Inr db' \<and> inventoryInv db' \<and>
     t_claims db' = t_claims db @ [newClaim opts d i] \<and> activeClaims db' = insert (newClaim opts d i) (activeClaims db) \<and>
     t_units db' = t_units db \<and> (\<forall>r x. hasRoomDay db r x \<longrightarrow> hasRoomDay db' r x)"
proof -
  let ?u = "co_unit opts" and ?c = "newClaim opts d i"
  let ?db1 = "db\<lparr>t_claims := t_claims db @ [?c]\<rparr>"
  obtain u where u: "unitOf db (r_id ?u) = Some u" "r_kind ?u = u_kind u" "r_roomId ?u = roomIdOf u"
    using unit by (auto simp: backed_def)
  have ins: "insertClaim ?c db = Inr ?db1" using i(2) by (auto simp: insertClaim_def list_ex_iff)
  have days: "daysOk ?db1" using inventoryInvD(3) [OF inv] by (simp add: daysOk_def unitOf_def)
  show ?thesis
  proof (cases "r_kind ?u")
    case ROOM
    let ?db' = "pointRoom (r_roomId ?u) d i ?db1"
    have rid: "r_id ?u = r_roomId ?u" using room_of_kind [OF inventoryInvD(1) [OF inv] u(1)] u ROOM by auto
    have nb: "\<not> (\<exists>c \<in> activeClaims db. c_roomId c = r_roomId ?u \<and> c_serviceDate c = d)"
      using free ROOM by (auto simp: blocked_def claimBlocks_def)
    have "(r_roomId ?u, d, j) \<notin> wholePtrs db" for j
    proof
      assume "(r_roomId ?u, d, j) \<in> wholePtrs db"
      then obtain c where c: "c \<in> activeClaims db" "c_inventoryUnitId c = r_roomId ?u" "c_serviceDate c = d"
        "kindOf db (c_inventoryUnitId c) = Some ROOM" unfolding inventoryInvD(5) [OF inv] mem_claimsOfKind by auto
      then have "c_roomId c = r_roomId ?u" using claim_unit(2) [OF inv c(1)] by (simp split: if_splits)
      with c nb show False by blast
    qed
    then have ptr: "wholePtrs ?db' = insert (r_roomId ?u, d, i) (wholePtrs db)"
      using wholePtrs_pointRoom [of ?db1 "r_roomId ?u" d i] row by (simp add: hasRoomDay_def wholePtrs_def)
    have "inventoryInv ?db' \<and> activeClaims ?db' = insert ?c (activeClaims db)"
      using inventoryInv_add [where c = ?c and u = u, OF inv daysOk_pointRoom [OF days, of "r_roomId ?u" d i]] u i ptr rid ROOM nb
      by (simp add: bedPtrs_def pointRoom_def)
    moreover have "\<forall>r x. hasRoomDay db r x \<longrightarrow> hasRoomDay ?db' r x"
      unfolding hasRoomDay_pointRoom by (simp add: hasRoomDay_def)
    ultimately show ?thesis using ROOM ins by (simp add: claimNight_def newClaim_def [symmetric] Let_def)
  next
    case BED
    let ?db2 = "insertBedDay (r_roomId ?u) (r_id ?u) d ?db1"
    let ?db' = "pointBed (r_id ?u) d i ?db2"
    have nb: "c_inventoryUnitId c \<noteq> r_roomId ?u \<and> c_inventoryUnitId c \<noteq> r_id ?u"
      if "c \<in> activeClaims db" "c_roomId c = r_roomId ?u" "c_serviceDate c = d" for c
      using free BED that by (auto simp: blocked_def claimBlocks_def)
    have "(r_id ?u, d, j) \<notin> bedPtrs db" for j
    proof
      assume "(r_id ?u, d, j) \<in> bedPtrs db"
      then obtain c where c: "c \<in> activeClaims db" "c_inventoryUnitId c = r_id ?u" "c_serviceDate c = d"
        unfolding inventoryInvD(6) [OF inv] mem_claimsOfKind by auto
      then have "c_roomId c = r_roomId ?u" using claim_unit(1) [OF inv c(1)] u by auto
      with c nb show False by blast
    qed
    moreover have "bedPtrs ?db2 = bedPtrs db" by simp (simp add: bedPtrs_def)
    ultimately have ptr: "bedPtrs ?db' = insert (r_id ?u, d, i) (bedPtrs db)"
      using bedPtrs_pointBed [OF bedDay_exists, of "r_id ?u" d "r_roomId ?u" ?db1 i] by simp
    have "daysOk ?db2" using daysOk_insertBedDay [OF days] u by (simp add: unitOf_def)
    then have "inventoryInv ?db' \<and> activeClaims ?db' = insert ?c (activeClaims db)"
      using inventoryInv_add [where c = ?c and u = u, OF inv daysOk_pointBed, of ?db2 "r_id ?u" d i] u i ptr BED nb
      by (simp add: wholePtrs_def)
    moreover have "\<forall>r x. hasRoomDay db r x \<longrightarrow> hasRoomDay ?db' r x" by (simp add: hasRoomDay_def)
    ultimately show ?thesis using BED ins by (simp add: claimNight_def newClaim_def [symmetric] Let_def)
  qed
qed

lemma backed_cong: "t_units db' = t_units db \<Longrightarrow> backed db' unit \<longleftrightarrow> backed db unit"
  unfolding backed_def using unitOf_cong(1) by metis

lemma claims_fold:
  assumes "inventoryInv db" "backed db (co_unit opts)"
    and "\<forall>d \<in> set dates. hasRoomDay db (r_roomId (co_unit opts)) d \<and> \<not> blocked db (co_unit opts) d"
    and "distinct dates" "distinct ids" "length ids = length dates" "[] \<notin> set ids" "set ids \<inter> c_id ` set (t_claims db) = {}"
  shows "\<exists>db'. foldR (claimNight opts) db (zip dates ids) = Inr db' \<and> inventoryInv db' \<and>
     activeClaims db' = activeClaims db \<union> set (map2 (newClaim opts) dates ids) \<and> t_units db' = t_units db"
  using assms
proof (induction dates arbitrary: db ids)
  case (Cons d dates)
  then obtain i js where ids: "ids = i # js" by (cases ids) auto
  obtain mid where m: "claimNight opts db (d, i) = Inr mid" "inventoryInv mid"
    "t_claims mid = t_claims db @ [newClaim opts d i]" "activeClaims mid = insert (newClaim opts d i) (activeClaims db)"
    "t_units mid = t_units db" "\<forall>r x. hasRoomDay db r x \<longrightarrow> hasRoomDay mid r x"
    using claimNight_inv [OF Cons.prems(1,2), of d i] Cons.prems by (auto simp: ids)
  have "\<not> blocked mid (co_unit opts) d'" if "d' \<in> set dates" for d'
    using that Cons.prems(3,4) by (auto simp: blocked_def m(4) claimBlocks_def)
  then have "\<exists>db'. foldR (claimNight opts) mid (zip dates js) = Inr db' \<and> inventoryInv db' \<and>
     activeClaims db' = activeClaims mid \<union> set (map2 (newClaim opts) dates js) \<and> t_units db' = t_units mid"
    by (intro Cons.IH) (use Cons.prems m in \<open>auto simp: ids backed_cong [OF m(5)]\<close>)
  then show ?case using m by (auto simp: ids)
qed auto

section \<open>Releasing keeps the invariant\<close>

lemma count_unique:
  assumes "distinct (map k rows)" "r \<in> set rows" "P r" "\<And>x. x \<in> set rows \<Longrightarrow> P x \<Longrightarrow> k x = k r"
  shows "countWhere P rows = 1"
proof -
  have "distinct (filter P rows)" using assms(1) by (simp add: distinct_map)
  moreover have "set (filter P rows) = {r}" using assms distinct_key_eq [OF assms(1)] by auto
  ultimately show ?thesis unfolding countWhere_def by (metis One_nat_def card_1_singleton_iff distinct_card is_singletonI)
qed

lemma inventoryInv_remove:
  assumes inv: "inventoryInv db" and days: "daysOk db'" and units: "t_units db' = t_units db" and c: "c \<in> activeClaims db"
    and claims: "t_claims db' = updateWhere (\<lambda>c'. c_id c' = c_id c \<and> c_active c') (\<lambda>c'. c'\<lparr>c_active := False\<rparr>) (t_claims db)"
    and ptrs: "wholePtrs db' = (if c_inventoryUnitId c = c_roomId c then wholePtrs db - {(c_inventoryUnitId c, c_serviceDate c, c_id c)} else wholePtrs db)"
      "bedPtrs db' = (if c_inventoryUnitId c = c_roomId c then bedPtrs db else bedPtrs db - {(c_inventoryUnitId c, c_serviceDate c, c_id c)})"
  shows "inventoryInv db'" and "activeClaims db' = activeClaims db - {c}"
proof -
  have ids: "x = c" if "x \<in> activeClaims db" "c_id x = c_id c" for x
  proof -
    have "Some x = Some c"
      using claimById_active [OF inventoryInvD(2) [OF inv] that(1)] claimById_active [OF inventoryInvD(2) [OF inv] c] that(2) by metis
    then show ?thesis by simp
  qed
  show act: "activeClaims db' = activeClaims db - {c}"
  proof (rule set_eqI)
    fix x
    have "x \<in> activeClaims db' \<longleftrightarrow> x \<in> activeClaims db \<and> c_id x \<noteq> c_id c"
      unfolding activeClaims_def by (auto simp: claims set_updateWhere)
    also have "\<dots> \<longleftrightarrow> x \<in> activeClaims db - {c}" using ids c by blast
    finally show "x \<in> activeClaims db' \<longleftrightarrow> x \<in> activeClaims db - {c}" .
  qed
  have "claimsOfKind db' K = (if kindOf db (c_inventoryUnitId c) = Some K
      then claimsOfKind db K - {(c_inventoryUnitId c, c_serviceDate c, c_id c)} else claimsOfKind db K)" for K
    using ids c by (intro ptr_set_eqI) (auto simp: mem_claimsOfKind act unitOf_cong [OF units])
  then have K: "wholePtrs db' = claimsOfKind db' ROOM" "bedPtrs db' = claimsOfKind db' BED"
    using ptrs inventoryInvD(5,6) [OF inv] claim_unit(2) [OF inv c] by auto
  have "map c_id (t_claims db') = map c_id (t_claims db)" by (simp add: claims map_updateWhere)
  moreover have "\<forall>x \<in> set (t_claims db'). \<exists>y \<in> set (t_claims db). c_id x = c_id y \<and> c_inventoryUnitId x = c_inventoryUnitId y
      \<and> c_roomId x = c_roomId y"
    unfolding claims set_updateWhere ball_simps by (intro ballI) (rule bexI, auto)
  ultimately have "claimsOk db'"
    using inventoryInvD(2) [OF inv] unfolding claimsOk_def unitOf_cong [OF units] by fastforce
  moreover have "exclusive db'" using inventoryInvD(4) [OF inv] unfolding exclusive_def act unitOf_cong [OF units] by blast
  ultimately show "inventoryInv db'" using inventoryInvD(1) [OF inv] days K by (simp add: inventoryInv_def units)
qed

lemma wholePtrs_release:
  "wholePtrs (db\<lparr>t_roomDays := updateWhere (\<lambda>r. rd_roomId r = room \<and> rd_serviceDate r = d \<and> rd_wholeClaimId r = Some i)
       (\<lambda>r. r\<lparr>rd_wholeClaimId := None, rd_version := rd_version r + 1\<rparr>) (t_roomDays db)\<rparr>) = wholePtrs db - {(room, d, i)}"
proof (rule ptr_set_eqI)
  fix a x j
  let ?db = "db\<lparr>t_roomDays := updateWhere (\<lambda>r. rd_roomId r = room \<and> rd_serviceDate r = d \<and> rd_wholeClaimId r = Some i)
       (\<lambda>r. r\<lparr>rd_wholeClaimId := None, rd_version := rd_version r + 1\<rparr>) (t_roomDays db)\<rparr>"
  have "(a, x, j) \<in> wholePtrs ?db \<longleftrightarrow> (\<exists>r \<in> set (t_roomDays db). rd_roomId r = a \<and> rd_serviceDate r = x \<and>
      rd_wholeClaimId r = Some j \<and> (a, x, j) \<noteq> (room, d, i))"
    unfolding mem_wholePtrs by (simp add: bex_updateWhere) (rule bex_cong [OF HOL.refl], auto)
  then show "(a, x, j) \<in> wholePtrs ?db \<longleftrightarrow> (a, x, j) \<in> wholePtrs db - {(room, d, i)}" by (auto simp: mem_wholePtrs)
qed

lemma bedPtrs_release:
  "bedPtrs (db\<lparr>t_bedDays := updateWhere (\<lambda>r. bd_bedId r = b \<and> bd_serviceDate r = d \<and> bd_bedClaimId r = Some i)
       (\<lambda>r. r\<lparr>bd_bedClaimId := None, bd_version := bd_version r + 1\<rparr>) (t_bedDays db)\<rparr>) = bedPtrs db - {(b, d, i)}"
proof (rule ptr_set_eqI)
  fix a x j
  let ?db = "db\<lparr>t_bedDays := updateWhere (\<lambda>r. bd_bedId r = b \<and> bd_serviceDate r = d \<and> bd_bedClaimId r = Some i)
       (\<lambda>r. r\<lparr>bd_bedClaimId := None, bd_version := bd_version r + 1\<rparr>) (t_bedDays db)\<rparr>"
  have "(a, x, j) \<in> bedPtrs ?db \<longleftrightarrow> (\<exists>r \<in> set (t_bedDays db). bd_bedId r = a \<and> bd_serviceDate r = x \<and>
      bd_bedClaimId r = Some j \<and> (a, x, j) \<noteq> (b, d, i))"
    unfolding mem_bedPtrs by (simp add: bex_updateWhere) (rule bex_cong [OF HOL.refl], auto)
  then show "(a, x, j) \<in> bedPtrs ?db \<longleftrightarrow> (a, x, j) \<in> bedPtrs db - {(b, d, i)}" by (auto simp: mem_bedPtrs)
qed

lemma releaseClaim_inv:
  assumes inv: "inventoryInv db" and c: "c \<in> activeClaims db"
  shows "\<exists>db'. releaseClaim db c = Inr db' \<and> inventoryInv db' \<and> activeClaims db' = activeClaims db - {c} \<and> t_units db' = t_units db"
proof -
  let ?Q = "\<lambda>c'. c_id c' = c_id c \<and> c_active c'"
  obtain u where u: "unitOf db (c_inventoryUnitId c) = Some u" using claim_unit(1) [OF inv c] by blast
  have kind: "u_kind u = ROOM \<longleftrightarrow> c_inventoryUnitId c = c_roomId c"
    using claim_unit(2) [OF inv c] u by (auto simp: kindOf_def split: if_splits)
  note days = inventoryInvD(3) [OF inv]
  have q: "countWhere ?Q (t_claims db) = 1"
    using inventoryInvD(2) [OF inv] c by (intro count_unique [of c_id _ c]) (auto simp: claimsOk_def activeClaims_def)
  show ?thesis
  proof (cases "c_inventoryUnitId c = c_roomId c")
    case True
    let ?P = "\<lambda>r. rd_roomId r = c_roomId c \<and> rd_serviceDate r = c_serviceDate c \<and> rd_wholeClaimId r = Some (c_id c)"
    let ?db1 = "db\<lparr>t_roomDays := updateWhere ?P (\<lambda>r. r\<lparr>rd_wholeClaimId := None, rd_version := rd_version r + 1\<rparr>) (t_roomDays db)\<rparr>"
    let ?db' = "?db1\<lparr>t_claims := updateWhere ?Q (\<lambda>c'. c'\<lparr>c_active := False\<rparr>) (t_claims db)\<rparr>"
    obtain r where "r \<in> set (t_roomDays db)" "?P r" using claim_wholePtr [OF inv c True] by blast
    then have n: "countWhere ?P (t_roomDays db) = 1"
      using days by (intro count_unique [of "\<lambda>r. (rd_roomId r, rd_serviceDate r)" _ r]) (auto simp: daysOk_def)
    have d: "daysOk ?db'" by (rule daysOk_cong [OF days]) (simp_all add: map_updateWhere)
    have "wholePtrs ?db' = wholePtrs ?db1" by (simp add: wholePtrs_def)
    then have "inventoryInv ?db'" "activeClaims ?db' = activeClaims db - {c}"
      using inventoryInv_remove [OF inv d _ c] True wholePtrs_release [where db = db and room = "c_roomId c" and d = "c_serviceDate c" and i = "c_id c"]
      by (simp_all add: bedPtrs_def)
    then show ?thesis using u kind True n q by (simp add: releaseClaim_def releasePointer_def unitOf_def)
  next
    case False
    let ?P = "\<lambda>r. bd_bedId r = c_inventoryUnitId c \<and> bd_serviceDate r = c_serviceDate c \<and> bd_bedClaimId r = Some (c_id c)"
    let ?db1 = "db\<lparr>t_bedDays := updateWhere ?P (\<lambda>r. r\<lparr>bd_bedClaimId := None, bd_version := bd_version r + 1\<rparr>) (t_bedDays db)\<rparr>"
    let ?db' = "?db1\<lparr>t_claims := updateWhere ?Q (\<lambda>c'. c'\<lparr>c_active := False\<rparr>) (t_claims db)\<rparr>"
    obtain r where "r \<in> set (t_bedDays db)" "?P r" using claim_bedPtr [OF inv c False] by blast
    then have n: "countWhere ?P (t_bedDays db) = 1"
      using days by (intro count_unique [of "\<lambda>r. (bd_bedId r, bd_serviceDate r)" _ r]) (auto simp: daysOk_def)
    have d: "daysOk ?db'" by (rule daysOk_cong [OF days]) (simp_all add: map_updateWhere)
    have "bedPtrs ?db' = bedPtrs ?db1" by (simp add: bedPtrs_def)
    then have "inventoryInv ?db'" "activeClaims ?db' = activeClaims db - {c}"
      using inventoryInv_remove [OF inv d _ c] False bedPtrs_release [where db = db and b = "c_inventoryUnitId c" and d = "c_serviceDate c" and i = "c_id c"]
      by (simp_all add: wholePtrs_def)
    then show ?thesis using u kind False n q by (simp add: releaseClaim_def releasePointer_def unitOf_def)
  qed
qed

lemma releaseAll_inv:
  assumes "inventoryInv db" "distinct cs" "set cs \<subseteq> activeClaims db"
  shows "\<exists>db'. releaseAll db cs = Inr (map c_id cs, db') \<and> inventoryInv db' \<and> activeClaims db' = activeClaims db - set cs \<and> t_units db' = t_units db"
proof -
  have "\<exists>db'. foldR releaseClaim db cs = Inr db' \<and> inventoryInv db' \<and> activeClaims db' = activeClaims db - set cs \<and> t_units db' = t_units db"
    using assms
  proof (induction cs arbitrary: db)
    case (Cons c cs)
    then obtain mid where m: "releaseClaim db c = Inr mid" "inventoryInv mid" "activeClaims mid = activeClaims db - {c}" "t_units mid = t_units db"
      using releaseClaim_inv [of db c] by auto
    have "set cs \<subseteq> activeClaims mid" using Cons.prems m(3) by auto
    with Cons.IH [OF m(2)] Cons.prems(2) m show ?case by auto
  qed simp
  then show ?thesis by (auto simp: releaseAll_def)
qed

lemma distinct_claims: "claimsOk db \<Longrightarrow> distinct (t_claims db)"
  by (simp add: claimsOk_def distinct_map)

section \<open>Loading and locking\<close>

lemma load_backed:
  assumes "unitsOk (t_units db)" "loadInventoryUnitRecord db p i act = Inr unit"
  shows "backed db unit" and "r_id unit = i" and "r_propertyId unit = p"
proof -
  from assms(2) obtain row where f: "find (\<lambda>u. u_id u = i \<and> u_propertyId u = p \<and> (act \<longrightarrow> u_active u)) (t_units db) = Some row"
    and unit: "unit = unitRecord row"
    by (auto simp: loadInventoryUnitRecord_def split: option.splits if_splits)
  from find_SomeD [OF f] have row: "row \<in> set (t_units db)" "u_id row = i" "u_propertyId row = p" by auto
  then have "unitOf db i = Some row" using find_key [of u_id "t_units db" row] assms(1) by (simp add: unitOf_def unitsOk_def)
  then show "backed db unit" using row by (auto simp: backed_def unit unitRecord_def)
  show "r_id unit = i" "r_propertyId unit = p" using row by (simp_all add: unit unitRecord_def)
qed

lemma insertRoomDay_inv:
  assumes "inventoryInv db"
  shows "inventoryInv (insertRoomDay item db)" and "activeClaims (insertRoomDay item db) = activeClaims db"
    and "t_units (insertRoomDay item db) = t_units db" and "hasRoomDay (insertRoomDay item db) (fst item) (snd item)"
    and "hasRoomDay db r x \<Longrightarrow> hasRoomDay (insertRoomDay item db) r x"
proof -
  let ?db' = "insertRoomDay item db"
  show units: "t_units ?db' = t_units db" by (simp add: insertRoomDay_def)
  have claims: "t_claims ?db' = t_claims db" "t_bedDays ?db' = t_bedDays db" by (simp_all add: insertRoomDay_def)
  show act: "activeClaims ?db' = activeClaims db" by (simp add: activeClaims_def claims)
  have "wholePtrs ?db' = wholePtrs db" by (auto simp: wholePtrs_def insertRoomDay_def)
  moreover have "bedPtrs ?db' = bedPtrs db" by (simp add: bedPtrs_def claims)
  moreover have "claimsOfKind ?db' k = claimsOfKind db k" for k
    by (simp add: claimsOfKind_def act unitOf_cong(2) [OF units])
  moreover have "daysOk ?db'" using inventoryInvD(3) [OF assms] unfolding daysOk_def unitOf_cong(1) [OF units]
    by (auto simp: insertRoomDay_def list_ex_iff)
  moreover have "claimsOk ?db'" using inventoryInvD(2) [OF assms] unfolding claimsOk_def unitOf_cong(1) [OF units] by (simp add: claims)
  moreover have "exclusive ?db'" using inventoryInvD(4) [OF assms] unfolding exclusive_def unitOf_cong(2) [OF units] act .
  ultimately show "inventoryInv ?db'" using inventoryInvD [OF assms] by (simp add: inventoryInv_def units)
  show "hasRoomDay ?db' (fst item) (snd item)" by (auto simp: hasRoomDay_def insertRoomDay_def list_ex_iff)
  show "hasRoomDay db r x \<Longrightarrow> hasRoomDay ?db' r x" by (auto simp: hasRoomDay_def insertRoomDay_def)
qed

lemma lock_fold:
  assumes "inventoryInv db"
  shows "inventoryInv (fold insertRoomDay items db) \<and> activeClaims (fold insertRoomDay items db) = activeClaims db \<and>
     t_units (fold insertRoomDay items db) = t_units db \<and>
     (\<forall>r x. hasRoomDay db r x \<or> (r, x) \<in> set items \<longrightarrow> hasRoomDay (fold insertRoomDay items db) r x)"
  using assms
proof (induction items arbitrary: db)
  case (Cons item items)
  note one = insertRoomDay_inv [where item = item, OF Cons.prems]
  from Cons.IH [OF one(1)] one show ?case by (cases item) auto
qed simp

section \<open>The operations as steps\<close>

lemma mapR_unit_all: "mapR f xs = Inr ys \<Longrightarrow> x \<in> set xs \<Longrightarrow> \<exists>y. f x = Inr y"
  by (induction xs arbitrary: ys) auto

lemma checkWhole_row: "checkWhole db room d X = Inr () \<Longrightarrow> hasRoomDay db room d"
  by (auto simp: checkWhole_def hasRoomDay_def split: option.splits dest!: find_SomeD)

lemma assert_free:
  assumes inv: "inventoryInv db" and unit: "backed db unit"
    and ok: "assertUnitAvailable view db unit dates X purpose = Inr ()"
    and excl: "\<forall>c \<in> activeClaims db. c_roomId c = r_roomId unit \<and> c_serviceDate c \<in> set dates \<longrightarrow> c_sourceId c \<notin> set X"
    and d: "d \<in> set dates"
  shows "hasRoomDay db (r_roomId unit) d \<and> \<not> blocked db unit d"
proof -
  from ok obtain sb de ys where "mapR (assertNight db unit sb de X) dates = Inr ys"
    by (auto simp: assertUnitAvailable_def Let_def)
  from mapR_unit_all [OF this d] have night: "assertNight db unit sb de X d = Inr ()" by simp
  then have w: "checkWhole db (r_roomId unit) d X = Inr ()"
    and both: "bindR (checkWhole db (r_roomId unit) d X) (\<lambda>_. if r_kind unit = ROOM then checkBeds db (r_roomId unit) d X
       else checkBed db (r_id unit) d X) = Inr ()"
    by (auto simp: assertNight_def split: if_splits)
  have row: "hasRoomDay db (r_roomId unit) d" using checkWhole_row [OF w] .
  have "\<forall>c \<in> activeClaims db. c_roomId c = r_roomId unit \<and> c_serviceDate c = d \<longrightarrow> c_sourceId c \<notin> set X" using excl d by blast
  from pointer_check_spec [OF inv unit row this] both row show ?thesis by (simp split: if_splits)
qed

lemma create_inv:
  assumes inv: "inventoryInv db" and unit: "backed db (co_unit opts)"
    and ok: "createInventoryClaims view db opts dates X purpose ids = Inr (cids, db')"
    and excl: "\<forall>c \<in> activeClaims db. c_roomId c = r_roomId (co_unit opts) \<and> c_serviceDate c \<in> set dates \<longrightarrow> c_sourceId c \<notin> set X"
    and dates: "distinct dates"
    and ids: "distinct ids" "length ids = length dates" "[] \<notin> set ids" "set ids \<inter> c_id ` set (t_claims db) = {}"
  shows "inventoryInv db' \<and> activeClaims db' = activeClaims db \<union> set (map2 (newClaim opts) dates ids) \<and> cids = ids \<and> t_units db' = t_units db"
proof -
  have "assertUnitAvailable view db (co_unit opts) dates X purpose = Inr ()" using ok by (auto simp: createInventoryClaims_def)
  from assert_free [OF inv unit this excl]
  have free: "\<forall>d \<in> set dates. hasRoomDay db (r_roomId (co_unit opts)) d \<and> \<not> blocked db (co_unit opts) d" by blast
  from claims_fold [OF inv unit free dates ids] ok ids(2) show ?thesis by (auto simp: createInventoryClaims_def)
qed

lemma releasable:
  assumes "inventoryInv db"
  shows "\<exists>db'. releaseAll db (sortBy le (filter (\<lambda>c. P c \<and> c_active c) (t_claims db)))
      = Inr (map c_id (sortBy le (filter (\<lambda>c. P c \<and> c_active c) (t_claims db))), db') \<and>
    inventoryInv db' \<and> activeClaims db' = {c \<in> activeClaims db. \<not> P c} \<and> t_units db' = t_units db"
proof -
  let ?cs = "sortBy le (filter (\<lambda>c. P c \<and> c_active c) (t_claims db))"
  have "distinct ?cs" using distinct_claims [OF inventoryInvD(2) [OF assms]] by (simp add: distinct_sortBy)
  moreover have "set ?cs \<subseteq> activeClaims db" by (auto simp: activeClaims_def)
  ultimately obtain db' where "releaseAll db ?cs = Inr (map c_id ?cs, db')" "inventoryInv db'"
    "activeClaims db' = activeClaims db - set ?cs" "t_units db' = t_units db"
    using releaseAll_inv [OF assms] by blast
  moreover have "activeClaims db - set ?cs = {c \<in> activeClaims db. \<not> P c}" by (auto simp: activeClaims_def)
  ultimately show ?thesis by auto
qed

definition inSources :: "claim_source \<Rightarrow> string list \<Rightarrow> claim_row \<Rightarrow> bool" where
  "inSources ty srcs c \<longleftrightarrow> c_sourceType c = ty \<and> c_sourceId c \<in> set srcs"

lemma release_inv:
  assumes "inventoryInv db"
  shows "\<exists>ids db'. releaseInventoryClaims db ty srcs fromDate = Inr (ids, db') \<and> inventoryInv db' \<and>
     activeClaims db' = {c \<in> activeClaims db. \<not> (inSources ty srcs c \<and> (\<forall>d. truthyId fromDate = Some d \<longrightarrow> d \<le> c_serviceDate c))} \<and>
     t_units db' = t_units db"
proof (cases "srcs = []")
  case True
  then show ?thesis using assms by (auto simp: releaseInventoryClaims_def inSources_def)
next
  case False
  let ?P = "\<lambda>c. inSources ty srcs c \<and> (\<forall>d. truthyId fromDate = Some d \<longrightarrow> d \<le> c_serviceDate c)"
  have "filter (\<lambda>c. c_sourceType c = ty \<and> c_sourceId c \<in> set srcs \<and> c_active c \<and>
      (case truthyId fromDate of None \<Rightarrow> True | Some d \<Rightarrow> c_serviceDate c \<ge> d)) (t_claims db)
    = filter (\<lambda>c. ?P c \<and> c_active c) (t_claims db)"
    by (rule filter_cong) (auto simp: inSources_def split: option.splits)
  with releasable [OF assms, of _ ?P] False show ?thesis unfolding releaseInventoryClaims_def by (simp only: if_False) blast
qed

lemma releaseOnDates_inv:
  assumes "inventoryInv db"
  shows "\<exists>ids db'. releaseInventoryClaimsOnDates db ty srcs dates = Inr (ids, db') \<and> inventoryInv db' \<and>
     activeClaims db' = {c \<in> activeClaims db. \<not> (inSources ty srcs c \<and> c_serviceDate c \<in> set dates)} \<and> t_units db' = t_units db"
proof (cases "srcs = [] \<or> dates = []")
  case True
  then show ?thesis using assms by (auto simp: releaseInventoryClaimsOnDates_def inSources_def)
next
  case False
  let ?P = "\<lambda>c. inSources ty srcs c \<and> c_serviceDate c \<in> set dates"
  have "filter (\<lambda>c. c_sourceType c = ty \<and> c_sourceId c \<in> set srcs \<and> c_serviceDate c \<in> set dates \<and> c_active c) (t_claims db)
    = filter (\<lambda>c. ?P c \<and> c_active c) (t_claims db)"
    by (rule filter_cong) (auto simp: inSources_def)
  with releasable [OF assms, of _ ?P] False show ?thesis unfolding releaseInventoryClaimsOnDates_def by (simp only: if_False) blast
qed

text \<open>
  One step of the store: locking the days of a unit, claiming nights for a source, releasing the
  claims of sources. The identifiers drawn are new, and the sources a claim excludes from its
  check (the caller's own segments) hold nothing of that room on the claimed nights any more.
\<close>

inductive inventoryStep ::
  "(string \<Rightarrow> order_view result) \<Rightarrow> (string \<Rightarrow> string \<Rightarrow> bool) \<Rightarrow> inventory_db \<Rightarrow> inventory_db \<Rightarrow> bool"
  for view :: "string \<Rightarrow> order_view result" and localeLe :: "string \<Rightarrow> string \<Rightarrow> bool" where
  lock: "lockUnitDates localeLe db p uid a d allowInactive = Inr (unit, db') \<Longrightarrow> inventoryStep view localeLe db db'"
| claim: "loadInventoryUnitRecord db p uid requireActive = Inr (co_unit opts) \<Longrightarrow> distinct dates \<Longrightarrow>
    createInventoryClaims view db opts dates X purpose ids = Inr (cids, db') \<Longrightarrow>
    distinct ids \<and> length ids = length dates \<and> [] \<notin> set ids \<and> set ids \<inter> c_id ` set (t_claims db) = {} \<Longrightarrow>
    (\<forall>c \<in> activeClaims db. c_roomId c = r_roomId (co_unit opts) \<and> c_serviceDate c \<in> set dates \<longrightarrow> c_sourceId c \<notin> set X) \<Longrightarrow>
    inventoryStep view localeLe db db'"
| release: "releaseInventoryClaims db ty srcs fromDate = Inr (ids, db') \<Longrightarrow> inventoryStep view localeLe db db'"
| releaseDates: "releaseInventoryClaimsOnDates db ty srcs dates = Inr (ids, db') \<Longrightarrow> inventoryStep view localeLe db db'"

text \<open>A store without claims and days over a well-formed catalog.\<close>

definition emptyStore :: "inventory_db \<Rightarrow> bool" where
  "emptyStore db \<longleftrightarrow> unitsOk (t_units db) \<and> t_claims db = [] \<and> t_roomDays db = [] \<and> t_bedDays db = []"

lemma emptyStore_inv: "emptyStore db \<Longrightarrow> inventoryInv db"
  by (auto simp: emptyStore_def inventoryInv_def claimsOk_def daysOk_def exclusive_def wholePtrs_def bedPtrs_def
      claimsOfKind_def activeClaims_def)

lemma inventoryStep_inv:
  assumes "inventoryInv db" "inventoryStep view localeLe db db'"
  shows "inventoryInv db'"
  using assms(2)
proof cases
  case (lock p uid a d allowInactive unit)
  then show ?thesis using lock_fold [OF assms(1)] by (auto simp: lockUnitDates_def lockRoomDays_def Let_def split: if_splits)
next
  case (claim p uid requireActive opts dates X purpose ids cids)
  from load_backed(1) [OF inventoryInvD(1) [OF assms(1)] claim(1)] create_inv [OF assms(1) _ claim(3,5,2)] claim(4)
  show ?thesis by blast
next
  case (release ty srcs fromDate ids)
  then show ?thesis using release_inv [OF assms(1), of ty srcs fromDate] by auto
next
  case (releaseDates ty srcs dates ids)
  then show ?thesis using releaseOnDates_inv [OF assms(1), of ty srcs dates] by auto
qed

interpretation inventory: invariant_system emptyStore "inventoryStep view localeLe" inventoryInv for view localeLe
  by unfold_locales (rule emptyStore_inv, assumption, rule inventoryStep_inv)

section \<open>The availability list and the check\<close>

lemma damagedBlockers_filter:
  "damagedBlockers view bs = Inr ds \<Longrightarrow> damagedBlockers view (filter P bs) = Inr (filter P ds)"
  by (induction bs arbitrary: ds) (auto split: sum.splits failure.splits)

lemma departureBlockers_unit:
  assumes "loadInventoryDepartureBlockers view db p dates purpose None [] = Inr bs"
  shows "loadInventoryDepartureBlockers view db p dates purpose (Some unit) []
     = Inr (filter (\<lambda>b. departureDayBlockerAffectsUnit b (r_id unit) (r_kind unit) (r_roomId unit)) bs)"
  using assms damagedBlockers_filter [of view]
  by (cases "purpose = LODGING_NIGHTS") (auto simp: loadInventoryDepartureBlockers_def Let_def)

lemma mapR_uniform:
  assumes "\<And>x. x \<in> set xs \<Longrightarrow> f x = (if A x then Inr () else inventory_conflict)"
  shows "bindR (mapR f xs) (\<lambda>_. Inr ()) = (if \<forall>x \<in> set xs. A x then Inr () else inventory_conflict)"
  using assms by (induction xs) (auto simp: bindR_assoc)

lemma blocking_none_iff:
  assumes "a \<le> d" "d < b" "\<forall>c \<in> activeClaims db. c_roomId c = r_roomId unit \<longrightarrow> c_propertyId c = p"
  shows "filter (claimBlocks [] d (r_id unit) (r_kind unit) (r_roomId unit)) (activeClaimsBetween db p a b) = [] \<longleftrightarrow> \<not> blocked db unit d"
  using assms by (auto simp: filter_empty_conv blocked_def activeClaimsBetween_def activeClaims_def claimBlocks_def)

lemma assertNight_available:
  assumes inv: "inventoryInv db" and unit: "backed db unit" and row: "hasRoomDay db (r_roomId unit) d"
    and inside: "a \<le> d" "d < b" and owner: "\<forall>c \<in> activeClaims db. c_roomId c = r_roomId unit \<longrightarrow> c_propertyId c = p"
  shows "assertNight db unit (filter (\<lambda>b. departureDayBlockerAffectsUnit b (r_id unit) (r_kind unit) (r_roomId unit)) bs)
       (filter (\<lambda>b. deferredUnavailableBlockerAffectsUnit b (r_id unit) (r_kind unit) (r_roomId unit)) de) [] d
     = (if an_available (nightAvailability (activeClaimsBetween db p a b) bs de [] None unit d) then Inr () else inventory_conflict)"
proof -
  let ?stay = "list_ex (\<lambda>b. db_serviceDate b = d) (filter (\<lambda>b. departureDayBlockerAffectsUnit b (r_id unit) (r_kind unit) (r_roomId unit)) bs)"
  let ?def = "list_ex (\<lambda>b. du_arrivalDate b \<le> d \<and> d < du_departureDate b)
     (filter (\<lambda>b. deferredUnavailableBlockerAffectsUnit b (r_id unit) (r_kind unit) (r_roomId unit)) de)"
  have "an_available (nightAvailability (activeClaimsBetween db p a b) bs de [] None unit d) \<longleftrightarrow> \<not> ?stay \<and> \<not> ?def \<and> \<not> blocked db unit d"
    using blocking_none_iff [OF inside owner] by (auto simp: nightAvailability_def Let_def filter_empty_conv list_ex_iff)
  moreover have "bindR (checkWhole db (r_roomId unit) d []) (\<lambda>_. if r_kind unit = ROOM then checkBeds db (r_roomId unit) d []
       else checkBed db (r_id unit) d []) = (if blocked db unit d then inventory_conflict else Inr ())"
    using pointer_check_spec [OF inv unit row] by simp
  ultimately show ?thesis unfolding assertNight_def by simp
qed

section \<open>Properties\<close>

text \<open>
  C23: In every store reachable from an empty one by locking, claiming and releasing, two
  different active claims of the same room and night are claims of two different beds: no room
  and no bed is booked twice, and no room is sold whole while one of its beds is taken.
\<close>

theorem reachable_noDoubleBooking:
  assumes "emptyStore db" and "(inventoryStep view localeLe)\<^sup>*\<^sup>* db db'"
  shows "noDoubleBooking db'"
  using inventory.reachable_consequence [OF assms] noDoubleBooking_inv .

text \<open>
  C24: A successful claim adds exactly one active claim per requested night, for the requested
  unit and source under the drawn identifiers, changes no other claim, and keeps the store
  consistent; before it, no claim of the unit, of its room or (for a room) of its beds was
  active on those nights.
\<close>

theorem createInventoryClaims_exact:
  assumes "inventoryInv db" and "loadInventoryUnit db p uid = Inr (co_unit opts)" and "distinct dates"
    and "createInventoryClaims view db opts dates X purpose ids = Inr (cids, db')"
    and "distinct ids \<and> length ids = length dates \<and> [] \<notin> set ids \<and> set ids \<inter> c_id ` set (t_claims db) = {}"
    and "\<forall>c \<in> activeClaims db. c_roomId c = r_roomId (co_unit opts) \<and> c_serviceDate c \<in> set dates \<longrightarrow> c_sourceId c \<notin> set X"
  shows "inventoryInv db' \<and> cids = ids \<and> activeClaims db' = activeClaims db \<union> set (map2 (newClaim opts) dates ids) \<and>
     (\<forall>d \<in> set dates. \<not> blocked db (co_unit opts) d \<and> blocked db' (co_unit opts) d)"
proof -
  note unit = load_backed(1) [OF inventoryInvD(1) [OF assms(1)] assms(2) [unfolded loadInventoryUnit_def]]
  have created: "inventoryInv db' \<and> activeClaims db' = activeClaims db \<union> set (map2 (newClaim opts) dates ids) \<and> cids = ids"
    using create_inv [OF assms(1) unit assms(4,6,3)] assms(5) by blast
  have "assertUnitAvailable view db (co_unit opts) dates X purpose = Inr ()" using assms(4) by (auto simp: createInventoryClaims_def)
  then have free: "\<not> blocked db (co_unit opts) d" if "d \<in> set dates" for d using assert_free [OF assms(1) unit _ assms(6) that] by blast
  have "blocked db' (co_unit opts) d" if "d \<in> set dates" for d
  proof -
    from that obtain k where k: "k < length dates" "dates ! k = d" by (auto simp: in_set_conv_nth)
    then have "newClaim opts d (ids ! k) \<in> set (map2 (newClaim opts) dates ids)"
      using assms(5) by (force simp: set_zip)
    then have "newClaim opts d (ids ! k) \<in> activeClaims db'" using created by blast
    then show ?thesis unfolding blocked_def by (rule bexI [rotated]) (simp add: claimBlocks_def)
  qed
  with created free show ?thesis by blast
qed

text \<open>
  C25: On a consistent store a release never fails: it deactivates exactly the active claims of
  the given sources (from the given date on, or on the given dates), and the store stays
  consistent.
\<close>

theorem releaseInventoryClaims_exact:
  assumes "inventoryInv db"
  shows "(\<exists>ids db'. releaseInventoryClaims db ty srcs fromDate = Inr (ids, db') \<and> inventoryInv db' \<and>
       activeClaims db' = {c \<in> activeClaims db. \<not> (inSources ty srcs c \<and> (\<forall>d. truthyId fromDate = Some d \<longrightarrow> d \<le> c_serviceDate c))}) \<and>
     (\<exists>ids db'. releaseInventoryClaimsOnDates db ty srcs dates = Inr (ids, db') \<and> inventoryInv db' \<and>
       activeClaims db' = {c \<in> activeClaims db. \<not> (inSources ty srcs c \<and> c_serviceDate c \<in> set dates)})"
  using release_inv [OF assms, of ty srcs fromDate] releaseOnDates_inv [OF assms, of ty srcs dates] by blast

text \<open>
  C26: The check made before a booking, which reads the day pointers, and the availability list,
  which reads the claims, decide alike: on a consistent store with the room's days locked, the
  check of a listed unit succeeds exactly when the list shows all nights available, and is an
  inventory conflict otherwise.
\<close>

theorem assertUnitAvailable_agrees:
  assumes inv: "inventoryInv db" and unit: "loadInventoryUnitIncludingInactive db p uid = Inr unit"
    and dates: "enumerateServiceDates a b = Inr dates"
    and list: "listAvailability view catalogName db p a b kind None purpose = Inr avs"
    and av: "av \<in> set avs" "r_id (ua_unit av) = uid"
    and rows: "\<forall>d \<in> set dates. hasRoomDay db (r_roomId unit) d"
    and owner: "\<forall>c \<in> activeClaims db. c_roomId c = r_roomId unit \<longrightarrow> c_propertyId c = p"
  shows "assertUnitAvailable view db unit dates [] purpose = (if ua_available av then Inr () else inventory_conflict)"
proof -
  let ?claims = "activeClaimsBetween db p a b" and ?de = "loadDeferredUnavailableBlockers db p dates"
  note load = load_backed [OF inventoryInvD(1) [OF inv] unit [unfolded loadInventoryUnitIncludingInactive_def]]
  from list dates obtain bs where bs: "loadInventoryDepartureBlockers view db p dates purpose None [] = Inr bs"
    and avs: "avs = map (\<lambda>row. let unit = unitRecord row; nights = map (nightAvailability ?claims bs ?de [] None unit) dates
        in \<lparr>ua_unit = unit, ua_nights = nights, ua_available = list_all an_available nights\<rparr>) (saleableUnits catalogName db p kind)"
    by (auto simp: listAvailability_def excludedOrder_def Let_def)
  from av(1) obtain row where row: "row \<in> set (saleableUnits catalogName db p kind)" "ua_unit av = unitRecord row"
    "ua_available av = list_all an_available (map (nightAvailability ?claims bs ?de [] None (unitRecord row)) dates)"
    unfolding avs by (auto simp: Let_def)
  then obtain u where u: "u \<in> set (t_units db)" "row = u\<lparr>u_name := catalogName u\<rparr>" by (auto simp: saleableUnits_def Let_def)
  have "u_id u = uid" using av(2) row(2) u(2) by (simp add: unitRecord_def)
  moreover obtain w where w: "unitOf db uid = Some w" "r_kind unit = u_kind w" "r_roomId unit = roomIdOf w"
    using load(1,2) by (auto simp: backed_def)
  ultimately have "u = w" using find_key [of u_id "t_units db" u] inventoryInvD(1) [OF inv] u(1) by (simp add: unitOf_def unitsOk_def)
  then have same: "r_id (unitRecord row) = r_id unit" "r_kind (unitRecord row) = r_kind unit" "r_roomId (unitRecord row) = r_roomId unit"
    using w load(2) \<open>u_id u = uid\<close> by (simp_all add: unitRecord_def u(2) roomIdOf_def)
  have nights: "nightAvailability ?claims bs ?de [] None (unitRecord row) = nightAvailability ?claims bs ?de [] None unit"
    by (simp add: nightAvailability_def same fun_eq_iff)
  have eq: "assertNight db unit (filter (\<lambda>b. departureDayBlockerAffectsUnit b (r_id unit) (r_kind unit) (r_roomId unit)) bs)
       (filter (\<lambda>b. deferredUnavailableBlockerAffectsUnit b (r_id unit) (r_kind unit) (r_roomId unit)) ?de) [] d
     = (if an_available (nightAvailability ?claims bs ?de [] None unit d) then Inr () else inventory_conflict)"
    if "d \<in> set dates" for d
    using assertNight_available [OF inv load(1) _ _ _ owner, of d a b] rows that enumerateServiceDates_facts(9) [OF dates, of d] by blast
  have "assertUnitAvailable view db unit dates [] purpose =
     bindR (mapR (assertNight db unit (filter (\<lambda>b. departureDayBlockerAffectsUnit b (r_id unit) (r_kind unit) (r_roomId unit)) bs)
       (filter (\<lambda>b. deferredUnavailableBlockerAffectsUnit b (r_id unit) (r_kind unit) (r_roomId unit)) ?de) []) dates) (\<lambda>_. Inr ())"
    using departureBlockers_unit [OF bs, of unit] load(3) by (simp add: assertUnitAvailable_def)
  also have "\<dots> = (if \<forall>d \<in> set dates. an_available (nightAvailability ?claims bs ?de [] None unit d) then Inr () else inventory_conflict)"
    by (rule mapR_uniform) (rule eq)
  finally show ?thesis using row(3) by (simp add: nights list_all_iff)
qed

section \<open>A store with one room\<close>

definition demoRoom :: unit_row where
  "demoRoom = \<lparr>u_id = ''R'', u_propertyId = ''P'', u_kind = ROOM, u_parentRoomId = None, u_code = ''101'', u_name = ''101'',
     u_active = True, u_catalogVersion = None, u_buildingCode = None, u_roomTypeCode = None, u_pricingProductCode = None,
     u_inventoryBasis = None, u_codeProvenance = None, u_physicalBedCount = None, u_occupancyCapacity = 2\<rparr>"

definition demoStore :: inventory_db where
  "demoStore = \<lparr>t_units = [demoRoom], t_claims = [], t_roomDays = [], t_bedDays = [], t_blocks = [], t_orders = [],
     t_segments = [], t_localDates = [(''P'', ''2026-06-01'')]\<rparr>"

definition demoOpts :: claim_options where
  "demoOpts = \<lparr>co_propertyId = ''P'', co_unit = unitRecord demoRoom, co_sourceType = ORDER_SEGMENT, co_sourceId = ''S''\<rparr>"

definition demoView :: "string \<Rightarrow> order_view result" where
  "demoView i = throw NOT_FOUND 404"

definition demoLocked :: inventory_db where
  "demoLocked = demoStore\<lparr>t_roomDays := [\<lparr>rd_roomId = ''R'', rd_serviceDate = ''2026-07-01'', rd_wholeClaimId = None, rd_version = 0\<rparr>]\<rparr>"

definition demoClaimed :: inventory_db where
  "demoClaimed = demoLocked\<lparr>t_claims := [newClaim demoOpts ''2026-07-01'' ''c1''],
     t_roomDays := [\<lparr>rd_roomId = ''R'', rd_serviceDate = ''2026-07-01'', rd_wholeClaimId = Some ''c1'', rd_version = 1\<rparr>]\<rparr>"

lemma demo_lock:
  "lockUnitDates (\<le>) demoStore ''P'' ''R'' ''2026-07-01'' ''2026-07-02'' False = Inr (unitRecord demoRoom, demoLocked)"
  by code_simp

lemma demo_claim:
  "createInventoryClaims demoView demoLocked demoOpts [''2026-07-01''] [] LODGING_NIGHTS [''c1''] = Inr ([''c1''], demoClaimed)"
  by code_simp

lemma demo_load: "loadInventoryUnit demoLocked ''P'' ''R'' = Inr (co_unit demoOpts)"
  by code_simp

lemma demo_empty: "emptyStore demoStore"
  by (simp add: emptyStore_def demoStore_def unitsOk_def demoRoom_def)

lemma demo_noClaims: "activeClaims demoLocked = {}" "t_claims demoLocked = []"
  by (simp_all add: activeClaims_def demoLocked_def demoStore_def)

lemma demo_inv: "inventoryInv demoLocked"
  using inventoryStep_inv [OF emptyStore_inv [OF demo_empty] inventoryStep.lock [OF demo_lock]] .

theorem reachable_noDoubleBooking_witness: "noDoubleBooking demoClaimed \<and> activeClaims demoClaimed \<noteq> {}"
proof
  have "inventoryStep demoView (\<le>) demoStore demoLocked" using inventoryStep.lock [OF demo_lock] .
  moreover have "inventoryStep demoView (\<le>) demoLocked demoClaimed"
    by (rule inventoryStep.claim [OF demo_load [unfolded loadInventoryUnit_def] _ demo_claim]) (simp_all add: demo_noClaims)
  ultimately have "(inventoryStep demoView (\<le>))\<^sup>*\<^sup>* demoStore demoClaimed" by (meson converse_rtranclp_into_rtranclp rtranclp.rtrancl_refl)
  from reachable_noDoubleBooking [OF demo_empty this] show "noDoubleBooking demoClaimed" .
  show "activeClaims demoClaimed \<noteq> {}" by (simp add: activeClaims_def demoClaimed_def)
qed

theorem createInventoryClaims_witness: "blocked demoClaimed (co_unit demoOpts) ''2026-07-01'' \<and> \<not> blocked demoLocked (co_unit demoOpts) ''2026-07-01''"
  using createInventoryClaims_exact [OF demo_inv demo_load _ demo_claim] by (simp add: demo_noClaims)

theorem releaseInventoryClaims_witness:
  "\<exists>ids db'. releaseInventoryClaims demoLocked ORDER_SEGMENT [''S''] None = Inr (ids, db') \<and> inventoryInv db'"
  using releaseInventoryClaims_exact [OF demo_inv] by blast

lemma demo_list:
  "\<exists>nights unit. listAvailability demoView u_name demoLocked ''P'' ''2026-07-01'' ''2026-07-02'' None None LODGING_NIGHTS
     = Inr [\<lparr>ua_unit = unit, ua_nights = nights, ua_available = True\<rparr>] \<and> r_id unit = ''R''"
proof -
  have "listAvailability demoView u_name demoLocked ''P'' ''2026-07-01'' ''2026-07-02'' None None LODGING_NIGHTS
     = Inr [\<lparr>ua_unit = unitRecord demoRoom,
       ua_nights = [\<lparr>an_serviceDate = ''2026-07-01'', an_available = True, an_blockingClaimIds = []\<rparr>], ua_available = True\<rparr>]"
    by code_simp
  then show ?thesis by (auto simp: unitRecord_def demoRoom_def)
qed

theorem assertUnitAvailable_witness:
  "assertUnitAvailable demoView demoLocked (unitRecord demoRoom) [''2026-07-01''] [] LODGING_NIGHTS = Inr ()"
proof -
  have load: "loadInventoryUnitIncludingInactive demoLocked ''P'' ''R'' = Inr (unitRecord demoRoom)" by code_simp
  have dates: "enumerateServiceDates ''2026-07-01'' ''2026-07-02'' = Inr [''2026-07-01'']" by code_simp
  obtain nights unit where l: "listAvailability demoView u_name demoLocked ''P'' ''2026-07-01'' ''2026-07-02'' None None LODGING_NIGHTS
     = Inr [\<lparr>ua_unit = unit, ua_nights = nights, ua_available = True\<rparr>]" "r_id unit = ''R''" using demo_list by blast
  have "\<forall>d \<in> set [''2026-07-01'']. hasRoomDay demoLocked (r_roomId (unitRecord demoRoom)) d"
    by (simp add: hasRoomDay_def demoLocked_def unitRecord_def roomIdOf_def demoRoom_def)
  from assertUnitAvailable_agrees [OF demo_inv load dates l(1) _ _ this] l(2) show ?thesis by (simp add: demo_noClaims)
qed

end
