(* ===== verification/Json.thy ===== *)
theory Json
  imports Dates
begin

text \<open>
  The hashed representation of a value: \<^verbatim>\<open>packages/domain/src/ids.ts\<close> (stableJson, stableHash,
  newId) and \<^verbatim>\<open>packages/domain/src/pms-projection-hash.ts\<close>. Requests, command effects
  and idempotency fingerprints are compared by the hash of this text, so it has to be independent of
  the order of object keys and to tell different values apart; both are shown here.

  A value is a \<open>json\<close>: undefined, null, a boolean, a number, a string, an array or an object with
  its own enumerable properties in insertion order (distinct names). Numbers are the integers below
  ten to the 21 in absolute value, which \<^verbatim>\<open>JSON.stringify\<close> prints in decimal. The order of
  \<^verbatim>\<open>localeCompare\<close> is the parameter \<open>localeLe\<close> (left may stay before right), the digest of
  node:crypto the parameter \<open>digest\<close>.
\<close>

section \<open>Values and their text\<close>

datatype json = JUndefined | JNull | JBool bool | JNum int | JStr string | JArr "json list" | JObj "(string \<times> json) list"

function showNat :: "int \<Rightarrow> string" where
  "showNat n = (if n < 10 then [digit n] else showNat (n div 10) @ [digit (n mod 10)])"
  by auto
termination by (relation "measure nat") auto

declare showNat.simps [simp del]

definition showInt :: "int \<Rightarrow> string" where
  "showInt n = (if n < 0 then CHR ''-'' # showNat (- n) else showNat n)"

definition hexDigit :: "nat \<Rightarrow> char" where
  "hexDigit n = (if n < 10 then char_of (48 + n) else char_of (87 + n))"

text \<open>The escapes of a JSON string literal.\<close>

definition escapeChar :: "char \<Rightarrow> string" where
  "escapeChar c =
     (if c = CHR 0x22 then [CHR 0x5C, CHR 0x22]
      else if c = CHR 0x5C then [CHR 0x5C, CHR 0x5C]
      else if c = CHR 0x08 then [CHR 0x5C, CHR ''b'']
      else if c = CHR 0x09 then [CHR 0x5C, CHR ''t'']
      else if c = CHR 0x0A then [CHR 0x5C, CHR ''n'']
      else if c = CHR 0x0C then [CHR 0x5C, CHR ''f'']
      else if c = CHR 0x0D then [CHR 0x5C, CHR ''r'']
      else if (of_char c :: nat) < 32
        then [CHR 0x5C, CHR ''u'', CHR ''0'', CHR ''0'', hexDigit (of_char c div 16), hexDigit (of_char c mod 16)]
      else [c])"

definition quoteString :: "string \<Rightarrow> string" where
  "quoteString s = [CHR 0x22] @ concat (map escapeChar s) @ [CHR 0x22]"

fun joinWith :: "string \<Rightarrow> string list \<Rightarrow> string" where
  "joinWith sep [] = []"
| "joinWith sep [x] = x"
| "joinWith sep (x # xs) = x @ sep @ joinWith sep xs"

text \<open>\<^verbatim>\<open>Object.entries(value).filter(defined).sort(localeCompare)\<close>\<close>

definition sortedEntries :: "(string \<Rightarrow> string \<Rightarrow> bool) \<Rightarrow> (string \<times> json) list \<Rightarrow> (string \<times> json) list" where
  "sortedEntries localeLe props =
     sortBy (\<lambda>a b. localeLe (fst a) (fst b)) (filter (\<lambda>e. snd e \<noteq> JUndefined) props)"

lemma size_entry: "e \<in> set props \<Longrightarrow> size (snd e) < size (JObj props)"
  by (induction props) auto

lemma size_element: "v \<in> set vs \<Longrightarrow> size v < size (JArr vs)"
  by (induction vs) auto

lemma size_sortedEntries: "e \<in> set (sortedEntries localeLe props) \<Longrightarrow> size (snd e) < size (JObj props)"
  by (rule size_entry) (auto simp: sortedEntries_def)

text \<open>
  A template literal or \<^verbatim>\<open>join\<close> prints the undefined that \<^verbatim>\<open>JSON.stringify(undefined)\<close> returns as
  the empty string; it occurs only as an array element, undefined properties are dropped.
\<close>

function stableJson :: "(string \<Rightarrow> string \<Rightarrow> bool) \<Rightarrow> json \<Rightarrow> string" where
  "stableJson localeLe JUndefined = []"
| "stableJson localeLe JNull = ''null''"
| "stableJson localeLe (JBool b) = (if b then ''true'' else ''false'')"
| "stableJson localeLe (JNum n) = showInt n"
| "stableJson localeLe (JStr s) = quoteString s"
| "stableJson localeLe (JArr vs) = ''['' @ joinWith '','' (map (stableJson localeLe) vs) @ '']''"
| "stableJson localeLe (JObj props) =
     ''{'' @ joinWith '','' (map (\<lambda>e. quoteString (fst e) @ '':'' @ stableJson localeLe (snd e))
                       (sortedEntries localeLe props)) @ ''}''"
  by pat_completeness auto
termination
  by (relation "measure (size \<circ> snd)") (auto dest: size_element size_sortedEntries)

definition stableHash :: "(string \<Rightarrow> string) \<Rightarrow> (string \<Rightarrow> string \<Rightarrow> bool) \<Rightarrow> json \<Rightarrow> string result" where
  "stableHash digest localeLe v =
     (if v = JUndefined then uncaught else Inr (digest (stableJson localeLe v)))"

definition newId :: "string \<Rightarrow> string \<Rightarrow> string" where
  "newId prefix randomUUID = prefix @ ''_'' @ randomUUID"

text \<open>
  The projection hash of the integration interface (pms-projection-hash.ts) prints the same shape with
  the keys in code unit order, and refuses numbers and undefined. Unpaired surrogates, which it refuses
  too, do not occur among the code units of the model.
\<close>

function canonicalProjectionJson :: "json \<Rightarrow> string result" where
  "canonicalProjectionJson JNull = Inr ''null''"
| "canonicalProjectionJson (JBool b) = Inr (if b then ''true'' else ''false'')"
| "canonicalProjectionJson (JStr s) = Inr (quoteString s)"
| "canonicalProjectionJson (JArr vs) =
     bindR (mapR canonicalProjectionJson vs) (\<lambda>ts. Inr (''['' @ joinWith '','' ts @ '']''))"
| "canonicalProjectionJson (JObj props) =
     bindR (mapR (\<lambda>e. bindR (canonicalProjectionJson (snd e)) (\<lambda>t. Inr (quoteString (fst e) @ '':'' @ t)))
             (sortBy (\<lambda>a b. fst a \<le> fst b) props)) (\<lambda>ts. Inr (''{'' @ joinWith '','' ts @ ''}''))"
| "canonicalProjectionJson JUndefined = uncaught"
| "canonicalProjectionJson (JNum n) = uncaught"
  by pat_completeness auto
termination
  by (relation "measure size") (auto dest: size_element size_entry)

definition pmsProjectionHash :: "(string \<Rightarrow> string) \<Rightarrow> (string \<times> json) list \<Rightarrow> string result" where
  "pmsProjectionHash digest projection =
     bindR (canonicalProjectionJson (JObj (filter (\<lambda>e. fst e \<notin> {''projection_hash'', ''observed_at'', ''read_context''}) projection)))
       (\<lambda>t. Inr (digest t))"

section \<open>The text is a faithful fingerprint\<close>

text \<open>
  A value as parsed from a request: no undefined array elements, object keys distinct. Its canonical
  form forgets the order of keys and the undefined properties, and nothing else.
\<close>

function plainJson :: "json \<Rightarrow> bool" where
  "plainJson (JArr vs) = (JUndefined \<notin> set vs \<and> list_all plainJson vs)"
| "plainJson (JObj props) = (distinct (map fst props) \<and> list_all (\<lambda>e. plainJson (snd e)) props)"
| "plainJson JUndefined = True"
| "plainJson JNull = True"
| "plainJson (JBool b) = True"
| "plainJson (JNum n) = True"
| "plainJson (JStr s) = True"
  by pat_completeness auto
termination
  by (relation "measure size") (auto dest: size_element size_entry)

function canon :: "json \<Rightarrow> json" where
  "canon (JArr vs) = JArr (map canon vs)"
| "canon (JObj props) =
     JObj (sortBy (\<lambda>a b. fst a \<le> fst b)
       (map (\<lambda>e. (fst e, canon (snd e))) (filter (\<lambda>e. snd e \<noteq> JUndefined) props)))"
| "canon JUndefined = JUndefined"
| "canon JNull = JNull"
| "canon (JBool b) = JBool b"
| "canon (JNum n) = JNum n"
| "canon (JStr s) = JStr s"
  by pat_completeness auto
termination
  by (relation "measure size") (auto dest: size_element size_entry)

lemma canon_JUndefined [simp]: "canon v = JUndefined \<longleftrightarrow> v = JUndefined"
  by (cases v) auto

text \<open>Two lists sorted by an order that is antisymmetric on their elements and with the same elements are equal.\<close>

lemma sorted_unique:
  assumes "sorted_wrt le xs" "sorted_wrt le ys" "distinct xs" "distinct ys" "set xs = set ys"
    and "\<And>x y. x \<in> set xs \<Longrightarrow> y \<in> set xs \<Longrightarrow> le x y \<Longrightarrow> le y x \<Longrightarrow> x = y"
  shows "xs = ys"
  using assms
proof (induction xs arbitrary: ys)
  case (Cons x xs)
  then obtain y ys' where ys: "ys = y # ys'" by (cases ys) auto
  have "x = y"
  proof (rule ccontr)
    assume "x \<noteq> y"
    then have "x \<in> set ys'" "y \<in> set xs" using Cons.prems(5) ys by auto
    then have "le y x" "le x y" using Cons.prems(1,2) ys by auto
    with Cons.prems(6) \<open>y \<in> set xs\<close> \<open>x \<noteq> y\<close> show False by auto
  qed
  moreover have "set xs = set ys'" using Cons.prems(3-5) ys \<open>x = y\<close> by auto
  ultimately show ?case using Cons.IH [of ys'] Cons.prems ys by auto
qed simp

text \<open>
  What is assumed of \<^verbatim>\<open>localeCompare\<close>: a total preorder. It may compare different strings as equal (it does so
  for canonically equivalent ones), so the order of two entries is fixed only where their keys are separated.
\<close>

function keysSeparated :: "(string \<Rightarrow> string \<Rightarrow> bool) \<Rightarrow> json \<Rightarrow> bool" where
  "keysSeparated le (JArr vs) = list_all (keysSeparated le) vs"
| "keysSeparated le (JObj props) =
     (list_all (\<lambda>x. list_all (\<lambda>y. le (fst x) (fst y) \<and> le (fst y) (fst x) \<longrightarrow> fst x = fst y)
        (filter (\<lambda>e. snd e \<noteq> JUndefined) props)) (filter (\<lambda>e. snd e \<noteq> JUndefined) props)
      \<and> list_all (\<lambda>e. keysSeparated le (snd e)) props)"
| "keysSeparated le JUndefined = True"
| "keysSeparated le JNull = True"
| "keysSeparated le (JBool b) = True"
| "keysSeparated le (JNum n) = True"
| "keysSeparated le (JStr s) = True"
  by pat_completeness auto
termination
  by (relation "measure (size \<circ> snd)") (auto dest: size_element size_entry)

locale collation = comparator le for le :: "string \<Rightarrow> string \<Rightarrow> bool"
begin

lemma key_comparator: "comparator (\<lambda>(a :: string \<times> 'v) b. le (fst a) (fst b))"
  by unfold_locales (use total trans in blast)+

lemma sortKeys_unique:
  assumes "distinct (map fst xs)" "distinct (map fst ys)" "set xs = set ys"
    and antisym: "\<And>x y. x \<in> set xs \<Longrightarrow> y \<in> set xs \<Longrightarrow> le (fst x) (fst y) \<Longrightarrow> le (fst y) (fst x) \<Longrightarrow> fst x = fst y"
  shows "sortBy (\<lambda>a b. le (fst a) (fst b)) xs = sortBy (\<lambda>a b. le (fst a) (fst b)) ys"
proof (rule sorted_unique [where le = "\<lambda>a b. le (fst a) (fst b)"])
  show "distinct (sortBy (\<lambda>a b. le (fst a) (fst b)) xs)" "distinct (sortBy (\<lambda>a b. le (fst a) (fst b)) ys)"
    using assms(1,2) by (auto simp: distinct_map)
  show "x = y" if "x \<in> set (sortBy (\<lambda>a b. le (fst a) (fst b)) xs)" "y \<in> set (sortBy (\<lambda>a b. le (fst a) (fst b)) xs)"
    "le (fst x) (fst y)" "le (fst y) (fst x)" for x y
    using that antisym [of x y] assms(1) by (simp add: distinct_map inj_on_def)
qed (use assms(1-3) comparator.sorted_sortBy [OF key_comparator] in auto)

end

interpretation code_units: collation "(\<le>) :: string \<Rightarrow> string \<Rightarrow> bool"
  by unfold_locales auto

lemma map_sortBy_keys:
  assumes "\<And>e. fst (f e) = fst e"
  shows "map f (sortBy (\<lambda>a b. le (fst a) (fst b)) xs) = sortBy (\<lambda>a b. le (fst a) (fst b)) (map f xs)"
proof -
  have "map f (insertBy (\<lambda>a b. le (fst a) (fst b)) x ys) = insertBy (\<lambda>a b. le (fst a) (fst b)) (f x) (map f ys)" for x ys
    by (induction ys) (auto simp: assms)
  then show ?thesis by (induction xs) simp_all
qed

lemma distinct_filter_keys: "distinct (map fst props) \<Longrightarrow> distinct (map fst (filter P props))"
  by (induction props) auto

context collation
begin

lemma stableJson_canon: "plainJson v \<Longrightarrow> keysSeparated le v \<Longrightarrow> stableJson le (canon v) = stableJson le v"
proof (induction v rule: canon.induct)
  case (1 vs)
  then show ?case by (simp add: list_all_iff comp_def cong: map_cong)
next
  case (2 props)
  let ?d = "filter (\<lambda>e. snd e \<noteq> JUndefined) props" and ?c = "\<lambda>e. (fst e, canon (snd e))"
  have sep: "a = a'" if "le a a'" "le a' a" "(a, b) \<in> set props" "b \<noteq> JUndefined" "(a', b') \<in> set props" "b' \<noteq> JUndefined" for a b a' b'
    using 2(3) that by (fastforce simp: list_all_iff)
  have keys: "distinct (map fst ?d)" using 2(2) by (simp add: distinct_filter_keys)
  have "sortedEntries le (sortBy (\<lambda>a b. fst a \<le> fst b) (map ?c ?d))
      = sortBy (\<lambda>a b. le (fst a) (fst b)) (map ?c ?d)"
    unfolding sortedEntries_def using keys
    by (subst filter_True) (auto intro!: sortKeys_unique simp: comp_def, metis sep)
  also have "\<dots> = map ?c (sortedEntries le props)"
    by (simp add: sortedEntries_def map_sortBy_keys)
  finally have entries: "sortedEntries le (sortBy (\<lambda>a b. fst a \<le> fst b) (map ?c ?d)) = map ?c (sortedEntries le props)" .
  have "stableJson le (canon (snd e)) = stableJson le (snd e)" if "e \<in> set (sortedEntries le props)" for e
    using that 2 by (auto simp: sortedEntries_def list_all_iff)
  then show ?case by (simp add: entries comp_def cong: map_cong)
qed auto

end

subsection \<open>Unique readability\<close>

text \<open>A text that is followed by a delimiter can be cut off in one way only.\<close>

definition delim :: "string \<Rightarrow> bool" where
  "delim r \<longleftrightarrow> r = [] \<or> hd r \<in> {CHR '','', CHR '']'', CHR ''}''}"

lemma hexDigit_inj:
  assumes "m < 16" "n < 16" "hexDigit m = hexDigit n"
  shows "m = n"
proof -
  have code: "of_char (hexDigit k) = (if k < 10 then 48 + k else 87 + k)" if "k < 16" for k :: nat
    using that by (simp add: hexDigit_def)
  have "(if m < 10 then 48 + m else 87 + m) = (if n < 10 then 48 + n else 87 + n)"
    using assms by (simp flip: code)
  then show ?thesis using assms(1,2) by (simp split: if_splits)
qed

lemma control_char_inj:
  assumes "hexDigit (of_char c div 16) = hexDigit (of_char d div 16)" "hexDigit (of_char c mod 16) = hexDigit (of_char d mod 16)"
    and "of_char c < (32 :: nat)" "of_char d < (32 :: nat)"
  shows "c = d"
proof -
  have "of_char c div 16 = (of_char d div 16 :: nat)" "of_char c mod 16 = (of_char d mod 16 :: nat)"
    using assms by (auto intro!: hexDigit_inj)
  then have "of_char c = (of_char d :: nat)" by (metis div_mult_mod_eq)
  then show ?thesis by simp
qed

lemma escapeChar_cancel: "escapeChar c @ r = escapeChar d @ r' \<Longrightarrow> c = d \<and> r = r'"
  by (auto simp: escapeChar_def split: if_splits dest: control_char_inj)

lemma escapeChar_head: "escapeChar c = x # y \<Longrightarrow> x \<noteq> CHR 0x22"
  by (auto simp: escapeChar_def split: if_splits)

lemma escapeChar_nonempty: "escapeChar c \<noteq> []"
  by (simp add: escapeChar_def)

lemma escapeChar_not_quote [simp]:
  "CHR 0x22 # r \<noteq> escapeChar c @ z" "escapeChar c @ z \<noteq> CHR 0x22 # r"
  using escapeChar_head [of c] by (cases "escapeChar c"; auto simp: escapeChar_nonempty)+

lemma escaped_cancel:
  "concat (map escapeChar s) @ CHR 0x22 # r = concat (map escapeChar t) @ CHR 0x22 # r' \<Longrightarrow> s = t \<and> r = r'"
proof (induction s arbitrary: t)
  case Nil
  then show ?case by (cases t) auto
next
  case (Cons c s)
  then obtain d t' where t: "t = d # t'" by (cases t) auto
  with Cons.prems have "escapeChar c @ (concat (map escapeChar s) @ CHR 0x22 # r) =
      escapeChar d @ (concat (map escapeChar t') @ CHR 0x22 # r')" by simp
  from escapeChar_cancel [OF this] Cons.IH [of t'] t show ?case by auto
qed

lemma quoteString_cancel: "quoteString s @ r = quoteString t @ r' \<Longrightarrow> s = t \<and> r = r'"
  unfolding quoteString_def using escaped_cancel [of s r t r'] by simp

lemma showNat_digits: "0 \<le> n \<Longrightarrow> list_all isDigit (showNat n) \<and> numOf (showNat n) = n \<and> showNat n \<noteq> []"
proof (induction n rule: showNat.induct)
  case (1 n)
  show ?case
  proof (cases "n < 10")
    case True
    with 1(2) show ?thesis by (subst (1 2 3) showNat.simps) (simp add: isDigit_digit digitVal_digit numOf_def)
  next
    case False
    with 1 show ?thesis
      by (subst (1 2 3) showNat.simps) (simp add: isDigit_digit digitVal_digit numOf_snoc)
  qed
qed

lemma delim_not_digit: "delim r \<Longrightarrow> takeWhile isDigit r = []"
  by (cases r) (auto simp: delim_def isDigit_def)

lemma takeWhile_all_append: "list_all P xs \<Longrightarrow> takeWhile P (xs @ ys) = xs @ takeWhile P ys"
  by (induction xs) auto

lemma showNat_cancel:
  assumes "showNat m @ r = showNat n @ r'" "0 \<le> m" "0 \<le> n" "delim r" "delim r'"
  shows "m = n \<and> r = r'"
proof -
  have "takeWhile isDigit (showNat m @ r) = showNat m" "takeWhile isDigit (showNat n @ r') = showNat n"
    using assms(2-5) by (simp_all add: takeWhile_all_append showNat_digits delim_not_digit)
  with assms(1) have "showNat m = showNat n" by simp
  moreover from this have "m = n" using assms(2,3) by (metis showNat_digits)
  ultimately show ?thesis using assms(1) by simp
qed

lemma showNat_head: "0 \<le> n \<Longrightarrow> \<exists>c s. showNat n = c # s \<and> isDigit c"
  using showNat_digits [of n] by (cases "showNat n") auto

lemma showInt_cancel:
  assumes "showInt m @ r = showInt n @ r'" "delim r" "delim r'"
  shows "m = n \<and> r = r'"
proof (cases "m < 0"; cases "n < 0")
  assume "m < 0" "n < 0"
  then show ?thesis using showNat_cancel [of "- m" r "- n" r'] assms by (simp add: showInt_def)
next
  assume s: "m < 0" "\<not> n < 0"
  then obtain c z where "showNat n = c # z" "isDigit c" using showNat_head [of n] by auto
  with s assms(1) show ?thesis by (auto simp: showInt_def isDigit_def)
next
  assume s: "\<not> m < 0" "n < 0"
  then obtain c z where "showNat m = c # z" "isDigit c" using showNat_head [of m] by auto
  with s assms(1) show ?thesis by (auto simp: showInt_def isDigit_def)
next
  assume "\<not> m < 0" "\<not> n < 0"
  then show ?thesis using showNat_cancel [of m r n r'] assms by (simp add: showInt_def)
qed

lemma showInt_head: "\<exists>c s. showInt n = c # s \<and> (isDigit c \<or> c = CHR ''-'')"
  using showNat_head [of n] by (auto simp: showInt_def)

lemma joinWith_Cons: "joinWith sep (x # xs) = x @ concat (map (\<lambda>y. sep @ y) xs)"
  by (induction xs arbitrary: x) auto

lemma tail_cancel:
  assumes "concat (map (\<lambda>x. CHR '','' # f x) xs) @ z # r = concat (map (\<lambda>x. CHR '','' # f x) ys) @ z # r'"
    and z: "z \<in> {CHR '']'', CHR ''}''}"
    and item: "\<And>x y r r'. x \<in> set xs \<Longrightarrow> y \<in> set ys \<Longrightarrow> delim r \<Longrightarrow> delim r' \<Longrightarrow> f x @ r = f y @ r' \<Longrightarrow> Q x y \<and> r = r'"
  shows "list_all2 Q xs ys \<and> r = r'"
  using assms(1) item
proof (induction xs arbitrary: ys)
  case Nil
  then show ?case using z by (cases ys) auto
next
  case (Cons x xs)
  then obtain y ys' where ys: "ys = y # ys'" using z by (cases ys) auto
  let ?t = "\<lambda>zs r. concat (map (\<lambda>x. CHR '','' # f x) zs) @ z # r"
  have "delim (?t zs s)" for zs s using z by (cases zs) (auto simp: delim_def)
  moreover have "f x @ ?t xs r = f y @ ?t ys' r'" using Cons.prems(1) ys by simp
  ultimately have "Q x y \<and> ?t xs r = ?t ys' r'"
    using Cons.prems(2) [of x y "?t xs r" "?t ys' r'"] ys by simp
  with Cons.IH [of ys'] Cons.prems(2) ys show ?case by auto
qed

lemma joined_cancel:
  assumes eq: "joinWith '','' (map f xs) @ z # r = joinWith '','' (map f ys) @ z # r'"
    and z: "z \<in> {CHR '']'', CHR ''}''}"
    and item: "\<And>x y r r'. x \<in> set xs \<Longrightarrow> y \<in> set ys \<Longrightarrow> delim r \<Longrightarrow> delim r' \<Longrightarrow> f x @ r = f y @ r' \<Longrightarrow> Q x y \<and> r = r'"
    and head: "\<And>x s. x \<in> set xs \<union> set ys \<Longrightarrow> f x \<noteq> [] \<and> f x \<noteq> z # s"
  shows "list_all2 Q xs ys \<and> r = r'"
proof (cases "xs = [] \<or> ys = []")
  case True
  have "f x @ w \<noteq> z # s" "z # s \<noteq> f x @ w" if "x \<in> set xs \<union> set ys" for x w s
    using head [OF that] by (cases "f x"; auto)+
  with True eq show ?thesis by (cases xs; cases ys) (auto simp: joinWith_Cons)
next
  case False
  then have "concat (map (\<lambda>x. CHR '','' # f x) xs) @ z # r = concat (map (\<lambda>x. CHR '','' # f x) ys) @ z # r'"
    using eq by (cases xs; cases ys) (auto simp: joinWith_Cons comp_def)
  then show ?thesis using z item by (rule tail_cancel)
qed

lemma showInt_neq:
  assumes "\<not> isDigit c" "c \<noteq> CHR ''-''"
  shows "showInt n @ r \<noteq> c # s" "c # s \<noteq> showInt n @ r"
  using showInt_head [of n] assms by auto

lemma json_heads [simp]:
  "showInt n @ r \<noteq> CHR ''n'' # s" "CHR ''n'' # s \<noteq> showInt n @ r"
  "showInt n @ r \<noteq> CHR ''t'' # s" "CHR ''t'' # s \<noteq> showInt n @ r"
  "showInt n @ r \<noteq> CHR ''f'' # s" "CHR ''f'' # s \<noteq> showInt n @ r"
  "showInt n @ r \<noteq> CHR ''['' # s" "CHR ''['' # s \<noteq> showInt n @ r"
  "showInt n @ r \<noteq> CHR ''{'' # s" "CHR ''{'' # s \<noteq> showInt n @ r"
  "showInt n @ r \<noteq> quoteString t @ s" "quoteString t @ s \<noteq> showInt n @ r"
  by (simp_all add: showInt_neq isDigit_def quoteString_def)

lemma quote_heads [simp]:
  "quoteString t @ r = CHR ''n'' # s \<longleftrightarrow> False" "quoteString t @ r = CHR ''t'' # s \<longleftrightarrow> False"
  "quoteString t @ r = CHR ''f'' # s \<longleftrightarrow> False" "quoteString t @ r = CHR ''['' # s \<longleftrightarrow> False"
  "quoteString t @ r = CHR ''{'' # s \<longleftrightarrow> False"
  "CHR ''n'' # s = quoteString t @ r \<longleftrightarrow> False" "CHR ''t'' # s = quoteString t @ r \<longleftrightarrow> False"
  "CHR ''f'' # s = quoteString t @ r \<longleftrightarrow> False" "CHR ''['' # s = quoteString t @ r \<longleftrightarrow> False"
  "CHR ''{'' # s = quoteString t @ r \<longleftrightarrow> False"
  by (simp_all add: quoteString_def)

lemma showInt_open: "showInt n \<noteq> []" "showInt n \<noteq> CHR '']'' # s"
  using showInt_head [of n] by (auto simp: isDigit_def)

lemma stableJson_head:
  "v \<noteq> JUndefined \<Longrightarrow> stableJson le v \<noteq> [] \<and> stableJson le v \<noteq> CHR '']'' # s"
  by (cases v) (auto simp: quoteString_def showInt_open)

lemma list_all2_map_eq: "list_all2 (\<lambda>x y. f x = f y) xs ys \<Longrightarrow> map f xs = map f ys"
  by (induction rule: list_all2_induct) auto

lemma entries_canon:
  assumes "list_all2 (\<lambda>a b. fst a = fst b \<and> canon (snd a) = canon (snd b)) (sortedEntries le props) (sortedEntries le props')"
    and "distinct (map fst props)" "distinct (map fst props')"
  shows "canon (JObj props) = canon (JObj props')"
proof -
  let ?c = "\<lambda>e. (fst e, canon (snd e))" and ?d = "filter (\<lambda>e. snd e \<noteq> JUndefined)"
  have "map ?c (sortedEntries le props) = map ?c (sortedEntries le props')"
    using assms(1) by (induction rule: list_all2_induct) auto
  then have "set (map ?c (sortedEntries le props)) = set (map ?c (sortedEntries le props'))" by simp
  then have "set (map ?c (?d props)) = set (map ?c (?d props'))" by (simp add: sortedEntries_def)
  moreover have "distinct (map fst (map ?c (?d ps)))" if "distinct (map fst ps)" for ps
    using distinct_filter_keys [OF that] by (simp add: comp_def)
  ultimately show ?thesis
    unfolding canon.simps json.inject using assms(2,3) by (intro code_units.sortKeys_unique) (blast, blast, blast, simp)
qed

lemma text_cancel:
  assumes "stableJson le v @ r = stableJson le w @ r'" "delim r" "delim r'"
    and "plainJson v" "plainJson w" "v \<noteq> JUndefined" "w \<noteq> JUndefined"
  shows "canon v = canon w \<and> r = r'"
  using assms
proof (induction v arbitrary: w r r' rule: canon.induct)
  case (1 vs)
  show ?case
  proof (cases w)
    case (JArr ws)
    have "list_all2 (\<lambda>x y. canon x = canon y) vs ws \<and> r = r'"
    proof (rule joined_cancel)
      show "joinWith '','' (map (stableJson le) vs) @ CHR '']'' # r = joinWith '','' (map (stableJson le) ws) @ CHR '']'' # r'"
        using 1(2) JArr by simp
      show "canon x = canon y \<and> s = s'"
        if "x \<in> set vs" "y \<in> set ws" "delim s" "delim s'" "stableJson le x @ s = stableJson le y @ s'" for x y s s'
        using 1(1) [OF that(1,5,3,4)] 1(5,6) JArr that(1,2) by (auto simp: list_all_iff)
      show "stableJson le x \<noteq> [] \<and> stableJson le x \<noteq> CHR '']'' # s" if "x \<in> set vs \<union> set ws" for x s
        using that 1(5,6) JArr by (intro stableJson_head) auto
    qed simp
    then show ?thesis using JArr by (auto dest: list_all2_map_eq)
  qed (use 1(2,8) in \<open>auto split: if_splits\<close>)
next
  case (2 props)
  show ?case
  proof (cases w)
    case (JObj props')
    let ?p = "\<lambda>e. quoteString (fst e) @ '':'' @ stableJson le (snd e)"
    have "list_all2 (\<lambda>a b. fst a = fst b \<and> canon (snd a) = canon (snd b)) (sortedEntries le props) (sortedEntries le props') \<and> r = r'"
    proof (rule joined_cancel)
      show "joinWith '','' (map ?p (sortedEntries le props)) @ CHR ''}'' # r = joinWith '','' (map ?p (sortedEntries le props')) @ CHR ''}'' # r'"
        using 2(2) JObj by simp
      show "(fst a = fst b \<and> canon (snd a) = canon (snd b)) \<and> s = s'"
        if ab: "a \<in> set (sortedEntries le props)" "b \<in> set (sortedEntries le props')" "delim s" "delim s'" "?p a @ s = ?p b @ s'" for a b s s'
      proof -
        have "fst a = fst b" and eq: "stableJson le (snd a) @ s = stableJson le (snd b) @ s'"
          using quoteString_cancel [of "fst a" "'':'' @ stableJson le (snd a) @ s" "fst b"] ab(5) by auto
        moreover have "a \<in> set (filter (\<lambda>e. snd e \<noteq> JUndefined) props)" "b \<in> set props'" "snd b \<noteq> JUndefined"
          using ab(1,2) by (auto simp: sortedEntries_def)
        ultimately show ?thesis using 2(1) [OF _ eq ab(3,4)] 2(5,6) JObj by (auto simp: list_all_iff)
      qed
      show "?p x \<noteq> [] \<and> ?p x \<noteq> CHR ''}'' # s" for x s by (simp add: quoteString_def)
    qed simp
    then show ?thesis using entries_canon 2(5,6) JObj by auto
  qed (use 2(2,8) in \<open>auto split: if_splits\<close>)
next
  case (5 b)
  then show ?case by (cases w) (auto split: if_splits)
next
  case (6 n)
  then show ?case by (cases w) (auto dest: showInt_cancel split: if_splits)
next
  case (7 s)
  then show ?case by (cases w) (auto dest: quoteString_cancel split: if_splits)
next
  case 4
  then show ?case by (cases w) (auto split: if_splits)
qed simp

lemma canon_permuted:
  assumes "set props = set props'" "distinct (map fst props)" "distinct (map fst props')"
  shows "canon (JObj props) = canon (JObj props')"
proof -
  let ?c = "\<lambda>e. (fst e, canon (snd e))" and ?d = "filter (\<lambda>e. snd e \<noteq> JUndefined)"
  have "set (map ?c (?d props)) = set (map ?c (?d props'))" using assms(1) by auto
  moreover have "distinct (map fst (map ?c (?d ps)))" if "distinct (map fst ps)" for ps
    using distinct_filter_keys [OF that] by (simp add: comp_def)
  ultimately show ?thesis
    unfolding canon.simps json.inject using assms(2,3) by (intro code_units.sortKeys_unique) (blast, blast, blast, simp)
qed

text \<open>
  C38: the text that is hashed identifies a value up to the order of its keys and its undefined
  properties. Two values with the same text have the same canonical form, whatever \<^verbatim>\<open>localeCompare\<close> answers.
  Conversely, when it is a total preorder that separates the different keys of each object (it may compare
  other different strings as equal), values with the same canonical form have the same text, and permuting the
  keys of an object keeps the text.
\<close>

theorem stableJson_fingerprint:
  assumes "plainJson v" "plainJson w" "v \<noteq> JUndefined" "w \<noteq> JUndefined"
  shows "(stableJson localeLe v = stableJson localeLe w \<longrightarrow> canon v = canon w) \<and>
    (collation localeLe \<and> keysSeparated localeLe v \<and> keysSeparated localeLe w \<longrightarrow>
       (stableJson localeLe v = stableJson localeLe w \<longleftrightarrow> canon v = canon w) \<and>
       (\<forall>props props'. v = JObj props \<and> w = JObj props' \<and> set props = set props' \<longrightarrow>
          stableJson localeLe v = stableJson localeLe w))"
proof -
  have forth: "canon v = canon w" if "stableJson localeLe v = stableJson localeLe w"
    using text_cancel [of localeLe v "[]" w "[]"] assms that by (auto simp: delim_def)
  have conv: "stableJson localeLe v = stableJson localeLe w"
    if "collation localeLe" "keysSeparated localeLe v" "keysSeparated localeLe w" "canon v = canon w"
    using collation.stableJson_canon [OF that(1) assms(1) that(2)]
      collation.stableJson_canon [OF that(1) assms(2) that(3)] that(4) by simp
  have "canon v = canon w" if "v = JObj props" "w = JObj props'" "set props = set props'" for props props'
    using that assms(1,2) canon_permuted [of props props'] by simp
  with forth conv show ?thesis by blast
qed

text \<open>Where two keys are not separated the text does depend on their order.\<close>

lemma unseparated_keys:
  assumes "le a b" "le b a" "a \<noteq> b"
  shows "stableJson le (JObj [(a, JNull), (b, JNull)]) \<noteq> stableJson le (JObj [(b, JNull), (a, JNull)])"
proof
  assume "stableJson le (JObj [(a, JNull), (b, JNull)]) = stableJson le (JObj [(b, JNull), (a, JNull)])"
  with assms(1,2) have "quoteString a @ '':null,'' @ quoteString b @ '':null}'' = quoteString b @ '':null,'' @ quoteString a @ '':null}''"
    by (simp add: sortedEntries_def)
  from quoteString_cancel [OF this] assms(3) show False by simp
qed

definition demoRequest :: json where
  "demoRequest = JObj [(''previewId'', JStr ''p1''), (''confirmation'', JObj [(''expectedEffectHash'', JStr ''h''), (''confirmation'', JBool True), (''note'', JUndefined)])]"

definition demoRequest' :: json where
  "demoRequest' = JObj [(''confirmation'', JObj [(''confirmation'', JBool True), (''expectedEffectHash'', JStr ''h'')]), (''previewId'', JStr ''p1'')]"

text \<open>An order that compares all strings of one length as equal separates the keys of the request.\<close>

definition shorterEq :: "string \<Rightarrow> string \<Rightarrow> bool" where
  "shorterEq a b \<longleftrightarrow> length a \<le> length b"

interpretation lengths: collation shorterEq
  by unfold_locales (auto simp: shorterEq_def)

theorem stableJson_fingerprint_witness:
  "stableJson shorterEq demoRequest = stableJson shorterEq demoRequest' \<and> demoRequest \<noteq> demoRequest'
   \<and> stableJson shorterEq demoRequest \<noteq> stableJson shorterEq (JArr [JNum 1, JNum 2])
   \<and> shorterEq ''a'' ''b'' \<and> shorterEq ''b'' ''a''"
proof -
  have plain: "plainJson demoRequest" "plainJson demoRequest'" "plainJson (JArr [JNum 1, JNum 2])"
    "demoRequest \<noteq> JUndefined" "demoRequest' \<noteq> JUndefined"
    by (simp_all add: demoRequest_def demoRequest'_def)
  have separated: "keysSeparated shorterEq demoRequest" "keysSeparated shorterEq demoRequest'"
    by (simp_all add: demoRequest_def demoRequest'_def shorterEq_def)
  have canon: "canon demoRequest = canon demoRequest'" "canon demoRequest \<noteq> canon (JArr [JNum 1, JNum 2])"
    by (simp_all add: demoRequest_def demoRequest'_def)
  have "demoRequest \<noteq> demoRequest'" by (simp add: demoRequest_def demoRequest'_def)
  moreover have "stableJson shorterEq demoRequest = stableJson shorterEq demoRequest'"
    using stableJson_fingerprint [OF plain(1,2,4,5), of shorterEq] separated canon(1) lengths.collation_axioms by blast
  moreover have "stableJson shorterEq demoRequest \<noteq> stableJson shorterEq (JArr [JNum 1, JNum 2])"
    using stableJson_fingerprint [OF plain(1,3,4), of shorterEq] canon(2) by auto
  ultimately show ?thesis by (simp add: shorterEq_def)
qed

text \<open>The values the projection hash accepts.\<close>

function projectable :: "json \<Rightarrow> bool" where
  "projectable (JArr vs) = list_all projectable vs"
| "projectable (JObj props) = list_all (\<lambda>e. projectable (snd e)) props"
| "projectable JUndefined = False"
| "projectable JNull = True"
| "projectable (JBool b) = True"
| "projectable (JNum n) = False"
| "projectable (JStr s) = True"
  by pat_completeness auto
termination
  by (relation "measure size") (auto dest: size_element size_entry)

lemma mapR_uncaught:
  assumes "\<And>x. x \<in> set xs \<Longrightarrow> f x = (if P x then Inr (g x) else uncaught)"
  shows "mapR f xs = (if list_all P xs then Inr (map g xs) else uncaught)"
  using assms by (induction xs) auto

text \<open>
  The projection hash agrees with the stable text under the code unit order on every value
  without numbers and undefined, and refuses all others.
\<close>

theorem canonicalProjectionJson_stable:
  "canonicalProjectionJson v = (if projectable v then Inr (stableJson (\<le>) v) else uncaught)"
proof (induction v rule: projectable.induct)
  case (1 vs)
  have "mapR canonicalProjectionJson vs = (if list_all projectable vs then Inr (map (stableJson (\<le>)) vs) else uncaught)"
    by (rule mapR_uncaught) (rule 1)
  then show ?case by simp
next
  case (2 props)
  let ?s = "sortBy (\<lambda>a b. fst a \<le> fst b) props"
  have "mapR (\<lambda>e. bindR (canonicalProjectionJson (snd e)) (\<lambda>t. Inr (quoteString (fst e) @ '':'' @ t))) ?s
      = (if list_all (\<lambda>e. projectable (snd e)) ?s
         then Inr (map (\<lambda>e. quoteString (fst e) @ '':'' @ stableJson (\<le>) (snd e)) ?s) else uncaught)"
    by (rule mapR_uncaught) (simp add: 2)
  moreover have "sortedEntries (\<le>) props = ?s" if "list_all (\<lambda>e. projectable (snd e)) props"
    unfolding sortedEntries_def using that by (subst filter_True) (auto simp: list_all_iff)
  ultimately show ?case by (simp add: list_all_iff)
qed auto

end
