(* ===== verification/HistoricalProtocol.thy ===== *)
theory HistoricalProtocol
  imports Json Pricing
begin

text \<open>
  The validators of \<^verbatim>\<open>packages/db/src/historical-command-protocol.ts\<close>: which stored command effects and
  receipts belong to an earlier protocol version, and the checks of persisted cash lines that the
  order reader shares (pricingCashLineTotalMinor, ordinaryStayCashLineTotalMinor). Stored values are
  JSON values of the theory Json.

  Names that are reserved in Isabelle or used by another component carry a suffix: \<open>asObject\<close> is the
  function \<^verbatim>\<open>record\<close> of the source, \<open>textValue\<close> is \<^verbatim>\<open>text\<close>, and so on. Whether the run time's
  \<^verbatim>\<open>Date.parse\<close> accepts a string is the parameter \<open>parses\<close> of \<open>dateTime\<close>.
\<close>

datatype historical_protocol_version =
  LEGACY_STAGE_9_10 | LEGACY_STAGE_10 | PRE_STAGE_11 | PRE_INHOUSE_MEMBERSHIP_FULFILLMENT

definition historicalProtocolEpochMigration :: "historical_protocol_version \<Rightarrow> string" where
  "historicalProtocolEpochMigration v =
     (if v = PRE_INHOUSE_MEMBERSHIP_FULFILLMENT then ''044_inhouse_membership_fulfillment_guards.sql''
      else ''028_stage11_move_unit_guards.sql'')"

section \<open>Objects\<close>

type_synonym json_object = "(string \<times> json) list"

definition prop_of :: "json_object \<Rightarrow> string \<Rightarrow> json" where
  "prop_of obj k = (case map_of obj k of Some v \<Rightarrow> v | None \<Rightarrow> JUndefined)"

definition hasOwn :: "json_object \<Rightarrow> string \<Rightarrow> bool" where
  "hasOwn obj k \<longleftrightarrow> k \<in> set (map fst obj)"

fun asObject :: "json \<Rightarrow> json_object option" where
  "asObject (JObj obj) = Some obj"
| "asObject _ = None"

fun asArray :: "json \<Rightarrow> json list option" where
  "asArray (JArr vs) = Some vs"
| "asArray _ = None"

fun strOf :: "json \<Rightarrow> string option" where
  "strOf (JStr s) = Some s"
| "strOf _ = None"

fun intOfJson :: "json \<Rightarrow> int option" where
  "intOfJson (JNum n) = Some n"
| "intOfJson _ = None"

text \<open>The string behind a value that has already been tested to be one.\<close>

definition str :: "json \<Rightarrow> string" where
  "str v = (case v of JStr s \<Rightarrow> s | _ \<Rightarrow> [])"

definition num :: "json \<Rightarrow> int" where
  "num v = (case v of JNum n \<Rightarrow> n | _ \<Rightarrow> 0)"

definition exactKeys :: "json_object \<Rightarrow> string list \<Rightarrow> string list \<Rightarrow> bool" where
  "exactKeys value required optional \<longleftrightarrow>
     list_all (hasOwn value) required \<and> list_all (\<lambda>key. key \<in> set (required @ optional)) (map fst value)"

text \<open>\<^verbatim>\<open>record(value)\<close> followed by a test of the object.\<close>

definition objectThat :: "(json_object \<Rightarrow> bool) \<Rightarrow> json \<Rightarrow> bool" where
  "objectThat P value = (case asObject value of None \<Rightarrow> False | Some item \<Rightarrow> P item)"

definition arrayThat :: "(json list \<Rightarrow> bool) \<Rightarrow> json \<Rightarrow> bool" where
  "arrayThat P value = (case asArray value of None \<Rightarrow> False | Some vs \<Rightarrow> P vs)"

section \<open>Scalars\<close>

definition MAX_IDENTIFIER_LENGTH :: nat where "MAX_IDENTIFIER_LENGTH = 255"

definition MAX_TEXT_LENGTH :: nat where "MAX_TEXT_LENGTH = 1000"

definition SHA256_HEX :: "string \<Rightarrow> bool" where
  "SHA256_HEX s \<longleftrightarrow> length s = 64 \<and> list_all (\<lambda>c. isDigit c \<or> CHR ''a'' \<le> c \<and> c \<le> CHR ''f'') s"

definition CURRENCY_CODE :: "string \<Rightarrow> bool" where
  "CURRENCY_CODE s \<longleftrightarrow> length s = 3 \<and> list_all (\<lambda>c. CHR ''A'' \<le> c \<and> c \<le> CHR ''Z'') s"

definition pricingBases :: "string list" where
  "pricingBases = [''POLICY'', ''CHANNEL_CONTRACT'', ''MANUAL_ADJUSTMENT'', ''MEMBER_ENTITLEMENT'', ''FREE'']"

definition entitlementKinds :: "string list" where "entitlementKinds = [''ROOM_NIGHT'', ''BED_NIGHT'']"

definition inventoryKinds :: "string list" where "inventoryKinds = [''ROOM'', ''BED'']"

definition inventoryBases :: "string list" where "inventoryBases = [''INDEPENDENT'', ''WHOLE_ROOM_COMBINATION'']"

definition codeProvenance :: "string list" where
  "codeProvenance = [''SOURCE_EXPLICIT'', ''USER_CONFIRMED_RENAMED'', ''PMS_GENERATED'']"

definition oneOf :: "string list \<Rightarrow> json \<Rightarrow> bool" where
  "oneOf names value = (case strOf value of None \<Rightarrow> False | Some s \<Rightarrow> s \<in> set names)"

definition identifierValue :: "json \<Rightarrow> bool" where
  "identifierValue value =
     (case strOf value of None \<Rightarrow> False | Some s \<Rightarrow> length (trim s) > 0 \<and> length s \<le> MAX_IDENTIFIER_LENGTH)"

definition textValue :: "bool \<Rightarrow> json \<Rightarrow> bool" where
  "textValue allowEmpty value =
     (case strOf value of None \<Rightarrow> False
      | Some s \<Rightarrow> length s \<le> MAX_TEXT_LENGTH \<and> (allowEmpty \<or> length (trim s) > 0))"

definition safeIntegerIn :: "int \<Rightarrow> int \<Rightarrow> json \<Rightarrow> bool" where
  "safeIntegerIn lo hi value =
     (case intOfJson value of None \<Rightarrow> False | Some n \<Rightarrow> safe_int n \<and> n \<ge> lo \<and> n \<le> hi)"

text \<open>The defaults of safeInteger: the range of a PostgreSQL integer.\<close>

abbreviation int32_min :: int where "int32_min \<equiv> -2147483648"

abbreviation int32_max :: int where "int32_max \<equiv> 2147483647"

definition localDateValue :: "json \<Rightarrow> bool" where
  "localDateValue value =
     (case strOf value of None \<Rightarrow> False | Some s \<Rightarrow> (case parseLocalDate s of Inr _ \<Rightarrow> True | Inl _ \<Rightarrow> False))"

fun twoDigits :: "string \<Rightarrow> (int \<times> string) option" where
  "twoDigits (a # b # r) = (if isDigit a \<and> isDigit b then Some (numOf [a, b], r) else None)"
| "twoDigits _ = None"

text \<open>
  The regular expression RFC3339_DATE_TIME: a date, T, hh:mm:ss, an optional fraction of one to nine
  digits, and Z or an offset. The result is the date part with hour, minute and second.
\<close>

definition zoneSuffix :: "string \<Rightarrow> bool" where
  "zoneSuffix r \<longleftrightarrow> r = ''Z'' \<or>
     (case r of s # h1 # h2 # c # m1 # m2 # [] \<Rightarrow>
        (s = CHR ''+'' \<or> s = CHR ''-'') \<and> c = CHR '':'' \<and> list_all isDigit [h1, h2, m1, m2]
      | _ \<Rightarrow> False)"

definition fractionAndZone :: "string \<Rightarrow> bool" where
  "fractionAndZone r \<longleftrightarrow> zoneSuffix r \<or>
     (case r of [] \<Rightarrow> False | p # r' \<Rightarrow> p = CHR ''.'' \<and>
        (let ds = takeWhile isDigit r' in 1 \<le> length ds \<and> length ds \<le> 9 \<and> zoneSuffix (dropWhile isDigit r')))"

definition RFC3339_DATE_TIME :: "string \<Rightarrow> (string \<times> int \<times> int \<times> int) option" where
  "RFC3339_DATE_TIME s =
     (let d = take 10 s in
      if \<not> ISO_DATE d then None
      else case drop 10 s of
        t # r \<Rightarrow> if t \<noteq> CHR ''T'' then None else
          (case twoDigits r of Some (h, c # r1) \<Rightarrow> if c \<noteq> CHR '':'' then None else
            (case twoDigits r1 of Some (m, c' # r2) \<Rightarrow> if c' \<noteq> CHR '':'' then None else
              (case twoDigits r2 of Some (sec, r3) \<Rightarrow> if fractionAndZone r3 then Some (d, h, m, sec) else None
               | None \<Rightarrow> None)
             | _ \<Rightarrow> None)
           | _ \<Rightarrow> None)
      | [] \<Rightarrow> None)"

definition dateTime :: "(string \<Rightarrow> bool) \<Rightarrow> json \<Rightarrow> bool" where
  "dateTime parses value =
     (case strOf value of None \<Rightarrow> False
      | Some s \<Rightarrow> (case RFC3339_DATE_TIME s of None \<Rightarrow> False
          | Some (d, h, m, sec) \<Rightarrow> \<not> (h > 23 \<or> m > 59 \<or> sec > 59) \<and> localDateValue (JStr d) \<and> parses s))"

definition moneyValue :: "bool \<Rightarrow> json \<Rightarrow> bool" where
  "moneyValue nonNegative = objectThat (\<lambda>item.
     exactKeys item [''currency'', ''minorUnits''] [] \<and>
     (case strOf (prop_of item ''currency'') of None \<Rightarrow> False | Some c \<Rightarrow> CURRENCY_CODE c) \<and>
     safeIntegerIn (if nonNegative then 0 else int32_min) int32_max (prop_of item ''minorUnits''))"

section \<open>Dates, timelines and cash lines\<close>

definition expectedDates :: "string \<Rightarrow> string \<Rightarrow> string list option" where
  "expectedDates arrivalDate departureDate =
     (case parseLocalDate arrivalDate of Inl _ \<Rightarrow> None | Inr arrival \<Rightarrow>
      (case parseLocalDate departureDate of Inl _ \<Rightarrow> None | Inr departure \<Rightarrow>
        if departure \<le> arrival \<or> departure - arrival > 366 then None
        else Some (map (\<lambda>index. toISODate (arrival + index)) [0..departure - arrival - 1])))"

definition timelineEntry :: "json \<Rightarrow> bool" where
  "timelineEntry = objectThat (\<lambda>item.
     exactKeys item [''serviceDate'', ''inventoryUnitId''] [] \<and>
     localDateValue (prop_of item ''serviceDate'') \<and> identifierValue (prop_of item ''inventoryUnitId''))"

text \<open>The property of an array element that is known to be an object.\<close>

definition entryProp :: "string \<Rightarrow> json \<Rightarrow> json" where
  "entryProp k value = (case asObject value of None \<Rightarrow> JUndefined | Some item \<Rightarrow> prop_of item k)"

definition timelineValue :: "string list option \<Rightarrow> json \<Rightarrow> bool" where
  "timelineValue expected = arrayThat (\<lambda>vs.
     vs \<noteq> [] \<and> list_all timelineEntry vs \<and>
     (case expected of None \<Rightarrow> True | Some ds \<Rightarrow> map (entryProp ''serviceDate'') vs = map JStr ds))"

definition dateArray :: "json \<Rightarrow> bool" where
  "dateArray = arrayThat (\<lambda>vs. list_all localDateValue vs \<and> distinct vs)"

definition coverageSetValue :: "string list option \<Rightarrow> json \<Rightarrow> bool" where
  "coverageSetValue timelineDates = arrayThat (\<lambda>vs.
     list_all (objectThat (\<lambda>item.
       exactKeys item [''serviceDate'', ''inventoryUnitId'', ''unitKind'', ''entitlementLotId''] [] \<and>
       localDateValue (prop_of item ''serviceDate'') \<and>
       (case timelineDates of None \<Rightarrow> True | Some ds \<Rightarrow> str (prop_of item ''serviceDate'') \<in> set ds) \<and>
       identifierValue (prop_of item ''inventoryUnitId'') \<and> oneOf entitlementKinds (prop_of item ''unitKind'') \<and>
       identifierValue (prop_of item ''entitlementLotId''))) vs \<and>
     distinct (map (entryProp ''serviceDate'') vs))"

definition nightlyCashLine :: "string list option \<Rightarrow> json_object \<Rightarrow> bool" where
  "nightlyCashLine timelineDates value \<longleftrightarrow>
     exactKeys value [''serviceDate'', ''inventoryUnitId'', ''description'', ''amount''] [''lineKind''] \<and>
     (\<not> hasOwn value ''lineKind'' \<or> prop_of value ''lineKind'' = JStr ''NIGHT'') \<and>
     localDateValue (prop_of value ''serviceDate'') \<and>
     (case timelineDates of None \<Rightarrow> True | Some ds \<Rightarrow> str (prop_of value ''serviceDate'') \<in> set ds) \<and>
     identifierValue (prop_of value ''inventoryUnitId'') \<and> textValue False (prop_of value ''description'') \<and>
     moneyValue True (prop_of value ''amount'')"

definition segmentKeys :: "string list" where
  "segmentKeys = [''inventoryUnitId'', ''pricingProductCode'', ''arrivalDate'', ''departureDate'', ''nights'',
     ''anchorAmountMinor'', ''numeratorMinor'', ''denominator'']"

text \<open>One round of the loop over the calculation segments: the next arrival and the sum so far.\<close>

definition cashSegmentStep ::
  "(string \<times> string) list option \<Rightarrow> json \<Rightarrow> string \<times> int \<Rightarrow> json \<Rightarrow> (string \<times> int) option" where
  "cashSegmentStep timelineByDate anchorNights state entry =
     (case asObject entry of None \<Rightarrow> None
      | Some segment \<Rightarrow>
        if \<not> exactKeys segment segmentKeys [] \<or> \<not> identifierValue (prop_of segment ''inventoryUnitId'')
          \<or> \<not> identifierValue (prop_of segment ''pricingProductCode'')
          \<or> \<not> localDateValue (prop_of segment ''arrivalDate'') \<or> \<not> localDateValue (prop_of segment ''departureDate'')
          \<or> prop_of segment ''arrivalDate'' \<noteq> JStr (fst state)
          \<or> \<not> safeIntegerIn 1 366 (prop_of segment ''nights'')
          \<or> \<not> safeIntegerIn 1 int32_max (prop_of segment ''anchorAmountMinor'')
          \<or> \<not> safeIntegerIn 1 MAX_SAFE_INTEGER (prop_of segment ''numeratorMinor'')
          \<or> prop_of segment ''denominator'' \<noteq> anchorNights
        then None
        else case expectedDates (str (prop_of segment ''arrivalDate'')) (str (prop_of segment ''departureDate'')) of
          None \<Rightarrow> None
        | Some dates \<Rightarrow>
          if int (length dates) \<noteq> num (prop_of segment ''nights'')
            \<or> (case timelineByDate of None \<Rightarrow> False
               | Some m \<Rightarrow> list_ex (\<lambda>date. jmap_get m date \<noteq> Some (str (prop_of segment ''inventoryUnitId''))) dates)
          then None
          else
            let exactNumerator = num (prop_of segment ''nights'') * num (prop_of segment ''anchorAmountMinor'') in
            if num (prop_of segment ''numeratorMinor'') \<noteq> exactNumerator then None
            else Some (str (prop_of segment ''departureDate''), snd state + exactNumerator))"

fun cashSegmentLoop ::
  "(string \<times> string) list option \<Rightarrow> json \<Rightarrow> string \<times> int \<Rightarrow> json list \<Rightarrow> (string \<times> int) option" where
  "cashSegmentLoop timelineByDate anchorNights state [] = Some state"
| "cashSegmentLoop timelineByDate anchorNights state (entry # entries) =
     (case cashSegmentStep timelineByDate anchorNights state entry of
        None \<Rightarrow> None | Some state' \<Rightarrow> cashSegmentLoop timelineByDate anchorNights state' entries)"

definition stayTotalKeys :: "string list" where
  "stayTotalKeys = [''lineKind'', ''arrivalDate'', ''departureDate'', ''inventoryUnitId'', ''description'',
     ''pricingBandAnchorNights'', ''calculationSegments'', ''amount'']"

definition stayTotalCashLine :: "(string \<times> string) list option \<Rightarrow> json_object \<Rightarrow> bool" where
  "stayTotalCashLine timelineByDate value =
     (let anchor = prop_of value ''pricingBandAnchorNights'' in
      if \<not> exactKeys value stayTotalKeys [] \<or> prop_of value ''lineKind'' \<noteq> JStr ''STAY_TOTAL''
        \<or> \<not> localDateValue (prop_of value ''arrivalDate'') \<or> \<not> localDateValue (prop_of value ''departureDate'')
        \<or> \<not> identifierValue (prop_of value ''inventoryUnitId'') \<or> \<not> textValue False (prop_of value ''description'')
        \<or> anchor \<notin> {JNum 1, JNum 7, JNum 14, JNum 30} \<or> \<not> moneyValue True (prop_of value ''amount'')
      then False
      else case asArray (prop_of value ''calculationSegments'') of None \<Rightarrow> False
      | Some segments \<Rightarrow>
        if segments = [] then False
        else case expectedDates (str (prop_of value ''arrivalDate'')) (str (prop_of value ''departureDate'')) of
          None \<Rightarrow> False
        | Some allDates \<Rightarrow>
          if (case timelineByDate of None \<Rightarrow> False
              | Some m \<Rightarrow> length allDates \<noteq> length m \<or> list_ex (\<lambda>date. jmap_get m date = None) allDates
                  \<or> jmap_get m (hd allDates) \<noteq> Some (str (prop_of value ''inventoryUnitId'')))
          then False
          else case cashSegmentLoop timelineByDate anchor (str (prop_of value ''arrivalDate''), 0) segments of
            None \<Rightarrow> False
          | Some (nextSegmentArrival, totalNumerator) \<Rightarrow>
            if JStr nextSegmentArrival \<noteq> prop_of value ''departureDate'' then False
            else
              let denominatorMinor = num anchor * 100;
                  roundedMinor = ((totalNumerator * 2 + denominatorMinor) div (denominatorMinor * 2)) * 100 in
              num (entryProp ''minorUnits'' (prop_of value ''amount'')) = roundedMinor)"

definition cashLinesValue :: "(string \<times> string) list option \<Rightarrow> json \<Rightarrow> bool" where
  "cashLinesValue timelineByDate =
     arrayThat (list_all (objectThat (\<lambda>item.
       if prop_of item ''lineKind'' = JStr ''STAY_TOTAL'' then stayTotalCashLine timelineByDate item
       else nightlyCashLine (map_option (map fst) timelineByDate) item)))"

text \<open>The running total of the cash lines in one currency, inside the integer range.\<close>

fun cashTotalLoop :: "string \<Rightarrow> int \<Rightarrow> json list \<Rightarrow> int option" where
  "cashTotalLoop currency totalMinor [] = Some totalMinor"
| "cashTotalLoop currency totalMinor (entry # entries) =
     (let amount = entryProp ''amount'' entry in
      if entryProp ''currency'' amount \<noteq> JStr currency \<or> \<not> safeIntegerIn 0 int32_max (entryProp ''minorUnits'' amount) then None
      else
        let total = totalMinor + num (entryProp ''minorUnits'' amount) in
        if \<not> safeIntegerIn 0 int32_max (JNum total) then None else cashTotalLoop currency total entries)"

definition isStayTotal :: "json \<Rightarrow> bool" where
  "isStayTotal entry \<longleftrightarrow> entryProp ''lineKind'' entry = JStr ''STAY_TOTAL''"

definition pricingCashLineTotalMinor :: "json \<Rightarrow> string \<Rightarrow> int option" where
  "pricingCashLineTotalMinor value currency =
     (case asArray value of None \<Rightarrow> None
      | Some lines \<Rightarrow>
        if \<not> CURRENCY_CODE currency \<or> \<not> cashLinesValue None value then None
        else
          let stayTotalLineCount = length (filter isStayTotal lines) in
          if stayTotalLineCount > 0 \<and> (stayTotalLineCount \<noteq> 1 \<or> length lines \<noteq> 1) then None
          else if stayTotalLineCount = 0 \<and> \<not> distinct (map (entryProp ''serviceDate'') lines) then None
          else cashTotalLoop currency 0 lines)"

text \<open>The timeline of the caller as a map, or nothing when an item is malformed or repeated.\<close>

fun timelineMap :: "(string \<times> string) list \<Rightarrow> (string \<times> string) list \<Rightarrow> (string \<times> string) list option" where
  "timelineMap m [] = Some m"
| "timelineMap m ((serviceDate, inventoryUnitId) # items) =
     (if \<not> localDateValue (JStr serviceDate) \<or> \<not> identifierValue (JStr inventoryUnitId) \<or> jmap_get m serviceDate \<noteq> None
      then None else timelineMap (jmap_set serviceDate inventoryUnitId m) items)"

definition ordinaryStayCashLineTotalMinor :: "json \<Rightarrow> string \<Rightarrow> (string \<times> string) list \<Rightarrow> int option" where
  "ordinaryStayCashLineTotalMinor value currency timeline =
     (case (pricingCashLineTotalMinor value currency, asArray value) of
        (Some totalMinor, Some lines) \<Rightarrow>
          if timeline = [] then None
          else (case timelineMap [] timeline of None \<Rightarrow> None
            | Some timelineByDate \<Rightarrow>
              let stayTotalLines = filter isStayTotal lines in
              if stayTotalLines \<noteq> [] then
                (if length lines = 1 \<and> length stayTotalLines = 1 \<and>
                    objectThat (stayTotalCashLine (Some timelineByDate)) (hd stayTotalLines)
                 then Some totalMinor else None)
              else if length lines \<noteq> length timelineByDate then None
              else if list_all2 (\<lambda>entry item. objectThat (\<lambda>line.
                     nightlyCashLine (Some (map fst timelineByDate)) line \<and>
                     prop_of line ''serviceDate'' = JStr (fst item) \<and> prop_of line ''inventoryUnitId'' = JStr (snd item)) entry)
                   lines timeline
              then Some totalMinor else None)
      | _ \<Rightarrow> None)"

definition timelineByDateOf :: "json \<Rightarrow> (string \<times> string) list option" where
  "timelineByDateOf timelineVal =
     (case asArray timelineVal of None \<Rightarrow> None
      | Some entries \<Rightarrow> Some (jmap_of (List.map_filter (\<lambda>entry.
          case (strOf (entryProp ''serviceDate'' entry), strOf (entryProp ''inventoryUnitId'' entry)) of
            (Some d, Some u) \<Rightarrow> Some (d, u) | _ \<Rightarrow> None) entries)))"

definition pricingValue :: "json \<Rightarrow> json \<Rightarrow> bool" where
  "pricingValue timelineVal = objectThat (\<lambda>item.
     let timelineByDate = timelineByDateOf timelineVal in
     exactKeys item [''coverageSet'', ''cashLines'', ''cashRemainder'', ''currentContractAmount''] [] \<and>
     coverageSetValue (map_option (map fst) timelineByDate) (prop_of item ''coverageSet'') \<and>
     cashLinesValue timelineByDate (prop_of item ''cashLines'') \<and>
     moneyValue True (prop_of item ''cashRemainder'') \<and> moneyValue True (prop_of item ''currentContractAmount''))"

section \<open>Parts of an effect\<close>

definition pricingDecisionValue :: "json \<Rightarrow> bool" where
  "pricingDecisionValue = objectThat (\<lambda>item.
     let amount = (\<lambda>k. num (entryProp ''minorUnits'' (prop_of item k)));
         currency = (\<lambda>k. entryProp ''currency'' (prop_of item k)) in
     exactKeys item [''pricingBasis'', ''policyBaseAmount'', ''targetCurrentContractAmount'', ''differenceFromPolicy'',
       ''manualAdjustmentMinor'', ''differenceExceedsThreshold'', ''reason''] [] \<and>
     oneOf pricingBases (prop_of item ''pricingBasis'') \<and>
     moneyValue True (prop_of item ''policyBaseAmount'') \<and>
     moneyValue True (prop_of item ''targetCurrentContractAmount'') \<and>
     moneyValue False (prop_of item ''differenceFromPolicy'') \<and>
     safeIntegerIn int32_min int32_max (prop_of item ''manualAdjustmentMinor'') \<and>
     prop_of item ''differenceExceedsThreshold'' \<in> {JBool True, JBool False} \<and>
     objectThat (\<lambda>reason. exactKeys reason [''code'', ''note''] [] \<and> identifierValue (prop_of reason ''code'') \<and>
       textValue True (prop_of reason ''note'')) (prop_of item ''reason'') \<and>
     currency ''policyBaseAmount'' = currency ''targetCurrentContractAmount'' \<and>
     currency ''targetCurrentContractAmount'' = currency ''differenceFromPolicy'' \<and>
     amount ''targetCurrentContractAmount'' = amount ''policyBaseAmount'' + amount ''differenceFromPolicy'' \<and>
     prop_of item ''differenceExceedsThreshold'' =
       JBool (\<bar>amount ''differenceFromPolicy''\<bar> * 100 > amount ''policyBaseAmount'' * 15))"

text \<open>The dates of an object with arrivalDate and departureDate.\<close>

definition stayDates :: "json_object \<Rightarrow> string list option" where
  "stayDates item =
     (if localDateValue (prop_of item ''arrivalDate'') \<and> localDateValue (prop_of item ''departureDate'')
      then expectedDates (str (prop_of item ''arrivalDate'')) (str (prop_of item ''departureDate'')) else None)"

definition stayThat :: "string list \<Rightarrow> (json_object \<Rightarrow> string list \<Rightarrow> bool) \<Rightarrow> json \<Rightarrow> bool" where
  "stayThat keys P = objectThat (\<lambda>item. case stayDates item of None \<Rightarrow> False
     | Some dates \<Rightarrow> exactKeys item keys [] \<and> prop_of item ''nights'' = JNum (int (length dates)) \<and> P item dates)"

definition stayBefore :: "json \<Rightarrow> bool" where
  "stayBefore = stayThat [''arrivalDate'', ''departureDate'', ''nights'', ''currentContractAmount'']
     (\<lambda>item dates. moneyValue True (prop_of item ''currentContractAmount''))"

definition stayBeforeWithTimeline :: "json \<Rightarrow> bool" where
  "stayBeforeWithTimeline = stayThat [''arrivalDate'', ''departureDate'', ''nights'', ''currentContractAmount'', ''stayTimeline'']
     (\<lambda>item dates. moneyValue True (prop_of item ''currentContractAmount'') \<and>
        timelineValue (Some dates) (prop_of item ''stayTimeline''))"

definition stayAfter :: "json \<Rightarrow> bool" where
  "stayAfter = stayThat [''arrivalDate'', ''departureDate'', ''nights'', ''stayTimeline'', ''pricing'']
     (\<lambda>item dates. timelineValue (Some dates) (prop_of item ''stayTimeline'') \<and>
        pricingValue (prop_of item ''stayTimeline'') (prop_of item ''pricing''))"

definition arrayOf :: "json \<Rightarrow> json list" where
  "arrayOf v = (case asArray v of Some vs \<Rightarrow> vs | None \<Rightarrow> [])"

definition dateDiffValue :: "json \<Rightarrow> bool" where
  "dateDiffValue = objectThat (\<lambda>item.
     exactKeys item [''preservedDates'', ''releasedDates'', ''addedDates''] [] \<and>
     dateArray (prop_of item ''preservedDates'') \<and> dateArray (prop_of item ''releasedDates'') \<and>
     dateArray (prop_of item ''addedDates'') \<and>
     distinct (arrayOf (prop_of item ''preservedDates'') @ arrayOf (prop_of item ''releasedDates'')
       @ arrayOf (prop_of item ''addedDates'')))"

definition exactDateSet :: "json \<Rightarrow> string list \<Rightarrow> bool" where
  "exactDateSet value expected \<longleftrightarrow> dateArray value \<and> length (arrayOf value) = length expected \<and>
     list_all (\<lambda>date. JStr date \<in> set (arrayOf value)) expected"

definition entitlementDiff :: "json \<Rightarrow> bool" where
  "entitlementDiff = objectThat (\<lambda>item.
     exactKeys item [''preservedCoverageDates'', ''releasedCoverageDates'', ''addedCoverageDates'', ''consumedCoverageDates''] [] \<and>
     dateArray (prop_of item ''preservedCoverageDates'') \<and> dateArray (prop_of item ''releasedCoverageDates'') \<and>
     dateArray (prop_of item ''addedCoverageDates'') \<and> dateArray (prop_of item ''consumedCoverageDates''))"

definition stayFunds :: "json \<Rightarrow> bool" where
  "stayFunds = objectThat (\<lambda>item.
     exactKeys item [''netRecordedCollection'', ''collectionDifference''] [] \<and>
     moneyValue False (prop_of item ''netRecordedCollection'') \<and> moneyValue False (prop_of item ''collectionDifference''))"

definition shortenEntitlement :: "json \<Rightarrow> bool" where
  "shortenEntitlement = objectThat (\<lambda>item.
     exactKeys item [''currentConsumedCoverageDates'', ''retainedHistoricalConsumedCoverageDates'', ''ledgerWriteCount''] [] \<and>
     dateArray (prop_of item ''currentConsumedCoverageDates'') \<and>
     dateArray (prop_of item ''retainedHistoricalConsumedCoverageDates'') \<and> prop_of item ''ledgerWriteCount'' = JNum 0)"

definition shortenFunds :: "json \<Rightarrow> bool" where
  "shortenFunds = objectThat (\<lambda>item.
     exactKeys item [''netRecordedCollection'', ''collectionDifference'', ''factCount''] [] \<and>
     moneyValue False (prop_of item ''netRecordedCollection'') \<and> moneyValue False (prop_of item ''collectionDifference'') \<and>
     safeIntegerIn 0 int32_max (prop_of item ''factCount''))"

definition nullableIdentifier :: "json \<Rightarrow> bool" where
  "nullableIdentifier value \<longleftrightarrow> value = JNull \<or> identifierValue value"

definition inventoryUnitKeys :: "string list" where
  "inventoryUnitKeys = [''id'', ''propertyId'', ''kind'', ''roomId'', ''code'', ''name'', ''catalogVersion'', ''buildingCode'',
     ''roomTypeCode'', ''pricingProductCode'', ''inventoryBasis'', ''codeProvenance'', ''physicalBedCount'']"

definition inventoryUnitValue :: "json \<Rightarrow> bool" where
  "inventoryUnitValue = objectThat (\<lambda>item.
     exactKeys item inventoryUnitKeys [''occupancyCapacity''] \<and>
     identifierValue (prop_of item ''id'') \<and> identifierValue (prop_of item ''propertyId'') \<and>
     oneOf inventoryKinds (prop_of item ''kind'') \<and>
     identifierValue (prop_of item ''roomId'') \<and> identifierValue (prop_of item ''code'') \<and> textValue False (prop_of item ''name'') \<and>
     nullableIdentifier (prop_of item ''catalogVersion'') \<and> nullableIdentifier (prop_of item ''buildingCode'') \<and>
     nullableIdentifier (prop_of item ''roomTypeCode'') \<and> nullableIdentifier (prop_of item ''pricingProductCode'') \<and>
     (prop_of item ''inventoryBasis'' = JNull \<or> oneOf inventoryBases (prop_of item ''inventoryBasis'')) \<and>
     (prop_of item ''codeProvenance'' = JNull \<or> oneOf codeProvenance (prop_of item ''codeProvenance'')) \<and>
     (prop_of item ''physicalBedCount'' = JNull \<or> safeIntegerIn 1 1000 (prop_of item ''physicalBedCount'')) \<and>
     (\<not> hasOwn item ''occupancyCapacity'' \<or> safeIntegerIn 1 1000 (prop_of item ''occupancyCapacity'')))"

definition nullableInventoryUnit :: "json \<Rightarrow> bool" where
  "nullableInventoryUnit value \<longleftrightarrow> value = JNull \<or> inventoryUnitValue value"

fun inventoryClaimLoop :: "string list \<Rightarrow> json list \<Rightarrow> bool" where
  "inventoryClaimLoop keys [] = True"
| "inventoryClaimLoop keys (entry # entries) =
     (if \<not> timelineEntry entry then False
      else
        let key = str (entryProp ''serviceDate'' entry) @ '':'' @ str (entryProp ''inventoryUnitId'' entry) in
        if key \<in> set keys then False else inventoryClaimLoop (key # keys) entries)"

definition inventoryClaimArray :: "json \<Rightarrow> bool" where
  "inventoryClaimArray = arrayThat (inventoryClaimLoop [])"

definition moveInventoryChange :: "json \<Rightarrow> bool" where
  "moveInventoryChange = objectThat (\<lambda>item.
     exactKeys item [''preservedClaims'', ''releasedClaims'', ''addedClaims''] [] \<and>
     inventoryClaimArray (prop_of item ''preservedClaims'') \<and> inventoryClaimArray (prop_of item ''releasedClaims'') \<and>
     inventoryClaimArray (prop_of item ''addedClaims''))"

definition preInHouseMembershipMoveEntitlement :: "json \<Rightarrow> bool" where
  "preInHouseMembershipMoveEntitlement = objectThat (\<lambda>item.
     exactKeys item [''preservedCoverageDates'', ''migratedHeldCoverageDates'', ''consumedCoverageDates'', ''ledgerWriteCount''] [] \<and>
     dateArray (prop_of item ''preservedCoverageDates'') \<and> dateArray (prop_of item ''migratedHeldCoverageDates'') \<and>
     dateArray (prop_of item ''consumedCoverageDates'') \<and> safeIntegerIn 0 int32_max (prop_of item ''ledgerWriteCount''))"

definition moveBefore :: "json_object \<Rightarrow> bool" where
  "moveBefore item = stayThat [''arrivalDate'', ''departureDate'', ''nights'', ''currentContractAmount'', ''stayTimeline'',
       ''actualCurrentInventoryUnit'', ''effectiveDateInventoryUnit'']
     (\<lambda>item dates. moneyValue True (prop_of item ''currentContractAmount'') \<and>
        timelineValue (Some dates) (prop_of item ''stayTimeline'') \<and>
        nullableInventoryUnit (prop_of item ''actualCurrentInventoryUnit'') \<and>
        inventoryUnitValue (prop_of item ''effectiveDateInventoryUnit'')) (JObj item)"

section \<open>Classification of stored effects and receipts\<close>

definition legacyStayEffect :: "string \<Rightarrow> json_object \<Rightarrow> bool" where
  "legacyStayEffect commandType effect \<longleftrightarrow>
     exactKeys effect [''operation'', ''orderId'', ''stayId'', ''inventoryUnitId'', ''before'', ''after'', ''pricingDecision'',
       ''inventoryChange'', ''entitlementChange'', ''fundsSummary''] [] \<and>
     prop_of effect ''operation'' = JStr commandType \<and> identifierValue (prop_of effect ''orderId'') \<and>
     identifierValue (prop_of effect ''stayId'') \<and> identifierValue (prop_of effect ''inventoryUnitId'') \<and>
     stayBefore (prop_of effect ''before'') \<and> stayAfter (prop_of effect ''after'') \<and>
     pricingDecisionValue (prop_of effect ''pricingDecision'') \<and> dateDiffValue (prop_of effect ''inventoryChange'') \<and>
     entitlementDiff (prop_of effect ''entitlementChange'') \<and> stayFunds (prop_of effect ''fundsSummary'')"

definition legacyShortenRelationships :: "json_object \<Rightarrow> string option \<Rightarrow> bool" where
  "legacyShortenRelationships value businessDate =
     (let before = prop_of value ''before''; after = prop_of value ''after''; change = prop_of value ''inventoryChange'';
          date = (\<lambda>v k. strOf (entryProp k v)) in
      case (date before ''arrivalDate'', date before ''departureDate'', date after ''arrivalDate'', date after ''departureDate'') of
        (Some a, Some d, Some a', Some d') \<Rightarrow>
          asObject change \<noteq> None \<and>
          (case (expectedDates a d, expectedDates a' d') of
             (Some beforeDates, Some afterDates) \<Rightarrow>
               a = a' \<and> \<not> d' \<ge> d \<and>
               exactDateSet (entryProp ''preservedDates'' change) (filter (\<lambda>date. date \<in> set afterDates) beforeDates) \<and>
               exactDateSet (entryProp ''releasedDates'' change) (filter (\<lambda>date. date \<notin> set afterDates) beforeDates) \<and>
               exactDateSet (entryProp ''addedDates'' change) (filter (\<lambda>date. date \<notin> set beforeDates) afterDates) \<and>
               (case businessDate of None \<Rightarrow> True
                | Some today \<Rightarrow>
                  if prop_of value ''completionMode'' = JStr ''EARLY_CHECK_OUT'' then d' = today
                  else prop_of value ''completionMode'' = JStr ''SHORTEN_IN_HOUSE'' \<and> d' > today)
           | _ \<Rightarrow> False)
      | _ \<Rightarrow> False)"

definition shortenDetails :: "(json \<Rightarrow> bool) \<Rightarrow> json_object \<Rightarrow> bool" where
  "shortenDetails before value \<longleftrightarrow>
     prop_of value ''completionMode'' \<in> {JStr ''SHORTEN_IN_HOUSE'', JStr ''EARLY_CHECK_OUT''} \<and>
     before (prop_of value ''before'') \<and> stayAfter (prop_of value ''after'') \<and>
     pricingDecisionValue (prop_of value ''pricingDecision'') \<and> dateDiffValue (prop_of value ''inventoryChange'') \<and>
     legacyShortenRelationships value None \<and> shortenEntitlement (prop_of value ''entitlementSummary'') \<and>
     shortenFunds (prop_of value ''fundsSummary'') \<and> moneyValue True (prop_of value ''refundReferenceAmount'')"

definition legacyShortenDetails :: "json_object \<Rightarrow> bool" where
  "legacyShortenDetails = shortenDetails stayBefore"

definition preInHouseMembershipShortenDetails :: "json_object \<Rightarrow> bool" where
  "preInHouseMembershipShortenDetails = shortenDetails stayBeforeWithTimeline"

definition shortenEffect :: "(json_object \<Rightarrow> bool) \<Rightarrow> json_object \<Rightarrow> bool" where
  "shortenEffect details effect \<longleftrightarrow>
     exactKeys effect [''operation'', ''orderId'', ''stayId'', ''inventoryUnitId'', ''businessDate'', ''completionMode'', ''before'', ''after'',
       ''pricingDecision'', ''inventoryChange'', ''entitlementSummary'', ''fundsSummary'', ''refundReferenceAmount''] [] \<and>
     prop_of effect ''operation'' = JStr ''SHORTEN_STAY'' \<and> identifierValue (prop_of effect ''orderId'') \<and>
     identifierValue (prop_of effect ''stayId'') \<and> identifierValue (prop_of effect ''inventoryUnitId'') \<and>
     localDateValue (prop_of effect ''businessDate'') \<and> details effect \<and>
     legacyShortenRelationships effect (Some (str (prop_of effect ''businessDate'')))"

definition legacyShortenEffect :: "json_object \<Rightarrow> bool" where
  "legacyShortenEffect = shortenEffect legacyShortenDetails"

definition preInHouseMembershipShortenEffect :: "json_object \<Rightarrow> bool" where
  "preInHouseMembershipShortenEffect = shortenEffect preInHouseMembershipShortenDetails"

definition legacyShortenFulfillmentTiming :: "json_object \<Rightarrow> bool" where
  "legacyShortenFulfillmentTiming result =
     (if prop_of result ''completionMode'' = JStr ''SHORTEN_IN_HOUSE'' then prop_of result ''fulfillmentTiming'' = JNull
      else prop_of result ''completionMode'' = JStr ''EARLY_CHECK_OUT'' \<and>
        objectThat (\<lambda>timing.
          exactKeys timing [''effectiveDate'', ''recordedBusinessDate'', ''recordingMode''] [] \<and>
          localDateValue (prop_of timing ''effectiveDate'') \<and> prop_of timing ''effectiveDate'' = prop_of result ''departureDate'' \<and>
          localDateValue (prop_of timing ''recordedBusinessDate'') \<and>
          prop_of timing ''recordedBusinessDate'' = prop_of result ''departureDate'' \<and>
          prop_of timing ''recordingMode'' = JStr ''ON_SCHEDULE'') (prop_of result ''fulfillmentTiming''))"

definition optionalCount :: "json_object \<Rightarrow> string \<Rightarrow> bool" where
  "optionalCount effect k \<longleftrightarrow> \<not> hasOwn effect k \<or> safeIntegerIn 1 1000 (prop_of effect k)"

definition legacyMoveEffect :: "json_object \<Rightarrow> bool" where
  "legacyMoveEffect effect \<longleftrightarrow>
     exactKeys effect [''orderId'', ''fromInventoryUnit'', ''toInventoryUnit'', ''effectiveDate'', ''stayTimeline'', ''pricing'']
       [''occupantCount'', ''occupancyCapacity''] \<and>
     identifierValue (prop_of effect ''orderId'') \<and> inventoryUnitValue (prop_of effect ''fromInventoryUnit'') \<and>
     inventoryUnitValue (prop_of effect ''toInventoryUnit'') \<and> localDateValue (prop_of effect ''effectiveDate'') \<and>
     timelineValue None (prop_of effect ''stayTimeline'') \<and>
     pricingValue (prop_of effect ''stayTimeline'') (prop_of effect ''pricing'') \<and>
     optionalCount effect ''occupantCount'' \<and> optionalCount effect ''occupancyCapacity''"

definition preInHouseMembershipMoveDetails :: "json_object \<Rightarrow> bool" where
  "preInHouseMembershipMoveDetails value \<longleftrightarrow>
     objectThat (\<lambda>before. objectThat (\<lambda>after.
       moveBefore before \<and> stayAfter (JObj after) \<and>
       prop_of before ''arrivalDate'' = prop_of after ''arrivalDate'' \<and>
       prop_of before ''departureDate'' = prop_of after ''departureDate'' \<and>
       localDateValue (prop_of value ''businessDate'') \<and> localDateValue (prop_of value ''effectiveDate'') \<and>
       \<not> str (prop_of value ''effectiveDate'') < str (prop_of before ''arrivalDate'') \<and>
       \<not> str (prop_of value ''effectiveDate'') \<ge> str (prop_of before ''departureDate'') \<and>
       pricingDecisionValue (prop_of value ''pricingDecision'') \<and> moveInventoryChange (prop_of value ''inventoryChange'') \<and>
       preInHouseMembershipMoveEntitlement (prop_of value ''entitlementSummary'') \<and>
       shortenFunds (prop_of value ''fundsSummary'')) (prop_of value ''after'')) (prop_of value ''before'')"

definition preInHouseMembershipMoveEffect :: "json_object \<Rightarrow> bool" where
  "preInHouseMembershipMoveEffect effect \<longleftrightarrow>
     exactKeys effect [''operation'', ''orderId'', ''stayId'', ''businessDate'', ''toInventoryUnit'', ''effectiveDate'',
       ''occupantCount'', ''occupancyCapacity'', ''before'', ''after'', ''pricingDecision'', ''inventoryChange'',
       ''entitlementSummary'', ''fundsSummary''] [] \<and>
     prop_of effect ''operation'' = JStr ''MOVE_UNIT'' \<and> identifierValue (prop_of effect ''orderId'') \<and>
     identifierValue (prop_of effect ''stayId'') \<and> inventoryUnitValue (prop_of effect ''toInventoryUnit'') \<and>
     safeIntegerIn 1 1000 (prop_of effect ''occupantCount'') \<and> safeIntegerIn 1 1000 (prop_of effect ''occupancyCapacity'') \<and>
     num (prop_of effect ''occupantCount'') \<le> num (prop_of effect ''occupancyCapacity'') \<and>
     preInHouseMembershipMoveDetails effect"

definition legacyEffectProtocol :: "string \<Rightarrow> json \<Rightarrow> historical_protocol_version option" where
  "legacyEffectProtocol commandType value =
     (case asObject value of None \<Rightarrow> None
      | Some effect \<Rightarrow>
        if (commandType = ''RESCHEDULE_STAY'' \<or> commandType = ''EXTEND_STAY'') \<and> legacyStayEffect commandType effect
          then Some LEGACY_STAGE_9_10
        else if commandType = ''SHORTEN_STAY'' \<and> legacyShortenEffect effect then Some LEGACY_STAGE_10
        else if commandType = ''SHORTEN_STAY'' \<and> preInHouseMembershipShortenEffect effect
          then Some PRE_INHOUSE_MEMBERSHIP_FULFILLMENT
        else if commandType = ''MOVE_UNIT'' \<and> legacyMoveEffect effect then Some PRE_STAGE_11
        else if commandType = ''MOVE_UNIT'' \<and> preInHouseMembershipMoveEffect effect
          then Some PRE_INHOUSE_MEMBERSHIP_FULFILLMENT
        else None)"

definition receiptIdentifiers :: "json_object \<Rightarrow> string list \<Rightarrow> bool" where
  "receiptIdentifiers result keys = list_all (\<lambda>key. identifierValue (prop_of result key)) keys"

text \<open>Whether the checkout amendment fits the completion mode.\<close>

definition checkoutAmendmentFits :: "json_object \<Rightarrow> bool" where
  "checkoutAmendmentFits result =
     (if prop_of result ''completionMode'' = JStr ''SHORTEN_IN_HOUSE'' then prop_of result ''checkoutAmendmentId'' = JNull
      else identifierValue (prop_of result ''checkoutAmendmentId''))"

definition afterDatesMatch :: "json_object \<Rightarrow> bool" where
  "afterDatesMatch result = objectThat (\<lambda>after.
     prop_of result ''arrivalDate'' = prop_of after ''arrivalDate'' \<and>
     prop_of result ''departureDate'' = prop_of after ''departureDate'') (prop_of result ''after'')"

definition sha256Value :: "json \<Rightarrow> bool" where
  "sha256Value value = (case strOf value of None \<Rightarrow> False | Some s \<Rightarrow> SHA256_HEX s)"

definition preInHouseMembershipShortenReceipt :: "json_object \<Rightarrow> bool" where
  "preInHouseMembershipShortenReceipt result \<longleftrightarrow>
     exactKeys result [''orderId'', ''stayId'', ''arrangementAmendmentId'', ''checkoutAmendmentId'', ''staySegmentId'', ''pricingRevisionId'',
       ''effectHash'', ''completionMode'', ''businessDate'', ''arrivalDate'', ''departureDate'', ''before'', ''after'',
       ''pricingDecision'', ''inventoryChange'', ''entitlementSummary'', ''fundsSummary'', ''refundReferenceAmount'', ''fulfillmentTiming''] [] \<and>
     receiptIdentifiers result [''orderId'', ''stayId'', ''arrangementAmendmentId'', ''staySegmentId'', ''pricingRevisionId''] \<and>
     nullableIdentifier (prop_of result ''checkoutAmendmentId'') \<and> sha256Value (prop_of result ''effectHash'') \<and>
     localDateValue (prop_of result ''businessDate'') \<and> localDateValue (prop_of result ''arrivalDate'') \<and>
     localDateValue (prop_of result ''departureDate'') \<and> legacyShortenFulfillmentTiming result \<and>
     afterDatesMatch result \<and> checkoutAmendmentFits result \<and> preInHouseMembershipShortenDetails result \<and>
     legacyShortenRelationships result (Some (str (prop_of result ''businessDate'')))"

definition preInHouseMembershipMoveReceipt :: "json_object \<Rightarrow> bool" where
  "preInHouseMembershipMoveReceipt result \<longleftrightarrow>
     exactKeys result [''orderId'', ''stayId'', ''amendmentId'', ''staySegmentId'', ''pricingRevisionId'', ''effectHash'', ''businessDate'',
       ''effectiveDate'', ''before'', ''after'', ''pricingDecision'', ''inventoryChange'', ''entitlementSummary'', ''fundsSummary''] [] \<and>
     receiptIdentifiers result [''orderId'', ''stayId'', ''amendmentId'', ''staySegmentId'', ''pricingRevisionId''] \<and>
     sha256Value (prop_of result ''effectHash'') \<and> preInHouseMembershipMoveDetails result"

text \<open>\<^verbatim>\<open>{ ...a, ...b }\<close>\<close>

definition spread :: "json_object \<Rightarrow> json_object \<Rightarrow> json_object" where
  "spread a b = fold (\<lambda>(k, v) m. jmap_set k v m) b a"

definition startsWith :: "string \<Rightarrow> string \<Rightarrow> bool" where
  "startsWith s p \<longleftrightarrow> take (length p) s = p"

definition legacyPreviewReceipt :: "(string \<Rightarrow> bool) \<Rightarrow> string \<Rightarrow> json_object \<Rightarrow> historical_protocol_version option" where
  "legacyPreviewReceipt parses baseType result =
     (if \<not> exactKeys result [''preview''] [] then None
      else case asObject (prop_of result ''preview'') of None \<Rightarrow> None
      | Some preview \<Rightarrow>
        if \<not> exactKeys preview [''previewId'', ''commandType'', ''effectHash'', ''effect'', ''expiresAt''] []
          \<or> prop_of preview ''commandType'' \<noteq> JStr baseType \<or> \<not> identifierValue (prop_of preview ''previewId'')
          \<or> \<not> sha256Value (prop_of preview ''effectHash'') \<or> \<not> dateTime parses (prop_of preview ''expiresAt'')
        then None
        else legacyEffectProtocol baseType (prop_of preview ''effect''))"

definition legacyStayReceipt :: "string \<Rightarrow> json_object \<Rightarrow> historical_protocol_version option" where
  "legacyStayReceipt commandType result =
     (if \<not> exactKeys result [''orderId'', ''stayId'', ''amendmentId'', ''staySegmentId'', ''pricingRevisionId'', ''arrivalDate'', ''departureDate'',
          ''before'', ''after'', ''pricingDecision'', ''inventoryChange'', ''entitlementChange'', ''fundsSummary''] []
        \<or> \<not> receiptIdentifiers result [''orderId'', ''stayId'', ''amendmentId'', ''staySegmentId'', ''pricingRevisionId'']
        \<or> \<not> localDateValue (prop_of result ''arrivalDate'') \<or> \<not> localDateValue (prop_of result ''departureDate'')
        \<or> \<not> afterDatesMatch result
      then None
      else
        let effect = filter (\<lambda>e. fst e \<notin> {''amendmentId'', ''staySegmentId'', ''pricingRevisionId'', ''arrivalDate'', ''departureDate''})
              (spread [(''operation'', JStr commandType), (''inventoryUnitId'', JStr ''legacy-receipt'')] result) in
        if legacyStayEffect commandType effect then Some LEGACY_STAGE_9_10 else None)"

definition legacyShortenReceipt :: "json_object \<Rightarrow> bool" where
  "legacyShortenReceipt result \<longleftrightarrow>
     exactKeys result [''orderId'', ''stayId'', ''arrangementAmendmentId'', ''checkoutAmendmentId'', ''staySegmentId'', ''pricingRevisionId'',
       ''completionMode'', ''arrivalDate'', ''departureDate'', ''before'', ''after'', ''pricingDecision'', ''inventoryChange'',
       ''entitlementSummary'', ''fundsSummary'', ''refundReferenceAmount'', ''fulfillmentTiming''] [] \<and>
     receiptIdentifiers result [''orderId'', ''stayId'', ''arrangementAmendmentId'', ''staySegmentId'', ''pricingRevisionId''] \<and>
     nullableIdentifier (prop_of result ''checkoutAmendmentId'') \<and> legacyShortenFulfillmentTiming result \<and>
     localDateValue (prop_of result ''arrivalDate'') \<and> localDateValue (prop_of result ''departureDate'') \<and>
     afterDatesMatch result \<and> checkoutAmendmentFits result \<and> legacyShortenDetails result"

definition legacyReceiptProtocol :: "(string \<Rightarrow> bool) \<Rightarrow> string \<Rightarrow> json \<Rightarrow> historical_protocol_version option" where
  "legacyReceiptProtocol parses commandType value =
     (case asObject value of None \<Rightarrow> None
      | Some result \<Rightarrow>
        if startsWith commandType ''PREVIEW:'' then legacyPreviewReceipt parses (drop 8 commandType) result
        else if commandType = ''RESCHEDULE_STAY'' \<or> commandType = ''EXTEND_STAY'' then legacyStayReceipt commandType result
        else if commandType = ''SHORTEN_STAY'' \<and> preInHouseMembershipShortenReceipt result
          then Some PRE_INHOUSE_MEMBERSHIP_FULFILLMENT
        else if commandType = ''SHORTEN_STAY'' then (if legacyShortenReceipt result then Some LEGACY_STAGE_10 else None)
        else if commandType = ''MOVE_UNIT'' \<and> exactKeys result [''orderId'', ''amendmentId'', ''staySegmentId'', ''pricingRevisionId''] []
            \<and> receiptIdentifiers result [''orderId'', ''amendmentId'', ''staySegmentId'', ''pricingRevisionId'']
          then Some PRE_STAGE_11
        else if commandType = ''MOVE_UNIT'' \<and> preInHouseMembershipMoveReceipt result
          then Some PRE_INHOUSE_MEMBERSHIP_FULFILLMENT
        else None)"

end
