(* ===== verification/CashLineAgreement.thy ===== *)
theory CashLineAgreement
  imports HistoricalReading
begin

text \<open>
  The writer and the reader of a cash line agree: the stay total that
  \<^verbatim>\<open>calculateDurationTimelinePricing\<close> (pricing.ts) writes is accepted by
  \<^verbatim>\<open>ordinaryStayCashLineTotalMinor\<close> (historical-command-protocol.ts) for the timeline it was priced
  for, with the amount that was charged. The pricing groups the nights into segments; the reader
  recomputes dates, nights, numerators and the rounded total from them.
\<close>

section \<open>The segments of a priced timeline\<close>

text \<open>Segments from day t on that group the items: each covers its nights, unit and product.\<close>

fun segSpan :: "int \<Rightarrow> calculation_segment list \<Rightarrow> pricing_timeline_item list \<Rightarrow> bool" where
  "segSpan t [] items = (items = [])"
| "segSpan t (s # ss) items =
     (sg_arrivalDate s = toISODate t \<and> sg_departureDate s = toISODate (t + sg_nights s) \<and> 1 \<le> sg_nights s \<and>
      sg_nights s \<le> int (length items) \<and>
      (\<forall>x \<in> set (take (nat (sg_nights s)) items). pt_inventoryUnitId x = sg_inventoryUnitId s) \<and>
      (\<exists>x \<in> set items. pt_inventoryProductCode x = Some (sg_pricingProductCode s)) \<and>
      segSpan (t + sg_nights s) ss (drop (nat (sg_nights s)) items))"

lemma segSpan_fresh:
  assumes "segSpan t segs items" and "sg_arrivalDate s = toISODate (t + int (length items))"
    and "sg_departureDate s = toISODate (t + int (length items) + 1)" "sg_nights s = 1"
    and "pt_inventoryUnitId item = sg_inventoryUnitId s" "pt_inventoryProductCode item = Some (sg_pricingProductCode s)"
  shows "segSpan t (segs @ [s]) (items @ [item])"
  using assms
proof (induction segs arbitrary: t items)
  case (Cons r segs)
  let ?n = "nat (sg_nights r)"
  have len: "?n \<le> length items" using Cons.prems(1) by auto
  have "segSpan (t + sg_nights r) (segs @ [s]) (drop ?n items @ [item])"
    using Cons.prems len by (intro Cons.IH) (auto simp: of_nat_diff algebra_simps)
  then show ?case using Cons.prems(1) len by auto
qed (auto simp: add.commute)

lemma segSpan_extend:
  assumes "segSpan t (ini @ [cur]) items" and "pt_inventoryUnitId item = sg_inventoryUnitId cur"
    and "sg_inventoryUnitId cur' = sg_inventoryUnitId cur" "sg_pricingProductCode cur' = sg_pricingProductCode cur"
      "sg_arrivalDate cur' = sg_arrivalDate cur" "sg_nights cur' = sg_nights cur + 1"
      "sg_departureDate cur' = toISODate (t + int (length items) + 1)"
  shows "segSpan t (ini @ [cur']) (items @ [item])"
  using assms
proof (induction ini arbitrary: t items)
  case Nil
  then have len: "sg_nights cur = int (length items)" by auto
  then have "nat (sg_nights cur + 1) = Suc (length items)" by simp
  with Nil len show ?case by (auto simp: algebra_simps)
next
  case (Cons r ini)
  let ?n = "nat (sg_nights r)"
  have len: "?n \<le> length items" using Cons.prems(1) by auto
  have "segSpan (t + sg_nights r) (ini @ [cur']) (drop ?n items @ [item])"
    using Cons.prems len by (intro Cons.IH) (auto simp: of_nat_diff algebra_simps)
  then show ?case using Cons.prems(1) len by auto
qed

lemma nextServiceDate_plain:
  "plainYear t \<Longrightarrow> nextServiceDate_pricing (toISODate t) = Inr (toISODate (t + 1))"
  by (simp add: nextServiceDate_pricing_def newDate_toISODate)

lemma segSpan_step:
  assumes "segSpan t segs items" "segmentStep policy band segs item = Inr segs'"
    and "pt_serviceDate item = toISODate (t + int (length items))" "plainYear (t + int (length items))"
  shows "segSpan t segs' (items @ [item])"
proof -
  note nx = nextServiceDate_plain [OF assms(4)]
  from assms(2) obtain product where p: "pt_inventoryProductCode item = Some product"
    by (auto simp: segmentStep_def split: option.splits)
  show ?thesis
  proof (cases "segs \<noteq> [] \<and> sg_inventoryUnitId (last segs) = pt_inventoryUnitId item \<and>
      sg_pricingProductCode (last segs) = product \<and> sg_departureDate (last segs) = pt_serviceDate item")
    case True
    then obtain ini cur where segs: "segs = ini @ [cur]" by (cases segs rule: rev_cases) auto
    with True assms(2,3) p nx have "segs' = ini @ [cur\<lparr>sg_departureDate := toISODate (t + int (length items) + 1),
        sg_nights := sg_nights cur + 1, sg_numeratorMinor := dbl (sg_numeratorMinor cur + sg_anchorAmountMinor cur)\<rparr>]"
      by (auto simp: segmentStep_def Let_def split: if_splits)
    with segs assms(1) True show ?thesis by (auto intro!: segSpan_extend)
  next
    case False
    with assms(2,3) p nx obtain anchors where "segs' = segs @ [\<lparr>sg_inventoryUnitId = pt_inventoryUnitId item,
        sg_pricingProductCode = product, sg_arrivalDate = toISODate (t + int (length items)),
        sg_departureDate = toISODate (t + int (length items) + 1), sg_nights = 1,
        sg_anchorAmountMinor = intOf (anchorAt anchors band), sg_numeratorMinor = intOf (anchorAt anchors band),
        sg_denominator = band\<rparr>]"
      by (auto simp: segmentStep_def Let_def split: if_splits)
    with assms(1) p show ?thesis by (auto intro!: segSpan_fresh)
  qed
qed

lemma segSpan_fold:
  assumes "foldR (segmentStep policy band) segs items = Inr segs'" "segSpan t segs before"
    and "map pt_serviceDate items = map (\<lambda>i. toISODate (t + int (length before) + int i)) [0..<length items]"
    and "\<And>i. i < length items \<Longrightarrow> plainYear (t + int (length before) + int i)"
  shows "segSpan t segs' (before @ items)"
  using assms
proof (induction items arbitrary: segs before)
  case (Cons item items)
  then obtain mid where m: "segmentStep policy band segs item = Inr mid" "foldR (segmentStep policy band) mid items = Inr segs'"
    by auto
  have split: "map (\<lambda>i. toISODate (t + int (length before) + int i)) [0..<Suc (length items)] =
      toISODate (t + int (length before)) # map (\<lambda>i. toISODate (t + int (length (before @ [item])) + int i)) [0..<length items]"
    by (subst upt_conv_Cons) (simp_all add: map_Suc_upt [symmetric] comp_def ac_simps del: upt_Suc)
  have day: "pt_serviceDate item = toISODate (t + int (length before))" "plainYear (t + int (length before))"
    using Cons.prems(3,4) split Cons.prems(4) [of 0] by auto
  have "segSpan t mid (before @ [item])" by (rule segSpan_step [OF Cons.prems(2) m(1) day])
  from Cons.IH [OF m(2) this] have "segSpan t segs' ((before @ [item]) @ items)"
    using Cons.prems(3) split Cons.prems(4) [of "Suc _"] by (auto simp: ac_simps)
  then show ?case by simp
qed simp

section \<open>The stored form\<close>

definition moneyJson :: "money_dto \<Rightarrow> json" where
  "moneyJson m = JObj [(''currency'', JStr (mo_currency m)), (''minorUnits'', JNum (mo_minorUnits m))]"

definition segmentJson :: "calculation_segment \<Rightarrow> json" where
  "segmentJson s = JObj [(''inventoryUnitId'', JStr (sg_inventoryUnitId s)), (''pricingProductCode'', JStr (sg_pricingProductCode s)),
     (''arrivalDate'', JStr (sg_arrivalDate s)), (''departureDate'', JStr (sg_departureDate s)), (''nights'', JNum (sg_nights s)),
     (''anchorAmountMinor'', JNum (sg_anchorAmountMinor s)), (''numeratorMinor'', JNum (sg_numeratorMinor s)),
     (''denominator'', JNum (sg_denominator s))]"

text \<open>The stored stay total, with the description the pricing writes.\<close>

fun cashLineJson :: "cash_line_dto \<Rightarrow> json" where
  "cashLineJson (StayTotalCashLine arrival departure unit band segments amount) =
     JObj [(''lineKind'', JStr ''STAY_TOTAL''), (''arrivalDate'', JStr arrival), (''departureDate'', JStr departure),
       (''inventoryUnitId'', JStr unit), (''description'', JStr ''Accommodation total from locked duration band''),
       (''pricingBandAnchorNights'', JNum band), (''calculationSegments'', JArr (map segmentJson segments)),
       (''amount'', moneyJson amount)]"
| "cashLineJson (NightlyCashLine date unit amount) =
     JObj [(''lineKind'', JStr ''NIGHT''), (''serviceDate'', JStr date), (''inventoryUnitId'', JStr unit),
       (''description'', JStr ''Member cash remainder at locked one-night transient price''), (''amount'', moneyJson amount)]"

lemma segmentJson_props [simp]:
  "asObject (segmentJson s) = Some [(''inventoryUnitId'', JStr (sg_inventoryUnitId s)), (''pricingProductCode'', JStr (sg_pricingProductCode s)),
     (''arrivalDate'', JStr (sg_arrivalDate s)), (''departureDate'', JStr (sg_departureDate s)), (''nights'', JNum (sg_nights s)),
     (''anchorAmountMinor'', JNum (sg_anchorAmountMinor s)), (''numeratorMinor'', JNum (sg_numeratorMinor s)),
     (''denominator'', JNum (sg_denominator s))]"
  by (simp add: segmentJson_def)

lemma expectedDates_plain:
  assumes "plainYear a" "plainYear (a + n)" "1 \<le> n" "n \<le> 366"
  shows "expectedDates (toISODate a) (toISODate (a + n)) = Some (map (\<lambda>i. toISODate (a + int i)) [0..<nat n])"
proof -
  have "map (\<lambda>i. toISODate (a + i)) [0..n - 1] = map (\<lambda>i. toISODate (a + int i)) [0..<nat n]"
    using assms(3) by (intro nth_equalityI) auto
  then show ?thesis using assms by (simp add: expectedDates_def parseLocalDate_toISODate)
qed

lemma localDateValue_plain [simp]: "plainYear t \<Longrightarrow> localDateValue (JStr (toISODate t))"
  by (simp add: localDateValue_def parseLocalDate_toISODate)

text \<open>One segment in the reader's loop.\<close>

lemma cashSegmentStep_segment:
  assumes "sg_arrivalDate s = toISODate t" "sg_departureDate s = toISODate (t + sg_nights s)"
    and "plainYear t" "plainYear (t + sg_nights s)" "1 \<le> sg_nights s" "sg_nights s \<le> 366" "sg_denominator s = band"
    and "identifierValue (JStr (sg_inventoryUnitId s))" "identifierValue (JStr (sg_pricingProductCode s))"
    and "1 \<le> sg_anchorAmountMinor s" "sg_anchorAmountMinor s \<le> int32_max"
    and "sg_numeratorMinor s = sg_nights s * sg_anchorAmountMinor s" "sg_numeratorMinor s \<le> MAX_SAFE_INTEGER"
    and "\<And>i. i < nat (sg_nights s) \<Longrightarrow> jmap_get m (toISODate (t + int i)) = Some (sg_inventoryUnitId s)"
  shows "cashSegmentStep (Some m) (JNum band) (toISODate t, acc) (segmentJson s) =
     Some (toISODate (t + sg_nights s), acc + sg_nights s * sg_anchorAmountMinor s)"
    and "cashSegmentStep None (JNum band) (toISODate t, acc) (segmentJson s) =
     Some (toISODate (t + sg_nights s), acc + sg_nights s * sg_anchorAmountMinor s)"
proof -
  have num: "1 \<le> sg_numeratorMinor s" using assms(5,10,12) mult_mono [of 1 "sg_nights s" 1 "sg_anchorAmountMinor s"] by simp
  have safe: "safe_int (sg_nights s)" "safe_int (sg_anchorAmountMinor s)" "safe_int (sg_numeratorMinor s)"
    using assms(5,6,10,11,13) num by (auto simp: safe_int_bounds MAX_SAFE_INTEGER_def)
  have keys: "exactKeys (the (asObject (segmentJson s))) segmentKeys []"
    by (simp add: exactKeys_def segmentKeys_def hasOwn_def)
  note facts = assms num safe keys expectedDates_plain [OF assms(3,4,5,6)]
  show "cashSegmentStep (Some m) (JNum band) (toISODate t, acc) (segmentJson s) =
     Some (toISODate (t + sg_nights s), acc + sg_nights s * sg_anchorAmountMinor s)"
    "cashSegmentStep None (JNum band) (toISODate t, acc) (segmentJson s) =
     Some (toISODate (t + sg_nights s), acc + sg_nights s * sg_anchorAmountMinor s)"
    using facts by (simp_all add: cashSegmentStep_def prop_of_def str_def num_def list_ex_iff)
qed

lemma cashSegmentLoop_segments:
  assumes "segSpan t segs items" "plainYear t" "plainYear (t + int (length items))" "length items \<le> 366"
    and seg: "\<And>s. s \<in> set segs \<Longrightarrow> sg_denominator s = band \<and> 1 \<le> sg_anchorAmountMinor s \<and>
      sg_anchorAmountMinor s \<le> int32_max \<and> sg_numeratorMinor s = sg_nights s * sg_anchorAmountMinor s \<and>
      sg_numeratorMinor s \<le> MAX_SAFE_INTEGER"
    and ids: "\<And>x. x \<in> set items \<Longrightarrow> identifierValue (JStr (pt_inventoryUnitId x)) \<and>
      (\<exists>p. pt_inventoryProductCode x = Some p \<and> identifierValue (JStr p))"
    and m: "\<And>i. i < length items \<Longrightarrow> jmap_get m (toISODate (t + int i)) = Some (pt_inventoryUnitId (items ! i))"
    and mo: "mo = None \<or> mo = Some m"
  shows "cashSegmentLoop mo (JNum band) (toISODate t, acc) (map segmentJson segs) =
     Some (toISODate (t + int (length items)), acc + (\<Sum>s \<leftarrow> segs. sg_nights s * sg_anchorAmountMinor s))"
  using assms(1-4) seg ids m
proof (induction segs arbitrary: t items acc)
  case (Cons s segs)
  let ?n = "nat (sg_nights s)"
  have n: "1 \<le> sg_nights s" "sg_nights s \<le> int (length items)" "?n \<le> length items" "0 < ?n" using Cons.prems(1) by auto
  have first: "items ! 0 \<in> set (take ?n items)" using n by (auto simp: in_set_conv_nth intro!: exI [of _ 0])
  have unit: "pt_inventoryUnitId (items ! i) = sg_inventoryUnitId s" if "i < ?n" for i
  proof -
    have "items ! i \<in> set (take ?n items)" using that n by (auto simp: in_set_conv_nth)
    then show ?thesis using Cons.prems(1) by auto
  qed
  have mid: "plainYear (t + sg_nights s)"
    using plainYear_between [OF Cons.prems(2,3), of "t + sg_nights s"] n by simp
  have "items ! 0 \<in> set items" using n by (intro nth_mem) linarith
  then have iu: "identifierValue (JStr (sg_inventoryUnitId s))" using Cons.prems(6) [of "items ! 0"] unit [of 0] n by simp
  obtain x where x: "x \<in> set items" "pt_inventoryProductCode x = Some (sg_pricingProductCode s)" using Cons.prems(1) by auto
  then have ip: "identifierValue (JStr (sg_pricingProductCode s))" using Cons.prems(6) [of x] by auto
  have step: "cashSegmentStep mo (JNum band) (toISODate t, acc) (segmentJson s) =
     Some (toISODate (t + sg_nights s), acc + sg_nights s * sg_anchorAmountMinor s)"
    using mo cashSegmentStep_segment [of s t band m acc] Cons.prems(1-4) Cons.prems(5) [of s] mid n iu ip
      Cons.prems(7) unit by auto
  have "cashSegmentLoop mo (JNum band) (toISODate (t + sg_nights s), acc + sg_nights s * sg_anchorAmountMinor s) (map segmentJson segs)
     = Some (toISODate (t + sg_nights s + int (length (drop ?n items))),
         acc + sg_nights s * sg_anchorAmountMinor s + (\<Sum>s \<leftarrow> segs. sg_nights s * sg_anchorAmountMinor s))"
  proof (rule Cons.IH)
    show "jmap_get m (toISODate (t + sg_nights s + int i)) = Some (pt_inventoryUnitId (drop ?n items ! i))"
      if "i < length (drop ?n items)" for i
      using Cons.prems(7) [of "?n + i"] that n by (auto simp: ac_simps)
    show "sg_denominator r = band \<and> 1 \<le> sg_anchorAmountMinor r \<and> sg_anchorAmountMinor r \<le> int32_max \<and>
        sg_numeratorMinor r = sg_nights r * sg_anchorAmountMinor r \<and> sg_numeratorMinor r \<le> MAX_SAFE_INTEGER"
      if "r \<in> set segs" for r
      by (rule Cons.prems(5)) (simp add: that)
  qed (use Cons.prems n mid in \<open>auto dest: in_set_dropD simp: of_nat_diff\<close>)
  then show ?case using step n by (simp add: of_nat_diff ac_simps)
qed simp

lemma timelineMap_distinct:
  assumes "distinct (map fst items)" "set (map fst items) \<inter> set (map fst m) = {}"
    and "\<forall>(d, u) \<in> set items. localDateValue (JStr d) \<and> identifierValue (JStr u)"
  shows "timelineMap m items = Some (m @ items)"
  using assms
proof (induction items arbitrary: m)
  case (Cons a items)
  obtain d u where a: "a = (d, u)" by (cases a)
  have new: "d \<notin> set (map fst m)" using Cons.prems(2) a by auto
  then have "jmap_get m d = None" "jmap_set d u m = m @ [(d, u)]"
    by (induction m) (auto simp: jmap_get_def split: if_splits)
  with Cons a show ?case by auto
qed simp

lemma exactKeys_refl [simp]: "exactKeys obj (map fst obj) []"
  by (simp add: exactKeys_def hasOwn_def list_all_iff)

lemma moneyValue_moneyJson:
  assumes "CURRENCY_CODE (mo_currency m)" "0 \<le> mo_minorUnits m" "mo_minorUnits m \<le> int32_max"
  shows "moneyValue True (moneyJson m)"
  using assms by (simp add: moneyValue_def moneyJson_def exactKeys_def hasOwn_def prop_of_def int32_safe)

lemma dates_of_enumeration:
  assumes "enumerateServiceDates a d = Inr ds"
  obtains t where "a = toISODate t" "d = toISODate (t + int (length ds))" "plainYear t" "plainYear (t + int (length ds))"
    "1 \<le> length ds" "length ds \<le> 366" "ds = map (\<lambda>i. toISODate (t + int i)) [0..<length ds]"
proof -
  from assms obtain s e where se: "parseLocalDate a = Inr s" "parseLocalDate d = Inr e" "s < e" "e - s \<le> 366"
    "ds = map toISODate [s..e - 1]"
    by (auto simp: enumerateServiceDates_Inr_iff)
  then have len: "length ds = nat (e - s)" by simp
  have "map toISODate [s..e - 1] = map (\<lambda>i. toISODate (s + int i)) [0..<nat (e - s)]"
    using se(3) by (intro nth_equalityI) auto
  then have "ds = map (\<lambda>i. toISODate (s + int i)) [0..<length ds]"
    using se(5) len by simp
  with se len show thesis by (intro that [of s]) (auto simp: parseLocalDate_Inr_iff)
qed

text \<open>The reader's test of a stay total, with its premises as they come from the pricing.\<close>

lemma stayTotal_accepted:
  assumes span: "segSpan t segs items" "segs \<noteq> []" "items \<noteq> []"
    and days: "plainYear t" "plainYear (t + int (length items))" "length items \<le> 366"
    and seg: "\<And>s. s \<in> set segs \<Longrightarrow> sg_denominator s = band \<and> 1 \<le> sg_anchorAmountMinor s \<and>
      sg_anchorAmountMinor s \<le> int32_max \<and> sg_numeratorMinor s = sg_nights s * sg_anchorAmountMinor s \<and>
      sg_numeratorMinor s \<le> MAX_SAFE_INTEGER"
    and ids: "\<And>x. x \<in> set items \<Longrightarrow> identifierValue (JStr (pt_inventoryUnitId x)) \<and>
      (\<exists>p. pt_inventoryProductCode x = Some p \<and> identifierValue (JStr p))"
    and m: "\<And>i. i < length items \<Longrightarrow> jmap_get m (toISODate (t + int i)) = Some (pt_inventoryUnitId (items ! i))"
    and len: "length m = length items"
    and mo: "mo = None \<or> mo = Some m"
    and band: "isBand band"
    and amount: "CURRENCY_CODE (mo_currency amount)" "0 \<le> mo_minorUnits amount" "mo_minorUnits amount \<le> int32_max"
      "mo_minorUnits amount =
        (((\<Sum>s \<leftarrow> segs. sg_nights s * sg_anchorAmountMinor s) * 2 + band * 100) div (band * 100 * 2)) * 100"
  shows "objectThat (stayTotalCashLine mo) (cashLineJson (StayTotalCashLine (toISODate t) (toISODate (t + int (length items)))
     (pt_inventoryUnitId (hd items)) band segs amount))"
proof -
  let ?unit = "pt_inventoryUnitId (hd items)"
  have n: "1 \<le> int (length items)" "int (length items) \<le> 366" using span(3) days(3) by (cases items; simp)+
  have all: "expectedDates (toISODate t) (toISODate (t + int (length items))) =
      Some (map (\<lambda>i. toISODate (t + int i)) [0..<length items])"
    using expectedDates_plain [OF days(1,2) n] by simp
  have hd0: "hd items = items ! 0" using span(3) by (simp add: hd_conv_nth)
  have hd_dates: "hd (map (\<lambda>i. toISODate (t + int i)) [0..<length items]) = toISODate t"
    using span(3) by (subst hd_map) auto
  have unit: "identifierValue (JStr ?unit)" using ids [of "hd items"] span(3) by simp
  have loop: "cashSegmentLoop mo (JNum band) (toISODate t, 0) (map segmentJson segs) =
     Some (toISODate (t + int (length items)), 0 + (\<Sum>s \<leftarrow> segs. sg_nights s * sg_anchorAmountMinor s))"
    by (rule cashSegmentLoop_segments [OF span(1) days seg ids m mo])
  have map_ok: "\<not> list_ex (\<lambda>date. jmap_get m date = None) (map (\<lambda>i. toISODate (t + int i)) [0..<length items])"
      "jmap_get m (toISODate t) = Some ?unit"
    using m m [of 0] span(3) hd0 by (auto simp: list_ex_iff)
  have desc: "textValue False (JStr ''Accommodation total from locked duration band'')"
    by (simp add: textValue_def MAX_TEXT_LENGTH_def trim_def js_space_def)
  have anchor: "JNum band \<in> {JNum 1, JNum 7, JNum 14, JNum 30}" using band by (auto simp: isBand_def)
  note money = moneyValue_moneyJson [OF amount(1,2,3)]
  from mo show ?thesis
    by (elim disjE) (use days span(2) unit desc anchor money all hd_dates map_ok len loop amount(4) in
      \<open>simp_all add: stayTotalCashLine_def Let_def exactKeys_def stayTotalKeys_def hasOwn_def prop_of_def str_def num_def
        entryProp_def moneyJson_def\<close>)
qed

lemma segSpan_product:
  "segSpan t segs items \<Longrightarrow> s \<in> set segs \<Longrightarrow> \<exists>x \<in> set items. pt_inventoryProductCode x = Some (sg_pricingProductCode s)"
  by (induction t segs items rule: segSpan.induct) (auto dest: in_set_dropD)

lemma numerator_le_total:
  assumes "list_all (segmentOk policy band) segs" "safe_int (dsum (map sg_numeratorMinor segs))" "s \<in> set segs"
  shows "sg_numeratorMinor s \<le> MAX_SAFE_INTEGER"
proof -
  have nn: "\<forall>x \<in> set (map sg_numeratorMinor segs). 0 \<le> x"
    using assms(1) by (auto simp: list_all_iff segmentOk_def intro!: dsum_nonneg)
  then have "sg_numeratorMinor s \<le> sum_list (map sg_numeratorMinor segs)"
    using assms(3) by (intro member_le_sum_list) auto
  with safe_dsum [OF nn] assms(2) show ?thesis by (simp add: safe_int_def)
qed

lemma stayTotal_total:
  assumes "objectThat (stayTotalCashLine None) (cashLineJson (StayTotalCashLine a d u band segs amount))"
    and "CURRENCY_CODE (mo_currency amount)" "0 \<le> mo_minorUnits amount" "mo_minorUnits amount \<le> int32_max"
  shows "pricingCashLineTotalMinor (JArr [cashLineJson (StayTotalCashLine a d u band segs amount)]) (mo_currency amount)
     = Some (mo_minorUnits amount)"
  using assms unfolding pricingCashLineTotalMinor_iff
  by (simp add: cashLinesValue_def isStayTotal_def entryProp_def prop_of_def moneyJson_def amountOf_def num_def)

text \<open>The segments of a priced timeline, as the reader sees them.\<close>

lemma priced_segments:
  assumes priced: "calculateDurationTimelinePricing input = Inr res"
    and plain: "\<not> di_memberCoverage input" "di_coverageCandidates input = []"
  defines "nts \<equiv> di_timeline input"
  obtains t band segs yuan where
    "di_arrivalDate input = toISODate t" "di_departureDate input = toISODate (t + int (length nts))"
    "plainYear t" "plainYear (t + int (length nts))" "nts \<noteq> []" "length nts \<le> 366"
    "map pt_serviceDate nts = map (\<lambda>i. toISODate (t + int i)) [0..<length nts]" "distinct (map pt_serviceDate nts)"
    "isBand band" "segSpan t segs nts" "segs \<noteq> []"
    "\<forall>s \<in> set segs. sg_denominator s = band \<and> 1 \<le> sg_anchorAmountMinor s \<and>
       sg_anchorAmountMinor s = anchorOfCode (di_policy input) band (Some (sg_pricingProductCode s)) \<and>
       sg_numeratorMinor s = sg_nights s * sg_anchorAmountMinor s \<and> sg_numeratorMinor s \<le> MAX_SAFE_INTEGER"
    "0 \<le> yuan" "yuan = ((\<Sum>s \<leftarrow> segs. sg_nights s * sg_anchorAmountMinor s) * 2 + band * 100) div (band * 100 * 2)"
    "pr_cashLines res = [StayTotalCashLine (di_arrivalDate input) (di_departureDate input) (pt_inventoryUnitId (hd nts)) band segs
       \<lparr>mo_currency = pp_currency (di_policy input), mo_minorUnits = yuan * 100\<rparr>]"
    "mo_minorUnits (pr_cashRemainder res) = yuan * 100"
proof -
  from priced plain obtain band segs yuan where
    dates: "enumerateServiceDates (di_arrivalDate input) (di_departureDate input) = Inr (map pt_serviceDate nts)"
    and b: "durationBandAnchorNights (IntNum (int (length nts))) = Inr band"
      "foldR (segmentStep (di_policy input) band) [] nts = Inr segs" "safe_int (dsum (map sg_numeratorMinor segs))"
      "roundPositiveRationalHalfUp (dsum (map sg_numeratorMinor segs)) (band * 100) = Inr yuan" "yuan * 100 \<le> MAX_SAFE_INTEGER"
    and r: "pr_cashLines res = [StayTotalCashLine (di_arrivalDate input) (di_departureDate input) (pt_inventoryUnitId (hd nts)) band segs
        \<lparr>mo_currency = pp_currency (di_policy input), mo_minorUnits = dbl (yuan * 100)\<rparr>]"
      "mo_minorUnits (pr_cashRemainder res) = dbl (yuan * 100)"
    unfolding nts_def by (elim bandPriced) simp_all
  from dates obtain t where t: "di_arrivalDate input = toISODate t" "di_departureDate input = toISODate (t + int (length nts))"
      "plainYear t" "plainYear (t + int (length nts))" "1 \<le> length nts" "length nts \<le> 366"
      "map pt_serviceDate nts = map (\<lambda>i. toISODate (t + int i)) [0..<length nts]"
    by (elim dates_of_enumeration) simp
  note band = durationBand_isBand [OF b(1)]
  have ok: "list_all (segmentOk (di_policy input) band) segs" using segment_fold [OF b(2) _ band] by simp
  note ex = segment_numerators_exact [OF ok b(3)]
  have span: "segSpan t segs nts" using segSpan_fold [OF b(2), of t "[]"] t plainYear_between [OF t(3,4)] by simp
  then have ne: "segs \<noteq> []" "nts \<noteq> []" using t(5) by auto
  have seg: "\<forall>s \<in> set segs. sg_denominator s = band \<and> 1 \<le> sg_anchorAmountMinor s \<and>
      sg_anchorAmountMinor s = anchorOfCode (di_policy input) band (Some (sg_pricingProductCode s)) \<and>
      sg_numeratorMinor s = sg_nights s * sg_anchorAmountMinor s \<and> sg_numeratorMinor s \<le> MAX_SAFE_INTEGER"
  proof
    fix s assume s: "s \<in> set segs"
    then have "segmentOk (di_policy input) band s" using ok by (simp add: list_all_iff)
    then show "sg_denominator s = band \<and> 1 \<le> sg_anchorAmountMinor s \<and>
      sg_anchorAmountMinor s = anchorOfCode (di_policy input) band (Some (sg_pricingProductCode s)) \<and>
      sg_numeratorMinor s = sg_nights s * sg_anchorAmountMinor s \<and> sg_numeratorMinor s \<le> MAX_SAFE_INTEGER"
      using ex(2) s numerator_le_total [OF ok b(3) s] by (simp add: segmentOk_def)
  qed
  have yuan: "0 \<le> yuan" "dbl (yuan * 100) = yuan * 100"
    using roundHalfUp_nonneg [OF b(4)] dbl_yuan [OF _ b(5)] by auto
  have total: "yuan = ((\<Sum>s \<leftarrow> segs. sg_nights s * sg_anchorAmountMinor s) * 2 + band * 100) div (band * 100 * 2)"
    using b(4) ex(1) sum_segmentNights [OF ok] by (auto simp: roundHalfUp_Inr)
  have "distinct (map pt_serviceDate nts)" using enumerateServiceDates_facts [OF dates] by auto
  then show thesis
    by (rule that [OF t(1-4) ne(2) t(6,7) _ band span ne(1) seg yuan(1) total]) (use r yuan(2) in simp_all)
qed

text \<open>
  C36: the stay total that a successful pricing without member coverage writes is accepted by the
  reader of stored cash lines for the same timeline, and the reader's total is the amount charged,
  whenever the identifiers are non-blank and short enough, the anchor amounts and the amount fit a
  PostgreSQL integer and the currency is a currency code.
\<close>

theorem cashLine_agreement:
  assumes priced: "calculateDurationTimelinePricing input = Inr res"
    and plain: "\<not> di_memberCoverage input" "di_coverageCandidates input = []"
    and currency: "CURRENCY_CODE (pp_currency (di_policy input))"
    and ids: "\<forall>x \<in> set (di_timeline input). identifierValue (JStr (pt_inventoryUnitId x)) \<and>
      (\<exists>p. pt_inventoryProductCode x = Some p \<and> identifierValue (JStr p))"
    and anchors: "\<forall>x \<in> set (di_timeline input). \<forall>band \<in> {1, 7, 14, 30}.
      anchorOfCode (di_policy input) band (pt_inventoryProductCode x) \<le> int32_max"
    and fits: "mo_minorUnits (pr_cashRemainder res) \<le> int32_max"
  shows "ordinaryStayCashLineTotalMinor (JArr (map cashLineJson (pr_cashLines res))) (pp_currency (di_policy input))
      (map (\<lambda>x. (pt_serviceDate x, pt_inventoryUnitId x)) (di_timeline input)) = Some (mo_minorUnits (pr_cashRemainder res))"
proof -
  let ?tl = "di_timeline input" and ?m = "map (\<lambda>x. (pt_serviceDate x, pt_inventoryUnitId x)) (di_timeline input)"
  let ?cur = "pp_currency (di_policy input)"
  obtain t band segs yuan where
    t: "di_arrivalDate input = toISODate t" "di_departureDate input = toISODate (t + int (length ?tl))"
      "plainYear t" "plainYear (t + int (length ?tl))" "?tl \<noteq> []" "length ?tl \<le> 366"
      "map pt_serviceDate ?tl = map (\<lambda>i. toISODate (t + int i)) [0..<length ?tl]" "distinct (map pt_serviceDate ?tl)"
    and s: "isBand band" "segSpan t segs ?tl" "segs \<noteq> []"
      "\<forall>s \<in> set segs. sg_denominator s = band \<and> 1 \<le> sg_anchorAmountMinor s \<and>
       sg_anchorAmountMinor s = anchorOfCode (di_policy input) band (Some (sg_pricingProductCode s)) \<and>
       sg_numeratorMinor s = sg_nights s * sg_anchorAmountMinor s \<and> sg_numeratorMinor s \<le> MAX_SAFE_INTEGER"
    and y: "0 \<le> yuan" "yuan = ((\<Sum>s \<leftarrow> segs. sg_nights s * sg_anchorAmountMinor s) * 2 + band * 100) div (band * 100 * 2)"
      "pr_cashLines res = [StayTotalCashLine (di_arrivalDate input) (di_departureDate input) (pt_inventoryUnitId (hd ?tl)) band segs
         \<lparr>mo_currency = ?cur, mo_minorUnits = yuan * 100\<rparr>]"
      "mo_minorUnits (pr_cashRemainder res) = yuan * 100"
    by (rule priced_segments [OF priced plain])
  have anchor: "sg_anchorAmountMinor r \<le> int32_max" if r: "r \<in> set segs" for r
  proof -
    obtain x where "x \<in> set ?tl" "pt_inventoryProductCode x = Some (sg_pricingProductCode r)"
      using segSpan_product [OF s(2) r] by blast
    then show ?thesis using anchors s(1) bspec [OF s(4) r] unfolding isBand_def by (metis insertCI)
  qed
  have day: "pt_serviceDate (?tl ! i) = toISODate (t + int i)" if "i < length ?tl" for i
    using arg_cong [OF t(7), of "\<lambda>l. l ! i"] that by simp
  have lookup: "jmap_get ?m (toISODate (t + int i)) = Some (pt_inventoryUnitId (?tl ! i))" if i: "i < length ?tl" for i
  proof -
    have "(toISODate (t + int i), pt_inventoryUnitId (?tl ! i)) \<in> set ?m" using i day [OF i] by force
    with t(8) show ?thesis by (simp add: jmap_get_def comp_def)
  qed
  have accepted: "objectThat (stayTotalCashLine mo) (cashLineJson (StayTotalCashLine (toISODate t) (toISODate (t + int (length ?tl)))
      (pt_inventoryUnitId (hd ?tl)) band segs \<lparr>mo_currency = ?cur, mo_minorUnits = yuan * 100\<rparr>))"
    if "mo = None \<or> mo = Some ?m" for mo
  proof (rule stayTotal_accepted [OF s(2,3) t(5,3,4,6), where m = ?m])
    show "sg_denominator r = band \<and> 1 \<le> sg_anchorAmountMinor r \<and> sg_anchorAmountMinor r \<le> int32_max \<and>
        sg_numeratorMinor r = sg_nights r * sg_anchorAmountMinor r \<and> sg_numeratorMinor r \<le> MAX_SAFE_INTEGER"
      if "r \<in> set segs" for r
      using bspec [OF s(4) that] anchor [OF that] by blast
  qed (use ids lookup that currency y fits s(1) in auto)
  have "localDateValue (JStr (pt_serviceDate x))" if x: "x \<in> set ?tl" for x
  proof -
    obtain i where "i < length ?tl" "x = ?tl ! i" using x by (metis in_set_conv_nth)
    then show ?thesis using day plainYear_between [OF t(3,4), of "t + int i"] by simp
  qed
  then have "timelineMap [] ?m = Some ?m"
    using timelineMap_distinct [of ?m "[]"] t(8) ids by (auto simp: comp_def)
  moreover have "isStayTotal (cashLineJson (StayTotalCashLine a d u n ss am))" for a d u n ss am
    by (simp add: isStayTotal_def entryProp_def prop_of_def)
  ultimately show ?thesis
    using accepted [of "Some ?m"] stayTotal_total [OF accepted [of None]] currency fits y t(1,2,5)
    by (simp add: ordinaryStayCashLineTotalMinor_def Let_def)
qed

lemma twoNights_amount:
  "case calculateDurationTimelinePricing twoNights of Inr r \<Rightarrow> mo_minorUnits (pr_cashRemainder r) = 25600 | Inl e \<Rightarrow> False"
  by code_simp

theorem cashLine_agreement_witness:
  "\<exists>res. calculateDurationTimelinePricing twoNights = Inr res \<and>
     ordinaryStayCashLineTotalMinor (JArr (map cashLineJson (pr_cashLines res))) ''CNY''
       [(''2026-07-01'', ''A''), (''2026-07-02'', ''A'')] = Some 25600"
proof -
  from twoNights_amount obtain res where res: "calculateDurationTimelinePricing twoNights = Inr res"
    "mo_minorUnits (pr_cashRemainder res) = 25600" by (auto split: sum.splits)
  have ids: "identifierValue (JStr ''A'')" "identifierValue (JStr ''R1'')" "CURRENCY_CODE ''CNY''" by code_simp+
  have "ordinaryStayCashLineTotalMinor (JArr (map cashLineJson (pr_cashLines res))) (pp_currency (di_policy twoNights))
      (map (\<lambda>x. (pt_serviceDate x, pt_inventoryUnitId x)) (di_timeline twoNights)) = Some (mo_minorUnits (pr_cashRemainder res))"
    by (rule cashLine_agreement [OF res(1)])
      (use ids res(2) in \<open>auto simp: twoNights_def timelineInput_def exampleInput_def examplePolicy_def anchorOfCode_def
        anchorsOf_def anchorAt_def\<close>)
  then show ?thesis using res by (auto simp: twoNights_def timelineInput_def exampleInput_def examplePolicy_def)
qed

end
