(* ===== verification/Permissions.thy ===== *)
theory Permissions
  imports Prelude
begin

text \<open>
  Who may run which command: the command catalogue and release switches of
  \<^verbatim>\<open>packages/contracts/src/index.ts\<close>, the grants and evaluateCommandAuthorization of
  \<^verbatim>\<open>packages/domain/src/command-permissions.ts\<close>, and the access levels of
  \<^verbatim>\<open>packages/domain/src/security.ts\<close>. Command types are their names; a JavaScript set of commands is
  the list of its elements. Password hashing (scrypt of node:crypto) is not modelled.
\<close>

section \<open>The catalogue\<close>

datatype access_level = READ | WRITE

definition accessAllows :: "access_level \<Rightarrow> access_level \<Rightarrow> bool" where
  "accessAllows actual required \<longleftrightarrow> actual = WRITE \<or> required = READ"

definition narrowAccess :: "access_level \<Rightarrow> access_level \<Rightarrow> access_level" where
  "narrowAccess subjectAccess tokenCeiling = (if subjectAccess = READ \<or> tokenCeiling = READ then READ else WRITE)"

record release_features =
  cleaningWorkflow :: bool
  stayBackfillSubmission :: bool
  completedStayBackfillCreation :: bool
  historicalStayArrangementCorrection :: bool
  memberProfileCorrection :: bool
  membershipEffectiveDateCorrection :: bool
  historicalMembershipBackfill :: bool
  membershipConversionVoidCorrection :: bool

definition currentReleaseFeatures :: release_features where
  "currentReleaseFeatures = \<lparr>cleaningWorkflow = False, stayBackfillSubmission = False,
     completedStayBackfillCreation = True, historicalStayArrangementCorrection = True, memberProfileCorrection = True,
     membershipEffectiveDateCorrection = True, historicalMembershipBackfill = True, membershipConversionVoidCorrection = True\<rparr>"

definition commandTypes :: "string list" where
  "commandTypes =
    [''MANAGE_ROOM_CATALOG'', ''CREATE_MEMBER'', ''CREATE_MEMBERSHIP_ORDER'', ''RECORD_MEMBERSHIP_PAYMENT'',
     ''CORRECT_MEMBERSHIP_PAYMENT'', ''ACTIVATE_MEMBERSHIP_ORDER'', ''CANCEL_MEMBERSHIP_ORDER'', ''CREATE_ORDER'',
     ''CORRECT_ORDER_OCCUPANT'', ''MANAGE_ORDER_OCCUPANTS'', ''CORRECT_HISTORICAL_STAY_ARRANGEMENTS'', ''CORRECT_MEMBER_PROFILE'',
     ''CORRECT_MEMBERSHIP_EFFECTIVE_DATE'', ''BACKFILL_HISTORICAL_MEMBERSHIP'', ''VOID_ERRONEOUS_MEMBERSHIP_AND_RECONVERT_STAY'', ''RESCHEDULE_STAY'',
     ''EXTEND_STAY'', ''SHORTEN_STAY'', ''MOVE_UNIT'', ''REPRICE_ORDER'',
     ''CANCEL_ORDER'', ''MARK_NO_SHOW'', ''REVOKE_CHECK_IN'', ''LOCK_MAINTENANCE'',
     ''RELEASE_MAINTENANCE'', ''COMPLETE_CLEANING'', ''RECORD_COLLECTION'', ''RECORD_REFUND'',
     ''REVERSE_FACT'', ''RETAIN_ORDER_FUNDS'', ''APPLY_RETAINED_FUNDS'', ''RELEASE_RETAINED_FUNDS'',
     ''REFUND_RETAINED_FUNDS'', ''CONVERT_STAY_COLLECTIONS_TO_MEMBERSHIP'', ''CHECK_IN'', ''CHECK_OUT'',
     ''REVOKE_CHECK_OUT'', ''COMPLETE_STAY'', ''REFRESH_MEMBER_COVERAGE'', ''ADD_MEMBER_ENTITLEMENT_LOT'',
     ''ADJUST_MEMBER_ENTITLEMENT'', ''CORRECT_MEMBER_ENTITLEMENT_BALANCE'', ''EXPIRE_MEMBER_ENTITLEMENT'', ''ISSUE_TOKEN'',
     ''ROTATE_TOKEN'', ''REVOKE_TOKEN'']"

definition directCommandTypes :: "string list" where "directCommandTypes = [''CREATE_QUOTE'']"

definition futureAdministratorCommandTypes :: "string list" where "futureAdministratorCommandTypes = []"

definition recoverableCommandTypes :: "string list" where
  "recoverableCommandTypes = directCommandTypes @ commandTypes"

definition historicalRecoverableCommandTypes :: "string list" where
  "historicalRecoverableCommandTypes =
     recoverableCommandTypes @ [''PLACE_INTERNAL_USE'', ''RELEASE_INTERNAL_USE'', ''BACKFILL_COMPLETED_STAY'']"

definition commandCatalogTypes :: "string list" where
  "commandCatalogTypes = directCommandTypes @ commandTypes @ futureAdministratorCommandTypes
     @ [''PLACE_INTERNAL_USE'', ''RELEASE_INTERNAL_USE'', ''BACKFILL_COMPLETED_STAY'']"

section \<open>Grants\<close>

definition ordinaryStaffCommandGrants :: "string list" where
  "ordinaryStaffCommandGrants =
    [''CREATE_MEMBER'', ''CREATE_MEMBERSHIP_ORDER'', ''RECORD_MEMBERSHIP_PAYMENT'', ''CORRECT_MEMBERSHIP_PAYMENT'',
     ''ACTIVATE_MEMBERSHIP_ORDER'', ''CANCEL_MEMBERSHIP_ORDER'', ''CREATE_ORDER'', ''MANAGE_ORDER_OCCUPANTS'',
     ''RESCHEDULE_STAY'', ''EXTEND_STAY'', ''SHORTEN_STAY'', ''MOVE_UNIT'',
     ''REPRICE_ORDER'', ''CANCEL_ORDER'', ''MARK_NO_SHOW'', ''REVOKE_CHECK_IN'',
     ''LOCK_MAINTENANCE'', ''RELEASE_MAINTENANCE'', ''RECORD_COLLECTION'', ''RECORD_REFUND'',
     ''REVERSE_FACT'', ''RETAIN_ORDER_FUNDS'', ''APPLY_RETAINED_FUNDS'', ''RELEASE_RETAINED_FUNDS'',
     ''REFUND_RETAINED_FUNDS'', ''CONVERT_STAY_COLLECTIONS_TO_MEMBERSHIP'', ''CHECK_IN'', ''CHECK_OUT'',
     ''COMPLETE_STAY'', ''CORRECT_MEMBER_ENTITLEMENT_BALANCE'']"

definition administratorCommandGrants :: "string list" where
  "administratorCommandGrants = ordinaryStaffCommandGrants @
    [''MANAGE_ROOM_CATALOG'', ''REVOKE_CHECK_OUT'', ''CORRECT_ORDER_OCCUPANT'', ''CORRECT_HISTORICAL_STAY_ARRANGEMENTS'',
     ''CORRECT_MEMBER_PROFILE'', ''CORRECT_MEMBERSHIP_EFFECTIVE_DATE'', ''BACKFILL_HISTORICAL_MEMBERSHIP'', ''VOID_ERRONEOUS_MEMBERSHIP_AND_RECONVERT_STAY'',
     ''COMPLETE_CLEANING'', ''ISSUE_TOKEN'', ''ROTATE_TOKEN'', ''REVOKE_TOKEN'']"

definition systemDerivedCommandTypes :: "string list" where
  "systemDerivedCommandTypes =
    [''REFRESH_MEMBER_COVERAGE'', ''ADD_MEMBER_ENTITLEMENT_LOT'', ''ADJUST_MEMBER_ENTITLEMENT'', ''EXPIRE_MEMBER_ENTITLEMENT'']"

definition humanGrantableCommandTypes :: "string list" where
  "humanGrantableCommandTypes = administratorCommandGrants"

definition commandFeatureEnabled :: "string \<Rightarrow> bool" where
  "commandFeatureEnabled commandType =
     (if commandType = ''COMPLETE_CLEANING'' then cleaningWorkflow currentReleaseFeatures
      else if commandType = ''CORRECT_HISTORICAL_STAY_ARRANGEMENTS''
        then historicalStayArrangementCorrection currentReleaseFeatures
      else if commandType = ''CORRECT_MEMBER_PROFILE'' then memberProfileCorrection currentReleaseFeatures
      else if commandType = ''CORRECT_MEMBERSHIP_EFFECTIVE_DATE'' then membershipEffectiveDateCorrection currentReleaseFeatures
      else if commandType = ''BACKFILL_HISTORICAL_MEMBERSHIP'' then historicalMembershipBackfill currentReleaseFeatures
      else if commandType = ''VOID_ERRONEOUS_MEMBERSHIP_AND_RECONVERT_STAY''
        then membershipConversionVoidCorrection currentReleaseFeatures
      else True)"

definition enabledAdministratorCommandGrants :: "string list" where
  "enabledAdministratorCommandGrants = filter commandFeatureEnabled administratorCommandGrants"

definition enabledAdministratorTokenCommandGrants :: "string list" where
  "enabledAdministratorTokenCommandGrants = filter (\<lambda>c. c \<noteq> ''MANAGE_ROOM_CATALOG'') enabledAdministratorCommandGrants"

definition isHumanGrantableCommandCapability :: "string \<Rightarrow> bool" where
  "isHumanGrantableCommandCapability commandType \<longleftrightarrow> commandType \<in> set humanGrantableCommandTypes"

section \<open>Evaluation\<close>

datatype denial_reason =
    SUBJECT_DISABLED_REASON | PROPERTY_WRITE_REQUIRED | SUBJECT_COMMAND_GRANT_MISSING
  | TOKEN_COMMAND_CEILING_MISSING | FEATURE_DISABLED

datatype subject_status = ACTIVE | DISABLED

datatype credential_type = SESSION | TOKEN

record authorization_input =
  ai_commandType :: string
  ai_subjectStatus :: subject_status
  ai_propertyAccess :: "access_level option"
  ai_subjectCommandGrants :: "string list"
  ai_credentialType :: credential_type
  ai_tokenCommandCeiling :: "string list option"
  ai_featureEnabled :: "bool option"

definition asSet :: "string list option \<Rightarrow> string list" where
  "asSet values = (case values of None \<Rightarrow> [] | Some vs \<Rightarrow> vs)"

text \<open>Allowed is None, a denial carries its reason.\<close>

definition evaluateCommandAuthorization :: "authorization_input \<Rightarrow> denial_reason option" where
  "evaluateCommandAuthorization options =
     (if ai_subjectStatus options \<noteq> ACTIVE then Some SUBJECT_DISABLED_REASON
      else if ai_propertyAccess options \<noteq> Some WRITE then Some PROPERTY_WRITE_REQUIRED
      else if \<not> isHumanGrantableCommandCapability (ai_commandType options)
           \<or> ai_commandType options \<notin> set (ai_subjectCommandGrants options) then Some SUBJECT_COMMAND_GRANT_MISSING
      else if ai_credentialType options = TOKEN \<and> (ai_commandType options = ''MANAGE_ROOM_CATALOG''
           \<or> ai_commandType options \<notin> set (asSet (ai_tokenCommandCeiling options))) then Some TOKEN_COMMAND_CEILING_MISSING
      else if \<not> (case ai_featureEnabled options of Some b \<Rightarrow> b | None \<Rightarrow> commandFeatureEnabled (ai_commandType options))
        then Some FEATURE_DISABLED
      else None)"

section \<open>Properties\<close>

lemma grantable_distinct: "distinct (humanGrantableCommandTypes @ systemDerivedCommandTypes)"
  by (simp add: humanGrantableCommandTypes_def administratorCommandGrants_def ordinaryStaffCommandGrants_def
      systemDerivedCommandTypes_def)

lemma commandTypes_partition: "set commandTypes = set humanGrantableCommandTypes \<union> set systemDerivedCommandTypes"
  by code_simp

definition allowedCommands :: "authorization_input \<Rightarrow> string set" where
  "allowedCommands options = {c. evaluateCommandAuthorization (options\<lparr>ai_commandType := c\<rparr>) = None}"

lemma allowedCommands_eq:
  "allowedCommands options =
    (if ai_subjectStatus options = ACTIVE \<and> ai_propertyAccess options = Some WRITE then
       {c \<in> set humanGrantableCommandTypes \<inter> set (ai_subjectCommandGrants options).
          (ai_credentialType options = TOKEN \<longrightarrow> c \<noteq> ''MANAGE_ROOM_CATALOG'' \<and> c \<in> set (asSet (ai_tokenCommandCeiling options))) \<and>
          (case ai_featureEnabled options of Some b \<Rightarrow> b | None \<Rightarrow> commandFeatureEnabled c)}
     else {})"
  by (cases "ai_featureEnabled options")
    (auto simp: allowedCommands_def evaluateCommandAuthorization_def isHumanGrantableCommandCapability_def split: if_splits)

text \<open>
  C16: the commands a credential may run. A subject without an active status or write access runs
  nothing; a session runs exactly the enabled grantable commands among its grants; a token runs
  exactly what the subject's session would run, intersected with the token's ceiling, without the
  management of the room catalogue. The system's own commands are never among them.
\<close>

theorem allowedCommands_narrowing:
  "allowedCommands (options\<lparr>ai_credentialType := SESSION, ai_featureEnabled := None\<rparr>)
     = (if ai_subjectStatus options = ACTIVE \<and> ai_propertyAccess options = Some WRITE
        then set enabledAdministratorCommandGrants \<inter> set (ai_subjectCommandGrants options) else {}) \<and>
   allowedCommands options \<subseteq> (if ai_subjectStatus options = ACTIVE \<and> ai_propertyAccess options = Some WRITE
     then set (ai_subjectCommandGrants options) else {}) \<and>
   allowedCommands (options\<lparr>ai_credentialType := TOKEN\<rparr>) =
     allowedCommands (options\<lparr>ai_credentialType := SESSION\<rparr>) \<inter> set (asSet (ai_tokenCommandCeiling options)) - {''MANAGE_ROOM_CATALOG''} \<and>
   allowedCommands options \<inter> set systemDerivedCommandTypes = {} \<and> allowedCommands options \<subseteq> set commandTypes"
proof -
  have sub: "allowedCommands options \<subseteq> set humanGrantableCommandTypes" by (auto simp: allowedCommands_eq)
  have "set humanGrantableCommandTypes \<inter> set systemDerivedCommandTypes = {}" using grantable_distinct by simp
  with sub have none: "allowedCommands options \<inter> set systemDerivedCommandTypes = {}" by blast
  have "allowedCommands options \<subseteq> set commandTypes" using sub commandTypes_partition by blast
  with none show ?thesis
    by (auto simp: allowedCommands_eq enabledAdministratorCommandGrants_def humanGrantableCommandTypes_def)
qed

end
