(* ===== verification/CommandStore.thy ===== *)
theory CommandStore
  imports HistoricalProtocol Permissions
begin

text \<open>
  The tables of the command protocol (command_previews, command_executions, command_receipts,
  audit_entries, security_audit_entries) and the reading functions of
  \<^verbatim>\<open>packages/db/src/commands/service.ts\<close>: receiptByCommand with its projections, replayOrConflict,
  the token ceilings and the guards shared by the command endpoints. The business tables are a value
  of the type variable \<open>'b\<close>; the functions of other modules that read or write them are fields of the
  record \<open>command_env\<close>. Times are milliseconds. The text of an error message is not modelled; an
  error that is stored carries its code, retryable flag and identifiers.
\<close>

section \<open>Failures\<close>

record auth_principal =
  ap_subjectId :: string
  ap_credentialId :: string
  ap_credentialType :: credential_type

datatype authorization_stage =
  STAGE_PREVIEW | STAGE_CONFIRM | STORED_PREVIEW | STAGE_RECEIPT | STAGE_COMMAND | FIND | RESOLVE | REPLAY

text \<open>A CommandAuthorizationError: the DomainError with the context of the security audit.\<close>

record denial =
  dn_error :: domain_error
  dn_reason :: string
  dn_principal :: auth_principal
  dn_propertyId :: string
  dn_commandType :: string
  dn_stage :: authorization_stage
  dn_idempotencyKey :: "string option"
  dn_correlationId :: "string option"

text \<open>
  The failures a confirmation distinguishes: the two subclasses of DomainError declared in service.ts,
  the authorization error, and any other failure.
\<close>

datatype command_failure = Failed failure | AuthorizationDenied denial | IdentityMismatch | HistoricalReadOnly

type_synonym 'a command_result = "command_failure + 'a"

fun domainErrorOf :: "command_failure \<Rightarrow> domain_error option" where
  "domainErrorOf (Failed (Raised e)) = Some e"
| "domainErrorOf (Failed Uncaught) = None"
| "domainErrorOf (AuthorizationDenied d) = Some (dn_error d)"
| "domainErrorOf IdentityMismatch = Some (DomainError CONFIRMATION_MISMATCH 409 False)"
| "domainErrorOf HistoricalReadOnly = Some (DomainError PREVIEW_STALE 409 False)"

abbreviation failWith :: "error_code \<Rightarrow> nat \<Rightarrow> 'a command_result" where
  "failWith c s \<equiv> Inl (Failed (Raised (DomainError c s False)))"

abbreviation crash :: "'a command_result" where
  "crash \<equiv> Inl (Failed Uncaught)"

definition liftR :: "'a result \<Rightarrow> 'a command_result" where
  "liftR r = (case r of Inl e \<Rightarrow> Inl (Failed e) | Inr x \<Rightarrow> Inr x)"

lemma liftR_Inr [simp]: "liftR r = Inr x \<longleftrightarrow> r = Inr x"
  by (cases r) (auto simp: liftR_def)

section \<open>Tables\<close>

datatype execution_state = EXECUTING | APPLIED | REJECTED

datatype preview_status = OPEN | USED | EXPIRED

datatype execution_status = EXECUTED | NOT_EXECUTED | UNKNOWN

record execution_row =
  ex_id :: string
  ex_subjectId :: string
  ex_credentialId :: string
  ex_propertyId :: string
  ex_commandType :: string
  ex_idempotencyKey :: string
  ex_requestHash :: string
  ex_correlationId :: string
  ex_state :: execution_state

record preview_row =
  pv_id :: string
  pv_subjectId :: string
  pv_propertyId :: string
  pv_commandType :: string
  pv_normalizedInput :: json
  pv_inputHash :: string
  pv_effect :: json
  pv_effectHash :: string
  pv_basisVersions :: json
  pv_expiresAt :: int
  pv_status :: preview_status
  pv_createdAt :: int

record error_dto =
  er_code :: error_code
  er_correlationId :: string
  er_retryable :: bool
  er_commandId :: string
  er_receiptId :: string

record receipt_row =
  rc_id :: string
  rc_commandId :: string
  rc_executionStatus :: execution_status
  rc_businessCommitted :: bool
  rc_result :: json
  rc_error :: "error_dto option"
  rc_resourceRefs :: json
  rc_factRefs :: json
  rc_committedAt :: int
  rc_createdAt :: int

record command_reason =
  rs_code :: "string option"
  rs_note :: "string option"

record audit_row =
  au_id :: string
  au_subjectId :: string
  au_credentialId :: string
  au_action :: string
  au_allowed :: bool
  au_commandId :: string
  au_correlationId :: string
  au_reason :: "command_reason option"
  au_targetRefs :: json
  au_metadata :: json

record security_audit_row =
  sa_propertyId :: string
  sa_subjectId :: string
  sa_commandType :: string
  sa_stage :: authorization_stage
  sa_denialReason :: string
  sa_credentialType :: credential_type
  sa_credentialFingerprint :: string
  sa_correlationId :: string
  sa_idempotencyKeyHash :: string

record 'b command_store =
  t_executions :: "execution_row list"
  t_previews :: "preview_row list"
  t_receipts :: "receipt_row list"
  t_audit :: "audit_row list"
  t_securityAudit :: "security_audit_row list"
  business :: 'b

section \<open>The functions of other modules\<close>

datatype token_lifecycle_constraint =
    IssueToken (tl_subjectId: json) (tl_accessCeiling: json) (tl_commandCeiling: json) (tl_expiresAt: json)
  | RotateToken (tl_tokenId: json) (tl_commandCeiling: json) (tl_expiresAt: json)
  | RevokeToken (tl_tokenId: json)

datatype authorization_mode = EXECUTE | READ_MODE

record authorization_options =
  ao_propertyId :: string
  ao_commandType :: string
  ao_stage :: authorization_stage
  ao_idempotencyKey :: "string option"
  ao_correlationId :: "string option"
  ao_mode :: authorization_mode
  ao_tokenLifecycleConstraint :: "token_lifecycle_constraint option"

record built_effect =
  be_propertyId :: string
  be_effect :: json_object
  be_effectHash :: string
  be_basisVersions :: json

record applied_command =
  ac_persistedResult :: json_object
  ac_resourceRefs :: "string list"
  ac_factRefs :: "string list"

record 'b command_env =
  digest :: "string \<Rightarrow> string"
  localeLe :: "string \<Rightarrow> string \<Rightarrow> bool"
  dateParse :: "string \<Rightarrow> int option"
  authorizeCommandAccess :: "'b \<Rightarrow> auth_principal \<Rightarrow> authorization_options \<Rightarrow> unit command_result"
  effectiveSubjectCommandGrants :: "'b \<Rightarrow> auth_principal \<Rightarrow> string \<Rightarrow> string list"
  callerTokenExpiry :: "'b \<Rightarrow> auth_principal \<Rightarrow> int option"
  migrationAppliedAt :: "'b \<Rightarrow> string \<Rightarrow> int option"
  normalizeMemberCorrectionInput :: "string \<Rightarrow> json_object \<Rightarrow> json_object result"
  normalizeArrangementCorrectionInput :: "json_object \<Rightarrow> json_object result"
  buildCommandEffect :: "'b \<Rightarrow> string \<Rightarrow> json \<Rightarrow> bool \<Rightarrow> built_effect command_result"
  lockCommandResources :: "'b \<Rightarrow> string \<Rightarrow> json \<Rightarrow> 'b result"
  applyCommand :: "'b \<Rightarrow> string \<Rightarrow> json \<Rightarrow> json_object \<Rightarrow> command_reason \<Rightarrow> string \<Rightarrow> string \<Rightarrow> (applied_command \<times> 'b) result"
  bindExternalPayments :: "'b \<Rightarrow> string \<Rightarrow> json \<Rightarrow> 'b result"
  bindPersistedEffectHash :: "'b \<Rightarrow> string \<Rightarrow> string \<Rightarrow> json_object \<Rightarrow> string \<Rightarrow> string result"
  bumpRoomStatusRevision :: "'b \<Rightarrow> string \<Rightarrow> 'b result"
  conversionLedger :: "'b \<Rightarrow> string \<Rightarrow> (string \<times> string option) list"
  temporaryOtherRoomEvidence :: "'b \<Rightarrow> string \<Rightarrow> json_object \<Rightarrow> unit result"
  quoteReceiptEvidence :: "'b \<Rightarrow> json_object \<Rightarrow> unit result"
  projectCommandEffectForRead :: "string \<Rightarrow> json_object \<Rightarrow> json"
  projectPrimaryGuestForRead :: "json \<Rightarrow> json"
  projectQuoteForExternalRead :: "json \<Rightarrow> json"
  createQuoteInTransaction :: "'b \<Rightarrow> json_object \<Rightarrow> string \<Rightarrow> (json \<times> string \<times> string \<times> 'b) result"

definition hashOf :: "('b, 'e) command_env_scheme \<Rightarrow> json \<Rightarrow> string" where
  "hashOf env v = digest env (stableJson (localeLe env) v)"

section \<open>Stored values\<close>

definition asStringArray :: "json \<Rightarrow> string list" where
  "asStringArray value = (case asArray value of None \<Rightarrow> [] | Some vs \<Rightarrow> List.map_filter strOf vs)"

definition strictStoredStringArray :: "json \<Rightarrow> string list result" where
  "strictStoredStringArray value =
     (case asArray value of None \<Rightarrow> uncaught
      | Some vs \<Rightarrow>
        if list_ex (\<lambda>entry. case strOf entry of None \<Rightarrow> True | Some s \<Rightarrow> trim s = []) vs \<or> \<not> distinct vs then uncaught
        else Inr (map str vs))"

definition sameStringSet :: "string list \<Rightarrow> string list \<Rightarrow> bool" where
  "sameStringSet left right \<longleftrightarrow> length left = length right \<and> sortBy (\<le>) left = sortBy (\<le>) right"

definition projectStayMembershipConversionResultEvidenceForRead ::
  "json_object \<Rightarrow> (string \<times> string option) list \<Rightarrow> json_object result" where
  "projectStayMembershipConversionResultEvidenceForRead result ledger =
     bindR (strictStoredStringArray (prop_of result ''conversionLedgerFactIds'')) (\<lambda>ledgerFactIds.
     bindR (strictStoredStringArray (prop_of result ''conversionCoverageIds'')) (\<lambda>coverageIds.
     case intOfJson (prop_of result ''convertedUnits'') of
       None \<Rightarrow> uncaught
     | Some convertedUnits \<Rightarrow>
       if \<not> safe_int convertedUnits \<or> convertedUnits < 1 then uncaught
       else if int (length ledger) \<noteq> convertedUnits \<or> \<not> sameStringSet (map fst ledger) ledgerFactIds then uncaught
       else
         let nonNullCoverageIds = List.map_filter snd ledger;
             conversionMode = (if length nonNullCoverageIds = length ledger then Some ''IN_HOUSE''
                               else if nonNullCoverageIds = [] then Some ''COMPLETED'' else None) in
         case conversionMode of None \<Rightarrow> uncaught
         | Some mode \<Rightarrow>
           if \<not> sameStringSet nonNullCoverageIds coverageIds then uncaught
           else if hasOwn result ''conversionMode'' \<and> prop_of result ''conversionMode'' \<noteq> JStr mode then uncaught
           else Inr (if hasOwn result ''conversionMode'' then result else jmap_set ''conversionMode'' (JStr mode) result)))"

definition projectStayMembershipConversionResultForRead ::
  "('b, 'e) command_env_scheme \<Rightarrow> 'b \<Rightarrow> string \<Rightarrow> json_object \<Rightarrow> json_object result" where
  "projectStayMembershipConversionResultForRead env b commandId result =
     projectStayMembershipConversionResultEvidenceForRead result (conversionLedger env b commandId)"

definition historicalProtocolEpoch ::
  "('b, 'e) command_env_scheme \<Rightarrow> 'b \<Rightarrow> historical_protocol_version \<Rightarrow> int result" where
  "historicalProtocolEpoch env b version =
     (case migrationAppliedAt env b (historicalProtocolEpochMigration version) of
        None \<Rightarrow> throw INTERNAL_ERROR 500 | Some applied \<Rightarrow> Inr applied)"

definition assertHistoricalReadPredatesProtocolEpoch ::
  "('b, 'e) command_env_scheme \<Rightarrow> 'b \<Rightarrow> historical_protocol_version \<Rightarrow> int \<Rightarrow> unit result" where
  "assertHistoricalReadPredatesProtocolEpoch env b version createdAt =
     bindR (historicalProtocolEpoch env b version) (\<lambda>epoch.
       if createdAt \<ge> epoch then throw INTERNAL_ERROR 500 else Inr ())"

section \<open>Masks and projections of a receipt\<close>

definition maskIdentityCardNumber :: "string \<Rightarrow> string" where
  "maskIdentityCardNumber value =
     (if length value \<le> 4 then ''****''
      else replicate (max 4 (length value - 4)) (CHR ''*'') @ drop (length value - 4) value)"

definition maskPhone :: "string \<Rightarrow> string" where
  "maskPhone value =
     (if length value \<le> 7 then ''****'' else take 3 value @ ''****'' @ drop (length value - 4) value)"

definition maskWechat :: "string \<Rightarrow> string" where
  "maskWechat value =
     (if length value \<le> 3 then ''***'' else [hd value] @ ''***'' @ drop (length value - 2) value)"

definition projectProfile :: "json \<Rightarrow> json" where
  "projectProfile value =
     (case asObject value of None \<Rightarrow> JNull
      | Some profile \<Rightarrow>
        let mask = (\<lambda>k f d. case strOf (prop_of profile k) of Some s \<Rightarrow> JStr (f s) | None \<Rightarrow> d) in
        JObj (spread profile [(''identityCardNumber'', mask ''identityCardNumber'' maskIdentityCardNumber JNull),
          (''phone'', mask ''phone'' maskPhone (JStr ''****'')), (''wechat'', mask ''wechat'' maskWechat (JStr ''***''))]))"

definition ownOrNull :: "json_object \<Rightarrow> string \<Rightarrow> json" where
  "ownOrNull result k = (if hasOwn result k then prop_of result k else JNull)"

definition projectReceiptResultForRead ::
  "('b, 'e) command_env_scheme \<Rightarrow> string \<Rightarrow> json_object \<Rightarrow> historical_protocol_version option \<Rightarrow> json_object" where
  "projectReceiptResultForRead env commandType result protocolVersion =
     (if startsWith commandType ''PREVIEW:'' then
        (case asObject (prop_of result ''preview'') of None \<Rightarrow> result
         | Some preview \<Rightarrow> (case asObject (prop_of preview ''effect'') of None \<Rightarrow> result
           | Some effect \<Rightarrow> jmap_set ''preview'' (JObj (jmap_set ''effect''
               (projectCommandEffectForRead env (drop 8 commandType) effect) preview)) result))
      else if commandType = ''CREATE_ORDER'' then
        spread result ([(''primaryGuest'', if hasOwn result ''primaryGuest''
            then projectPrimaryGuestForRead env (prop_of result ''primaryGuest'') else JNull)]
          @ (if hasOwn result ''occupants'' then [(''occupants'', prop_of result ''occupants'')] else [])
          @ [(''bookingChannelCode'', ownOrNull result ''bookingChannelCode''),
             (''channelOrderReference'', ownOrNull result ''channelOrderReference''),
             (''freeStayReason'', ownOrNull result ''freeStayReason''),
             (''freeStayCategoryCode'', ownOrNull result ''freeStayCategoryCode'')])
      else if commandType = ''CREATE_QUOTE'' then
        (case asObject (prop_of result ''quote'') of None \<Rightarrow> result
         | Some quote \<Rightarrow> jmap_set ''quote'' (projectQuoteForExternalRead env (JObj quote)) result)
      else if commandType = ''CORRECT_MEMBER_PROFILE'' then
        spread result [(''before'', projectProfile (prop_of result ''before'')), (''after'', projectProfile (prop_of result ''after''))]
      else if commandType = ''RECORD_COLLECTION'' \<or> commandType = ''RECORD_REFUND'' \<or> commandType = ''REVERSE_FACT'' then
        (if prop_of result ''operation'' = JStr ''RECONCILE_WECOM_REFUNDS'' then result
         else jmap_set ''transactionReference'' (ownOrNull result ''transactionReference'') result)
      else if commandType = ''CONVERT_STAY_COLLECTIONS_TO_MEMBERSHIP''
        \<and> protocolVersion = Some PRE_INHOUSE_MEMBERSHIP_FULFILLMENT \<and> \<not> hasOwn result ''conversionCoverageIds'' then
        spread result [(''conversionMode'', JStr ''COMPLETED''), (''conversionCoverageIds'', JArr [])]
      else result)"

record receipt_dto =
  rd_receiptId :: string
  rd_commandId :: string
  rd_commandType :: string
  rd_executionStatus :: execution_status
  rd_businessCommitted :: bool
  rd_correlationId :: string
  rd_result :: "json_object option"
  rd_error :: "error_dto option"
  rd_resourceRefs :: "string list"
  rd_factRefs :: "string list"
  rd_committedAt :: int
  rd_protocolVersion :: "historical_protocol_version option"

definition receiptDto :: "receipt_row \<Rightarrow> execution_row \<Rightarrow> json_object option \<Rightarrow> receipt_dto" where
  "receiptDto row ex result =
     \<lparr>rd_receiptId = rc_id row, rd_commandId = rc_commandId row, rd_commandType = ex_commandType ex,
      rd_executionStatus = rc_executionStatus row, rd_businessCommitted = rc_businessCommitted row,
      rd_correlationId = ex_correlationId ex, rd_result = result, rd_error = rc_error row,
      rd_resourceRefs = asStringArray (rc_resourceRefs row), rd_factRefs = asStringArray (rc_factRefs row),
      rd_committedAt = rc_committedAt row, rd_protocolVersion = None\<rparr>"

text \<open>The result of a receipt as it is read: projected, and checked against the evidence behind it.\<close>

definition readResult ::
  "('b, 'e) command_env_scheme \<Rightarrow> 'b \<Rightarrow> bool \<Rightarrow> receipt_row \<Rightarrow> execution_row \<Rightarrow> json_object
     \<Rightarrow> (json_object \<times> historical_protocol_version option) result" where
  "readResult env b historicalRead row ex stored =
     (let commandType = ex_commandType ex; result = projectReceiptResultForRead env commandType stored None;
          conversion = commandType = ''CONVERT_STAY_COLLECTIONS_TO_MEMBERSHIP'' in
      bindR (if historicalRead \<and> conversion \<and> \<not> hasOwn result ''conversionCoverageIds''
             then bindR (assertHistoricalReadPredatesProtocolEpoch env b PRE_INHOUSE_MEMBERSHIP_FULFILLMENT (rc_createdAt row))
               (\<lambda>_. Inr (projectReceiptResultForRead env commandType result (Some PRE_INHOUSE_MEMBERSHIP_FULFILLMENT),
                         Some PRE_INHOUSE_MEMBERSHIP_FULFILLMENT))
             else Inr (result, None)) (\<lambda>(result, historicalConversion).
      bindR (if conversion then projectStayMembershipConversionResultForRead env b (rc_commandId row) result else Inr result)
        (\<lambda>result.
      bindR (temporaryOtherRoomEvidence env b commandType result) (\<lambda>_.
      bindR (if commandType = ''CREATE_QUOTE'' then quoteReceiptEvidence env b result else Inr ()) (\<lambda>_.
        Inr (result, historicalConversion))))))"

definition receiptByCommand ::
  "('b, 'e) command_env_scheme \<Rightarrow> ('b, 'f) command_store_scheme \<Rightarrow> string \<Rightarrow> bool \<Rightarrow> receipt_dto option result" where
  "receiptByCommand env st commandId historicalRead =
     (case find (\<lambda>r. rc_commandId r = commandId) (t_receipts st) of None \<Rightarrow> Inr None
      | Some row \<Rightarrow> (case find (\<lambda>e. ex_id e = commandId) (t_executions st) of None \<Rightarrow> Inr None
        | Some ex \<Rightarrow> (case asObject (rc_result row) of
            None \<Rightarrow> Inr (Some (receiptDto row ex None))
          | Some stored \<Rightarrow>
            bindR (readResult env (business st) historicalRead row ex stored) (\<lambda>(result, historicalConversion).
            let receipt = receiptDto row ex (Some result) in
            if \<not> historicalRead then Inr (Some receipt)
            else case historicalConversion of Some v \<Rightarrow> Inr (Some (receipt\<lparr>rd_protocolVersion := Some v\<rparr>))
            | None \<Rightarrow> (case legacyReceiptProtocol (\<lambda>s. dateParse env s \<noteq> None) (ex_commandType ex) (JObj result) of
                None \<Rightarrow> Inr (Some receipt)
              | Some v \<Rightarrow> bindR (assertHistoricalReadPredatesProtocolEpoch env (business st) v (rc_createdAt row))
                  (\<lambda>_. Inr (Some (receipt\<lparr>rd_protocolVersion := Some v\<rparr>))))))))"

definition sameKey :: "string \<Rightarrow> string \<Rightarrow> string \<Rightarrow> string \<Rightarrow> execution_row \<Rightarrow> bool" where
  "sameKey subjectId propertyId commandType idempotencyKey e \<longleftrightarrow>
     ex_subjectId e = subjectId \<and> ex_propertyId e = propertyId \<and> ex_commandType e = commandType
       \<and> ex_idempotencyKey e = idempotencyKey"

definition findExecution ::
  "('b, 'f) command_store_scheme \<Rightarrow> string \<Rightarrow> string \<Rightarrow> string \<Rightarrow> string \<Rightarrow> execution_row option" where
  "findExecution st subjectId propertyId commandType idempotencyKey =
     find (sameKey subjectId propertyId commandType idempotencyKey) (t_executions st)"

definition replayOrConflict ::
  "('b, 'e) command_env_scheme \<Rightarrow> ('b, 'f) command_store_scheme \<Rightarrow> string \<Rightarrow> string \<Rightarrow> string \<Rightarrow> string \<Rightarrow> string
     \<Rightarrow> receipt_dto option result" where
  "replayOrConflict env st subjectId propertyId commandType idempotencyKey requestHash =
     (case findExecution st subjectId propertyId commandType idempotencyKey of
        None \<Rightarrow> Inr None
      | Some existing \<Rightarrow>
        if ex_requestHash existing \<noteq> requestHash then throw IDEMPOTENCY_KEY_REUSED 409
        else bindR (receiptByCommand env st (ex_id existing) True) (\<lambda>receipt.
          case receipt of Some r \<Rightarrow> Inr (Some r)
          | None \<Rightarrow> Inl (Raised (DomainError COMMAND_STATUS_UNKNOWN 409 True))))"

end
