(* ===== verification/CommandAuthorization.thy ===== *)
theory CommandAuthorization
  imports CommandStore
begin

text \<open>
  \<^verbatim>\<open>packages/db/src/command-authorization.ts\<close>: the check that every command endpoint makes before it
  reads or writes, over the tables of subjects, grants, credentials and token ceilings. The locks of the
  queries (FOR SHARE, FOR UPDATE) only order transactions and have no counterpart; the order in which rows
  are visited is the code's, so the first failure is the code's. A JavaScript Set of commands is the list of
  its elements, a Map the association list in insertion order. \<open>le\<close> is localeCompare, \<open>parse\<close> is Date.parse,
  \<open>now\<close> the clock, in milliseconds.
\<close>

section \<open>Tables\<close>

record subject_row =
  sub_id :: string
  sub_status :: subject_status

record property_grant_row =
  pg_subjectId :: string
  pg_propertyId :: string
  pg_accessLevel :: access_level

record command_grant_row =
  cg_subjectId :: string
  cg_propertyId :: string
  cg_commandType :: string

record token_row =
  tk_id :: string
  tk_subjectId :: string
  tk_accessCeiling :: access_level
  tk_propertyScope :: string
  tk_expiresAt :: int
  tk_revokedAt :: "int option"

record token_ceiling_row =
  tc_tokenId :: string
  tc_subjectId :: string
  tc_propertyId :: string
  tc_commandType :: string

record session_row =
  ws_id :: string
  ws_subjectId :: string
  ws_expiresAt :: int
  ws_revokedAt :: "int option"

datatype staff_profile = STAFF | ADMIN

record access_db =
  t_subjects :: "subject_row list"
  t_propertyGrants :: "property_grant_row list"
  t_commandGrants :: "command_grant_row list"
  t_tokens :: "token_row list"
  t_tokenCeilings :: "token_ceiling_row list"
  t_sessions :: "session_row list"
  t_profiles :: "(string \<times> string \<times> staff_profile) list"

section \<open>Denials\<close>

record audit_context =
  xc_principal :: auth_principal
  xc_propertyId :: string
  xc_commandType :: string
  xc_stage :: authorization_stage
  xc_idempotencyKey :: "string option"
  xc_correlationId :: "string option"

definition denyWith :: "audit_context \<Rightarrow> string \<Rightarrow> error_code \<Rightarrow> nat \<Rightarrow> 'a command_result" where
  "denyWith ctx reason c status = Inl (AuthorizationDenied
     \<lparr>dn_error = DomainError c status False, dn_reason = reason, dn_principal = xc_principal ctx,
      dn_propertyId = xc_propertyId ctx, dn_commandType = xc_commandType ctx, dn_stage = xc_stage ctx,
      dn_idempotencyKey = xc_idempotencyKey ctx, dn_correlationId = xc_correlationId ctx\<rparr>)"

abbreviation denied :: "audit_context \<Rightarrow> string \<Rightarrow> 'a command_result" where
  "denied ctx reason \<equiv> denyWith ctx reason INSUFFICIENT_ACCESS 403"

abbreviation notFound :: "audit_context \<Rightarrow> string \<Rightarrow> 'a command_result" where
  "notFound ctx reason \<equiv> denyWith ctx reason NOT_FOUND 404"

abbreviation unauthenticated :: "audit_context \<Rightarrow> string \<Rightarrow> 'a command_result" where
  "unauthenticated ctx reason \<equiv> denyWith ctx reason AUTHENTICATION_REQUIRED 401"

fun denialReasonName :: "denial_reason \<Rightarrow> string" where
  "denialReasonName SUBJECT_DISABLED_REASON = ''SUBJECT_DISABLED''"
| "denialReasonName PROPERTY_WRITE_REQUIRED = ''PROPERTY_WRITE_REQUIRED''"
| "denialReasonName SUBJECT_COMMAND_GRANT_MISSING = ''SUBJECT_COMMAND_GRANT_MISSING''"
| "denialReasonName TOKEN_COMMAND_CEILING_MISSING = ''TOKEN_COMMAND_CEILING_MISSING''"
| "denialReasonName FEATURE_DISABLED = ''FEATURE_DISABLED''"

definition denyEvaluation :: "audit_context \<Rightarrow> denial_reason \<Rightarrow> 'a command_result" where
  "denyEvaluation ctx reason =
     denyWith ctx (denialReasonName reason) (if reason = SUBJECT_DISABLED_REASON then SUBJECT_DISABLED else INSUFFICIENT_ACCESS) 403"

definition asCommandCatalogType :: "string \<Rightarrow> string option" where
  "asCommandCatalogType value =
     (let base = (if startsWith value ''PREVIEW:'' then drop 8 value else value) in
      if base \<in> set commandCatalogTypes then Some base else None)"

definition baseCommandCatalogType :: "string \<Rightarrow> string result" where
  "baseCommandCatalogType commandType =
     (case asCommandCatalogType commandType of None \<Rightarrow> uncaught | Some base \<Rightarrow> Inr base)"

section \<open>Snapshots\<close>

definition lockedSubjectCommandGrants :: "access_db \<Rightarrow> string \<Rightarrow> string \<Rightarrow> string list" where
  "lockedSubjectCommandGrants db subjectId propertyId =
     map cg_commandType (filter (\<lambda>g. cg_subjectId g = subjectId \<and> cg_propertyId g = propertyId) (t_commandGrants db))"

definition lockedTokenCommandCeiling :: "access_db \<Rightarrow> string \<Rightarrow> string \<Rightarrow> string \<Rightarrow> string list" where
  "lockedTokenCommandCeiling db tokenId subjectId propertyId =
     map tc_commandType (filter (\<lambda>c. tc_tokenId c = tokenId \<and> tc_subjectId c = subjectId \<and> tc_propertyId c = propertyId)
       (t_tokenCeilings db))"

definition loadPropertyCommandGrantSnapshot :: "access_db \<Rightarrow> string \<Rightarrow> (string \<times> string list) list" where
  "loadPropertyCommandGrantSnapshot db subjectId =
     fold (\<lambda>g grouped. case asCommandCatalogType (cg_commandType g) of None \<Rightarrow> grouped
         | Some c \<Rightarrow> jmap_set (cg_propertyId g)
             (case jmap_get grouped (cg_propertyId g) of None \<Rightarrow> [c] | Some cs \<Rightarrow> if c \<in> set cs then cs else cs @ [c]) grouped)
       (sortBy (\<lambda>a b. cg_propertyId a < cg_propertyId b \<or> cg_propertyId a = cg_propertyId b \<and> cg_commandType a \<le> cg_commandType b)
         (filter (\<lambda>g. cg_subjectId g = subjectId) (t_commandGrants db))) []"

definition loadTokenCommandCeilingSnapshot :: "access_db \<Rightarrow> string \<Rightarrow> string list" where
  "loadTokenCommandCeilingSnapshot db tokenId =
     List.map_filter (\<lambda>c. asCommandCatalogType (tc_commandType c)) (filter (\<lambda>c. tc_tokenId c = tokenId) (t_tokenCeilings db))"

definition sortedUniqueIds :: "(string \<Rightarrow> string \<Rightarrow> bool) \<Rightarrow> string list \<Rightarrow> string list" where
  "sortedUniqueIds le values = sortBy le (remdups values)"

definition findSubject :: "access_db \<Rightarrow> string \<Rightarrow> subject_row option" where
  "findSubject db subjectId = find (\<lambda>s. sub_id s = subjectId) (t_subjects db)"

definition findPropertyGrant :: "access_db \<Rightarrow> string \<Rightarrow> string \<Rightarrow> property_grant_row option" where
  "findPropertyGrant db subjectId propertyId =
     find (\<lambda>g. pg_subjectId g = subjectId \<and> pg_propertyId g = propertyId) (t_propertyGrants db)"

definition findToken :: "access_db \<Rightarrow> string \<Rightarrow> token_row option" where
  "findToken db tokenId = find (\<lambda>t. tk_id t = tokenId) (t_tokens db)"

definition findSession :: "access_db \<Rightarrow> string \<Rightarrow> session_row option" where
  "findSession db sessionId = find (\<lambda>s. ws_id s = sessionId) (t_sessions db)"

definition validSession :: "int \<Rightarrow> auth_principal \<Rightarrow> session_row option \<Rightarrow> bool" where
  "validSession now who session =
     (case session of None \<Rightarrow> False
      | Some s \<Rightarrow> ws_subjectId s = ap_subjectId who \<and> ws_revokedAt s = None \<and> now < ws_expiresAt s)"

section \<open>The capability of the caller of a token command\<close>

definition preflightTokenLifecycleCallerCapability ::
  "int \<Rightarrow> access_db \<Rightarrow> auth_principal \<Rightarrow> string \<Rightarrow> string \<Rightarrow> audit_context \<Rightarrow> unit command_result" where
  "preflightTokenLifecycleCallerCapability now db who propertyId commandType ctx =
     (case findSubject db (ap_subjectId who) of None \<Rightarrow> unauthenticated ctx ''SUBJECT_MISSING''
      | Some subject \<Rightarrow> (case findPropertyGrant db (ap_subjectId who) propertyId of None \<Rightarrow> notFound ctx ''PROPERTY_SCOPE_MISSING''
        | Some grant \<Rightarrow>
          let commandGrants = filter (\<lambda>c. c = commandType) (lockedSubjectCommandGrants db (ap_subjectId who) propertyId);
              evaluate = (\<lambda>access ceiling. case evaluateCommandAuthorization \<lparr>ai_commandType = commandType,
                  ai_subjectStatus = sub_status subject, ai_propertyAccess = Some access, ai_subjectCommandGrants = commandGrants,
                  ai_credentialType = ap_credentialType who, ai_tokenCommandCeiling = ceiling,
                  ai_featureEnabled = Some (commandFeatureEnabled commandType)\<rparr> of
                None \<Rightarrow> Inr () | Some reason \<Rightarrow> denyEvaluation ctx reason) in
          case ap_credentialType who of
            SESSION \<Rightarrow>
              if \<not> validSession now who (findSession db (ap_credentialId who)) then unauthenticated ctx ''SESSION_INVALID''
              else evaluate (pg_accessLevel grant) None
          | TOKEN \<Rightarrow> (case findToken db (ap_credentialId who) of None \<Rightarrow> unauthenticated ctx ''TOKEN_INVALID''
            | Some token \<Rightarrow>
              if tk_subjectId token \<noteq> ap_subjectId who then unauthenticated ctx ''TOKEN_INVALID''
              else if tk_propertyScope token \<noteq> propertyId then notFound ctx ''PROPERTY_SCOPE_MISSING''
              else if tk_revokedAt token \<noteq> None then denyWith ctx ''TOKEN_REVOKED'' TOKEN_REVOKED 401
              else if tk_expiresAt token \<le> now then denyWith ctx ''TOKEN_EXPIRED'' TOKEN_EXPIRED 401
              else evaluate (narrowAccess (pg_accessLevel grant) (tk_accessCeiling token))
                (Some (filter (\<lambda>c. c = commandType)
                  (lockedTokenCommandCeiling db (ap_credentialId who) (ap_subjectId who) propertyId))))))"

section \<open>The credential\<close>

record credential_snapshot =
  cs_credentialType :: credential_type
  cs_tokenCommandCeiling :: "string list option"
  cs_propertyAccess :: access_level
  cs_expiresAt :: int
  cs_lockedTokens :: "(string \<times> token_row) list"
  cs_lockedTokenCeilings :: "(string \<times> string list) list"

definition lockToken ::
  "access_db \<Rightarrow> auth_principal \<Rightarrow> string \<Rightarrow> audit_context \<Rightarrow> string list \<Rightarrow> string \<Rightarrow> (string \<times> token_row) command_result" where
  "lockToken db who propertyId ctx relatedSubjectIds tokenId =
     (let isCallerToken = (ap_credentialType who = TOKEN \<and> tokenId = ap_credentialId who) in
      case findToken db tokenId of
        None \<Rightarrow> if isCallerToken then unauthenticated ctx ''TOKEN_INVALID'' else notFound ctx ''SUBJECT_SCOPE_MISSING''
      | Some token \<Rightarrow>
        if isCallerToken \<and> tk_subjectId token \<noteq> ap_subjectId who then unauthenticated ctx ''TOKEN_INVALID''
        else if isCallerToken \<and> tk_propertyScope token \<noteq> propertyId then notFound ctx ''PROPERTY_SCOPE_MISSING''
        else if \<not> isCallerToken \<and> (tk_propertyScope token \<noteq> propertyId \<or> tk_subjectId token \<notin> set relatedSubjectIds)
        then notFound ctx ''SUBJECT_SCOPE_MISSING''
        else Inr (tokenId, token))"

definition lockCredentialSnapshot ::
  "(string \<Rightarrow> string \<Rightarrow> bool) \<Rightarrow> int \<Rightarrow> access_db \<Rightarrow> auth_principal \<Rightarrow> string \<Rightarrow> audit_context \<Rightarrow> string list \<Rightarrow> string list
     \<Rightarrow> credential_snapshot command_result" where
  "lockCredentialSnapshot le now db who propertyId ctx relatedSubjectIds relatedTokenIds =
     (let tokenIds = sortedUniqueIds le ((if ap_credentialType who = TOKEN then [ap_credentialId who] else []) @ relatedTokenIds) in
      bindR (mapR (lockToken db who propertyId ctx relatedSubjectIds) tokenIds) (\<lambda>lockedTokens.
      let lockedTokenCeilings = map (\<lambda>(tokenId, token).
            (tokenId, lockedTokenCommandCeiling db tokenId (tk_subjectId token) propertyId)) lockedTokens in
      case ap_credentialType who of
        TOKEN \<Rightarrow> (case map_of lockedTokens (ap_credentialId who) of None \<Rightarrow> unauthenticated ctx ''TOKEN_INVALID''
          | Some token \<Rightarrow>
            if tk_subjectId token \<noteq> ap_subjectId who then unauthenticated ctx ''TOKEN_INVALID''
            else if tk_revokedAt token \<noteq> None then denyWith ctx ''TOKEN_REVOKED'' TOKEN_REVOKED 401
            else if tk_expiresAt token \<le> now then denyWith ctx ''TOKEN_EXPIRED'' TOKEN_EXPIRED 401
            else Inr \<lparr>cs_credentialType = TOKEN,
              cs_tokenCommandCeiling = Some (case map_of lockedTokenCeilings (ap_credentialId who) of Some cs \<Rightarrow> cs | None \<Rightarrow> []),
              cs_propertyAccess = tk_accessCeiling token, cs_expiresAt = tk_expiresAt token, cs_lockedTokens = lockedTokens,
              cs_lockedTokenCeilings = lockedTokenCeilings\<rparr>)
      | SESSION \<Rightarrow>
          if \<not> validSession now who (findSession db (ap_credentialId who)) then unauthenticated ctx ''SESSION_INVALID''
          else Inr \<lparr>cs_credentialType = SESSION, cs_tokenCommandCeiling = None, cs_propertyAccess = WRITE, cs_expiresAt = 0,
            cs_lockedTokens = lockedTokens, cs_lockedTokenCeilings = lockedTokenCeilings\<rparr>))"

section \<open>The constraint of a token command\<close>

definition requiredConstraintString :: "json \<Rightarrow> string result" where
  "requiredConstraintString value =
     (case strOf value of None \<Rightarrow> validation_error | Some s \<Rightarrow> if trim s = [] then validation_error else Inr (trim s))"

definition requiredAccessLevel :: "json \<Rightarrow> access_level result" where
  "requiredAccessLevel value =
     bindR (requiredConstraintString value) (\<lambda>level.
       if level = ''READ'' then Inr READ else if level = ''WRITE'' then Inr WRITE else validation_error)"

definition exactCommandCeiling :: "json \<Rightarrow> string list option result" where
  "exactCommandCeiling value =
     (if value = JUndefined \<or> value = JNull then Inr None
      else case asArray value of None \<Rightarrow> validation_error
      | Some entries \<Rightarrow>
        if list_ex (\<lambda>entry. case strOf entry of None \<Rightarrow> True | Some s \<Rightarrow> trim s = []) entries then validation_error
        else let normalized = sortBy (\<le>) (remdups (map (\<lambda>entry. trim (str entry)) entries)) in
          if list_ex (\<lambda>c. \<not> isHumanGrantableCommandCapability c \<or> c = ''MANAGE_ROOM_CATALOG'') normalized then validation_error
          else Inr (Some normalized))"

definition requiredExactCommandCeiling :: "json \<Rightarrow> string list result" where
  "requiredExactCommandCeiling value =
     bindR (exactCommandCeiling value) (\<lambda>ceiling. case ceiling of None \<Rightarrow> validation_error | Some cs \<Rightarrow> Inr cs)"

datatype timestamp = AtMillis int | AtText string

definition timestampMillis :: "(string \<Rightarrow> int option) \<Rightarrow> timestamp \<Rightarrow> int result" where
  "timestampMillis parse value =
     (case value of AtMillis t \<Rightarrow> Inr t | AtText s \<Rightarrow> (case parse s of None \<Rightarrow> validation_error | Some t \<Rightarrow> Inr t))"

datatype resolved_constraint =
    ResolvedIssue (rz_subjectId: string) (rz_accessCeiling: json) (rz_commandCeiling: json) (rz_expiresAt: json)
  | ResolvedRotate (rz_tokenId: string) (rz_subjectId: string) (rz_commandCeiling: json) (rz_expiresAt: json)
  | ResolvedRevoke (rz_tokenId: string) (rz_subjectId: string)

definition resolveTokenLifecycleConstraint ::
  "access_db \<Rightarrow> string \<Rightarrow> token_lifecycle_constraint option \<Rightarrow> audit_context \<Rightarrow> resolved_constraint option command_result" where
  "resolveTokenLifecycleConstraint db propertyId constraint ctx =
     (let target = (\<lambda>tokenId. bindR (liftR (requiredConstraintString tokenId)) (\<lambda>targetTokenId.
            case findToken db targetTokenId of None \<Rightarrow> notFound ctx ''SUBJECT_SCOPE_MISSING''
            | Some token \<Rightarrow> if tk_propertyScope token \<noteq> propertyId then notFound ctx ''SUBJECT_SCOPE_MISSING'' else Inr token)) in
      case constraint of None \<Rightarrow> Inr None
      | Some (IssueToken subjectId accessCeiling commandCeiling expiresAt) \<Rightarrow>
          bindR (liftR (requiredConstraintString subjectId)) (\<lambda>s. Inr (Some (ResolvedIssue s accessCeiling commandCeiling expiresAt)))
      | Some (RevokeToken tokenId) \<Rightarrow>
          bindR (target tokenId) (\<lambda>token. Inr (Some (ResolvedRevoke (tk_id token) (tk_subjectId token))))
      | Some (RotateToken tokenId commandCeiling expiresAt) \<Rightarrow>
          bindR (target tokenId) (\<lambda>token.
            Inr (Some (ResolvedRotate (tk_id token) (tk_subjectId token) commandCeiling expiresAt))))"

record locked_scope =
  ls_subjects :: "(string \<times> subject_row) list"
  ls_propertyGrants :: "(string \<times> property_grant_row) list"
  ls_commandGrants :: "(string \<times> string list) list"

record target_state =
  ts_status :: subject_status
  ts_propertyAccess :: access_level
  ts_commandGrants :: "string list"

definition lockedTokenTargetSubjectState :: "string \<Rightarrow> locked_scope \<Rightarrow> audit_context \<Rightarrow> target_state command_result" where
  "lockedTokenTargetSubjectState targetSubjectId locked ctx =
     (case (map_of (ls_subjects locked) targetSubjectId, map_of (ls_propertyGrants locked) targetSubjectId) of
        (Some subject, Some grant) \<Rightarrow> Inr \<lparr>ts_status = sub_status subject, ts_propertyAccess = pg_accessLevel grant,
          ts_commandGrants = (case map_of (ls_commandGrants locked) targetSubjectId of Some cs \<Rightarrow> cs | None \<Rightarrow> [])\<rparr>
      | _ \<Rightarrow> notFound ctx ''SUBJECT_SCOPE_MISSING'')"

definition enabledGrants :: "string list \<Rightarrow> string list" where
  "enabledGrants = filter (\<lambda>c. isHumanGrantableCommandCapability c \<and> commandFeatureEnabled c)"

definition effectiveCallerCommandGrants :: "string list \<Rightarrow> credential_snapshot \<Rightarrow> string list" where
  "effectiveCallerCommandGrants subjectCommandGrants credential =
     (if cs_credentialType credential \<noteq> TOKEN then enabledGrants subjectCommandGrants
      else filter (\<lambda>c. c \<in> set (asSet (cs_tokenCommandCeiling credential))) (enabledGrants subjectCommandGrants))"

definition denyIfCommandCeilingExceeds ::
  "string list \<Rightarrow> string list \<Rightarrow> audit_context \<Rightarrow> string \<Rightarrow> unit command_result" where
  "denyIfCommandCeilingExceeds requested allowed ctx reason =
     (if list_ex (\<lambda>c. c \<notin> set allowed) requested then denied ctx reason else Inr ())"

definition denyIfCallerTokenExpiryExceeded ::
  "(string \<Rightarrow> int option) \<Rightarrow> credential_snapshot \<Rightarrow> timestamp \<Rightarrow> audit_context \<Rightarrow> unit command_result" where
  "denyIfCallerTokenExpiryExceeded parse credential requestedExpiresAt ctx =
     (if cs_credentialType credential \<noteq> TOKEN then Inr ()
      else bindR (liftR (timestampMillis parse requestedExpiresAt)) (\<lambda>t.
        if t > cs_expiresAt credential then denied ctx ''TOKEN_EXPIRY_CEILING_EXCEEDED'' else Inr ()))"

text \<open>The two bounds of a requested ceiling: the grants of the target subject and the scope of the caller.\<close>

definition assertRequestedCeiling ::
  "string list \<Rightarrow> target_state \<Rightarrow> string list \<Rightarrow> audit_context \<Rightarrow> unit command_result" where
  "assertRequestedCeiling requested target callerCommands ctx =
     bindR (denyIfCommandCeilingExceeds requested (ts_commandGrants target) ctx ''TOKEN_TARGET_COMMAND_CEILING_EXCEEDED'') (\<lambda>_.
       denyIfCommandCeilingExceeds requested callerCommands ctx ''TOKEN_COMMAND_CEILING_ESCALATION'')"

definition assertIssue ::
  "(string \<Rightarrow> int option) \<Rightarrow> string \<Rightarrow> json \<Rightarrow> json \<Rightarrow> json \<Rightarrow> credential_snapshot \<Rightarrow> string list \<Rightarrow> locked_scope \<Rightarrow> audit_context
     \<Rightarrow> unit command_result" where
  "assertIssue parse targetSubjectId accessCeiling commandCeiling expiresAt credential callerCommands locked ctx =
     bindR (liftR (requiredAccessLevel accessCeiling)) (\<lambda>requestedAccess.
     bindR (liftR (requiredExactCommandCeiling commandCeiling)) (\<lambda>requested.
     bindR (liftR (requiredConstraintString expiresAt)) (\<lambda>requestedExpiresAt.
     bindR (lockedTokenTargetSubjectState targetSubjectId locked ctx) (\<lambda>target.
       if ts_status target \<noteq> ACTIVE then denyWith ctx ''TOKEN_TARGET_SUBJECT_DISABLED'' SUBJECT_DISABLED 403
       else if \<not> accessAllows (ts_propertyAccess target) requestedAccess
       then denied ctx ''TOKEN_TARGET_ACCESS_CEILING_EXCEEDED''
       else if requestedAccess = READ \<and> requested \<noteq> [] then liftR validation_error
       else bindR (assertRequestedCeiling requested target callerCommands ctx) (\<lambda>_.
         denyIfCallerTokenExpiryExceeded parse credential (AtText requestedExpiresAt) ctx)))))"

text \<open>The token that is rotated or revoked, and the state of its subject.\<close>

definition lifecycleTarget ::
  "string \<Rightarrow> credential_snapshot \<Rightarrow> locked_scope \<Rightarrow> audit_context \<Rightarrow> (token_row \<times> target_state) command_result" where
  "lifecycleTarget targetTokenId credential locked ctx =
     (case map_of (cs_lockedTokens credential) targetTokenId of None \<Rightarrow> notFound ctx ''SUBJECT_SCOPE_MISSING''
      | Some token \<Rightarrow> bindR (lockedTokenTargetSubjectState (tk_subjectId token) locked ctx) (\<lambda>target.
          if ts_status target \<noteq> ACTIVE then denyWith ctx ''TOKEN_TARGET_SUBJECT_DISABLED'' SUBJECT_DISABLED 403
          else Inr (token, target)))"

definition assertRotate ::
  "(string \<Rightarrow> int option) \<Rightarrow> int \<Rightarrow> string \<Rightarrow> json \<Rightarrow> json \<Rightarrow> credential_snapshot \<Rightarrow> string list \<Rightarrow> locked_scope \<Rightarrow> audit_context
     \<Rightarrow> unit command_result" where
  "assertRotate parse now targetTokenId commandCeiling expiresAt credential callerCommands locked ctx =
     bindR (lifecycleTarget targetTokenId credential locked ctx) (\<lambda>(token, target).
       if \<not> accessAllows (ts_propertyAccess target) (tk_accessCeiling token)
       then denied ctx ''TOKEN_TARGET_ACCESS_CEILING_EXCEEDED''
       else if tk_revokedAt token \<noteq> None then denied ctx ''TOKEN_TARGET_REVOKED''
       else if tk_expiresAt token \<le> now then denied ctx ''TOKEN_TARGET_EXPIRED''
       else
         bindR (liftR (requiredExactCommandCeiling commandCeiling)) (\<lambda>requested.
         bindR (assertRequestedCeiling requested target callerCommands ctx) (\<lambda>_.
         bindR (if expiresAt = JUndefined then Inr (AtMillis (tk_expiresAt token))
                else bindR (liftR (requiredConstraintString expiresAt)) (\<lambda>s. Inr (AtText s))) (\<lambda>requestedExpiresAt.
           denyIfCallerTokenExpiryExceeded parse credential requestedExpiresAt ctx))))"

definition assertResolvedTokenLifecycleConstraint ::
  "(string \<Rightarrow> int option) \<Rightarrow> int \<Rightarrow> resolved_constraint option \<Rightarrow> credential_snapshot \<Rightarrow> string list \<Rightarrow> locked_scope \<Rightarrow> audit_context
     \<Rightarrow> unit command_result" where
  "assertResolvedTokenLifecycleConstraint parse now constraint credential subjectCommandGrants locked ctx =
     (let callerCommands = effectiveCallerCommandGrants subjectCommandGrants credential in
      case constraint of None \<Rightarrow> Inr ()
      | Some (ResolvedIssue targetSubjectId accessCeiling commandCeiling expiresAt) \<Rightarrow>
          assertIssue parse targetSubjectId accessCeiling commandCeiling expiresAt credential callerCommands locked ctx
      | Some (ResolvedRevoke targetTokenId _) \<Rightarrow> bindR (lifecycleTarget targetTokenId credential locked ctx) (\<lambda>_. Inr ())
      | Some (ResolvedRotate targetTokenId _ commandCeiling expiresAt) \<Rightarrow>
          assertRotate parse now targetTokenId commandCeiling expiresAt credential callerCommands locked ctx)"

section \<open>authorizeCommandAccess\<close>

definition lockSubject :: "access_db \<Rightarrow> auth_principal \<Rightarrow> audit_context \<Rightarrow> string \<Rightarrow> (string \<times> subject_row) command_result" where
  "lockSubject db who ctx subjectId =
     (case findSubject db subjectId of Some row \<Rightarrow> Inr (subjectId, row)
      | None \<Rightarrow> if subjectId \<noteq> ap_subjectId who then notFound ctx ''SUBJECT_SCOPE_MISSING''
          else unauthenticated ctx ''SUBJECT_MISSING'')"

definition lockPropertyGrant ::
  "access_db \<Rightarrow> auth_principal \<Rightarrow> string \<Rightarrow> audit_context \<Rightarrow> string \<Rightarrow> (string \<times> property_grant_row) command_result" where
  "lockPropertyGrant db who propertyId ctx subjectId =
     (case findPropertyGrant db subjectId propertyId of Some row \<Rightarrow> Inr (subjectId, row)
      | None \<Rightarrow> notFound ctx (if subjectId = ap_subjectId who then ''PROPERTY_SCOPE_MISSING'' else ''SUBJECT_SCOPE_MISSING''))"

definition targetSubjectIds :: "resolved_constraint option \<Rightarrow> string list" where
  "targetSubjectIds c = (case c of None \<Rightarrow> [] | Some r \<Rightarrow> [rz_subjectId r])"

definition targetTokenIds :: "resolved_constraint option \<Rightarrow> string list" where
  "targetTokenIds c = (case c of Some (ResolvedRotate t _ _ _) \<Rightarrow> [t] | Some (ResolvedRevoke t _) \<Rightarrow> [t] | _ \<Rightarrow> [])"

definition lockScope ::
  "access_db \<Rightarrow> auth_principal \<Rightarrow> string \<Rightarrow> audit_context \<Rightarrow> string list \<Rightarrow> locked_scope command_result" where
  "lockScope db who propertyId ctx subjectIds =
     bindR (mapR (lockSubject db who ctx) subjectIds) (\<lambda>subjects.
     bindR (mapR (lockPropertyGrant db who propertyId ctx) subjectIds) (\<lambda>grants.
       Inr \<lparr>ls_subjects = subjects, ls_propertyGrants = grants,
         ls_commandGrants = map (\<lambda>s. (s, lockedSubjectCommandGrants db s propertyId)) subjectIds\<rparr>))"

text \<open>The three decisions: a quote, a read, an execution.\<close>

definition quoteAccess :: "subject_row \<Rightarrow> access_level \<Rightarrow> audit_context \<Rightarrow> unit command_result" where
  "quoteAccess subject access ctx =
     (if sub_status subject \<noteq> ACTIVE then denyWith ctx ''SUBJECT_DISABLED'' SUBJECT_DISABLED 403
      else if \<not> accessAllows access READ then notFound ctx ''PROPERTY_SCOPE_MISSING'' else Inr ())"

definition readAccess ::
  "string \<Rightarrow> subject_row \<Rightarrow> access_level \<Rightarrow> string list \<Rightarrow> credential_snapshot \<Rightarrow> audit_context \<Rightarrow> unit command_result" where
  "readAccess commandType subject access grants credential ctx =
     (if sub_status subject \<noteq> ACTIVE then denyWith ctx ''SUBJECT_DISABLED'' SUBJECT_DISABLED 403
      else if isHumanGrantableCommandCapability commandType \<and> access \<noteq> WRITE then denied ctx ''PROPERTY_WRITE_REQUIRED''
      else if \<not> accessAllows access READ then notFound ctx ''PROPERTY_SCOPE_MISSING''
      else if commandType \<notin> set grants then denied ctx ''SUBJECT_COMMAND_GRANT_MISSING''
      else if cs_credentialType credential = TOKEN \<and> commandType \<notin> set (asSet (cs_tokenCommandCeiling credential))
      then denied ctx ''TOKEN_COMMAND_CEILING_MISSING'' else Inr ())"

definition executeAccess ::
  "(string \<Rightarrow> int option) \<Rightarrow> int \<Rightarrow> string \<Rightarrow> subject_row \<Rightarrow> access_level \<Rightarrow> string list \<Rightarrow> credential_snapshot
     \<Rightarrow> resolved_constraint option \<Rightarrow> locked_scope \<Rightarrow> audit_context \<Rightarrow> unit command_result" where
  "executeAccess parse now commandType subject access grants credential constraint locked ctx =
     (case evaluateCommandAuthorization \<lparr>ai_commandType = commandType, ai_subjectStatus = sub_status subject,
         ai_propertyAccess = Some access, ai_subjectCommandGrants = grants, ai_credentialType = cs_credentialType credential,
         ai_tokenCommandCeiling = cs_tokenCommandCeiling credential,
         ai_featureEnabled = Some (commandFeatureEnabled commandType)\<rparr> of
        None \<Rightarrow> assertResolvedTokenLifecycleConstraint parse now constraint credential grants locked ctx
      | Some reason \<Rightarrow> denyEvaluation ctx reason)"

definition isTokenLifecycleType :: "string \<Rightarrow> bool" where
  "isTokenLifecycleType c \<longleftrightarrow> c = ''ISSUE_TOKEN'' \<or> c = ''ROTATE_TOKEN'' \<or> c = ''REVOKE_TOKEN''"

definition adminSession :: "access_db \<Rightarrow> auth_principal \<Rightarrow> string \<Rightarrow> bool" where
  "adminSession db who propertyId \<longleftrightarrow>
     (ap_subjectId who, propertyId, ADMIN) \<in> set (t_profiles db) \<and> ap_credentialType who = SESSION"

text \<open>The decision once the caller, its scope and its credential are known.\<close>

definition decideAccess ::
  "(string \<Rightarrow> int option) \<Rightarrow> int \<Rightarrow> auth_principal \<Rightarrow> string \<Rightarrow> authorization_mode \<Rightarrow> resolved_constraint option \<Rightarrow> locked_scope
     \<Rightarrow> credential_snapshot \<Rightarrow> audit_context \<Rightarrow> unit command_result" where
  "decideAccess parse now who commandType mode constraint locked credential ctx =
     (case (map_of (ls_subjects locked) (ap_subjectId who), map_of (ls_propertyGrants locked) (ap_subjectId who)) of
        (None, _) \<Rightarrow> unauthenticated ctx ''SUBJECT_MISSING''
      | (_, None) \<Rightarrow> notFound ctx ''PROPERTY_SCOPE_MISSING''
      | (Some subject, Some grant) \<Rightarrow>
        let grants = (case map_of (ls_commandGrants locked) (ap_subjectId who) of Some cs \<Rightarrow> cs | None \<Rightarrow> []);
            access = (if cs_credentialType credential = TOKEN
              then narrowAccess (pg_accessLevel grant) (cs_propertyAccess credential) else pg_accessLevel grant) in
        if commandType = ''CREATE_QUOTE'' then quoteAccess subject access ctx
        else if mode = READ_MODE then readAccess commandType subject access grants credential ctx
        else executeAccess parse now commandType subject access grants credential constraint locked ctx)"

definition authorizeAccess ::
  "(string \<Rightarrow> string \<Rightarrow> bool) \<Rightarrow> (string \<Rightarrow> int option) \<Rightarrow> int \<Rightarrow> string list \<Rightarrow> string list \<Rightarrow> access_db \<Rightarrow> auth_principal
     \<Rightarrow> authorization_options \<Rightarrow> unit command_result" where
  "authorizeAccess le parse now relatedSubjectIds relatedTokenIds db who options =
     bindR (liftR (baseCommandCatalogType (ao_commandType options))) (\<lambda>commandType.
     let propertyId = ao_propertyId options;
         ctx = \<lparr>xc_principal = who, xc_propertyId = propertyId, xc_commandType = commandType, xc_stage = ao_stage options,
           xc_idempotencyKey = ao_idempotencyKey options, xc_correlationId = ao_correlationId options\<rparr> in
     bindR (if commandType = ''MANAGE_ROOM_CATALOG'' \<and> \<not> adminSession db who propertyId
            then denied ctx ''ADMIN_SESSION_REQUIRED'' else Inr ()) (\<lambda>_.
     bindR (if isTokenLifecycleType commandType \<and> ao_mode options = EXECUTE
            then preflightTokenLifecycleCallerCapability now db who propertyId commandType ctx else Inr ()) (\<lambda>_.
     bindR (resolveTokenLifecycleConstraint db propertyId (ao_tokenLifecycleConstraint options) ctx) (\<lambda>constraint.
     let subjectIds = sortedUniqueIds le ([ap_subjectId who] @ relatedSubjectIds @ targetSubjectIds constraint) in
     bindR (lockScope db who propertyId ctx subjectIds) (\<lambda>locked.
     bindR (lockCredentialSnapshot le now db who propertyId ctx subjectIds
              (sortedUniqueIds le (relatedTokenIds @ targetTokenIds constraint))) (\<lambda>credential.
       decideAccess parse now who commandType (ao_mode options) constraint locked credential ctx))))))"

definition effectiveSubjectGrants :: "access_db \<Rightarrow> auth_principal \<Rightarrow> string \<Rightarrow> string list" where
  "effectiveSubjectGrants db who propertyId =
     (let enabled = enabledGrants (lockedSubjectCommandGrants db (ap_subjectId who) propertyId) in
      if ap_credentialType who \<noteq> TOKEN then enabled
      else filter (\<lambda>c. c \<noteq> ''MANAGE_ROOM_CATALOG''
        \<and> c \<in> set (lockedTokenCommandCeiling db (ap_credentialId who) (ap_subjectId who) propertyId)) enabled)"

end
