(* ===== verification/CommandProtocol.thy ===== *)
theory CommandProtocol
  imports CommandAuthorization
begin

text \<open>
  The command protocol of \<^verbatim>\<open>packages/db/src/commands/service.ts\<close>: a command is previewed
  (createCommandPreview), then confirmed with an idempotency key (confirmCommandPreview), a failed
  confirmation leaves a rejected execution with a receipt (persistRejected), quotes are direct
  commands (executeQuoteCommand), and the outcome of a request can be looked up (getReceipt,
  getCommand, findCommandResult) or fenced (resolveCommandResult).

  Each call is one step on a \<open>command_store\<close>: PostgreSQL runs its transactions one after the other,
  a transaction that fails leaves the store as it was. The advisory locks appear as the flags
  \<open>ctx_acquired\<close> and \<open>ctx_quotaAcquired\<close>, the clock as \<open>ctx_now\<close>, the random identifiers as the functions
  \<open>ctx_uuid\<close> (transaction) and \<open>ctx_rejectUuid\<close> (rejection), the fields of an exception that is not a
  DomainError as \<open>ctx_driverError\<close>. A violated primary or unique key is an uncaught failure.
\<close>

record call_context =
  ctx_now :: int
  ctx_uuid :: "string \<Rightarrow> string"
  ctx_occupantUuid :: "nat \<Rightarrow> string"
  ctx_rejectUuid :: "string \<Rightarrow> string"
  ctx_acquired :: bool
  ctx_quotaAcquired :: bool
  ctx_previewTtlSeconds :: int
  ctx_driverError :: "string option \<times> string option"

definition newIdIn :: "(string \<Rightarrow> string) \<Rightarrow> string \<Rightarrow> string" where
  "newIdIn uuid prefix = newId prefix (uuid prefix)"

section \<open>Shared guards\<close>

definition isExecutableCommandType :: "string \<Rightarrow> bool" where
  "isExecutableCommandType commandType \<longleftrightarrow> commandType \<in> set commandTypes"

definition roomStatusVisibleCommands :: "string list" where
  "roomStatusVisibleCommands =
    [''MANAGE_ROOM_CATALOG'', ''REVOKE_CHECK_OUT'', ''CREATE_ORDER'', ''CORRECT_ORDER_OCCUPANT'', ''MANAGE_ORDER_OCCUPANTS'',
     ''CORRECT_HISTORICAL_STAY_ARRANGEMENTS'', ''RESCHEDULE_STAY'', ''SHORTEN_STAY'', ''EXTEND_STAY'', ''MOVE_UNIT'',
     ''REPRICE_ORDER'', ''RECORD_COLLECTION'', ''RECORD_REFUND'', ''REVERSE_FACT'', ''RETAIN_ORDER_FUNDS'', ''APPLY_RETAINED_FUNDS'',
     ''RELEASE_RETAINED_FUNDS'', ''REFUND_RETAINED_FUNDS'', ''REFRESH_MEMBER_COVERAGE'', ''CANCEL_ORDER'', ''MARK_NO_SHOW'',
     ''REVOKE_CHECK_IN'', ''CONVERT_STAY_COLLECTIONS_TO_MEMBERSHIP'', ''VOID_ERRONEOUS_MEMBERSHIP_AND_RECONVERT_STAY'',
     ''CHECK_IN'', ''CHECK_OUT'', ''COMPLETE_STAY'', ''LOCK_MAINTENANCE'', ''RELEASE_MAINTENANCE'', ''COMPLETE_CLEANING'']"

definition createOrderConfirmationReasonCodes :: "string list" where
  "createOrderConfirmationReasonCodes = [''CREATE_STANDARD_ORDER'', ''BACKFILL_STAY'', ''TEMPORARY_OTHER_ROOM'']"

definition strictRecoveryEvidenceCommands :: "string list" where
  "strictRecoveryEvidenceCommands =
    [''MANAGE_ORDER_OCCUPANTS'', ''REVOKE_CHECK_OUT'', ''RESCHEDULE_STAY'', ''EXTEND_STAY'', ''SHORTEN_STAY'', ''MOVE_UNIT'',
     ''CANCEL_ORDER'', ''MARK_NO_SHOW'', ''REVOKE_CHECK_IN'', ''CONVERT_STAY_COLLECTIONS_TO_MEMBERSHIP'', ''COMPLETE_STAY'',
     ''CORRECT_HISTORICAL_STAY_ARRANGEMENTS'', ''CORRECT_MEMBER_PROFILE'', ''CORRECT_MEMBERSHIP_EFFECTIVE_DATE'',
     ''BACKFILL_HISTORICAL_MEMBERSHIP'', ''VOID_ERRONEOUS_MEMBERSHIP_AND_RECONVERT_STAY'']"

definition memberCorrectionCommandTypes :: "string list" where
  "memberCorrectionCommandTypes = [''CORRECT_MEMBER_PROFILE'', ''CORRECT_MEMBERSHIP_EFFECTIVE_DATE'',
     ''BACKFILL_HISTORICAL_MEMBERSHIP'', ''VOID_ERRONEOUS_MEMBERSHIP_AND_RECONVERT_STAY'']"

definition requiresStrictRecoveryEvidence :: "string \<Rightarrow> json_object \<Rightarrow> bool" where
  "requiresStrictRecoveryEvidence commandType effect \<longleftrightarrow>
     commandType \<in> set strictRecoveryEvidenceCommands
     \<or> asObject (prop_of effect ''temporaryOtherRoomArrangement'') \<noteq> None
     \<or> commandType = ''CREATE_ORDER'' \<and> asObject (prop_of effect ''backfill'') \<noteq> None"

text \<open>\<^verbatim>\<open>value?.trim()\<close> as a truth value.\<close>

definition present :: "string option \<Rightarrow> bool" where
  "present v = (case v of None \<Rightarrow> False | Some s \<Rightarrow> trim s \<noteq> [])"

definition assertWriteMetadata :: "string option \<Rightarrow> string option \<Rightarrow> (string \<times> string) result" where
  "assertWriteMetadata idempotencyKey correlationId =
     (if \<not> present idempotencyKey then throw IDEMPOTENCY_KEY_REQUIRED 400
      else if \<not> present correlationId then throw CORRELATION_ID_REQUIRED 400
      else if length (the idempotencyKey) > 160 \<or> length (the correlationId) > 160 then validation_error
      else Inr (trim (the idempotencyKey), trim (the correlationId)))"

definition assertCreateOrderConfirmationReason :: "json_object \<Rightarrow> command_reason \<Rightarrow> unit result" where
  "assertCreateOrderConfirmationReason effect reason =
     (case asObject (prop_of effect ''backfill'') of
        Some backfill \<Rightarrow>
          let lockedReason = (case strOf (prop_of backfill ''reason'') of Some s \<Rightarrow> trim s | None \<Rightarrow> []) in
          if lockedReason = [] \<or> rs_code reason \<noteq> Some ''BACKFILL_STAY'' then throw CONFIRMATION_MISMATCH 409
          else (case rs_note reason of None \<Rightarrow> uncaught
            | Some note \<Rightarrow> if trim note \<noteq> lockedReason then throw CONFIRMATION_MISMATCH 409 else Inr ())
      | None \<Rightarrow>
        (case asObject (prop_of effect ''temporaryOtherRoomArrangement'') of
           Some _ \<Rightarrow>
             let lockedReason = (case strOf (prop_of effect ''temporaryOtherRoomReason'') of Some s \<Rightarrow> trim s | None \<Rightarrow> []) in
             if lockedReason = [] \<or> length lockedReason > 200 \<or> rs_code reason \<noteq> Some ''TEMPORARY_OTHER_ROOM''
               \<or> rs_note reason \<noteq> Some lockedReason then throw CONFIRMATION_MISMATCH 409
             else Inr ()
         | None \<Rightarrow>
           if rs_code reason \<noteq> Some ''CREATE_STANDARD_ORDER'' \<or> rs_note reason \<noteq> Some [] then throw CONFIRMATION_MISMATCH 409
           else Inr ()))"

definition isTokenLifecycleCommand :: "string \<Rightarrow> bool" where
  "isTokenLifecycleCommand commandType =
     (let baseType = (if startsWith commandType ''PREVIEW:'' then drop 8 commandType else commandType) in
      baseType = ''ISSUE_TOKEN'' \<or> baseType = ''ROTATE_TOKEN'' \<or> baseType = ''REVOKE_TOKEN'')"

definition tokenLifecycleAuthorizationConstraint :: "string \<Rightarrow> json_object \<Rightarrow> token_lifecycle_constraint option" where
  "tokenLifecycleAuthorizationConstraint commandType input =
     (if commandType = ''ISSUE_TOKEN'' then Some (IssueToken (prop_of input ''subjectId'') (prop_of input ''accessCeiling'')
          (prop_of input ''commandCeiling'') (prop_of input ''expiresAt''))
      else if commandType = ''ROTATE_TOKEN'' then Some (RotateToken (prop_of input ''tokenId'')
          (prop_of input ''commandCeiling'') (prop_of input ''expiresAt''))
      else if commandType = ''REVOKE_TOKEN'' then Some (RevokeToken (prop_of input ''tokenId''))
      else None)"

text \<open>The denials a handler throws itself.\<close>

definition denialOf ::
  "error_code \<Rightarrow> nat \<Rightarrow> string \<Rightarrow> auth_principal \<Rightarrow> string \<Rightarrow> string \<Rightarrow> authorization_stage \<Rightarrow> string \<Rightarrow> string \<Rightarrow> denial" where
  "denialOf c status reason who propertyId commandType stage idempotencyKey correlationId =
     \<lparr>dn_error = DomainError c status False, dn_reason = reason, dn_principal = who, dn_propertyId = propertyId,
      dn_commandType = commandType, dn_stage = stage, dn_idempotencyKey = Some idempotencyKey,
      dn_correlationId = Some correlationId\<rparr>"

definition auditCommandResourceNotFound ::
  "error_code \<Rightarrow> auth_principal \<Rightarrow> string \<Rightarrow> string \<Rightarrow> authorization_stage \<Rightarrow> string \<Rightarrow> string \<Rightarrow> 'a command_result" where
  "auditCommandResourceNotFound c who propertyId commandType stage idempotencyKey correlationId =
     bindR (liftR (baseCommandCatalogType commandType)) (\<lambda>base.
       Inl (AuthorizationDenied
         (denialOf c 404 ''SUBJECT_SCOPE_MISSING'' who propertyId base stage idempotencyKey correlationId)))"

definition assertTokenExpiryCeiling ::
  "('b, 'e) command_env_scheme \<Rightarrow> 'b \<Rightarrow> auth_principal \<Rightarrow> string \<Rightarrow> string \<Rightarrow> json_object \<Rightarrow> authorization_stage
     \<Rightarrow> string \<Rightarrow> string \<Rightarrow> unit command_result" where
  "assertTokenExpiryCeiling env b who propertyId commandType effect stage idempotencyKey correlationId =
     (if ap_credentialType who \<noteq> TOKEN \<or> commandType \<noteq> ''ISSUE_TOKEN'' \<and> commandType \<noteq> ''ROTATE_TOKEN'' then Inr ()
      else case strOf (prop_of effect ''expiresAt'') of None \<Rightarrow> failWith INTERNAL_ERROR 500
      | Some expiresAt \<Rightarrow> (case callerTokenExpiry env b who of
          None \<Rightarrow> Inl (AuthorizationDenied (denialOf AUTHENTICATION_REQUIRED 401 ''TOKEN_INVALID'' who propertyId
            commandType stage idempotencyKey correlationId))
        | Some callerExpiry \<Rightarrow>
          if (case dateParse env expiresAt of None \<Rightarrow> False | Some t \<Rightarrow> t > callerExpiry)
          then Inl (AuthorizationDenied (denialOf INSUFFICIENT_ACCESS 403 ''TOKEN_EXPIRY_CEILING_EXCEEDED'' who
            propertyId commandType stage idempotencyKey correlationId))
          else Inr ()))"

definition strictEffectStringArray :: "json \<Rightarrow> string list command_result" where
  "strictEffectStringArray value =
     (case asArray value of None \<Rightarrow> failWith INTERNAL_ERROR 500
      | Some vs \<Rightarrow>
        if list_ex (\<lambda>entry. case strOf entry of None \<Rightarrow> True | Some s \<Rightarrow> trim s = []) vs \<or> \<not> distinct vs
        then failWith INTERNAL_ERROR 500 else Inr (map str vs))"

definition assertTokenCommandCeiling ::
  "('b, 'e) command_env_scheme \<Rightarrow> 'b \<Rightarrow> auth_principal \<Rightarrow> string \<Rightarrow> string \<Rightarrow> json_object \<Rightarrow> authorization_stage
     \<Rightarrow> string \<Rightarrow> string \<Rightarrow> unit command_result" where
  "assertTokenCommandCeiling env b who propertyId commandType effect stage idempotencyKey correlationId =
     (if commandType \<noteq> ''ISSUE_TOKEN'' \<and> commandType \<noteq> ''ROTATE_TOKEN'' then Inr ()
      else bindR (strictEffectStringArray (prop_of effect ''commandCeiling'')) (\<lambda>commandCeiling.
        bindR (strictEffectStringArray (prop_of effect ''persistedCommandCeiling'')) (\<lambda>persisted.
          if length persisted \<noteq> length commandCeiling \<or> list_ex (\<lambda>c. c \<notin> set commandCeiling) persisted
            \<or> list_ex (\<lambda>c. c \<notin> set (effectiveSubjectCommandGrants env b who propertyId)) persisted
          then Inl (AuthorizationDenied (denialOf INSUFFICIENT_ACCESS 403 ''TOKEN_COMMAND_CEILING_ESCALATION'' who
            propertyId commandType stage idempotencyKey correlationId))
          else Inr ())))"

definition trimmedFields :: "string list \<Rightarrow> json_object \<Rightarrow> json_object" where
  "trimmedFields names obj =
     fold (\<lambda>k obj. case strOf (prop_of obj k) of Some s \<Rightarrow> jmap_set k (JStr (trim s)) obj | None \<Rightarrow> obj) names obj"

definition guestFields :: "string list" where
  "guestFields = [''fullName'', ''nickname'', ''phone'', ''documentNumber'']"

definition normalizeGuest :: "json \<Rightarrow> json" where
  "normalizeGuest guest = (case asObject guest of None \<Rightarrow> guest | Some g \<Rightarrow> JObj (trimmedFields guestFields g))"

definition normalizeOrderInput :: "json_object \<Rightarrow> json_object" where
  "normalizeOrderInput input =
     (case asObject (prop_of input ''primaryGuest'') of None \<Rightarrow> input
      | Some primaryGuest \<Rightarrow>
        let additional = prop_of input ''additionalGuests'' in
        spread input ([(''primaryGuest'', normalizeGuest (JObj primaryGuest))]
          @ (case asArray additional of
               Some guests \<Rightarrow> [(''additionalGuests'', JArr (map normalizeGuest guests))]
             | None \<Rightarrow> if additional \<noteq> JUndefined then [(''additionalGuests'', additional)] else [])))"

text \<open>Upper case of the ASCII letters; the other characters of an identity card number have none.\<close>

definition toUpperCase :: "string \<Rightarrow> string" where
  "toUpperCase s = map (\<lambda>c. if CHR ''a'' \<le> c \<and> c \<le> CHR ''z'' then char_of (of_char c - (32 :: nat)) else c) s"

definition normalizePhoneNumber :: "string \<Rightarrow> string result" where
  "normalizePhoneNumber value =
     (let normalized = filter (\<lambda>c. \<not> js_space c) value in if normalized = [] then validation_error else Inr normalized)"

definition normalizeMemberInput :: "json_object \<Rightarrow> json_object result" where
  "normalizeMemberInput input =
     (let trimmed = (\<lambda>k f. case strOf (prop_of input k) of Some s \<Rightarrow> JStr (f (trim s)) | None \<Rightarrow> prop_of input k) in
      bindR (case strOf (prop_of input ''phone'') of
          Some s \<Rightarrow> bindR (normalizePhoneNumber s) (\<lambda>p. Inr (JStr p)) | None \<Rightarrow> Inr (prop_of input ''phone'')) (\<lambda>phone.
      Inr (spread input [(''fullName'', trimmed ''fullName'' id), (''nickname'', trimmed ''nickname'' id),
        (''identityCardNumber'', trimmed ''identityCardNumber'' toUpperCase), (''phone'', phone), (''wechat'', trimmed ''wechat'' id)])))"

definition base64urlChar :: "char \<Rightarrow> bool" where
  "base64urlChar c \<longleftrightarrow> CHR ''A'' \<le> c \<and> c \<le> CHR ''Z'' \<or> CHR ''a'' \<le> c \<and> c \<le> CHR ''z'' \<or> isDigit c \<or> c = CHR ''_'' \<or> c = CHR ''-''"

definition opaqueTokenSecret :: "string \<Rightarrow> bool" where
  "opaqueTokenSecret s \<longleftrightarrow> take 4 s = ''qtp_'' \<and> length s = 47 \<and> list_all base64urlChar (drop 4 s)"

text \<open>The secret of a new token is replaced by its hash before anything is stored.\<close>

definition normalizeTokenInput :: "('b, 'e) command_env_scheme \<Rightarrow> json_object \<Rightarrow> json_object result" where
  "normalizeTokenInput env input =
     (case strOf (prop_of input ''tokenSecret'') of None \<Rightarrow> validation_error
      | Some secret \<Rightarrow>
        if \<not> opaqueTokenSecret secret \<or> length (remdups (drop 4 secret)) < 16 then validation_error
        else Inr (spread (filter (\<lambda>(k, v). k \<noteq> ''tokenSecret'') input) [(''tokenSecretHash'', JStr (digest env secret))]))"

definition normalizeCommandEnvelope ::
  "('b, 'e) command_env_scheme \<Rightarrow> string \<Rightarrow> json_object \<Rightarrow> json_object result" where
  "normalizeCommandEnvelope env commandType input =
     (if commandType = ''CREATE_ORDER'' then Inr (normalizeOrderInput input)
      else if commandType = ''CREATE_MEMBER'' then normalizeMemberInput input
      else if commandType \<in> set memberCorrectionCommandTypes then normalizeMemberCorrectionInput env commandType input
      else if commandType = ''CORRECT_HISTORICAL_STAY_ARRANGEMENTS'' then normalizeArrangementCorrectionInput env input
      else if commandType \<noteq> ''ISSUE_TOKEN'' \<and> commandType \<noteq> ''ROTATE_TOKEN'' then Inr input
      else normalizeTokenInput env input)"

definition freezeCreateOrderOccupantIds :: "(nat \<Rightarrow> string) \<Rightarrow> string \<Rightarrow> json_object \<Rightarrow> json_object" where
  "freezeCreateOrderOccupantIds occupantUuid commandType input =
     (if commandType \<noteq> ''CREATE_ORDER'' then input
      else let additionalCount = length (arrayOf (prop_of input ''additionalGuests'')) in
        jmap_set ''_occupantIds'' (JArr (map (\<lambda>i. JStr (newId ''occupant'' (occupantUuid i))) [0..<additionalCount + 1])) input)"

definition executionLockKey :: "string \<Rightarrow> string \<Rightarrow> string \<Rightarrow> string \<Rightarrow> string" where
  "executionLockKey subjectId propertyId commandType idempotencyKey =
     ''qintopia:command:'' @ subjectId @ '':'' @ propertyId @ '':'' @ commandType @ '':'' @ idempotencyKey"

section \<open>Transactions and locks\<close>

text \<open>A body that returns its result with the new store, or fails.\<close>

definition atomically ::
  "('s \<Rightarrow> ('a \<times> 's) command_result) \<Rightarrow> 's \<Rightarrow> 'a command_result \<times> 's" where
  "atomically body st = (case body st of Inl e \<Rightarrow> (Inl e, st) | Inr (x, st') \<Rightarrow> (Inr x, st'))"

abbreviation status_unknown :: "'a command_result" where
  "status_unknown \<equiv> Inl (Failed (Raised (DomainError COMMAND_STATUS_UNKNOWN 409 True)))"

text \<open>Another request holds the execution lock: authorize, then report the unknown status.\<close>

definition withExecutionLock ::
  "bool \<Rightarrow> unit command_result \<Rightarrow> ('s \<Rightarrow> 'a command_result \<times> 's) \<Rightarrow> 's \<Rightarrow> 'a command_result \<times> 's" where
  "withExecutionLock acquired authorizeWhenBusy work st =
     (if acquired then work st else (bindR authorizeWhenBusy (\<lambda>_. status_unknown), st))"

definition securityAuditRow :: "('b, 'e) command_env_scheme \<Rightarrow> denial \<Rightarrow> security_audit_row" where
  "securityAuditRow env d =
     (let p = dn_principal d in
      \<lparr>sa_propertyId = dn_propertyId d, sa_subjectId = ap_subjectId p, sa_commandType = dn_commandType d,
       sa_stage = dn_stage d, sa_denialReason = dn_reason d, sa_credentialType = ap_credentialType p,
       sa_credentialFingerprint = digest env ((if ap_credentialType p = TOKEN then ''TOKEN:'' else ''SESSION:'') @ ap_credentialId p),
       sa_correlationId = (case dn_correlationId d of None \<Rightarrow> [] | Some c \<Rightarrow> trim c),
       sa_idempotencyKeyHash = digest env (case dn_idempotencyKey d of None \<Rightarrow> [] | Some k \<Rightarrow> trim k)\<rparr>)"

definition withCommandAuthorizationAudit ::
  "('b, 'e) command_env_scheme \<Rightarrow> ('b command_store \<Rightarrow> 'a command_result \<times> 'b command_store)
     \<Rightarrow> 'b command_store \<Rightarrow> 'a command_result \<times> 'b command_store" where
  "withCommandAuthorizationAudit env work st =
     (case work st of
        (Inl (AuthorizationDenied d), st') \<Rightarrow>
          (Inl (AuthorizationDenied d), st'\<lparr>t_securityAudit := t_securityAudit st' @ [securityAuditRow env d]\<rparr>)
      | r \<Rightarrow> r)"

section \<open>Writing the protocol tables\<close>

text \<open>\<^verbatim>\<open>onConflict(subject, property, type, key).doNothing().returning("id")\<close>\<close>

definition insertExecution ::
  "execution_row \<Rightarrow> 'b command_store \<Rightarrow> (bool \<times> 'b command_store) command_result" where
  "insertExecution row st =
     (if findExecution st (ex_subjectId row) (ex_propertyId row) (ex_commandType row) (ex_idempotencyKey row) \<noteq> None
      then Inr (False, st)
      else if list_ex (\<lambda>e. ex_id e = ex_id row) (t_executions st) then crash
      else Inr (True, st\<lparr>t_executions := t_executions st @ [row]\<rparr>))"

definition setExecutionState :: "string \<Rightarrow> execution_state \<Rightarrow> 'b command_store \<Rightarrow> 'b command_store" where
  "setExecutionState commandId s st =
     st\<lparr>t_executions := updateWhere (\<lambda>e. ex_id e = commandId) (\<lambda>e. e\<lparr>ex_state := s\<rparr>) (t_executions st)\<rparr>"

definition insertPreview :: "preview_row \<Rightarrow> 'b command_store \<Rightarrow> 'b command_store command_result" where
  "insertPreview row st =
     (if list_ex (\<lambda>p. pv_id p = pv_id row) (t_previews st) then crash
      else Inr (st\<lparr>t_previews := t_previews st @ [row]\<rparr>))"

definition insertReceipt :: "receipt_row \<Rightarrow> 'b command_store \<Rightarrow> 'b command_store command_result" where
  "insertReceipt row st =
     (if list_ex (\<lambda>r. rc_id r = rc_id row \<or> rc_commandId r = rc_commandId row) (t_receipts st) then crash
      else Inr (st\<lparr>t_receipts := t_receipts st @ [row]\<rparr>))"

definition insertAudit :: "audit_row \<Rightarrow> 'b command_store \<Rightarrow> 'b command_store command_result" where
  "insertAudit row st =
     (if list_ex (\<lambda>a. au_id a = au_id row) (t_audit st) then crash
      else Inr (st\<lparr>t_audit := t_audit st @ [row]\<rparr>))"

definition refs :: "string list \<Rightarrow> json" where
  "refs ids = JArr (map JStr ids)"

definition executedReceipt :: "string \<Rightarrow> string \<Rightarrow> int \<Rightarrow> json \<Rightarrow> string list \<Rightarrow> string list \<Rightarrow> receipt_row" where
  "executedReceipt receiptId commandId now result resourceRefs factRefs =
     \<lparr>rc_id = receiptId, rc_commandId = commandId, rc_executionStatus = EXECUTED, rc_businessCommitted = True,
      rc_result = result, rc_error = None, rc_resourceRefs = refs resourceRefs, rc_factRefs = refs factRefs,
      rc_committedAt = now, rc_createdAt = now\<rparr>"

definition rejectedReceipt :: "string \<Rightarrow> string \<Rightarrow> int \<Rightarrow> error_dto \<Rightarrow> receipt_row" where
  "rejectedReceipt receiptId commandId now err =
     \<lparr>rc_id = receiptId, rc_commandId = commandId, rc_executionStatus = NOT_EXECUTED, rc_businessCommitted = False,
      rc_result = JNull, rc_error = Some err, rc_resourceRefs = refs [], rc_factRefs = refs [],
      rc_committedAt = now, rc_createdAt = now\<rparr>"

text \<open>The receipt that was just written, read back.\<close>

definition persistedReceipt ::
  "('b, 'e) command_env_scheme \<Rightarrow> string \<Rightarrow> 'b command_store \<Rightarrow> (receipt_dto \<times> 'b command_store) command_result" where
  "persistedReceipt env commandId st =
     bindR (liftR (receiptByCommand env st commandId False)) (\<lambda>receipt.
       case receipt of None \<Rightarrow> failWith INTERNAL_ERROR 500 | Some r \<Rightarrow> Inr (r, st))"

text \<open>The end of every transaction that records a command: the receipt, the audit entry, the receipt as it reads.\<close>

definition recordCommand ::
  "('b, 'e) command_env_scheme \<Rightarrow> receipt_row \<Rightarrow> audit_row \<Rightarrow> 'b command_store \<Rightarrow> (receipt_dto \<times> 'b command_store) command_result" where
  "recordCommand env rc au st =
     bindR (insertReceipt rc st) (\<lambda>st. bindR (insertAudit au st) (\<lambda>st. persistedReceipt env (rc_commandId rc) st))"

text \<open>The replay of a concurrent request that took the key first.\<close>

definition concurrentReplay ::
  "('b, 'e) command_env_scheme \<Rightarrow> 'b command_store \<Rightarrow> string \<Rightarrow> string \<Rightarrow> string \<Rightarrow> string \<Rightarrow> string
     \<Rightarrow> receipt_dto command_result" where
  "concurrentReplay env st subjectId propertyId commandType idempotencyKey requestHash =
     bindR (liftR (replayOrConflict env st subjectId propertyId commandType idempotencyKey requestHash)) (\<lambda>replay.
       case replay of Some r \<Rightarrow> Inr r | None \<Rightarrow> status_unknown)"

section \<open>Previews\<close>

definition authOptions ::
  "string \<Rightarrow> string \<Rightarrow> authorization_stage \<Rightarrow> string \<Rightarrow> string option \<Rightarrow> authorization_mode
     \<Rightarrow> token_lifecycle_constraint option \<Rightarrow> authorization_options" where
  "authOptions propertyId commandType stage idempotencyKey correlationId mode constraint =
     \<lparr>ao_propertyId = propertyId, ao_commandType = commandType, ao_stage = stage, ao_idempotencyKey = Some idempotencyKey,
      ao_correlationId = correlationId, ao_mode = mode, ao_tokenLifecycleConstraint = constraint\<rparr>"

definition objectProp :: "receipt_dto \<Rightarrow> string \<Rightarrow> json_object option" where
  "objectProp receipt k = (case rd_result receipt of None \<Rightarrow> None | Some result \<Rightarrow> asObject (prop_of result k))"

definition previewFromReceipt :: "receipt_dto \<Rightarrow> json_object command_result" where
  "previewFromReceipt receipt =
     (case objectProp receipt ''preview'' of None \<Rightarrow> failWith INTERNAL_ERROR 500 | Some preview \<Rightarrow> Inr preview)"

text \<open>\<^verbatim>\<open>Date.prototype.toISOString\<close> of a time in milliseconds.\<close>

definition isoInstant :: "int \<Rightarrow> string" where
  "isoInstant t =
     (let day = t div 86400000; ms = t mod 86400000 in
      toISODate day @ ''T'' @ padStart 2 (ms div 3600000) @ '':'' @ padStart 2 (ms div 60000 mod 60) @ '':''
        @ padStart 2 (ms div 1000 mod 60) @ ''.'' @ padStart 3 (ms mod 1000) @ ''Z'')"

definition executionRow ::
  "string \<Rightarrow> auth_principal \<Rightarrow> string \<Rightarrow> string \<Rightarrow> string \<Rightarrow> string \<Rightarrow> string \<Rightarrow> execution_state \<Rightarrow> execution_row" where
  "executionRow commandId who propertyId commandType idempotencyKey requestHash correlationId s =
     \<lparr>ex_id = commandId, ex_subjectId = ap_subjectId who, ex_credentialId = ap_credentialId who,
      ex_propertyId = propertyId, ex_commandType = commandType, ex_idempotencyKey = idempotencyKey,
      ex_requestHash = requestHash, ex_correlationId = correlationId, ex_state = s\<rparr>"

text \<open>The preview of a command whose key is new: its row, the applied execution, the receipt and the audit entry.\<close>

definition writePreview ::
  "('b, 'e) command_env_scheme \<Rightarrow> call_context \<Rightarrow> auth_principal \<Rightarrow> string \<Rightarrow> json_object \<Rightarrow> json_object \<Rightarrow> built_effect
     \<Rightarrow> string \<Rightarrow> string \<Rightarrow> 'b command_store \<Rightarrow> ((json_object \<times> receipt_dto) \<times> 'b command_store) command_result" where
  "writePreview env ctx who commandType input frozenInput built commandId correlationId st =
     (let previewId = newIdIn (ctx_uuid ctx) ''preview''; expiresAt = ctx_now ctx + ctx_previewTtlSeconds ctx * 1000;
          preview = [(''previewId'', JStr previewId), (''commandType'', JStr commandType), (''effectHash'', JStr (be_effectHash built)),
            (''effect'', JObj (be_effect built)), (''expiresAt'', JStr (isoInstant expiresAt))] in
      bindR (insertPreview \<lparr>pv_id = previewId, pv_subjectId = ap_subjectId who, pv_propertyId = be_propertyId built,
          pv_commandType = commandType, pv_normalizedInput = JObj frozenInput, pv_inputHash = hashOf env (JObj input),
          pv_effect = JObj (be_effect built), pv_effectHash = be_effectHash built, pv_basisVersions = be_basisVersions built,
          pv_expiresAt = expiresAt, pv_status = OPEN, pv_createdAt = ctx_now ctx\<rparr> st) (\<lambda>st.
      bindR (recordCommand env (executedReceipt (newIdIn (ctx_uuid ctx) ''receipt'') commandId (ctx_now ctx)
          (JObj [(''preview'', JObj preview)]) [previewId] [])
          \<lparr>au_id = newIdIn (ctx_uuid ctx) ''audit'', au_subjectId = ap_subjectId who,
          au_credentialId = ap_credentialId who, au_action = ''PREVIEW:'' @ commandType, au_allowed = True,
          au_commandId = commandId, au_correlationId = correlationId, au_reason = None, au_targetRefs = refs [previewId],
          au_metadata = JObj [(''effectHash'', JStr (be_effectHash built))]\<rparr>
          (setExecutionState commandId APPLIED st)) (\<lambda>(receipt, st). Inr ((preview, receipt), st))))"

definition refundReconciliation :: "string \<Rightarrow> json_object \<Rightarrow> bool" where
  "refundReconciliation commandType input \<longleftrightarrow>
     commandType = ''RECORD_REFUND'' \<and> prop_of input ''reconciliation'' \<noteq> JUndefined"

definition previewTransaction ::
  "('b, 'e) command_env_scheme \<Rightarrow> call_context \<Rightarrow> auth_principal \<Rightarrow> string \<Rightarrow> json_object \<Rightarrow> string \<Rightarrow> string \<Rightarrow> string
     \<Rightarrow> 'b command_store \<Rightarrow> ((json_object \<times> receipt_dto) \<times> 'b command_store) command_result" where
  "previewTransaction env ctx who commandType input propertyId idempotencyKey correlationId st =
     (let executionType = ''PREVIEW:'' @ commandType; subjectId = ap_subjectId who;
          requestHash = hashOf env (JObj [(''commandType'', JStr commandType), (''input'', JObj input)]);
          authorize = (\<lambda>c constraint. authorizeCommandAccess env (business st) who
            (authOptions propertyId c STAGE_PREVIEW idempotencyKey (Some correlationId) EXECUTE constraint)) in
      bindR (authorize commandType (tokenLifecycleAuthorizationConstraint commandType input)) (\<lambda>_.
      bindR (if refundReconciliation commandType input then authorize ''RECORD_COLLECTION'' None else Inr ()) (\<lambda>_.
      bindR (liftR (replayOrConflict env st subjectId propertyId executionType idempotencyKey requestHash)) (\<lambda>replay.
      case replay of Some r \<Rightarrow> bindR (previewFromReceipt r) (\<lambda>preview. Inr ((preview, r), st))
      | None \<Rightarrow>
        let frozenInput = freezeCreateOrderOccupantIds (ctx_occupantUuid ctx) commandType input in
        bindR (buildCommandEffect env (business st) commandType (JObj frozenInput) False) (\<lambda>built.
        bindR (assertTokenExpiryCeiling env (business st) who (be_propertyId built) commandType (be_effect built)
            STAGE_PREVIEW idempotencyKey correlationId) (\<lambda>_.
        bindR (assertTokenCommandCeiling env (business st) who (be_propertyId built) commandType (be_effect built)
            STAGE_PREVIEW idempotencyKey correlationId) (\<lambda>_.
        let commandId = newIdIn (ctx_uuid ctx) ''command'' in
        bindR (insertExecution (executionRow commandId who (be_propertyId built) executionType idempotencyKey requestHash
            correlationId EXECUTING) st) (\<lambda>(inserted, st').
        if \<not> inserted then
          bindR (concurrentReplay env st' subjectId (be_propertyId built) executionType idempotencyKey requestHash) (\<lambda>r.
          bindR (previewFromReceipt r) (\<lambda>preview. Inr ((preview, r), st')))
        else writePreview env ctx who commandType input frozenInput built commandId correlationId st'))))))))"

definition createCommandPreview ::
  "('b, 'e) command_env_scheme \<Rightarrow> call_context \<Rightarrow> auth_principal \<Rightarrow> string \<Rightarrow> json_object \<Rightarrow> string option \<Rightarrow> string option
     \<Rightarrow> 'b command_store \<Rightarrow> (json_object \<times> receipt_dto) command_result \<times> 'b command_store" where
  "createCommandPreview env ctx who commandType input0 idempotencyKey0 correlationId0 st =
     (case liftR (bindR (assertWriteMetadata idempotencyKey0 correlationId0) (\<lambda>headers.
             if \<not> isExecutableCommandType commandType then validation_error
             else bindR (normalizeCommandEnvelope env commandType input0) (\<lambda>input.
               case strOf (prop_of input ''propertyId'') of None \<Rightarrow> validation_error
               | Some propertyId \<Rightarrow> if propertyId = [] then validation_error else Inr (headers, input, propertyId)))) of
        Inl e \<Rightarrow> (Inl e, st)
      | Inr ((idempotencyKey, correlationId), input, propertyId) \<Rightarrow>
        withCommandAuthorizationAudit env (\<lambda>st.
          withExecutionLock (ctx_acquired ctx)
            (authorizeCommandAccess env (business st) who (authOptions propertyId commandType STAGE_PREVIEW idempotencyKey
               (Some correlationId) EXECUTE (tokenLifecycleAuthorizationConstraint commandType input)))
            (atomically (previewTransaction env ctx who commandType input propertyId idempotencyKey correlationId)) st) st)"

section \<open>Rejections\<close>

fun errorCodeName :: "error_code \<Rightarrow> string" where
  "errorCodeName CURSOR_EXPIRED = ''CURSOR_EXPIRED''"
| "errorCodeName AUTHENTICATION_REQUIRED = ''AUTHENTICATION_REQUIRED''"
| "errorCodeName INVALID_CREDENTIALS = ''INVALID_CREDENTIALS''"
| "errorCodeName TOKEN_EXPIRED = ''TOKEN_EXPIRED''"
| "errorCodeName TOKEN_REVOKED = ''TOKEN_REVOKED''"
| "errorCodeName SUBJECT_DISABLED = ''SUBJECT_DISABLED''"
| "errorCodeName INSUFFICIENT_ACCESS = ''INSUFFICIENT_ACCESS''"
| "errorCodeName RESOURCE_SCOPE_DENIED = ''RESOURCE_SCOPE_DENIED''"
| "errorCodeName IDEMPOTENCY_KEY_REQUIRED = ''IDEMPOTENCY_KEY_REQUIRED''"
| "errorCodeName CORRELATION_ID_REQUIRED = ''CORRELATION_ID_REQUIRED''"
| "errorCodeName IDEMPOTENCY_KEY_REUSED = ''IDEMPOTENCY_KEY_REUSED''"
| "errorCodeName PREVIEW_REQUIRED = ''PREVIEW_REQUIRED''"
| "errorCodeName PREVIEW_NOT_FOUND = ''PREVIEW_NOT_FOUND''"
| "errorCodeName PREVIEW_STALE = ''PREVIEW_STALE''"
| "errorCodeName PREVIEW_ALREADY_USED = ''PREVIEW_ALREADY_USED''"
| "errorCodeName CONFIRMATION_REQUIRED = ''CONFIRMATION_REQUIRED''"
| "errorCodeName CONFIRMATION_MISMATCH = ''CONFIRMATION_MISMATCH''"
| "errorCodeName REASON_REQUIRED = ''REASON_REQUIRED''"
| "errorCodeName AGGREGATE_VERSION_CONFLICT = ''AGGREGATE_VERSION_CONFLICT''"
| "errorCodeName INVENTORY_CONFLICT = ''INVENTORY_CONFLICT''"
| "errorCodeName ENTITLEMENT_CONFLICT = ''ENTITLEMENT_CONFLICT''"
| "errorCodeName INVALID_ORDER_STATE = ''INVALID_ORDER_STATE''"
| "errorCodeName CROSS_ORDER_FACT_REFERENCE = ''CROSS_ORDER_FACT_REFERENCE''"
| "errorCodeName FACT_ALREADY_REVERSED = ''FACT_ALREADY_REVERSED''"
| "errorCodeName REFUND_LIMIT_EXCEEDED = ''REFUND_LIMIT_EXCEEDED''"
| "errorCodeName PRICING_POLICY_UNCONFIGURED = ''PRICING_POLICY_UNCONFIGURED''"
| "errorCodeName POLICY_VERSION_NOT_FOUND = ''POLICY_VERSION_NOT_FOUND''"
| "errorCodeName QUOTE_EXPIRED = ''QUOTE_EXPIRED''"
| "errorCodeName VALIDATION_ERROR = ''VALIDATION_ERROR''"
| "errorCodeName NOT_FOUND = ''NOT_FOUND''"
| "errorCodeName COMMAND_STATUS_UNKNOWN = ''COMMAND_STATUS_UNKNOWN''"
| "errorCodeName COMMAND_INTERRUPTED = ''COMMAND_INTERRUPTED''"
| "errorCodeName RATE_LIMITED = ''RATE_LIMITED''"
| "errorCodeName SERVICE_NOT_READY = ''SERVICE_NOT_READY''"
| "errorCodeName INTERNAL_ERROR = ''INTERNAL_ERROR''"

definition retryableSqlStates :: "string list" where
  "retryableSqlStates = [''40001'', ''40P01'', ''55P03'', ''57014'']"

definition sqlStateShape :: "string \<Rightarrow> bool" where
  "sqlStateShape s \<longleftrightarrow> length s = 5 \<and> list_all (\<lambda>c. isDigit c \<or> CHR ''A'' \<le> c \<and> c \<le> CHR ''Z'') s"

definition constraintShape :: "string \<Rightarrow> bool" where
  "constraintShape s \<longleftrightarrow> s \<noteq> [] \<and> CHR ''a'' \<le> hd s \<and> hd s \<le> CHR ''z'' \<and> length s \<le> 63 \<and>
     list_all (\<lambda>c. CHR ''a'' \<le> c \<and> c \<le> CHR ''z'' \<or> isDigit c \<or> c = CHR ''_'') (tl s)"

datatype failure_category = TRANSIENT_FAILURE | CONSTRAINT_FAILURE | UNEXPECTED_FAILURE

record failure_diagnostic =
  fd_sqlState :: "string option"
  fd_constraint :: "string option"
  fd_category :: failure_category

text \<open>The string fields \<^verbatim>\<open>code\<close> and \<^verbatim>\<open>constraint\<close> of the exception.\<close>

definition classifyTransactionFailure :: "string option \<times> string option \<Rightarrow> failure_diagnostic \<times> domain_error" where
  "classifyTransactionFailure err =
     (let sqlState = (case fst err of Some s \<Rightarrow> if sqlStateShape s then Some s else None | None \<Rightarrow> None);
          integrity = (case sqlState of Some s \<Rightarrow> startsWith s ''23'' | None \<Rightarrow> False);
          violated = (case snd err of Some s \<Rightarrow> if integrity \<and> constraintShape s then Some s else None | None \<Rightarrow> None);
          retry = (case sqlState of Some s \<Rightarrow> s \<in> set retryableSqlStates | None \<Rightarrow> False) in
      (\<lparr>fd_sqlState = sqlState, fd_constraint = violated,
        fd_category = (if retry then TRANSIENT_FAILURE else if integrity then CONSTRAINT_FAILURE else UNEXPECTED_FAILURE)\<rparr>,
       DomainError COMMAND_INTERRUPTED 409 retry))"

definition reportTransactionFailure :: "string option \<times> string option \<Rightarrow> domain_error" where
  "reportTransactionFailure err = snd (classifyTransactionFailure err)"

definition closePreview :: "string \<Rightarrow> string \<Rightarrow> string \<Rightarrow> string \<Rightarrow> 'b command_store \<Rightarrow> 'b command_store" where
  "closePreview previewId subjectId propertyId commandType st =
     st\<lparr>t_previews := updateWhere (\<lambda>p. pv_id p = previewId \<and> pv_subjectId p = subjectId \<and> pv_propertyId p = propertyId
           \<and> pv_commandType p = commandType \<and> pv_status p = OPEN) (\<lambda>p. p\<lparr>pv_status := EXPIRED\<rparr>) (t_previews st)\<rparr>"

definition persistRejected ::
  "('b, 'e) command_env_scheme \<Rightarrow> call_context \<Rightarrow> auth_principal \<Rightarrow> string \<Rightarrow> string \<Rightarrow> string \<Rightarrow> string \<Rightarrow> string
     \<Rightarrow> command_reason option \<Rightarrow> domain_error \<Rightarrow> bool \<Rightarrow> string option \<Rightarrow> 'b command_store
     \<Rightarrow> (receipt_dto \<times> 'b command_store) command_result" where
  "persistRejected env ctx who propertyId commandType idempotencyKey correlationId requestHash reason err replayExisting
      closePreviewId st =
     (let subjectId = ap_subjectId who; commandId = newIdIn (ctx_rejectUuid ctx) ''command'';
          receiptId = newIdIn (ctx_rejectUuid ctx) ''receipt'';
          st1 = (case closePreviewId of None \<Rightarrow> st
                 | Some previewId \<Rightarrow> if previewId = [] then st else closePreview previewId subjectId propertyId commandType st) in
      bindR (insertExecution (executionRow commandId who propertyId commandType idempotencyKey requestHash correlationId
          REJECTED) st1) (\<lambda>(inserted, st2).
      if \<not> inserted then
        (if \<not> replayExisting then Inl (Failed (Raised err))
         else bindR (concurrentReplay env st2 subjectId propertyId commandType idempotencyKey requestHash) (\<lambda>r. Inr (r, st2)))
      else
        recordCommand env (rejectedReceipt receiptId commandId (ctx_now ctx) \<lparr>er_code = code err,
            er_correlationId = correlationId, er_retryable = retryable err, er_commandId = commandId, er_receiptId = receiptId\<rparr>)
          \<lparr>au_id = newIdIn (ctx_rejectUuid ctx) ''audit'', au_subjectId = subjectId,
            au_credentialId = ap_credentialId who, au_action = commandType, au_allowed = False, au_commandId = commandId,
            au_correlationId = correlationId, au_reason = reason, au_targetRefs = refs [],
            au_metadata = JObj [(''errorCode'', JStr (errorCodeName (code err)))]\<rparr>
          st2))"

section \<open>Confirmations\<close>

record confirm_request =
  cf_propertyId :: "string option"
  cf_commandType :: string
  cf_confirmation :: bool
  cf_expectedEffectHash :: "string option"
  cf_reason :: "command_reason option"

definition optionalField :: "string \<Rightarrow> string option \<Rightarrow> json_object" where
  "optionalField k v = (case v of None \<Rightarrow> [] | Some s \<Rightarrow> [(k, JStr s)])"

definition confirmRequestJson :: "confirm_request \<Rightarrow> json" where
  "confirmRequestJson conf = JObj (optionalField ''propertyId'' (cf_propertyId conf)
     @ [(''commandType'', JStr (cf_commandType conf)), (''confirmation'', JBool (cf_confirmation conf))]
     @ optionalField ''expectedEffectHash'' (cf_expectedEffectHash conf)
     @ (case cf_reason conf of None \<Rightarrow> []
        | Some r \<Rightarrow> [(''reason'', JObj (optionalField ''code'' (rs_code r) @ optionalField ''note'' (rs_note r)))]))"

definition confirmationHash :: "('b, 'e) command_env_scheme \<Rightarrow> string \<Rightarrow> confirm_request \<Rightarrow> string" where
  "confirmationHash env previewId conf =
     hashOf env (JObj [(''previewId'', JStr previewId), (''confirmation'', confirmRequestJson conf)])"

text \<open>What every confirmation must carry: the flag, the expected hash and a structured reason.\<close>

definition assertConfirmation :: "string \<Rightarrow> confirm_request \<Rightarrow> command_reason result" where
  "assertConfirmation commandType conf =
     (if \<not> cf_confirmation conf then throw CONFIRMATION_REQUIRED 400
      else if \<not> present (cf_expectedEffectHash conf) then throw CONFIRMATION_MISMATCH 400
      else case cf_reason conf of None \<Rightarrow> throw REASON_REQUIRED 400
      | Some reason \<Rightarrow>
        if \<not> present (rs_code reason) \<or> commandType \<noteq> ''CREATE_ORDER'' \<and> \<not> present (rs_note reason)
        then throw REASON_REQUIRED 400
        else if commandType = ''CREATE_ORDER'' \<and> the (rs_code reason) \<notin> set createOrderConfirmationReasonCodes
        then validation_error else Inr reason)"

definition findPreview :: "string \<Rightarrow> ('b, 'f) command_store_scheme \<Rightarrow> preview_row option" where
  "findPreview previewId st = find (\<lambda>p. pv_id p = previewId) (t_previews st)"

text \<open>The preview does not exist (any more): only a replay of the same request can be answered.\<close>

definition confirmWithoutPreview ::
  "('b, 'e) command_env_scheme \<Rightarrow> auth_principal \<Rightarrow> confirm_request \<Rightarrow> string \<Rightarrow> string \<Rightarrow> string \<Rightarrow> 'b command_store
     \<Rightarrow> (receipt_dto \<times> 'b command_store) command_result" where
  "confirmWithoutPreview env who conf idempotencyKey correlationId requestHash st =
     (let commandType = cf_commandType conf in
      if \<not> isExecutableCommandType commandType \<or> \<not> present (cf_propertyId conf) then liftR validation_error
      else let propertyId = trim (the (cf_propertyId conf)) in
        bindR (liftR (assertConfirmation commandType conf)) (\<lambda>_.
        bindR (authorizeCommandAccess env (business st) who
          (authOptions propertyId commandType REPLAY idempotencyKey (Some correlationId) READ_MODE None)) (\<lambda>_.
        bindR (liftR (replayOrConflict env st (ap_subjectId who) propertyId commandType idempotencyKey requestHash)) (\<lambda>replay.
        case replay of Some r \<Rightarrow> Inr (r, st) | None \<Rightarrow> failWith PREVIEW_NOT_FOUND 404))))"

definition preflight ::
  "('b, 'e) command_env_scheme \<Rightarrow> 'b \<Rightarrow> auth_principal \<Rightarrow> string \<Rightarrow> string \<Rightarrow> preview_row \<Rightarrow> string \<Rightarrow> string
     \<Rightarrow> unit command_result" where
  "preflight env b who propertyId commandType identity idempotencyKey correlationId =
     (case asObject (pv_normalizedInput identity) of None \<Rightarrow> failWith INTERNAL_ERROR 500
      | Some input \<Rightarrow>
        let authorize = (\<lambda>c constraint. authorizeCommandAccess env b who
              (authOptions propertyId c STAGE_CONFIRM idempotencyKey (Some correlationId) EXECUTE constraint)) in
        bindR (authorize commandType (tokenLifecycleAuthorizationConstraint commandType input)) (\<lambda>_.
        bindR (if refundReconciliation commandType input then authorize ''RECORD_COLLECTION'' None else Inr ()) (\<lambda>_.
        case asObject (pv_effect identity) of None \<Rightarrow> failWith INTERNAL_ERROR 500
        | Some effect \<Rightarrow>
          bindR (assertTokenExpiryCeiling env b who propertyId commandType effect STAGE_CONFIRM idempotencyKey correlationId) (\<lambda>_.
          assertTokenCommandCeiling env b who propertyId commandType effect STAGE_CONFIRM idempotencyKey correlationId))))"

definition assertCompleteStayReason :: "json_object \<Rightarrow> command_reason \<Rightarrow> unit result" where
  "assertCompleteStayReason effect reason =
     (let lockedReason = (case strOf (prop_of effect ''reasonNote'') of Some s \<Rightarrow> trim s | None \<Rightarrow> []) in
      if rs_code reason \<noteq> Some ''COMPLETE_STAY'' \<or> lockedReason = [] then throw CONFIRMATION_MISMATCH 409
      else case rs_note reason of None \<Rightarrow> uncaught
      | Some note \<Rightarrow> if trim note \<noteq> lockedReason then throw CONFIRMATION_MISMATCH 409 else Inr ())"

text \<open>The locked preview: open, not expired, not of a historical protocol, and confirmed with its own reason and hash.\<close>

definition usablePreview ::
  "('b, 'e) command_env_scheme \<Rightarrow> call_context \<Rightarrow> 'b \<Rightarrow> string \<Rightarrow> confirm_request \<Rightarrow> command_reason \<Rightarrow> preview_row
     \<Rightarrow> json_object command_result" where
  "usablePreview env ctx b commandType conf reason preview =
     (if pv_status preview = EXPIRED then failWith PREVIEW_STALE 409
      else if pv_status preview \<noteq> OPEN then failWith PREVIEW_ALREADY_USED 409
      else if pv_expiresAt preview \<le> ctx_now ctx then failWith PREVIEW_STALE 409
      else case asObject (pv_effect preview) of None \<Rightarrow> failWith INTERNAL_ERROR 500
      | Some storedEffect \<Rightarrow> (case legacyEffectProtocol (pv_commandType preview) (JObj storedEffect) of
          Some v \<Rightarrow> bindR (liftR (assertHistoricalReadPredatesProtocolEpoch env b v (pv_createdAt preview)))
            (\<lambda>_. Inl HistoricalReadOnly)
        | None \<Rightarrow>
          bindR (liftR (if commandType = ''CREATE_ORDER'' then assertCreateOrderConfirmationReason storedEffect reason
                        else if commandType = ''COMPLETE_STAY'' then assertCompleteStayReason storedEffect reason
                        else Inr ())) (\<lambda>_.
          if cf_expectedEffectHash conf \<noteq> Some (pv_effectHash preview) then failWith CONFIRMATION_MISMATCH 409
          else Inr storedEffect)))"

definition staleCodes :: "error_code list" where
  "staleCodes = [INVENTORY_CONFLICT, ENTITLEMENT_CONFLICT, AGGREGATE_VERSION_CONFLICT, INVALID_ORDER_STATE, QUOTE_EXPIRED,
     FACT_ALREADY_REVERSED, REFUND_LIMIT_EXCEEDED]"

definition validationStaleCommands :: "string list" where
  "validationStaleCommands = [''CREATE_ORDER'', ''RESCHEDULE_STAY'', ''EXTEND_STAY'', ''SHORTEN_STAY'', ''MOVE_UNIT'', ''COMPLETE_STAY'',
     ''CONVERT_STAY_COLLECTIONS_TO_MEMBERSHIP'', ''CORRECT_HISTORICAL_STAY_ARRANGEMENTS'', ''CREATE_MEMBER'']"

definition basisChanged :: "string \<Rightarrow> error_code \<Rightarrow> bool" where
  "basisChanged commandType c \<longleftrightarrow>
     c \<in> set staleCodes
     \<or> isTokenLifecycleCommand commandType \<and> c = VALIDATION_ERROR
     \<or> commandType \<in> set validationStaleCommands \<and> c = VALIDATION_ERROR
     \<or> commandType \<in> {''MANAGE_ORDER_OCCUPANTS'', ''MANAGE_ROOM_CATALOG''} \<and> c \<in> {VALIDATION_ERROR, NOT_FOUND}
     \<or> commandType \<in> set memberCorrectionCommandTypes \<and> c = VALIDATION_ERROR"

definition staleOnChange :: "string \<Rightarrow> 'a command_result \<Rightarrow> 'a command_result" where
  "staleOnChange commandType r =
     (case r of Inr x \<Rightarrow> Inr x
      | Inl e \<Rightarrow> (case domainErrorOf e of
          Some d \<Rightarrow> if basisChanged commandType (code d) then failWith PREVIEW_STALE 409 else Inl e
        | None \<Rightarrow> Inl e))"

text \<open>
  The clock sampled for CREATE_ORDER, CHECK_IN and CHECK_OUT is read by the functions of the effect
  modules only, so it is part of the environment.
\<close>

definition rebuildAndApply ::
  "('b, 'e) command_env_scheme \<Rightarrow> auth_principal \<Rightarrow> string \<Rightarrow> string \<Rightarrow> preview_row \<Rightarrow> command_reason \<Rightarrow> string \<Rightarrow> string
     \<Rightarrow> string \<Rightarrow> 'b \<Rightarrow> (built_effect \<times> applied_command \<times> 'b) command_result" where
  "rebuildAndApply env who propertyId commandType preview reason commandId idempotencyKey correlationId b =
     bindR (staleOnChange commandType
       (bindR (buildCommandEffect env b commandType (pv_normalizedInput preview) True) (\<lambda>rebuilt.
        bindR (assertTokenExpiryCeiling env b who propertyId commandType (be_effect rebuilt) STAGE_CONFIRM
          idempotencyKey correlationId) (\<lambda>_.
        bindR (assertTokenCommandCeiling env b who propertyId commandType (be_effect rebuilt) STAGE_CONFIRM
          idempotencyKey correlationId) (\<lambda>_. Inr rebuilt))))) (\<lambda>rebuilt.
     if be_effectHash rebuilt \<noteq> pv_effectHash preview then failWith PREVIEW_STALE 409
     else
       bindR (liftR (applyCommand env b commandType (pv_normalizedInput preview) (be_effect rebuilt) reason commandId
         (pv_id preview))) (\<lambda>(applied, b).
       bindR (liftR (bindExternalPayments env b commandId (be_basisVersions rebuilt))) (\<lambda>b.
         Inr (rebuilt, applied, b))))"

definition refundReconciliationOperation :: string where
  "refundReconciliationOperation = ''RECONCILE_WECOM_REFUNDS''"

definition markPreviewUsed :: "string \<Rightarrow> 'b command_store \<Rightarrow> 'b command_store" where
  "markPreviewUsed previewId st =
     st\<lparr>t_previews := updateWhere (\<lambda>p. pv_id p = previewId) (\<lambda>p. p\<lparr>pv_status := USED\<rparr>) (t_previews st)\<rparr>"

definition finishConfirmation ::
  "('b, 'e) command_env_scheme \<Rightarrow> call_context \<Rightarrow> auth_principal \<Rightarrow> string \<Rightarrow> string \<Rightarrow> string \<Rightarrow> command_reason \<Rightarrow> json_object
     \<Rightarrow> built_effect \<Rightarrow> applied_command \<Rightarrow> string \<Rightarrow> string \<Rightarrow> 'b command_store
     \<Rightarrow> (receipt_dto \<times> 'b command_store) command_result" where
  "finishConfirmation env ctx who propertyId commandType previewId reason storedEffect rebuilt applied commandId correlationId st =
     (let strict = requiresStrictRecoveryEvidence commandType storedEffect in
      bindR (if strict then bindR (liftR (bindPersistedEffectHash env (business st) commandId commandType storedEffect
               (be_effectHash rebuilt))) (\<lambda>h. Inr (Some h)) else Inr None) (\<lambda>persistedEffectHash.
      bindR (if commandType \<in> set roomStatusVisibleCommands then liftR (bumpRoomStatusRevision env (business st) propertyId)
             else Inr (business st)) (\<lambda>b.
      let st1 = setExecutionState commandId APPLIED (markPreviewUsed previewId (st\<lparr>business := b\<rparr>));
          result = ac_persistedResult applied;
          persistedResult =
            (if prop_of (be_effect rebuilt) ''operation'' = JStr refundReconciliationOperation
             then jmap_set ''effectHash'' (JStr (be_effectHash rebuilt)) result
             else case persistedEffectHash of Some h \<Rightarrow> jmap_set ''effectHash'' (JStr h) result | None \<Rightarrow> result) in
      recordCommand env (executedReceipt (newIdIn (ctx_uuid ctx) ''receipt'') commandId (ctx_now ctx) (JObj persistedResult)
          (ac_resourceRefs applied) (ac_factRefs applied))
          \<lparr>au_id = newIdIn (ctx_uuid ctx) ''audit'', au_subjectId = ap_subjectId who,
          au_credentialId = ap_credentialId who, au_action = commandType, au_allowed = True, au_commandId = commandId,
          au_correlationId = correlationId, au_reason = Some reason, au_targetRefs = refs (ac_resourceRefs applied),
          au_metadata = JObj [(''previewId'', JStr previewId), (''effectHash'', JStr (be_effectHash rebuilt))]\<rparr>
          st1)))"

text \<open>The execution row is inserted: lock the preview, rebuild its effect, apply it and write the receipt.\<close>

definition applyPreview ::
  "('b, 'e) command_env_scheme \<Rightarrow> call_context \<Rightarrow> auth_principal \<Rightarrow> string \<Rightarrow> confirm_request \<Rightarrow> command_reason \<Rightarrow> string
     \<Rightarrow> string \<Rightarrow> string \<Rightarrow> string \<Rightarrow> string \<Rightarrow> 'b command_store \<Rightarrow> (receipt_dto \<times> 'b command_store) command_result" where
  "applyPreview env ctx who previewId conf reason propertyId commandType commandId idempotencyKey correlationId st =
     (case findPreview previewId st of None \<Rightarrow> failWith PREVIEW_NOT_FOUND 404
      | Some preview \<Rightarrow>
        if pv_subjectId preview \<noteq> ap_subjectId who
        then auditCommandResourceNotFound PREVIEW_NOT_FOUND who (pv_propertyId preview) (pv_commandType preview) STAGE_CONFIRM
               idempotencyKey correlationId
        else if pv_propertyId preview \<noteq> propertyId \<or> pv_commandType preview \<noteq> commandType then failWith INTERNAL_ERROR 500
        else
          bindR (usablePreview env ctx (business st) commandType conf reason preview) (\<lambda>storedEffect.
          bindR (liftR (lockCommandResources env (business st) commandType (pv_normalizedInput preview))) (\<lambda>b.
          bindR (rebuildAndApply env who propertyId commandType preview reason commandId idempotencyKey correlationId b)
            (\<lambda>(rebuilt, applied, b).
            finishConfirmation env ctx who propertyId commandType previewId reason storedEffect rebuilt applied commandId
              correlationId (st\<lparr>business := b\<rparr>)))))"

definition confirmTransaction ::
  "('b, 'e) command_env_scheme \<Rightarrow> call_context \<Rightarrow> auth_principal \<Rightarrow> string \<Rightarrow> confirm_request \<Rightarrow> string \<Rightarrow> string \<Rightarrow> string
     \<Rightarrow> string \<Rightarrow> string \<Rightarrow> 'b command_store \<Rightarrow> (receipt_dto \<times> 'b command_store) command_result" where
  "confirmTransaction env ctx who previewId conf propertyId commandType idempotencyKey correlationId requestHash st =
     (case findPreview previewId st of None \<Rightarrow> failWith PREVIEW_NOT_FOUND 404
      | Some identity \<Rightarrow>
        if pv_subjectId identity \<noteq> ap_subjectId who
        then auditCommandResourceNotFound PREVIEW_NOT_FOUND who (pv_propertyId identity) (pv_commandType identity) STAGE_CONFIRM
               idempotencyKey correlationId
        else
          bindR (preflight env (business st) who propertyId commandType identity idempotencyKey correlationId) (\<lambda>_.
          if map_option trim (cf_propertyId conf) \<noteq> Some propertyId \<or> cf_commandType conf \<noteq> commandType then Inl IdentityMismatch
          else
            bindR (liftR (assertConfirmation commandType conf)) (\<lambda>reason.
            bindR (liftR (replayOrConflict env st (ap_subjectId who) propertyId commandType idempotencyKey requestHash)) (\<lambda>replay.
            case replay of Some r \<Rightarrow> Inr (r, st)
            | None \<Rightarrow>
              let commandId = newIdIn (ctx_uuid ctx) ''command'' in
              bindR (insertExecution (executionRow commandId who propertyId commandType idempotencyKey requestHash correlationId
                EXECUTING) st) (\<lambda>(inserted, st1).
              if \<not> inserted then
                bindR (concurrentReplay env st1 (ap_subjectId who) propertyId commandType idempotencyKey requestHash)
                  (\<lambda>r. Inr (r, st1))
              else
                applyPreview env ctx who previewId conf reason propertyId commandType commandId idempotencyKey correlationId st1)))))"

text \<open>The failures of the transaction that leave no rejected execution behind.\<close>

definition leavesNoRejection :: "string \<Rightarrow> command_failure \<Rightarrow> bool" where
  "leavesNoRejection commandType e =
     (case e of AuthorizationDenied _ \<Rightarrow> True | IdentityMismatch \<Rightarrow> True
      | _ \<Rightarrow> (case domainErrorOf e of None \<Rightarrow> False
        | Some d \<Rightarrow> code d = PREVIEW_NOT_FOUND
            \<or> commandType = ''COMPLETE_CLEANING'' \<and> \<not> cleaningWorkflow currentReleaseFeatures \<and> code d = VALIDATION_ERROR))"

definition confirmFailure ::
  "('b, 'e) command_env_scheme \<Rightarrow> call_context \<Rightarrow> auth_principal \<Rightarrow> string \<Rightarrow> confirm_request \<Rightarrow> string \<Rightarrow> string \<Rightarrow> string
     \<Rightarrow> string \<Rightarrow> string \<Rightarrow> command_failure \<Rightarrow> 'b command_store \<Rightarrow> receipt_dto command_result \<times> 'b command_store" where
  "confirmFailure env ctx who previewId conf propertyId commandType idempotencyKey correlationId requestHash e st =
     (if leavesNoRejection commandType e then (Inl e, st)
      else
        let rejectionError = (case domainErrorOf e of Some d \<Rightarrow> d | None \<Rightarrow> reportTransactionFailure (ctx_driverError ctx)) in
        case atomically (persistRejected env ctx who propertyId commandType idempotencyKey correlationId requestHash
          (cf_reason conf) rejectionError False
          (if code rejectionError = PREVIEW_STALE \<and> e \<noteq> HistoricalReadOnly then Some previewId else None)) st of
          (Inl persistenceError, st') \<Rightarrow> (Inl (if domainErrorOf e = None then e else persistenceError), st')
        | r \<Rightarrow> r)"

definition confirmAttempt ::
  "('b, 'e) command_env_scheme \<Rightarrow> call_context \<Rightarrow> auth_principal \<Rightarrow> string \<Rightarrow> confirm_request \<Rightarrow> string \<Rightarrow> string \<Rightarrow> string
     \<Rightarrow> string \<Rightarrow> string \<Rightarrow> 'b command_store \<Rightarrow> receipt_dto command_result \<times> 'b command_store" where
  "confirmAttempt env ctx who previewId conf propertyId commandType idempotencyKey correlationId requestHash st =
     (case atomically (confirmTransaction env ctx who previewId conf propertyId commandType idempotencyKey correlationId
        requestHash) st of
        (Inl e, st') \<Rightarrow> confirmFailure env ctx who previewId conf propertyId commandType idempotencyKey correlationId requestHash e st'
      | r \<Rightarrow> r)"

definition confirmPreviewed ::
  "('b, 'e) command_env_scheme \<Rightarrow> call_context \<Rightarrow> auth_principal \<Rightarrow> string \<Rightarrow> confirm_request \<Rightarrow> string \<Rightarrow> string
     \<Rightarrow> string \<Rightarrow> 'b command_store \<Rightarrow> receipt_dto command_result \<times> 'b command_store" where
  "confirmPreviewed env ctx who previewId conf idempotencyKey correlationId requestHash st =
     (case findPreview previewId st of
        None \<Rightarrow> atomically (confirmWithoutPreview env who conf idempotencyKey correlationId requestHash) st
      | Some stored \<Rightarrow>
        let propertyId = pv_propertyId stored; commandType = pv_commandType stored in
        if \<not> isExecutableCommandType commandType then (failWith INTERNAL_ERROR 500, st)
        else if pv_subjectId stored \<noteq> ap_subjectId who
        then (auditCommandResourceNotFound PREVIEW_NOT_FOUND who propertyId commandType STAGE_CONFIRM idempotencyKey correlationId, st)
        else (case asObject (pv_normalizedInput stored) of None \<Rightarrow> (failWith INTERNAL_ERROR 500, st)
        | Some input \<Rightarrow>
          withExecutionLock (ctx_acquired ctx)
            (authorizeCommandAccess env (business st) who (authOptions propertyId commandType STAGE_CONFIRM idempotencyKey
               (Some correlationId) EXECUTE (tokenLifecycleAuthorizationConstraint commandType input)))
            (confirmAttempt env ctx who previewId conf propertyId commandType idempotencyKey correlationId requestHash) st))"

definition confirmCommandPreview ::
  "('b, 'e) command_env_scheme \<Rightarrow> call_context \<Rightarrow> auth_principal \<Rightarrow> string \<Rightarrow> confirm_request \<Rightarrow> string option \<Rightarrow> string option
     \<Rightarrow> 'b command_store \<Rightarrow> receipt_dto command_result \<times> 'b command_store" where
  "confirmCommandPreview env ctx who previewId conf idempotencyKey0 correlationId0 st =
     (case liftR (assertWriteMetadata idempotencyKey0 correlationId0) of
        Inl e \<Rightarrow> (Inl e, st)
      | Inr (idempotencyKey, correlationId) \<Rightarrow>
        withCommandAuthorizationAudit env
          (confirmPreviewed env ctx who previewId conf idempotencyKey correlationId (confirmationHash env previewId conf)) st)"

section \<open>Quotes\<close>

record quote_request =
  qr_propertyId :: "string option"
  qr_inventoryUnitId :: string
  qr_stayType :: "stay_type option"
  qr_arrivalDate :: string
  qr_departureDate :: string
  qr_pricingPolicyVersionId :: string
  qr_memberId :: "string option"
  qr_memberContractId :: "string option"
  qr_temporaryOtherRoom :: bool

fun stayTypeName :: "stay_type \<Rightarrow> string" where
  "stayTypeName TRANSIENT = ''TRANSIENT''"
| "stayTypeName WEEKLY = ''WEEKLY''"
| "stayTypeName MONTHLY = ''MONTHLY''"
| "stayTypeName CUSTOM = ''CUSTOM''"
| "stayTypeName FIXED_TERM = ''FIXED_TERM''"
| "stayTypeName ROLLING = ''ROLLING''"
| "stayTypeName FREE = ''FREE''"

definition truthy :: "string option \<Rightarrow> bool" where
  "truthy v \<longleftrightarrow> v \<noteq> None \<and> v \<noteq> Some []"

definition normalizeQuoteRequest :: "quote_request \<Rightarrow> (string \<times> json_object) result" where
  "normalizeQuoteRequest input =
     (if \<not> present (qr_propertyId input) then validation_error
      else
        let propertyId = trim (the (qr_propertyId input)) in
        bindR (enumerateServiceDates (qr_arrivalDate input) (qr_departureDate input)) (\<lambda>dates.
        bindR (paidStayTypeForNights (IntNum (int (length dates)))) (\<lambda>derived.
        if qr_stayType input \<noteq> None \<and> qr_stayType input \<noteq> Some FREE \<and> qr_stayType input \<noteq> Some derived
        then throw PRICING_POLICY_UNCONFIGURED 422
        else if truthy (qr_memberId input) \<and> truthy (qr_memberContractId input) then validation_error
        else Inr (propertyId,
          [(''propertyId'', JStr propertyId), (''inventoryUnitId'', JStr (qr_inventoryUnitId input)),
           (''stayType'', JStr (stayTypeName (if qr_stayType input = Some FREE then FREE else derived))),
           (''arrivalDate'', JStr (qr_arrivalDate input)), (''departureDate'', JStr (qr_departureDate input)),
           (''pricingPolicyVersionId'', JStr (qr_pricingPolicyVersionId input))]
          @ (if truthy (qr_memberId input) then optionalField ''memberId'' (qr_memberId input) else [])
          @ (if truthy (qr_memberContractId input) then optionalField ''memberContractId'' (qr_memberContractId input) else [])
          @ (if qr_temporaryOtherRoom input then [(''temporaryOtherRoom'', JBool True)] else [])))))"

definition quoteFromReceipt :: "('b, 'e) command_env_scheme \<Rightarrow> receipt_dto \<Rightarrow> json command_result" where
  "quoteFromReceipt env receipt =
     (case objectProp receipt ''quote'' of None \<Rightarrow> failWith INTERNAL_ERROR 500
      | Some quote \<Rightarrow> Inr (projectQuoteForExternalRead env (JObj quote)))"

definition existingQuoteCommand ::
  "('b, 'e) command_env_scheme \<Rightarrow> 'b command_store \<Rightarrow> auth_principal \<Rightarrow> string \<Rightarrow> string \<Rightarrow> string \<Rightarrow> string
     \<Rightarrow> (json \<times> receipt_dto) option command_result" where
  "existingQuoteCommand env st who propertyId idempotencyKey requestHash correlationId =
     bindR (authorizeCommandAccess env (business st) who
       (authOptions propertyId ''CREATE_QUOTE'' REPLAY idempotencyKey (Some correlationId) READ_MODE None)) (\<lambda>_.
     bindR (liftR (replayOrConflict env st (ap_subjectId who) propertyId ''CREATE_QUOTE'' idempotencyKey requestHash)) (\<lambda>replay.
     case replay of None \<Rightarrow> Inr None
     | Some r \<Rightarrow> bindR (quoteFromReceipt env r) (\<lambda>quote. Inr (Some (quote, r)))))"

definition quoteTransaction ::
  "('b, 'e) command_env_scheme \<Rightarrow> call_context \<Rightarrow> auth_principal \<Rightarrow> string \<Rightarrow> json_object \<Rightarrow> string \<Rightarrow> string \<Rightarrow> string
     \<Rightarrow> 'b command_store \<Rightarrow> ((json \<times> receipt_dto) \<times> 'b command_store) command_result" where
  "quoteTransaction env ctx who propertyId input idempotencyKey correlationId requestHash st =
     (let subjectId = ap_subjectId who; commandId = newIdIn (ctx_uuid ctx) ''command'' in
      bindR (authorizeCommandAccess env (business st) who
        (authOptions propertyId ''CREATE_QUOTE'' STAGE_COMMAND idempotencyKey (Some correlationId) READ_MODE None)) (\<lambda>_.
      bindR (liftR (replayOrConflict env st subjectId propertyId ''CREATE_QUOTE'' idempotencyKey requestHash)) (\<lambda>replay.
      case replay of Some r \<Rightarrow> bindR (quoteFromReceipt env r) (\<lambda>quote. Inr ((quote, r), st))
      | None \<Rightarrow>
        bindR (insertExecution (executionRow commandId who propertyId ''CREATE_QUOTE'' idempotencyKey requestHash correlationId
          EXECUTING) st) (\<lambda>(inserted, st1).
        if \<not> inserted then
          bindR (concurrentReplay env st1 subjectId propertyId ''CREATE_QUOTE'' idempotencyKey requestHash) (\<lambda>r.
          bindR (quoteFromReceipt env r) (\<lambda>quote. Inr ((quote, r), st1)))
        else
          bindR (liftR (createQuoteInTransaction env (business st1) input subjectId)) (\<lambda>(quote, quoteId, inputHash, b).
          let readableQuote = projectQuoteForExternalRead env quote in
          bindR (recordCommand env (executedReceipt (newIdIn (ctx_uuid ctx) ''receipt'') commandId (ctx_now ctx)
            (JObj [(''quote'', readableQuote)]) [quoteId] [])
          \<lparr>au_id = newIdIn (ctx_uuid ctx) ''audit'', au_subjectId = subjectId,
              au_credentialId = ap_credentialId who, au_action = ''CREATE_QUOTE'', au_allowed = True, au_commandId = commandId,
              au_correlationId = correlationId, au_reason = None, au_targetRefs = refs [quoteId],
              au_metadata = JObj [(''quoteInputHash'', JStr inputHash)]\<rparr>
          (setExecutionState commandId APPLIED (st1\<lparr>business := b\<rparr>))) (\<lambda>(receipt, st4). Inr ((readableQuote, receipt), st4)))))))"

definition withQuoteQuotaLock :: "bool \<Rightarrow> ('s \<Rightarrow> 'a command_result \<times> 's) \<Rightarrow> 's \<Rightarrow> 'a command_result \<times> 's" where
  "withQuoteQuotaLock acquired work st =
     (if acquired then work st else (Inl (Failed (Raised (DomainError RATE_LIMITED 429 True))), st))"

definition executeQuoteCommand ::
  "('b, 'e) command_env_scheme \<Rightarrow> call_context \<Rightarrow> auth_principal \<Rightarrow> quote_request \<Rightarrow> string option \<Rightarrow> string option
     \<Rightarrow> 'b command_store \<Rightarrow> (json \<times> receipt_dto) command_result \<times> 'b command_store" where
  "executeQuoteCommand env ctx who input idempotencyKey0 correlationId0 st =
     (case liftR (bindR (assertWriteMetadata idempotencyKey0 correlationId0) (\<lambda>headers.
             bindR (normalizeQuoteRequest input) (\<lambda>normalized. Inr (headers, normalized)))) of
        Inl e \<Rightarrow> (Inl e, st)
      | Inr ((idempotencyKey, correlationId), propertyId, normalizedInput) \<Rightarrow>
        let requestHash = hashOf env (JObj normalizedInput) in
        withCommandAuthorizationAudit env (\<lambda>st.
          withExecutionLock (ctx_acquired ctx)
            (authorizeCommandAccess env (business st) who
               (authOptions propertyId ''CREATE_QUOTE'' STAGE_COMMAND idempotencyKey (Some correlationId) READ_MODE None))
            (\<lambda>st. case existingQuoteCommand env st who propertyId idempotencyKey requestHash correlationId of
               Inl e \<Rightarrow> (Inl e, st)
             | Inr (Some replay) \<Rightarrow> (Inr replay, st)
             | Inr None \<Rightarrow> withQuoteQuotaLock (ctx_quotaAcquired ctx)
                 (atomically (quoteTransaction env ctx who propertyId normalizedInput idempotencyKey correlationId requestHash)) st)
            st) st)"

section \<open>Looking up and fencing the outcome of a request\<close>

datatype command_read = ReceiptRead receipt_dto | UnknownResult "string option" "string option"

definition visibleResult ::
  "('b, 'e) command_env_scheme \<Rightarrow> 'b command_store \<Rightarrow> execution_row \<Rightarrow> command_read command_result" where
  "visibleResult env st execution =
     bindR (liftR (receiptByCommand env st (ex_id execution) True)) (\<lambda>receipt.
       Inr (case receipt of Some r \<Rightarrow> ReceiptRead r
            | None \<Rightarrow> UnknownResult (Some (ex_id execution)) (Some (ex_correlationId execution))))"

text \<open>The owner check and the read authorization of an execution that was found by its identifier.\<close>

definition authorizeOwnExecution ::
  "('b, 'e) command_env_scheme \<Rightarrow> 'b \<Rightarrow> auth_principal \<Rightarrow> authorization_stage \<Rightarrow> execution_row \<Rightarrow> unit command_result" where
  "authorizeOwnExecution env b who stage execution =
     (if ex_subjectId execution \<noteq> ap_subjectId who
      then auditCommandResourceNotFound NOT_FOUND who (ex_propertyId execution) (ex_commandType execution) stage
             (ex_idempotencyKey execution) (ex_correlationId execution)
      else authorizeCommandAccess env b who (authOptions (ex_propertyId execution) (ex_commandType execution) stage
             (ex_idempotencyKey execution) (Some (ex_correlationId execution)) READ_MODE None))"

definition executionOfReceipt :: "string \<Rightarrow> ('b, 'f) command_store_scheme \<Rightarrow> execution_row option" where
  "executionOfReceipt receiptId st =
     (case find (\<lambda>r. rc_id r = receiptId) (t_receipts st) of None \<Rightarrow> None
      | Some r \<Rightarrow> find (\<lambda>e. ex_id e = rc_commandId r) (t_executions st))"

definition getReceipt ::
  "('b, 'e) command_env_scheme \<Rightarrow> auth_principal \<Rightarrow> string \<Rightarrow> 'b command_store
     \<Rightarrow> receipt_dto command_result \<times> 'b command_store" where
  "getReceipt env who receiptId =
     withCommandAuthorizationAudit env (atomically (\<lambda>st.
       case executionOfReceipt receiptId st of None \<Rightarrow> failWith NOT_FOUND 404
       | Some command \<Rightarrow>
         bindR (authorizeOwnExecution env (business st) who STAGE_RECEIPT command) (\<lambda>_.
         bindR (liftR (receiptByCommand env st (ex_id command) True)) (\<lambda>receipt.
         case receipt of None \<Rightarrow> failWith NOT_FOUND 404 | Some r \<Rightarrow> Inr (r, st)))))"

definition getCommand ::
  "('b, 'e) command_env_scheme \<Rightarrow> auth_principal \<Rightarrow> string \<Rightarrow> 'b command_store
     \<Rightarrow> command_read command_result \<times> 'b command_store" where
  "getCommand env who commandId =
     withCommandAuthorizationAudit env (atomically (\<lambda>st.
       case find (\<lambda>e. ex_id e = commandId) (t_executions st) of None \<Rightarrow> failWith NOT_FOUND 404
       | Some command \<Rightarrow>
         bindR (authorizeOwnExecution env (business st) who STAGE_COMMAND command) (\<lambda>_.
         bindR (visibleResult env st command) (\<lambda>r. Inr (r, st)))))"

definition findCommandResult ::
  "('b, 'e) command_env_scheme \<Rightarrow> auth_principal \<Rightarrow> string \<Rightarrow> string \<Rightarrow> string \<Rightarrow> 'b command_store
     \<Rightarrow> command_read command_result \<times> 'b command_store" where
  "findCommandResult env who propertyId commandType idempotencyKey st =
     (let normalizedKey = trim idempotencyKey in
      if normalizedKey = [] then (liftR validation_error, st)
      else withCommandAuthorizationAudit env (atomically (\<lambda>st.
        bindR (authorizeCommandAccess env (business st) who (authOptions propertyId commandType FIND normalizedKey None READ_MODE None))
          (\<lambda>_. case findExecution st (ap_subjectId who) propertyId commandType normalizedKey of
             None \<Rightarrow> Inr (UnknownResult None None, st)
           | Some execution \<Rightarrow> bindR (visibleResult env st execution) (\<lambda>r. Inr (r, st))))) st)"

definition fenceHash :: "('b, 'e) command_env_scheme \<Rightarrow> string \<Rightarrow> string \<Rightarrow> string \<Rightarrow> string \<Rightarrow> string" where
  "fenceHash env subjectId propertyId commandType idempotencyKey =
     hashOf env (JObj [(''protocol'', JStr ''COMMAND_RESULT_RESOLUTION_FENCE_V1''), (''subjectId'', JStr subjectId),
       (''propertyId'', JStr propertyId), (''commandType'', JStr commandType), (''idempotencyKey'', JStr idempotencyKey)])"

text \<open>Close the key: a rejected execution whose request hash no request has.\<close>

definition writeFence ::
  "('b, 'e) command_env_scheme \<Rightarrow> call_context \<Rightarrow> auth_principal \<Rightarrow> string \<Rightarrow> string \<Rightarrow> string \<Rightarrow> string \<Rightarrow> string
     \<Rightarrow> 'b command_store \<Rightarrow> (command_read \<times> 'b command_store) command_result" where
  "writeFence env ctx who propertyId commandType idempotencyKey resolutionKey correlationId st =
     (let subjectId = ap_subjectId who; commandId = newIdIn (ctx_uuid ctx) ''command'';
          receiptId = newIdIn (ctx_uuid ctx) ''receipt'' in
      bindR (insertExecution (executionRow commandId who propertyId commandType idempotencyKey
        (fenceHash env subjectId propertyId commandType idempotencyKey) correlationId REJECTED) st) (\<lambda>(inserted, st1).
      if \<not> inserted then
        (case findExecution st1 subjectId propertyId commandType idempotencyKey of None \<Rightarrow> status_unknown
         | Some concurrent \<Rightarrow> bindR (visibleResult env st1 concurrent) (\<lambda>r. Inr (r, st1)))
      else
        bindR (recordCommand env (rejectedReceipt receiptId commandId (ctx_now ctx) \<lparr>er_code = COMMAND_INTERRUPTED,
            er_correlationId = correlationId, er_retryable = False, er_commandId = commandId, er_receiptId = receiptId\<rparr>)
          \<lparr>au_id = newIdIn (ctx_uuid ctx) ''audit'', au_subjectId = subjectId,
            au_credentialId = ap_credentialId who, au_action = ''RESOLVE_COMMAND_RESULT:'' @ commandType, au_allowed = False,
            au_commandId = commandId, au_correlationId = correlationId,
            au_reason = Some \<lparr>rs_code = Some ''COMMAND_RESULT_RESOLUTION'', rs_note = Some ''Original request fenced as not executed''\<rparr>,
            au_targetRefs = refs [],
            au_metadata = JObj [(''errorCode'', JStr ''COMMAND_INTERRUPTED''), (''resolutionFence'', JBool True),
              (''resolutionRequestHash'', JStr (digest env resolutionKey))]\<rparr>
          st1) (\<lambda>(r, st4). Inr (ReceiptRead r, st4))))"

definition resolveTransaction ::
  "('b, 'e) command_env_scheme \<Rightarrow> call_context \<Rightarrow> auth_principal \<Rightarrow> string \<Rightarrow> string \<Rightarrow> string \<Rightarrow> string \<Rightarrow> string
     \<Rightarrow> 'b command_store \<Rightarrow> (command_read \<times> 'b command_store) command_result" where
  "resolveTransaction env ctx who propertyId commandType idempotencyKey resolutionKey correlationId st =
     (let authorize = (\<lambda>mode. authorizeCommandAccess env (business st) who
            (authOptions propertyId commandType RESOLVE idempotencyKey (Some correlationId) mode None));
          fence = writeFence env ctx who propertyId commandType idempotencyKey resolutionKey correlationId st in
      bindR (authorize READ_MODE) (\<lambda>_.
      if \<not> ctx_acquired ctx then Inr (UnknownResult None None, st)
      else case findExecution st (ap_subjectId who) propertyId commandType idempotencyKey of
        Some raced \<Rightarrow> bindR (visibleResult env st raced) (\<lambda>r. Inr (r, st))
      | None \<Rightarrow>
        if commandType = ''CREATE_QUOTE'' then fence
        else if \<not> isExecutableCommandType commandType then Inr (UnknownResult None None, st)
        else bindR (authorize EXECUTE) (\<lambda>_. fence)))"

definition resolveCommandResult ::
  "('b, 'e) command_env_scheme \<Rightarrow> call_context \<Rightarrow> auth_principal \<Rightarrow> string \<Rightarrow> string \<Rightarrow> string \<Rightarrow> string option \<Rightarrow> string option
     \<Rightarrow> 'b command_store \<Rightarrow> command_read command_result \<times> 'b command_store" where
  "resolveCommandResult env ctx who propertyId0 commandType originalKey idempotencyKey0 correlationId0 st =
     (case liftR (bindR (assertWriteMetadata idempotencyKey0 correlationId0) (\<lambda>headers.
             if trim propertyId0 = [] \<or> trim originalKey = [] then validation_error else Inr headers)) of
        Inl e \<Rightarrow> (Inl e, st)
      | Inr (resolutionKey, correlationId) \<Rightarrow>
        withCommandAuthorizationAudit env (atomically (resolveTransaction env ctx who (trim propertyId0) commandType
          (trim originalKey) resolutionKey correlationId)) st)"

end
