(* ===== verification/CommandSafety.thy ===== *)
theory CommandSafety
  imports CommandProtocol
begin

text \<open>
  The command protocol as a state machine over its tables: every request is a step, and so is any
  change of the business tables by other code. The invariant ties the tables together: keys are
  unique, every execution is finished and has exactly one receipt that agrees with its state, and a
  preview is USED exactly if one audit entry records its application.
\<close>

section \<open>A recorded command\<close>

definition recorded :: "execution_row \<Rightarrow> receipt_row \<Rightarrow> audit_row \<Rightarrow> 'b command_store \<Rightarrow> 'b command_store" where
  "recorded ex rc au st = st\<lparr>t_executions := t_executions st @ [ex], t_receipts := t_receipts st @ [rc], t_audit := t_audit st @ [au]\<rparr>"

definition keyOf :: "execution_row \<Rightarrow> string \<times> string \<times> string \<times> string" where
  "keyOf e = (ex_subjectId e, ex_propertyId e, ex_commandType e, ex_idempotencyKey e)"

text \<open>A receipt states what the state of its execution says.\<close>

fun agrees :: "execution_state \<Rightarrow> receipt_row \<Rightarrow> bool" where
  "agrees EXECUTING r = False"
| "agrees APPLIED r = (rc_executionStatus r = EXECUTED \<and> rc_businessCommitted r \<and> rc_error r = None)"
| "agrees REJECTED r = (rc_executionStatus r = NOT_EXECUTED \<and> \<not> rc_businessCommitted r \<and> rc_error r \<noteq> None)"

definition freshRecord :: "execution_row \<Rightarrow> receipt_row \<Rightarrow> audit_row \<Rightarrow> 'b command_store \<Rightarrow> bool" where
  "freshRecord ex rc au st \<longleftrightarrow>
     keyOf ex \<notin> keyOf ` set (t_executions st) \<and> ex_id ex \<notin> ex_id ` set (t_executions st)
     \<and> rc_id rc \<notin> rc_id ` set (t_receipts st) \<and> rc_commandId rc \<notin> rc_commandId ` set (t_receipts st)
     \<and> rc_commandId rc = ex_id ex \<and> agrees (ex_state ex) rc"

text \<open>The audit entry that a confirmation writes for the preview it applied.\<close>

definition applies :: "string \<Rightarrow> audit_row \<Rightarrow> bool" where
  "applies previewId a = (case asObject (au_metadata a) of None \<Rightarrow> False | Some m \<Rightarrow> prop_of m ''previewId'' = JStr previewId)"

definition usedPreview :: "string \<Rightarrow> 'b command_store \<Rightarrow> bool" where
  "usedPreview previewId st \<longleftrightarrow> (\<exists>p\<in>set (t_previews st). pv_id p = previewId \<and> pv_status p = USED)"

lemma usedPreview_row: "usedPreview i st \<longleftrightarrow> (i, USED) \<in> set (map (\<lambda>p. (pv_id p, pv_status p)) (t_previews st))"
  by (auto simp: usedPreview_def)

definition applicationsOf :: "string \<Rightarrow> 'b command_store \<Rightarrow> nat" where
  "applicationsOf previewId st = countWhere (applies previewId) (t_audit st)"

definition protocolInv :: "'b command_store \<Rightarrow> bool" where
  "protocolInv st \<longleftrightarrow>
     distinct (map ex_id (t_executions st)) \<and> distinct (map keyOf (t_executions st))
     \<and> distinct (map rc_id (t_receipts st)) \<and> distinct (map rc_commandId (t_receipts st))
     \<and> distinct (map pv_id (t_previews st))
     \<and> rc_commandId ` set (t_receipts st) = ex_id ` set (t_executions st)
     \<and> (\<forall>e\<in>set (t_executions st). \<forall>r\<in>set (t_receipts st). rc_commandId r = ex_id e \<longrightarrow> agrees (ex_state e) r)
     \<and> (\<forall>previewId. applicationsOf previewId st = of_bool (usedPreview previewId st))"

section \<open>What the inserts do\<close>

lemma list_ex_image: "list_ex (\<lambda>x. f x = v) xs \<longleftrightarrow> v \<in> f ` set xs"
  by (induction xs) auto

lemma list_ex_disj: "list_ex (\<lambda>x. P x \<or> Q x) xs \<longleftrightarrow> list_ex P xs \<or> list_ex Q xs"
  by (induction xs) auto

lemma find_sameKey_None:
  "findExecution st s p c k = None \<longleftrightarrow> (s, p, c, k) \<notin> keyOf ` set (t_executions st)"
  by (auto simp: findExecution_def find_None_iff sameKey_def keyOf_def image_iff)

lemma insertExecution_Inr:
  "insertExecution row st = Inr (b, st') \<longleftrightarrow>
     (if keyOf row \<in> keyOf ` set (t_executions st) then \<not> b \<and> st' = st
      else ex_id row \<notin> ex_id ` set (t_executions st) \<and> b \<and> st' = st\<lparr>t_executions := t_executions st @ [row]\<rparr>)"
proof -
  have "findExecution st (ex_subjectId row) (ex_propertyId row) (ex_commandType row) (ex_idempotencyKey row) = None
      \<longleftrightarrow> keyOf row \<notin> keyOf ` set (t_executions st)"
    by (simp add: find_sameKey_None keyOf_def)
  then show ?thesis
    by (auto simp: insertExecution_def list_ex_image)
qed

lemma insertReceipt_Inr:
  "insertReceipt row st = Inr st' \<longleftrightarrow>
     rc_id row \<notin> rc_id ` set (t_receipts st) \<and> rc_commandId row \<notin> rc_commandId ` set (t_receipts st)
     \<and> st' = st\<lparr>t_receipts := t_receipts st @ [row]\<rparr>"
  by (auto simp: insertReceipt_def list_ex_disj list_ex_image)

lemma insertAudit_Inr:
  "insertAudit row st = Inr st' \<longleftrightarrow> au_id row \<notin> au_id ` set (t_audit st) \<and> st' = st\<lparr>t_audit := t_audit st @ [row]\<rparr>"
  by (auto simp: insertAudit_def list_ex_image)

lemma insertPreview_Inr:
  "insertPreview row st = Inr st' \<longleftrightarrow> pv_id row \<notin> pv_id ` set (t_previews st) \<and> st' = st\<lparr>t_previews := t_previews st @ [row]\<rparr>"
  by (auto simp: insertPreview_def list_ex_image)

lemma persistedReceipt_Inr:
  "persistedReceipt env commandId st = Inr (r, st') \<longleftrightarrow> receiptByCommand env st commandId False = Inr (Some r) \<and> st' = st"
  by (auto simp: persistedReceipt_def liftR_def split: sum.splits option.splits)

lemma setExecutionState_last:
  "ex_id row \<notin> ex_id ` set es \<Longrightarrow> commandId = ex_id row \<Longrightarrow>
     updateWhere (\<lambda>e. ex_id e = commandId) (\<lambda>e. e\<lparr>ex_state := s\<rparr>) (es @ [row]) = es @ [row\<lparr>ex_state := s\<rparr>]"
  by (auto simp: updateWhere_def image_iff intro!: map_idI)

lemma executionRow_sel [simp]:
  "ex_id (executionRow c who p t k h co s) = c" "ex_state (executionRow c who p t k h co s) = s"
  "(executionRow c who p t k h co s)\<lparr>ex_state := s'\<rparr> = executionRow c who p t k h co s'"
  "keyOf (executionRow c who p t k h co s) = (ap_subjectId who, p, t, k)"
  "ex_requestHash (executionRow c who p t k h co s) = h"
  by (simp_all add: executionRow_def keyOf_def)

lemmas insert_simps = insertExecution_Inr insertReceipt_Inr insertAudit_Inr insertPreview_Inr persistedReceipt_Inr

section \<open>Recording keeps the invariant\<close>

lemma freshRecord_unreferenced: "freshRecord ex rc au st \<Longrightarrow> \<forall>r\<in>set (t_receipts st). rc_commandId r \<noteq> ex_id ex"
  by (metis freshRecord_def imageI)

lemma recorded_inv:
  assumes "protocolInv st" and "freshRecord ex rc au st" and "\<And>i. \<not> applies i au"
  shows "protocolInv (recorded ex rc au st)"
proof -
  show ?thesis
    using assms freshRecord_unreferenced [OF assms(2)]
    by (auto simp: protocolInv_def freshRecord_def recorded_def applicationsOf_def countWhere_def usedPreview_def)
qed

lemma business_inv [simp]: "protocolInv (st\<lparr>business := b\<rparr>) = protocolInv st"
  by (simp add: protocolInv_def applicationsOf_def usedPreview_def)

lemma securityAudit_inv [simp]: "protocolInv (st\<lparr>t_securityAudit := rows\<rparr>) = protocolInv st"
  by (simp add: protocolInv_def applicationsOf_def usedPreview_def)

lemma map_pv_id_updateWhere:
  "(\<And>p. pv_id (f p) = pv_id p) \<Longrightarrow> map pv_id (updateWhere P f ps) = map pv_id ps"
  by (induction ps) (auto simp: updateWhere_def)

lemma bex_updateWhere_cases: "(\<exists>x\<in>set (updateWhere P f xs). Q x) \<longleftrightarrow> (\<exists>x\<in>set xs. P x \<and> Q (f x) \<or> \<not> P x \<and> Q x)"
  by (induction xs) (auto simp: updateWhere_def)

lemma usedPreview_closePreview: "usedPreview i (closePreview previewId s p c st) = usedPreview i st"
  by (simp add: usedPreview_def closePreview_def bex_updateWhere_cases) (rule bex_cong; auto)

lemma closePreview_inv: "protocolInv st \<Longrightarrow> protocolInv (closePreview previewId s p c st)"
  unfolding protocolInv_def applicationsOf_def usedPreview_closePreview
  by (simp add: closePreview_def map_pv_id_updateWhere)

lemma newPreview_inv:
  "protocolInv st \<Longrightarrow> pv_id p \<notin> pv_id ` set (t_previews st) \<Longrightarrow> pv_status p = OPEN \<Longrightarrow>
     protocolInv (st\<lparr>t_previews := t_previews st @ [p]\<rparr>)"
  by (auto simp: protocolInv_def applicationsOf_def usedPreview_def)

lemma applied_inv:
  assumes "protocolInv st" and "findPreview previewId st = Some p" and "pv_status p = OPEN"
    and "freshRecord ex rc au st" and "\<And>i. applies i au \<longleftrightarrow> i = previewId"
  shows "protocolInv (recorded ex rc au (markPreviewUsed previewId st))"
proof -
  have p: "p \<in> set (t_previews st)" "pv_id p = previewId"
    using assms(2) by (auto simp: findPreview_def find_Some_iff)
  have notUsed: "\<not> usedPreview previewId st"
    using p assms(1,3) by (auto simp: usedPreview_def protocolInv_def distinct_map dest: inj_onD)
  have used: "usedPreview i (recorded ex rc au (markPreviewUsed previewId st)) \<longleftrightarrow> usedPreview i st \<or> i = previewId" for i
    using p by (fastforce simp: usedPreview_def recorded_def markPreviewUsed_def bex_updateWhere_cases)
  have count: "applicationsOf i (recorded ex rc au (markPreviewUsed previewId st)) = of_bool (usedPreview i st \<or> i = previewId)" for i
    using assms(1,5) notUsed
    by (auto simp: applicationsOf_def recorded_def markPreviewUsed_def countWhere_def protocolInv_def)
  show ?thesis
    unfolding protocolInv_def used count
    using assms(1,4) freshRecord_unreferenced [OF assms(4)]
    by (auto simp: protocolInv_def freshRecord_def recorded_def markPreviewUsed_def map_pv_id_updateWhere)
qed

section \<open>What each transaction records\<close>

text \<open>
  A store after a transaction that records a command: one more execution in state \<open>s\<close> with its receipt
  and its audit entry, which names the previews in \<open>ids\<close>, over a store that satisfies \<open>mid\<close>.
\<close>

definition recordsOver ::
  "'b command_store \<Rightarrow> execution_state \<Rightarrow> string set \<Rightarrow> ('b command_store \<Rightarrow> bool) \<Rightarrow> 'b command_store \<Rightarrow> bool" where
  "recordsOver st s ids mid st' \<longleftrightarrow>
     (\<exists>st1 ex rc au. mid st1 \<and> freshRecord ex rc au st \<and> ex_state ex = s \<and> (\<forall>i. applies i au \<longleftrightarrow> i \<in> ids) \<and>
        t_executions st1 = t_executions st \<and> t_receipts st1 = t_receipts st \<and> st' = recorded ex rc au st1)"

lemma freshRecord_tables:
  "t_executions st1 = t_executions st \<Longrightarrow> t_receipts st1 = t_receipts st \<Longrightarrow> freshRecord ex rc au st1 = freshRecord ex rc au st"
  by (simp add: freshRecord_def)

lemma recordsOver_inv:
  assumes "recordsOver st s {} mid st'" and "\<And>st1. mid st1 \<Longrightarrow> protocolInv st1"
  shows "protocolInv st'"
  using assms by (auto simp: recordsOver_def intro!: recorded_inv) (metis freshRecord_tables)

lemma agrees_rules: "agrees APPLIED (executedReceipt i c t j rs fs)" "agrees REJECTED (rejectedReceipt i c t e)"
  by (simp_all add: executedReceipt_def rejectedReceipt_def)

lemma receipt_commandId [simp]:
  "rc_commandId (executedReceipt i c t j rs fs) = c" "rc_commandId (rejectedReceipt i c t e) = c"
  by (simp_all add: executedReceipt_def rejectedReceipt_def)

lemma recordCommand_records:
  assumes "recordCommand env rc au st2 = Inr (r, st')"
    and "t_executions st2 = t_executions st @ [ex]" "t_receipts st2 = t_receipts st"
    and "ex_id ex \<notin> ex_id ` set (t_executions st)" "keyOf ex \<notin> keyOf ` set (t_executions st)"
    and "rc_commandId rc = ex_id ex" "ex_state ex = s" "agrees s rc" "\<forall>i. applies i au \<longleftrightarrow> i \<in> ids"
    and "mid (st2\<lparr>t_executions := t_executions st\<rparr>)"
  shows "recordsOver st s ids mid st'"
proof -
  have st': "st' = st2\<lparr>t_receipts := t_receipts st @ [rc], t_audit := t_audit st2 @ [au]\<rparr>"
    and "freshRecord ex rc au st"
    using assms by (auto simp: recordCommand_def insert_simps freshRecord_def)
  moreover have "st' = recorded ex rc au (st2\<lparr>t_executions := t_executions st\<rparr>)"
    using assms(2,3) by (simp add: st' recorded_def)
  ultimately show ?thesis
    unfolding recordsOver_def using assms(3,7,9,10)
    by (intro exI [of _ "st2\<lparr>t_executions := t_executions st\<rparr>"] exI [of _ ex] exI [of _ rc] exI [of _ au]) simp
qed

definition openedFrom :: "'b command_store \<Rightarrow> 'b command_store \<Rightarrow> bool" where
  "openedFrom st st1 \<longleftrightarrow> (\<exists>pv. pv_id pv \<notin> pv_id ` set (t_previews st) \<and> pv_status pv = OPEN
      \<and> st1 = st\<lparr>t_previews := t_previews st @ [pv]\<rparr>)"

lemma openedFromI:
  "pv_id pv \<notin> pv_id ` set (t_previews st) \<Longrightarrow> pv_status pv = OPEN \<Longrightarrow> openedFrom st (st\<lparr>t_previews := t_previews st @ [pv]\<rparr>)"
  by (auto simp: openedFrom_def)

lemmas applies_simps = applies_def prop_of_def

lemma writePreview_records:
  assumes "writePreview env ctx who commandType input frozen built commandId correlationId
      (st\<lparr>t_executions := t_executions st @ [executionRow commandId who p t k h co EXECUTING]\<rparr>) = Inr (x, st')"
    and "commandId \<notin> ex_id ` set (t_executions st)" "(ap_subjectId who, p, t, k) \<notin> keyOf ` set (t_executions st)"
  shows "recordsOver st APPLIED {} (openedFrom st) st'"
  using assms unfolding writePreview_def Let_def
  by (auto simp: insertPreview_Inr setExecutionState_def setExecutionState_last applies_simps simp del: agrees.simps
      intro!: agrees_rules openedFromI elim!: recordCommand_records [where ex = "executionRow commandId who p t k h co APPLIED"])

lemma previewTransaction_records:
  assumes "previewTransaction env ctx who commandType input propertyId idempotencyKey correlationId st = Inr (x, st')"
  shows "st' = st \<or> recordsOver st APPLIED {} (openedFrom st) st'"
  using assms unfolding previewTransaction_def Let_def
  by (auto simp: insertExecution_Inr split: option.splits if_splits intro: writePreview_records)

definition closedFrom :: "auth_principal \<Rightarrow> string \<Rightarrow> string \<Rightarrow> 'b command_store \<Rightarrow> 'b command_store \<Rightarrow> bool" where
  "closedFrom who propertyId commandType st st1 \<longleftrightarrow>
     st1 = st \<or> (\<exists>i. st1 = closePreview i (ap_subjectId who) propertyId commandType st)"

lemma closePreview_tables [simp]:
  "t_executions (closePreview i s p c st) = t_executions st" "t_receipts (closePreview i s p c st) = t_receipts st"
  "t_audit (closePreview i s p c st) = t_audit st" "business (closePreview i s p c st) = business st"
  "closePreview i s p c st\<lparr>t_executions := t_executions st\<rparr> = closePreview i s p c st"
  by (simp_all add: closePreview_def)

lemma persistRejected_records:
  assumes "persistRejected env ctx who propertyId commandType idempotencyKey correlationId requestHash reason err False
      closePreviewId st = Inr (r, st')"
  shows "recordsOver st REJECTED {} (closedFrom who propertyId commandType st) st'"
proof -
  define st1 where "st1 = (case closePreviewId of None \<Rightarrow> st | Some previewId \<Rightarrow>
      if previewId = [] then st else closePreview previewId (ap_subjectId who) propertyId commandType st)"
  have mid: "closedFrom who propertyId commandType st st1"
    unfolding st1_def closedFrom_def by (cases closePreviewId) auto
  then have st1: "t_executions st1 = t_executions st" "t_receipts st1 = t_receipts st"
    "closedFrom who propertyId commandType st (st1\<lparr>t_executions := t_executions st\<rparr>)"
    by (auto simp: closedFrom_def)
  show ?thesis
    using assms st1 unfolding persistRejected_def Let_def st1_def [symmetric]
    by (auto simp: insertExecution_Inr applies_simps split: if_splits simp del: agrees.simps intro!: agrees_rules
        elim!: recordCommand_records [where ex = "executionRow (newIdIn (ctx_rejectUuid ctx) ''command'') who propertyId
          commandType idempotencyKey requestHash correlationId REJECTED"])
qed

lemma quoteTransaction_records:
  assumes "quoteTransaction env ctx who propertyId input idempotencyKey correlationId requestHash st = Inr (x, st')"
  and "st' \<noteq> st"
  shows "recordsOver st APPLIED {} (\<lambda>st1. \<exists>b. st1 = st\<lparr>business := b\<rparr>) st'"
  using assms unfolding quoteTransaction_def Let_def
  by (auto simp: insertExecution_Inr setExecutionState_def setExecutionState_last applies_simps split: option.splits if_splits
      simp del: agrees.simps intro!: agrees_rules
      elim!: recordCommand_records [where ex = "executionRow (newIdIn (ctx_uuid ctx) ''command'') who propertyId
          ''CREATE_QUOTE'' idempotencyKey requestHash correlationId APPLIED"])

lemma writeFence_records:
  assumes "writeFence env ctx who propertyId commandType idempotencyKey resolutionKey correlationId st = Inr (x, st')"
  and "st' \<noteq> st"
  shows "recordsOver st REJECTED {} ((=) st) st'"
  using assms unfolding writeFence_def Let_def
  by (auto simp: insertExecution_Inr applies_simps split: option.splits if_splits
      simp del: agrees.simps intro!: agrees_rules
      elim!: recordCommand_records [where ex = "executionRow (newIdIn (ctx_uuid ctx) ''command'') who propertyId
          commandType idempotencyKey (fenceHash env (ap_subjectId who) propertyId commandType idempotencyKey) correlationId REJECTED"])

lemma resolveTransaction_records:
  assumes "resolveTransaction env ctx who propertyId commandType idempotencyKey resolutionKey correlationId st = Inr (x, st')"
  shows "st' = st \<or> recordsOver st REJECTED {} ((=) st) st'"
  using assms unfolding resolveTransaction_def Let_def
  by (auto split: option.splits if_splits intro: writeFence_records)

lemma markPreviewUsed_tables [simp]:
  "t_executions (markPreviewUsed i st) = t_executions st" "t_receipts (markPreviewUsed i st) = t_receipts st"
  "t_audit (markPreviewUsed i st) = t_audit st" "business (markPreviewUsed i st) = business st"
  by (simp_all add: markPreviewUsed_def)

text \<open>A confirmed preview was open; it is used afterwards.\<close>

definition usedFrom :: "string \<Rightarrow> 'b command_store \<Rightarrow> 'b command_store \<Rightarrow> bool" where
  "usedFrom previewId st st1 \<longleftrightarrow>
     (\<exists>p b. findPreview previewId st = Some p \<and> pv_status p = OPEN \<and> st1 = markPreviewUsed previewId (st\<lparr>business := b\<rparr>))"

lemma usablePreview_open: "usablePreview env ctx b c conf reason p = Inr e \<Longrightarrow> pv_status p = OPEN"
  by (cases "pv_status p") (auto simp: usablePreview_def)

lemma finishConfirmation_records:
  assumes "finishConfirmation env ctx who propertyId commandType previewId reason storedEffect rebuilt applied commandId correlationId
      (st\<lparr>t_executions := t_executions st @ [executionRow commandId who p t k h co EXECUTING], business := b\<rparr>) = Inr (r, st')"
    and "commandId \<notin> ex_id ` set (t_executions st)" "(ap_subjectId who, p, t, k) \<notin> keyOf ` set (t_executions st)"
    and "findPreview previewId st = Some pv" "pv_status pv = OPEN"
  shows "recordsOver st APPLIED {previewId} (usedFrom previewId st) st'"
proof -
  have mid: "usedFrom previewId st (markPreviewUsed previewId (st\<lparr>business := b\<rparr>))" for b
    using assms(4,5) by (auto simp: usedFrom_def)
  have same: "markPreviewUsed previewId (st\<lparr>t_executions := es, business := b\<rparr>)\<lparr>t_executions := t_executions st\<rparr>
      = markPreviewUsed previewId (st\<lparr>business := b\<rparr>)" for es b
    by (simp add: markPreviewUsed_def)
  show ?thesis
    using assms(1-3) mid unfolding finishConfirmation_def Let_def
    by (auto simp: setExecutionState_def setExecutionState_last applies_simps same simp del: agrees.simps intro!: agrees_rules
        elim!: recordCommand_records [where ex = "executionRow commandId who p t k h co APPLIED"])
qed

lemma findPreview_executions [simp]: "findPreview i (st\<lparr>t_executions := es\<rparr>) = findPreview i st"
  by (simp add: findPreview_def)

lemma auditCommandResourceNotFound_Inr [simp]: "auditCommandResourceNotFound c who p t s k co \<noteq> Inr y"
  by (simp add: auditCommandResourceNotFound_def)

lemma applyPreview_records:
  assumes "applyPreview env ctx who previewId conf reason propertyId commandType commandId idempotencyKey correlationId
      (st\<lparr>t_executions := t_executions st @ [executionRow commandId who p t k h co EXECUTING]\<rparr>) = Inr (r, st')"
    and "commandId \<notin> ex_id ` set (t_executions st)" "(ap_subjectId who, p, t, k) \<notin> keyOf ` set (t_executions st)"
  shows "recordsOver st APPLIED {previewId} (usedFrom previewId st) st'"
  using assms unfolding applyPreview_def
  by (auto split: option.splits if_splits dest!: usablePreview_open
        intro!: finishConfirmation_records [where st = st] simp: insertExecution_Inr)

lemma confirmTransaction_records:
  assumes "confirmTransaction env ctx who previewId conf propertyId commandType idempotencyKey correlationId requestHash st = Inr (r, st')"
    and "st' \<noteq> st"
  shows "recordsOver st APPLIED {previewId} (usedFrom previewId st) st'"
  using assms unfolding confirmTransaction_def Let_def
  by (auto simp: insertExecution_Inr split: option.splits if_splits intro: applyPreview_records)

section \<open>Requests as steps\<close>

lemma withCommandAuthorizationAudit_store:
  "\<exists>rows. snd (withCommandAuthorizationAudit env work st) = snd (work st)\<lparr>t_securityAudit := rows\<rparr>"
proof -
  obtain r st' where *: "work st = (r, st')" by fastforce
  have "\<exists>rows. st' = st'\<lparr>t_securityAudit := rows\<rparr>"
    by (rule exI [of _ "t_securityAudit st'"]) simp
  then show ?thesis
    by (cases r) (auto simp: withCommandAuthorizationAudit_def * split: command_failure.splits)
qed

text \<open>The requests that only read: they can add a row of the security audit, nothing else.\<close>

lemma getReceipt_store: "snd (getReceipt env who i st) = st\<lparr>t_securityAudit := t_securityAudit (snd (getReceipt env who i st))\<rparr>"
  and getCommand_store: "snd (getCommand env who i st) = st\<lparr>t_securityAudit := t_securityAudit (snd (getCommand env who i st))\<rparr>"
  and findCommandResult_store: "snd (findCommandResult env who p c k st)
      = st\<lparr>t_securityAudit := t_securityAudit (snd (findCommandResult env who p c k st))\<rparr>"
proof -
  have *: "snd (withCommandAuthorizationAudit env (atomically body) st)
      = st\<lparr>t_securityAudit := t_securityAudit (snd (withCommandAuthorizationAudit env (atomically body) st))\<rparr>"
    if "\<And>x st'. body st = Inr (x, st') \<Longrightarrow> st' = st" for body :: "'a command_store \<Rightarrow> ('c \<times> 'a command_store) command_result"
  proof -
    have "snd (atomically body st) = st"
      using that by (auto simp: atomically_def split: sum.splits)
    then show ?thesis
      using withCommandAuthorizationAudit_store [of env "atomically body" st] by auto
  qed
  show "snd (getReceipt env who i st) = st\<lparr>t_securityAudit := t_securityAudit (snd (getReceipt env who i st))\<rparr>"
    unfolding getReceipt_def by (rule *) (auto split: option.splits)
  show "snd (getCommand env who i st) = st\<lparr>t_securityAudit := t_securityAudit (snd (getCommand env who i st))\<rparr>"
    unfolding getCommand_def by (rule *) (auto split: option.splits)
  show "snd (findCommandResult env who p c k st)
      = st\<lparr>t_securityAudit := t_securityAudit (snd (findCommandResult env who p c k st))\<rparr>"
  proof (cases "trim k = []")
    case False
    then show ?thesis
      unfolding findCommandResult_def Let_def if_not_P [OF False] by (intro *) (auto split: option.splits)
  qed (simp add: findCommandResult_def)
qed

lemma snd_mapError: "snd (case x of (Inl e, s) \<Rightarrow> (Inl (f e), s) | (Inr y, s) \<Rightarrow> (Inr y, s)) = snd x"
  by (cases x; cases "fst x") auto

inductive protocolStep :: "('b, 'e) command_env_scheme \<Rightarrow> 'b command_store \<Rightarrow> 'b command_store \<Rightarrow> bool" for env where
  preview: "createCommandPreview env ctx who commandType input key correlation st = (r, st') \<Longrightarrow> protocolStep env st st'"
| confirm: "confirmCommandPreview env ctx who previewId conf key correlation st = (r', st') \<Longrightarrow> protocolStep env st st'"
| quote: "executeQuoteCommand env ctx who request key correlation st = (q, st') \<Longrightarrow> protocolStep env st st'"
| resolve: "resolveCommandResult env ctx who p commandType originalKey key correlation st = (c, st') \<Longrightarrow> protocolStep env st st'"
| receipt: "getReceipt env who receiptId st = (r', st') \<Longrightarrow> protocolStep env st st'"
| command: "getCommand env who commandId st = (c, st') \<Longrightarrow> protocolStep env st st'"
| lookup: "findCommandResult env who p commandType originalKey st = (c, st') \<Longrightarrow> protocolStep env st st'"
| other: "protocolStep env st (st\<lparr>business := b\<rparr>)"

text \<open>
  A property of the store that survives every outcome of a transaction survives every request.
\<close>

locale kept_by_requests =
  fixes Q :: "'b command_store \<Rightarrow> bool"
  assumes audit_kept: "Q (st\<lparr>t_securityAudit := rows\<rparr>) = Q st"
    and business_kept: "Q (st\<lparr>business := b\<rparr>) = Q st"
    and opened_kept: "Q st \<Longrightarrow> recordsOver st s {} (openedFrom st) st' \<Longrightarrow> Q st'"
    and closed_kept: "Q st \<Longrightarrow> recordsOver st s {} (closedFrom who p c st) st' \<Longrightarrow> Q st'"
    and quoted_kept: "Q st \<Longrightarrow> recordsOver st s {} (\<lambda>st1. \<exists>b. st1 = st\<lparr>business := b\<rparr>) st' \<Longrightarrow> Q st'"
    and fenced_kept: "Q st \<Longrightarrow> recordsOver st s {} ((=) st) st' \<Longrightarrow> Q st'"
    and used_kept: "Q st \<Longrightarrow> recordsOver st APPLIED {i} (usedFrom i st) st' \<Longrightarrow> Q st'"
begin

lemma withCommandAuthorizationAudit_kept:
  "Q (snd (work st)) \<Longrightarrow> Q (snd (withCommandAuthorizationAudit env work st))"
  using withCommandAuthorizationAudit_store [of env work st] by (auto simp: audit_kept)

lemma atomically_kept:
  "Q st \<Longrightarrow> (\<And>x st'. body st = Inr (x, st') \<Longrightarrow> st' \<noteq> st \<Longrightarrow> Q st') \<Longrightarrow> Q (snd (atomically body st))"
  by (auto simp: atomically_def split: sum.splits)

lemma createCommandPreview_kept:
  "Q st \<Longrightarrow> Q (snd (createCommandPreview env ctx who commandType input key correlation st))"
  unfolding createCommandPreview_def
  by (auto simp: withExecutionLock_def split: sum.splits intro!: withCommandAuthorizationAudit_kept atomically_kept
      dest!: previewTransaction_records intro: opened_kept)

lemma executeQuoteCommand_kept:
  "Q st \<Longrightarrow> Q (snd (executeQuoteCommand env ctx who input key correlation st))"
  unfolding executeQuoteCommand_def Let_def
  by (auto simp: withExecutionLock_def withQuoteQuotaLock_def split: sum.splits option.splits
      intro!: withCommandAuthorizationAudit_kept atomically_kept dest!: quoteTransaction_records intro: quoted_kept)

lemma confirmFailure_kept:
  assumes "Q st"
  shows "Q (snd (confirmFailure env ctx who previewId conf p c k co h e st))"
proof -
  have "Q (snd (atomically (persistRejected env ctx who p c k co h reason err False close) st))" for reason err close
    using assms by (auto intro!: atomically_kept dest!: persistRejected_records intro: closed_kept)
  then show ?thesis
    using assms by (simp add: confirmFailure_def Let_def snd_mapError)
qed

lemma confirmAttempt_kept:
  assumes "Q st"
  shows "Q (snd (confirmAttempt env ctx who previewId conf p c k co h st))"
proof -
  have "Q (snd (atomically (confirmTransaction env ctx who previewId conf p c k co h) st))"
    using assms by (auto intro!: atomically_kept dest!: confirmTransaction_records intro: used_kept)
  then show ?thesis
    by (auto simp: confirmAttempt_def confirmFailure_kept split: prod.splits sum.splits)
qed

lemma confirmCommandPreview_kept:
  "Q st \<Longrightarrow> Q (snd (confirmCommandPreview env ctx who previewId conf key correlation st))"
  unfolding confirmCommandPreview_def
  by (auto simp: confirmPreviewed_def confirmWithoutPreview_def withExecutionLock_def Let_def
      split: sum.splits option.splits if_splits intro!: withCommandAuthorizationAudit_kept atomically_kept confirmAttempt_kept)

lemma resolveCommandResult_kept:
  "Q st \<Longrightarrow> Q (snd (resolveCommandResult env ctx who p c originalKey key correlation st))"
  unfolding resolveCommandResult_def
  by (auto split: sum.splits intro!: withCommandAuthorizationAudit_kept atomically_kept
      dest!: resolveTransaction_records intro: fenced_kept)

lemma protocolStep_kept: "Q st \<Longrightarrow> protocolStep env st st' \<Longrightarrow> Q st'"
proof (erule protocolStep.cases, goal_cases)
  case (1 ctx who commandType input key correlation st r st')
  then show ?case using createCommandPreview_kept [of st env ctx who commandType input key correlation] by simp
next
  case (2 ctx who previewId conf key correlation st r' st')
  then show ?case using confirmCommandPreview_kept [of st env ctx who previewId conf key correlation] by simp
next
  case (3 ctx who request key correlation st q st')
  then show ?case using executeQuoteCommand_kept [of st env ctx who request key correlation] by simp
next
  case (4 ctx who p commandType originalKey key correlation st c st')
  then show ?case using resolveCommandResult_kept [of st env ctx who p commandType originalKey key correlation] by simp
next
  case (5 who receiptId st r' st')
  then show ?case using getReceipt_store [of env who receiptId st] by (metis audit_kept snd_conv)
next
  case (6 who commandId st c st')
  then show ?case using getCommand_store [of env who commandId st] by (metis audit_kept snd_conv)
next
  case (7 who p commandType originalKey st c st')
  then show ?case using findCommandResult_store [of env who p commandType originalKey st] by (metis audit_kept snd_conv)
qed (simp add: business_kept)

end

lemma openedFrom_inv: "protocolInv st \<Longrightarrow> openedFrom st st1 \<Longrightarrow> protocolInv st1"
  by (auto simp: openedFrom_def newPreview_inv)

lemma closedFrom_inv: "protocolInv st \<Longrightarrow> closedFrom who p c st st1 \<Longrightarrow> protocolInv st1"
  by (auto simp: closedFrom_def closePreview_inv)

lemma recordsOver_used_inv:
  assumes "protocolInv st" "recordsOver st APPLIED {previewId} (usedFrom previewId st) st'"
  shows "protocolInv st'"
proof -
  obtain p b ex rc au where *: "findPreview previewId st = Some p" "pv_status p = OPEN" "freshRecord ex rc au st"
    "\<forall>i. applies i au \<longleftrightarrow> i = previewId" "st' = recorded ex rc au (markPreviewUsed previewId (st\<lparr>business := b\<rparr>))"
    using assms(2) by (auto simp: recordsOver_def usedFrom_def)
  have "protocolInv (recorded ex rc au (markPreviewUsed previewId (st\<lparr>business := b\<rparr>)))"
    using * assms(1) by (intro applied_inv [of _ _ p]) (auto simp: findPreview_def freshRecord_def)
  then show ?thesis using * by simp
qed

lemma records_inv:
  "protocolInv st \<Longrightarrow> recordsOver st s {} (openedFrom st) st' \<Longrightarrow> protocolInv st'"
  "protocolInv st \<Longrightarrow> recordsOver st s {} (closedFrom who p c st) st' \<Longrightarrow> protocolInv st'"
  "protocolInv st \<Longrightarrow> recordsOver st s {} (\<lambda>st1. \<exists>b. st1 = st\<lparr>business := b\<rparr>) st' \<Longrightarrow> protocolInv st'"
  "protocolInv st \<Longrightarrow> recordsOver st s {} ((=) st) st' \<Longrightarrow> protocolInv st'"
  by (auto elim!: recordsOver_inv intro: openedFrom_inv closedFrom_inv)

definition emptyProtocol :: "'b command_store \<Rightarrow> bool" where
  "emptyProtocol st \<longleftrightarrow> t_executions st = [] \<and> t_previews st = [] \<and> t_receipts st = [] \<and> t_audit st = []"

lemma emptyProtocol_inv: "emptyProtocol st \<Longrightarrow> protocolInv st"
  by (simp add: emptyProtocol_def protocolInv_def applicationsOf_def countWhere_def usedPreview_def)

interpretation invariant: kept_by_requests protocolInv
  by unfold_locales (auto intro: records_inv recordsOver_used_inv)

interpretation protocol: invariant_system emptyProtocol "protocolStep env" protocolInv for env
  by unfold_locales (rule emptyProtocol_inv, assumption, rule invariant.protocolStep_kept)

text \<open>Executions are only ever added.\<close>

definition extends :: "'b command_store \<Rightarrow> 'b command_store \<Rightarrow> bool" where
  "extends st0 st \<longleftrightarrow> (\<exists>es. t_executions st = t_executions st0 @ es)"

lemma recordsOver_extends: "extends st0 st \<Longrightarrow> recordsOver st s ids mid st' \<Longrightarrow> extends st0 st'"
  by (auto simp: extends_def recordsOver_def recorded_def)

interpretation history: kept_by_requests "extends st0" for st0
  by unfold_locales (auto intro: recordsOver_extends, simp_all add: extends_def)

lemma steps_extend: "(protocolStep env)\<^sup>*\<^sup>* st st' \<Longrightarrow> extends st st'"
proof (induction rule: rtranclp_induct)
  case base
  then show ?case by (simp add: extends_def)
next
  case (step st1 st2)
  then show ?case using history.protocolStep_kept by blast
qed

section \<open>What a confirmation does\<close>

lemma find_append: "find P (xs @ ys) = (case find P xs of None \<Rightarrow> find P ys | Some x \<Rightarrow> Some x)"
  by (induction xs) auto

text \<open>Whatever is read, the row decides the identifiers and the outcome of the receipt.\<close>

definition sameOutcome :: "receipt_row \<Rightarrow> receipt_dto \<Rightarrow> bool" where
  "sameOutcome row r \<longleftrightarrow> rd_commandId r = rc_commandId row \<and> rd_executionStatus r = rc_executionStatus row
     \<and> rd_businessCommitted r = rc_businessCommitted row"

lemma sameOutcome_receiptDto [simp]:
  "sameOutcome row (receiptDto row ex result)" "sameOutcome row (receiptDto row ex result\<lparr>rd_protocolVersion := v\<rparr>)"
  by (simp_all add: sameOutcome_def receiptDto_def)

lemma receiptByCommand_row:
  assumes "receiptByCommand env st commandId historical = Inr (Some r)"
  obtains row where "find (\<lambda>r. rc_commandId r = commandId) (t_receipts st) = Some row"
    "rd_commandId r = commandId" "rd_executionStatus r = rc_executionStatus row" "rd_businessCommitted r = rc_businessCommitted row"
proof -
  obtain row ex where row: "find (\<lambda>r. rc_commandId r = commandId) (t_receipts st) = Some row"
    and ex: "find (\<lambda>e. ex_id e = commandId) (t_executions st) = Some ex"
    using assms by (auto simp: receiptByCommand_def split: option.splits)
  have "sameOutcome row r"
  proof (cases "asObject (rc_result row)")
    case None
    then show ?thesis using assms row ex by (auto simp: receiptByCommand_def)
  next
    case (Some stored)
    then obtain result hc where read: "readResult env (business st) historical row ex stored = Inr (result, hc)"
      using assms row ex by (auto simp: receiptByCommand_def)
    show ?thesis
      using assms row ex Some read
      by (cases historical; cases hc; cases "legacyReceiptProtocol (\<lambda>s. dateParse env s \<noteq> None) (ex_commandType ex) (JObj result)")
        (auto simp: receiptByCommand_def Let_def)
  qed
  moreover have "rc_commandId row = commandId" using row by (auto simp: find_Some_iff)
  ultimately show thesis using that row by (simp add: sameOutcome_def)
qed

lemma recordCommand_receipt:
  assumes "recordCommand env rc au st = Inr (r, st')"
  shows "sameOutcome rc r"
proof -
  have "receiptByCommand env (st\<lparr>t_receipts := t_receipts st @ [rc], t_audit := t_audit st @ [au]\<rparr>) (rc_commandId rc) False = Inr (Some r)"
    and fresh: "rc_commandId rc \<notin> rc_commandId ` set (t_receipts st)"
    using assms by (auto simp: recordCommand_def insert_simps)
  then obtain row where row: "find (\<lambda>r. rc_commandId r = rc_commandId rc) (t_receipts st @ [rc]) = Some row"
    "rd_commandId r = rc_commandId rc" "rd_executionStatus r = rc_executionStatus row" "rd_businessCommitted r = rc_businessCommitted row"
    by (auto elim: receiptByCommand_row)
  have "find (\<lambda>r. rc_commandId r = rc_commandId rc) (t_receipts st) = None"
    unfolding find_None_iff using fresh by (metis imageI)
  with row show ?thesis
    by (auto simp: find_append sameOutcome_def)
qed

lemma persistRejected_receipt:
  assumes "persistRejected env ctx who p c k co h reason err False close st = Inr (r, st')"
  shows "rd_executionStatus r = NOT_EXECUTED \<and> \<not> rd_businessCommitted r"
  using assms unfolding persistRejected_def Let_def
  by (auto split: if_splits dest!: recordCommand_receipt simp: rejectedReceipt_def sameOutcome_def)

lemma finishConfirmation_receipt:
  assumes "finishConfirmation env ctx who p c i reason e rebuilt applied commandId co st = Inr (r, st')"
  shows "rd_executionStatus r = EXECUTED \<and> rd_businessCommitted r"
  using assms unfolding finishConfirmation_def Let_def
  by (auto split: if_splits dest!: recordCommand_receipt simp: executedReceipt_def sameOutcome_def)

lemma confirmTransaction_receipt:
  assumes "confirmTransaction env ctx who previewId conf p c k co h st = Inr (r, st')" and "st' \<noteq> st"
  shows "rd_executionStatus r = EXECUTED \<and> rd_businessCommitted r"
  using assms unfolding confirmTransaction_def applyPreview_def Let_def
  by (auto simp: insertExecution_Inr split: option.splits if_splits dest: finishConfirmation_receipt)

section \<open>A concrete environment\<close>

text \<open>
  Functions for the parameters of the model, over a counter as business tables: every subject is
  authorized, the effect of a command shows the counter, and applying it adds one.
\<close>

definition counterEffect :: "nat \<Rightarrow> json_object" where
  "counterEffect n = [(''counter'', JStr (showNat (int n)))]"

definition counterEnv :: "nat command_env" where
  "counterEnv = \<lparr>digest = id, localeLe = (\<le>), dateParse = (\<lambda>_. None), authorizeCommandAccess = (\<lambda>_ _ _. Inr ()),
     effectiveSubjectCommandGrants = (\<lambda>_ _ _. []), callerTokenExpiry = (\<lambda>_ _. None), migrationAppliedAt = (\<lambda>_ _. None),
     normalizeMemberCorrectionInput = (\<lambda>_ input. Inr input), normalizeArrangementCorrectionInput = Inr,
     buildCommandEffect = (\<lambda>n _ _ _. Inr \<lparr>be_propertyId = ''p'', be_effect = counterEffect n, be_effectHash = showNat (int n),
        be_basisVersions = JObj []\<rparr>),
     lockCommandResources = (\<lambda>n _ _. Inr n),
     applyCommand = (\<lambda>n _ _ effect _ _ _. Inr (\<lparr>ac_persistedResult = effect, ac_resourceRefs = [], ac_factRefs = []\<rparr>, Suc n)),
     bindExternalPayments = (\<lambda>n _ _. Inr n), bindPersistedEffectHash = (\<lambda>_ _ _ _ h. Inr h),
     bumpRoomStatusRevision = (\<lambda>n _. Inr n), conversionLedger = (\<lambda>_ _. []), temporaryOtherRoomEvidence = (\<lambda>_ _ _. Inr ()),
     quoteReceiptEvidence = (\<lambda>_ _. Inr ()), projectCommandEffectForRead = (\<lambda>_ e. JObj e), projectPrimaryGuestForRead = id,
     projectQuoteForExternalRead = id,
     createQuoteInTransaction = (\<lambda>n input _. Inr (JObj input, ''q'', ''h'', n))\<rparr>"

definition counterCtx :: "string \<Rightarrow> call_context" where
  "counterCtx tag = \<lparr>ctx_now = 0, ctx_uuid = (\<lambda>_. tag), ctx_occupantUuid = (\<lambda>_. tag), ctx_rejectUuid = (\<lambda>_. tag), ctx_acquired = True,
     ctx_quotaAcquired = True, ctx_previewTtlSeconds = 60, ctx_driverError = (None, None)\<rparr>"

definition counterSubject :: auth_principal where
  "counterSubject = \<lparr>ap_subjectId = ''s'', ap_credentialId = ''c'', ap_credentialType = SESSION\<rparr>"

definition counterStore :: "nat \<Rightarrow> nat command_store" where
  "counterStore n = \<lparr>t_executions = [], t_previews = [], t_receipts = [], t_audit = [], t_securityAudit = [], business = n\<rparr>"

definition counterConfirmation :: confirm_request where
  "counterConfirmation = \<lparr>cf_propertyId = Some ''p'', cf_commandType = ''CREATE_MEMBER'', cf_confirmation = True,
     cf_expectedEffectHash = Some ''0'', cf_reason = Some \<lparr>rs_code = Some ''R'', rs_note = Some ''n''\<rparr>\<rparr>"

text \<open>The store after a preview, and after its confirmation.\<close>

definition previewedStore :: "nat command_store" where
  "previewedStore = snd (createCommandPreview counterEnv (counterCtx ''1'') counterSubject ''CREATE_MEMBER''
     [(''propertyId'', JStr ''p'')] (Some ''k1'') (Some ''c1'') (counterStore 0))"

definition confirmedStore :: "nat command_store" where
  "confirmedStore = snd (confirmCommandPreview counterEnv (counterCtx ''2'') counterSubject ''preview_1'' counterConfirmation
     (Some ''k2'') (Some ''c2'') previewedStore)"

lemma counter_preview_step: "protocolStep counterEnv (counterStore 0) previewedStore"
  unfolding previewedStore_def by (rule protocolStep.preview) (rule surjective_pairing)

lemma counter_confirm_step: "protocolStep counterEnv previewedStore confirmedStore"
  unfolding confirmedStore_def by (rule protocolStep.confirm) (rule surjective_pairing)

lemma counter_run: "(protocolStep counterEnv)\<^sup>*\<^sup>* (counterStore 0) confirmedStore"
  by (meson counter_preview_step counter_confirm_step rtranclp.rtrancl_refl rtranclp.rtrancl_into_rtrancl)

lemma counter_empty: "emptyProtocol (counterStore n)"
  by (simp add: emptyProtocol_def counterStore_def)

section \<open>Properties\<close>

lemma inj_on_ex1: "inj_on f A \<Longrightarrow> y \<in> f ` A \<Longrightarrow> \<exists>!x. x \<in> A \<and> f x = y"
  by (auto dest: inj_onD)

text \<open>
  C1: a preview is applied at most once. In every state that requests can reach from empty protocol
  tables, in any order and interleaved with any change of the business tables, the number of audit
  entries that record the application of a preview is one if the preview is USED and zero otherwise.
\<close>

theorem preview_applied_once:
  assumes "emptyProtocol st0" and "(protocolStep env)\<^sup>*\<^sup>* st0 st"
  shows "applicationsOf previewId st = (if usedPreview previewId st then 1 else 0)"
  using protocol.reachable_inv [OF assms] by (simp add: protocolInv_def)

theorem preview_applied_once_witness:
  "applicationsOf ''preview_1'' confirmedStore = 1 \<and> applicationsOf ''preview_2'' confirmedStore = 0"
proof -
  have "map (\<lambda>p. (pv_id p, pv_status p)) (t_previews confirmedStore) = [(''preview_1'', USED)]"
    by code_simp
  then have "usedPreview ''preview_1'' confirmedStore" "\<not> usedPreview ''preview_2'' confirmedStore"
    by (simp_all only: usedPreview_row) simp_all
  then show ?thesis
    using preview_applied_once [OF counter_empty counter_run, of "''preview_1''"]
      preview_applied_once [OF counter_empty counter_run, of "''preview_2''"] by simp
qed

text \<open>
  C13: no execution is left open. In every reachable state each stored execution is applied or rejected
  and has exactly one receipt, which says EXECUTED and committed for an applied execution, and
  NOT_EXECUTED with an error for a rejected one; no two executions share a key.
\<close>

theorem executions_have_receipts:
  assumes "emptyProtocol st0" and "(protocolStep env)\<^sup>*\<^sup>* st0 st" and "e \<in> set (t_executions st)"
  shows "(\<exists>!r. r \<in> set (t_receipts st) \<and> rc_commandId r = ex_id e)
    \<and> (\<forall>r\<in>set (t_receipts st). rc_commandId r = ex_id e \<longrightarrow> agrees (ex_state e) r)
    \<and> (\<forall>e'\<in>set (t_executions st). keyOf e' = keyOf e \<longrightarrow> e' = e)"
proof -
  have inv: "protocolInv st" using protocol.reachable_inv [OF assms(1,2)] .
  then have ids: "ex_id e \<in> rc_commandId ` set (t_receipts st)" and inj: "inj_on rc_commandId (set (t_receipts st))"
    and keys: "inj_on keyOf (set (t_executions st))"
    using assms(3) by (simp_all add: protocolInv_def distinct_map)
  have "\<exists>!r. r \<in> set (t_receipts st) \<and> rc_commandId r = ex_id e"
    by (rule inj_on_ex1 [OF inj ids])
  moreover have "\<forall>e'\<in>set (t_executions st). keyOf e' = keyOf e \<longrightarrow> e' = e"
    using inj_onD [OF keys _ _ assms(3)] by blast
  moreover have "\<forall>r\<in>set (t_receipts st). rc_commandId r = ex_id e \<longrightarrow> agrees (ex_state e) r"
    using inv assms(3) by (simp add: protocolInv_def)
  ultimately show ?thesis by blast
qed

theorem executions_have_receipts_witness:
  "t_executions confirmedStore \<noteq> [] \<and>
   (\<exists>!r. r \<in> set (t_receipts confirmedStore) \<and> rc_commandId r = ex_id (hd (t_executions confirmedStore)))"
proof -
  have "t_executions confirmedStore \<noteq> []" by code_simp
  then show ?thesis
    using executions_have_receipts [OF counter_empty counter_run, of "hd (t_executions confirmedStore)"] by simp
qed

end
