(* ===== verification/CommandInput.thy ===== *)
theory CommandInput
  imports CommandSafety
begin

text \<open>
  The normal form of a request before it is hashed and stored: normalising an order twice changes
  nothing more, and the secret of a token is gone.
\<close>

section \<open>Objects\<close>

lemma prop_of_jmap_set: "prop_of (jmap_set k v obj) k' = (if k' = k then v else prop_of obj k')"
  by (induction obj) (auto simp: prop_of_def split: if_splits)

lemma jmap_set_same: "prop_of obj k = v \<Longrightarrow> v \<noteq> JUndefined \<Longrightarrow> jmap_set k v obj = obj"
  by (induction obj) (auto simp: prop_of_def split: if_splits)

lemma strOf_Some [simp]: "strOf v = Some s \<longleftrightarrow> v = JStr s"
  by (cases v) auto

section \<open>Trimmed fields\<close>

definition settled :: "string set \<Rightarrow> json_object \<Rightarrow> bool" where
  "settled names obj \<longleftrightarrow> (\<forall>k\<in>names. \<forall>s. prop_of obj k = JStr s \<longrightarrow> trim s = s)"

lemma trimmedFields_Nil [simp]: "trimmedFields [] obj = obj"
  by (simp add: trimmedFields_def)

lemma trimmedFields_Cons:
  "trimmedFields (k # names) obj =
     trimmedFields names (case strOf (prop_of obj k) of Some s \<Rightarrow> jmap_set k (JStr (trim s)) obj | None \<Rightarrow> obj)"
  by (simp add: trimmedFields_def)

lemma settled_trimmedFields: "settled names obj \<Longrightarrow> settled (names \<union> set ks) (trimmedFields ks obj)"
proof (induction ks arbitrary: names obj)
  case (Cons k ks)
  have "settled (insert k names) (case strOf (prop_of obj k) of Some s \<Rightarrow> jmap_set k (JStr (trim s)) obj | None \<Rightarrow> obj)"
    using Cons.prems by (cases "strOf (prop_of obj k)") (auto simp: settled_def prop_of_jmap_set)
  from Cons.IH [OF this] show ?case by (simp add: trimmedFields_Cons)
qed simp

lemma trimmedFields_settled: "settled (set names) obj \<Longrightarrow> trimmedFields names obj = obj"
proof (induction names)
  case (Cons k names)
  have "(case strOf (prop_of obj k) of Some s \<Rightarrow> jmap_set k (JStr (trim s)) obj | None \<Rightarrow> obj) = obj"
  proof (cases "strOf (prop_of obj k)")
    case (Some s)
    then have "prop_of obj k = JStr s" by simp
    moreover from this have "trim s = s" using Cons.prems unfolding settled_def by (metis list.set_intros(1))
    ultimately show ?thesis using jmap_set_same [of obj k "JStr s"] by simp
  qed simp
  moreover have "settled (set names) obj" using Cons.prems unfolding settled_def by (meson list.set_intros(2))
  ultimately show ?case using Cons.IH by (simp add: trimmedFields_Cons)
qed simp

lemma trimmedFields_idem [simp]: "trimmedFields names (trimmedFields names obj) = trimmedFields names obj"
proof -
  have "settled {} obj" by (simp add: settled_def)
  from settled_trimmedFields [OF this, of names] show ?thesis by (simp add: trimmedFields_settled)
qed

lemma normalizeGuest_idem [simp]: "normalizeGuest (normalizeGuest g) = normalizeGuest g"
  by (cases g) (simp_all add: normalizeGuest_def)

lemma normalizeGuest_map: "map normalizeGuest (map normalizeGuest gs) = map normalizeGuest gs"
  by simp

text \<open>
  An order request has one normal form. Normalising a normalised CREATE_ORDER request changes
  nothing, so a client that sends the normalised request again gets the same request hash and the
  idempotent replay; and a guest field that is a string comes out trimmed.
\<close>

theorem normalizeOrderInput_idem:
  "normalizeOrderInput (normalizeOrderInput input) = normalizeOrderInput input"
proof (cases "asObject (prop_of input ''primaryGuest'')")
  case None
  then show ?thesis by (simp add: normalizeOrderInput_def)
next
  case (Some primary)
  let ?g = "trimmedFields guestFields primary"
  let ?in1 = "jmap_set ''primaryGuest'' (JObj ?g) input"
  have g: "normalizeGuest (JObj primary) = JObj ?g" "normalizeGuest (JObj ?g) = JObj ?g"
    by (simp_all add: normalizeGuest_def)
  consider (arr) gs where "prop_of input ''additionalGuests'' = JArr gs"
    | (other) "asArray (prop_of input ''additionalGuests'') = None" "prop_of input ''additionalGuests'' \<noteq> JUndefined"
    | (none) "prop_of input ''additionalGuests'' = JUndefined"
    by (cases "prop_of input ''additionalGuests''") auto
  then show ?thesis
  proof cases
    case arr
    then have "normalizeOrderInput input = jmap_set ''additionalGuests'' (JArr (map normalizeGuest gs)) ?in1"
      by (simp add: normalizeOrderInput_def Some g spread_def)
    then show ?thesis
      by (simp add: normalizeOrderInput_def prop_of_jmap_set g spread_def jmap_set_same)
  next
    case other
    then have "normalizeOrderInput input = ?in1"
      by (simp add: normalizeOrderInput_def Some g spread_def prop_of_jmap_set jmap_set_same)
    with other show ?thesis
      by (simp add: normalizeOrderInput_def prop_of_jmap_set g spread_def jmap_set_same)
  next
    case none
    then have "normalizeOrderInput input = ?in1"
      by (simp add: normalizeOrderInput_def Some g spread_def)
    with none show ?thesis
      by (simp add: normalizeOrderInput_def prop_of_jmap_set g spread_def jmap_set_same)
  qed
qed

lemma prop_of_filter: "prop_of (filter (\<lambda>(k, v). k \<noteq> key) obj) k' = (if k' = key then JUndefined else prop_of obj k')"
  by (induction obj) (auto simp: prop_of_def split: if_splits)

text \<open>
  C15: the secret of a token is not stored. What the preview of ISSUE_TOKEN or ROTATE_TOKEN keeps of the
  request has no tokenSecret; it has its hash, and every other field as it was sent.
\<close>

theorem token_secret_not_stored:
  assumes "commandType = ''ISSUE_TOKEN'' \<or> commandType = ''ROTATE_TOKEN''"
    and "normalizeCommandEnvelope env commandType input = Inr stored"
  shows "\<exists>secret. prop_of input ''tokenSecret'' = JStr secret \<and> 16 \<le> card (set (drop 4 secret))
    \<and> prop_of stored ''tokenSecret'' = JUndefined \<and> prop_of stored ''tokenSecretHash'' = JStr (digest env secret)
    \<and> (\<forall>k. k \<notin> {''tokenSecret'', ''tokenSecretHash''} \<longrightarrow> prop_of stored k = prop_of input k)"
proof -
  have "normalizeTokenInput env input = Inr stored"
    using assms by (auto simp: normalizeCommandEnvelope_def memberCorrectionCommandTypes_def)
  then show ?thesis
    by (auto simp: normalizeTokenInput_def spread_def prop_of_jmap_set prop_of_filter length_remdups_card_conv
        split: option.splits if_splits)
qed

theorem token_secret_not_stored_witness:
  "\<exists>stored. normalizeCommandEnvelope counterEnv ''ISSUE_TOKEN''
      [(''subjectId'', JStr ''s''), (''tokenSecret'', JStr ''qtp_ABCDEFGHIJKLMNOPQRSTUVWXYZabcdefghijklmnopq'')] = Inr stored
    \<and> prop_of stored ''tokenSecret'' = JUndefined \<and> prop_of stored ''subjectId'' = JStr ''s''"
proof -
  let ?input = "[(''subjectId'', JStr ''s''), (''tokenSecret'', JStr ''qtp_ABCDEFGHIJKLMNOPQRSTUVWXYZabcdefghijklmnopq'')]"
  have "map_option (\<lambda>_. ()) (case normalizeCommandEnvelope counterEnv ''ISSUE_TOKEN'' ?input of Inl _ \<Rightarrow> None | Inr s \<Rightarrow> Some s) \<noteq> None"
    by code_simp
  then obtain stored where stored: "normalizeCommandEnvelope counterEnv ''ISSUE_TOKEN'' ?input = Inr stored"
    by (auto split: sum.splits)
  have "prop_of ?input ''subjectId'' = JStr ''s''" by (simp add: prop_of_def)
  with token_secret_not_stored [OF _ stored] stored show ?thesis by fastforce
qed

end
