(* ===== verification/CommandOutcome.thy ===== *)
theory CommandOutcome
  imports CommandSafety
begin

text \<open>
  What a client can rely on after a request: the outcome of a confirmation, that a key executes at
  most once, and that a resolved key stays closed.
\<close>

section \<open>The outcome of a confirmation\<close>

lemma atomically_cases:
  assumes "atomically body st = (r, st')"
  obtains e where "r = Inl e" "st' = st" "body st = Inl e" | x where "r = Inr x" "body st = Inr (x, st')"
  using assms by (auto simp: atomically_def split: sum.splits)

lemma confirmFailure_outcome:
  assumes "confirmFailure env ctx who previewId conf p c k co h e st = (r, st')"
  shows "case r of Inl _ \<Rightarrow> st' = st
    | Inr receipt \<Rightarrow> (rd_executionStatus receipt = NOT_EXECUTED \<and> \<not> rd_businessCommitted receipt)
        \<and> recordsOver st REJECTED {} (closedFrom who p c st) st'"
proof -
  have key: "case r of Inl _ \<Rightarrow> st' = st
    | Inr receipt \<Rightarrow> (rd_executionStatus receipt = NOT_EXECUTED \<and> \<not> rd_businessCommitted receipt)
        \<and> recordsOver st REJECTED {} (closedFrom who p c st) st'"
    if "(case atomically (persistRejected env ctx who p c k co h reason err False close) st of
          (Inl pe, s) \<Rightarrow> (Inl (f pe), s) | (Inr x, s) \<Rightarrow> (Inr x, s)) = (r, st')" for reason err close f
  proof -
    obtain r0 st0 where at: "atomically (persistRejected env ctx who p c k co h reason err False close) st = (r0, st0)"
      by fastforce
    from at show ?thesis
    proof (cases rule: atomically_cases)
      case (1 e)
      then show ?thesis using that at by auto
    next
      case (2 x)
      then have "r = Inr x" "st' = st0" using that at by auto
      then show ?thesis using persistRejected_records [OF 2(2)] persistRejected_receipt [OF 2(2)] by simp
    qed
  qed
  show ?thesis
  proof (cases "leavesNoRejection c e")
    case True
    then show ?thesis using assms by (auto simp: confirmFailure_def)
  next
    case False
    then show ?thesis
      using assms unfolding confirmFailure_def Let_def if_not_P [OF False] by (rule_tac key)
  qed
qed

text \<open>The three outcomes of an attempt that returned a receipt.\<close>

definition attemptOutcome ::
  "auth_principal \<Rightarrow> string \<Rightarrow> string \<Rightarrow> string \<Rightarrow> 'b command_store \<Rightarrow> receipt_dto \<Rightarrow> 'b command_store \<Rightarrow> bool" where
  "attemptOutcome who previewId p c st receipt st' \<longleftrightarrow>
     st' = st
     \<or> rd_executionStatus receipt = NOT_EXECUTED \<and> \<not> rd_businessCommitted receipt
        \<and> recordsOver st REJECTED {} (closedFrom who p c st) st'
     \<or> rd_executionStatus receipt = EXECUTED \<and> rd_businessCommitted receipt
        \<and> recordsOver st APPLIED {previewId} (usedFrom previewId st) st'"

lemma confirmAttempt_outcome:
  assumes "confirmAttempt env ctx who previewId conf p c k co h st = (r, st')"
  shows "case r of Inl _ \<Rightarrow> st' = st | Inr receipt \<Rightarrow> attemptOutcome who previewId p c st receipt st'"
proof -
  obtain r0 st0 where at: "atomically (confirmTransaction env ctx who previewId conf p c k co h) st = (r0, st0)"
    by fastforce
  from at show ?thesis
  proof (cases rule: atomically_cases)
    case (1 e)
    then have "confirmFailure env ctx who previewId conf p c k co h e st = (r, st')"
      using assms at by (simp add: confirmAttempt_def)
    from confirmFailure_outcome [OF this] show ?thesis
      by (cases r) (auto simp: attemptOutcome_def)
  next
    case (2 x)
    then have "r = Inr x" "st' = st0" using assms at by (auto simp: confirmAttempt_def)
    then show ?thesis
      using confirmTransaction_records [OF 2(2)] confirmTransaction_receipt [OF 2(2)] by (auto simp: attemptOutcome_def)
  qed
qed

lemma confirmPreviewed_outcome:
  assumes "confirmPreviewed env ctx who previewId conf k co h st = (r, st')"
  shows "st' = st
    \<or> (\<exists>stored receipt. findPreview previewId st = Some stored \<and> r = Inr receipt
         \<and> attemptOutcome who previewId (pv_propertyId stored) (pv_commandType stored) st receipt st')"
proof (cases "findPreview previewId st")
  case None
  then show ?thesis
    using assms by (auto simp: confirmPreviewed_def confirmWithoutPreview_def Let_def split: if_splits option.splits elim!: atomically_cases)
next
  case (Some stored)
  show ?thesis
  proof (cases "confirmAttempt env ctx who previewId conf (pv_propertyId stored) (pv_commandType stored) k co h st = (r, st')")
    case True
    from confirmAttempt_outcome [OF this] Some show ?thesis by (cases r) auto
  next
    case False
    then show ?thesis
      using assms Some by (auto simp: confirmPreviewed_def withExecutionLock_def Let_def split: if_splits option.splits)
  qed
qed

lemma withCommandAuthorizationAudit_Inr:
  "withCommandAuthorizationAudit env work st = (Inr x, st') \<longleftrightarrow> work st = (Inr x, st')"
  by (auto simp: withCommandAuthorizationAudit_def split: prod.splits sum.splits command_failure.splits)

lemma withCommandAuthorizationAudit_Inl:
  assumes "withCommandAuthorizationAudit env work st = (Inl e, st')"
  obtains st1 where "work st = (Inl e, st1)" "st' = st1\<lparr>t_securityAudit := t_securityAudit st'\<rparr>"
  using assms by (auto simp: withCommandAuthorizationAudit_def split: prod.splits sum.splits command_failure.splits)

lemma findPreview_markPreviewUsed:
  "findPreview previewId (markPreviewUsed previewId st) = map_option (\<lambda>p. p\<lparr>pv_status := USED\<rparr>) (findPreview previewId st)"
proof -
  have "find (\<lambda>p. pv_id p = previewId) (updateWhere (\<lambda>p. pv_id p = previewId) (\<lambda>p. p\<lparr>pv_status := USED\<rparr>) ps)
      = map_option (\<lambda>p. p\<lparr>pv_status := USED\<rparr>) (find (\<lambda>p. pv_id p = previewId) ps)" for ps
    by (induction ps) (auto simp: updateWhere_def)
  then show ?thesis by (simp add: findPreview_def markPreviewUsed_def)
qed

text \<open>What an outcome says of the tables.\<close>

lemma recordsOver_closed:
  assumes "recordsOver st s {} (closedFrom who p c st) st'"
  shows "business st' = business st" "\<And>i. usedPreview i st' = usedPreview i st"
    "\<exists>e. t_executions st' = t_executions st @ [e] \<and> ex_state e = s"
proof -
  obtain st1 ex rc au where *: "closedFrom who p c st st1" "ex_state ex = s" "t_executions st1 = t_executions st" "st' = recorded ex rc au st1"
    using assms by (auto simp: recordsOver_def)
  then have st1: "business st1 = business st" "usedPreview i st1 = usedPreview i st" for i
    by (auto simp: closedFrom_def usedPreview_closePreview)
  show "business st' = business st" using *(4) st1(1) by (simp add: recorded_def)
  show "usedPreview i st' = usedPreview i st" for i
    using st1(2) [of i] *(4) by (simp add: recorded_def usedPreview_def)
  show "\<exists>e. t_executions st' = t_executions st @ [e] \<and> ex_state e = s"
    using *(2-4) by (simp add: recorded_def)
qed

lemma recordsOver_used:
  assumes "recordsOver st s {previewId} (usedFrom previewId st) st'"
  shows "\<exists>p. findPreview previewId st = Some p \<and> pv_status p = OPEN \<and> findPreview previewId st' = Some (p\<lparr>pv_status := USED\<rparr>)"
    "\<exists>e. t_executions st' = t_executions st @ [e] \<and> ex_state e = s"
proof -
  obtain p b ex rc au where *: "findPreview previewId st = Some p" "pv_status p = OPEN" "ex_state ex = s"
    "st' = recorded ex rc au (markPreviewUsed previewId (st\<lparr>business := b\<rparr>))"
    using assms by (auto simp: recordsOver_def usedFrom_def)
  have "findPreview previewId st' = findPreview previewId (markPreviewUsed previewId (st\<lparr>business := b\<rparr>))"
    by (simp add: * recorded_def findPreview_def)
  also have "\<dots> = Some (p\<lparr>pv_status := USED\<rparr>)"
    using * by (simp add: findPreview_markPreviewUsed) (simp add: findPreview_def)
  finally show "\<exists>p. findPreview previewId st = Some p \<and> pv_status p = OPEN \<and> findPreview previewId st' = Some (p\<lparr>pv_status := USED\<rparr>)"
    using * by auto
  show "\<exists>e. t_executions st' = t_executions st @ [e] \<and> ex_state e = s"
    using * by (auto simp: recorded_def)
qed

text \<open>
  C12: the outcome of a confirmation. If it fails, the tables are unchanged except for the security
  audit. If it returns a receipt, then either nothing changed (a replay), or the receipt says that the
  command was not executed, the business tables are as before, no preview became USED and a rejected
  execution was added, or the receipt says that it was executed, the preview went from OPEN to USED and
  an applied execution was added.
\<close>

theorem confirm_outcome:
  assumes "confirmCommandPreview env ctx who previewId conf key correlation st = (r, st')"
  shows "case r of
      Inl _ \<Rightarrow> st' = st\<lparr>t_securityAudit := t_securityAudit st'\<rparr>
    | Inr receipt \<Rightarrow> st' = st
      \<or> rd_executionStatus receipt = NOT_EXECUTED \<and> \<not> rd_businessCommitted receipt \<and> business st' = business st
        \<and> (\<forall>i. usedPreview i st' = usedPreview i st)
        \<and> (\<exists>e. t_executions st' = t_executions st @ [e] \<and> ex_state e = REJECTED)
      \<or> rd_executionStatus receipt = EXECUTED \<and> rd_businessCommitted receipt
        \<and> (\<exists>p. findPreview previewId st = Some p \<and> pv_status p = OPEN \<and> findPreview previewId st' = Some (p\<lparr>pv_status := USED\<rparr>))
        \<and> (\<exists>e. t_executions st' = t_executions st @ [e] \<and> ex_state e = APPLIED)"
proof (cases r)
  case (Inl e)
  then have "\<exists>st1. (st1 = st) \<and> st' = st1\<lparr>t_securityAudit := t_securityAudit st'\<rparr>"
    using assms by (auto simp: confirmCommandPreview_def split: sum.splits elim!: withCommandAuthorizationAudit_Inl
        dest!: confirmPreviewed_outcome)
  then show ?thesis using Inl by simp
next
  case (Inr receipt)
  then obtain k co h where "confirmPreviewed env ctx who previewId conf k co h st = (Inr receipt, st')"
    using assms by (auto simp: confirmCommandPreview_def withCommandAuthorizationAudit_Inr split: sum.splits)
  then have "st' = st \<or> (\<exists>p c. attemptOutcome who previewId p c st receipt st')"
    by (auto dest!: confirmPreviewed_outcome)
  then show ?thesis
    using Inr by (auto simp: attemptOutcome_def recordsOver_closed recordsOver_used)
qed

theorem confirm_outcome_witness:
  "business confirmedStore = 1 \<and> (\<exists>p. findPreview ''preview_1'' previewedStore = Some p \<and> pv_status p = OPEN
     \<and> findPreview ''preview_1'' confirmedStore = Some (p\<lparr>pv_status := USED\<rparr>))"
proof -
  let ?call = "confirmCommandPreview counterEnv (counterCtx ''2'') counterSubject ''preview_1'' counterConfirmation
     (Some ''k2'') (Some ''c2'') previewedStore"
  have b: "business confirmedStore = 1" "business previewedStore = 0" by code_simp+
  have "?call = (fst ?call, confirmedStore)" by (simp add: confirmedStore_def)
  note outcome = confirm_outcome [OF this]
  show ?thesis
  proof (cases "fst ?call")
    case (Inl e)
    then have "confirmedStore = previewedStore\<lparr>t_securityAudit := t_securityAudit confirmedStore\<rparr>"
      using outcome by simp
    from arg_cong [OF this, of business] have "business confirmedStore = business previewedStore" by simp
    then show ?thesis using b by simp
  next
    case (Inr receipt)
    then have "confirmedStore \<noteq> previewedStore" "business confirmedStore \<noteq> business previewedStore"
      using b by auto
    then show ?thesis using outcome b Inr by simp
  qed
qed

section \<open>A key executes at most once\<close>

lemma receiptByCommand_id:
  "receiptByCommand env (st :: ('b, 'f) command_store_scheme) commandId historical = Inr (Some r) \<Longrightarrow> rd_commandId r = commandId"
  by (erule receiptByCommand_row) simp

lemma replayOrConflict_used:
  assumes "findExecution st s p c k = Some e" and "replayOrConflict env st s p c k h = Inr x"
  shows "\<exists>r. x = Some r \<and> rd_commandId r = ex_id e \<and> ex_requestHash e = h"
  using assms by (cases x) (auto simp: replayOrConflict_def receiptByCommand_id split: if_splits option.splits)

lemma insertExecution_used:
  "findExecution st (ap_subjectId who) p c k = Some e \<Longrightarrow>
     insertExecution (executionRow commandId who p c k h co s) st = Inr (False, st)"
  by (simp add: insertExecution_def executionRow_def)

lemma findExecution_tables: "t_executions st' = t_executions st \<Longrightarrow> findExecution st' s p c k = findExecution st s p c k"
  by (simp add: findExecution_def)

lemma confirmTransaction_used:
  assumes "findExecution st (ap_subjectId who) p c k = Some e"
    and "confirmTransaction env ctx who previewId conf p c k co h st = Inr (r, st')"
  shows "st' = st \<and> rd_commandId r = ex_id e \<and> ex_requestHash e = h"
  using assms replayOrConflict_used [OF assms(1)]
  by (auto simp: confirmTransaction_def Let_def split: option.splits if_splits)

lemma persistRejected_used:
  assumes "findExecution st (ap_subjectId who) p c k = Some e"
  shows "persistRejected env ctx who p c k co h reason err False close st = Inl (Failed (Raised err))"
proof -
  define st1 where "st1 = (case close of None \<Rightarrow> st | Some previewId \<Rightarrow>
      if previewId = [] then st else closePreview previewId (ap_subjectId who) p c st)"
  have "t_executions st1 = t_executions st"
    unfolding st1_def by (cases close) auto
  then have "findExecution st1 (ap_subjectId who) p c k = Some e"
    using assms by (metis findExecution_tables)
  then show ?thesis
    unfolding persistRejected_def Let_def st1_def [symmetric] by (simp add: insertExecution_used)
qed

lemma confirmFailure_used:
  assumes "findExecution st (ap_subjectId who) p c k = Some e"
  shows "\<exists>f. confirmFailure env ctx who previewId conf p c k co h failure st = (Inl f, st)"
  by (simp add: confirmFailure_def Let_def atomically_def persistRejected_used [OF assms])

lemma confirmAttempt_used:
  assumes "findExecution st (ap_subjectId who) p c k = Some e"
    and "confirmAttempt env ctx who previewId conf p c k co h st = (r, st')"
  shows "st' = st \<and> (\<forall>receipt. r = Inr receipt \<longrightarrow> rd_commandId receipt = ex_id e \<and> ex_requestHash e = h)"
proof -
  obtain r0 st0 where at: "atomically (confirmTransaction env ctx who previewId conf p c k co h) st = (r0, st0)"
    by fastforce
  from at show ?thesis
  proof (cases rule: atomically_cases)
    case (1 failure)
    then show ?thesis
      using assms(2) at confirmFailure_used [OF assms(1), of env ctx previewId conf co h failure] by (auto simp: confirmAttempt_def)
  next
    case (2 x)
    then show ?thesis
      using assms(2) at confirmTransaction_used [OF assms(1) 2(2)] by (auto simp: confirmAttempt_def)
  qed
qed

lemma confirmCommandPreview_used:
  assumes "confirmCommandPreview env ctx who previewId conf (Some key) correlation st = (r, st')"
    and "findPreview previewId st = Some p"
    and "findExecution st (ap_subjectId who) (pv_propertyId p) (pv_commandType p) (trim key) = Some e"
  shows "st' = st\<lparr>t_securityAudit := t_securityAudit st'\<rparr>
    \<and> (\<forall>receipt. r = Inr receipt \<longrightarrow> rd_commandId receipt = ex_id e \<and> ex_requestHash e = confirmationHash env previewId conf)"
proof (cases "liftR (assertWriteMetadata (Some key) correlation)")
  case (Inl f)
  then show ?thesis using assms(1) by (auto simp: confirmCommandPreview_def)
next
  case (Inr headers)
  obtain co where headers: "headers = (trim key, co)"
    using Inr by (auto simp: assertWriteMetadata_def split: if_splits)
  let ?work = "confirmPreviewed env ctx who previewId conf (trim key) co (confirmationHash env previewId conf)"
  have work: "st1 = st \<and> (\<forall>receipt. r1 = Inr receipt \<longrightarrow> rd_commandId receipt = ex_id e
      \<and> ex_requestHash e = confirmationHash env previewId conf)" if eq: "?work st = (r1, st1)" for r1 st1
    using eq assms(2)
    by (auto simp: confirmPreviewed_def withExecutionLock_def Let_def split: if_splits option.splits
        dest!: confirmAttempt_used [OF assms(3)])
  have call: "withCommandAuthorizationAudit env ?work st = (r, st')"
    using assms(1) Inr headers by (simp add: confirmCommandPreview_def)
  show ?thesis
  proof (cases r)
    case (Inl f)
    then obtain st1 where "?work st = (Inl f, st1)" "st' = st1\<lparr>t_securityAudit := t_securityAudit st'\<rparr>"
      using call by (auto elim: withCommandAuthorizationAudit_Inl)
    with work Inl show ?thesis by fastforce
  next
    case (Inr receipt)
    then show ?thesis using call work by (auto simp: withCommandAuthorizationAudit_Inr)
  qed
qed

text \<open>
  C10: a key executes at most once. Once an execution is stored under the key of a confirmation, a
  further confirmation under that key changes nothing but the security audit, whatever it carries and
  whatever the locks, the clock and the environment do; and if it returns a receipt, it is the receipt of
  the stored execution, and the request has the hash that execution was stored with.
\<close>

theorem key_executes_once:
  assumes "confirmCommandPreview env ctx who previewId conf (Some key) correlation st = (r, st')"
    and "findPreview previewId st = Some p"
    and "findExecution st (ap_subjectId who) (pv_propertyId p) (pv_commandType p) (trim key) = Some e"
  shows "st' = st\<lparr>t_securityAudit := t_securityAudit st'\<rparr>
    \<and> (case r of Inl _ \<Rightarrow> True
       | Inr receipt \<Rightarrow> rd_commandId receipt = ex_id e \<and> ex_requestHash e = confirmationHash env previewId conf)"
  using confirmCommandPreview_used [OF assms] by (auto split: sum.splits)

theorem key_executes_once_witness:
  "business (snd (confirmCommandPreview counterEnv (counterCtx ''3'') counterSubject ''preview_1'' counterConfirmation
     (Some ''k2'') (Some ''c3'') confirmedStore)) = 1"
proof -
  let ?call = "confirmCommandPreview counterEnv (counterCtx ''3'') counterSubject ''preview_1'' counterConfirmation
     (Some ''k2'') (Some ''c3'') confirmedStore"
  have "map_option (\<lambda>p. (pv_propertyId p, pv_commandType p)) (findPreview ''preview_1'' confirmedStore) = Some (''p'', ''CREATE_MEMBER'')"
    by code_simp
  then obtain p where p: "findPreview ''preview_1'' confirmedStore = Some p" "pv_propertyId p = ''p''" "pv_commandType p = ''CREATE_MEMBER''"
    by auto
  have "map_option ex_id (findExecution confirmedStore (ap_subjectId counterSubject) ''p'' ''CREATE_MEMBER'' (trim ''k2''))
      = Some ''command_2''"
    by code_simp
  then obtain e where e: "findExecution confirmedStore (ap_subjectId counterSubject) (pv_propertyId p) (pv_commandType p) (trim ''k2'') = Some e"
    unfolding p by auto
  have b: "business confirmedStore = 1" by code_simp
  have "snd ?call = confirmedStore\<lparr>t_securityAudit := t_securityAudit (snd ?call)\<rparr>"
    using key_executes_once [OF surjective_pairing [of ?call] p(1) e] by (rule conjunct1)
  from arg_cong [OF this, of business] show ?thesis by (simp add: b)
qed

section \<open>A resolved key stays closed\<close>

lemma findExecution_extends:
  "extends st st' \<Longrightarrow> findExecution st s p c k = Some e \<Longrightarrow> findExecution st' s p c k = Some e"
  by (auto simp: extends_def findExecution_def find_append)

lemma visibleResult_id: "visibleResult env st e = Inr (ReceiptRead r) \<Longrightarrow> rd_commandId r = ex_id e"
  by (auto simp: visibleResult_def receiptByCommand_id split: option.splits)

lemma recordCommand_executions: "recordCommand env rc au st = Inr (r, st') \<Longrightarrow> t_executions st' = t_executions st"
  by (auto simp: recordCommand_def insert_simps)

lemma findExecution_inserted:
  assumes "keyOf row \<notin> keyOf ` set (t_executions st)" and "t_executions st' = t_executions st @ [row]"
  shows "findExecution st' (ex_subjectId row) (ex_propertyId row) (ex_commandType row) (ex_idempotencyKey row) = Some row"
proof -
  have "find (sameKey (ex_subjectId row) (ex_propertyId row) (ex_commandType row) (ex_idempotencyKey row)) (t_executions st) = None"
    using assms(1) find_sameKey_None [of st] by (simp add: findExecution_def keyOf_def)
  then show ?thesis by (simp add: findExecution_def assms(2) find_append sameKey_def)
qed

lemma writeFence_closes:
  assumes "writeFence env ctx who p c k rk co st = Inr (ReceiptRead r, st')"
  shows "\<exists>e. findExecution st' (ap_subjectId who) p c k = Some e \<and> ex_id e = rd_commandId r"
proof -
  let ?row = "executionRow (newIdIn (ctx_uuid ctx) ''command'') who p c k (fenceHash env (ap_subjectId who) p c k) co REJECTED"
  obtain inserted st1 where ins: "insertExecution ?row st = Inr (inserted, st1)"
    using assms by (auto simp: writeFence_def Let_def)
  show ?thesis
  proof (cases inserted)
    case False
    then show ?thesis
      using assms ins by (auto simp: writeFence_def Let_def visibleResult_id split: option.splits)
  next
    case True
    then obtain rc au where rec: "recordCommand env rc au st1 = Inr (r, st')" and rc: "rc_commandId rc = ex_id ?row"
      using assms ins by (auto simp: writeFence_def Let_def)
    have row: "keyOf ?row \<notin> keyOf ` set (t_executions st)" "t_executions st1 = t_executions st @ [?row]"
      using ins True by (auto simp: insertExecution_Inr split: if_splits)
    have "findExecution st' (ap_subjectId who) p c k = Some ?row"
      using findExecution_inserted [OF row(1), of st'] recordCommand_executions [OF rec] row(2) by (simp add: executionRow_def)
    then show ?thesis
      using recordCommand_receipt [OF rec] rc by (simp add: sameOutcome_def)
  qed
qed

lemma resolve_closes:
  assumes "resolveCommandResult env ctx who p c originalKey key correlation st = (Inr (ReceiptRead r), st')"
  shows "\<exists>e. findExecution st' (ap_subjectId who) (trim p) c (trim originalKey) = Some e \<and> ex_id e = rd_commandId r"
proof -
  obtain rk co where "resolveTransaction env ctx who (trim p) c (trim originalKey) rk co st = Inr (ReceiptRead r, st')"
    using assms by (auto simp: resolveCommandResult_def withCommandAuthorizationAudit_Inr split: sum.splits elim!: atomically_cases)
  then show ?thesis
    by (auto simp: resolveTransaction_def Let_def visibleResult_id split: if_splits option.splits dest: writeFence_closes)
qed

text \<open>
  C11: a resolved key stays closed. After a resolution has returned a receipt for a key, and after any
  further requests and any change of the business tables, every confirmation under that key leaves the
  store as it is except for the security audit, and can only return the receipt that the resolution
  returned: the original request can no longer be executed.
\<close>

theorem resolution_closes_key:
  assumes "resolveCommandResult env ctx who propertyId commandType originalKey key correlation st = (Inr (ReceiptRead receipt), st1)"
    and "(protocolStep env)\<^sup>*\<^sup>* st1 st2"
    and "findPreview previewId st2 = Some p" "pv_propertyId p = trim propertyId" "pv_commandType p = commandType"
    and "trim key' = trim originalKey"
    and "confirmCommandPreview env ctx' who previewId conf (Some key') correlation' st2 = (r, st3)"
  shows "st3 = st2\<lparr>t_securityAudit := t_securityAudit st3\<rparr>
    \<and> (case r of Inl _ \<Rightarrow> True | Inr receipt' \<Rightarrow> rd_commandId receipt' = rd_commandId receipt)"
proof -
  obtain e where "findExecution st1 (ap_subjectId who) (trim propertyId) commandType (trim originalKey) = Some e"
    and id: "ex_id e = rd_commandId receipt"
    using resolve_closes [OF assms(1)] by auto
  then have "findExecution st2 (ap_subjectId who) (pv_propertyId p) (pv_commandType p) (trim key') = Some e"
    using findExecution_extends [OF steps_extend [OF assms(2)]] assms(4-6) by simp
  from confirmCommandPreview_used [OF assms(7,3) this] show ?thesis
    by (auto simp: id split: sum.splits)
qed

definition resolvedCall :: "command_read command_result \<times> nat command_store" where
  "resolvedCall = resolveCommandResult counterEnv (counterCtx ''2'') counterSubject ''p'' ''CREATE_MEMBER'' ''k2'' (Some ''k9'') (Some ''c9'')
     previewedStore"

theorem resolution_closes_key_witness:
  "business (snd (confirmCommandPreview counterEnv (counterCtx ''3'') counterSubject ''preview_1'' counterConfirmation
     (Some ''k2'') (Some ''c3'') (snd resolvedCall))) = 0"
proof -
  let ?call = "confirmCommandPreview counterEnv (counterCtx ''3'') counterSubject ''preview_1'' counterConfirmation
     (Some ''k2'') (Some ''c3'') (snd resolvedCall)"
  have "(case fst resolvedCall of Inr (ReceiptRead receipt) \<Rightarrow> True | _ \<Rightarrow> False)" by code_simp
  then obtain receipt where "fst resolvedCall = Inr (ReceiptRead receipt)"
    by (auto split: sum.splits command_read.splits)
  with surjective_pairing [of resolvedCall] have "resolvedCall = (Inr (ReceiptRead receipt), snd resolvedCall)"
    by (simp only:)
  then have resolved: "resolveCommandResult counterEnv (counterCtx ''2'') counterSubject ''p'' ''CREATE_MEMBER'' ''k2'' (Some ''k9'')
      (Some ''c9'') previewedStore = (Inr (ReceiptRead receipt), snd resolvedCall)"
    unfolding resolvedCall_def .
  have "map_option (\<lambda>p. (pv_propertyId p, pv_commandType p)) (findPreview ''preview_1'' (snd resolvedCall))
      = Some (trim ''p'', ''CREATE_MEMBER'')"
    by code_simp
  then obtain p where p: "findPreview ''preview_1'' (snd resolvedCall) = Some p" "pv_propertyId p = trim ''p''"
    "pv_commandType p = ''CREATE_MEMBER''"
    by auto
  have b: "business (snd resolvedCall) = 0" by code_simp
  have "snd ?call = snd resolvedCall\<lparr>t_securityAudit := t_securityAudit (snd ?call)\<rparr>"
    using resolution_closes_key [OF resolved rtranclp.rtrancl_refl p refl surjective_pairing [of ?call]] by (rule conjunct1)
  from arg_cong [OF this, of business] show ?thesis by (simp add: b)
qed

section \<open>A resolution answers\<close>

text \<open>The rows that a request adds have identifiers of their own.\<close>

definition freshIds :: "call_context \<Rightarrow> 'b command_store \<Rightarrow> bool" where
  "freshIds ctx st \<longleftrightarrow> newIdIn (ctx_uuid ctx) ''command'' \<notin> ex_id ` set (t_executions st) \<union> rc_commandId ` set (t_receipts st)
     \<and> newIdIn (ctx_uuid ctx) ''receipt'' \<notin> rc_id ` set (t_receipts st)
     \<and> newIdIn (ctx_uuid ctx) ''audit'' \<notin> au_id ` set (t_audit st)"

lemma receiptByCommand_new:
  assumes "rc_result rc = JNull" "rc_commandId rc = ex_id ex"
    and "ex_id ex \<notin> ex_id ` set es" "ex_id ex \<notin> rc_commandId ` set rs"
    and "t_executions st = es @ [ex]" "t_receipts st = rs @ [rc]"
  shows "receiptByCommand env st (ex_id ex) historical = Inr (Some (receiptDto rc ex None))"
proof -
  have "find (\<lambda>r. rc_commandId r = ex_id ex) rs = None" "find (\<lambda>e. ex_id e = ex_id ex) es = None"
    unfolding find_None_iff using assms(3,4) by (metis imageI)+
  then show ?thesis
    using assms(1,2,5,6) by (simp add: receiptByCommand_def find_append)
qed

lemma writeFence_answers:
  assumes "findExecution st (ap_subjectId who) p c k = None" and "freshIds ctx st"
  shows "\<exists>r st'. writeFence env ctx who p c k rk co st = Inr (ReceiptRead r, st')
    \<and> rd_executionStatus r = NOT_EXECUTED \<and> \<not> rd_businessCommitted r"
proof -
  let ?id = "newIdIn (ctx_uuid ctx) ''command''"
  let ?row = "executionRow ?id who p c k (fenceHash env (ap_subjectId who) p c k) co REJECTED"
  have ins: "insertExecution ?row st = Inr (True, st\<lparr>t_executions := t_executions st @ [?row]\<rparr>)"
    using assms by (simp add: insertExecution_Inr find_sameKey_None freshIds_def)
  have "receiptByCommand env (st\<lparr>t_executions := t_executions st @ [?row], t_receipts := t_receipts st @ [rc], t_audit := au\<rparr>) ?id False
      = Inr (Some (receiptDto rc ?row None))" if "rc_result rc = JNull" "rc_commandId rc = ?id" for rc au
    using receiptByCommand_new [of rc ?row "t_executions st" "t_receipts st"
      "st\<lparr>t_executions := t_executions st @ [?row], t_receipts := t_receipts st @ [rc], t_audit := au\<rparr>"] that assms(2) by (simp add: freshIds_def)
  then show ?thesis
    using assms(2)
    by (simp add: writeFence_def Let_def ins recordCommand_def insertReceipt_def insertAudit_def list_ex_disj list_ex_image
        freshIds_def persistedReceipt_def liftR_def rejectedReceipt_def receiptDto_def)
qed

text \<open>
  An authorized resolution answers: of a key that no execution has, with the lock of the key and fresh
  identifiers, it returns a receipt that says the original request was not executed.
\<close>

lemma authorized_resolution_answers:
  assumes "trim propertyId \<noteq> []" "trim originalKey \<noteq> []" "trim key \<noteq> []" "trim correlation \<noteq> []"
    and "length key \<le> 160" "length correlation \<le> 160"
    and "commandType = ''CREATE_QUOTE'' \<or> isExecutableCommandType commandType"
    and "ctx_acquired ctx" and "freshIds ctx st"
    and "authorizeCommandAccess env (business st) who (authOptions (trim propertyId) commandType RESOLVE (trim originalKey)
          (Some (trim correlation)) READ_MODE None) = Inr ()"
    and "commandType = ''CREATE_QUOTE'' \<or> authorizeCommandAccess env (business st) who (authOptions (trim propertyId) commandType
          RESOLVE (trim originalKey) (Some (trim correlation)) EXECUTE None) = Inr ()"
    and "findExecution st (ap_subjectId who) (trim propertyId) commandType (trim originalKey) = None"
  shows "\<exists>receipt st'. resolveCommandResult env ctx who propertyId commandType originalKey (Some key) (Some correlation) st
      = (Inr (ReceiptRead receipt), st') \<and> rd_executionStatus receipt = NOT_EXECUTED \<and> \<not> rd_businessCommitted receipt"
proof -
  have headers: "assertWriteMetadata (Some key) (Some correlation) = Inr (trim key, trim correlation)"
    using assms(3-6) by (simp add: assertWriteMetadata_def present_def)
  obtain r st' where "writeFence env ctx who (trim propertyId) commandType (trim originalKey) (trim key) (trim correlation) st
      = Inr (ReceiptRead r, st')" and r: "rd_executionStatus r = NOT_EXECUTED" "\<not> rd_businessCommitted r"
    using writeFence_answers [OF assms(12,9)] by blast
  then have "resolveTransaction env ctx who (trim propertyId) commandType (trim originalKey) (trim key) (trim correlation) st
      = Inr (ReceiptRead r, st')"
    using assms(7,8,10-12) by (auto simp: resolveTransaction_def Let_def)
  then have "resolveCommandResult env ctx who propertyId commandType originalKey (Some key) (Some correlation) st
      = (Inr (ReceiptRead r), st')"
    using assms(1,2) by (simp add: resolveCommandResult_def headers liftR_def withCommandAuthorizationAudit_def atomically_def)
  with r show ?thesis by blast
qed

end
