(* ===== verification/AuthorizationSafety.thy ===== *)
theory AuthorizationSafety
  imports CommandAuthorization
begin

text \<open>
  What an authorization decision guarantees: the caller's credential is alive and its subject active; an
  execution runs only what the subject and the token were granted; a token that is issued or rotated has no
  access and no command beyond its subject and the caller, and does not outlive a token that asks for it; and
  the answer to a caller without the capability of a token command depends on the caller's own rows alone, not
  on the token or subject it names.
\<close>

section \<open>The rights of a caller, stated over the tables\<close>

definition credentialAlive :: "int \<Rightarrow> access_db \<Rightarrow> auth_principal \<Rightarrow> string \<Rightarrow> bool" where
  "credentialAlive now db who propertyId =
     (case ap_credentialType who of
        SESSION \<Rightarrow> (case findSession db (ap_credentialId who) of None \<Rightarrow> False
          | Some s \<Rightarrow> ws_subjectId s = ap_subjectId who \<and> ws_revokedAt s = None \<and> now < ws_expiresAt s)
      | TOKEN \<Rightarrow> (case findToken db (ap_credentialId who) of None \<Rightarrow> False
          | Some t \<Rightarrow> tk_subjectId t = ap_subjectId who \<and> tk_propertyScope t = propertyId \<and> tk_revokedAt t = None \<and> now < tk_expiresAt t))"

definition subjectActive :: "access_db \<Rightarrow> string \<Rightarrow> bool" where
  "subjectActive db subjectId = (case findSubject db subjectId of None \<Rightarrow> False | Some s \<Rightarrow> sub_status s = ACTIVE)"

definition accessOn :: "access_db \<Rightarrow> string \<Rightarrow> string \<Rightarrow> access_level option" where
  "accessOn db subjectId propertyId = map_option pg_accessLevel (findPropertyGrant db subjectId propertyId)"

definition callerAccess :: "access_db \<Rightarrow> auth_principal \<Rightarrow> string \<Rightarrow> access_level option" where
  "callerAccess db who propertyId =
     (case ap_credentialType who of
        SESSION \<Rightarrow> accessOn db (ap_subjectId who) propertyId
      | TOKEN \<Rightarrow> (case (accessOn db (ap_subjectId who) propertyId, findToken db (ap_credentialId who)) of
          (Some access, Some t) \<Rightarrow> Some (narrowAccess access (tk_accessCeiling t)) | _ \<Rightarrow> None))"

section \<open>What the locked rows are\<close>

lemma denyWith_not_Inr [simp]: "denyWith ctx reason c status \<noteq> Inr x" "Inr x \<noteq> denyWith ctx reason c status"
  by (simp_all add: denyWith_def)

lemma denyEvaluation_not_Inr [simp]: "denyEvaluation ctx reason \<noteq> Inr x"
  by (simp add: denyEvaluation_def)

lemma in_sortedUniqueIds [simp]: "set (sortedUniqueIds le xs) = set xs"
  by (simp add: sortedUniqueIds_def)

lemma mapR_keyed:
  assumes "mapR f ids = Inr rows" "\<And>x y. f x = Inr y \<Longrightarrow> \<exists>r. y = (x, r) \<and> P x r" "x \<in> set ids"
  shows "\<exists>r. map_of rows x = Some r \<and> P x r"
  using assms(1,3)
proof (induction ids arbitrary: rows)
  case (Cons a ids)
  from Cons.prems(1) obtain y ys where f: "f a = Inr y" and m: "mapR f ids = Inr ys" and rows: "rows = y # ys"
    by (auto simp: result_simps)
  from assms(2)[OF f] obtain r where "y = (a, r)" "P a r" by blast
  with Cons.IH[OF m] Cons.prems(2) show ?case by (auto simp: rows)
qed simp

lemma lockSubject_Inr: "lockSubject db who ctx x = Inr y \<Longrightarrow> \<exists>r. y = (x, r) \<and> findSubject db x = Some r"
  by (auto simp: lockSubject_def split: option.splits if_splits)

lemma lockPropertyGrant_Inr:
  "lockPropertyGrant db who p ctx x = Inr y \<Longrightarrow> \<exists>r. y = (x, r) \<and> findPropertyGrant db x p = Some r"
  by (auto simp: lockPropertyGrant_def split: option.splits if_splits)

lemma map_of_tagged: "x \<in> set xs \<Longrightarrow> map_of (map (\<lambda>s. (s, f s)) xs) x = Some (f x)"
  by (induction xs) auto

lemma lockScope_rows:
  assumes "lockScope db who p ctx ids = Inr locked" "x \<in> set ids"
  shows "\<exists>s g. findSubject db x = Some s \<and> findPropertyGrant db x p = Some g \<and> map_of (ls_subjects locked) x = Some s
    \<and> map_of (ls_propertyGrants locked) x = Some g
    \<and> map_of (ls_commandGrants locked) x = Some (lockedSubjectCommandGrants db x p)"
proof -
  from assms(1) obtain ss gs where m: "mapR (lockSubject db who ctx) ids = Inr ss" "mapR (lockPropertyGrant db who p ctx) ids = Inr gs"
    and l: "locked = \<lparr>ls_subjects = ss, ls_propertyGrants = gs, ls_commandGrants = map (\<lambda>s. (s, lockedSubjectCommandGrants db s p)) ids\<rparr>"
    by (auto simp: lockScope_def)
  have "\<exists>r. map_of ss x = Some r \<and> findSubject db x = Some r"
    by (rule mapR_keyed[OF m(1) _ assms(2)]) (rule lockSubject_Inr)
  moreover have "\<exists>r. map_of gs x = Some r \<and> findPropertyGrant db x p = Some r"
    by (rule mapR_keyed[OF m(2) _ assms(2)]) (rule lockPropertyGrant_Inr)
  ultimately show ?thesis by (auto simp: l map_of_tagged assms(2))
qed

lemma lockedTarget_Inr:
  assumes "lockScope db who p ctx ids = Inr locked" "x \<in> set ids" "lockedTokenTargetSubjectState x locked ctx' = Inr target"
  shows "(ts_status target = ACTIVE \<longleftrightarrow> subjectActive db x) \<and> accessOn db x p = Some (ts_propertyAccess target)
    \<and> ts_commandGrants target = lockedSubjectCommandGrants db x p"
  using lockScope_rows[OF assms(1,2)] assms(3)
  by (auto simp: lockedTokenTargetSubjectState_def subjectActive_def accessOn_def)

lemma lockToken_Inr:
  "lockToken db who p ctx related x = Inr y \<Longrightarrow> \<exists>t. y = (x, t) \<and> findToken db x = Some t
    \<and> (ap_credentialType who = TOKEN \<and> x = ap_credentialId who \<longrightarrow> tk_subjectId t = ap_subjectId who) \<and> tk_propertyScope t = p"
  by (auto simp: lockToken_def Let_def split: option.splits if_splits)

text \<open>A credential snapshot: the credential is alive, and the snapshot carries its ceilings.\<close>

lemma map_of_pairs: "map_of xs k = Some v \<Longrightarrow> map_of (map (\<lambda>(i, t). (i, f i t)) xs) k = Some (f k v)"
  by (induction xs) (auto split: if_splits)

lemma lockCredentialSnapshot_Inr:
  assumes "lockCredentialSnapshot le now db who p ctx related relatedTokens = Inr credential"
  shows "credentialAlive now db who p \<and> cs_credentialType credential = ap_credentialType who
    \<and> (ap_credentialType who = TOKEN \<longrightarrow> (\<exists>t. findToken db (ap_credentialId who) = Some t \<and> cs_propertyAccess credential = tk_accessCeiling t
        \<and> cs_expiresAt credential = tk_expiresAt t
        \<and> asSet (cs_tokenCommandCeiling credential) = lockedTokenCommandCeiling db (ap_credentialId who) (ap_subjectId who) p))
    \<and> (\<forall>x\<in>set relatedTokens. \<exists>t. findToken db x = Some t \<and> tk_propertyScope t = p \<and> map_of (cs_lockedTokens credential) x = Some t)"
proof -
  let ?ids = "sortedUniqueIds le ((if ap_credentialType who = TOKEN then [ap_credentialId who] else []) @ relatedTokens)"
  from assms obtain tokens where m: "mapR (lockToken db who p ctx related) ?ids = Inr tokens"
    by (auto simp: lockCredentialSnapshot_def Let_def)
  have rows: "\<exists>t. map_of tokens x = Some t \<and> findToken db x = Some t \<and>
      (ap_credentialType who = TOKEN \<and> x = ap_credentialId who \<longrightarrow> tk_subjectId t = ap_subjectId who) \<and> tk_propertyScope t = p"
    if "x \<in> set ?ids" for x
    by (rule mapR_keyed[OF m _ that]) (rule lockToken_Inr)
  have "cs_lockedTokens credential = tokens"
    using assms m by (auto simp: lockCredentialSnapshot_def Let_def split: if_splits credential_type.splits option.splits)
  then have third: "\<forall>x\<in>set relatedTokens. \<exists>t. findToken db x = Some t \<and> tk_propertyScope t = p \<and> map_of (cs_lockedTokens credential) x = Some t"
    using rows by fastforce
  show ?thesis
  proof (cases "ap_credentialType who")
    case SESSION
    with assms m third show ?thesis
      by (auto simp: lockCredentialSnapshot_def Let_def credentialAlive_def validSession_def split: if_splits option.splits)
  next
    case TOKEN
    then obtain t where "map_of tokens (ap_credentialId who) = Some t" "findToken db (ap_credentialId who) = Some t"
      "tk_subjectId t = ap_subjectId who" "tk_propertyScope t = p"
      using rows[of "ap_credentialId who"] by auto
    with TOKEN assms m third show ?thesis
      by (auto simp: lockCredentialSnapshot_def Let_def credentialAlive_def asSet_def
          map_of_pairs[where f = "\<lambda>i t. lockedTokenCommandCeiling db i (tk_subjectId t) p"] split: if_splits)
  qed
qed

text \<open>The steps of an authorization that succeeded.\<close>

lemma authorizeAccessE:
  assumes "authorizeAccess le parse now relatedSubjects relatedTokens db who options = Inr u"
  obtains c ctx constraint ids tokens locked credential where
    "lockCredentialSnapshot le now db who (ao_propertyId options) ctx ids tokens = Inr credential"
    "asCommandCatalogType (ao_commandType options) = Some c"
    "c = ''MANAGE_ROOM_CATALOG'' \<longrightarrow> adminSession db who (ao_propertyId options)"
    "resolveTokenLifecycleConstraint db (ao_propertyId options) (ao_tokenLifecycleConstraint options) ctx = Inr constraint"
    "lockScope db who (ao_propertyId options) ctx ids = Inr locked"
    "ap_subjectId who \<in> set ids" "set (targetSubjectIds constraint) \<subseteq> set ids" "set (targetTokenIds constraint) \<subseteq> set tokens"
    "decideAccess parse now who c (ao_mode options) constraint locked credential ctx = Inr u"
  using assms
  by (auto simp: authorizeAccess_def baseCommandCatalogType_def liftR_def Let_def split: option.splits if_splits sum.splits
      elim!: that)

lemma decideAccessE:
  assumes "decideAccess parse now who c mode constraint locked credential ctx = Inr u"
    and "lockScope db who p ctx' ids = Inr locked" "ap_subjectId who \<in> set ids"
    and "lockCredentialSnapshot le now db who p ctx' ids tokens = Inr credential"
  obtains subject access where "findSubject db (ap_subjectId who) = Some subject" "callerAccess db who p = Some access"
    "(if c = ''CREATE_QUOTE'' then quoteAccess subject access ctx
      else if mode = READ_MODE then readAccess c subject access (lockedSubjectCommandGrants db (ap_subjectId who) p) credential ctx
      else executeAccess parse now c subject access (lockedSubjectCommandGrants db (ap_subjectId who) p) credential constraint
        locked ctx) = Inr u"
proof -
  from lockScope_rows[OF assms(2,3)] obtain s g where rows: "findSubject db (ap_subjectId who) = Some s"
    "findPropertyGrant db (ap_subjectId who) p = Some g" "map_of (ls_subjects locked) (ap_subjectId who) = Some s"
    "map_of (ls_propertyGrants locked) (ap_subjectId who) = Some g"
    "map_of (ls_commandGrants locked) (ap_subjectId who) = Some (lockedSubjectCommandGrants db (ap_subjectId who) p)"
    by blast
  note cred = lockCredentialSnapshot_Inr[OF assms(4)]
  let ?access = "if cs_credentialType credential = TOKEN then narrowAccess (pg_accessLevel g) (cs_propertyAccess credential)
    else pg_accessLevel g"
  have "callerAccess db who p = Some ?access"
    using rows cred by (cases "ap_credentialType who") (auto simp: callerAccess_def accessOn_def)
  moreover note assms(1)
  ultimately show ?thesis using rows(1) that by (auto simp: decideAccess_def rows Let_def)
qed

lemma executeAccess_Inr:
  "executeAccess parse now c subject access grants credential constraint locked ctx = Inr u \<Longrightarrow>
     sub_status subject = ACTIVE \<and> access = WRITE \<and> c \<in> set (enabledGrants grants)
     \<and> (cs_credentialType credential = TOKEN \<longrightarrow> c \<noteq> ''MANAGE_ROOM_CATALOG'' \<and> c \<in> set (asSet (cs_tokenCommandCeiling credential)))
     \<and> assertResolvedTokenLifecycleConstraint parse now constraint credential grants locked ctx = Inr u"
  by (auto simp: executeAccess_def evaluateCommandAuthorization_def enabledGrants_def split: if_splits)

lemma effectiveSubjectGrants_iff:
  "c \<in> set (effectiveSubjectGrants db who p) \<longleftrightarrow>
     c \<in> set (enabledGrants (lockedSubjectCommandGrants db (ap_subjectId who) p))
     \<and> (ap_credentialType who = TOKEN \<longrightarrow> c \<noteq> ''MANAGE_ROOM_CATALOG''
        \<and> c \<in> set (lockedTokenCommandCeiling db (ap_credentialId who) (ap_subjectId who) p))"
  by (auto simp: effectiveSubjectGrants_def Let_def)

section \<open>A concrete property\<close>

text \<open>
  Subject s administers property p, with a session c and a token d that expires at 100; subject t holds the
  token k. The clock stands at 0, and every date text is read as 50.
\<close>

definition demoAccess :: access_db where
  "demoAccess = \<lparr>t_subjects = [\<lparr>sub_id = ''s'', sub_status = ACTIVE\<rparr>, \<lparr>sub_id = ''t'', sub_status = ACTIVE\<rparr>],
     t_propertyGrants = [\<lparr>pg_subjectId = ''s'', pg_propertyId = ''p'', pg_accessLevel = WRITE\<rparr>,
       \<lparr>pg_subjectId = ''t'', pg_propertyId = ''p'', pg_accessLevel = WRITE\<rparr>],
     t_commandGrants = map (\<lambda>(s, c). \<lparr>cg_subjectId = s, cg_propertyId = ''p'', cg_commandType = c\<rparr>)
       [(''s'', ''CREATE_MEMBER''), (''s'', ''ISSUE_TOKEN''), (''s'', ''ROTATE_TOKEN''), (''t'', ''CREATE_MEMBER'')],
     t_tokens = [\<lparr>tk_id = ''d'', tk_subjectId = ''s'', tk_accessCeiling = WRITE, tk_propertyScope = ''p'', tk_expiresAt = 100, tk_revokedAt = None\<rparr>,
       \<lparr>tk_id = ''k'', tk_subjectId = ''t'', tk_accessCeiling = WRITE, tk_propertyScope = ''p'', tk_expiresAt = 100, tk_revokedAt = None\<rparr>],
     t_tokenCeilings = map (\<lambda>c. \<lparr>tc_tokenId = ''d'', tc_subjectId = ''s'', tc_propertyId = ''p'', tc_commandType = c\<rparr>)
       [''CREATE_MEMBER'', ''ISSUE_TOKEN'', ''ROTATE_TOKEN''],
     t_sessions = [\<lparr>ws_id = ''c'', ws_subjectId = ''s'', ws_expiresAt = 100, ws_revokedAt = None\<rparr>], t_profiles = []\<rparr>"

definition demoToken :: auth_principal where
  "demoToken = \<lparr>ap_subjectId = ''s'', ap_credentialId = ''d'', ap_credentialType = TOKEN\<rparr>"

definition demoOptions :: "string \<Rightarrow> token_lifecycle_constraint option \<Rightarrow> authorization_options" where
  "demoOptions c constraint = \<lparr>ao_propertyId = ''p'', ao_commandType = c, ao_stage = STAGE_CONFIRM, ao_idempotencyKey = None,
     ao_correlationId = None, ao_mode = EXECUTE, ao_tokenLifecycleConstraint = constraint\<rparr>"

definition demoIssue :: token_lifecycle_constraint where
  "demoIssue = IssueToken (JStr ''t'') (JStr ''WRITE'') (JArr [JStr ''CREATE_MEMBER'']) (JStr ''2030'')"

definition demoRotate :: token_lifecycle_constraint where
  "demoRotate = RotateToken (JStr ''k'') (JArr [JStr ''CREATE_MEMBER'']) JUndefined"

abbreviation demoAuthorize :: "authorization_options \<Rightarrow> unit command_result" where
  "demoAuthorize options \<equiv> authorizeAccess (\<le>) (\<lambda>_. Some 50) 0 [] [] demoAccess demoToken options"

section \<open>Properties\<close>

lemma authorized_alive:
  assumes "authorizeAccess le parse now relatedSubjects relatedTokens db who options = Inr ()"
  shows "credentialAlive now db who (ao_propertyId options) \<and> subjectActive db (ap_subjectId who)
    \<and> callerAccess db who (ao_propertyId options) \<noteq> None"
proof (rule authorizeAccessE[OF assms])
  fix c ctx constraint ids tokens locked credential
  assume l: "lockScope db who (ao_propertyId options) ctx ids = Inr locked" "ap_subjectId who \<in> set ids"
    and cr: "lockCredentialSnapshot le now db who (ao_propertyId options) ctx ids tokens = Inr credential"
    and d: "decideAccess parse now who c (ao_mode options) constraint locked credential ctx = Inr ()"
  show ?thesis
  proof (rule decideAccessE[OF d l cr])
    fix subject access
    assume "findSubject db (ap_subjectId who) = Some subject" "callerAccess db who (ao_propertyId options) = Some access"
      and "(if c = ''CREATE_QUOTE'' then quoteAccess subject access ctx
        else if ao_mode options = READ_MODE
        then readAccess c subject access (lockedSubjectCommandGrants db (ap_subjectId who) (ao_propertyId options)) credential ctx
        else executeAccess parse now c subject access (lockedSubjectCommandGrants db (ap_subjectId who) (ao_propertyId options))
          credential constraint locked ctx) = Inr ()"
    then show ?thesis using lockCredentialSnapshot_Inr[OF cr]
      by (auto simp: subjectActive_def quoteAccess_def readAccess_def dest!: executeAccess_Inr split: if_splits)
  qed
qed

text \<open>
  C20: nothing is authorized, not even a read, for a credential that is not alive: the session or the token
  exists, is the caller's, is neither revoked nor expired, and a token is of this property; the subject is
  active and holds a grant on the property.
\<close>

theorem authorized_credential_alive:
  assumes "authorizeAccess le parse now relatedSubjects relatedTokens db who options = Inr ()"
  shows "credentialAlive now db who (ao_propertyId options) \<and> subjectActive db (ap_subjectId who)
    \<and> callerAccess db who (ao_propertyId options) \<noteq> None"
  using assms by (rule authorized_alive)

theorem authorized_credential_alive_witness:
  "credentialAlive 0 demoAccess demoToken ''p'' \<and> subjectActive demoAccess ''s'' \<and> callerAccess demoAccess demoToken ''p'' \<noteq> None"
proof -
  have "demoAuthorize (demoOptions ''CREATE_MEMBER'' None) = Inr ()" by code_simp
  from authorized_credential_alive [OF this] show ?thesis by (simp add: demoOptions_def demoToken_def)
qed

text \<open>
  What is authorized for execution. The caller's access, narrowed by the token's ceiling, is WRITE, and
  the command is one of its effective grants: an enabled grantable command that the subject was granted on
  this property and, for a token, that the token's ceiling holds. The room catalogue needs an administrator's
  session. A quote is a read, and is left out.
\<close>

lemma authorized_granted:
  assumes "authorizeAccess le parse now relatedSubjects relatedTokens db who options = Inr ()"
    and "asCommandCatalogType (ao_commandType options) = Some c" "c \<noteq> ''CREATE_QUOTE''" "ao_mode options = EXECUTE"
  shows "callerAccess db who (ao_propertyId options) = Some WRITE
    \<and> c \<in> set (effectiveSubjectGrants db who (ao_propertyId options))
    \<and> (if c = ''MANAGE_ROOM_CATALOG'' then adminSession db who (ao_propertyId options) else True)"
proof (rule authorizeAccessE[OF assms(1)])
  fix c' ctx constraint ids tokens locked credential
  assume "asCommandCatalogType (ao_commandType options) = Some c'"
    and admin: "c' = ''MANAGE_ROOM_CATALOG'' \<longrightarrow> adminSession db who (ao_propertyId options)"
    and l: "lockScope db who (ao_propertyId options) ctx ids = Inr locked" "ap_subjectId who \<in> set ids"
    and cr: "lockCredentialSnapshot le now db who (ao_propertyId options) ctx ids tokens = Inr credential"
    and d: "decideAccess parse now who c' (ao_mode options) constraint locked credential ctx = Inr ()"
  then have c: "c' = c" using assms(2) by simp
  show ?thesis
    by (rule decideAccessE[OF d l cr]) (use assms(3,4) admin c lockCredentialSnapshot_Inr[OF cr] in
      \<open>auto simp: effectiveSubjectGrants_iff dest!: executeAccess_Inr\<close>)
qed

section \<open>The tokens a caller may create\<close>

text \<open>The expiry of a new token does not pass that of the token that asks for it; a session has no say in it.\<close>

definition expiryWithin :: "(string \<Rightarrow> int option) \<Rightarrow> access_db \<Rightarrow> auth_principal \<Rightarrow> timestamp \<Rightarrow> bool" where
  "expiryWithin parse db who expiresAt =
     (case ap_credentialType who of SESSION \<Rightarrow> True
      | TOKEN \<Rightarrow> (case (timestampMillis parse expiresAt, findToken db (ap_credentialId who)) of
          (Inr t, Some token) \<Rightarrow> t \<le> tk_expiresAt token | _ \<Rightarrow> False))"

lemma expiryWithin_iff:
  "expiryWithin parse db who expiresAt \<longleftrightarrow> (ap_credentialType who = TOKEN \<longrightarrow>
     (\<exists>caller t. findToken db (ap_credentialId who) = Some caller \<and> timestampMillis parse expiresAt = Inr t
        \<and> t \<le> tk_expiresAt caller))"
  by (auto simp: expiryWithin_def split: credential_type.splits sum.splits option.splits)

lemma timestampMillis_AtText: "timestampMillis parse (AtText s) = Inr t \<longleftrightarrow> parse s = Some t"
  by (auto simp: timestampMillis_def split: option.splits)

lemma denyIfCommandCeilingExceeds_Inr:
  "denyIfCommandCeilingExceeds requested allowed ctx reason = Inr u \<longleftrightarrow> set requested \<subseteq> set allowed"
  by (auto simp: denyIfCommandCeilingExceeds_def list_ex_iff)

lemma denyIfCallerTokenExpiryExceeded_Inr:
  assumes "lockCredentialSnapshot le now db who p ctx ids tokens = Inr credential"
  shows "denyIfCallerTokenExpiryExceeded parse credential t ctx' = Inr u \<longleftrightarrow> expiryWithin parse db who t"
  using lockCredentialSnapshot_Inr[OF assms]
  by (cases "ap_credentialType who"; cases "timestampMillis parse t")
    (auto simp: denyIfCallerTokenExpiryExceeded_def expiryWithin_def liftR_def)

lemma requiredExactCommandCeiling_no_catalog:
  "requiredExactCommandCeiling value = Inr commands \<Longrightarrow> ''MANAGE_ROOM_CATALOG'' \<notin> set commands"
  by (fastforce simp: requiredExactCommandCeiling_def exactCommandCeiling_def Let_def list_ex_iff split: option.splits if_splits)

lemma callerCommands_within:
  assumes "lockCredentialSnapshot le now db who p ctx ids tokens = Inr credential"
    and "requiredExactCommandCeiling value = Inr commands"
    and "set commands \<subseteq> set (effectiveCallerCommandGrants (lockedSubjectCommandGrants db (ap_subjectId who) p) credential)"
  shows "set commands \<subseteq> set (effectiveSubjectGrants db who p)"
  using lockCredentialSnapshot_Inr[OF assms(1)] requiredExactCommandCeiling_no_catalog[OF assms(2)] assms(3)
  by (auto simp: effectiveSubjectGrants_iff effectiveCallerCommandGrants_def split: if_splits dest: subsetD)

lemma lifecycleTarget_Inr:
  assumes "lifecycleTarget x credential locked ctx = Inr (token, target)" "lockScope db who p ctx' ids = Inr locked"
    and "map_of (cs_lockedTokens credential) x = Some t" "tk_subjectId t \<in> set ids"
  shows "token = t \<and> ts_status target = ACTIVE \<and> lockedTokenTargetSubjectState (tk_subjectId t) locked ctx = Inr target"
  using assms by (auto simp: lifecycleTarget_def split: if_splits)

text \<open>An authorized execution has passed the constraint of its command.\<close>

lemma constraint_checked:
  assumes "authorizeAccess le parse now relatedSubjects relatedTokens db who options = Inr ()"
    and "asCommandCatalogType (ao_commandType options) = Some c" "c \<noteq> ''CREATE_QUOTE''" "ao_mode options = EXECUTE"
  obtains ctx constraint ids tokens locked credential where
    "lockCredentialSnapshot le now db who (ao_propertyId options) ctx ids tokens = Inr credential"
    "resolveTokenLifecycleConstraint db (ao_propertyId options) (ao_tokenLifecycleConstraint options) ctx = Inr constraint"
    "lockScope db who (ao_propertyId options) ctx ids = Inr locked"
    "set (targetSubjectIds constraint) \<subseteq> set ids" "set (targetTokenIds constraint) \<subseteq> set tokens"
    "assertResolvedTokenLifecycleConstraint parse now constraint credential
       (lockedSubjectCommandGrants db (ap_subjectId who) (ao_propertyId options)) locked ctx = Inr ()"
proof (rule authorizeAccessE[OF assms(1)])
  fix c' ctx constraint ids tokens locked credential
  assume cr: "lockCredentialSnapshot le now db who (ao_propertyId options) ctx ids tokens = Inr credential"
    and c': "asCommandCatalogType (ao_commandType options) = Some c'"
    and r: "resolveTokenLifecycleConstraint db (ao_propertyId options) (ao_tokenLifecycleConstraint options) ctx = Inr constraint"
    and l: "lockScope db who (ao_propertyId options) ctx ids = Inr locked" "ap_subjectId who \<in> set ids"
    and s: "set (targetSubjectIds constraint) \<subseteq> set ids" "set (targetTokenIds constraint) \<subseteq> set tokens"
    and d: "decideAccess parse now who c' (ao_mode options) constraint locked credential ctx = Inr ()"
  have "assertResolvedTokenLifecycleConstraint parse now constraint credential
       (lockedSubjectCommandGrants db (ap_subjectId who) (ao_propertyId options)) locked ctx = Inr ()"
    by (rule decideAccessE[OF d l cr]) (use c' assms(2,3,4) in \<open>auto dest!: executeAccess_Inr\<close>)
  with cr r l(1) s show thesis by (rule that)
qed

lemma assertRequestedCeiling_Inr:
  "assertRequestedCeiling requested target callerCommands ctx = Inr u \<longleftrightarrow>
     set requested \<subseteq> set (ts_commandGrants target) \<and> set requested \<subseteq> set callerCommands"
  by (auto simp: assertRequestedCeiling_def denyIfCommandCeilingExceeds_Inr)

lemma assertIssue_Inr:
  assumes "assertIssue parse subjectId accessCeiling commandCeiling expiresAt credential callerCommands locked ctx = Inr ()"
  obtains level commands expiry target where "requiredAccessLevel accessCeiling = Inr level"
    "requiredExactCommandCeiling commandCeiling = Inr commands" "requiredConstraintString expiresAt = Inr expiry"
    "lockedTokenTargetSubjectState subjectId locked ctx = Inr target" "ts_status target = ACTIVE"
    "accessAllows (ts_propertyAccess target) level" "level = WRITE \<or> commands = []"
    "set commands \<subseteq> set (ts_commandGrants target)" "set commands \<subseteq> set callerCommands"
    "denyIfCallerTokenExpiryExceeded parse credential (AtText expiry) ctx = Inr ()"
proof -
  from assms obtain level commands expiry target where
    q: "requiredAccessLevel accessCeiling = Inr level" "requiredExactCommandCeiling commandCeiling = Inr commands"
      "requiredConstraintString expiresAt = Inr expiry" "lockedTokenTargetSubjectState subjectId locked ctx = Inr target"
    and r: "(if ts_status target \<noteq> ACTIVE then denyWith ctx ''TOKEN_TARGET_SUBJECT_DISABLED'' SUBJECT_DISABLED 403
       else if \<not> accessAllows (ts_propertyAccess target) level then denied ctx ''TOKEN_TARGET_ACCESS_CEILING_EXCEEDED''
       else if level = READ \<and> commands \<noteq> [] then liftR validation_error
       else bindR (assertRequestedCeiling commands target callerCommands ctx) (\<lambda>_.
         denyIfCallerTokenExpiryExceeded parse credential (AtText expiry) ctx)) = Inr ()"
    unfolding assertIssue_def by (simp only: bindR_eq_Inr liftR_Inr) blast
  from q show thesis
    by (rule that) (use r in \<open>cases level; simp add: assertRequestedCeiling_Inr split: if_splits\<close>)+
qed

text \<open>
  C18: no escalation by issuing a token. When the issue of a token is authorized, the caller has write access
  to the property and the grant to issue tokens; the requested commands are among those the subject of the token
  was granted on this property and among the caller's own effective grants; the requested access does not exceed
  that of the subject, which is active, nor that of the caller; a read-only token has no commands. A calling
  token has an expiry, and the new token does not pass it; the lifetime of a token that a session issues is not
  bounded by this check, a session's expiry is not compared.
\<close>

theorem issued_token_bounded:
  assumes "authorizeAccess le parse now relatedSubjects relatedTokens db who options = Inr ()"
    and "asCommandCatalogType (ao_commandType options) = Some ''ISSUE_TOKEN''" "ao_mode options = EXECUTE"
    and "ao_tokenLifecycleConstraint options = Some (IssueToken subjectId accessCeiling commandCeiling expiresAt)"
  shows "\<exists>target level commands expiry access own. requiredConstraintString subjectId = Inr target
    \<and> requiredAccessLevel accessCeiling = Inr level \<and> requiredExactCommandCeiling commandCeiling = Inr commands
    \<and> requiredConstraintString expiresAt = Inr expiry \<and> subjectActive db target
    \<and> accessOn db target (ao_propertyId options) = Some access \<and> accessAllows access level
    \<and> set commands \<subseteq> set (lockedSubjectCommandGrants db target (ao_propertyId options))
    \<and> set commands \<subseteq> set (effectiveSubjectGrants db who (ao_propertyId options))
    \<and> callerAccess db who (ao_propertyId options) = Some own \<and> own = WRITE \<and> accessAllows own level
    \<and> ''ISSUE_TOKEN'' \<in> set (effectiveSubjectGrants db who (ao_propertyId options))
    \<and> (level = WRITE \<or> commands = [])
    \<and> (ap_credentialType who = TOKEN \<longrightarrow> (\<exists>caller t. findToken db (ap_credentialId who) = Some caller
          \<and> parse expiry = Some t \<and> t \<le> tk_expiresAt caller))"
proof (rule constraint_checked[OF assms(1,2) _ assms(3)])
  show "''ISSUE_TOKEN'' \<noteq> ''CREATE_QUOTE''" by simp
next
  note granted = authorized_granted [OF assms(1,2) _ assms(3), simplified]
  fix ctx constraint ids tokens locked credential
  assume cr: "lockCredentialSnapshot le now db who (ao_propertyId options) ctx ids tokens = Inr credential"
    and r: "resolveTokenLifecycleConstraint db (ao_propertyId options) (ao_tokenLifecycleConstraint options) ctx = Inr constraint"
    and l: "lockScope db who (ao_propertyId options) ctx ids = Inr locked"
    and s: "set (targetSubjectIds constraint) \<subseteq> set ids"
    and a: "assertResolvedTokenLifecycleConstraint parse now constraint credential
       (lockedSubjectCommandGrants db (ap_subjectId who) (ao_propertyId options)) locked ctx = Inr ()"
  from r assms(4) obtain target where t: "requiredConstraintString subjectId = Inr target"
    and c: "constraint = Some (ResolvedIssue target accessCeiling commandCeiling expiresAt)"
    by (auto simp: resolveTokenLifecycleConstraint_def Let_def)
  from s c have "target \<in> set ids" by (simp add: targetSubjectIds_def)
  note state = lockedTarget_Inr[OF l this]
  from a have "assertIssue parse target accessCeiling commandCeiling expiresAt credential
      (effectiveCallerCommandGrants (lockedSubjectCommandGrants db (ap_subjectId who) (ao_propertyId options)) credential)
      locked ctx = Inr ()" by (simp add: c assertResolvedTokenLifecycleConstraint_def Let_def)
  then show ?thesis
  proof (rule assertIssue_Inr)
    fix level commands expiry ts
    assume q: "requiredAccessLevel accessCeiling = Inr level" "requiredExactCommandCeiling commandCeiling = Inr commands"
      "requiredConstraintString expiresAt = Inr expiry" "lockedTokenTargetSubjectState target locked ctx = Inr ts"
      "ts_status ts = ACTIVE" "accessAllows (ts_propertyAccess ts) level" "level = WRITE \<or> commands = []"
      "set commands \<subseteq> set (ts_commandGrants ts)"
      "set commands \<subseteq> set (effectiveCallerCommandGrants
         (lockedSubjectCommandGrants db (ap_subjectId who) (ao_propertyId options)) credential)"
      "denyIfCallerTokenExpiryExceeded parse credential (AtText expiry) ctx = Inr ()"
    with state[OF q(4)] callerCommands_within[OF cr q(2,9)] t granted show ?thesis
      by (simp add: denyIfCallerTokenExpiryExceeded_Inr[OF cr] expiryWithin_iff timestampMillis_AtText accessAllows_def)
  qed
qed

theorem issued_token_bounded_witness:
  "demoAuthorize (demoOptions ''ISSUE_TOKEN'' (Some demoIssue)) = Inr () \<and>
   (\<exists>commands. requiredExactCommandCeiling (tl_commandCeiling demoIssue) = Inr commands
     \<and> set commands \<subseteq> set (effectiveSubjectGrants demoAccess demoToken ''p''))"
proof -
  have h: "demoAuthorize (demoOptions ''ISSUE_TOKEN'' (Some demoIssue)) = Inr ()"
    "asCommandCatalogType (ao_commandType (demoOptions ''ISSUE_TOKEN'' (Some demoIssue))) = Some ''ISSUE_TOKEN''" by code_simp+
  from issued_token_bounded [OF h, of "tl_subjectId demoIssue" "tl_accessCeiling demoIssue" "tl_commandCeiling demoIssue" "tl_expiresAt demoIssue"]
  show ?thesis using h(1) by (auto simp: demoOptions_def demoIssue_def)
qed

text \<open>The expiry a rotation asks for: the token's own when it names none.\<close>

definition rotationExpiry :: "token_row \<Rightarrow> json \<Rightarrow> timestamp result" where
  "rotationExpiry token expiresAt =
     (if expiresAt = JUndefined then Inr (AtMillis (tk_expiresAt token))
      else bindR (requiredConstraintString expiresAt) (\<lambda>s. Inr (AtText s)))"

lemma assertRotate_Inr:
  assumes "assertRotate parse now x commandCeiling expiresAt credential callerCommands locked ctx = Inr ()"
  obtains token target commands expiry where "lifecycleTarget x credential locked ctx = Inr (token, target)"
    "accessAllows (ts_propertyAccess target) (tk_accessCeiling token)" "tk_revokedAt token = None" "now < tk_expiresAt token"
    "requiredExactCommandCeiling commandCeiling = Inr commands" "set commands \<subseteq> set (ts_commandGrants target)"
    "set commands \<subseteq> set callerCommands" "rotationExpiry token expiresAt = Inr expiry"
    "denyIfCallerTokenExpiryExceeded parse credential expiry ctx = Inr ()"
proof -
  from assms obtain token target where q: "lifecycleTarget x credential locked ctx = Inr (token, target)"
    by (auto simp: assertRotate_def)
  with assms have r: "accessAllows (ts_propertyAccess target) (tk_accessCeiling token)" "tk_revokedAt token = None"
      "\<not> tk_expiresAt token \<le> now" "bindR (liftR (requiredExactCommandCeiling commandCeiling)) (\<lambda>requested.
         bindR (assertRequestedCeiling requested target callerCommands ctx) (\<lambda>_.
         bindR (if expiresAt = JUndefined then Inr (AtMillis (tk_expiresAt token))
                else bindR (liftR (requiredConstraintString expiresAt)) (\<lambda>s. Inr (AtText s))) (\<lambda>requestedExpiresAt.
           denyIfCallerTokenExpiryExceeded parse credential requestedExpiresAt ctx))) = Inr ()"
    by (simp_all add: assertRotate_def del: bindR_eq_Inr split: if_splits)
  have "(if expiresAt = JUndefined then Inr (AtMillis (tk_expiresAt token))
      else bindR (liftR (requiredConstraintString expiresAt)) (\<lambda>s. Inr (AtText s))) = liftR (rotationExpiry token expiresAt)"
    by (cases "requiredConstraintString expiresAt") (auto simp: rotationExpiry_def liftR_def)
  with r(4) obtain commands expiry where "requiredExactCommandCeiling commandCeiling = Inr commands"
    "set commands \<subseteq> set (ts_commandGrants target)" "set commands \<subseteq> set callerCommands"
    "rotationExpiry token expiresAt = Inr expiry" "denyIfCallerTokenExpiryExceeded parse credential expiry ctx = Inr ()"
    by (auto simp: assertRequestedCeiling_Inr)
  with q r(1-3) show thesis by (intro that) auto
qed

text \<open>
  C19: no escalation by rotating a token. When a rotation is authorized, the caller has write access to the
  property and the grant to rotate tokens; the rotated token is a live token of this property, whose subject is
  active and still holds its access, which is not beyond the caller's; the new command ceiling is within the
  subject's grants and the caller's own. The new expiry, the old one unless another is asked for, does not pass
  that of a calling token; for a calling session this check sets no bound.
\<close>

theorem rotated_token_bounded:
  assumes "authorizeAccess le parse now relatedSubjects relatedTokens db who options = Inr ()"
    and "asCommandCatalogType (ao_commandType options) = Some ''ROTATE_TOKEN''" "ao_mode options = EXECUTE"
    and "ao_tokenLifecycleConstraint options = Some (RotateToken tokenId commandCeiling expiresAt)"
  shows "\<exists>target token commands expiry access own. requiredConstraintString tokenId = Inr target
    \<and> findToken db target = Some token \<and> tk_propertyScope token = ao_propertyId options \<and> tk_revokedAt token = None
    \<and> now < tk_expiresAt token \<and> subjectActive db (tk_subjectId token)
    \<and> accessOn db (tk_subjectId token) (ao_propertyId options) = Some access \<and> accessAllows access (tk_accessCeiling token)
    \<and> requiredExactCommandCeiling commandCeiling = Inr commands
    \<and> set commands \<subseteq> set (lockedSubjectCommandGrants db (tk_subjectId token) (ao_propertyId options))
    \<and> set commands \<subseteq> set (effectiveSubjectGrants db who (ao_propertyId options))
    \<and> callerAccess db who (ao_propertyId options) = Some own \<and> own = WRITE \<and> accessAllows own (tk_accessCeiling token)
    \<and> ''ROTATE_TOKEN'' \<in> set (effectiveSubjectGrants db who (ao_propertyId options))
    \<and> rotationExpiry token expiresAt = Inr expiry
    \<and> (ap_credentialType who = TOKEN \<longrightarrow> (\<exists>caller t. findToken db (ap_credentialId who) = Some caller
          \<and> timestampMillis parse expiry = Inr t \<and> t \<le> tk_expiresAt caller))"
proof (rule constraint_checked[OF assms(1,2) _ assms(3)])
  show "''ROTATE_TOKEN'' \<noteq> ''CREATE_QUOTE''" by simp
next
  note granted = authorized_granted [OF assms(1,2) _ assms(3), simplified]
  fix ctx constraint ids tokens locked credential
  assume cr: "lockCredentialSnapshot le now db who (ao_propertyId options) ctx ids tokens = Inr credential"
    and r: "resolveTokenLifecycleConstraint db (ao_propertyId options) (ao_tokenLifecycleConstraint options) ctx = Inr constraint"
    and l: "lockScope db who (ao_propertyId options) ctx ids = Inr locked"
    and s: "set (targetSubjectIds constraint) \<subseteq> set ids" "set (targetTokenIds constraint) \<subseteq> set tokens"
    and a: "assertResolvedTokenLifecycleConstraint parse now constraint credential
       (lockedSubjectCommandGrants db (ap_subjectId who) (ao_propertyId options)) locked ctx = Inr ()"
  from r assms(4) obtain target row where t: "requiredConstraintString tokenId = Inr target" "findToken db target = Some row"
      "tk_propertyScope row = ao_propertyId options"
    and c: "constraint = Some (ResolvedRotate (tk_id row) (tk_subjectId row) commandCeiling expiresAt)"
    by (auto simp: resolveTokenLifecycleConstraint_def Let_def split: option.splits if_splits)
  from t(2) have id: "tk_id row = target" by (auto simp: findToken_def find_Some_iff)
  from s c have ids: "tk_subjectId row \<in> set ids" and "target \<in> set tokens"
    by (auto simp: targetSubjectIds_def targetTokenIds_def id)
  with lockCredentialSnapshot_Inr[OF cr] t(2) have m: "map_of (cs_lockedTokens credential) target = Some row" by auto
  from a have "assertRotate parse now target commandCeiling expiresAt credential
      (effectiveCallerCommandGrants (lockedSubjectCommandGrants db (ap_subjectId who) (ao_propertyId options)) credential)
      locked ctx = Inr ()" by (simp add: c id assertResolvedTokenLifecycleConstraint_def Let_def)
  then show ?thesis
  proof (rule assertRotate_Inr)
    fix token ts commands expiry
    assume q: "lifecycleTarget target credential locked ctx = Inr (token, ts)"
      "accessAllows (ts_propertyAccess ts) (tk_accessCeiling token)" "tk_revokedAt token = None" "now < tk_expiresAt token"
      "requiredExactCommandCeiling commandCeiling = Inr commands" "set commands \<subseteq> set (ts_commandGrants ts)"
      "set commands \<subseteq> set (effectiveCallerCommandGrants
         (lockedSubjectCommandGrants db (ap_subjectId who) (ao_propertyId options)) credential)"
      "rotationExpiry token expiresAt = Inr expiry" "denyIfCallerTokenExpiryExceeded parse credential expiry ctx = Inr ()"
    note target = lifecycleTarget_Inr[OF q(1) l m ids]
    note state = lockedTarget_Inr[OF l ids target[THEN conjunct2, THEN conjunct2]]
    from q target state callerCommands_within[OF cr q(5,7)] t granted show ?thesis
      by (simp add: denyIfCallerTokenExpiryExceeded_Inr[OF cr] expiryWithin_iff accessAllows_def)
  qed
qed

theorem rotated_token_bounded_witness:
  "demoAuthorize (demoOptions ''ROTATE_TOKEN'' (Some demoRotate)) = Inr () \<and>
   (\<exists>token. findToken demoAccess ''k'' = Some token \<and> tk_revokedAt token = None \<and> subjectActive demoAccess (tk_subjectId token))"
proof -
  have h: "demoAuthorize (demoOptions ''ROTATE_TOKEN'' (Some demoRotate)) = Inr ()"
    "asCommandCatalogType (ao_commandType (demoOptions ''ROTATE_TOKEN'' (Some demoRotate))) = Some ''ROTATE_TOKEN''" by code_simp+
  have "requiredConstraintString (JStr ''k'') = Inr ''k''" by code_simp
  with rotated_token_bounded [OF h, of "JStr ''k''" "tl_commandCeiling demoRotate" JUndefined]
  show ?thesis using h(1) by (auto simp: demoOptions_def demoRotate_def)
qed

section \<open>The capability of a token command\<close>

text \<open>
  What a caller needs for a token command, read in the tables of the caller alone: an active subject, a
  live credential of this property, write access and the command among its effective grants. The
  preflight passes exactly those.
\<close>

definition mayManageTokens :: "int \<Rightarrow> access_db \<Rightarrow> auth_principal \<Rightarrow> string \<Rightarrow> string \<Rightarrow> bool" where
  "mayManageTokens now db who propertyId c \<longleftrightarrow> subjectActive db (ap_subjectId who) \<and> credentialAlive now db who propertyId
     \<and> callerAccess db who propertyId = Some WRITE \<and> c \<in> set (effectiveSubjectGrants db who propertyId)"

lemma in_enabledGrants:
  "c \<in> set (enabledGrants cs) \<longleftrightarrow> c \<in> set cs \<and> isHumanGrantableCommandCapability c \<and> commandFeatureEnabled c"
  by (auto simp: enabledGrants_def)

lemma preflight_capability:
  "preflightTokenLifecycleCallerCapability now db who propertyId c ctx = Inr u \<longleftrightarrow> mayManageTokens now db who propertyId c"
  by (cases "findSubject db (ap_subjectId who)"; cases "findPropertyGrant db (ap_subjectId who) propertyId";
      cases "ap_credentialType who"; cases "findToken db (ap_credentialId who)"; cases "findSession db (ap_credentialId who)")
    (auto simp: preflightTokenLifecycleCallerCapability_def mayManageTokens_def subjectActive_def credentialAlive_def validSession_def
      callerAccess_def accessOn_def effectiveSubjectGrants_iff in_enabledGrants evaluateCommandAuthorization_def asSet_def Let_def
      split: if_splits)

text \<open>Two states of the tables with the same rows of the caller.\<close>

definition sameCaller :: "auth_principal \<Rightarrow> string \<Rightarrow> access_db \<Rightarrow> access_db \<Rightarrow> bool" where
  "sameCaller who propertyId db db' \<longleftrightarrow>
     findSubject db' (ap_subjectId who) = findSubject db (ap_subjectId who)
     \<and> findPropertyGrant db' (ap_subjectId who) propertyId = findPropertyGrant db (ap_subjectId who) propertyId
     \<and> lockedSubjectCommandGrants db' (ap_subjectId who) propertyId = lockedSubjectCommandGrants db (ap_subjectId who) propertyId
     \<and> findToken db' (ap_credentialId who) = findToken db (ap_credentialId who)
     \<and> lockedTokenCommandCeiling db' (ap_credentialId who) (ap_subjectId who) propertyId
         = lockedTokenCommandCeiling db (ap_credentialId who) (ap_subjectId who) propertyId
     \<and> findSession db' (ap_credentialId who) = findSession db (ap_credentialId who)"

lemma preflight_sameCaller:
  "sameCaller who propertyId db db' \<Longrightarrow> preflightTokenLifecycleCallerCapability now db' who propertyId c ctx
     = preflightTokenLifecycleCallerCapability now db who propertyId c ctx"
  by (simp add: preflightTokenLifecycleCallerCapability_def sameCaller_def Let_def
      cong del: option.case_cong_weak credential_type.case_cong_weak if_weak_cong)

text \<open>
  Conversely, what the tables permit is authorized: a call without a token constraint and without related rows
  passes for a live caller with the command among its effective grants, and a quote for any live caller
  with access to the property.
\<close>

lemma sortedUniqueIds_single [simp]: "sortedUniqueIds le [] = []" "sortedUniqueIds le [x] = [x]"
  by (simp_all add: sortedUniqueIds_def)

lemma lockScope_single:
  assumes "findSubject db (ap_subjectId who) = Some s" "findPropertyGrant db (ap_subjectId who) p = Some g"
  shows "lockScope db who p ctx [ap_subjectId who] = Inr \<lparr>ls_subjects = [(ap_subjectId who, s)],
    ls_propertyGrants = [(ap_subjectId who, g)],
    ls_commandGrants = [(ap_subjectId who, lockedSubjectCommandGrants db (ap_subjectId who) p)]\<rparr>"
  using assms by (simp add: lockScope_def lockSubject_def lockPropertyGrant_def)

lemma lockCredentialSnapshot_alive:
  assumes "credentialAlive now db who p"
  obtains credential where "lockCredentialSnapshot le now db who p ctx ids [] = Inr credential"
  using assms that
  by (cases "ap_credentialType who"; cases "findToken db (ap_credentialId who)"; cases "findSession db (ap_credentialId who)")
    (auto simp: credentialAlive_def lockCredentialSnapshot_def lockToken_def validSession_def Let_def)

lemma permitted_authorized:
  assumes "subjectActive db (ap_subjectId who)" "credentialAlive now db who (ao_propertyId options)"
    and "asCommandCatalogType (ao_commandType options) = Some c" "ao_tokenLifecycleConstraint options = None"
    and "if c = ''CREATE_QUOTE'' then callerAccess db who (ao_propertyId options) \<noteq> None
      else callerAccess db who (ao_propertyId options) = Some WRITE \<and> c \<in> set (effectiveSubjectGrants db who (ao_propertyId options))
        \<and> (c = ''MANAGE_ROOM_CATALOG'' \<longrightarrow> adminSession db who (ao_propertyId options))"
  shows "authorizeAccess le parse now [] [] db who options = Inr ()"
proof -
  let ?p = "ao_propertyId options"
  let ?ctx = "\<lparr>xc_principal = who, xc_propertyId = ?p, xc_commandType = c, xc_stage = ao_stage options,
    xc_idempotencyKey = ao_idempotencyKey options, xc_correlationId = ao_correlationId options\<rparr>"
  have "callerAccess db who ?p \<noteq> None" using assms(5) by (auto split: if_splits)
  then obtain g where g: "findPropertyGrant db (ap_subjectId who) ?p = Some g"
    by (auto simp: callerAccess_def accessOn_def split: credential_type.splits option.splits)
  from assms(1) obtain s where s: "findSubject db (ap_subjectId who) = Some s" "sub_status s = ACTIVE"
    by (auto simp: subjectActive_def split: option.splits)
  obtain credential where cr: "lockCredentialSnapshot le now db who ?p ?ctx [ap_subjectId who] [] = Inr credential"
    using lockCredentialSnapshot_alive [OF assms(2)] by blast
  have "decideAccess parse now who c (ao_mode options) None \<lparr>ls_subjects = [(ap_subjectId who, s)],
      ls_propertyGrants = [(ap_subjectId who, g)],
      ls_commandGrants = [(ap_subjectId who, lockedSubjectCommandGrants db (ap_subjectId who) ?p)]\<rparr> credential ?ctx = Inr ()"
    using lockCredentialSnapshot_Inr [OF cr] assms(5) s(2)
    by (cases "ap_credentialType who")
      (auto simp: decideAccess_def quoteAccess_def readAccess_def executeAccess_def evaluateCommandAuthorization_def accessAllows_def
        callerAccess_def accessOn_def g effectiveSubjectGrants_iff enabledGrants_def assertResolvedTokenLifecycleConstraint_def Let_def
        split: if_splits)
  moreover have "preflightTokenLifecycleCallerCapability now db who ?p c ?ctx = Inr ()" if "isTokenLifecycleType c"
    using that assms(1,2,5) by (auto simp: preflight_capability mayManageTokens_def isTokenLifecycleType_def)
  ultimately show ?thesis using assms(3-5) cr lockScope_single [OF s(1) g]
    by (auto simp: authorizeAccess_def baseCommandCatalogType_def liftR_def resolveTokenLifecycleConstraint_def targetSubjectIds_def
        targetTokenIds_def Let_def split: if_splits)
qed

text \<open>
  C21: a caller without the capability of a token command learns nothing of its target. The answer to a caller
  that is not active and alive on the property, with write access and the command among its effective grants,
  is one denial, whatever token or subject the request names, whatever related rows it asks to lock, and
  whatever the tables hold apart from the caller's own rows: whether the target exists makes no difference.
\<close>

theorem token_target_not_disclosed:
  assumes "\<not> mayManageTokens now db who (ao_propertyId options) c"
    and "asCommandCatalogType (ao_commandType options) = Some c" "isTokenLifecycleType c" "ao_mode options = EXECUTE"
  shows "\<exists>e. \<forall>db' constraint le parse relatedSubjects relatedTokens. sameCaller who (ao_propertyId options) db db' \<longrightarrow>
    authorizeAccess le parse now relatedSubjects relatedTokens db' who
      (options\<lparr>ao_tokenLifecycleConstraint := constraint\<rparr>) = Inl e"
proof -
  let ?ctx = "\<lparr>xc_principal = who, xc_propertyId = ao_propertyId options, xc_commandType = c, xc_stage = ao_stage options,
    xc_idempotencyKey = ao_idempotencyKey options, xc_correlationId = ao_correlationId options\<rparr>"
  obtain e where e: "preflightTokenLifecycleCallerCapability now db who (ao_propertyId options) c ?ctx = Inl e"
    using assms(1) preflight_capability [of now db who "ao_propertyId options" c ?ctx]
    by (cases "preflightTokenLifecycleCallerCapability now db who (ao_propertyId options) c ?ctx") auto
  show ?thesis
  proof (intro exI allI impI)
    fix db' constraint le parse relatedSubjects relatedTokens
    assume "sameCaller who (ao_propertyId options) db db'"
    from preflight_sameCaller [OF this] e assms(2-4)
    show "authorizeAccess le parse now relatedSubjects relatedTokens db' who
      (options\<lparr>ao_tokenLifecycleConstraint := constraint\<rparr>) = Inl e"
      by (auto simp: authorizeAccess_def baseCommandCatalogType_def liftR_def isTokenLifecycleType_def)
  qed
qed

text \<open>The same tables without the token k: token d, which may not revoke, gets the same answer for k as for no token.\<close>

definition withoutTarget :: access_db where
  "withoutTarget = demoAccess\<lparr>t_tokens := filter (\<lambda>t. tk_id t \<noteq> ''k'') (t_tokens demoAccess)\<rparr>"

theorem token_target_not_disclosed_witness:
  "\<exists>e. demoAuthorize (demoOptions ''REVOKE_TOKEN'' (Some (RevokeToken (JStr ''k'')))) = Inl e
    \<and> authorizeAccess (\<le>) (\<lambda>_. Some 50) 0 [] [] withoutTarget demoToken (demoOptions ''REVOKE_TOKEN'' (Some (RevokeToken (JStr ''k'')))) = Inl e
    \<and> findToken demoAccess ''k'' \<noteq> None \<and> findToken withoutTarget ''k'' = None"
proof -
  let ?o = "demoOptions ''REVOKE_TOKEN'' None"
  have c: "\<not> mayManageTokens 0 demoAccess demoToken (ao_propertyId ?o) ''REVOKE_TOKEN''"
    "asCommandCatalogType (ao_commandType ?o) = Some ''REVOKE_TOKEN''" "isTokenLifecycleType ''REVOKE_TOKEN''" by code_simp+
  have same: "sameCaller demoToken (ao_propertyId ?o) demoAccess demoAccess"
    "sameCaller demoToken (ao_propertyId ?o) demoAccess withoutTarget" by code_simp+
  have "findToken demoAccess ''k'' \<noteq> None" "findToken withoutTarget ''k'' = None" by code_simp+
  with token_target_not_disclosed [OF c] same show ?thesis by (fastforce simp: demoOptions_def)
qed

end
