(* ===== verification/AuthorizedExecution.thy ===== *)
theory AuthorizedExecution
  imports CommandOutcome AuthorizationSafety
begin

text \<open>
  The protocol of the commands joined with the authorization of its calls: what a confirmation executes was
  permitted to its caller, and a resolution answers every caller that the tables permit it to.
\<close>

section \<open>The protocol under the authorization of the tables\<close>

text \<open>
  The environment whose authorization is authorizeCommandAccess over the access tables that \<open>tables\<close> reads
  in the business state. The protocol names no related subjects or tokens.
\<close>

definition withAccess ::
  "call_context \<Rightarrow> ('b \<Rightarrow> access_db) \<Rightarrow> ('b, 'e) command_env_scheme \<Rightarrow> ('b, 'e) command_env_scheme" where
  "withAccess ctx tables env = env\<lparr>authorizeCommandAccess :=
     (\<lambda>b who options. authorizeAccess (localeLe env) (dateParse env) (ctx_now ctx) [] [] (tables b) who options)\<rparr>"

lemma authorize_withAccess [simp]:
  "authorizeCommandAccess (withAccess ctx tables env) b who options =
     authorizeAccess (localeLe env) (dateParse env) (ctx_now ctx) [] [] (tables b) who options"
  by (simp add: withAccess_def)

text \<open>A receipt that says EXECUTED comes from a transaction that passed the preflight of its preview.\<close>

lemma confirmTransaction_preflight:
  assumes "confirmTransaction env ctx who previewId conf p c k co h st = Inr x"
  obtains stored where "findPreview previewId st = Some stored" "pv_subjectId stored = ap_subjectId who"
    "preflight env (business st) who p c stored k co = Inr ()"
  using assms by (auto simp: confirmTransaction_def split: option.splits if_splits)

lemma confirmAttempt_executed:
  assumes "confirmAttempt env ctx who previewId conf p c k co h st = (Inr receipt, st')" "rd_executionStatus receipt = EXECUTED"
  obtains st1 where "confirmTransaction env ctx who previewId conf p c k co h st = Inr (receipt, st1)"
proof -
  obtain r0 st0 where at: "atomically (confirmTransaction env ctx who previewId conf p c k co h) st = (r0, st0)"
    by fastforce
  from at show thesis
  proof (cases rule: atomically_cases)
    case (1 e)
    then have "confirmFailure env ctx who previewId conf p c k co h e st = (Inr receipt, st')"
      using assms(1) at by (simp add: confirmAttempt_def)
    from confirmFailure_outcome [OF this] assms(2) show thesis by simp
  next
    case (2 x)
    then show thesis using assms(1) at that by (auto simp: confirmAttempt_def)
  qed
qed

lemma executed_preflight:
  assumes "confirmCommandPreview env ctx who previewId conf key correlation st = (Inr receipt, st')"
    and "findPreview previewId st = Some stored" "rd_executionStatus receipt = EXECUTED"
  obtains k co where "isExecutableCommandType (pv_commandType stored)" "pv_subjectId stored = ap_subjectId who"
    "preflight env (business st) who (pv_propertyId stored) (pv_commandType stored) stored k co = Inr ()"
proof -
  from assms(1) obtain k co h where "confirmPreviewed env ctx who previewId conf k co h st = (Inr receipt, st')"
    by (auto simp: confirmCommandPreview_def withCommandAuthorizationAudit_Inr split: sum.splits)
  with assms(2) have x: "isExecutableCommandType (pv_commandType stored)" and
    "confirmAttempt env ctx who previewId conf (pv_propertyId stored) (pv_commandType stored) k co h st = (Inr receipt, st')"
    by (auto simp: confirmPreviewed_def withExecutionLock_def auditCommandResourceNotFound_def Let_def
        split: if_splits option.splits sum.splits)
  from confirmAttempt_executed [OF this(2) assms(3)] obtain st1 where
    "confirmTransaction env ctx who previewId conf (pv_propertyId stored) (pv_commandType stored) k co h st = Inr (receipt, st1)" .
  from confirmTransaction_preflight [OF this] assms(2) x that show thesis by auto
qed

lemma executable_base: "isExecutableCommandType c \<Longrightarrow> asCommandCatalogType c = Some c \<and> c \<noteq> ''CREATE_QUOTE''"
proof -
  have "list_all (\<lambda>c. asCommandCatalogType c = Some c \<and> c \<noteq> ''CREATE_QUOTE'') commandTypes" by code_simp
  then show "isExecutableCommandType c \<Longrightarrow> ?thesis" by (simp add: isExecutableCommandType_def list_all_iff)
qed

section \<open>Properties\<close>

text \<open>
  C17: nothing runs without permission. A confirmation whose receipt says EXECUTED was made by the subject of
  the preview, with a credential that is alive at the time of the request, by an active subject with write
  access to the property of the preview, and its command is one of the caller's effective grants there; all
  of it read in the tables the confirmation started from. A replay of an earlier receipt is no exception.
\<close>

theorem executed_confirmation_permitted:
  assumes "confirmCommandPreview (withAccess ctx tables env) ctx who previewId conf key correlation st = (Inr receipt, st')"
    and "findPreview previewId st = Some preview" "rd_executionStatus receipt = EXECUTED"
  shows "pv_subjectId preview = ap_subjectId who
    \<and> credentialAlive (ctx_now ctx) (tables (business st)) who (pv_propertyId preview)
    \<and> subjectActive (tables (business st)) (ap_subjectId who)
    \<and> callerAccess (tables (business st)) who (pv_propertyId preview) = Some WRITE
    \<and> pv_commandType preview \<in> set (effectiveSubjectGrants (tables (business st)) who (pv_propertyId preview))"
proof (rule executed_preflight [OF assms])
  fix k co
  assume x: "isExecutableCommandType (pv_commandType preview)" and own: "pv_subjectId preview = ap_subjectId who"
    and "preflight (withAccess ctx tables env) (business st) who (pv_propertyId preview) (pv_commandType preview) preview k co = Inr ()"
  then obtain constraint where
    a: "authorizeAccess (localeLe env) (dateParse env) (ctx_now ctx) [] [] (tables (business st)) who
      (authOptions (pv_propertyId preview) (pv_commandType preview) STAGE_CONFIRM k (Some co) EXECUTE constraint) = Inr ()"
    by (auto simp: preflight_def Let_def split: option.splits)
  have c: "asCommandCatalogType (ao_commandType (authOptions (pv_propertyId preview) (pv_commandType preview) STAGE_CONFIRM k
      (Some co) EXECUTE constraint)) = Some (pv_commandType preview)" "pv_commandType preview \<noteq> ''CREATE_QUOTE''"
    using executable_base [OF x] by (simp_all add: authOptions_def)
  show ?thesis
    using authorized_alive [OF a] authorized_granted [OF a c] own by (simp add: authOptions_def)
qed

text \<open>Subject s with a session, who may create members on property p.\<close>

definition permittedEnv :: "nat command_env" where
  "permittedEnv = withAccess (counterCtx ''2'') (\<lambda>_. demoAccess) counterEnv"

theorem executed_confirmation_permitted_witness:
  "credentialAlive 0 demoAccess counterSubject ''p'' \<and> ''CREATE_MEMBER'' \<in> set (effectiveSubjectGrants demoAccess counterSubject ''p'')"
proof -
  let ?call = "confirmCommandPreview permittedEnv (counterCtx ''2'') counterSubject ''preview_1'' counterConfirmation
     (Some ''k2'') (Some ''c2'') previewedStore"
  have "(case fst ?call of Inr r \<Rightarrow> Some (rd_executionStatus r) | Inl _ \<Rightarrow> None) = Some EXECUTED" by code_simp
  then obtain r where r: "fst ?call = Inr r" "rd_executionStatus r = EXECUTED" by (auto split: sum.splits)
  then have call: "?call = (Inr r, snd ?call)" by (metis prod.collapse)
  have "map_option (\<lambda>p. (pv_propertyId p, pv_commandType p)) (findPreview ''preview_1'' previewedStore) = Some (''p'', ''CREATE_MEMBER'')"
    by code_simp
  then obtain p where p: "findPreview ''preview_1'' previewedStore = Some p" "pv_propertyId p = ''p''" "pv_commandType p = ''CREATE_MEMBER''"
    by auto
  have now: "ctx_now (counterCtx ''2'') = 0" by (simp add: counterCtx_def)
  show ?thesis
    using executed_confirmation_permitted [OF call [unfolded permittedEnv_def] p(1) r(2)] by (simp add: p now)
qed

text \<open>
  C14: a resolution answers. A live caller of an active subject that has the command of the request among its
  effective grants, with write access to the property (for a quote any access is enough, for the room catalogue
  the session of an administrator is needed), resolves a key that no execution has, with the lock of the key and
  fresh identifiers. The answer is a receipt that says the original request was not executed: the client is
  not left with the unknown status. The authorization is the program's own, over the access tables.
\<close>

theorem resolution_answers:
  assumes "trim propertyId \<noteq> []" "trim originalKey \<noteq> []" "trim key \<noteq> []" "trim correlation \<noteq> []"
    and "length key \<le> 160" "length correlation \<le> 160"
    and "commandType = ''CREATE_QUOTE'' \<or> isExecutableCommandType commandType"
    and "subjectActive (tables (business st)) (ap_subjectId who)"
    and "credentialAlive (ctx_now ctx) (tables (business st)) who (trim propertyId)"
    and "if commandType = ''CREATE_QUOTE'' then callerAccess (tables (business st)) who (trim propertyId) \<noteq> None
      else callerAccess (tables (business st)) who (trim propertyId) = Some WRITE
        \<and> commandType \<in> set (effectiveSubjectGrants (tables (business st)) who (trim propertyId))
        \<and> (commandType = ''MANAGE_ROOM_CATALOG'' \<longrightarrow> adminSession (tables (business st)) who (trim propertyId))"
    and "ctx_acquired ctx" and "freshIds ctx st"
    and "findExecution st (ap_subjectId who) (trim propertyId) commandType (trim originalKey) = None"
  shows "\<exists>receipt st'. resolveCommandResult (withAccess ctx tables env) ctx who propertyId commandType originalKey
      (Some key) (Some correlation) st
      = (Inr (ReceiptRead receipt), st') \<and> rd_executionStatus receipt = NOT_EXECUTED \<and> \<not> rd_businessCommitted receipt"
proof (rule authorized_resolution_answers)
  have "asCommandCatalogType ''CREATE_QUOTE'' = Some ''CREATE_QUOTE''" by code_simp
  then have c: "asCommandCatalogType commandType = Some commandType" using assms(7) executable_base by blast
  have "authorizeCommandAccess (withAccess ctx tables env) (business st) who (authOptions (trim propertyId) commandType RESOLVE
      (trim originalKey) (Some (trim correlation)) mode None) = Inr ()" for mode
    unfolding authorize_withAccess
    by (rule permitted_authorized [where c = commandType]) (use assms(8-10) c in \<open>simp_all add: authOptions_def\<close>)
  then show "authorizeCommandAccess (withAccess ctx tables env) (business st) who (authOptions (trim propertyId) commandType RESOLVE
      (trim originalKey) (Some (trim correlation)) READ_MODE None) = Inr ()"
    "commandType = ''CREATE_QUOTE'' \<or> authorizeCommandAccess (withAccess ctx tables env) (business st) who
      (authOptions (trim propertyId) commandType RESOLVE (trim originalKey) (Some (trim correlation)) EXECUTE None) = Inr ()"
    by blast+
qed (use assms in blast)+

theorem resolution_answers_witness:
  "\<exists>receipt st'. resolveCommandResult permittedEnv (counterCtx ''2'') counterSubject ''p'' ''CREATE_MEMBER'' ''k''
     (Some ''k9'') (Some ''c9'') (counterStore 0) = (Inr (ReceiptRead receipt), st')
     \<and> rd_executionStatus receipt = NOT_EXECUTED \<and> \<not> rd_businessCommitted receipt"
proof -
  have trims: "trim ''p'' = ''p''" "trim ''p'' \<noteq> []" "trim ''k'' \<noteq> []" "trim ''k9'' \<noteq> []" "trim ''c9'' \<noteq> []" by code_simp+
  have x: "''CREATE_MEMBER'' = ''CREATE_QUOTE'' \<or> isExecutableCommandType ''CREATE_MEMBER''"
    "ctx_acquired (counterCtx ''2'')" by code_simp+
  have caller: "subjectActive demoAccess (ap_subjectId counterSubject)"
    "credentialAlive (ctx_now (counterCtx ''2'')) demoAccess counterSubject ''p''"
    "callerAccess demoAccess counterSubject ''p'' = Some WRITE"
    "''CREATE_MEMBER'' \<in> set (effectiveSubjectGrants demoAccess counterSubject ''p'')" by code_simp+
  show ?thesis
    unfolding permittedEnv_def
    by (rule resolution_answers) (use trims x caller in \<open>simp_all add: counterStore_def freshIds_def findExecution_def\<close>)
qed

end
