(* ===== verification/StayMoney.thy ===== *)
theory StayMoney
  imports HistoricalProtocol
begin

text \<open>
  \<^verbatim>\<open>packages/db/src/lodging-integrity.ts\<close>: whether the source fields of a stay agree with its kind, and
  whether its pricing revisions and its append-only chain of collections, refunds and reversals agree, with
  the properties of both. The room board and the release of a room on the day of departure rest on them.
\<close>

section \<open>Source fields\<close>

definition externalChannelCodes :: "string list" where
  "externalChannelCodes = [''YOUMUDAO'', ''CTRIP'', ''MEITUAN'']"

definition freeStayCategoryCodes :: "string list" where
  "freeStayCategoryCodes = [''VOLUNTEER'', ''RECEPTION'']"

record source_projection_row =
  sp_stay_type :: "string option"
  sp_member_id :: "string option"
  sp_member_contract_id :: "string option"
  sp_booking_channel_code :: "string option"
  sp_channel_order_reference :: "string option"
  sp_free_stay_category_code :: "string option"
  sp_free_stay_reason :: "string option"

record source_fields =
  sf_sourceCategory :: "string option"
  sf_freeStayCategoryCode :: "string option"
  sf_freeStayReason :: "string option"

text \<open>A nullable text that is neither null nor empty, in the sense of a JavaScript condition.\<close>

definition given :: "string option \<Rightarrow> bool" where
  "given v \<longleftrightarrow> v \<noteq> None \<and> v \<noteq> Some []"

definition normalizedOptionalText :: "string option \<Rightarrow> string option" where
  "normalizedOptionalText value =
     (case value of None \<Rightarrow> None | Some s \<Rightarrow> if trim s = [] then None else Some (trim s))"

definition roomStatusSourceCategoryForOrder :: "source_projection_row \<Rightarrow> string option" where
  "roomStatusSourceCategoryForOrder row =
     (if sp_stay_type row = Some ''FREE'' then Some ''FREE_STAY''
      else if given (sp_member_id row) \<or> given (sp_member_contract_id row) then Some ''MEMBER''
      else case sp_booking_channel_code row of None \<Rightarrow> Some ''DIRECT''
        | Some c \<Rightarrow>
          if c \<in> set externalChannelCodes
          then (if normalizedOptionalText (sp_channel_order_reference row) \<noteq> None then Some c else None)
          else if c = ''WECOM'' then Some ''DIRECT'' else None)"

definition roomStatusFreeStayCategoryCode :: "string option \<Rightarrow> string option" where
  "roomStatusFreeStayCategoryCode value =
     (case value of None \<Rightarrow> None | Some v \<Rightarrow> if v \<in> set freeStayCategoryCodes then Some v else None)"

definition roomStatusOrderSourceFields :: "source_projection_row \<Rightarrow> source_fields" where
  "roomStatusOrderSourceFields row =
     (let freeStay = (sp_stay_type row = Some ''FREE'') in
      \<lparr>sf_sourceCategory = roomStatusSourceCategoryForOrder row,
       sf_freeStayCategoryCode = (if freeStay then roomStatusFreeStayCategoryCode (sp_free_stay_category_code row) else None),
       sf_freeStayReason = (if freeStay then sp_free_stay_reason row else None)\<rparr>)"

text \<open>The reasons, named after the texts of the code.\<close>

datatype source_damage =
    FREE_SOURCE_CONTRADICTORY | FREE_METADATA_MISSING | FREE_METADATA_ON_PAID | MEMBER_AND_CHANNEL | MEMBER_SOURCE_UNKNOWN
  | CHANNEL_REFERENCE_MISSING | CHANNEL_UNKNOWN | DIRECT_WITH_CHANNEL_REFERENCE | SOURCE_UNKNOWN

datatype source_kind = ORDER_SOURCE | FREE_STAY_SOURCE | MAINTENANCE_SOURCE | CLEANING_SOURCE | UNIT_UNSELLABLE_SOURCE

definition roomStatusSourceMetadataDamageReason :: "source_kind \<Rightarrow> source_projection_row \<Rightarrow> bool \<Rightarrow> source_damage option" where
  "roomStatusSourceMetadataDamageReason sourceKind row allowLegacyHistoricalFreeMetadata =
     (let sourceFields = roomStatusOrderSourceFields row;
          bookingChannelCode = sp_booking_channel_code row;
          channelReference = normalizedOptionalText (sp_channel_order_reference row);
          hasMemberLink = (given (sp_member_id row) \<or> given (sp_member_contract_id row));
          hasExternalChannel = (case bookingChannelCode of None \<Rightarrow> False | Some c \<Rightarrow> c \<in> set externalChannelCodes);
          hasUnknownChannel = (bookingChannelCode \<noteq> None \<and> bookingChannelCode \<noteq> Some ''WECOM'' \<and> \<not> hasExternalChannel);
          hasFreeStayMetadata = (sp_free_stay_category_code row \<noteq> None \<or> normalizedOptionalText (sp_free_stay_reason row) \<noteq> None) in
      if sourceKind = FREE_STAY_SOURCE then
        (if hasMemberLink \<or> bookingChannelCode \<noteq> None \<or> channelReference \<noteq> None then Some FREE_SOURCE_CONTRADICTORY
         else if sf_sourceCategory sourceFields \<noteq> Some ''FREE_STAY'' then Some FREE_SOURCE_CONTRADICTORY
         else if sf_freeStayCategoryCode sourceFields = None \<or> normalizedOptionalText (sf_freeStayReason sourceFields) = None
         then (if allowLegacyHistoricalFreeMetadata \<and> sp_free_stay_category_code row = None then None else Some FREE_METADATA_MISSING)
         else None)
      else if hasFreeStayMetadata then Some FREE_METADATA_ON_PAID
      else if hasMemberLink then
        (if hasExternalChannel \<or> hasUnknownChannel \<or> channelReference \<noteq> None then Some MEMBER_AND_CHANNEL
         else if sf_sourceCategory sourceFields = Some ''MEMBER'' then None else Some MEMBER_SOURCE_UNKNOWN)
      else if hasExternalChannel then (if channelReference \<noteq> None then None else Some CHANNEL_REFERENCE_MISSING)
      else if hasUnknownChannel then Some CHANNEL_UNKNOWN
      else if channelReference \<noteq> None then Some DIRECT_WITH_CHANNEL_REFERENCE
      else if sf_sourceCategory sourceFields = Some ''DIRECT'' then None else Some SOURCE_UNKNOWN)"

section \<open>The chain of pricing revisions\<close>

record pricing_revision_row =
  pr_id :: string
  pr_coverage_set :: json
  pr_cash_lines :: json
  pr_currency :: string
  pr_policy_version_id :: string
  pr_pricing_basis :: string
  pr_policy_base_amount_minor :: int
  pr_manual_adjustment_minor :: int
  pr_current_contract_amount_minor :: int

record money_order =
  mo_current_revision_id :: "string option"
  mo_pricing_policy_version_id :: string

text \<open>One step of \<open>every\<close>: the check of one revision. The amounts are integer columns.\<close>

definition revisionConsistent :: "money_order \<Rightarrow> (string \<times> string) list \<Rightarrow> pricing_revision_row \<Rightarrow> bool" where
  "revisionConsistent order currentTimeline candidate \<longleftrightarrow>
     asArray (pr_coverage_set candidate) = Some []
     \<and> pr_policy_version_id candidate = mo_pricing_policy_version_id order
     \<and> pr_pricing_basis candidate \<in> {''POLICY'', ''MANUAL_ADJUSTMENT''}
     \<and> safe_int (pr_policy_base_amount_minor candidate) \<and> 0 \<le> pr_policy_base_amount_minor candidate
     \<and> safe_int (pr_manual_adjustment_minor candidate)
     \<and> safe_int (pr_current_contract_amount_minor candidate) \<and> 0 \<le> pr_current_contract_amount_minor candidate
     \<and> pr_current_contract_amount_minor candidate = dbl (pr_policy_base_amount_minor candidate + pr_manual_adjustment_minor candidate)
     \<and> (if pr_pricing_basis candidate = ''POLICY'' then pr_manual_adjustment_minor candidate = 0
        else pr_manual_adjustment_minor candidate \<noteq> 0)
     \<and> (if Some (pr_id candidate) = mo_current_revision_id order
        then ordinaryStayCashLineTotalMinor (pr_cash_lines candidate) (pr_currency candidate) currentTimeline
        else pricingCashLineTotalMinor (pr_cash_lines candidate) (pr_currency candidate)) = Some (pr_policy_base_amount_minor candidate)"

section \<open>The chain of facts\<close>

datatype fact_type = COLLECTION | REFUND | REVERSAL | REALLOCATION_IN | REALLOCATION_OUT

record fact_row =
  fa_fact_id :: string
  fa_currency :: string
  fa_amount_minor :: int
  fa_net_effect_minor :: int
  fa_pricing_revision_id :: "string option"
  fa_fact_type :: fact_type
  fa_references_fact_id :: "string option"
  fa_reverses_fact_id :: "string option"

record fact_chain =
  fc_reversed :: "string list"
  fc_processed :: "string list"
  fc_activeRefund :: "(string \<times> int) list"

text \<open>A reference followed in the map of the facts by their identifiers; an empty one is not followed.\<close>

definition followed :: "(string \<times> fact_row) list \<Rightarrow> string option \<Rightarrow> fact_row option" where
  "followed factsById reference = (if given reference then jmap_get factsById (the reference) else None)"

definition factWellFormed :: "string \<Rightarrow> string list \<Rightarrow> fact_row \<Rightarrow> bool" where
  "factWellFormed currency revisionIds f \<longleftrightarrow>
     fa_currency f = currency \<and> safe_int (fa_amount_minor f) \<and> 0 < fa_amount_minor f
     \<and> safe_int (fa_net_effect_minor f) \<and> given (fa_pricing_revision_id f)
     \<and> the (fa_pricing_revision_id f) \<in> set revisionIds"

definition collectionStep :: "fact_row \<Rightarrow> fact_chain \<Rightarrow> fact_chain option" where
  "collectionStep f st =
     (if fa_net_effect_minor f \<noteq> fa_amount_minor f \<or> fa_references_fact_id f \<noteq> None \<or> fa_reverses_fact_id f \<noteq> None
         \<or> jmap_get (fc_activeRefund st) (fa_fact_id f) \<noteq> None
      then None
      else Some (st\<lparr>fc_activeRefund := jmap_set (fa_fact_id f) 0 (fc_activeRefund st),
                    fc_processed := fa_fact_id f # fc_processed st\<rparr>))"

definition refundStep :: "(string \<times> fact_row) list \<Rightarrow> fact_row \<Rightarrow> fact_chain \<Rightarrow> fact_chain option" where
  "refundStep factsById f st =
     (case followed factsById (fa_references_fact_id f) of None \<Rightarrow> None
      | Some source \<Rightarrow> (case jmap_get (fc_activeRefund st) (fa_fact_id source) of None \<Rightarrow> None
        | Some activeRefundMinor \<Rightarrow>
          let nextActiveRefundMinor = dbl (activeRefundMinor + fa_amount_minor f) in
          if fa_net_effect_minor f \<noteq> - fa_amount_minor f \<or> fa_reverses_fact_id f \<noteq> None
             \<or> fa_fact_type source \<noteq> COLLECTION \<or> fa_fact_id source \<notin> set (fc_processed st)
             \<or> fa_fact_id source \<in> set (fc_reversed st) \<or> \<not> safe_int nextActiveRefundMinor
             \<or> fa_amount_minor source < nextActiveRefundMinor
          then None
          else Some (st\<lparr>fc_activeRefund := jmap_set (fa_fact_id source) nextActiveRefundMinor (fc_activeRefund st),
                        fc_processed := fa_fact_id f # fc_processed st\<rparr>)))"

text \<open>The refunds outstanding after a reversal of \<open>source\<close>: those of its collection when it is a refund.\<close>

definition reversedRefunds :: "(string \<times> fact_row) list \<Rightarrow> fact_row \<Rightarrow> (string \<times> int) list \<Rightarrow> (string \<times> int) list option" where
  "reversedRefunds factsById source active =
     (if fa_fact_type source = REFUND then
        (case followed factsById (fa_references_fact_id source) of None \<Rightarrow> None
         | Some refundSource \<Rightarrow> (case jmap_get active (fa_fact_id refundSource) of None \<Rightarrow> None
           | Some activeRefundMinor \<Rightarrow>
             let nextActiveRefundMinor = dbl (activeRefundMinor - fa_amount_minor source) in
             if fa_fact_type refundSource \<noteq> COLLECTION \<or> \<not> safe_int nextActiveRefundMinor \<or> nextActiveRefundMinor < 0 then None
             else Some (jmap_set (fa_fact_id refundSource) nextActiveRefundMinor active)))
      else if jmap_get active (fa_fact_id source) \<noteq> Some 0 then None else Some active)"

definition reversalStep :: "(string \<times> fact_row) list \<Rightarrow> fact_row \<Rightarrow> fact_chain \<Rightarrow> fact_chain option" where
  "reversalStep factsById f st =
     (case followed factsById (fa_reverses_fact_id f) of None \<Rightarrow> None
      | Some source \<Rightarrow>
        if fa_references_fact_id f \<noteq> None \<or> fa_fact_type source = REVERSAL \<or> fa_amount_minor f \<noteq> fa_amount_minor source
           \<or> fa_net_effect_minor f \<noteq> - fa_net_effect_minor source \<or> fa_fact_id source \<in> set (fc_reversed st)
           \<or> fa_fact_id source \<notin> set (fc_processed st)
        then None
        else (case reversedRefunds factsById source (fc_activeRefund st) of None \<Rightarrow> None
          | Some active \<Rightarrow> Some (st\<lparr>fc_activeRefund := active, fc_reversed := fa_fact_id source # fc_reversed st,
              fc_processed := fa_fact_id f # fc_processed st\<rparr>)))"

text \<open>The body of the loop; None is the flag that stops it. Every other type is read as a reversal.\<close>

definition factStep :: "string \<Rightarrow> string list \<Rightarrow> (string \<times> fact_row) list \<Rightarrow> fact_row \<Rightarrow> fact_chain \<Rightarrow> fact_chain option" where
  "factStep currency revisionIds factsById f st =
     (if \<not> factWellFormed currency revisionIds f then None
      else case fa_fact_type f of COLLECTION \<Rightarrow> collectionStep f st
        | REFUND \<Rightarrow> refundStep factsById f st
        | _ \<Rightarrow> reversalStep factsById f st)"

fun factLoop :: "string \<Rightarrow> string list \<Rightarrow> (string \<times> fact_row) list \<Rightarrow> fact_row list \<Rightarrow> fact_chain \<Rightarrow> fact_chain option" where
  "factLoop currency revisionIds factsById [] st = Some st"
| "factLoop currency revisionIds factsById (f # facts) st =
     (case factStep currency revisionIds factsById f st of None \<Rightarrow> None
      | Some st' \<Rightarrow> factLoop currency revisionIds factsById facts st')"

definition collectionSettled :: "fact_chain \<Rightarrow> fact_row \<Rightarrow> bool" where
  "collectionSettled st f \<longleftrightarrow>
     (case jmap_get (fc_activeRefund st) (fa_fact_id f) of None \<Rightarrow> False
      | Some refunds \<Rightarrow> safe_int refunds \<and> refunds \<le> fa_amount_minor f \<and> (fa_fact_id f \<in> set (fc_reversed st) \<longrightarrow> refunds = 0))"

definition factsMatchRevisionCurrency :: "string \<Rightarrow> string list \<Rightarrow> fact_row list \<Rightarrow> bool" where
  "factsMatchRevisionCurrency currency revisionIds facts \<longleftrightarrow>
     (case factLoop currency revisionIds (jmap_of (map (\<lambda>f. (fa_fact_id f, f)) facts)) facts
        \<lparr>fc_reversed = [], fc_processed = [], fc_activeRefund = []\<rparr> of None \<Rightarrow> False
      | Some st \<Rightarrow> list_all (collectionSettled st) (filter (\<lambda>f. fa_fact_type f = COLLECTION) facts))"

datatype money_attention = ARREARS

definition ordinaryStayMoneyAttention ::
  "money_order \<Rightarrow> pricing_revision_row list \<Rightarrow> fact_row list \<Rightarrow> (string \<times> string) list \<Rightarrow> money_attention option result" where
  "ordinaryStayMoneyAttention order revisions facts currentTimeline =
     (case find (\<lambda>r. Some (pr_id r) = mo_current_revision_id order) revisions of None \<Rightarrow> throw INTERNAL_ERROR 500
      | Some revision \<Rightarrow>
        if \<not> list_all (revisionConsistent order currentTimeline) revisions then throw INTERNAL_ERROR 500
        else
          let netRecordedCollectionMinor = dsum (map fa_net_effect_minor facts) in
          if \<not> factsMatchRevisionCurrency (pr_currency revision) (map pr_id revisions) facts
             \<or> \<not> safe_int netRecordedCollectionMinor \<or> netRecordedCollectionMinor < 0
          then throw INTERNAL_ERROR 500
          else Inr (if netRecordedCollectionMinor < pr_current_contract_amount_minor revision then Some ARREARS else None))"

section \<open>The ledger that an accepted chain is\<close>

text \<open>
  Stated over the facts alone: what was reversed, what is refunded of a collection, and what the order holds.
\<close>

definition reversedIn :: "fact_row list \<Rightarrow> string \<Rightarrow> bool" where
  "reversedIn facts x \<longleftrightarrow> list_ex (\<lambda>f. fa_fact_type f \<notin> {COLLECTION, REFUND} \<and> fa_reverses_fact_id f = Some x) facts"

definition refundedOf :: "fact_row list \<Rightarrow> string \<Rightarrow> int" where
  "refundedOf facts c = sum_list (map fa_amount_minor (filter (\<lambda>f. fa_fact_type f = REFUND
     \<and> fa_references_fact_id f = Some c \<and> \<not> reversedIn facts (fa_fact_id f)) facts))"

definition standingCollections :: "fact_row list \<Rightarrow> fact_row list" where
  "standingCollections facts = filter (\<lambda>f. fa_fact_type f = COLLECTION \<and> \<not> reversedIn facts (fa_fact_id f)) facts"

definition heldMinor :: "fact_row list \<Rightarrow> int" where
  "heldMinor facts = sum_list (map (\<lambda>c. fa_amount_minor c - refundedOf facts (fa_fact_id c)) (standingCollections facts))"

lemma jmap_get_facts:
  assumes "distinct (map fa_fact_id facts)"
  shows "jmap_get (jmap_of (map (\<lambda>f. (fa_fact_id f, f)) facts)) x = Some f \<longleftrightarrow> f \<in> set facts \<and> fa_fact_id f = x"
  using assms by (auto simp: jmap_get_of distinct_map_of_rev comp_def)

lemma sum_filter_drop:
  fixes g :: "'a \<Rightarrow> int"
  assumes "distinct xs" "s \<in> set xs" "P s"
  shows "sum_list (map g (filter (\<lambda>x. P x \<and> x \<noteq> s) xs)) = sum_list (map g (filter P xs)) - g s"
  using assms
proof (induction xs)
  case (Cons x xs)
  show ?case
  proof (cases "x = s")
    case True
    with Cons.prems have "filter (\<lambda>x. P x \<and> x \<noteq> s) xs = filter P xs" by (intro filter_cong) auto
    with True Cons.prems show ?thesis by simp
  qed (use Cons in auto)
qed simp

definition chainInv :: "fact_row list \<Rightarrow> fact_chain \<Rightarrow> bool" where
  "chainInv ps st \<longleftrightarrow> distinct (map fa_fact_id ps) \<and> set (fc_processed st) = fa_fact_id ` set ps
     \<and> (\<forall>x. x \<in> set (fc_reversed st) \<longleftrightarrow> reversedIn ps x) \<and> (\<forall>x. reversedIn ps x \<longrightarrow> x \<in> fa_fact_id ` set ps)
     \<and> (\<forall>x. jmap_get (fc_activeRefund st) x =
          (if \<exists>c\<in>set ps. fa_fact_type c = COLLECTION \<and> fa_fact_id c = x then Some (refundedOf ps x) else None))
     \<and> (\<forall>c\<in>set ps. fa_fact_type c = COLLECTION \<longrightarrow> refundedOf ps (fa_fact_id c) \<le> fa_amount_minor c
          \<and> (reversedIn ps (fa_fact_id c) \<longrightarrow> refundedOf ps (fa_fact_id c) = 0))
     \<and> (\<forall>f\<in>set ps. fa_fact_type f = REFUND \<longrightarrow> (\<exists>c\<in>set ps. fa_fact_type c = COLLECTION \<and> fa_references_fact_id f = Some (fa_fact_id c)))
     \<and> (\<forall>f\<in>set ps. 0 < fa_amount_minor f \<and> (fa_fact_type f = COLLECTION \<longrightarrow> fa_net_effect_minor f = fa_amount_minor f)
          \<and> (fa_fact_type f = REFUND \<longrightarrow> fa_net_effect_minor f = - fa_amount_minor f))
     \<and> sum_list (map fa_net_effect_minor ps) = heldMinor ps"

lemma chainInvI:
  assumes "distinct (map fa_fact_id ps)" "set (fc_processed st) = fa_fact_id ` set ps"
    "\<And>x. x \<in> set (fc_reversed st) \<longleftrightarrow> reversedIn ps x" "\<And>x. reversedIn ps x \<Longrightarrow> x \<in> fa_fact_id ` set ps"
    "\<And>x. jmap_get (fc_activeRefund st) x =
       (if \<exists>c\<in>set ps. fa_fact_type c = COLLECTION \<and> fa_fact_id c = x then Some (refundedOf ps x) else None)"
    "\<And>c. c \<in> set ps \<Longrightarrow> fa_fact_type c = COLLECTION \<Longrightarrow> refundedOf ps (fa_fact_id c) \<le> fa_amount_minor c
       \<and> (reversedIn ps (fa_fact_id c) \<longrightarrow> refundedOf ps (fa_fact_id c) = 0)"
    "\<And>f. f \<in> set ps \<Longrightarrow> fa_fact_type f = REFUND \<Longrightarrow> \<exists>c\<in>set ps. fa_fact_type c = COLLECTION \<and> fa_references_fact_id f = Some (fa_fact_id c)"
    "\<And>f. f \<in> set ps \<Longrightarrow> 0 < fa_amount_minor f \<and> (fa_fact_type f = COLLECTION \<longrightarrow> fa_net_effect_minor f = fa_amount_minor f)
       \<and> (fa_fact_type f = REFUND \<longrightarrow> fa_net_effect_minor f = - fa_amount_minor f)"
    "sum_list (map fa_net_effect_minor ps) = heldMinor ps"
  shows "chainInv ps st"
  unfolding chainInv_def using assms by blast

lemma chainInvD:
  assumes "chainInv ps st"
  shows "distinct (map fa_fact_id ps)" "set (fc_processed st) = fa_fact_id ` set ps"
    "x \<in> set (fc_reversed st) \<longleftrightarrow> reversedIn ps x" "reversedIn ps x \<Longrightarrow> x \<in> fa_fact_id ` set ps"
    "jmap_get (fc_activeRefund st) x =
       (if \<exists>c\<in>set ps. fa_fact_type c = COLLECTION \<and> fa_fact_id c = x then Some (refundedOf ps x) else None)"
    "c \<in> set ps \<Longrightarrow> fa_fact_type c = COLLECTION \<Longrightarrow> refundedOf ps (fa_fact_id c) \<le> fa_amount_minor c
       \<and> (reversedIn ps (fa_fact_id c) \<longrightarrow> refundedOf ps (fa_fact_id c) = 0)"
    "f \<in> set ps \<Longrightarrow> fa_fact_type f = REFUND \<Longrightarrow> \<exists>c\<in>set ps. fa_fact_type c = COLLECTION \<and> fa_references_fact_id f = Some (fa_fact_id c)"
    "f \<in> set ps \<Longrightarrow> 0 < fa_amount_minor f \<and> (fa_fact_type f = COLLECTION \<longrightarrow> fa_net_effect_minor f = fa_amount_minor f)
       \<and> (fa_fact_type f = REFUND \<longrightarrow> fa_net_effect_minor f = - fa_amount_minor f)"
    "sum_list (map fa_net_effect_minor ps) = heldMinor ps"
  using assms unfolding chainInv_def by blast+

lemma reversedIn_snoc:
  "reversedIn (ps @ [f]) x \<longleftrightarrow> reversedIn ps x \<or> fa_fact_type f \<notin> {COLLECTION, REFUND} \<and> fa_reverses_fact_id f = Some x"
  by (auto simp: reversedIn_def)

lemma same_fact: "distinct (map fa_fact_id ps) \<Longrightarrow> f \<in> set ps \<Longrightarrow> g \<in> set ps \<Longrightarrow> fa_fact_id f = fa_fact_id g \<Longrightarrow> f = g"
  by (auto simp: distinct_map dest: inj_onD)

lemma chain_collection:
  assumes inv: "chainInv ps st" and new: "fa_fact_id f \<notin> fa_fact_id ` set ps" and pos: "0 < fa_amount_minor f"
    and type: "fa_fact_type f = COLLECTION" and step: "collectionStep f st = Some st'"
  shows "chainInv (ps @ [f]) st'"
proof -
  note D = chainInvD [OF inv]
  have rev: "reversedIn (ps @ [f]) x = reversedIn ps x" for x by (simp add: reversedIn_snoc type)
  have fresh: "\<not> reversedIn ps (fa_fact_id f)" using D(4) new by blast
  have ref: "refundedOf (ps @ [f]) x = refundedOf ps x" for x by (simp add: refundedOf_def rev type)
  have other: "fa_references_fact_id g \<noteq> Some (fa_fact_id f)" if "g \<in> set ps" "fa_fact_type g = REFUND" for g
    using D(7) [OF that] new by force
  then have "filter (\<lambda>g. fa_fact_type g = REFUND \<and> fa_references_fact_id g = Some (fa_fact_id f) \<and> \<not> reversedIn ps (fa_fact_id g)) ps = []"
    by (auto simp: filter_empty_conv)
  then have none: "refundedOf ps (fa_fact_id f) = 0" by (simp add: refundedOf_def)
  have held: "heldMinor (ps @ [f]) = heldMinor ps + fa_amount_minor f"
    by (simp add: heldMinor_def standingCollections_def rev ref none type fresh)
  from step have st': "st' = st\<lparr>fc_activeRefund := jmap_set (fa_fact_id f) 0 (fc_activeRefund st), fc_processed := fa_fact_id f # fc_processed st\<rparr>"
    and net: "fa_net_effect_minor f = fa_amount_minor f" by (auto simp: collectionStep_def split: if_splits)
  show ?thesis
  proof (rule chainInvI)
    show "distinct (map fa_fact_id (ps @ [f]))" using D(1) new by auto
    show "set (fc_processed st') = fa_fact_id ` set (ps @ [f])" using D(2) by (auto simp: st')
    show "x \<in> set (fc_reversed st') \<longleftrightarrow> reversedIn (ps @ [f]) x" for x using D(3) by (simp add: st' rev)
    show "reversedIn (ps @ [f]) x \<Longrightarrow> x \<in> fa_fact_id ` set (ps @ [f])" for x using D(4) by (auto simp: rev)
    show "jmap_get (fc_activeRefund st') x = (if \<exists>c\<in>set (ps @ [f]). fa_fact_type c = COLLECTION \<and> fa_fact_id c = x
        then Some (refundedOf (ps @ [f]) x) else None)" for x
      using D(5) [of x] none type by (auto simp: st' ref jmap_get_set)
    show "c \<in> set (ps @ [f]) \<Longrightarrow> fa_fact_type c = COLLECTION \<Longrightarrow> refundedOf (ps @ [f]) (fa_fact_id c) \<le> fa_amount_minor c
        \<and> (reversedIn (ps @ [f]) (fa_fact_id c) \<longrightarrow> refundedOf (ps @ [f]) (fa_fact_id c) = 0)" for c
      using D(6) [of c] none pos fresh by (auto simp: ref rev)
    show "g \<in> set (ps @ [f]) \<Longrightarrow> fa_fact_type g = REFUND
        \<Longrightarrow> \<exists>c\<in>set (ps @ [f]). fa_fact_type c = COLLECTION \<and> fa_references_fact_id g = Some (fa_fact_id c)" for g
      using D(7) [of g] type by auto
    show "g \<in> set (ps @ [f]) \<Longrightarrow> 0 < fa_amount_minor g \<and> (fa_fact_type g = COLLECTION \<longrightarrow> fa_net_effect_minor g = fa_amount_minor g)
        \<and> (fa_fact_type g = REFUND \<longrightarrow> fa_net_effect_minor g = - fa_amount_minor g)" for g
      using D(8) [of g] type pos net by auto
    show "sum_list (map fa_net_effect_minor (ps @ [f])) = heldMinor (ps @ [f])" using D(9) net held by simp
  qed
qed

text \<open>A reference that was followed leads to a processed fact of the prefix.\<close>

lemma followed_known:
  assumes "distinct (map fa_fact_id all)" "set ps \<subseteq> set all"
    and "followed (jmap_of (map (\<lambda>f. (fa_fact_id f, f)) all)) r = Some s" "fa_fact_id s \<in> fa_fact_id ` set ps"
  shows "s \<in> set ps \<and> r = Some (fa_fact_id s)"
  using assms by (auto simp: followed_def jmap_get_facts given_def split: if_splits dest: same_fact)

lemma chain_refund:
  assumes inv: "chainInv ps st" and new: "fa_fact_id f \<notin> fa_fact_id ` set ps" and pos: "0 < fa_amount_minor f"
    and type: "fa_fact_type f = REFUND" and all: "distinct (map fa_fact_id all)" "set ps \<subseteq> set all"
    and step: "refundStep (jmap_of (map (\<lambda>f. (fa_fact_id f, f)) all)) f st = Some st'"
  shows "chainInv (ps @ [f]) st'"
proof -
  note D = chainInvD [OF inv]
  from step obtain c a where c: "followed (jmap_of (map (\<lambda>f. (fa_fact_id f, f)) all)) (fa_references_fact_id f) = Some c"
    and act: "jmap_get (fc_activeRefund st) (fa_fact_id c) = Some a" and cc: "fa_fact_type c = COLLECTION" "fa_fact_id c \<in> set (fc_processed st)"
      "fa_fact_id c \<notin> set (fc_reversed st)" and net: "fa_net_effect_minor f = - fa_amount_minor f"
    and nxt: "safe_int (dbl (a + fa_amount_minor f))" "dbl (a + fa_amount_minor f) \<le> fa_amount_minor c"
    and st': "st' = st\<lparr>fc_activeRefund := jmap_set (fa_fact_id c) (dbl (a + fa_amount_minor f)) (fc_activeRefund st), fc_processed := fa_fact_id f # fc_processed st\<rparr>"
    by (auto simp: refundStep_def Let_def split: option.splits if_splits)
  have known: "c \<in> set ps" "fa_references_fact_id f = Some (fa_fact_id c)"
    using followed_known [OF all c] inv cc(2) by (auto simp: chainInv_def)
  have a: "a = refundedOf ps (fa_fact_id c)" using inv act by (auto simp: chainInv_def split: if_splits)
  have exact: "dbl (a + fa_amount_minor f) = a + fa_amount_minor f" using nxt(1) by (simp add: dbl_safe)
  have rev: "reversedIn (ps @ [f]) x = reversedIn ps x" for x by (simp add: reversedIn_snoc type)
  have fresh: "\<not> reversedIn ps (fa_fact_id f)" using inv new by (auto simp: chainInv_def)
  have ref: "refundedOf (ps @ [f]) x = refundedOf ps x + (if x = fa_fact_id c then fa_amount_minor f else 0)" for x
    using fresh by (simp add: refundedOf_def rev type known(2))
  have standing: "c \<in> set (standingCollections ps)"
    using known(1) cc inv by (simp add: standingCollections_def chainInv_def)
  have dist: "distinct (map fa_fact_id (standingCollections ps))"
    using inv by (simp add: standingCollections_def chainInv_def distinct_map_filter)
  have held: "heldMinor (ps @ [f]) = heldMinor ps - fa_amount_minor f"
  proof -
    have "heldMinor (ps @ [f]) = sum_list (map (\<lambda>x. (fa_amount_minor x - refundedOf ps (fa_fact_id x))
        - (if fa_fact_id x = fa_fact_id c then fa_amount_minor f else 0)) (standingCollections ps))"
      by (simp add: heldMinor_def standingCollections_def rev ref type diff_diff_eq)
    then show ?thesis using sum_shift [OF dist standing] by (simp add: heldMinor_def)
  qed
  have same: "g = c" if "g \<in> set ps" "fa_fact_id g = fa_fact_id c" for g
    using same_fact [OF D(1) that(1) known(1) that(2)] .
  show ?thesis
  proof (rule chainInvI)
    show "distinct (map fa_fact_id (ps @ [f]))" using D(1) new by auto
    show "set (fc_processed st') = fa_fact_id ` set (ps @ [f])" using D(2) by (auto simp: st')
    show "x \<in> set (fc_reversed st') \<longleftrightarrow> reversedIn (ps @ [f]) x" for x using D(3) by (simp add: st' rev)
    show "reversedIn (ps @ [f]) x \<Longrightarrow> x \<in> fa_fact_id ` set (ps @ [f])" for x using D(4) by (auto simp: rev)
    show "jmap_get (fc_activeRefund st') x = (if \<exists>c\<in>set (ps @ [f]). fa_fact_type c = COLLECTION \<and> fa_fact_id c = x
        then Some (refundedOf (ps @ [f]) x) else None)" for x
    proof (cases "x = fa_fact_id c")
      case True
      then have "\<exists>c\<in>set (ps @ [f]). fa_fact_type c = COLLECTION \<and> fa_fact_id c = x" using known(1) cc(1) by auto
      then show ?thesis using True exact by (simp add: st' ref jmap_get_set a)
    next
      case False
      then show ?thesis using D(5) [of x] type by (simp add: st' ref jmap_get_set)
    qed
    show "refundedOf (ps @ [f]) (fa_fact_id e) \<le> fa_amount_minor e
        \<and> (reversedIn (ps @ [f]) (fa_fact_id e) \<longrightarrow> refundedOf (ps @ [f]) (fa_fact_id e) = 0)"
      if e: "e \<in> set (ps @ [f])" "fa_fact_type e = COLLECTION" for e
    proof (cases "fa_fact_id e = fa_fact_id c")
      case True
      with e type new known(1) have "e = c" using same by auto
      moreover have "refundedOf ps (fa_fact_id c) + fa_amount_minor f \<le> fa_amount_minor c" using nxt(2) exact a by simp
      moreover have "\<not> reversedIn ps (fa_fact_id c)" using D(3) cc(3) by simp
      ultimately show ?thesis by (simp add: ref rev)
    next
      case False
      then show ?thesis using D(6) [of e] e type by (auto simp: ref rev)
    qed
    show "g \<in> set (ps @ [f]) \<Longrightarrow> fa_fact_type g = REFUND
        \<Longrightarrow> \<exists>c\<in>set (ps @ [f]). fa_fact_type c = COLLECTION \<and> fa_references_fact_id g = Some (fa_fact_id c)" for g
      using D(7) [of g] known cc(1) by auto
    show "g \<in> set (ps @ [f]) \<Longrightarrow> 0 < fa_amount_minor g \<and> (fa_fact_type g = COLLECTION \<longrightarrow> fa_net_effect_minor g = fa_amount_minor g)
        \<and> (fa_fact_type g = REFUND \<longrightarrow> fa_net_effect_minor g = - fa_amount_minor g)" for g
      using D(8) [of g] type pos net by auto
    show "sum_list (map fa_net_effect_minor (ps @ [f])) = heldMinor (ps @ [f])" using D(9) net held by simp
  qed
qed

text \<open>A reversal: of a refund, or of a collection that has none outstanding.\<close>

lemma chain_reversal:
  assumes inv: "chainInv ps st" and new: "fa_fact_id f \<notin> fa_fact_id ` set ps" and pos: "0 < fa_amount_minor f"
    and type: "fa_fact_type f \<notin> {COLLECTION, REFUND}" and all: "distinct (map fa_fact_id all)" "set ps \<subseteq> set all"
    and step: "reversalStep (jmap_of (map (\<lambda>f. (fa_fact_id f, f)) all)) f st = Some st'"
  shows "chainInv (ps @ [f]) st'"
proof -
  note D = chainInvD [OF inv]
  let ?by = "jmap_of (map (\<lambda>f. (fa_fact_id f, f)) all)"
  from step obtain s active where s: "followed ?by (fa_reverses_fact_id f) = Some s"
    and net: "fa_net_effect_minor f = - fa_net_effect_minor s" and own: "fa_fact_id s \<notin> set (fc_reversed st)" "fa_fact_id s \<in> set (fc_processed st)"
    and act: "reversedRefunds ?by s (fc_activeRefund st) = Some active"
    and st': "st' = st\<lparr>fc_activeRefund := active, fc_reversed := fa_fact_id s # fc_reversed st, fc_processed := fa_fact_id f # fc_processed st\<rparr>"
    by (auto simp: reversalStep_def split: option.splits if_splits)
  have known: "s \<in> set ps" "fa_reverses_fact_id f = Some (fa_fact_id s)"
    using followed_known [OF all s] own(2) D(2) by auto
  have standing_s: "\<not> reversedIn ps (fa_fact_id s)" using own(1) D(3) by simp
  have rev: "reversedIn (ps @ [f]) x \<longleftrightarrow> reversedIn ps x \<or> x = fa_fact_id s" for x
    using type known(2) by (auto simp: reversedIn_snoc)
  have same: "g = h" if "g \<in> set ps" "h \<in> set ps" "fa_fact_id g = fa_fact_id h" for g h
    using same_fact [OF D(1) that] .
  have fresh: "\<not> reversedIn ps (fa_fact_id f)" using D(4) new by blast
  have not_s: "fa_fact_id f \<noteq> fa_fact_id s" using new known(1) by auto
  have dist: "distinct ps" using D(1) by (simp add: distinct_map)
  have refunds: "filter (\<lambda>g. fa_fact_type g = REFUND \<and> fa_references_fact_id g = Some x \<and> \<not> reversedIn (ps @ [f]) (fa_fact_id g)) (ps @ [f])
      = filter (\<lambda>g. (fa_fact_type g = REFUND \<and> fa_references_fact_id g = Some x \<and> \<not> reversedIn ps (fa_fact_id g)) \<and> g \<noteq> s) ps" for x
    using type same known(1) by (auto simp: rev intro!: filter_cong)
  have standing: "standingCollections (ps @ [f]) = filter (\<lambda>g. (fa_fact_type g = COLLECTION \<and> \<not> reversedIn ps (fa_fact_id g)) \<and> g \<noteq> s) ps"
    using type same known(1) by (auto simp: standingCollections_def rev intro!: filter_cong)
  have core: "(\<forall>x. jmap_get active x = (if \<exists>c\<in>set ps. fa_fact_type c = COLLECTION \<and> fa_fact_id c = x
        then Some (refundedOf (ps @ [f]) x) else None))
    \<and> (\<forall>e\<in>set ps. fa_fact_type e = COLLECTION \<longrightarrow> refundedOf (ps @ [f]) (fa_fact_id e) \<le> fa_amount_minor e
        \<and> (reversedIn (ps @ [f]) (fa_fact_id e) \<longrightarrow> refundedOf (ps @ [f]) (fa_fact_id e) = 0))
    \<and> heldMinor (ps @ [f]) = heldMinor ps + fa_net_effect_minor f"
  proof (cases "fa_fact_type s = REFUND")
    case True
    with act obtain c a where c: "followed ?by (fa_references_fact_id s) = Some c" "jmap_get (fc_activeRefund st) (fa_fact_id c) = Some a"
      and nxt: "safe_int (dbl (a - fa_amount_minor s))"
      and active: "active = jmap_set (fa_fact_id c) (dbl (a - fa_amount_minor s)) (fc_activeRefund st)"
      by (auto simp: reversedRefunds_def Let_def split: option.splits if_splits)
    obtain c' where c': "c' \<in> set ps" "fa_fact_type c' = COLLECTION" "fa_references_fact_id s = Some (fa_fact_id c')"
      using D(7) [OF known(1) True] by blast
    have "fa_fact_id c = fa_fact_id c'"
      using c(1) c'(3) by (auto simp: followed_def jmap_get_facts [OF all(1)] split: if_splits)
    with c c' have ref_s: "fa_references_fact_id s = Some (fa_fact_id c')" and a: "a = refundedOf ps (fa_fact_id c')"
      and idc: "fa_fact_id c = fa_fact_id c'" using D(5) [of "fa_fact_id c"] by (auto split: if_splits)
    have exact: "dbl (a - fa_amount_minor s) = a - fa_amount_minor s" using nxt by (simp add: dbl_safe)
    have ref: "refundedOf (ps @ [f]) x = refundedOf ps x - (if x = fa_fact_id c' then fa_amount_minor s else 0)" for x
    proof (cases "x = fa_fact_id c'")
      case True
      with \<open>fa_fact_type s = REFUND\<close> ref_s standing_s show ?thesis
        unfolding refundedOf_def refunds by (subst sum_filter_drop [OF dist known(1)]) auto
    next
      case False
      then have "filter (\<lambda>g. (fa_fact_type g = REFUND \<and> fa_references_fact_id g = Some x \<and> \<not> reversedIn ps (fa_fact_id g)) \<and> g \<noteq> s) ps
        = filter (\<lambda>g. fa_fact_type g = REFUND \<and> fa_references_fact_id g = Some x \<and> \<not> reversedIn ps (fa_fact_id g)) ps"
        using ref_s by (intro filter_cong) auto
      with False show ?thesis unfolding refundedOf_def refunds by simp
    qed
    have amount: "0 < fa_amount_minor s" "fa_net_effect_minor s = - fa_amount_minor s" using D(8) [OF known(1)] True by auto
    have open_c: "\<not> reversedIn ps (fa_fact_id c')"
    proof
      assume "reversedIn ps (fa_fact_id c')"
      then have zero: "refundedOf ps (fa_fact_id c') = 0" using D(6) [OF c'(1,2)] by blast
      have "s \<in> set (filter (\<lambda>g. fa_fact_type g = REFUND \<and> fa_references_fact_id g = Some (fa_fact_id c') \<and> \<not> reversedIn ps (fa_fact_id g)) ps)"
        using known(1) True ref_s standing_s by simp
      then have "fa_amount_minor s \<le> refundedOf ps (fa_fact_id c')"
        unfolding refundedOf_def using D(8) by (intro member_le_sum_list) (auto simp: image_iff intro: less_imp_le)
      with zero amount(1) show False by simp
    qed
    have same_standing: "standingCollections (ps @ [f]) = standingCollections ps"
      unfolding standing unfolding standingCollections_def using True by (intro filter_cong) auto
    have "heldMinor (ps @ [f]) = sum_list (map (\<lambda>x. (fa_amount_minor x - refundedOf ps (fa_fact_id x))
        - (if fa_fact_id x = fa_fact_id c' then - fa_amount_minor s else 0)) (standingCollections ps))"
      unfolding heldMinor_def same_standing by (intro arg_cong [where f = sum_list] map_cong) (auto simp: ref)
    then have "heldMinor (ps @ [f]) = heldMinor ps + fa_amount_minor s"
      using sum_shift [of fa_fact_id "standingCollections ps" c' _ "- fa_amount_minor s"] D(1) c' open_c
      by (simp add: heldMinor_def standingCollections_def distinct_map_filter)
    moreover have "\<forall>e\<in>set ps. fa_fact_type e = COLLECTION \<longrightarrow> fa_fact_id e \<noteq> fa_fact_id s"
      using True same known(1) by force
    moreover have "refundedOf (ps @ [f]) (fa_fact_id e) \<le> fa_amount_minor e" if "e \<in> set ps" "fa_fact_type e = COLLECTION" for e
      using D(6) [OF that] amount(1) by (auto simp: ref)
    moreover have "jmap_get active x = (if \<exists>c\<in>set ps. fa_fact_type c = COLLECTION \<and> fa_fact_id c = x
        then Some (refundedOf (ps @ [f]) x) else None)" for x
    proof (cases "x = fa_fact_id c'")
      case True
      then have "\<exists>c\<in>set ps. fa_fact_type c = COLLECTION \<and> fa_fact_id c = x" using c' by auto
      then show ?thesis using True exact by (simp add: active jmap_get_set ref idc a)
    next
      case False
      then show ?thesis using D(5) [of x] by (simp add: active jmap_get_set ref idc)
    qed
    moreover have "refundedOf (ps @ [f]) (fa_fact_id e) = 0"
      if "e \<in> set ps" "fa_fact_type e = COLLECTION" "reversedIn ps (fa_fact_id e)" for e
      using D(6) [OF that(1,2)] that(3) open_c by (auto simp: ref)
    ultimately show ?thesis using amount(2) net by (auto simp: rev)
  next
    case False
    with act have zero: "jmap_get (fc_activeRefund st) (fa_fact_id s) = Some 0" and active: "active = fc_activeRefund st"
      by (auto simp: reversedRefunds_def split: if_splits)
    then have coll: "fa_fact_type s = COLLECTION" "refundedOf ps (fa_fact_id s) = 0"
      using D(5) [of "fa_fact_id s"] same known(1) by (auto split: if_splits)
    have ref: "refundedOf (ps @ [f]) x = refundedOf ps x" for x
      unfolding refundedOf_def refunds using coll by (intro arg_cong [where f = sum_list] map_cong filter_cong) auto
    have "heldMinor (ps @ [f]) = heldMinor ps - fa_amount_minor s"
      unfolding heldMinor_def standing ref
      by (subst sum_filter_drop [OF dist known(1)]) (use coll standing_s in \<open>auto simp: standingCollections_def\<close>)
    moreover have "fa_net_effect_minor s = fa_amount_minor s" using D(8) [OF known(1)] coll(1) by simp
    ultimately show ?thesis using D(5,6) net coll same known(1) by (auto simp: active ref rev)
  qed
  show ?thesis
  proof (rule chainInvI)
    show "distinct (map fa_fact_id (ps @ [f]))" using D(1) new by auto
    show "set (fc_processed st') = fa_fact_id ` set (ps @ [f])" using D(2) by (auto simp: st')
    show "x \<in> set (fc_reversed st') \<longleftrightarrow> reversedIn (ps @ [f]) x" for x using D(3) by (auto simp: st' rev)
    show "reversedIn (ps @ [f]) x \<Longrightarrow> x \<in> fa_fact_id ` set (ps @ [f])" for x using D(4) known(1) by (auto simp: rev)
    show "jmap_get (fc_activeRefund st') x = (if \<exists>c\<in>set (ps @ [f]). fa_fact_type c = COLLECTION \<and> fa_fact_id c = x
        then Some (refundedOf (ps @ [f]) x) else None)" for x
      using core type by (auto simp: st')
    show "e \<in> set (ps @ [f]) \<Longrightarrow> fa_fact_type e = COLLECTION \<Longrightarrow> refundedOf (ps @ [f]) (fa_fact_id e) \<le> fa_amount_minor e
        \<and> (reversedIn (ps @ [f]) (fa_fact_id e) \<longrightarrow> refundedOf (ps @ [f]) (fa_fact_id e) = 0)" for e
      using core type by auto
    show "g \<in> set (ps @ [f]) \<Longrightarrow> fa_fact_type g = REFUND
        \<Longrightarrow> \<exists>c\<in>set (ps @ [f]). fa_fact_type c = COLLECTION \<and> fa_references_fact_id g = Some (fa_fact_id c)" for g
      using D(7) [of g] type by auto
    show "g \<in> set (ps @ [f]) \<Longrightarrow> 0 < fa_amount_minor g \<and> (fa_fact_type g = COLLECTION \<longrightarrow> fa_net_effect_minor g = fa_amount_minor g)
        \<and> (fa_fact_type g = REFUND \<longrightarrow> fa_net_effect_minor g = - fa_amount_minor g)" for g
      using D(8) [of g] type pos by auto
    show "sum_list (map fa_net_effect_minor (ps @ [f])) = heldMinor (ps @ [f])" using D(9) core by simp
  qed
qed

lemma chain_step:
  assumes "chainInv ps st" "distinct (map fa_fact_id all)" "set (ps @ [f]) \<subseteq> set all" "fa_fact_id f \<notin> fa_fact_id ` set ps"
    and "factStep currency revisionIds (jmap_of (map (\<lambda>f. (fa_fact_id f, f)) all)) f st = Some st'"
  shows "chainInv (ps @ [f]) st'"
proof -
  have pos: "0 < fa_amount_minor f" using assms(5) by (auto simp: factStep_def factWellFormed_def split: if_splits)
  show ?thesis
  proof (cases "fa_fact_type f")
    case COLLECTION
    then show ?thesis using assms pos by (intro chain_collection) (auto simp: factStep_def split: if_splits)
  next
    case REFUND
    then show ?thesis using assms pos by (intro chain_refund) (auto simp: factStep_def split: if_splits)
  qed (use assms pos in \<open>intro chain_reversal; auto simp: factStep_def split: if_splits\<close>)+
qed

lemma chain_loop:
  assumes "factLoop currency revisionIds (jmap_of (map (\<lambda>f. (fa_fact_id f, f)) all)) rest st = Some st'" "chainInv ps st"
    and "distinct (map fa_fact_id all)" "all = ps @ rest"
  shows "chainInv all st'"
  using assms
proof (induction rest arbitrary: ps st)
  case (Cons f rest)
  from Cons.prems(1) obtain st1 where step: "factStep currency revisionIds (jmap_of (map (\<lambda>f. (fa_fact_id f, f)) all)) f st = Some st1"
    and rest: "factLoop currency revisionIds (jmap_of (map (\<lambda>f. (fa_fact_id f, f)) all)) rest st1 = Some st'"
    by (auto split: option.splits)
  have "chainInv (ps @ [f]) st1"
    by (rule chain_step [OF Cons.prems(2,3) _ _ step]) (use Cons.prems(3,4) in auto)
  from Cons.IH [OF rest this Cons.prems(3)] Cons.prems(4) show ?case by simp
qed auto

lemma chainInv_start: "chainInv [] \<lparr>fc_reversed = [], fc_processed = [], fc_activeRefund = []\<rparr>"
  by (rule chainInvI) (auto simp: reversedIn_def heldMinor_def standingCollections_def jmap_get_def)

lemma accepted_chain:
  assumes "factsMatchRevisionCurrency currency revisionIds facts" "distinct (map fa_fact_id facts)"
  obtains st where "chainInv facts st"
proof -
  from assms(1) obtain st where "factLoop currency revisionIds (jmap_of (map (\<lambda>f. (fa_fact_id f, f)) facts)) facts
      \<lparr>fc_reversed = [], fc_processed = [], fc_activeRefund = []\<rparr> = Some st"
    by (auto simp: factsMatchRevisionCurrency_def split: option.splits)
  from chain_loop [OF this chainInv_start assms(2)] that show thesis by simp
qed

lemma refundedOf_nonneg: "chainInv facts st \<Longrightarrow> 0 \<le> refundedOf facts x"
  unfolding refundedOf_def by (rule sum_list_nonneg) (auto dest: chainInvD(8) intro: less_imp_le)

lemma dsum_bounded:
  assumes "safe_int (sum_list (map abs xs))"
  shows "dsum xs = sum_list xs"
proof -
  have "fold (\<lambda>x acc. dbl (acc + x)) xs acc = acc + sum_list xs" if "safe_int (\<bar>acc\<bar> + sum_list (map abs xs))" for acc
    using that
  proof (induction xs arbitrary: acc)
    case (Cons x xs)
    have "0 \<le> sum_list (map abs xs)" by (rule sum_list_nonneg) auto
    with Cons.prems have "safe_int (acc + x)" "safe_int (\<bar>acc + x\<bar> + sum_list (map abs xs))" by (auto simp: safe_int_bounds)
    with Cons.IH show ?case by (simp add: dbl_safe)
  qed simp
  from this [of 0] assms show ?thesis by (simp add: dsum_def)
qed

lemma reversal_references:
  "factLoop currency revisionIds factsById facts st = Some st' \<Longrightarrow> f \<in> set facts \<Longrightarrow> fa_fact_type f \<notin> {COLLECTION, REFUND}
     \<Longrightarrow> fa_references_fact_id f = None"
  by (induction facts arbitrary: st)
    (auto simp: factStep_def reversalStep_def split: option.splits if_splits fact_type.splits)

section \<open>Properties\<close>

text \<open>
  C22: an accepted payment chain is a ledger. When the money of an ordinary stay is accepted, the recorded net
  is the sum, over the collections that were not reversed, of the amount less its refunds that were not
  reversed; no collection is refunded below zero or beyond its amount; the net is not negative; and arrears are
  reported exactly when it is below the contract amount of the current revision. Fact identifiers are the
  primary key; the amounts sum within the safe integers.
\<close>

theorem moneyAttention_ledger:
  assumes "ordinaryStayMoneyAttention order revisions facts currentTimeline = Inr attention"
    and "distinct (map fa_fact_id facts)" "safe_int (sum_list (map (\<lambda>f. \<bar>fa_net_effect_minor f\<bar>) facts))"
  shows "\<exists>revision\<in>set revisions. Some (pr_id revision) = mo_current_revision_id order
    \<and> (\<forall>c\<in>set (standingCollections facts). refundedOf facts (fa_fact_id c) \<in> {0..fa_amount_minor c})
    \<and> sum_list (map fa_net_effect_minor facts) = heldMinor facts \<and> 0 \<le> heldMinor facts
    \<and> attention = (if heldMinor facts < pr_current_contract_amount_minor revision then Some ARREARS else None)"
proof -
  from assms(1) obtain revision where r: "find (\<lambda>r. Some (pr_id r) = mo_current_revision_id order) revisions = Some revision"
    and m: "factsMatchRevisionCurrency (pr_currency revision) (map pr_id revisions) facts"
    and n: "0 \<le> dsum (map fa_net_effect_minor facts)"
    and a: "attention = (if dsum (map fa_net_effect_minor facts) < pr_current_contract_amount_minor revision then Some ARREARS else None)"
    by (auto simp: ordinaryStayMoneyAttention_def Let_def split: option.splits if_splits)
  from accepted_chain [OF m assms(2)] obtain st where inv: "chainInv facts st" .
  have "dsum (map fa_net_effect_minor facts) = heldMinor facts"
    using dsum_bounded [of "map fa_net_effect_minor facts"] assms(3) chainInvD(9) [OF inv] by (simp add: comp_def)
  moreover have "revision \<in> set revisions" "Some (pr_id revision) = mo_current_revision_id order"
    using r by (auto simp: find_Some_iff)
  moreover have "\<forall>c\<in>set (standingCollections facts). refundedOf facts (fa_fact_id c) \<in> {0..fa_amount_minor c}"
    using chainInvD(6) [OF inv] refundedOf_nonneg [OF inv] by (auto simp: standingCollections_def)
  ultimately show ?thesis using chainInvD(9) [OF inv] n a by auto
qed

text \<open>A paid stay: a collection of 500.00 with a refund of 200.00, and a second refund that was reversed.\<close>

definition demoRevision :: pricing_revision_row where
  "demoRevision = \<lparr>pr_id = ''rev1'', pr_coverage_set = JArr [], pr_cash_lines =
       JArr [JObj [(''serviceDate'', JStr ''2026-03-01''), (''inventoryUnitId'', JStr ''u1''), (''description'', JStr ''night''),
         (''amount'', JObj [(''currency'', JStr ''CNY''), (''minorUnits'', JNum 30000)])]],
     pr_currency = ''CNY'', pr_policy_version_id = ''v1'', pr_pricing_basis = ''POLICY'', pr_policy_base_amount_minor = 30000,
     pr_manual_adjustment_minor = 0, pr_current_contract_amount_minor = 30000\<rparr>"

definition demoFact :: "string \<Rightarrow> fact_type \<Rightarrow> int \<Rightarrow> int \<Rightarrow> string option \<Rightarrow> string option \<Rightarrow> fact_row" where
  "demoFact i type amount net references reverses = \<lparr>fa_fact_id = i, fa_currency = ''CNY'', fa_amount_minor = amount,
     fa_net_effect_minor = net, fa_pricing_revision_id = Some ''rev1'', fa_fact_type = type, fa_references_fact_id = references,
     fa_reverses_fact_id = reverses\<rparr>"

definition demoChain :: "fact_row list" where
  "demoChain = [demoFact ''f1'' COLLECTION 50000 50000 None None, demoFact ''f2'' REFUND 20000 (- 20000) (Some ''f1'') None,
     demoFact ''f3'' REFUND 10000 (- 10000) (Some ''f1'') None, demoFact ''f4'' REVERSAL 10000 10000 None (Some ''f3'')]"

definition demoMoney :: "money_attention option result" where
  "demoMoney = ordinaryStayMoneyAttention \<lparr>mo_current_revision_id = Some ''rev1'', mo_pricing_policy_version_id = ''v1''\<rparr>
     [demoRevision] demoChain [(''2026-03-01'', ''u1'')]"

theorem moneyAttention_ledger_witness:
  "demoMoney = Inr None \<and> heldMinor demoChain = 30000"
proof -
  have h: "demoMoney = Inr None" "distinct (map fa_fact_id demoChain)"
    "safe_int (sum_list (map (\<lambda>f. \<bar>fa_net_effect_minor f\<bar>) demoChain))" "sum_list (map fa_net_effect_minor demoChain) = 30000"
    by code_simp+
  from moneyAttention_ledger [OF h(1) [unfolded demoMoney_def] h(2,3)] h(1,4) show ?thesis by auto
qed

text \<open>
  C39: A transfer of retained funds between orders references the share it moves, and the chain check reads it as a
  reversal. So the check throws INTERNAL_ERROR for every order with such a transfer among its facts, whatever else
  the order has, although the transfer is a regular fact of retained funds.
\<close>

theorem transfer_unverifiable:
  assumes "f \<in> set facts" "fa_fact_type f \<in> {REALLOCATION_IN, REALLOCATION_OUT}" "fa_references_fact_id f = Some source"
  shows "ordinaryStayMoneyAttention order revisions facts currentTimeline = throw INTERNAL_ERROR 500"
proof -
  have "\<not> factsMatchRevisionCurrency currency revisionIds facts" for currency revisionIds
    using assms reversal_references [OF _ assms(1)] by (auto simp: factsMatchRevisionCurrency_def split: option.splits)
  then show ?thesis by (simp add: ordinaryStayMoneyAttention_def split: option.splits)
qed

definition demoTransfer :: fact_row where
  "demoTransfer = (hd demoChain)\<lparr>fa_fact_id := ''t1'', fa_fact_type := REALLOCATION_IN, fa_references_fact_id := Some ''f0''\<rparr>"

theorem transfer_unverifiable_witness:
  "ordinaryStayMoneyAttention \<lparr>mo_current_revision_id = Some ''rev1'', mo_pricing_policy_version_id = ''v1''\<rparr>
     [demoRevision] (demoChain @ [demoTransfer]) [(''2026-03-01'', ''u1'')] = throw INTERNAL_ERROR 500"
  by (rule transfer_unverifiable [of demoTransfer _ "''f0''"]) (simp_all add: demoTransfer_def)

text \<open>
  The metadata check is the source projection. Called as the board calls it, with the kind of the stay type,
  it finds no damage exactly when the projection names a source and the remaining fields are those of that
  source: a free stay has no member, channel or reference, and has its category and reason unless it may be a
  legacy one; a member stay has at most the direct channel and no reference; a direct stay has no reference;
  only a free stay carries free-stay metadata.
\<close>

definition stayKind :: "source_projection_row \<Rightarrow> source_kind" where
  "stayKind row = (if sp_stay_type row = Some ''FREE'' then FREE_STAY_SOURCE else ORDER_SOURCE)"

definition noFreeMetadata :: "source_projection_row \<Rightarrow> bool" where
  "noFreeMetadata row \<longleftrightarrow> sp_free_stay_category_code row = None \<and> normalizedOptionalText (sp_free_stay_reason row) = None"

theorem sourceMetadata_undamaged:
  "roomStatusSourceMetadataDamageReason (stayKind row) row legacy = None \<longleftrightarrow>
     (let reference = normalizedOptionalText (sp_channel_order_reference row) in
      case sf_sourceCategory (roomStatusOrderSourceFields row) of None \<Rightarrow> False
      | Some category \<Rightarrow>
        if category = ''FREE_STAY'' then
          \<not> given (sp_member_id row) \<and> \<not> given (sp_member_contract_id row) \<and> sp_booking_channel_code row = None \<and> reference = None
          \<and> (if legacy \<and> sp_free_stay_category_code row = None then True
             else sf_freeStayCategoryCode (roomStatusOrderSourceFields row) \<noteq> None
               \<and> normalizedOptionalText (sp_free_stay_reason row) \<noteq> None)
        else if category = ''MEMBER'' then
          sp_booking_channel_code row \<in> {None, Some ''WECOM''} \<and> reference = None \<and> noFreeMetadata row
        else if category = ''DIRECT'' then reference = None \<and> noFreeMetadata row
        else noFreeMetadata row)"
  by (cases "sp_booking_channel_code row"; cases "sp_stay_type row = Some ''FREE''";
      cases "given (sp_member_id row) \<or> given (sp_member_contract_id row)")
    (auto simp: roomStatusSourceMetadataDamageReason_def stayKind_def roomStatusOrderSourceFields_def noFreeMetadata_def
      roomStatusSourceCategoryForOrder_def externalChannelCodes_def Let_def)

end
