(* ===== verification/InputFields.thy ===== *)
theory InputFields
  imports HistoricalProtocol
begin

text \<open>
  The readers of request fields that the command builders of \<^verbatim>\<open>packages/db/src/commands/effects.ts\<close> share:
  each returns the value of a member of the untyped input, or the validation error the code throws.
\<close>

definition requireString :: "json_object \<Rightarrow> string \<Rightarrow> string result" where
  "requireString input field =
     (case strOf (prop_of input field) of None \<Rightarrow> validation_error
      | Some value \<Rightarrow> if trim value = [] then validation_error else Inr (trim value))"

definition optionalString :: "json_object \<Rightarrow> string \<Rightarrow> string option result" where
  "optionalString input field =
     (let value = prop_of input field in
      if value = JUndefined \<or> value = JNull then Inr None
      else case strOf value of None \<Rightarrow> validation_error | Some s \<Rightarrow> Inr (if trim s = [] then None else Some (trim s)))"

text \<open>The options of requireInteger: the least value, when given, and whether zero is allowed.\<close>

definition requireInteger :: "json_object \<Rightarrow> string \<Rightarrow> int option \<Rightarrow> bool \<Rightarrow> int result" where
  "requireInteger input field least allowZero =
     (case prop_of input field of
        JNum n \<Rightarrow>
          if \<not> safe_int n \<or> n < -2147483648 \<or> 2147483647 < n then validation_error
          else if (case least of None \<Rightarrow> False | Some m \<Rightarrow> n < m) then validation_error
          else if \<not> allowZero \<and> n = 0 then validation_error
          else Inr n
      | _ \<Rightarrow> validation_error)"

text \<open>The value of a condition.\<close>

fun jsTruthy :: "json \<Rightarrow> bool" where
  "jsTruthy JUndefined = False"
| "jsTruthy JNull = False"
| "jsTruthy (JBool b) = b"
| "jsTruthy (JNum n) = (n \<noteq> 0)"
| "jsTruthy (JStr s) = (s \<noteq> [])"
| "jsTruthy _ = True"

lemma requireInteger_Inr:
  "requireInteger input field least allowZero = Inr n \<longleftrightarrow> prop_of input field = JNum n \<and> -2147483648 \<le> n \<and> n \<le> 2147483647
     \<and> (\<forall>m. least = Some m \<longrightarrow> m \<le> n) \<and> (allowZero \<or> n \<noteq> 0)"
  by (auto simp: requireInteger_def safe_int_bounds split: json.splits option.splits if_splits)

lemma requireInteger_least: "requireInteger input field (Some m) allowZero = Inr n \<Longrightarrow> m \<le> n"
  by (simp add: requireInteger_Inr)

end
