(* ===== verification/OrderFunds.thy ===== *)
theory OrderFunds
  imports StayMoney InputFields
begin

text \<open>
  The money of stays: \<^verbatim>\<open>packages/db/src/retained-funds.ts\<close>, the parts of
  \<^verbatim>\<open>packages/db/src/payment-allocation.ts\<close> it rests on, and the commands RECORD_COLLECTION, RECORD_REFUND and
  REVERSE_FACT of \<^verbatim>\<open>packages/db/src/commands/effects.ts\<close> and \<^verbatim>\<open>apply.ts\<close> for orders that are not of an
  external channel and for refunds without a reconciliation, over the tables they read and write. A command builds its effect from the tables and applies
  it in the same transaction; rows are appended, never changed. Sums of PostgreSQL are exact. The texts of
  identifiers, notes and references are opaque, the identifiers that newId draws are arguments.
\<close>

section \<open>Tables\<close>

record fund_fact = fact_row +
  fu_order_id :: string
  fu_method :: string
  fu_note :: string
  fu_transaction_reference :: "string option"
  fu_refund_reference :: "string option"
  fu_bill_id :: "string option"
  fu_command_id :: string

record fund_order =
  fo_id :: string
  fo_property_id :: string
  fo_status :: string
  fo_version :: int
  fo_stay_type :: string
  fo_booking_channel_code :: "string option"
  fo_member_contract_id :: "string option"
  fo_current_revision_id :: "string option"

record fund_revision =
  fr_id :: string
  fr_currency :: string
  fr_pricing_basis :: string
  fr_contract_amount :: int

record payment_bill =
  pb_id :: string
  pb_property_id :: string
  pb_source_id :: string
  pb_merchant_id :: string
  pb_kind :: string
  pb_reference :: string
  pb_transaction_id :: "string option"
  pb_state :: string
  pb_amount_minor :: "int option"
  pb_needs_review :: bool

record allocation_row =
  al_id :: string
  al_bill_id :: string
  al_collection_fact_id :: string
  al_amount_minor :: int

record release_row =
  rl_id :: string
  rl_allocation_id :: string
  rl_reversal_fact_id :: string

record retained_row =
  rf_id :: string
  rf_property_id :: string
  rf_source_order_id :: string
  rf_source_fact_id :: string
  rf_bill_id :: string
  rf_owner_name :: string
  rf_owner_contact :: string
  rf_confirmation_note :: string
  rf_amount_minor :: int
  rf_command_id :: string
  rf_created_at :: int

datatype entry_kind = USE_ENTRY | REFUND_ENTRY | RELEASE_ENTRY

record retained_entry =
  re_id :: string
  re_retained_fund_id :: string
  re_kind :: entry_kind
  re_amount_minor :: int
  re_target_order_id :: "string option"
  re_source_out_fact_id :: "string option"
  re_target_in_fact_id :: "string option"
  re_refund_fact_id :: "string option"
  re_authorization_note :: string
  re_command_id :: string

record money_db =
  m_orders :: "fund_order list"
  m_revisions :: "fund_revision list"
  m_amendments :: "(string \<times> string) list"
  m_facts :: "fund_fact list"
  m_bills :: "payment_bill list"
  m_allocations :: "allocation_row list"
  m_releases :: "release_row list"
  m_retained :: "retained_row list"
  m_entries :: "retained_entry list"

section \<open>The share of a collection\<close>

definition factReversed :: "fund_fact list \<Rightarrow> string \<Rightarrow> bool" where
  "factReversed facts x = list_ex (\<lambda>v. fa_reverses_fact_id v = Some x) facts"

definition refundedMinor :: "fund_fact list \<Rightarrow> string \<Rightarrow> int" where
  "refundedMinor facts x = sum_list (map fa_amount_minor (filter (\<lambda>r. fa_references_fact_id r = Some x \<and> fa_fact_type r = REFUND
     \<and> \<not> factReversed facts (fa_fact_id r)) facts))"

definition transferredMinor :: "fund_fact list \<Rightarrow> string \<Rightarrow> int" where
  "transferredMinor facts x = sum_list (map fa_amount_minor (filter (\<lambda>r. fa_references_fact_id r = Some x
     \<and> fa_fact_type r = REALLOCATION_OUT) facts))"

definition usedOfLot :: "retained_entry list \<Rightarrow> string \<Rightarrow> int" where
  "usedOfLot entries lotId = sum_list (map re_amount_minor (filter (\<lambda>e. re_retained_fund_id e = lotId) entries))"

definition lotRemaining :: "retained_entry list \<Rightarrow> retained_row \<Rightarrow> int" where
  "lotRemaining entries l = rf_amount_minor l - usedOfLot entries (rf_id l)"

definition reservedMinor :: "money_db \<Rightarrow> string \<Rightarrow> int" where
  "reservedMinor db x = sum_list (map (lotRemaining (m_entries db)) (filter (\<lambda>l. rf_source_fact_id l = x) (m_retained db)))"

record funding_source =
  fs_fact :: fund_fact
  fs_bill_id :: "string option"
  fs_reversed :: bool
  fs_refundedMinor :: int
  fs_transferredMinor :: int
  fs_reservedMinor :: int
  fs_remainingMinor :: int

definition propertyOrder :: "money_db \<Rightarrow> string \<Rightarrow> string \<Rightarrow> fund_order option" where
  "propertyOrder db propertyId orderId = find (\<lambda>r. fo_id r = orderId \<and> fo_property_id r = propertyId) (m_orders db)"

definition propertyFact :: "money_db \<Rightarrow> string \<Rightarrow> string \<Rightarrow> fund_fact option" where
  "propertyFact db propertyId factId =
     find (\<lambda>f. fa_fact_id f = factId \<and> propertyOrder db propertyId (fu_order_id f) \<noteq> None) (m_facts db)"

definition isShare :: "fund_fact \<Rightarrow> bool" where
  "isShare f \<longleftrightarrow> fa_fact_type f = COLLECTION \<or> fa_fact_type f = REALLOCATION_IN"

definition billOfFact :: "money_db \<Rightarrow> fund_fact \<Rightarrow> string option" where
  "billOfFact db f = (case fu_bill_id f of Some b \<Rightarrow> Some b
     | None \<Rightarrow> map_option al_bill_id (find (\<lambda>a. al_collection_fact_id a = fa_fact_id f) (m_allocations db)))"

definition fundingSource :: "money_db \<Rightarrow> string \<Rightarrow> string \<Rightarrow> funding_source result" where
  "fundingSource db propertyId factId =
     (case propertyFact db propertyId factId of None \<Rightarrow> throw NOT_FOUND 404
      | Some f \<Rightarrow>
        if \<not> isShare f then throw NOT_FOUND 404
        else
          let reversed = factReversed (m_facts db) factId; refunded = refundedMinor (m_facts db) factId;
              transferred = transferredMinor (m_facts db) factId in
          Inr \<lparr>fs_fact = f, fs_bill_id = billOfFact db f, fs_reversed = reversed, fs_refundedMinor = refunded,
            fs_transferredMinor = transferred, fs_reservedMinor = reservedMinor db factId,
            fs_remainingMinor = (if reversed then 0 else fa_amount_minor f - refunded - transferred)\<rparr>)"

text \<open>A successful refund of the bill's transaction that is not wholly assigned to facts yet.\<close>

definition unassignedRefund :: "money_db \<Rightarrow> string \<Rightarrow> string \<Rightarrow> bool" where
  "unassignedRefund db propertyId billId =
     list_ex (\<lambda>b. pb_id b = billId \<and> pb_property_id b = propertyId \<and>
       list_ex (\<lambda>r. pb_property_id r = pb_property_id b \<and> pb_source_id r = pb_source_id b \<and> pb_merchant_id r = pb_merchant_id b
         \<and> pb_kind r = ''REFUND'' \<and> pb_transaction_id r = Some (pb_reference b) \<and> pb_state r = ''SUCCESS''
         \<and> (case pb_amount_minor r of None \<Rightarrow> True
            | Some amount \<Rightarrow> pb_needs_review r \<or> sum_list (map al_amount_minor (filter (\<lambda>a. al_bill_id a = pb_id r
                \<and> \<not> list_ex (\<lambda>x. rl_allocation_id x = al_id a) (m_releases db)) (m_allocations db))) < amount))
         (m_bills db)) (m_bills db)"

definition assertNoUnassignedRefund :: "money_db \<Rightarrow> string \<Rightarrow> string \<Rightarrow> unit result" where
  "assertNoUnassignedRefund db propertyId billId =
     (if unassignedRefund db propertyId billId then throw AGGREGATE_VERSION_CONFLICT 409 else Inr ())"

section \<open>Retained funds\<close>

definition retainedFundsCommandTypes :: "string list" where
  "retainedFundsCommandTypes = [''RETAIN_ORDER_FUNDS'', ''APPLY_RETAINED_FUNDS'', ''RELEASE_RETAINED_FUNDS'', ''REFUND_RETAINED_FUNDS'']"

definition isRetainedFundsCommand :: "string \<Rightarrow> bool" where
  "isRetainedFundsCommand command \<longleftrightarrow> command \<in> set retainedFundsCommandTypes"

definition boundedText :: "json_object \<Rightarrow> string \<Rightarrow> nat \<Rightarrow> string result" where
  "boundedText input key limit =
     (case strOf (prop_of input key) of None \<Rightarrow> validation_error
      | Some value \<Rightarrow> if trim value = [] \<or> limit < length (trim value) then validation_error else Inr (trim value))"

definition positiveAmount :: "json_object \<Rightarrow> int result" where
  "positiveAmount input =
     (case prop_of input ''amountMinor'' of
        JNum n \<Rightarrow> if \<not> safe_int n \<or> n \<le> 0 \<or> 2147483647 < n then validation_error else Inr n
      | _ \<Rightarrow> validation_error)"

record retained_query =
  rq_query :: "string option"
  rq_orderId :: "string option"
  rq_all :: bool
  rq_limit :: "int option"
  rq_beforeId :: "string option"
  rq_retainedFundId :: "string option"

record retained_item =
  ri_row :: retained_row
  ri_usedMinor :: int
  ri_refundedMinor :: int
  ri_releasedMinor :: int
  ri_remainingMinor :: int

definition entriesOfKind :: "retained_entry list \<Rightarrow> entry_kind \<Rightarrow> string \<Rightarrow> int" where
  "entriesOfKind entries kind lotId =
     sum_list (map re_amount_minor (filter (\<lambda>e. re_retained_fund_id e = lotId \<and> re_kind e = kind) entries))"

definition retainedItem :: "money_db \<Rightarrow> retained_row \<Rightarrow> retained_item" where
  "retainedItem db l = \<lparr>ri_row = l, ri_usedMinor = entriesOfKind (m_entries db) USE_ENTRY (rf_id l),
     ri_refundedMinor = entriesOfKind (m_entries db) REFUND_ENTRY (rf_id l),
     ri_releasedMinor = entriesOfKind (m_entries db) RELEASE_ENTRY (rf_id l), ri_remainingMinor = lotRemaining (m_entries db) l\<rparr>"

definition laterRow :: "retained_row \<Rightarrow> retained_row \<Rightarrow> bool" where
  "laterRow a b \<longleftrightarrow> rf_created_at b < rf_created_at a \<or> rf_created_at b = rf_created_at a \<and> rf_id b < rf_id a"

text \<open>The text search (ILIKE) is the argument \<open>like\<close>; the page is the items and whether there are more.\<close>

definition listRetainedFunds ::
  "(string \<Rightarrow> string \<Rightarrow> bool) \<Rightarrow> money_db \<Rightarrow> string \<Rightarrow> retained_query \<Rightarrow> retained_item list \<times> bool" where
  "listRetainedFunds like db propertyId query =
     (let limit = nat (max 1 (min 100 (case rq_limit query of Some n \<Rightarrow> n | None \<Rightarrow> 50)));
          matches = (\<lambda>l. case normalizedOptionalText (rq_query query) of None \<Rightarrow> True
            | Some q \<Rightarrow> like q (rf_owner_name l) \<or> like q (rf_owner_contact l) \<or> like q (rf_source_order_id l));
          items = map (retainedItem db) (filter (\<lambda>l. rf_property_id l = propertyId
            \<and> (rq_orderId query \<noteq> None \<longrightarrow> Some (rf_source_order_id l) = rq_orderId query)
            \<and> (rq_retainedFundId query \<noteq> None \<longrightarrow> Some (rf_id l) = rq_retainedFundId query) \<and> matches l) (m_retained db));
          before = (\<lambda>i. case rq_beforeId query of None \<Rightarrow> True
            | Some b \<Rightarrow> (case find (\<lambda>l. rf_id l = b \<and> rf_property_id l = propertyId) (m_retained db) of None \<Rightarrow> False
              | Some l \<Rightarrow> laterRow l (ri_row i)));
          rows = take (limit + 1) (sortBy (\<lambda>a b. laterRow (ri_row a) (ri_row b) \<or> ri_row a = ri_row b)
            (filter (\<lambda>i. (rq_all query \<or> 0 < ri_remainingMinor i) \<and> before i) items)) in
      (take limit rows, limit < length rows))"

record eligible_order =
  eo_order :: fund_order
  eo_revision :: fund_revision
  eo_netMinor :: int
  eo_reservedMinor :: int

definition conversionAmendment :: string where
  "conversionAmendment = ''CONVERT_STAY_COLLECTIONS_TO_MEMBERSHIP''"

definition orderNet :: "money_db \<Rightarrow> string \<Rightarrow> int" where
  "orderNet db orderId = sum_list (map fa_net_effect_minor (filter (\<lambda>f. fu_order_id f = orderId) (m_facts db)))"

definition orderReserved :: "money_db \<Rightarrow> string \<Rightarrow> int" where
  "orderReserved db orderId =
     sum_list (map (lotRemaining (m_entries db)) (filter (\<lambda>l. rf_source_order_id l = orderId) (m_retained db)))"

definition eligibleOrder :: "money_db \<Rightarrow> string \<Rightarrow> string \<Rightarrow> eligible_order result" where
  "eligibleOrder db propertyId orderId =
     (case propertyOrder db propertyId orderId of None \<Rightarrow> validation_error
      | Some ord \<Rightarrow> (case find (\<lambda>r. Some (fr_id r) = fo_current_revision_id ord) (m_revisions db) of None \<Rightarrow> validation_error
        | Some revision \<Rightarrow>
          if fo_stay_type ord \<noteq> ''FREE'' \<and> fo_booking_channel_code ord \<in> {None, Some ''WECOM''} \<and> fo_member_contract_id ord = None
             \<and> fr_pricing_basis revision \<notin> {''CHANNEL_CONTRACT'', ''MEMBER_ENTITLEMENT''}
             \<and> (orderId, conversionAmendment) \<notin> set (m_amendments db)
          then Inr \<lparr>eo_order = ord, eo_revision = revision, eo_netMinor = orderNet db orderId, eo_reservedMinor = orderReserved db orderId\<rparr>
          else validation_error))"

text \<open>The effect of a command on retained funds, and the versions its hash covers.\<close>

record retained_effect =
  fe_operation :: string
  fe_orderId :: string
  fe_sourceOrderId :: string
  fe_sourceFactId :: string
  fe_billId :: string
  fe_retainedFundId :: "string option"
  fe_amountMinor :: int
  fe_currency :: string
  fe_ownerName :: string
  fe_ownerContact :: string
  fe_confirmationNote :: "string option"
  fe_remainingBefore :: int
  fe_authorizationNote :: "string option"
  fe_note :: "string option"
  fe_externalPaymentBillId :: "string option"
  fe_refundReference :: "string option"

record retained_basis =
  fb_orderVersion :: int
  fb_orderStatus :: string
  fb_source :: funding_source
  fb_sourceOrderVersion :: "int option"
  fb_retainedFund :: "retained_item option"
  fb_orderNet :: "int option"
  fb_orderReserved :: "int option"

text \<open>A share that came from another order keeps the owner of the lot it was applied from.\<close>

definition assertOwnerKept :: "money_db \<Rightarrow> string \<Rightarrow> fund_fact \<Rightarrow> string \<Rightarrow> string \<Rightarrow> unit result" where
  "assertOwnerKept db propertyId source ownerName ownerContact =
     (if fa_fact_type source \<noteq> REALLOCATION_IN then Inr ()
      else case find (\<lambda>e. re_target_in_fact_id e = Some (fa_fact_id source)
          \<and> list_ex (\<lambda>l. rf_id l = re_retained_fund_id e \<and> rf_property_id l = propertyId) (m_retained db)) (m_entries db) of
        None \<Rightarrow> validation_error
      | Some e \<Rightarrow> (case find (\<lambda>l. rf_id l = re_retained_fund_id e \<and> rf_property_id l = propertyId) (m_retained db) of
          None \<Rightarrow> validation_error
        | Some owner \<Rightarrow> if rf_owner_name owner \<noteq> ownerName \<or> rf_owner_contact owner \<noteq> ownerContact then validation_error else Inr ()))"

definition buildRetain ::
  "money_db \<Rightarrow> string \<Rightarrow> string \<Rightarrow> int \<Rightarrow> eligible_order \<Rightarrow> json_object \<Rightarrow> (retained_effect \<times> retained_basis) result" where
  "buildRetain db propertyId orderId amountMinor ord input =
     (if fo_status (eo_order ord) \<notin> {''CANCELLED'', ''NO_SHOW'', ''CHECKED_OUT''} then throw INVALID_ORDER_STATE 409
      else
        bindR (boundedText input ''sourceFactId'' 2000) (\<lambda>sourceFactId.
        bindR (fundingSource db propertyId sourceFactId) (\<lambda>source.
        case fs_bill_id source of None \<Rightarrow> validation_error
        | Some billId \<Rightarrow>
          if fu_order_id (fs_fact source) \<noteq> orderId \<or> billId = [] \<or> fs_reversed source then validation_error
          else
            bindR (assertNoUnassignedRefund db propertyId billId) (\<lambda>_.
            bindR (boundedText input ''ownerName'' 200) (\<lambda>ownerName.
            bindR (boundedText input ''ownerContact'' 200) (\<lambda>ownerContact.
            bindR (assertOwnerKept db propertyId (fs_fact source) ownerName ownerContact) (\<lambda>_.
            let available = min (fs_remainingMinor source - fs_reservedMinor source)
                  (eo_netMinor ord - fr_contract_amount (eo_revision ord) - eo_reservedMinor ord) in
            if amountMinor > available then validation_error
            else
              bindR (boundedText input ''confirmationNote'' 2000) (\<lambda>confirmationNote.
              Inr (\<lparr>fe_operation = ''RETAIN_ORDER_FUNDS'', fe_orderId = orderId, fe_sourceOrderId = orderId,
                 fe_sourceFactId = fa_fact_id (fs_fact source), fe_billId = billId, fe_retainedFundId = None, fe_amountMinor = amountMinor,
                 fe_currency = fa_currency (fs_fact source), fe_ownerName = ownerName, fe_ownerContact = ownerContact,
                 fe_confirmationNote = Some confirmationNote, fe_remainingBefore = available, fe_authorizationNote = None, fe_note = None,
                 fe_externalPaymentBillId = None, fe_refundReference = None\<rparr>,
                \<lparr>fb_orderVersion = fo_version (eo_order ord), fb_orderStatus = fo_status (eo_order ord), fb_source = source,
                 fb_sourceOrderVersion = None, fb_retainedFund = None, fb_orderNet = Some (eo_netMinor ord),
                 fb_orderReserved = Some (eo_reservedMinor ord)\<rparr>)))))))))"

definition lotQuery :: "string \<Rightarrow> retained_query" where
  "lotQuery retainedFundId = \<lparr>rq_query = None, rq_orderId = None, rq_all = True, rq_limit = None, rq_beforeId = None,
     rq_retainedFundId = Some retainedFundId\<rparr>"

text \<open>The part that differs between the three commands on a lot: its guards, and the fields it adds to the effect.\<close>

definition buildLotCommand ::
  "money_db \<Rightarrow> string \<Rightarrow> string \<Rightarrow> string \<Rightarrow> eligible_order \<Rightarrow> retained_row \<Rightarrow> json_object \<Rightarrow> retained_effect
     \<Rightarrow> (retained_effect \<times> fund_order) result" where
  "buildLotCommand db propertyId command orderId ord lot input effect =
     (if command = ''APPLY_RETAINED_FUNDS'' then
        (if orderId = rf_source_order_id lot \<or> fo_status (eo_order ord) \<notin> {''RESERVED'', ''CHECKED_IN'', ''CHECKED_OUT''}
         then throw INVALID_ORDER_STATE 409
         else
           bindR (eligibleOrder db propertyId (rf_source_order_id lot)) (\<lambda>sourceOrder.
           bindR (boundedText input ''authorizationNote'' 2000) (\<lambda>authorizationNote.
           bindR (assertNoUnassignedRefund db propertyId (rf_bill_id lot)) (\<lambda>_.
             Inr (effect\<lparr>fe_authorizationNote := Some authorizationNote\<rparr>, eo_order sourceOrder)))))
      else if orderId \<noteq> rf_source_order_id lot then validation_error
      else
        bindR (boundedText input ''note'' 2000) (\<lambda>note.
        if command = ''REFUND_RETAINED_FUNDS'' then
          bindR (boundedText input ''externalPaymentBillId'' 2000) (\<lambda>externalBill.
          bindR (boundedText input ''refundReference'' 200) (\<lambda>refundReference.
            Inr (effect\<lparr>fe_note := Some note, fe_externalPaymentBillId := Some externalBill, fe_refundReference := Some refundReference\<rparr>,
              eo_order ord)))
        else
          bindR (assertNoUnassignedRefund db propertyId (rf_bill_id lot)) (\<lambda>_.
            Inr (effect\<lparr>fe_note := Some note\<rparr>, eo_order ord))))"

definition buildFromLot ::
  "(string \<Rightarrow> string \<Rightarrow> bool) \<Rightarrow> money_db \<Rightarrow> string \<Rightarrow> string \<Rightarrow> string \<Rightarrow> int \<Rightarrow> eligible_order \<Rightarrow> json_object
     \<Rightarrow> (retained_effect \<times> retained_basis) result" where
  "buildFromLot like db propertyId command orderId amountMinor ord input =
     bindR (boundedText input ''retainedFundId'' 2000) (\<lambda>retainedFundId.
     case fst (listRetainedFunds like db propertyId (lotQuery retainedFundId)) of [] \<Rightarrow> throw NOT_FOUND 404
     | item # _ \<Rightarrow>
       let lot = ri_row item in
       if amountMinor > ri_remainingMinor item then validation_error
       else
         bindR (fundingSource db propertyId (rf_source_fact_id lot)) (\<lambda>source.
         if fs_reversed source \<or> amountMinor > fs_remainingMinor source then throw AGGREGATE_VERSION_CONFLICT 409
         else
           bindR (buildLotCommand db propertyId command orderId ord lot input
             \<lparr>fe_operation = command, fe_orderId = orderId, fe_sourceOrderId = rf_source_order_id lot,
              fe_sourceFactId = rf_source_fact_id lot, fe_billId = rf_bill_id lot, fe_retainedFundId = Some retainedFundId,
              fe_amountMinor = amountMinor, fe_currency = fa_currency (fs_fact source), fe_ownerName = rf_owner_name lot,
              fe_ownerContact = rf_owner_contact lot, fe_confirmationNote = None, fe_remainingBefore = ri_remainingMinor item,
              fe_authorizationNote = None, fe_note = None, fe_externalPaymentBillId = None, fe_refundReference = None\<rparr>)
             (\<lambda>(effect, sourceOrder).
             Inr (effect, \<lparr>fb_orderVersion = fo_version (eo_order ord), fb_orderStatus = fo_status (eo_order ord), fb_source = source,
               fb_sourceOrderVersion = Some (fo_version sourceOrder), fb_retainedFund = Some item, fb_orderNet = None,
               fb_orderReserved = None\<rparr>))))"

definition buildRetainedFundsEffect ::
  "bool \<Rightarrow> (string \<Rightarrow> string \<Rightarrow> bool) \<Rightarrow> money_db \<Rightarrow> string \<Rightarrow> json_object \<Rightarrow> (retained_effect \<times> retained_basis) result" where
  "buildRetainedFundsEffect enabled like db command input =
     (if \<not> enabled then validation_error
      else
        bindR (boundedText input ''propertyId'' 2000) (\<lambda>propertyId.
        bindR (boundedText input ''orderId'' 2000) (\<lambda>orderId.
        bindR (positiveAmount input) (\<lambda>amountMinor.
        bindR (eligibleOrder db propertyId orderId) (\<lambda>ord.
        if command = ''RETAIN_ORDER_FUNDS'' then buildRetain db propertyId orderId amountMinor ord input
        else buildFromLot like db propertyId command orderId amountMinor ord input)))))"

section \<open>Applying a command on retained funds\<close>

record fund_ids =
  fi_retained :: string
  fi_entry :: string
  fi_out :: string
  fi_in :: string
  fi_refund :: string

definition orderRow :: "money_db \<Rightarrow> string \<Rightarrow> fund_order option" where
  "orderRow db orderId = find (\<lambda>r. fo_id r = orderId) (m_orders db)"

text \<open>INSERT ... SELECT: one row when the order exists, none otherwise.\<close>

definition insertFact ::
  "retained_effect \<Rightarrow> string \<Rightarrow> string \<Rightarrow> string \<Rightarrow> fact_type \<Rightarrow> string \<Rightarrow> string \<Rightarrow> money_db \<Rightarrow> money_db" where
  "insertFact effect commandId i target kind externalBillId note db =
     (case orderRow db target of None \<Rightarrow> db
      | Some ord \<Rightarrow> db\<lparr>m_facts := m_facts db @ [\<lparr>fa_fact_id = i, fa_currency = fe_currency effect, fa_amount_minor = fe_amountMinor effect,
          fa_net_effect_minor = (if kind = REALLOCATION_IN then fe_amountMinor effect else - fe_amountMinor effect),
          fa_pricing_revision_id = fo_current_revision_id ord, fa_fact_type = kind, fa_references_fact_id = Some (fe_sourceFactId effect),
          fa_reverses_fact_id = None, fu_order_id = target, fu_method = ''WECOM'', fu_note = note, fu_transaction_reference = None,
          fu_refund_reference = (if kind = REFUND then fe_refundReference effect else None), fu_bill_id = Some externalBillId,
          fu_command_id = commandId\<rparr>]\<rparr>)"

definition textOf :: "string option \<Rightarrow> string" where
  "textOf v = (case v of Some s \<Rightarrow> s | None \<Rightarrow> ''undefined'')"

definition insertRetained :: "retained_effect \<Rightarrow> string \<Rightarrow> string \<Rightarrow> int \<Rightarrow> money_db \<Rightarrow> money_db" where
  "insertRetained effect commandId i now db =
     (case orderRow db (fe_orderId effect) of None \<Rightarrow> db
      | Some ord \<Rightarrow> db\<lparr>m_retained := m_retained db @ [\<lparr>rf_id = i, rf_property_id = fo_property_id ord,
          rf_source_order_id = fe_sourceOrderId effect, rf_source_fact_id = fe_sourceFactId effect, rf_bill_id = fe_billId effect,
          rf_owner_name = fe_ownerName effect, rf_owner_contact = fe_ownerContact effect,
          rf_confirmation_note = textOf (fe_confirmationNote effect), rf_amount_minor = fe_amountMinor effect, rf_command_id = commandId,
          rf_created_at = now\<rparr>]\<rparr>)"

definition insertEntry ::
  "retained_effect \<Rightarrow> string \<Rightarrow> string \<Rightarrow> entry_kind \<Rightarrow> string option \<Rightarrow> string option \<Rightarrow> string option \<Rightarrow> money_db \<Rightarrow> money_db" where
  "insertEntry effect commandId i kind outId inId refundId db =
     db\<lparr>m_entries := m_entries db @ [\<lparr>re_id = i, re_retained_fund_id = textOf (fe_retainedFundId effect), re_kind = kind,
       re_amount_minor = fe_amountMinor effect, re_target_order_id = (if kind = USE_ENTRY then Some (fe_orderId effect) else None),
       re_source_out_fact_id = outId, re_target_in_fact_id = inId, re_refund_fact_id = refundId,
       re_authorization_note = textOf (case fe_authorizationNote effect of Some n \<Rightarrow> Some n | None \<Rightarrow> fe_note effect),
       re_command_id = commandId\<rparr>]\<rparr>"

record retained_result =
  rr_operation :: string
  rr_orderId :: string
  rr_retainedFundId :: string
  rr_amountMinor :: int
  rr_remainingMinor :: int
  rr_factId :: "string option"
  rr_resourceRefs :: "string list"
  rr_factRefs :: "string list"

definition applyRetainedFundsCommand ::
  "string \<Rightarrow> retained_effect \<Rightarrow> string \<Rightarrow> fund_ids \<Rightarrow> int \<Rightarrow> money_db \<Rightarrow> retained_result \<times> money_db" where
  "applyRetainedFundsCommand command effect commandId ids now db =
     (let orderId = fe_orderId effect; amountMinor = fe_amountMinor effect in
      if command = ''RETAIN_ORDER_FUNDS'' then
        (\<lparr>rr_operation = command, rr_orderId = orderId, rr_retainedFundId = fi_retained ids, rr_amountMinor = amountMinor,
          rr_remainingMinor = amountMinor, rr_factId = None, rr_resourceRefs = [orderId, fi_retained ids], rr_factRefs = []\<rparr>,
         insertRetained effect commandId (fi_retained ids) now db)
      else
        let retainedFundId = textOf (fe_retainedFundId effect); sourceOrderId = fe_sourceOrderId effect;
            result = (\<lambda>factId factRefs. \<lparr>rr_operation = command, rr_orderId = orderId, rr_retainedFundId = retainedFundId,
              rr_amountMinor = amountMinor, rr_remainingMinor = fe_remainingBefore effect - amountMinor, rr_factId = factId,
              rr_resourceRefs = [orderId, sourceOrderId, retainedFundId], rr_factRefs = factRefs\<rparr>) in
        if command = ''APPLY_RETAINED_FUNDS'' then
          (result (Some (fi_in ids)) [fi_out ids, fi_in ids],
           insertEntry effect commandId (fi_entry ids) USE_ENTRY (Some (fi_out ids)) (Some (fi_in ids)) None
             (insertFact effect commandId (fi_in ids) orderId REALLOCATION_IN (fe_billId effect) (textOf (fe_authorizationNote effect))
               (insertFact effect commandId (fi_out ids) sourceOrderId REALLOCATION_OUT (fe_billId effect)
                 (textOf (fe_authorizationNote effect)) db)))
        else if command = ''REFUND_RETAINED_FUNDS'' then
          (result (Some (fi_refund ids)) [fi_refund ids],
           insertEntry effect commandId (fi_entry ids) REFUND_ENTRY None None (Some (fi_refund ids))
             (insertFact effect commandId (fi_refund ids) sourceOrderId REFUND (textOf (fe_externalPaymentBillId effect))
               (textOf (fe_note effect)) db))
        else
          (result None [], insertEntry effect commandId (fi_entry ids) RELEASE_ENTRY None None None db))"

section \<open>Collections, refunds and reversals\<close>

definition operatorCollectionMethods :: "string list" where
  "operatorCollectionMethods = [''WECOM'', ''BANK_TRANSFER'', ''CASH'', ''OTHER'']"

definition requireCollectionMethod :: "json_object \<Rightarrow> string result" where
  "requireCollectionMethod input =
     bindR (requireString input ''method'') (\<lambda>method.
       if method \<notin> set operatorCollectionMethods then validation_error else Inr method)"

text \<open>The trimmed text of a member, or the empty text when it is no text.\<close>

definition rawText :: "json_object \<Rightarrow> string \<Rightarrow> string" where
  "rawText input field = (case strOf (prop_of input field) of Some s \<Rightarrow> trim s | None \<Rightarrow> [])"

definition fundsTransactionAndNote :: "json_object \<Rightarrow> string \<Rightarrow> bool \<Rightarrow> (string option \<times> string \<times> string option) result" where
  "fundsTransactionAndNote input method isRefund =
     bindR (optionalString input ''note'') (\<lambda>noteText.
     let rawReference = rawText input ''transactionReference'';
         note = (case noteText of Some s \<Rightarrow> s | None \<Rightarrow> []);
         referenceRequired = (method = ''BANK_TRANSFER'' \<or> \<not> isRefund \<and> method = ''WECOM'');
         refundReference = rawText input ''refundReference'' in
     if rawReference \<noteq> [] \<and> (method = ''CASH'' \<or> method = ''OTHER'' \<or> isRefund \<and> method = ''WECOM'') then validation_error
     else if referenceRequired \<and> rawReference = [] then validation_error
     else if isRefund \<and> note = [] then validation_error
     else if isRefund \<and> method = ''WECOM'' \<and> (refundReference = [] \<or> 200 < length refundReference) then validation_error
     else if prop_of input ''refundReference'' \<noteq> JUndefined \<and> (\<not> isRefund \<or> method \<noteq> ''WECOM'') then validation_error
     else if \<not> isRefund \<and> \<not> referenceRequired \<and> note = [] then validation_error
     else Inr (if rawReference = [] then None else Some rawReference, note, if refundReference = [] then None else Some refundReference))"

definition assertOperatorFundsAllowedForOrder :: "fund_order \<Rightarrow> unit result" where
  "assertOperatorFundsAllowedForOrder ord =
     (case fo_booking_channel_code ord of None \<Rightarrow> Inr ()
      | Some c \<Rightarrow> if c \<in> set externalChannelCodes then validation_error else Inr ())"

definition assertLodgingFundsOpenForOrder :: "money_db \<Rightarrow> string \<Rightarrow> unit result" where
  "assertLodgingFundsOpenForOrder db orderId =
     (if (orderId, conversionAmendment) \<in> set (m_amendments db) then throw AGGREGATE_VERSION_CONFLICT 409 else Inr ())"

definition activeRefundedAmount :: "money_db \<Rightarrow> string \<Rightarrow> int" where
  "activeRefundedAmount db collectionFactId =
     dsum (map fa_amount_minor (filter (\<lambda>r. \<not> factReversed (m_facts db) (fa_fact_id r))
       (filter (\<lambda>r. fa_references_fact_id r = Some collectionFactId \<and> fa_fact_type r = REFUND) (m_facts db))))"

record funds_effect =
  fn_orderId :: string
  fn_amountMinor :: int
  fn_netEffectMinor :: int
  fn_currency :: string
  fn_referencesFactId :: "string option"
  fn_reversesFactId :: "string option"
  fn_method :: "string option"
  fn_transactionReference :: "string option"
  fn_refundReference :: "string option"
  fn_note :: string
  fn_externalPaymentBillId :: "string option"
  fn_releaseAllocationId :: "string option"

definition externalBill :: "json_object \<Rightarrow> string option result" where
  "externalBill input =
     (if jsTruthy (prop_of input ''externalPaymentBillId'')
      then bindR (requireString input ''externalPaymentBillId'') (\<lambda>b. Inr (Some b)) else Inr None)"

definition buildRecordCollection :: "money_db \<Rightarrow> fund_order \<Rightarrow> fund_revision \<Rightarrow> json_object \<Rightarrow> funds_effect result" where
  "buildRecordCollection db ord revision input =
     bindR (assertOperatorFundsAllowedForOrder ord) (\<lambda>_.
     bindR (assertLodgingFundsOpenForOrder db (fo_id ord)) (\<lambda>_.
     bindR (requireInteger input ''amountMinor'' (Some 1) True) (\<lambda>amountMinor.
     bindR (requireCollectionMethod input) (\<lambda>method.
     bindR (fundsTransactionAndNote input method False) (\<lambda>(transactionReference, note, _).
     if fo_status ord \<notin> {''RESERVED'', ''CHECKED_IN'', ''CHECKED_OUT''} then throw INVALID_ORDER_STATE 409
     else
       bindR (externalBill input) (\<lambda>bill.
       Inr \<lparr>fn_orderId = fo_id ord, fn_amountMinor = amountMinor, fn_netEffectMinor = amountMinor, fn_currency = fr_currency revision,
         fn_referencesFactId = None, fn_reversesFactId = None, fn_method = Some method, fn_transactionReference = transactionReference,
         fn_refundReference = None, fn_note = note, fn_externalPaymentBillId = bill, fn_releaseAllocationId = None\<rparr>))))))"

definition refundReferenceRecorded :: "money_db \<Rightarrow> string \<Rightarrow> string \<Rightarrow> bool" where
  "refundReferenceRecorded db propertyId reference =
     list_ex (\<lambda>f. fu_refund_reference f = Some reference \<and> propertyOrder db propertyId (fu_order_id f) \<noteq> None) (m_facts db)"

text \<open>What a refund may reference, and how much of it.\<close>

definition refundOriginal :: "money_db \<Rightarrow> string \<Rightarrow> string \<Rightarrow> string \<Rightarrow> string \<Rightarrow> int \<Rightarrow> fund_fact result" where
  "refundOriginal db propertyId orderId referencesFactId method amountMinor =
     (case propertyFact db propertyId referencesFactId of None \<Rightarrow> throw NOT_FOUND 404
      | Some original \<Rightarrow>
        if fu_order_id original \<noteq> orderId then throw CROSS_ORDER_FACT_REFERENCE 409
        else if \<not> isShare original then validation_error
        else if (fu_method original = ''WECOM'') \<noteq> (method = ''WECOM'') then validation_error
        else if factReversed (m_facts db) referencesFactId then throw FACT_ALREADY_REVERSED 409
        else
          bindR (fundingSource db propertyId referencesFactId) (\<lambda>funding.
          if amountMinor > fs_remainingMinor funding - fs_reservedMinor funding then throw REFUND_LIMIT_EXCEEDED 409
          else Inr original))"

definition buildRecordRefund :: "money_db \<Rightarrow> string \<Rightarrow> fund_order \<Rightarrow> json_object \<Rightarrow> funds_effect result" where
  "buildRecordRefund db propertyId ord input =
     (if prop_of input ''businessDate'' \<noteq> JUndefined then validation_error
      else
        bindR (assertOperatorFundsAllowedForOrder ord) (\<lambda>_.
        bindR (assertLodgingFundsOpenForOrder db (fo_id ord)) (\<lambda>_.
        bindR (requireInteger input ''amountMinor'' (Some 1) True) (\<lambda>amountMinor.
        bindR (requireString input ''referencesFactId'') (\<lambda>referencesFactId.
        bindR (requireCollectionMethod input) (\<lambda>method.
        bindR (fundsTransactionAndNote input method True) (\<lambda>(transactionReference, note, refundReference).
        if refundReference \<noteq> None \<and> \<not> jsTruthy (prop_of input ''externalPaymentBillId'')
           \<and> refundReferenceRecorded db propertyId (the refundReference)
        then throw AGGREGATE_VERSION_CONFLICT 409
        else
          bindR (refundOriginal db propertyId (fo_id ord) referencesFactId method amountMinor) (\<lambda>original.
          bindR (externalBill input) (\<lambda>bill.
          Inr \<lparr>fn_orderId = fo_id ord, fn_amountMinor = amountMinor, fn_netEffectMinor = - amountMinor,
            fn_currency = fa_currency original, fn_referencesFactId = Some referencesFactId, fn_reversesFactId = None,
            fn_method = Some method, fn_transactionReference = transactionReference, fn_refundReference = refundReference,
            fn_note = note, fn_externalPaymentBillId = bill, fn_releaseAllocationId = None\<rparr>)))))))))"

text \<open>The allocation that a reversal releases, when it asks for it.\<close>

definition releasedAllocation :: "bool \<Rightarrow> money_db \<Rightarrow> string \<Rightarrow> fund_fact \<Rightarrow> json_object \<Rightarrow> string option result" where
  "releasedAllocation enabled db propertyId original input =
     (if prop_of input ''releaseExternalPaymentAllocation'' \<noteq> JBool True then Inr None
      else if \<not> enabled then validation_error
      else if fa_fact_type original \<notin> {COLLECTION, REFUND} then validation_error
      else case find (\<lambda>a. al_collection_fact_id a = fa_fact_id original
          \<and> \<not> list_ex (\<lambda>x. rl_allocation_id x = al_id a) (m_releases db)) (m_allocations db) of
        None \<Rightarrow> validation_error
      | Some allocation \<Rightarrow>
          bindR (if fa_fact_type original = COLLECTION then assertNoUnassignedRefund db propertyId (al_bill_id allocation) else Inr ())
            (\<lambda>_. Inr (Some (al_id allocation))))"

definition reversible :: "money_db \<Rightarrow> string \<Rightarrow> string \<Rightarrow> string \<Rightarrow> json_object \<Rightarrow> fund_fact result" where
  "reversible db propertyId orderId reversesFactId input =
     (case propertyFact db propertyId reversesFactId of None \<Rightarrow> throw NOT_FOUND 404
      | Some original \<Rightarrow>
        if fu_order_id original \<noteq> orderId then throw CROSS_ORDER_FACT_REFERENCE 409
        else if fa_fact_type original \<in> {REVERSAL, REALLOCATION_IN, REALLOCATION_OUT} then validation_error
        else
          bindR (if fa_fact_type original = COLLECTION
                 then bindR (fundingSource db propertyId reversesFactId) (\<lambda>funding.
                   if fs_reservedMinor funding > 0 \<or> fs_transferredMinor funding > 0 then validation_error else Inr ())
                 else Inr ()) (\<lambda>_.
          if list_ex (\<lambda>e. re_refund_fact_id e = Some reversesFactId) (m_entries db) then validation_error
          else if fa_fact_type original = REFUND \<and> prop_of input ''releaseExternalPaymentAllocation'' \<noteq> JBool True
             \<and> list_ex (\<lambda>a. al_collection_fact_id a = reversesFactId) (m_allocations db)
          then validation_error
          else Inr original))"

definition buildReverseFact :: "bool \<Rightarrow> money_db \<Rightarrow> string \<Rightarrow> fund_order \<Rightarrow> json_object \<Rightarrow> funds_effect result" where
  "buildReverseFact enabled db propertyId ord input =
     bindR (assertLodgingFundsOpenForOrder db (fo_id ord)) (\<lambda>_.
     bindR (requireString input ''reversesFactId'') (\<lambda>reversesFactId.
     bindR (reversible db propertyId (fo_id ord) reversesFactId input) (\<lambda>original.
     bindR (releasedAllocation enabled db propertyId original input) (\<lambda>release.
     if factReversed (m_facts db) reversesFactId then throw FACT_ALREADY_REVERSED 409
     else
       let activeRefunded = (if fa_fact_type original = COLLECTION then activeRefundedAmount db reversesFactId else 0) in
       if activeRefunded > 0 then throw REFUND_LIMIT_EXCEEDED 409
       else
         bindR (requireString input ''note'') (\<lambda>note.
         Inr \<lparr>fn_orderId = fo_id ord, fn_amountMinor = fa_amount_minor original, fn_netEffectMinor = - fa_net_effect_minor original,
           fn_currency = fa_currency original, fn_referencesFactId = None, fn_reversesFactId = Some reversesFactId, fn_method = None,
           fn_transactionReference = None, fn_refundReference = None, fn_note = note, fn_externalPaymentBillId = None,
           fn_releaseAllocationId = release\<rparr>)))))"

text \<open>The insertion: the type follows the command, a released allocation is recorded beside the fact.\<close>

definition applyOrderFunds ::
  "string \<Rightarrow> funds_effect \<Rightarrow> fund_revision \<Rightarrow> string \<Rightarrow> string \<Rightarrow> string \<Rightarrow> money_db \<Rightarrow> money_db" where
  "applyOrderFunds command effect revision commandId factId releaseId db =
     (let factType = (if command = ''RECORD_COLLECTION'' then COLLECTION else if command = ''RECORD_REFUND'' then REFUND else REVERSAL);
          transactionReference = (if factType = REVERSAL then None else normalizedOptionalText (fn_transactionReference effect));
          db1 = db\<lparr>m_facts := m_facts db @ [\<lparr>fa_fact_id = factId, fa_currency = fn_currency effect, fa_amount_minor = fn_amountMinor effect,
            fa_net_effect_minor = (if factType = COLLECTION then fn_amountMinor effect
              else if factType = REFUND then - fn_amountMinor effect else fn_netEffectMinor effect),
            fa_pricing_revision_id = Some (fr_id revision), fa_fact_type = factType, fa_references_fact_id = fn_referencesFactId effect,
            fa_reverses_fact_id = fn_reversesFactId effect, fu_order_id = fn_orderId effect,
            fu_method = (case fn_method effect of Some m \<Rightarrow> m | None \<Rightarrow> ''REVERSAL''), fu_note = fn_note effect,
            fu_transaction_reference = transactionReference,
            fu_refund_reference = (if factType = REFUND then fn_refundReference effect else None),
            fu_bill_id = fn_externalPaymentBillId effect, fu_command_id = commandId\<rparr>]\<rparr> in
      case fn_releaseAllocationId effect of None \<Rightarrow> db1
      | Some allocationId \<Rightarrow> db1\<lparr>m_releases := m_releases db1
          @ [\<lparr>rl_id = releaseId, rl_allocation_id = allocationId, rl_reversal_fact_id = factId\<rparr>]\<rparr>)"

end
