(* ===== verification/FundsSafety.thy ===== *)
theory FundsSafety
  imports OrderFunds
begin

text \<open>
  The money of stays is spent once: over every sequence of collections, refunds, reversals and commands on
  retained funds, what was refunded, transferred and reserved of a collection never exceeds it. The steps are
  the commands of OrderFunds; other modules may change every other table and add collections.
\<close>

section \<open>The effect of one more row\<close>

lemma factReversed_snoc: "factReversed (fs @ [f]) x \<longleftrightarrow> factReversed fs x \<or> fa_reverses_fact_id f = Some x"
  by (auto simp: factReversed_def)

lemma refundedMinor_nonneg: "\<forall>f\<in>set fs. 0 < fa_amount_minor f \<Longrightarrow> 0 \<le> refundedMinor fs x"
  unfolding refundedMinor_def by (rule sum_list_nonneg) (auto intro: less_imp_le)

lemma transferredMinor_nonneg: "\<forall>f\<in>set fs. 0 < fa_amount_minor f \<Longrightarrow> 0 \<le> transferredMinor fs x"
  unfolding transferredMinor_def by (rule sum_list_nonneg) (auto intro: less_imp_le)

lemma refundedMinor_snoc:
  assumes "fa_reverses_fact_id f = None" "\<not> factReversed fs (fa_fact_id f)"
  shows "refundedMinor (fs @ [f]) x = refundedMinor fs x
    + (if fa_references_fact_id f = Some x \<and> fa_fact_type f = REFUND then fa_amount_minor f else 0)"
  using assms by (simp add: refundedMinor_def factReversed_snoc)

lemma sum_filter_mono:
  fixes g :: "'a \<Rightarrow> int"
  assumes "\<And>x. x \<in> set xs \<Longrightarrow> P x \<Longrightarrow> Q x" "\<And>x. x \<in> set xs \<Longrightarrow> 0 \<le> g x"
  shows "sum_list (map g (filter P xs)) \<le> sum_list (map g (filter Q xs))"
  using assms by (induction xs) (auto intro: add_increasing add_mono)

lemma refundedMinor_reversal:
  assumes "fa_fact_type f \<noteq> REFUND" "\<forall>f\<in>set fs. 0 < fa_amount_minor f"
  shows "refundedMinor (fs @ [f]) x \<le> refundedMinor fs x"
proof -
  have "refundedMinor (fs @ [f]) x = sum_list (map fa_amount_minor (filter (\<lambda>r. fa_references_fact_id r = Some x \<and> fa_fact_type r = REFUND
      \<and> \<not> factReversed (fs @ [f]) (fa_fact_id r)) fs))"
    using assms(1) by (simp add: refundedMinor_def)
  also have "\<dots> \<le> refundedMinor fs x"
    unfolding refundedMinor_def using assms(2) by (intro sum_filter_mono) (auto simp: factReversed_snoc intro: less_imp_le)
  finally show ?thesis .
qed

lemma transferredMinor_snoc:
  "transferredMinor (fs @ [f]) x = transferredMinor fs x
     + (if fa_references_fact_id f = Some x \<and> fa_fact_type f = REALLOCATION_OUT then fa_amount_minor f else 0)"
  by (simp add: transferredMinor_def)

lemma usedOfLot_snoc: "usedOfLot (es @ [e]) l = usedOfLot es l + (if re_retained_fund_id e = l then re_amount_minor e else 0)"
  by (simp add: usedOfLot_def)

definition reservedOf :: "retained_row list \<Rightarrow> retained_entry list \<Rightarrow> string \<Rightarrow> int" where
  "reservedOf rows es x = sum_list (map (lotRemaining es) (filter (\<lambda>l. rf_source_fact_id l = x) rows))"

lemma reservedMinor_of: "reservedMinor db x = reservedOf (m_retained db) (m_entries db) x"
  by (simp add: reservedMinor_def reservedOf_def)

lemma reservedOf_lot:
  "reservedOf (rows @ [l]) es x = reservedOf rows es x + (if rf_source_fact_id l = x then lotRemaining es l else 0)"
  by (simp add: reservedOf_def)

lemma reservedOf_entry:
  assumes "distinct (map rf_id rows)" "l \<in> set rows" "re_retained_fund_id e = rf_id l"
  shows "reservedOf rows (es @ [e]) x = reservedOf rows es x - (if rf_source_fact_id l = x then re_amount_minor e else 0)"
proof (cases "rf_source_fact_id l = x")
  case True
  have "reservedOf rows (es @ [e]) x = sum_list (map (\<lambda>k. lotRemaining es k - (if rf_id k = rf_id l then re_amount_minor e else 0))
      (filter (\<lambda>l. rf_source_fact_id l = x) rows))"
    unfolding reservedOf_def using assms(3)
    by (intro arg_cong [where f = sum_list] map_cong) (auto simp: lotRemaining_def usedOfLot_snoc)
  also have "\<dots> = reservedOf rows es x - re_amount_minor e"
    unfolding reservedOf_def using assms(1,2) True by (intro sum_shift) (auto simp: distinct_map_filter)
  finally show ?thesis using True by simp
next
  case False
  have "lotRemaining (es @ [e]) k = lotRemaining es k" if "k \<in> set rows" "rf_source_fact_id k = x" for k
  proof -
    have "rf_id k \<noteq> rf_id l" using that False assms(1,2) by (auto simp: distinct_map dest: inj_onD)
    then show ?thesis by (simp add: lotRemaining_def usedOfLot_snoc assms(3))
  qed
  then have "reservedOf rows (es @ [e]) x = reservedOf rows es x"
    unfolding reservedOf_def by (intro arg_cong [where f = sum_list] map_cong) auto
  then show ?thesis using False by simp
qed

section \<open>The invariant\<close>

definition shareFits :: "money_db \<Rightarrow> fund_fact \<Rightarrow> bool" where
  "shareFits db f \<longleftrightarrow>
     (let taken = refundedMinor (m_facts db) (fa_fact_id f) + transferredMinor (m_facts db) (fa_fact_id f)
            + reservedMinor db (fa_fact_id f) in
      taken \<le> (if factReversed (m_facts db) (fa_fact_id f) then 0 else fa_amount_minor f))"

definition moneyInv :: "money_db \<Rightarrow> bool" where
  "moneyInv db \<longleftrightarrow> distinct (map fa_fact_id (m_facts db)) \<and> distinct (map rf_id (m_retained db))
     \<and> (\<forall>f\<in>set (m_facts db). 0 < fa_amount_minor f)
     \<and> (\<forall>f\<in>set (m_facts db). \<forall>x. fa_references_fact_id f = Some x \<or> fa_reverses_fact_id f = Some x \<longrightarrow> x \<in> fa_fact_id ` set (m_facts db))
     \<and> (\<forall>e\<in>set (m_entries db). re_retained_fund_id e \<in> rf_id ` set (m_retained db))
     \<and> (\<forall>l\<in>set (m_retained db). 0 \<le> lotRemaining (m_entries db) l \<and> rf_source_fact_id l \<in> fa_fact_id ` set (m_facts db))
     \<and> (\<forall>f\<in>set (m_facts db). isShare f \<longrightarrow> shareFits db f)"

lemma moneyInvD:
  assumes "moneyInv db"
  shows "distinct (map fa_fact_id (m_facts db))" "distinct (map rf_id (m_retained db))"
    "\<forall>f\<in>set (m_facts db). 0 < fa_amount_minor f"
    "f \<in> set (m_facts db) \<Longrightarrow> fa_references_fact_id f = Some x \<Longrightarrow> x \<in> fa_fact_id ` set (m_facts db)"
    "f \<in> set (m_facts db) \<Longrightarrow> fa_reverses_fact_id f = Some x \<Longrightarrow> x \<in> fa_fact_id ` set (m_facts db)"
    "e \<in> set (m_entries db) \<Longrightarrow> re_retained_fund_id e \<in> rf_id ` set (m_retained db)"
    "l \<in> set (m_retained db) \<Longrightarrow> 0 \<le> lotRemaining (m_entries db) l"
    "l \<in> set (m_retained db) \<Longrightarrow> rf_source_fact_id l \<in> fa_fact_id ` set (m_facts db)"
    "f \<in> set (m_facts db) \<Longrightarrow> isShare f \<Longrightarrow> shareFits db f"
  using assms unfolding moneyInv_def by blast+

lemma moneyInvI:
  assumes "distinct (map fa_fact_id (m_facts db))" "distinct (map rf_id (m_retained db))"
    "\<And>f. f \<in> set (m_facts db) \<Longrightarrow> 0 < fa_amount_minor f"
    "\<And>f x. f \<in> set (m_facts db) \<Longrightarrow> fa_references_fact_id f = Some x \<or> fa_reverses_fact_id f = Some x \<Longrightarrow> x \<in> fa_fact_id ` set (m_facts db)"
    "\<And>e. e \<in> set (m_entries db) \<Longrightarrow> re_retained_fund_id e \<in> rf_id ` set (m_retained db)"
    "\<And>l. l \<in> set (m_retained db) \<Longrightarrow> 0 \<le> lotRemaining (m_entries db) l \<and> rf_source_fact_id l \<in> fa_fact_id ` set (m_facts db)"
    "\<And>f. f \<in> set (m_facts db) \<Longrightarrow> isShare f \<Longrightarrow> shareFits db f"
  shows "moneyInv db"
  unfolding moneyInv_def using assms by blast

lemma reserved_nonneg: "moneyInv db \<Longrightarrow> 0 \<le> reservedMinor db x"
  unfolding reservedMinor_def by (rule sum_list_nonneg) (auto dest: moneyInvD(7))

text \<open>Nothing refers to an identifier that no fact has.\<close>

lemma unreferenced:
  assumes "\<And>f. f \<in> set fs \<Longrightarrow> fa_references_fact_id f \<noteq> Some x"
  shows "refundedMinor fs x = 0" "transferredMinor fs x = 0"
proof -
  have "filter (\<lambda>r. fa_references_fact_id r = Some x \<and> fa_fact_type r = REFUND \<and> \<not> factReversed fs (fa_fact_id r)) fs = []"
    "filter (\<lambda>r. fa_references_fact_id r = Some x \<and> fa_fact_type r = REALLOCATION_OUT) fs = []"
    using assms by (auto simp: filter_empty_conv)
  then show "refundedMinor fs x = 0" "transferredMinor fs x = 0" by (simp_all add: refundedMinor_def transferredMinor_def)
qed

lemma fresh_fact:
  assumes "moneyInv db" "x \<notin> fa_fact_id ` set (m_facts db)"
  shows "f \<in> set (m_facts db) \<Longrightarrow> fa_references_fact_id f \<noteq> Some x" "\<not> factReversed (m_facts db) x" "reservedMinor db x = 0"
proof -
  show "f \<in> set (m_facts db) \<Longrightarrow> fa_references_fact_id f \<noteq> Some x" using moneyInvD(4) [OF assms(1)] assms(2) by blast
  show "\<not> factReversed (m_facts db) x"
    using moneyInvD(5) [OF assms(1)] assms(2) by (auto simp: factReversed_def list_ex_iff)
  have "filter (\<lambda>l. rf_source_fact_id l = x) (m_retained db) = []"
    using moneyInvD(8) [OF assms(1)] assms(2) by (auto simp: filter_empty_conv)
  then show "reservedMinor db x = 0" by (simp add: reservedMinor_def)
qed

section \<open>What the builders have checked\<close>

definition taken :: "money_db \<Rightarrow> string \<Rightarrow> int" where
  "taken db x = refundedMinor (m_facts db) x + transferredMinor (m_facts db) x + reservedMinor db x"

lemma shareFits_iff: "shareFits db f \<longleftrightarrow> taken db (fa_fact_id f) \<le> (if factReversed (m_facts db) (fa_fact_id f) then 0 else fa_amount_minor f)"
  by (simp add: shareFits_def taken_def Let_def)

lemma propertyFact_Some:
  "propertyFact db p x = Some f \<Longrightarrow> f \<in> set (m_facts db) \<and> fa_fact_id f = x"
  by (auto simp: propertyFact_def find_Some_iff)

lemma fundingSource_Inr:
  assumes "fundingSource db p x = Inr s"
  shows "fs_fact s \<in> set (m_facts db) \<and> fa_fact_id (fs_fact s) = x \<and> isShare (fs_fact s)
    \<and> fs_reversed s = factReversed (m_facts db) x \<and> fs_transferredMinor s = transferredMinor (m_facts db) x
    \<and> fs_reservedMinor s = reservedMinor db x
    \<and> fs_remainingMinor s = (if factReversed (m_facts db) x then 0
        else fa_amount_minor (fs_fact s) - refundedMinor (m_facts db) x - transferredMinor (m_facts db) x)"
  using assms by (auto simp: fundingSource_def Let_def dest: propertyFact_Some split: option.splits if_splits)

lemma fundingSource_room:
  assumes "moneyInv db" "fundingSource db p x = Inr s" "a \<le> fs_remainingMinor s - fs_reservedMinor s" "0 < a"
  shows "\<not> factReversed (m_facts db) x \<and> taken db x + a \<le> fa_amount_minor (fs_fact s)"
  using fundingSource_Inr [OF assms(2)] reserved_nonneg [OF assms(1), of x] assms(3,4) by (auto simp: taken_def split: if_splits)

lemma same_share:
  "moneyInv db \<Longrightarrow> f \<in> set (m_facts db) \<Longrightarrow> g \<in> set (m_facts db) \<Longrightarrow> fa_fact_id f = fa_fact_id g \<Longrightarrow> f = g"
  using moneyInvD(1) by (auto simp: distinct_map dest: inj_onD)

lemma listRetained_lot:
  assumes "fst (listRetainedFunds like db p (lotQuery i)) = item # rest"
  shows "ri_row item \<in> set (m_retained db) \<and> rf_id (ri_row item) = i \<and> ri_remainingMinor item = lotRemaining (m_entries db) (ri_row item)"
proof -
  have "item \<in> set (fst (listRetainedFunds like db p (lotQuery i)))" by (simp add: assms)
  then show ?thesis
    by (auto simp: listRetainedFunds_def lotQuery_def Let_def retainedItem_def dest!: in_set_takeD)
qed

lemma propertyOrder_row: "propertyOrder db p x = Some ord \<Longrightarrow> orderRow db x \<noteq> None"
  by (auto simp: propertyOrder_def orderRow_def find_None_iff dest!: find_SomeD)

lemma eligibleOrder_row: "eligibleOrder db p x = Inr ord \<Longrightarrow> orderRow db x \<noteq> None"
  by (rule propertyOrder_row [of db p x "eo_order ord"]) (auto simp: eligibleOrder_def split: option.splits if_splits)

lemma positiveAmount_pos: "positiveAmount input = Inr n \<Longrightarrow> 0 < n"
  by (auto simp: positiveAmount_def split: json.splits if_splits)

lemma buildFromLot_Inr:
  assumes "buildFromLot like db p command orderId amountMinor ord input = Inr (effect, basis)"
  obtains i item rest source effect0 sourceOrder where
    "fst (listRetainedFunds like db p (lotQuery i)) = item # rest" "fundingSource db p (rf_source_fact_id (ri_row item)) = Inr source"
    "amountMinor \<le> ri_remainingMinor item" "\<not> fs_reversed source"
    "buildLotCommand db p command orderId ord (ri_row item) input effect0 = Inr (effect, sourceOrder)"
    "fe_retainedFundId effect0 = Some i" "fe_amountMinor effect0 = amountMinor" "fe_sourceFactId effect0 = rf_source_fact_id (ri_row item)"
    "fe_sourceOrderId effect0 = rf_source_order_id (ri_row item)" "fe_orderId effect0 = orderId"
proof -
  from assms obtain i where i: "(case fst (listRetainedFunds like db p (lotQuery i)) of [] \<Rightarrow> throw NOT_FOUND 404
     | item # _ \<Rightarrow>
       let lot = ri_row item in
       if amountMinor > ri_remainingMinor item then validation_error
       else
         bindR (fundingSource db p (rf_source_fact_id lot)) (\<lambda>source.
         if fs_reversed source \<or> amountMinor > fs_remainingMinor source then throw AGGREGATE_VERSION_CONFLICT 409
         else
           bindR (buildLotCommand db p command orderId ord lot input
             \<lparr>fe_operation = command, fe_orderId = orderId, fe_sourceOrderId = rf_source_order_id lot,
              fe_sourceFactId = rf_source_fact_id lot, fe_billId = rf_bill_id lot, fe_retainedFundId = Some i,
              fe_amountMinor = amountMinor, fe_currency = fa_currency (fs_fact source), fe_ownerName = rf_owner_name lot,
              fe_ownerContact = rf_owner_contact lot, fe_confirmationNote = None, fe_remainingBefore = ri_remainingMinor item,
              fe_authorizationNote = None, fe_note = None, fe_externalPaymentBillId = None, fe_refundReference = None\<rparr>)
             (\<lambda>(effect, sourceOrder).
             Inr (effect, \<lparr>fb_orderVersion = fo_version (eo_order ord), fb_orderStatus = fo_status (eo_order ord), fb_source = source,
               fb_sourceOrderVersion = Some (fo_version sourceOrder), fb_retainedFund = Some item, fb_orderNet = None,
               fb_orderReserved = None\<rparr>)))) = Inr (effect, basis)"
    unfolding buildFromLot_def bindR_eq_Inr by blast
  show thesis
  proof (cases "fst (listRetainedFunds like db p (lotQuery i))")
    case (Cons item rest)
    with i obtain source sourceOrder where "amountMinor \<le> ri_remainingMinor item" "\<not> fs_reversed source"
      "fundingSource db p (rf_source_fact_id (ri_row item)) = Inr source"
      "buildLotCommand db p command orderId ord (ri_row item) input
        \<lparr>fe_operation = command, fe_orderId = orderId, fe_sourceOrderId = rf_source_order_id (ri_row item),
              fe_sourceFactId = rf_source_fact_id (ri_row item), fe_billId = rf_bill_id (ri_row item), fe_retainedFundId = Some i,
              fe_amountMinor = amountMinor, fe_currency = fa_currency (fs_fact source), fe_ownerName = rf_owner_name (ri_row item),
              fe_ownerContact = rf_owner_contact (ri_row item), fe_confirmationNote = None, fe_remainingBefore = ri_remainingMinor item,
              fe_authorizationNote = None, fe_note = None, fe_externalPaymentBillId = None, fe_refundReference = None\<rparr> = Inr (effect, sourceOrder)"
      by (auto simp: Let_def split: if_splits)
    with Cons show thesis by (intro that) auto
  qed (use i in simp)
qed

text \<open>The facts of a retained-funds effect that its application relies on.\<close>

definition lotEffect :: "money_db \<Rightarrow> string \<Rightarrow> retained_effect \<Rightarrow> retained_row \<Rightarrow> bool" where
  "lotEffect db command effect lot \<longleftrightarrow>
     lot \<in> set (m_retained db) \<and> fe_retainedFundId effect = Some (rf_id lot) \<and> fe_amountMinor effect \<le> lotRemaining (m_entries db) lot
     \<and> fe_sourceFactId effect = rf_source_fact_id lot \<and> fe_sourceOrderId effect = rf_source_order_id lot
     \<and> orderRow db (fe_orderId effect) \<noteq> None \<and> orderRow db (fe_sourceOrderId effect) \<noteq> None
     \<and> (if command = ''APPLY_RETAINED_FUNDS'' then fe_orderId effect \<noteq> fe_sourceOrderId effect else fe_orderId effect = fe_sourceOrderId effect)
     \<and> \<not> factReversed (m_facts db) (fe_sourceFactId effect)"

lemma buildLotCommand_Inr:
  assumes "buildLotCommand db p command orderId ord lot input effect = Inr (effect', source)" "orderRow db orderId \<noteq> None"
  shows "fe_retainedFundId effect' = fe_retainedFundId effect \<and> fe_amountMinor effect' = fe_amountMinor effect
    \<and> fe_sourceFactId effect' = fe_sourceFactId effect \<and> fe_sourceOrderId effect' = fe_sourceOrderId effect
    \<and> fe_orderId effect' = fe_orderId effect \<and> orderRow db (rf_source_order_id lot) \<noteq> None
    \<and> (if command = ''APPLY_RETAINED_FUNDS'' then orderId \<noteq> rf_source_order_id lot else orderId = rf_source_order_id lot)"
proof (cases "command = ''APPLY_RETAINED_FUNDS''")
  case True
  with assms(1) obtain sourceOrder where "orderId \<noteq> rf_source_order_id lot"
    "eligibleOrder db p (rf_source_order_id lot) = Inr sourceOrder" "\<exists>n. effect' = effect\<lparr>fe_authorizationNote := Some n\<rparr>"
    by (auto simp: buildLotCommand_def split: if_splits)
  with True eligibleOrder_row show ?thesis by auto
next
  case False
  with assms(1) have "orderId = rf_source_order_id lot" and "(\<exists>n. effect' = effect\<lparr>fe_note := Some n\<rparr>)
      \<or> (\<exists>n b r. effect' = effect\<lparr>fe_note := Some n, fe_externalPaymentBillId := Some b, fe_refundReference := Some r\<rparr>)"
    by (auto simp: buildLotCommand_def split: if_splits)
  with False assms(2) show ?thesis by auto
qed

lemma buildRetained_cases:
  assumes "buildRetainedFundsEffect enabled like db command input = Inr (effect, basis)"
  obtains (retain) source p where "command = ''RETAIN_ORDER_FUNDS''" "fundingSource db p (fe_sourceFactId effect) = Inr source"
      "fe_amountMinor effect \<le> fs_remainingMinor source - fs_reservedMinor source" "orderRow db (fe_orderId effect) \<noteq> None"
      "0 < fe_amountMinor effect" "fe_sourceOrderId effect = fe_orderId effect"
    | (lot) lot where "command \<noteq> ''RETAIN_ORDER_FUNDS''" "lotEffect db command effect lot" "0 < fe_amountMinor effect"
proof -
  from assms obtain p orderId amountMinor ord where
    pos: "positiveAmount input = Inr amountMinor" and ord: "eligibleOrder db p orderId = Inr ord" and
    b: "(if command = ''RETAIN_ORDER_FUNDS'' then buildRetain db p orderId amountMinor ord input
        else buildFromLot like db p command orderId amountMinor ord input) = Inr (effect, basis)"
    by (auto simp: buildRetainedFundsEffect_def split: if_splits)
  note row = eligibleOrder_row [OF ord]
  show thesis
  proof (cases "command = ''RETAIN_ORDER_FUNDS''")
    case True
    with b obtain source sourceFactId where f: "fundingSource db p sourceFactId = Inr source" "fe_sourceFactId effect = fa_fact_id (fs_fact source)"
      and e: "fe_amountMinor effect = amountMinor" "fe_orderId effect = orderId" "fe_sourceOrderId effect = orderId"
        "amountMinor \<le> fs_remainingMinor source - fs_reservedMinor source"
      by (auto simp: buildRetain_def Let_def split: if_splits option.splits)
    have "fa_fact_id (fs_fact source) = sourceFactId" using fundingSource_Inr [OF f(1)] by simp
    then show thesis using retain [OF True, of p source] f e row positiveAmount_pos [OF pos] by simp
  next
    case False
    with b obtain i item rest source effect0 sourceOrder where
      l: "fst (listRetainedFunds like db p (lotQuery i)) = item # rest" and f: "fundingSource db p (rf_source_fact_id (ri_row item)) = Inr source"
      and g: "amountMinor \<le> ri_remainingMinor item" "\<not> fs_reversed source"
      and c: "buildLotCommand db p command orderId ord (ri_row item) input effect0 = Inr (effect, sourceOrder)"
      and e0: "fe_retainedFundId effect0 = Some i" "fe_amountMinor effect0 = amountMinor" "fe_sourceFactId effect0 = rf_source_fact_id (ri_row item)"
        "fe_sourceOrderId effect0 = rf_source_order_id (ri_row item)" "fe_orderId effect0 = orderId"
      by (auto elim: buildFromLot_Inr)
    have "lotEffect db command effect (ri_row item)"
      using buildLotCommand_Inr [OF c row] listRetained_lot [OF l] fundingSource_Inr [OF f] g e0 row by (auto simp: lotEffect_def)
    moreover have "0 < fe_amountMinor effect"
      using buildLotCommand_Inr [OF c row] e0(2) positiveAmount_pos [OF pos] by simp
    ultimately show thesis using lot False by blast
  qed
qed

section \<open>Every command keeps the invariant\<close>

text \<open>One fact more, when the shares still fit.\<close>

lemma moneyInv_fact:
  assumes inv: "moneyInv db" and new: "fa_fact_id f \<notin> fa_fact_id ` set (m_facts db)" and pos: "0 < fa_amount_minor f"
    and known: "\<And>x. fa_references_fact_id f = Some x \<or> fa_reverses_fact_id f = Some x \<Longrightarrow> x \<in> fa_fact_id ` set (m_facts db)"
    and db': "m_facts db' = m_facts db @ [f]" "m_retained db' = m_retained db" "m_entries db' = m_entries db"
    and fits: "\<And>g. g \<in> set (m_facts db) \<Longrightarrow> isShare g \<Longrightarrow> shareFits db' g"
  shows "moneyInv db'"
proof (rule moneyInvI)
  note D = moneyInvD [OF inv]
  show "distinct (map fa_fact_id (m_facts db'))" "distinct (map rf_id (m_retained db'))" using D(1,2) new by (auto simp: db')
  show "g \<in> set (m_facts db') \<Longrightarrow> 0 < fa_amount_minor g" for g using D(3) pos by (auto simp: db')
  show "g \<in> set (m_facts db') \<Longrightarrow> fa_references_fact_id g = Some x \<or> fa_reverses_fact_id g = Some x \<Longrightarrow> x \<in> fa_fact_id ` set (m_facts db')"
    for g x using D(4,5) known by (auto simp: db')
  show "e \<in> set (m_entries db') \<Longrightarrow> re_retained_fund_id e \<in> rf_id ` set (m_retained db')" for e using D(6) by (simp add: db')
  show "l \<in> set (m_retained db') \<Longrightarrow> 0 \<le> lotRemaining (m_entries db') l \<and> rf_source_fact_id l \<in> fa_fact_id ` set (m_facts db')" for l
    using D(7,8) by (auto simp: db')
  have own: "fa_references_fact_id g \<noteq> Some (fa_fact_id f)" if "g \<in> set (m_facts db @ [f])" for g
    using that fresh_fact(1) [OF inv new] known [of "fa_fact_id f"] new by auto
  have "\<not> factReversed (m_facts db @ [f]) (fa_fact_id f)"
    using fresh_fact(2) [OF inv new] known [of "fa_fact_id f"] new by (auto simp: factReversed_snoc)
  moreover have "taken db' (fa_fact_id f) = 0"
    using unreferenced [of "m_facts db @ [f]" "fa_fact_id f", OF own] fresh_fact(3) [OF inv new] by (simp add: taken_def db' reservedMinor_of)
  ultimately have "shareFits db' f" using pos by (simp add: shareFits_iff db')
  with fits show "g \<in> set (m_facts db') \<Longrightarrow> isShare g \<Longrightarrow> shareFits db' g" for g by (auto simp: db')
qed

lemma share_kept:
  assumes "moneyInv db" "g \<in> set (m_facts db)" "isShare g" "taken db' (fa_fact_id g) \<le> taken db (fa_fact_id g)"
    "factReversed (m_facts db') (fa_fact_id g) = factReversed (m_facts db) (fa_fact_id g)"
  shows "shareFits db' g"
  using moneyInvD(9) [OF assms(1,2,3)] assms(4,5) by (auto simp: shareFits_iff split: if_splits)

lemma keeps_collection:
  assumes inv: "moneyInv db" and new: "fa_fact_id f \<notin> fa_fact_id ` set (m_facts db)" and pos: "0 < fa_amount_minor f"
    and f: "fa_fact_type f = COLLECTION" "fa_references_fact_id f = None" "fa_reverses_fact_id f = None"
    and db': "m_facts db' = m_facts db @ [f]" "m_retained db' = m_retained db" "m_entries db' = m_entries db"
  shows "moneyInv db'"
proof (rule moneyInv_fact [OF inv new pos _ db'])
  have "refundedMinor (m_facts db') x = refundedMinor (m_facts db) x" for x
    using refundedMinor_snoc [OF f(3) fresh_fact(2) [OF inv new]] f by (simp add: db')
  then show "g \<in> set (m_facts db) \<Longrightarrow> isShare g \<Longrightarrow> shareFits db' g" for g
    using share_kept [OF inv] f by (simp add: taken_def db' transferredMinor_snoc reservedMinor_of factReversed_snoc)
qed (use f in auto)

lemma keeps_refund:
  assumes inv: "moneyInv db" and new: "fa_fact_id f \<notin> fa_fact_id ` set (m_facts db)" and pos: "0 < fa_amount_minor f"
    and f: "fa_fact_type f = REFUND" "fa_references_fact_id f = Some (fa_fact_id s)" "fa_reverses_fact_id f = None"
    and s: "s \<in> set (m_facts db)" "\<not> factReversed (m_facts db) (fa_fact_id s)"
      "taken db (fa_fact_id s) + fa_amount_minor f \<le> fa_amount_minor s"
    and db': "m_facts db' = m_facts db @ [f]" "m_retained db' = m_retained db" "m_entries db' = m_entries db"
  shows "moneyInv db'"
proof (rule moneyInv_fact [OF inv new pos _ db'])
  have ref: "taken db' x = taken db x + (if x = fa_fact_id s then fa_amount_minor f else 0)" for x
    using refundedMinor_snoc [OF f(3) fresh_fact(2) [OF inv new]] f
    by (auto simp: taken_def db' transferredMinor_snoc reservedMinor_of)
  show "shareFits db' g" if "g \<in> set (m_facts db)" "isShare g" for g
  proof (cases "fa_fact_id g = fa_fact_id s")
    case True
    then have "g = s" using same_share [OF inv that(1) s(1)] by simp
    then show ?thesis using s(2,3) f ref [of "fa_fact_id s"] by (simp add: shareFits_iff db' factReversed_snoc)
  next
    case False
    then show ?thesis using share_kept [OF inv that, of db'] f ref [of "fa_fact_id g"] by (simp add: db' factReversed_snoc)
  qed
qed (use f s in auto)

lemma keeps_reversal:
  assumes inv: "moneyInv db" and new: "fa_fact_id f \<notin> fa_fact_id ` set (m_facts db)" and pos: "0 < fa_amount_minor f"
    and f: "fa_fact_type f = REVERSAL" "fa_references_fact_id f = None" "fa_reverses_fact_id f = Some (fa_fact_id s)"
    and s: "s \<in> set (m_facts db)" "isShare s \<Longrightarrow> taken db (fa_fact_id s) \<le> 0"
    and db': "m_facts db' = m_facts db @ [f]" "m_retained db' = m_retained db" "m_entries db' = m_entries db"
  shows "moneyInv db'"
proof (rule moneyInv_fact [OF inv new pos _ db'])
  have ref: "taken db' x \<le> taken db x" for x
    using refundedMinor_reversal [of f "m_facts db" x] f moneyInvD(3) [OF inv]
    by (simp add: taken_def db' transferredMinor_snoc reservedMinor_of)
  show "shareFits db' g" if "g \<in> set (m_facts db)" "isShare g" for g
  proof (cases "fa_fact_id g = fa_fact_id s")
    case True
    then have "g = s" using same_share [OF inv that(1) s(1)] by simp
    then show ?thesis using s(2) that(2) f ref [of "fa_fact_id s"] by (simp add: shareFits_iff db' factReversed_snoc)
  next
    case False
    then show ?thesis using share_kept [OF inv that, of db'] f ref [of "fa_fact_id g"] by (simp add: db' factReversed_snoc)
  qed
qed (use f s in auto)

text \<open>A lot more: it reserves what the share still had.\<close>

lemma keeps_lot:
  assumes inv: "moneyInv db" and new: "rf_id l \<notin> rf_id ` set (m_retained db)" and pos: "0 \<le> rf_amount_minor l"
    and s: "s \<in> set (m_facts db)" "rf_source_fact_id l = fa_fact_id s" "\<not> factReversed (m_facts db) (fa_fact_id s)"
      "taken db (fa_fact_id s) + rf_amount_minor l \<le> fa_amount_minor s"
    and db': "m_facts db' = m_facts db" "m_retained db' = m_retained db @ [l]" "m_entries db' = m_entries db"
  shows "moneyInv db'"
proof -
  note D = moneyInvD [OF inv]
  have "re_retained_fund_id e \<noteq> rf_id l" if "e \<in> set (m_entries db)" for e using D(6) [OF that] new by metis
  then have "filter (\<lambda>e. re_retained_fund_id e = rf_id l) (m_entries db) = []" by (auto simp: filter_empty_conv)
  then have used: "usedOfLot (m_entries db) (rf_id l) = 0" by (simp add: usedOfLot_def)
  have ref: "taken db' x = taken db x + (if x = fa_fact_id s then rf_amount_minor l else 0)" for x
    by (auto simp: taken_def db' reservedMinor_of reservedOf_lot s(2) lotRemaining_def used)
  show ?thesis
  proof (rule moneyInvI)
    show "shareFits db' g" if "g \<in> set (m_facts db')" "isShare g" for g
    proof (cases "fa_fact_id g = fa_fact_id s")
      case True
      then have "g = s" using same_share [OF inv _ s(1)] that(1) by (simp add: db')
      then show ?thesis using s(3,4) ref [of "fa_fact_id s"] by (simp add: shareFits_iff db')
    next
      case False
      then show ?thesis using share_kept [OF inv, of g db'] that ref [of "fa_fact_id g"] by (simp add: db')
    qed
  qed (use D new pos s used in \<open>auto simp: db' lotRemaining_def\<close>)
qed

text \<open>An entry of a lot, with the facts it moves: the share gives up a reservation for a transfer or a refund.\<close>

lemma keeps_entry:
  assumes inv: "moneyInv db" and l: "l \<in> set (m_retained db)" "re_retained_fund_id e = rf_id l"
      "re_amount_minor e \<le> lotRemaining (m_entries db) l" "0 < re_amount_minor e"
    and open_source: "\<not> factReversed (m_facts db) (rf_source_fact_id l)"
    and fs: "distinct (map fa_fact_id (m_facts db @ fs))" "\<And>f. f \<in> set fs \<Longrightarrow> fa_amount_minor f = re_amount_minor e
      \<and> fa_references_fact_id f = Some (rf_source_fact_id l) \<and> fa_reverses_fact_id f = None"
    and given_up: "refundedMinor (m_facts db @ fs) (rf_source_fact_id l) + transferredMinor (m_facts db @ fs) (rf_source_fact_id l)
      \<le> refundedMinor (m_facts db) (rf_source_fact_id l) + transferredMinor (m_facts db) (rf_source_fact_id l) + re_amount_minor e"
    and db': "m_facts db' = m_facts db @ fs" "m_retained db' = m_retained db" "m_entries db' = m_entries db @ [e]"
  shows "moneyInv db'"
proof -
  note D = moneyInvD [OF inv]
  let ?x = "rf_source_fact_id l"
  have rev: "factReversed (m_facts db @ fs) x = factReversed (m_facts db) x" for x
    using fs(2) by (fastforce simp: factReversed_def list_ex_iff)
  have res: "reservedMinor db' x = reservedMinor db x - (if ?x = x then re_amount_minor e else 0)" for x
    using reservedOf_entry [OF D(2) l(1,2)] by (simp add: reservedMinor_of db')
  have other: "refundedMinor (m_facts db @ fs) x = refundedMinor (m_facts db) x"
      "transferredMinor (m_facts db @ fs) x = transferredMinor (m_facts db) x" if "x \<noteq> ?x" for x
  proof -
    have "filter (\<lambda>r. fa_references_fact_id r = Some x \<and> P r) fs = []" for P using fs(2) that by (auto simp: filter_empty_conv)
    then show "refundedMinor (m_facts db @ fs) x = refundedMinor (m_facts db) x"
      "transferredMinor (m_facts db @ fs) x = transferredMinor (m_facts db) x"
      by (simp_all add: refundedMinor_def transferredMinor_def rev)
  qed
  have ref: "taken db' x \<le> taken db x" for x
    using given_up other [of x] res [of x] by (cases "x = ?x") (simp_all add: taken_def db')
  have old: "shareFits db' g" if "g \<in> set (m_facts db)" "isShare g" for g
    using share_kept [OF inv that ref] by (simp add: db' rev)
  have new: "shareFits db' g" if g: "g \<in> set fs" for g
  proof -
    have fresh: "fa_fact_id g \<notin> fa_fact_id ` set (m_facts db)" using fs(1) g by auto
    then have ne: "fa_fact_id g \<noteq> ?x" using D(8) [OF l(1)] by auto
    have "refundedMinor (m_facts db) (fa_fact_id g) = 0" "transferredMinor (m_facts db) (fa_fact_id g) = 0"
      using unreferenced [of "m_facts db" "fa_fact_id g"] fresh_fact(1) [OF inv fresh] by auto
    then have "taken db' (fa_fact_id g) = 0" using other [OF ne] res [of "fa_fact_id g"] ne fresh_fact(3) [OF inv fresh]
      by (simp add: taken_def db')
    then show ?thesis using fs(2) [OF g] l(4) fresh_fact(2) [OF inv fresh] by (simp add: shareFits_iff db' rev)
  qed
  have rem: "lotRemaining (m_entries db') k = lotRemaining (m_entries db) k - (if rf_id k = rf_id l then re_amount_minor e else 0)" for k
    using l(2) by (simp add: lotRemaining_def usedOfLot_snoc db')
  have same_lot: "k = l" if "k \<in> set (m_retained db)" "rf_id k = rf_id l" for k
    using D(2) l(1) that by (auto simp: distinct_map dest: inj_onD)
  show ?thesis
  proof (rule moneyInvI)
    show "distinct (map fa_fact_id (m_facts db'))" "distinct (map rf_id (m_retained db'))" using fs(1) D(2) by (simp_all add: db')
    show "f \<in> set (m_facts db') \<Longrightarrow> 0 < fa_amount_minor f" for f using D(3) fs(2) l(4) by (auto simp: db')
    show "f \<in> set (m_facts db') \<Longrightarrow> fa_references_fact_id f = Some x \<or> fa_reverses_fact_id f = Some x \<Longrightarrow> x \<in> fa_fact_id ` set (m_facts db')"
      for f x using D(4) [of f x] D(5) [of f x] D(8) [OF l(1)] fs(2) [of f] by (auto simp: db' image_Un)
    show "d \<in> set (m_entries db') \<Longrightarrow> re_retained_fund_id d \<in> rf_id ` set (m_retained db')" for d using D(6) l(1,2) by (auto simp: db')
    show "k \<in> set (m_retained db') \<Longrightarrow> 0 \<le> lotRemaining (m_entries db') k \<and> rf_source_fact_id k \<in> fa_fact_id ` set (m_facts db')" for k
      using D(7) [of k] D(8) [of k] same_lot [of k] l(3) rem [of k] by (auto simp: db')
    show "g \<in> set (m_facts db') \<Longrightarrow> isShare g \<Longrightarrow> shareFits db' g" for g using old new by (auto simp: db')
  qed
qed

section \<open>The steps\<close>

text \<open>The identifiers that newId draws are new.\<close>

definition freshIds :: "money_db \<Rightarrow> fund_ids \<Rightarrow> bool" where
  "freshIds db ids \<longleftrightarrow> fi_retained ids \<notin> rf_id ` set (m_retained db) \<and> fi_out ids \<noteq> fi_in ids
     \<and> {fi_out ids, fi_in ids, fi_refund ids} \<inter> fa_fact_id ` set (m_facts db) = {}"

inductive moneyStep :: "bool \<Rightarrow> (string \<Rightarrow> string \<Rightarrow> bool) \<Rightarrow> money_db \<Rightarrow> money_db \<Rightarrow> bool" for enabled like where
  collection: "propertyOrder db p x = Some ord \<Longrightarrow> buildRecordCollection db ord revision input = Inr effect
    \<Longrightarrow> factId \<notin> fa_fact_id ` set (m_facts db)
    \<Longrightarrow> moneyStep enabled like db (applyOrderFunds ''RECORD_COLLECTION'' effect revision commandId factId releaseId db)"
| refund: "propertyOrder db p x = Some ord \<Longrightarrow> buildRecordRefund db p ord input = Inr effect
    \<Longrightarrow> factId \<notin> fa_fact_id ` set (m_facts db)
    \<Longrightarrow> moneyStep enabled like db (applyOrderFunds ''RECORD_REFUND'' effect revision commandId factId releaseId db)"
| reversal: "propertyOrder db p x = Some ord \<Longrightarrow> buildReverseFact enabled db p ord input = Inr effect
    \<Longrightarrow> factId \<notin> fa_fact_id ` set (m_facts db)
    \<Longrightarrow> moneyStep enabled like db (applyOrderFunds ''REVERSE_FACT'' effect revision commandId factId releaseId db)"
| retained: "command \<in> set retainedFundsCommandTypes \<Longrightarrow> buildRetainedFundsEffect enabled like db command input = Inr (effect, basis)
    \<Longrightarrow> freshIds db ids \<Longrightarrow> moneyStep enabled like db (snd (applyRetainedFundsCommand command effect commandId ids now db))"
| other_collection: "fa_fact_id f \<notin> fa_fact_id ` set (m_facts db) \<Longrightarrow> 0 < fa_amount_minor f \<Longrightarrow> fa_fact_type f = COLLECTION
    \<Longrightarrow> fa_references_fact_id f = None \<Longrightarrow> fa_reverses_fact_id f = None
    \<Longrightarrow> moneyStep enabled like db (db\<lparr>m_facts := m_facts db @ [f]\<rparr>)"
| other_tables: "m_facts db' = m_facts db \<Longrightarrow> m_retained db' = m_retained db \<Longrightarrow> m_entries db' = m_entries db
    \<Longrightarrow> moneyStep enabled like db db'"

lemma dbl_pos: "0 < n \<Longrightarrow> 0 < dbl n"
proof (cases "safe_int n")
  case False
  assume "0 < n"
  with False have "9007199254740992 \<le> \<bar>n\<bar>" by (auto simp: safe_int_bounds)
  from dbl_large [OF this] dbl_nonneg [of n] \<open>0 < n\<close> show ?thesis by linarith
qed (simp add: dbl_safe)

lemma dsum_pos:
  assumes "\<forall>x\<in>set xs. 0 < x" "xs \<noteq> []"
  shows "0 < dsum xs"
proof -
  have "0 < fold (\<lambda>x acc. dbl (acc + x)) ys acc" if "\<forall>x\<in>set ys. 0 < x" "0 < acc" for ys acc
    using that
  proof (induction ys arbitrary: acc)
    case (Cons y ys)
    then have "0 < dbl (acc + y)" by (intro dbl_pos) simp
    with Cons show ?case by simp
  qed simp
  with assms show ?thesis by (cases xs) (auto simp: dsum_def intro: dbl_pos)
qed

lemma activeRefunded_zero:
  assumes "moneyInv db" "activeRefundedAmount db x \<le> 0"
  shows "refundedMinor (m_facts db) x = 0"
proof -
  let ?rs = "filter (\<lambda>r. \<not> factReversed (m_facts db) (fa_fact_id r))
    (filter (\<lambda>r. fa_references_fact_id r = Some x \<and> fa_fact_type r = REFUND) (m_facts db))"
  have "?rs = []"
    using dsum_pos [of "map fa_amount_minor ?rs"] assms(2) moneyInvD(3) [OF assms(1)] by (auto simp: activeRefundedAmount_def)
  then have "filter (\<lambda>r. fa_references_fact_id r = Some x \<and> fa_fact_type r = REFUND \<and> \<not> factReversed (m_facts db) (fa_fact_id r)) (m_facts db) = []"
    by (auto simp: filter_empty_conv)
  then show ?thesis by (simp add: refundedMinor_def)
qed

lemma applyOrderFunds_tables:
  "m_facts (applyOrderFunds command effect revision commandId factId releaseId db) = m_facts db @
     [last (m_facts (applyOrderFunds command effect revision commandId factId releaseId db))]"
  "m_retained (applyOrderFunds command effect revision commandId factId releaseId db) = m_retained db"
  "m_entries (applyOrderFunds command effect revision commandId factId releaseId db) = m_entries db"
  by (simp_all add: applyOrderFunds_def Let_def split: option.splits)

lemma applyOrderFunds_fact:
  "let f = last (m_facts (applyOrderFunds command effect revision commandId factId releaseId db)) in
     fa_fact_id f = factId \<and> fa_amount_minor f = fn_amountMinor effect \<and> fa_references_fact_id f = fn_referencesFactId effect
     \<and> fa_reverses_fact_id f = fn_reversesFactId effect
     \<and> fa_fact_type f = (if command = ''RECORD_COLLECTION'' then COLLECTION else if command = ''RECORD_REFUND'' then REFUND else REVERSAL)"
  by (simp add: applyOrderFunds_def Let_def split: option.splits)

lemma buildRecordCollection_Inr:
  "buildRecordCollection db ord revision input = Inr e \<Longrightarrow> 0 < fn_amountMinor e \<and> fn_referencesFactId e = None \<and> fn_reversesFactId e = None"
  by (auto simp: buildRecordCollection_def dest!: requireInteger_least split: if_splits)

lemma refundOriginal_Inr:
  assumes "refundOriginal db p orderId x method a = Inr original"
  shows "fa_fact_id original = x \<and> (\<exists>funding. fundingSource db p x = Inr funding \<and> a \<le> fs_remainingMinor funding - fs_reservedMinor funding)"
  using assms by (auto simp: refundOriginal_def dest: propertyFact_Some split: option.splits if_splits)

lemma buildRecordRefund_Inr:
  assumes "buildRecordRefund db p ord input = Inr e"
  obtains x funding where "fn_referencesFactId e = Some x" "fn_reversesFactId e = None" "0 < fn_amountMinor e"
    "fundingSource db p x = Inr funding" "fn_amountMinor e \<le> fs_remainingMinor funding - fs_reservedMinor funding"
proof -
  from assms obtain a x way original where a: "requireInteger input ''amountMinor'' (Some 1) True = Inr a"
    "refundOriginal db p (fo_id ord) x way a = Inr original" and
    e: "fn_referencesFactId e = Some x" "fn_reversesFactId e = None" "fn_amountMinor e = a"
    by (auto simp: buildRecordRefund_def split: if_splits)
  with refundOriginal_Inr [OF a(2)] requireInteger_least [OF a(1)] that show thesis by auto
qed

lemma reversible_Inr:
  assumes "reversible db p orderId x input = Inr original"
  shows "original \<in> set (m_facts db) \<and> fa_fact_id original = x \<and> fa_fact_type original \<in> {COLLECTION, REFUND}
    \<and> (fa_fact_type original = COLLECTION \<longrightarrow> reservedMinor db x \<le> 0 \<and> transferredMinor (m_facts db) x \<le> 0)"
proof -
  from assms have "propertyFact db p x = Some original" and
    t: "fa_fact_type original \<notin> {REVERSAL, REALLOCATION_IN, REALLOCATION_OUT}" and
    c: "fa_fact_type original = COLLECTION \<Longrightarrow> \<exists>funding. fundingSource db p x = Inr funding \<and> fs_reservedMinor funding \<le> 0 \<and> fs_transferredMinor funding \<le> 0"
    by (auto simp: reversible_def split: option.splits if_splits)
  then show ?thesis using propertyFact_Some [of db p x original] fundingSource_Inr [of db p x] by (cases "fa_fact_type original") auto
qed

lemma buildReverseFact_Inr:
  assumes "buildReverseFact enabled db p ord input = Inr e" "moneyInv db"
  obtains original where "original \<in> set (m_facts db)" "fn_reversesFactId e = Some (fa_fact_id original)" "fn_referencesFactId e = None"
    "fn_amountMinor e = fa_amount_minor original" "isShare original \<Longrightarrow> taken db (fa_fact_id original) \<le> 0"
proof -
  from assms(1) obtain x original where r: "reversible db p (fo_id ord) x input = Inr original"
    and z0: "\<not> 0 < (if fa_fact_type original = COLLECTION then activeRefundedAmount db x else 0)"
    and e: "fn_reversesFactId e = Some x" "fn_referencesFactId e = None" "fn_amountMinor e = fa_amount_minor original"
    unfolding buildReverseFact_def Let_def by (auto simp del: split_paired_All split: if_split_asm)
  have z: "fa_fact_type original = COLLECTION \<Longrightarrow> activeRefundedAmount db x \<le> 0" using z0 by simp
  note R = reversible_Inr [OF r]
  have "taken db (fa_fact_id original) \<le> 0" if "isShare original"
    using that R z activeRefunded_zero [OF assms(2), of x] by (auto simp: isShare_def taken_def)
  with R e that show thesis by auto
qed

text \<open>The facts that a command on a lot inserts, when the two orders exist.\<close>

definition movedFact :: "retained_effect \<Rightarrow> string \<Rightarrow> string \<Rightarrow> fact_type \<Rightarrow> fund_fact \<Rightarrow> bool" where
  "movedFact effect i target kind f \<longleftrightarrow> fa_fact_id f = i \<and> fa_fact_type f = kind \<and> fu_order_id f = target
     \<and> fa_net_effect_minor f = (if kind = REALLOCATION_IN then fe_amountMinor effect else - fe_amountMinor effect)
     \<and> fa_amount_minor f = fe_amountMinor effect \<and> fa_references_fact_id f = Some (fe_sourceFactId effect) \<and> fa_reverses_fact_id f = None"

lemma insertFact_row:
  assumes "orderRow db target \<noteq> None"
  shows "\<exists>f. insertFact effect commandId i target kind bill nt db = db\<lparr>m_facts := m_facts db @ [f]\<rparr> \<and> movedFact effect i target kind f"
  using assms by (auto simp: insertFact_def movedFact_def)

lemma applyLot_tables:
  assumes "command \<noteq> ''RETAIN_ORDER_FUNDS''" "orderRow db (fe_orderId effect) \<noteq> None" "orderRow db (fe_sourceOrderId effect) \<noteq> None"
  shows "\<exists>fs e. m_facts (snd (applyRetainedFundsCommand command effect commandId ids now db)) = m_facts db @ fs
    \<and> m_retained (snd (applyRetainedFundsCommand command effect commandId ids now db)) = m_retained db
    \<and> m_entries (snd (applyRetainedFundsCommand command effect commandId ids now db)) = m_entries db @ [e]
    \<and> re_retained_fund_id e = textOf (fe_retainedFundId effect) \<and> re_amount_minor e = fe_amountMinor effect
    \<and> map fa_fact_id fs = (if command = ''APPLY_RETAINED_FUNDS'' then [fi_out ids, fi_in ids]
        else if command = ''REFUND_RETAINED_FUNDS'' then [fi_refund ids] else [])
    \<and> map fa_fact_type fs = (if command = ''APPLY_RETAINED_FUNDS'' then [REALLOCATION_OUT, REALLOCATION_IN]
        else if command = ''REFUND_RETAINED_FUNDS'' then [REFUND] else [])
    \<and> map fu_order_id fs = (if command = ''APPLY_RETAINED_FUNDS'' then [fe_sourceOrderId effect, fe_orderId effect]
        else if command = ''REFUND_RETAINED_FUNDS'' then [fe_sourceOrderId effect] else [])
    \<and> map fa_net_effect_minor fs = (if command = ''APPLY_RETAINED_FUNDS'' then [- fe_amountMinor effect, fe_amountMinor effect]
        else if command = ''REFUND_RETAINED_FUNDS'' then [- fe_amountMinor effect] else [])
    \<and> (\<forall>f\<in>set fs. fa_amount_minor f = fe_amountMinor effect \<and> fa_references_fact_id f = Some (fe_sourceFactId effect)
        \<and> fa_reverses_fact_id f = None)"
proof -
  let ?state = "snd (applyRetainedFundsCommand command effect commandId ids now db)"
  consider (applied) "command = ''APPLY_RETAINED_FUNDS''" | (refund) "command = ''REFUND_RETAINED_FUNDS''"
    | (release) "command \<noteq> ''APPLY_RETAINED_FUNDS''" "command \<noteq> ''REFUND_RETAINED_FUNDS''" by blast
  then show ?thesis
  proof cases
    case applied
    let ?note = "textOf (fe_authorizationNote effect)"
    obtain f where f: "insertFact effect commandId (fi_out ids) (fe_sourceOrderId effect) REALLOCATION_OUT (fe_billId effect) ?note db
        = db\<lparr>m_facts := m_facts db @ [f]\<rparr>" "movedFact effect (fi_out ids) (fe_sourceOrderId effect) REALLOCATION_OUT f"
      using insertFact_row [OF assms(3)] by blast
    let ?db1 = "db\<lparr>m_facts := m_facts db @ [f]\<rparr>"
    have "orderRow ?db1 (fe_orderId effect) \<noteq> None" using assms(2) by (simp add: orderRow_def)
    then obtain g where g: "insertFact effect commandId (fi_in ids) (fe_orderId effect) REALLOCATION_IN (fe_billId effect) ?note ?db1
        = ?db1\<lparr>m_facts := m_facts ?db1 @ [g]\<rparr>" "movedFact effect (fi_in ids) (fe_orderId effect) REALLOCATION_IN g"
      using insertFact_row by blast
    obtain e where e: "?state = db\<lparr>m_facts := m_facts db @ [f, g], m_entries := m_entries db @ [e]\<rparr>"
      "re_retained_fund_id e = textOf (fe_retainedFundId effect)" "re_amount_minor e = fe_amountMinor effect"
      using applied by (simp add: applyRetainedFundsCommand_def Let_def f(1) g(1) insertEntry_def)
    show ?thesis by (rule exI [of _ "[f, g]"], rule exI [of _ e]) (use applied e f(2) g(2) in \<open>simp add: movedFact_def\<close>)
  next
    case refund
    obtain f where f: "insertFact effect commandId (fi_refund ids) (fe_sourceOrderId effect) REFUND (textOf (fe_externalPaymentBillId effect))
        (textOf (fe_note effect)) db = db\<lparr>m_facts := m_facts db @ [f]\<rparr>" "movedFact effect (fi_refund ids) (fe_sourceOrderId effect) REFUND f"
      using insertFact_row [OF assms(3)] by blast
    obtain e where e: "?state = db\<lparr>m_facts := m_facts db @ [f], m_entries := m_entries db @ [e]\<rparr>"
      "re_retained_fund_id e = textOf (fe_retainedFundId effect)" "re_amount_minor e = fe_amountMinor effect"
      using refund by (simp add: applyRetainedFundsCommand_def Let_def f(1) insertEntry_def)
    show ?thesis by (rule exI [of _ "[f]"], rule exI [of _ e]) (use refund e f(2) in \<open>simp add: movedFact_def\<close>)
  next
    case release
    obtain e where e: "?state = db\<lparr>m_entries := m_entries db @ [e]\<rparr>"
      "re_retained_fund_id e = textOf (fe_retainedFundId effect)" "re_amount_minor e = fe_amountMinor effect"
      using release assms(1) by (simp add: applyRetainedFundsCommand_def Let_def insertEntry_def)
    show ?thesis by (rule exI [of _ "[]"], rule exI [of _ e]) (use release e in simp)
  qed
qed

lemma keeps_retained:
  assumes inv: "moneyInv db" and cmd: "command \<in> set retainedFundsCommandTypes" and fresh: "freshIds db ids"
    and b: "buildRetainedFundsEffect enabled like db command input = Inr (effect, basis)"
  shows "moneyInv (snd (applyRetainedFundsCommand command effect commandId ids now db))"
proof (cases rule: buildRetained_cases [OF b, case_names retain lot])
  case (retain source p)
  note S = fundingSource_Inr [OF retain(2)]
  note room = fundingSource_room [OF inv retain(2,3,5)]
  from retain(4) obtain ord where ord: "orderRow db (fe_orderId effect) = Some ord" by auto
  let ?l = "\<lparr>rf_id = fi_retained ids, rf_property_id = fo_property_id ord, rf_source_order_id = fe_sourceOrderId effect,
    rf_source_fact_id = fe_sourceFactId effect, rf_bill_id = fe_billId effect, rf_owner_name = fe_ownerName effect,
    rf_owner_contact = fe_ownerContact effect, rf_confirmation_note = textOf (fe_confirmationNote effect),
    rf_amount_minor = fe_amountMinor effect, rf_command_id = commandId, rf_created_at = now\<rparr>"
  show ?thesis
    by (rule keeps_lot [OF inv, where l = ?l and s = "fs_fact source"])
      (use retain(1,5) S room fresh ord in \<open>auto simp: freshIds_def applyRetainedFundsCommand_def insertRetained_def Let_def\<close>)
next
  case (lot row)
  from lot(2) have L: "row \<in> set (m_retained db)" "fe_retainedFundId effect = Some (rf_id row)"
    "fe_amountMinor effect \<le> lotRemaining (m_entries db) row" "fe_sourceFactId effect = rf_source_fact_id row"
    "orderRow db (fe_orderId effect) \<noteq> None" "orderRow db (fe_sourceOrderId effect) \<noteq> None"
    "\<not> factReversed (m_facts db) (rf_source_fact_id row)" by (auto simp: lotEffect_def)
  from applyLot_tables [OF lot(1) L(5,6), of commandId ids now] obtain fs e where
    T: "m_facts (snd (applyRetainedFundsCommand command effect commandId ids now db)) = m_facts db @ fs"
      "m_retained (snd (applyRetainedFundsCommand command effect commandId ids now db)) = m_retained db"
      "m_entries (snd (applyRetainedFundsCommand command effect commandId ids now db)) = m_entries db @ [e]"
    and E: "re_retained_fund_id e = textOf (fe_retainedFundId effect)" "re_amount_minor e = fe_amountMinor effect"
    and I: "map fa_fact_id fs = (if command = ''APPLY_RETAINED_FUNDS'' then [fi_out ids, fi_in ids]
        else if command = ''REFUND_RETAINED_FUNDS'' then [fi_refund ids] else [])"
    and Y: "map fa_fact_type fs = (if command = ''APPLY_RETAINED_FUNDS'' then [REALLOCATION_OUT, REALLOCATION_IN]
        else if command = ''REFUND_RETAINED_FUNDS'' then [REFUND] else [])"
    and F: "\<forall>f\<in>set fs. fa_amount_minor f = fe_amountMinor effect \<and> fa_references_fact_id f = Some (fe_sourceFactId effect)
        \<and> fa_reverses_fact_id f = None"
    by blast
  let ?x = "rf_source_fact_id row"
  have dist: "distinct (map fa_fact_id (m_facts db @ fs))"
    using moneyInvD(1) [OF inv] fresh I by (auto simp: freshIds_def image_iff split: if_splits)
  have rev: "factReversed (m_facts db @ fs) y = factReversed (m_facts db) y" for y
    using F by (fastforce simp: factReversed_def list_ex_iff)
  have new: "\<not> factReversed (m_facts db) (fa_fact_id f)" if "f \<in> set fs" for f
    using fresh_fact(2) [OF inv, of "fa_fact_id f"] dist that by auto
  have "refundedMinor (m_facts db @ fs) ?x + transferredMinor (m_facts db @ fs) ?x
      \<le> refundedMinor (m_facts db) ?x + transferredMinor (m_facts db) ?x + re_amount_minor e"
    using Y F L(4) E(2) lot(3) new
    by (auto simp: refundedMinor_def transferredMinor_def rev map_eq_Cons_conv split: if_splits)
  then show ?thesis
    using keeps_entry [OF inv L(1) _ _ _ L(7) dist _ _ T] E L(2,3,4) lot(3) F by (simp add: textOf_def)
qed

lemma moneyStep_keeps:
  assumes "moneyStep enabled like db0 db1" "moneyInv db0"
  shows "moneyInv db1"
  using assms
proof (induction rule: moneyStep.induct)
  case (collection db p x ord revision input effect factId commandId releaseId)
  note f = applyOrderFunds_fact [of "''RECORD_COLLECTION''" effect revision commandId factId releaseId db, unfolded Let_def]
  show ?case
    by (rule keeps_collection [OF collection(4) _ _ _ _ _ applyOrderFunds_tables])
      (use collection(3) f buildRecordCollection_Inr [OF collection(2)] in auto)
next
  case (refund db p x ord input effect factId revision commandId releaseId)
  note f = applyOrderFunds_fact [of "''RECORD_REFUND''" effect revision commandId factId releaseId db, unfolded Let_def]
  from refund(2) obtain y funding where b: "fn_referencesFactId effect = Some y" "fn_reversesFactId effect = None" "0 < fn_amountMinor effect"
    "fundingSource db p y = Inr funding" "fn_amountMinor effect \<le> fs_remainingMinor funding - fs_reservedMinor funding"
    by (rule buildRecordRefund_Inr)
  show ?case
    by (rule keeps_refund [OF refund(4) _ _ _ _ _ _ _ _ applyOrderFunds_tables, where s = "fs_fact funding"])
      (use refund(3) f b fundingSource_Inr [OF b(4)] fundingSource_room [OF refund(4) b(4,5,3)] in auto)
next
  case (reversal db p x ord input effect factId revision commandId releaseId)
  note f = applyOrderFunds_fact [of "''REVERSE_FACT''" effect revision commandId factId releaseId db, unfolded Let_def]
  from reversal(2,4) obtain original where b: "original \<in> set (m_facts db)" "fn_reversesFactId effect = Some (fa_fact_id original)"
    "fn_referencesFactId effect = None" "fn_amountMinor effect = fa_amount_minor original"
    "isShare original \<longrightarrow> taken db (fa_fact_id original) \<le> 0"
    by (rule buildReverseFact_Inr) blast
  show ?case
    by (rule keeps_reversal [OF reversal(4) _ _ _ _ _ _ _ applyOrderFunds_tables, where s = original])
      (use reversal(3) f b moneyInvD(3) [OF reversal(4)] in auto)
next
  case (retained command db input effect basis ids commandId now)
  show ?case by (rule keeps_retained [OF retained(4,1,3,2)])
next
  case (other_collection f db)
  show ?case by (rule keeps_collection [OF other_collection(6,1,2,3,4,5)]) simp_all
next
  case (other_tables db' db)
  then show ?case by (simp add: moneyInv_def shareFits_def reservedMinor_def)
qed

definition noMoney :: "money_db \<Rightarrow> bool" where
  "noMoney db \<longleftrightarrow> m_facts db = [] \<and> m_retained db = [] \<and> m_entries db = []"

interpretation money: invariant_system noMoney "moneyStep enabled like" moneyInv
proof
  show "noMoney s \<Longrightarrow> moneyInv s" for s by (simp add: noMoney_def moneyInv_def)
  show "moneyInv s \<Longrightarrow> moneyStep enabled like s t \<Longrightarrow> moneyInv t" for s t by (rule moneyStep_keeps)
qed

text \<open>
  C2: the money of a collection is spent once. Over every sequence of collections, refunds, reversals and
  commands on retained funds, whatever happens to the other tables, what was refunded of a collection (or of a
  share transferred into an order), transferred out of it and reserved in retained funds never exceeds it, is
  nothing once it is reversed, and no retained fund is overdrawn.
\<close>

theorem money_spent_once:
  assumes "noMoney db0" "(moneyStep enabled like)\<^sup>*\<^sup>* db0 db"
  shows "(\<forall>f\<in>set (m_facts db). isShare f \<longrightarrow>
      0 \<le> refundedMinor (m_facts db) (fa_fact_id f) \<and> 0 \<le> transferredMinor (m_facts db) (fa_fact_id f)
      \<and> 0 \<le> reservedMinor db (fa_fact_id f)
      \<and> refundedMinor (m_facts db) (fa_fact_id f) + transferredMinor (m_facts db) (fa_fact_id f) + reservedMinor db (fa_fact_id f)
          \<le> (if factReversed (m_facts db) (fa_fact_id f) then 0 else fa_amount_minor f))
    \<and> (\<forall>l\<in>set (m_retained db). usedOfLot (m_entries db) (rf_id l) \<le> rf_amount_minor l)"
proof -
  note inv = money.reachable_inv [OF assms]
  show ?thesis
    using moneyInvD(9) [OF inv] moneyInvD(7) [OF inv] moneyInvD(3) [OF inv] reserved_nonneg [OF inv]
      refundedMinor_nonneg transferredMinor_nonneg
    by (simp add: shareFits_iff taken_def lotRemaining_def)
qed

text \<open>
  An order is collected, then cancelled; 300.00 of its 500.00 are retained and 200.00 of those applied to another
  order.
\<close>

definition demoOrder :: "string \<Rightarrow> string \<Rightarrow> fund_order" where
  "demoOrder i status = \<lparr>fo_id = i, fo_property_id = ''p'', fo_status = status, fo_version = 1, fo_stay_type = ''STANDARD'',
     fo_booking_channel_code = None, fo_member_contract_id = None, fo_current_revision_id = Some (i @ ''r'')\<rparr>"

definition demoFundRevision :: "string \<Rightarrow> int \<Rightarrow> fund_revision" where
  "demoFundRevision i contract = \<lparr>fr_id = i @ ''r'', fr_currency = ''CNY'', fr_pricing_basis = ''POLICY'', fr_contract_amount = contract\<rparr>"

definition demoDb0 :: money_db where
  "demoDb0 = \<lparr>m_orders = [demoOrder ''a'' ''RESERVED'', demoOrder ''b'' ''RESERVED''],
     m_revisions = [demoFundRevision ''a'' 0, demoFundRevision ''b'' 40000], m_amendments = [], m_facts = [], m_bills = [],
     m_allocations = [], m_releases = [], m_retained = [], m_entries = []\<rparr>"

definition demoCollection :: json_object where
  "demoCollection = [(''amountMinor'', JNum 50000), (''method'', JStr ''WECOM''), (''transactionReference'', JStr ''tx1''),
     (''externalPaymentBillId'', JStr ''bill1'')]"

definition demoRetain :: json_object where
  "demoRetain = [(''propertyId'', JStr ''p''), (''orderId'', JStr ''a''), (''amountMinor'', JNum 30000), (''sourceFactId'', JStr ''f1''),
     (''ownerName'', JStr ''Li''), (''ownerContact'', JStr ''wx''), (''confirmationNote'', JStr ''asked'')]"

definition demoApply :: json_object where
  "demoApply = [(''propertyId'', JStr ''p''), (''orderId'', JStr ''b''), (''amountMinor'', JNum 20000), (''retainedFundId'', JStr ''l1''),
     (''authorizationNote'', JStr ''agreed'')]"

definition demoIds :: "string \<Rightarrow> fund_ids" where
  "demoIds i = \<lparr>fi_retained = ''l'' @ i, fi_entry = ''e'' @ i, fi_out = ''o'' @ i, fi_in = ''i'' @ i, fi_refund = ''r'' @ i\<rparr>"

definition collectionOf :: "money_db \<Rightarrow> money_db" where
  "collectionOf db = (case buildRecordCollection db (demoOrder ''a'' ''RESERVED'') (demoFundRevision ''a'' 0) demoCollection of
     Inr effect \<Rightarrow> applyOrderFunds ''RECORD_COLLECTION'' effect (demoFundRevision ''a'' 0) ''c1'' ''f1'' [] db | Inl _ \<Rightarrow> db)"

definition retainedOf :: "string \<Rightarrow> json_object \<Rightarrow> string \<Rightarrow> money_db \<Rightarrow> money_db" where
  "retainedOf command input i db = (case buildRetainedFundsEffect True (\<lambda>_ _. False) db command input of
     Inr (effect, _) \<Rightarrow> snd (applyRetainedFundsCommand command effect ''c2'' (demoIds i) 5 db) | Inl _ \<Rightarrow> db)"

definition demoDb1 :: money_db where
  "demoDb1 = (collectionOf demoDb0)\<lparr>m_orders := [demoOrder ''a'' ''CANCELLED'', demoOrder ''b'' ''RESERVED'']\<rparr>"

definition demoDb2 :: money_db where
  "demoDb2 = retainedOf ''RETAIN_ORDER_FUNDS'' demoRetain ''1'' demoDb1"

definition demoDb3 :: money_db where
  "demoDb3 = retainedOf ''APPLY_RETAINED_FUNDS'' demoApply ''2'' demoDb2"

lemma retainedOf_step:
  assumes "command \<in> set retainedFundsCommandTypes" "freshIds db (demoIds i)"
  shows "moneyStep True (\<lambda>_ _. False) db (retainedOf command input i db)"
  using assms by (auto simp: retainedOf_def split: sum.splits intro: moneyStep.intros(4) moneyStep.intros(6))

lemma demo_collection: "moneyStep True (\<lambda>_ _. False) demoDb0 (collectionOf demoDb0)"
  unfolding collectionOf_def
proof (cases "buildRecordCollection demoDb0 (demoOrder ''a'' ''RESERVED'') (demoFundRevision ''a'' 0) demoCollection")
  case (Inr effect)
  have "propertyOrder demoDb0 ''p'' ''a'' = Some (demoOrder ''a'' ''RESERVED'')" "''f1'' \<notin> fa_fact_id ` set (m_facts demoDb0)"
    by code_simp+
  from moneyStep.collection [OF this(1) Inr this(2)] show "moneyStep True (\<lambda>_ _. False) demoDb0
    (case buildRecordCollection demoDb0 (demoOrder ''a'' ''RESERVED'') (demoFundRevision ''a'' 0) demoCollection of
      Inr effect \<Rightarrow> applyOrderFunds ''RECORD_COLLECTION'' effect (demoFundRevision ''a'' 0) ''c1'' ''f1'' [] demoDb0 | Inl _ \<Rightarrow> demoDb0)"
    by (simp add: Inr)
qed (simp add: moneyStep.other_tables)

lemma demo_run: "(moneyStep True (\<lambda>_ _. False))\<^sup>*\<^sup>* demoDb0 demoDb3"
proof -
  note demo_collection
  moreover have "moneyStep True (\<lambda>_ _. False) (collectionOf demoDb0) demoDb1" by (rule moneyStep.other_tables) (simp_all add: demoDb1_def)
  moreover have "''RETAIN_ORDER_FUNDS'' \<in> set retainedFundsCommandTypes" "''APPLY_RETAINED_FUNDS'' \<in> set retainedFundsCommandTypes"
    "freshIds demoDb1 (demoIds ''1'')" "freshIds demoDb2 (demoIds ''2'')" by code_simp+
  note n = this
  moreover have "moneyStep True (\<lambda>_ _. False) demoDb1 demoDb2" unfolding demoDb2_def by (rule retainedOf_step [OF n(1,3)])
  moreover have "moneyStep True (\<lambda>_ _. False) demoDb2 demoDb3" unfolding demoDb3_def by (rule retainedOf_step [OF n(2,4)])
  ultimately show ?thesis by (meson converse_rtranclp_into_rtranclp rtranclp.rtrancl_refl)
qed

theorem money_spent_once_witness:
  "refundedMinor (m_facts demoDb3) ''f1'' + 20000 + 10000 \<le> 50000 \<and> map fa_fact_id (m_facts demoDb3) = [''f1'', ''o2'', ''i2'']
   \<and> refundedMinor (m_facts (collectionOf demoDb0)) ''f1'' \<le> 50000 \<and> m_retained (collectionOf demoDb0) = []"
proof -
  have start: "noMoney demoDb0" by (simp add: noMoney_def demoDb0_def)
  have v: "hd (m_facts demoDb3) \<in> set (m_facts demoDb3)" "isShare (hd (m_facts demoDb3))"
    "fa_fact_id (hd (m_facts demoDb3)) = ''f1''" "transferredMinor (m_facts demoDb3) ''f1'' = 20000" "reservedMinor demoDb3 ''f1'' = 10000"
    "factReversed (m_facts demoDb3) ''f1'' = False" "fa_amount_minor (hd (m_facts demoDb3)) = 50000"
    "map fa_fact_id (m_facts demoDb3) = [''f1'', ''o2'', ''i2'']"
    by code_simp+
  let ?c = "collectionOf demoDb0"
  have w: "hd (m_facts ?c) \<in> set (m_facts ?c)" "isShare (hd (m_facts ?c))" "fa_fact_id (hd (m_facts ?c)) = ''f1''"
    "factReversed (m_facts ?c) ''f1'' = False" "fa_amount_minor (hd (m_facts ?c)) = 50000" "m_retained ?c = []"
    by code_simp+
  have one: "(moneyStep True (\<lambda>_ _. False))\<^sup>*\<^sup>* demoDb0 ?c" by (rule r_into_rtranclp) (rule demo_collection)
  from money_spent_once [OF start demo_run, THEN conjunct1, rule_format, OF v(1,2)] v(3-)
    money_spent_once [OF start one, THEN conjunct1, rule_format, OF w(1,2)] w(3-)
  show ?thesis by simp
qed

text \<open>
  C8: a command on retained funds moves its amount and no more. Applying a fund takes the amount from the net
  receipts of its source order and gives it to the other order, refunding it takes the amount from the source
  order, retaining and releasing move no money; retaining adds one fund of exactly the amount, and every other
  command leaves the funds as they are and uses the amount of one of them, which had as much left.
\<close>

theorem retained_conserves:
  assumes "buildRetainedFundsEffect enabled like db command input = Inr (effect, basis)"
  shows "let after = snd (applyRetainedFundsCommand command effect commandId ids now db); amount = fe_amountMinor effect in
    0 < amount \<and> (\<forall>x. orderNet after x = orderNet db x
      + (if command = ''APPLY_RETAINED_FUNDS'' \<and> x = fe_orderId effect then amount else 0)
      - (if command \<in> {''APPLY_RETAINED_FUNDS'', ''REFUND_RETAINED_FUNDS''} \<and> x = fe_sourceOrderId effect then amount else 0))
    \<and> (if command = ''RETAIN_ORDER_FUNDS'' then
         m_entries after = m_entries db
         \<and> (\<exists>l. m_retained after = m_retained db @ [l] \<and> rf_amount_minor l = amount \<and> rf_source_fact_id l = fe_sourceFactId effect)
       else
         m_retained after = m_retained db
         \<and> (\<exists>l\<in>set (m_retained db). amount \<le> lotRemaining (m_entries db) l \<and> lotRemaining (m_entries after) l = lotRemaining (m_entries db) l - amount
             \<and> (\<forall>k. rf_id k \<noteq> rf_id l \<longrightarrow> lotRemaining (m_entries after) k = lotRemaining (m_entries db) k)))"
proof (cases rule: buildRetained_cases [OF assms, case_names retain lot])
  case (retain source p)
  then obtain ord where "orderRow db (fe_orderId effect) = Some ord" by auto
  with retain show ?thesis by (simp add: applyRetainedFundsCommand_def insertRetained_def Let_def orderNet_def)
next
  case (lot row)
  from lot(2) have L: "row \<in> set (m_retained db)" "fe_retainedFundId effect = Some (rf_id row)"
    "fe_amountMinor effect \<le> lotRemaining (m_entries db) row" "orderRow db (fe_orderId effect) \<noteq> None"
    "orderRow db (fe_sourceOrderId effect) \<noteq> None" by (auto simp: lotEffect_def)
  from applyLot_tables [OF lot(1) L(4,5), of commandId ids now] obtain fs e where
    T: "m_facts (snd (applyRetainedFundsCommand command effect commandId ids now db)) = m_facts db @ fs"
      "m_retained (snd (applyRetainedFundsCommand command effect commandId ids now db)) = m_retained db"
      "m_entries (snd (applyRetainedFundsCommand command effect commandId ids now db)) = m_entries db @ [e]"
    and E: "re_retained_fund_id e = rf_id row" "re_amount_minor e = fe_amountMinor effect"
    and O: "map fu_order_id fs = (if command = ''APPLY_RETAINED_FUNDS'' then [fe_sourceOrderId effect, fe_orderId effect]
        else if command = ''REFUND_RETAINED_FUNDS'' then [fe_sourceOrderId effect] else [])"
    and N: "map fa_net_effect_minor fs = (if command = ''APPLY_RETAINED_FUNDS'' then [- fe_amountMinor effect, fe_amountMinor effect]
        else if command = ''REFUND_RETAINED_FUNDS'' then [- fe_amountMinor effect] else [])"
    using L(2) by (auto simp: textOf_def)
  have net: "orderNet (snd (applyRetainedFundsCommand command effect commandId ids now db)) x = orderNet db x
      + (if command = ''APPLY_RETAINED_FUNDS'' \<and> x = fe_orderId effect then fe_amountMinor effect else 0)
      - (if command \<in> {''APPLY_RETAINED_FUNDS'', ''REFUND_RETAINED_FUNDS''} \<and> x = fe_sourceOrderId effect then fe_amountMinor effect else 0)" for x
    using O N by (auto simp: orderNet_def T(1) map_eq_Cons_conv split: if_splits)
  have rem: "lotRemaining (m_entries db @ [e]) k = lotRemaining (m_entries db) k - (if rf_id k = rf_id row then fe_amountMinor effect else 0)" for k
    using E by (simp add: lotRemaining_def usedOfLot_snoc)
  show ?thesis using lot(1,3) L(1,3) net rem by (auto simp: Let_def T(2,3))
qed

definition demoApplied :: "(retained_effect \<times> retained_basis) option" where
  "demoApplied = (case buildRetainedFundsEffect True (\<lambda>_ _. False) demoDb2 ''APPLY_RETAINED_FUNDS'' demoApply of
     Inr r \<Rightarrow> Some r | Inl _ \<Rightarrow> None)"

theorem retained_conserves_witness:
  "orderNet demoDb3 ''a'' = orderNet demoDb2 ''a'' - 20000 \<and> orderNet demoDb3 ''b'' = orderNet demoDb2 ''b'' + 20000"
proof -
  have a: "demoApplied \<noteq> None" and v: "(case demoApplied of None \<Rightarrow> False | Some (effect, _) \<Rightarrow> fe_orderId effect = ''b''
      \<and> fe_sourceOrderId effect = ''a'' \<and> fe_amountMinor effect = 20000)" by code_simp+
  from a obtain effect basis where e: "demoApplied = Some (effect, basis)" by auto
  then have b: "buildRetainedFundsEffect True (\<lambda>_ _. False) demoDb2 ''APPLY_RETAINED_FUNDS'' demoApply = Inr (effect, basis)"
    by (auto simp: demoApplied_def split: sum.splits)
  have d: "demoDb3 = snd (applyRetainedFundsCommand ''APPLY_RETAINED_FUNDS'' effect ''c2'' (demoIds ''2'') 5 demoDb2)"
    by (simp add: demoDb3_def retainedOf_def b)
  from retained_conserves [OF b, of "''c2''" "demoIds ''2''" 5] v show ?thesis by (auto simp: Let_def d e)
qed

end
