(* ===== verification/Entitlements.thy ===== *)
theory Entitlements
  imports InputFields
begin

text \<open>
  The nights of members: \<^verbatim>\<open>packages/db/src/entitlement-balance.ts\<close>, the coverage operations at the end of
  \<^verbatim>\<open>packages/db/src/orders.ts\<close> (hold, reconcile, release, consume, restore), and the commands of
  \<^verbatim>\<open>commands/effects.ts\<close> and \<^verbatim>\<open>apply.ts\<close> that add, adjust and expire a lot or consume its nights by a
  conversion. A coverage item is one night of one order; every change of its status is recorded in an
  append-only ledger of its lot. The identifiers that newId draws are functions of what they are drawn for (the
  night of a new item, the item whose facts are written); a scan without an order reads the rows in the order of
  the table. The local date of the property and the evidence of a temporary other room are arguments.
\<close>

section \<open>Balances\<close>

definition POSTGRES_INTEGER_MAX :: int where
  "POSTGRES_INTEGER_MAX = 2147483647"

text \<open>What the driver returns for a bigint column.\<close>

datatype pg_value = PgBigInt int | PgNumber int | PgText string | PgOther

definition digits :: "string \<Rightarrow> bool" where
  "digits s \<longleftrightarrow> s \<noteq> [] \<and> list_all isDigit s"

definition parsePostgresBigInt :: "pg_value \<Rightarrow> int result" where
  "parsePostgresBigInt value =
     (case value of PgBigInt n \<Rightarrow> Inr n
      | PgNumber n \<Rightarrow> if safe_int n then Inr n else throw INTERNAL_ERROR 500
      | PgText s \<Rightarrow>
          if digits s then Inr (numOf s)
          else if s \<noteq> [] \<and> hd s = CHR ''-'' \<and> digits (tl s) then Inr (- numOf (tl s))
          else throw INTERNAL_ERROR 500
      | PgOther \<Rightarrow> throw INTERNAL_ERROR 500)"

definition boundedEntitlementBalance :: "int \<Rightarrow> int result" where
  "boundedEntitlementBalance balance =
     (if balance < 0 \<or> POSTGRES_INTEGER_MAX < balance then throw ENTITLEMENT_CONFLICT 409 else Inr balance)"

definition entitlementAvailableBalance :: "int \<Rightarrow> pg_value \<Rightarrow> int result" where
  "entitlementAvailableBalance totalUnits ledgerDelta =
     (if \<not> safe_int totalUnits \<or> totalUnits < 0 then throw INTERNAL_ERROR 500
      else bindR (parsePostgresBigInt ledgerDelta) (\<lambda>delta. boundedEntitlementBalance (totalUnits + delta)))"

definition adjustedEntitlementAvailableBalance :: "int \<Rightarrow> int \<Rightarrow> int result" where
  "adjustedEntitlementAvailableBalance currentAvailable quantityDelta =
     (if \<not> safe_int currentAvailable \<or> \<not> safe_int quantityDelta then throw INTERNAL_ERROR 500
      else boundedEntitlementBalance (currentAvailable + quantityDelta))"

section \<open>Tables\<close>

datatype contract_state = CONTRACT_ACTIVE | CONTRACT_EXPIRED | CONTRACT_VOIDED

record contract_row =
  mc_id :: string
  mc_property_id :: string
  mc_member_id :: "string option"
  mc_status :: contract_state
  mc_valid_from :: string
  mc_valid_until :: string
  mc_version :: int

datatype lot_state = LOT_ACTIVE | LOT_VOIDED

record lot_row =
  el_id :: string
  el_contract_id :: string
  el_unit_kind :: entitlement_unit_kind
  el_total_units :: int
  el_expires_on :: string
  el_status :: lot_state
  el_version :: int

datatype coverage_state = HELD | CONSUMED | RELEASED

record coverage_row =
  cv_id :: string
  cv_order_id :: string
  cv_contract_id :: string
  cv_lot_id :: string
  cv_inventory_unit_id :: string
  cv_service_date :: string
  cv_unit_kind :: entitlement_unit_kind
  cv_status :: coverage_state
  cv_held_by_revision_id :: string

datatype ledger_entry_type = ADJUST | HOLD | RELEASE | CONSUME | RESTORE | EXPIRE | CONVERSION_CONSUME | VOID

record ledger_row =
  lg_fact_id :: string
  lg_lot_id :: string
  lg_entry_type :: ledger_entry_type
  lg_quantity_delta :: int
  lg_service_date :: "string option"
  lg_order_id :: "string option"
  lg_coverage_id :: "string option"
  lg_reason :: string
  lg_command_id :: string

record entitlement_db =
  en_contracts :: "contract_row list"
  en_lots :: "lot_row list"
  en_coverage :: "coverage_row list"
  en_ledger :: "ledger_row list"

section \<open>Coverage operations\<close>

text \<open>The drawn identifiers: of the item of a night, of the fact of a night or an item, of its expiration.\<close>

record entitlement_ids =
  ei_coverage :: "string \<Rightarrow> string"
  ei_fact :: "string \<Rightarrow> string"
  ei_expire :: "string \<Rightarrow> string"

record coverage_refs =
  rc_coverageIds :: "string list"
  rc_factIds :: "string list"

definition uniq :: "'a list \<Rightarrow> 'a list" where
  "uniq xs = rev (remdups (rev xs))"

definition appendLedger :: "ledger_row \<Rightarrow> entitlement_db \<Rightarrow> entitlement_db" where
  "appendLedger row db = db\<lparr>en_ledger := en_ledger db @ [row]\<rparr>"

definition setCoverageState :: "coverage_state \<Rightarrow> (coverage_row \<Rightarrow> bool) \<Rightarrow> entitlement_db \<Rightarrow> entitlement_db" where
  "setCoverageState st P db = db\<lparr>en_coverage := updateWhere P (\<lambda>c. c\<lparr>cv_status := st\<rparr>) (en_coverage db)\<rparr>"

definition coverageFact :: "string \<Rightarrow> ledger_entry_type \<Rightarrow> int \<Rightarrow> string \<Rightarrow> string \<Rightarrow> string \<Rightarrow> coverage_row \<Rightarrow> ledger_row" where
  "coverageFact factId entryType delta reason orderId commandId item =
     \<lparr>lg_fact_id = factId, lg_lot_id = cv_lot_id item, lg_entry_type = entryType, lg_quantity_delta = delta,
      lg_service_date = Some (cv_service_date item), lg_order_id = Some orderId, lg_coverage_id = Some (cv_id item),
      lg_reason = reason, lg_command_id = commandId\<rparr>"

definition incrementContractAndLotVersions :: "string \<Rightarrow> string list \<Rightarrow> entitlement_db \<Rightarrow> entitlement_db" where
  "incrementContractAndLotVersions contractId lotIds db =
     db\<lparr>en_contracts := updateWhere (\<lambda>c. mc_id c = contractId) (\<lambda>c. c\<lparr>mc_version := mc_version c + 1\<rparr>) (en_contracts db),
        en_lots := updateWhere (\<lambda>l. el_id l \<in> set lotIds) (\<lambda>l. l\<lparr>el_version := el_version l + 1\<rparr>) (en_lots db)\<rparr>"

text \<open>The loop over the contracts of the touched items, with the lots of each.\<close>

definition incrementOwners :: "(string \<times> string) list \<Rightarrow> entitlement_db \<Rightarrow> entitlement_db" where
  "incrementOwners owners db =
     fold (\<lambda>contractId. incrementContractAndLotVersions contractId (uniq (map snd (filter (\<lambda>(c, _). c = contractId) owners))))
       (uniq (map fst owners)) db"

definition itemOwners :: "coverage_row list \<Rightarrow> (string \<times> string) list" where
  "itemOwners items = map (\<lambda>i. (cv_contract_id i, cv_lot_id i)) items"

text \<open>The inner join of a lot and its contract: the contract and the member.\<close>

definition lotOwner :: "entitlement_db \<Rightarrow> string \<Rightarrow> (string \<times> string option) option" where
  "lotOwner db lotId =
     (case find (\<lambda>l. el_id l = lotId) (en_lots db) of None \<Rightarrow> None
      | Some l \<Rightarrow> map_option (\<lambda>c. (el_contract_id l, mc_member_id c)) (find (\<lambda>c. mc_id c = el_contract_id l) (en_contracts db)))"

text \<open>The contract an item is held for: the lot belongs to the member when one is named, else to the contract.\<close>

definition coverageContract :: "entitlement_db \<Rightarrow> string \<Rightarrow> string option \<Rightarrow> coverage_item_dto \<Rightarrow> string result" where
  "coverageContract db contractId memberId item =
     (case lotOwner db (ci_entitlementLotId item) of None \<Rightarrow> throw ENTITLEMENT_CONFLICT 409
      | Some (ownerContract, ownerMember) \<Rightarrow>
        if memberId \<noteq> None \<and> memberId \<noteq> Some [] then
          (if ownerMember = memberId then Inr ownerContract else throw ENTITLEMENT_CONFLICT 409)
        else if ownerContract = contractId then Inr ownerContract else throw ENTITLEMENT_CONFLICT 409)"

definition heldRow :: "string \<Rightarrow> string \<Rightarrow> string \<Rightarrow> string \<Rightarrow> coverage_item_dto \<Rightarrow> coverage_row" where
  "heldRow coverageId orderId contractId revisionId item =
     \<lparr>cv_id = coverageId, cv_order_id = orderId, cv_contract_id = contractId, cv_lot_id = ci_entitlementLotId item,
      cv_inventory_unit_id = ci_inventoryUnitId item, cv_service_date = ci_serviceDate item, cv_unit_kind = ci_unitKind item,
      cv_status = HELD, cv_held_by_revision_id = revisionId\<rparr>"

text \<open>The insertion of a held item with its HOLD fact.\<close>

definition insertHeld ::
  "entitlement_ids \<Rightarrow> string \<Rightarrow> string \<Rightarrow> string \<Rightarrow> string \<Rightarrow> coverage_item_dto \<Rightarrow> entitlement_db \<Rightarrow> entitlement_db" where
  "insertHeld ids orderId contractId revisionId commandId item db =
     (let row = heldRow (ei_coverage ids (ci_serviceDate item)) orderId contractId revisionId item in
      appendLedger (coverageFact (ei_fact ids (ci_serviceDate item)) HOLD (-1) ''ORDER_COVERAGE_HOLD'' orderId commandId row)
        (db\<lparr>en_coverage := en_coverage db @ [row]\<rparr>))"

definition coverageMatches :: "coverage_row \<Rightarrow> coverage_item_dto \<Rightarrow> string \<Rightarrow> bool" where
  "coverageMatches item desired contractId \<longleftrightarrow>
     cv_contract_id item = contractId \<and> cv_lot_id item = ci_entitlementLotId desired
     \<and> cv_inventory_unit_id item = ci_inventoryUnitId desired \<and> cv_unit_kind item = ci_unitKind desired"

definition activeOn :: "entitlement_db \<Rightarrow> string \<Rightarrow> string \<Rightarrow> coverage_row option" where
  "activeOn db orderId serviceDate =
     find (\<lambda>c. cv_order_id c = orderId \<and> cv_service_date c = serviceDate \<and> cv_status c \<noteq> RELEASED) (en_coverage db)"

definition holdStep ::
  "entitlement_ids \<Rightarrow> string \<Rightarrow> string \<Rightarrow> string option \<Rightarrow> string \<Rightarrow> string \<Rightarrow> coverage_refs \<times> entitlement_db \<Rightarrow> coverage_item_dto
     \<Rightarrow> (coverage_refs \<times> entitlement_db) result" where
  "holdStep ids orderId contractId memberId revisionId commandId = (\<lambda>(refs, db) item.
     bindR (coverageContract db contractId memberId item) (\<lambda>coverageContractId.
     case activeOn db orderId (ci_serviceDate item) of
       Some existing \<Rightarrow>
         if \<not> coverageMatches existing item coverageContractId then throw ENTITLEMENT_CONFLICT 409
         else Inr (refs\<lparr>rc_coverageIds := rc_coverageIds refs @ [cv_id existing]\<rparr>, db)
     | None \<Rightarrow>
         Inr (\<lparr>rc_coverageIds = rc_coverageIds refs @ [ei_coverage ids (ci_serviceDate item)],
               rc_factIds = rc_factIds refs @ [ei_fact ids (ci_serviceDate item)]\<rparr>,
              insertHeld ids orderId coverageContractId revisionId commandId item db)))"

definition noRefs :: coverage_refs where
  "noRefs = \<lparr>rc_coverageIds = [], rc_factIds = []\<rparr>"

definition holdCoverage ::
  "entitlement_ids \<Rightarrow> string \<Rightarrow> string \<Rightarrow> string option \<Rightarrow> string \<Rightarrow> coverage_item_dto list \<Rightarrow> string \<Rightarrow> entitlement_db
     \<Rightarrow> (coverage_refs \<times> entitlement_db) result" where
  "holdCoverage ids orderId contractId memberId revisionId coverageSet commandId db =
     foldR (holdStep ids orderId contractId memberId revisionId commandId) (noRefs, db) coverageSet"

definition lotExpired :: "entitlement_db \<Rightarrow> string \<Rightarrow> bool" where
  "lotExpired db lotId = list_ex (\<lambda>f. lg_lot_id f = lotId \<and> lg_entry_type f = EXPIRE) (en_ledger db)"

text \<open>The release of one held item; a unit of an expired lot expires again unless it is held again.\<close>

definition releaseItem :: "entitlement_ids \<Rightarrow> string \<Rightarrow> string \<Rightarrow> (coverage_row \<Rightarrow> bool) \<Rightarrow> coverage_row \<Rightarrow> entitlement_db \<Rightarrow> entitlement_db" where
  "releaseItem ids orderId commandId expires item db =
     (let released = appendLedger (coverageFact (ei_fact ids (cv_id item)) RELEASE 1 ''ORDER_COVERAGE_RELEASE'' orderId commandId item)
            (setCoverageState RELEASED (\<lambda>c. cv_id c = cv_id item) db) in
      if expires item
      then appendLedger (coverageFact (ei_expire ids (cv_id item)) EXPIRE (-1) ''RELEASE_AFTER_EXPIRY'' orderId commandId item) released
      else released)"

definition releaseFactIds :: "entitlement_ids \<Rightarrow> (coverage_row \<Rightarrow> bool) \<Rightarrow> coverage_row \<Rightarrow> string list" where
  "releaseFactIds ids expires item = ei_fact ids (cv_id item) # (if expires item then [ei_expire ids (cv_id item)] else [])"

record release_options =
  ro_fromDate :: "string option"
  ro_incompatibleUnitKind :: "entitlement_unit_kind option"
  ro_reholdCoverageSet :: "coverage_item_dto list"

definition releaseAllHeld :: release_options where
  "releaseAllHeld = \<lparr>ro_fromDate = None, ro_incompatibleUnitKind = None, ro_reholdCoverageSet = []\<rparr>"

definition rehold_key :: "string \<Rightarrow> string \<Rightarrow> string" where
  "rehold_key serviceDate lotId = serviceDate @ '':'' @ lotId"

definition releaseCoverage ::
  "entitlement_ids \<Rightarrow> string \<Rightarrow> string \<Rightarrow> release_options \<Rightarrow> entitlement_db \<Rightarrow> coverage_refs \<times> entitlement_db" where
  "releaseCoverage ids orderId commandId options db =
     (let items = filter (\<lambda>c. cv_order_id c = orderId \<and> cv_status c = HELD
            \<and> (case ro_fromDate options of None \<Rightarrow> True | Some d \<Rightarrow> d \<le> cv_service_date c)
            \<and> (case ro_incompatibleUnitKind options of None \<Rightarrow> True | Some k \<Rightarrow> cv_unit_kind c \<noteq> k)) (en_coverage db);
          reholdKeys = map (\<lambda>i. rehold_key (ci_serviceDate i) (ci_entitlementLotId i)) (ro_reholdCoverageSet options);
          expires = (\<lambda>i. lotExpired db (cv_lot_id i) \<and> rehold_key (cv_service_date i) (cv_lot_id i) \<notin> set reholdKeys) in
      (\<lparr>rc_coverageIds = map cv_id items, rc_factIds = concat (map (releaseFactIds ids expires) items)\<rparr>,
       incrementOwners (itemOwners items) (fold (releaseItem ids orderId commandId expires) items db)))"

definition byServiceDate :: "coverage_row list \<Rightarrow> coverage_row list" where
  "byServiceDate = sortBy (\<lambda>a b. cv_service_date a \<le> cv_service_date b)"

definition consumeItem :: "entitlement_ids \<Rightarrow> string \<Rightarrow> string \<Rightarrow> string \<Rightarrow> coverage_row \<Rightarrow> entitlement_db \<Rightarrow> entitlement_db" where
  "consumeItem ids orderId commandId reason item db =
     appendLedger (coverageFact (ei_fact ids (cv_id item)) CONSUME 0 reason orderId commandId item)
       (setCoverageState CONSUMED (\<lambda>c. cv_id c = cv_id item) db)"

definition consumeReason :: string where
  "consumeReason = ''CHECK_IN_ENTITLEMENT_CONSUMED''"

definition sortedDates :: "string list \<Rightarrow> string list" where
  "sortedDates dates = sortBy (\<le>) (uniq dates)"

definition consumeCoverage ::
  "entitlement_ids \<Rightarrow> string \<Rightarrow> string \<Rightarrow> string list option \<Rightarrow> string \<Rightarrow> entitlement_db \<Rightarrow> (coverage_refs \<times> entitlement_db) result" where
  "consumeCoverage ids orderId commandId serviceDates reason db =
     (if serviceDates = Some [] then Inr (noRefs, db)
      else
        let items = byServiceDate (filter (\<lambda>c. cv_order_id c = orderId \<and> cv_status c = HELD
              \<and> (case serviceDates of None \<Rightarrow> True | Some ds \<Rightarrow> cv_service_date c \<in> set ds)) (en_coverage db)) in
        if (case serviceDates of None \<Rightarrow> False | Some ds \<Rightarrow> map cv_service_date items \<noteq> sortedDates ds) then throw INTERNAL_ERROR 500
        else Inr (\<lparr>rc_coverageIds = map cv_id items, rc_factIds = map (\<lambda>i. ei_fact ids (cv_id i)) items\<rparr>,
          incrementOwners (itemOwners items) (fold (consumeItem ids orderId commandId reason) items db)))"

definition itemFacts :: "entitlement_db \<Rightarrow> ledger_entry_type \<Rightarrow> coverage_row \<Rightarrow> nat" where
  "itemFacts db entryType item =
     countWhere (\<lambda>f. lg_coverage_id f = Some (cv_id item) \<and> lg_entry_type f = entryType) (en_ledger db)"

definition restoreFact :: "entitlement_ids \<Rightarrow> string \<Rightarrow> string \<Rightarrow> string \<Rightarrow> coverage_row \<Rightarrow> entitlement_db \<Rightarrow> entitlement_db" where
  "restoreFact ids orderId commandId reason item =
     appendLedger (coverageFact (ei_fact ids (cv_id item)) RESTORE 1 reason orderId commandId item)"

definition restoreConsumedCoverage ::
  "entitlement_ids \<Rightarrow> string \<Rightarrow> string \<Rightarrow> entitlement_db \<Rightarrow> (coverage_refs \<times> entitlement_db) result" where
  "restoreConsumedCoverage ids orderId commandId db =
     (let items = byServiceDate (filter (\<lambda>c. cv_order_id c = orderId \<and> cv_status c = CONSUMED) (en_coverage db)) in
      if items = [] then Inr (noRefs, db)
      else if list_ex (\<lambda>i. itemFacts db CONSUME i = 0 \<or> 0 < itemFacts db RESTORE i) items then throw ENTITLEMENT_CONFLICT 409
      else Inr (\<lparr>rc_coverageIds = map cv_id items, rc_factIds = map (\<lambda>i. ei_fact ids (cv_id i)) items\<rparr>,
        incrementOwners (itemOwners items)
          (fold (restoreFact ids orderId commandId ''REVOKE_CHECK_IN_ENTITLEMENT_RESTORED'') items db)))"

text \<open>A fact with an empty item identifier is not counted.\<close>

definition consumptionCount :: "entitlement_db \<Rightarrow> coverage_row \<Rightarrow> nat" where
  "consumptionCount db item = (if cv_id item = [] then 0 else itemFacts db CONSUME item + itemFacts db CONVERSION_CONSUME item)"

definition restoreFutureItem :: "entitlement_ids \<Rightarrow> string \<Rightarrow> string \<Rightarrow> coverage_row \<Rightarrow> entitlement_db \<Rightarrow> entitlement_db" where
  "restoreFutureItem ids orderId commandId item db =
     setCoverageState RELEASED (\<lambda>c. cv_id c = cv_id item \<and> cv_status c = CONSUMED)
       (restoreFact ids orderId commandId ''SHORTEN_STAY_FUTURE_ENTITLEMENT_RESTORED'' item db)"

definition restoreFutureConsumedCoverage ::
  "entitlement_ids \<Rightarrow> string \<Rightarrow> string \<Rightarrow> string list \<Rightarrow> entitlement_db \<Rightarrow> (coverage_refs \<times> entitlement_db) result" where
  "restoreFutureConsumedCoverage ids orderId commandId serviceDates db =
     (let requestedDates = sortedDates serviceDates in
      if requestedDates = [] then Inr (noRefs, db)
      else
        let items = byServiceDate (filter (\<lambda>c. cv_order_id c = orderId \<and> cv_service_date c \<in> set requestedDates
              \<and> cv_status c = CONSUMED) (en_coverage db)) in
        if map cv_service_date items \<noteq> requestedDates then throw ENTITLEMENT_CONFLICT 409
        else if list_ex (\<lambda>i. consumptionCount db i \<noteq> 1 \<or> cv_id i \<noteq> [] \<and> 0 < itemFacts db RESTORE i) items
        then throw ENTITLEMENT_CONFLICT 409
        else Inr (\<lparr>rc_coverageIds = map cv_id items, rc_factIds = map (\<lambda>i. ei_fact ids (cv_id i)) items\<rparr>,
          incrementOwners (itemOwners items) (fold (restoreFutureItem ids orderId commandId) items db)))"

section \<open>Reconciling the coverage of an order with a price\<close>

type_synonym desired_coverage = "(string \<times> coverage_item_dto \<times> string) list"

definition desiredStep ::
  "entitlement_db \<Rightarrow> string \<Rightarrow> string option \<Rightarrow> desired_coverage \<Rightarrow> coverage_item_dto \<Rightarrow> desired_coverage result" where
  "desiredStep db contractId memberId desired item =
     (if jmap_get desired (ci_serviceDate item) \<noteq> None then throw INTERNAL_ERROR 500
      else bindR (coverageContract db contractId memberId item) (\<lambda>owner. Inr (jmap_set (ci_serviceDate item) (item, owner) desired)))"

text \<open>The state of the loop: the results, the lots whose balance changed, the nights still to hold, the tables.\<close>

record reconciliation =
  re_refs :: coverage_refs
  re_changed :: "string list"
  re_desired :: desired_coverage
  re_tables :: entitlement_db

definition keepItem :: "coverage_row \<Rightarrow> bool \<Rightarrow> reconciliation \<Rightarrow> reconciliation" where
  "keepItem item known st =
     st\<lparr>re_refs := (re_refs st)\<lparr>rc_coverageIds := rc_coverageIds (re_refs st) @ [cv_id item]\<rparr>,
        re_desired := (if known then filter (\<lambda>(d, _). d \<noteq> cv_service_date item) (re_desired st) else re_desired st)\<rparr>"

definition reconcileStep ::
  "entitlement_ids \<Rightarrow> string \<Rightarrow> string \<Rightarrow> (coverage_row \<Rightarrow> bool) \<Rightarrow> reconciliation \<Rightarrow> coverage_row \<Rightarrow> reconciliation result" where
  "reconcileStep ids orderId commandId expired st item =
     (let desired = jmap_get (re_desired st) (cv_service_date item);
          matches = (case desired of None \<Rightarrow> False | Some (d, owner) \<Rightarrow> coverageMatches item d owner) in
      if cv_status item = CONSUMED then
        (if desired \<noteq> None \<and> \<not> matches then throw ENTITLEMENT_CONFLICT 409 else Inr (keepItem item (desired \<noteq> None) st))
      else if matches then Inr (keepItem item True st)
      else
        let expires = (\<lambda>i. expired i \<and> (case desired of None \<Rightarrow> True | Some (d, _) \<Rightarrow> ci_entitlementLotId d \<noteq> cv_lot_id i)) in
        Inr \<lparr>re_refs = \<lparr>rc_coverageIds = rc_coverageIds (re_refs st) @ [cv_id item],
               rc_factIds = rc_factIds (re_refs st) @ releaseFactIds ids expires item\<rparr>,
             re_changed = cv_lot_id item # re_changed st, re_desired = re_desired st,
             re_tables = releaseItem ids orderId commandId expires item (re_tables st)\<rparr>)"

definition holdDesired ::
  "entitlement_ids \<Rightarrow> string \<Rightarrow> string \<Rightarrow> string \<Rightarrow> coverage_item_dto \<times> string \<Rightarrow> reconciliation \<Rightarrow> reconciliation" where
  "holdDesired ids orderId revisionId commandId = (\<lambda>(item, contractId) st.
     st\<lparr>re_refs := \<lparr>rc_coverageIds = rc_coverageIds (re_refs st) @ [ei_coverage ids (ci_serviceDate item)],
          rc_factIds = rc_factIds (re_refs st) @ [ei_fact ids (ci_serviceDate item)]\<rparr>,
        re_changed := ci_entitlementLotId item # re_changed st,
        re_tables := insertHeld ids orderId contractId revisionId commandId item (re_tables st)\<rparr>)"

definition reconcileCoverage ::
  "entitlement_ids \<Rightarrow> string \<Rightarrow> string \<Rightarrow> string option \<Rightarrow> string \<Rightarrow> coverage_item_dto list \<Rightarrow> string \<Rightarrow> entitlement_db
     \<Rightarrow> (coverage_refs \<times> entitlement_db) result" where
  "reconcileCoverage ids orderId contractId memberId revisionId coverageSet commandId db =
     bindR (foldR (desiredStep db contractId memberId) [] coverageSet) (\<lambda>desired.
     let active = byServiceDate (filter (\<lambda>c. cv_order_id c = orderId \<and> cv_status c \<noteq> RELEASED) (en_coverage db)) in
     bindR (foldR (reconcileStep ids orderId commandId (\<lambda>i. lotExpired db (cv_lot_id i)))
         \<lparr>re_refs = noRefs, re_changed = [], re_desired = desired, re_tables = db\<rparr> active) (\<lambda>st.
     let held = fold (holdDesired ids orderId revisionId commandId) (map snd (re_desired st)) st;
         changedLots = filter (\<lambda>l. el_id l \<in> set (re_changed held)) (en_lots (re_tables held)) in
     Inr (re_refs held, incrementOwners (map (\<lambda>l. (el_contract_id l, el_id l)) changedLots) (re_tables held))))"

section \<open>Conversion of a stay into a membership\<close>

text \<open>
  The loop of CONVERT_STAY_COLLECTIONS_TO_MEMBERSHIP: a guest in house gets a consumed item per night of the
  timeline, a completed stay only the facts.
\<close>

definition convertNight ::
  "entitlement_ids \<Rightarrow> string \<Rightarrow> string \<Rightarrow> string \<Rightarrow> string \<Rightarrow> entitlement_unit_kind \<Rightarrow> string \<Rightarrow> string \<times> string option
     \<Rightarrow> entitlement_db \<Rightarrow> entitlement_db" where
  "convertNight ids orderId contractId lotId revisionId unitKind commandId = (\<lambda>(serviceDate, inHouseUnit) db.
     let fact = (\<lambda>coverageId. \<lparr>lg_fact_id = ei_fact ids serviceDate, lg_lot_id = lotId, lg_entry_type = CONVERSION_CONSUME,
           lg_quantity_delta = -1, lg_service_date = Some serviceDate, lg_order_id = Some orderId, lg_coverage_id = coverageId,
           lg_reason = ''STAY_COLLECTION_TO_MEMBERSHIP_CONSUMED'', lg_command_id = commandId\<rparr>) in
     case inHouseUnit of
       Some unitId \<Rightarrow> appendLedger (fact (Some (ei_coverage ids serviceDate)))
         (db\<lparr>en_coverage := en_coverage db @ [\<lparr>cv_id = ei_coverage ids serviceDate, cv_order_id = orderId, cv_contract_id = contractId,
            cv_lot_id = lotId, cv_inventory_unit_id = unitId, cv_service_date = serviceDate, cv_unit_kind = unitKind,
            cv_status = CONSUMED, cv_held_by_revision_id = revisionId\<rparr>]\<rparr>)
     | None \<Rightarrow> appendLedger (fact None) db)"

definition convertNights ::
  "entitlement_ids \<Rightarrow> string \<Rightarrow> string \<Rightarrow> string \<Rightarrow> string \<Rightarrow> entitlement_unit_kind \<Rightarrow> string \<Rightarrow> (string \<times> string option) list
     \<Rightarrow> entitlement_db \<Rightarrow> entitlement_db" where
  "convertNights ids orderId contractId lotId revisionId unitKind commandId nights db =
     incrementContractAndLotVersions contractId [lotId]
       (fold (convertNight ids orderId contractId lotId revisionId unitKind commandId) nights db)"

section \<open>Commands on a lot\<close>

text \<open>What the queries of a lot join: the lot and its contract in the property.\<close>

definition propertyLot :: "entitlement_db \<Rightarrow> string \<Rightarrow> string \<Rightarrow> (lot_row \<times> contract_row) option" where
  "propertyLot db propertyId lotId =
     (case find (\<lambda>l. el_id l = lotId) (en_lots db) of None \<Rightarrow> None
      | Some l \<Rightarrow> map_option (\<lambda>c. (l, c)) (find (\<lambda>c. mc_id c = el_contract_id l \<and> mc_property_id c = propertyId) (en_contracts db)))"

definition ledgerSum :: "entitlement_db \<Rightarrow> string \<Rightarrow> int" where
  "ledgerSum db lotId = sum_list (map lg_quantity_delta (filter (\<lambda>f. lg_lot_id f = lotId) (en_ledger db)))"

text \<open>The sum is exact and arrives as text.\<close>

definition availableBalance :: "entitlement_db \<Rightarrow> lot_row \<Rightarrow> int result" where
  "availableBalance db lot = entitlementAvailableBalance (el_total_units lot) (PgText (showInt (ledgerSum db (el_id lot))))"

definition rejectTemporaryOtherRoomMemberChainChange :: "(string \<Rightarrow> string option \<Rightarrow> bool) \<Rightarrow> string \<Rightarrow> string option \<Rightarrow> unit result" where
  "rejectTemporaryOtherRoomMemberChainChange evidence contractId lotId =
     (if evidence contractId lotId then throw VALIDATION_ERROR 409 else Inr ())"

record add_lot_effect =
  la_contractId :: string
  la_unitKind :: entitlement_unit_kind
  la_units :: int
  la_expiresOn :: string

definition unitKindOf :: "string \<Rightarrow> entitlement_unit_kind option" where
  "unitKindOf s = (if s = ''ROOM_NIGHT'' then Some ROOM_NIGHT else if s = ''BED_NIGHT'' then Some BED_NIGHT else None)"

definition buildAddLot ::
  "(string \<Rightarrow> string option \<Rightarrow> bool) \<Rightarrow> string \<Rightarrow> entitlement_db \<Rightarrow> string \<Rightarrow> json_object \<Rightarrow> add_lot_effect result" where
  "buildAddLot evidence propertyToday db propertyId input =
     bindR (requireString input ''memberContractId'') (\<lambda>contractId.
     bindR (requireString input ''unitKind'') (\<lambda>kindText.
     case unitKindOf kindText of None \<Rightarrow> validation_error
     | Some unitKind \<Rightarrow>
       bindR (requireInteger input ''units'' (Some 1) True) (\<lambda>units.
       bindR (requireString input ''expiresOn'') (\<lambda>expiresOn.
       bindR (parseLocalDate expiresOn) (\<lambda>_.
       case find (\<lambda>c. mc_id c = contractId \<and> mc_property_id c = propertyId) (en_contracts db) of None \<Rightarrow> throw NOT_FOUND 404
       | Some contract \<Rightarrow>
         bindR (rejectTemporaryOtherRoomMemberChainChange evidence contractId None) (\<lambda>_.
         if mc_status contract \<noteq> CONTRACT_ACTIVE then throw ENTITLEMENT_CONFLICT 409
         else if expiresOn < propertyToday then throw ENTITLEMENT_CONFLICT 409
         else if expiresOn < mc_valid_from contract \<or> mc_valid_until contract < expiresOn then validation_error
         else Inr \<lparr>la_contractId = contractId, la_unitKind = unitKind, la_units = units, la_expiresOn = expiresOn\<rparr>))))))"

definition lotFact :: "string \<Rightarrow> string \<Rightarrow> ledger_entry_type \<Rightarrow> int \<Rightarrow> string \<Rightarrow> string \<Rightarrow> ledger_row" where
  "lotFact factId lotId entryType delta reason commandId =
     \<lparr>lg_fact_id = factId, lg_lot_id = lotId, lg_entry_type = entryType, lg_quantity_delta = delta, lg_service_date = None,
      lg_order_id = None, lg_coverage_id = None, lg_reason = reason, lg_command_id = commandId\<rparr>"

definition applyAddLot :: "string \<Rightarrow> string \<Rightarrow> string \<Rightarrow> string \<Rightarrow> add_lot_effect \<Rightarrow> entitlement_db \<Rightarrow> entitlement_db" where
  "applyAddLot lotId factId reason commandId effect db =
     (let db1 = db\<lparr>en_lots := en_lots db @ [\<lparr>el_id = lotId, el_contract_id = la_contractId effect, el_unit_kind = la_unitKind effect,
            el_total_units = 0, el_expires_on = la_expiresOn effect, el_status = LOT_ACTIVE, el_version = 1\<rparr>]\<rparr>;
          db2 = appendLedger (lotFact factId lotId ADJUST (la_units effect) reason commandId) db1 in
      db2\<lparr>en_contracts := updateWhere (\<lambda>c. mc_id c = la_contractId effect) (\<lambda>c. c\<lparr>mc_version := mc_version c + 1\<rparr>) (en_contracts db2)\<rparr>)"

record adjust_effect =
  ad_lotId :: string
  ad_contractId :: string
  ad_quantityDelta :: int
  ad_reason :: string
  ad_availableBefore :: int
  ad_availableAfter :: int

text \<open>The lot both builders need: of an active contract and active itself.\<close>

definition activeLot ::
  "(string \<Rightarrow> string option \<Rightarrow> bool) \<Rightarrow> entitlement_db \<Rightarrow> string \<Rightarrow> string \<Rightarrow> (lot_row \<times> contract_row) result" where
  "activeLot evidence db propertyId lotId =
     (case propertyLot db propertyId lotId of None \<Rightarrow> throw NOT_FOUND 404
      | Some (lot, contract) \<Rightarrow>
        bindR (rejectTemporaryOtherRoomMemberChainChange evidence (el_contract_id lot) (Some (el_id lot))) (\<lambda>_.
        if mc_status contract \<noteq> CONTRACT_ACTIVE \<or> el_status lot \<noteq> LOT_ACTIVE then throw ENTITLEMENT_CONFLICT 409
        else Inr (lot, contract)))"

text \<open>The difference that CORRECT_MEMBER_ENTITLEMENT_BALANCE makes, or the one that is requested.\<close>

definition requestedDelta :: "string \<Rightarrow> int \<Rightarrow> json_object \<Rightarrow> int result" where
  "requestedDelta command availableBefore input =
     (if command = ''CORRECT_MEMBER_ENTITLEMENT_BALANCE'' then
        bindR (requireInteger input ''expectedAvailableBalance'' (Some 0) True) (\<lambda>expected.
        if expected \<noteq> availableBefore then throw AGGREGATE_VERSION_CONFLICT 409
        else
          bindR (requireInteger input ''targetAvailableBalance'' (Some 0) True) (\<lambda>goal.
          if goal = availableBefore then validation_error else Inr (goal - availableBefore)))
      else requireInteger input ''quantityDelta'' None False)"

definition buildAdjust ::
  "(string \<Rightarrow> string option \<Rightarrow> bool) \<Rightarrow> string \<Rightarrow> entitlement_db \<Rightarrow> string \<Rightarrow> string \<Rightarrow> json_object \<Rightarrow> adjust_effect result" where
  "buildAdjust evidence propertyToday db propertyId command input =
     bindR (requireString input ''entitlementLotId'') (\<lambda>lotId.
     bindR (requireString input ''adjustmentReason'') (\<lambda>adjustmentReason.
     bindR (activeLot evidence db propertyId lotId) (\<lambda>(lot, contract).
     if lotExpired db lotId then throw ENTITLEMENT_CONFLICT 409
     else if el_expires_on lot < propertyToday then throw ENTITLEMENT_CONFLICT 409
     else
       bindR (availableBalance db lot) (\<lambda>availableBefore.
       bindR (requestedDelta command availableBefore input) (\<lambda>quantityDelta.
       bindR (adjustedEntitlementAvailableBalance availableBefore quantityDelta) (\<lambda>availableAfter.
       Inr \<lparr>ad_lotId = el_id lot, ad_contractId = el_contract_id lot, ad_quantityDelta = quantityDelta, ad_reason = adjustmentReason,
         ad_availableBefore = availableBefore, ad_availableAfter = availableAfter\<rparr>))))))"

definition applyAdjust :: "string \<Rightarrow> string \<Rightarrow> adjust_effect \<Rightarrow> entitlement_db \<Rightarrow> entitlement_db" where
  "applyAdjust factId commandId effect db =
     incrementContractAndLotVersions (ad_contractId effect) [ad_lotId effect]
       (appendLedger (lotFact factId (ad_lotId effect) ADJUST (ad_quantityDelta effect) (ad_reason effect) commandId) db)"

record expire_effect =
  ex_lotId :: string
  ex_contractId :: string
  ex_asOfDate :: string
  ex_remainingAvailable :: int

definition buildExpire ::
  "(string \<Rightarrow> string option \<Rightarrow> bool) \<Rightarrow> string \<Rightarrow> entitlement_db \<Rightarrow> string \<Rightarrow> json_object \<Rightarrow> expire_effect result" where
  "buildExpire evidence propertyToday db propertyId input =
     bindR (requireString input ''entitlementLotId'') (\<lambda>lotId.
     bindR (requireString input ''asOfDate'') (\<lambda>asOfDate.
     bindR (parseLocalDate asOfDate) (\<lambda>asOf.
     bindR (activeLot evidence db propertyId lotId) (\<lambda>(lot, contract).
     if lotExpired db lotId then throw ENTITLEMENT_CONFLICT 409
     else
       bindR (parseLocalDate (el_expires_on lot)) (\<lambda>expiresOn.
       if asOf \<le> expiresOn then throw ENTITLEMENT_CONFLICT 409
       else if propertyToday < asOfDate then throw ENTITLEMENT_CONFLICT 409
       else
         bindR (availableBalance db lot) (\<lambda>remainingAvailable.
         Inr \<lparr>ex_lotId = el_id lot, ex_contractId = el_contract_id lot, ex_asOfDate = asOfDate,
           ex_remainingAvailable = remainingAvailable\<rparr>))))))"

definition applyExpire :: "string \<Rightarrow> string \<Rightarrow> expire_effect \<Rightarrow> entitlement_db \<Rightarrow> entitlement_db" where
  "applyExpire factId commandId effect db =
     incrementContractAndLotVersions (ex_contractId effect) [ex_lotId effect]
       (appendLedger (lotFact factId (ex_lotId effect) EXPIRE (- ex_remainingAvailable effect)
          (''ENTITLEMENT_EXPIRED asOfDate='' @ ex_asOfDate effect) commandId) db)"

section \<open>The reader of the history\<close>

record lifecycle_counts =
  lc_hold :: nat
  lc_release :: nat
  lc_consume :: nat
  lc_restore :: nat
  lc_conversionConsume :: nat

definition lifecycleCounts :: "entitlement_db \<Rightarrow> coverage_row \<Rightarrow> lifecycle_counts" where
  "lifecycleCounts db item = \<lparr>lc_hold = itemFacts db HOLD item, lc_release = itemFacts db RELEASE item, lc_consume = itemFacts db CONSUME item,
     lc_restore = itemFacts db RESTORE item, lc_conversionConsume = itemFacts db CONVERSION_CONSUME item\<rparr>"

definition countsAre :: "lifecycle_counts \<Rightarrow> nat \<Rightarrow> nat \<Rightarrow> nat \<Rightarrow> nat \<Rightarrow> nat \<Rightarrow> bool" where
  "countsAre c h r u s v \<longleftrightarrow> lc_hold c = h \<and> lc_release c = r \<and> lc_consume c = u \<and> lc_restore c = s \<and> lc_conversionConsume c = v"

definition coverageLifecycleIsConserved :: "coverage_state \<Rightarrow> lifecycle_counts \<Rightarrow> bool" where
  "coverageLifecycleIsConserved status counts \<longleftrightarrow>
     (if status = HELD then countsAre counts 1 0 0 0 0
      else if status = CONSUMED then countsAre counts 1 0 1 0 0 \<or> countsAre counts 1 0 1 1 0 \<or> countsAre counts 0 0 0 0 1
      else countsAre counts 1 1 0 0 0 \<or> countsAre counts 1 0 1 1 0 \<or> countsAre counts 0 0 0 1 1)"

end
