(* ===== verification/Lodging.thy ===== *)
theory Lodging
  imports Inventory Timeline OperationalFacts Entitlements OrderFunds
begin

text \<open>
  The tables of stays and their loaders in \<^verbatim>\<open>packages/db/src/orders.ts\<close> (loadOrderContext,
  loadActiveStayTimeline, appendAmendment), the insertion of a pricing revision of
  \<^verbatim>\<open>commands/apply.ts\<close> and the ledger of external channels it writes, \<^verbatim>\<open>channel-operating.ts\<close>. The
  inventory tables and the nights of members are those of \<open>Inventory\<close> and \<open>Entitlements\<close>; the projection of
  orders and segments that the inventory queries read is derived from the orders here. Time stamps are
  milliseconds of the transaction, their local day is an argument.
\<close>

section \<open>Tables\<close>

datatype order_state = RESERVED | CHECKED_IN | CHECKED_OUT | CANCELLED | NO_SHOW | CHECK_IN_REVOKED

datatype stay_state = PLANNED | IN_HOUSE | COMPLETED | STAY_CANCELLED | STAY_NO_SHOW | STAY_CHECK_IN_REVOKED

definition orderStateName :: "order_state \<Rightarrow> string" where
  "orderStateName s = (case s of RESERVED \<Rightarrow> ''RESERVED'' | CHECKED_IN \<Rightarrow> ''CHECKED_IN'' | CHECKED_OUT \<Rightarrow> ''CHECKED_OUT''
     | CANCELLED \<Rightarrow> ''CANCELLED'' | NO_SHOW \<Rightarrow> ''NO_SHOW'' | CHECK_IN_REVOKED \<Rightarrow> ''CHECK_IN_REVOKED'')"

record lodging_order =
  lo_id :: string
  lo_property_id :: string
  lo_status :: order_state
  lo_stay_type :: string
  lo_arrival_date :: string
  lo_departure_date :: string
  lo_booking_channel_code :: "string option"
  lo_channel_order_reference :: "string option"
  lo_free_stay_reason :: "string option"
  lo_free_stay_category_code :: "string option"
  lo_pricing_policy_version_id :: string
  lo_member_id :: "string option"
  lo_member_contract_id :: "string option"
  lo_current_revision_id :: "string option"
  lo_version :: int

record stay_record =
  sy_id :: string
  sy_order_id :: string
  sy_status :: stay_state

record stay_segment =
  ss_id :: string
  ss_stay_id :: string
  ss_sequence :: int
  ss_inventory_unit_id :: string
  ss_arrival_date :: string
  ss_departure_date :: string
  ss_segment_type :: string
  ss_supersedes_segment_id :: "string option"
  ss_amendment_id :: string

record amendment_record =
  am_id :: string
  am_order_id :: string
  am_sequence :: int
  am_amendment_type :: string
  am_reason_code :: string
  am_reason_note :: string
  am_prior_version :: int
  am_new_version :: int
  am_command_id :: string

text \<open>What a revision stores of a price: the snapshot that pricingSnapshot reads from an effect.\<close>

record pricing_snapshot =
  ps_coverageSet :: "coverage_item_dto list"
  ps_cashLines :: "cash_line_dto list"
  ps_policyBaseAmountMinor :: int
  ps_pricingBasis :: pricing_basis
  ps_manualAdjustmentMinor :: int
  ps_currentContractAmountMinor :: int
  ps_currency :: string

record revision_record =
  rv_id :: string
  rv_order_id :: string
  rv_revision_no :: int
  rv_amendment_id :: string
  rv_policy_version_id :: string
  rv_arrival_date :: string
  rv_departure_date :: string
  rv_pricing :: pricing_snapshot
  rv_created_at :: int

record occupant_record =
  oa_id :: string
  oa_order_id :: string
  oa_ordinal :: nat
  oa_full_name :: string
  oa_nickname :: string
  oa_phone :: "string option"
  oa_document_number :: "string option"
  oa_command_id :: string

datatype channel_fact_kind = SALE | CORRECTION | CHANNEL_REFUND | CHANNEL_REVERSAL

record channel_fact =
  ch_id :: string
  ch_property_id :: string
  ch_order_id :: string
  ch_kind :: channel_fact_kind
  ch_amount_minor :: int
  ch_contract_effect_minor :: int
  ch_currency :: string
  ch_business_date :: string
  ch_pricing_revision_id :: "string option"
  ch_references_fact_id :: "string option"
  ch_refund_reference :: "string option"
  ch_command_id :: string
  ch_note :: string
  ch_created_at :: int

record sales_opening =
  so_property_id :: string
  so_source_kind :: string
  so_source_id :: string
  so_amount_minor :: int

text \<open>A property is its identifier and currency, a closed month of the sales its property and first day.\<close>

record lodging_db =
  lb_properties :: "(string \<times> string) list"
  lb_orders :: "lodging_order list"
  lb_stays :: "stay_record list"
  lb_segments :: "stay_segment list"
  lb_amendments :: "amendment_record list"
  lb_revisions :: "revision_record list"
  lb_occupants :: "occupant_record list"
  lb_facts :: "fund_fact list"
  lb_channel :: "channel_fact list"
  lb_openings :: "sales_opening list"
  lb_baselines :: "(string \<times> string) list"
  lb_inventory :: inventory_db
  lb_nights :: entitlement_db

section \<open>Loading an order\<close>

definition propertyLocalToday :: "lodging_db \<Rightarrow> string \<Rightarrow> string result" where
  "propertyLocalToday db propertyId =
     (case map_of (t_localDates (lb_inventory db)) propertyId of None \<Rightarrow> throw NOT_FOUND 404 | Some d \<Rightarrow> Inr d)"

record order_context =
  oc_order :: lodging_order
  oc_stay :: stay_record
  oc_currentSegment :: stay_segment
  oc_revision :: revision_record
  oc_segmentIds :: "string list"

definition orderById :: "lodging_db \<Rightarrow> string \<Rightarrow> lodging_order option" where
  "orderById db orderId = find (\<lambda>r. lo_id r = orderId) (lb_orders db)"

definition bySequence :: "stay_segment list \<Rightarrow> stay_segment list" where
  "bySequence = sortBy (\<lambda>a b. ss_sequence a \<le> ss_sequence b)"

definition loadOrderContext :: "lodging_db \<Rightarrow> string \<Rightarrow> order_context result" where
  "loadOrderContext db orderId =
     (case orderById db orderId of None \<Rightarrow> throw NOT_FOUND 404
      | Some ord \<Rightarrow>
        case find (\<lambda>s. sy_order_id s = orderId) (lb_stays db) of None \<Rightarrow> uncaught
        | Some stay \<Rightarrow>
          let segments = filter (\<lambda>s. ss_stay_id s = sy_id stay) (lb_segments db) in
          case sortBy (\<lambda>a b. ss_sequence b \<le> ss_sequence a) segments of [] \<Rightarrow> uncaught
          | current # _ \<Rightarrow>
            case truthyId (lo_current_revision_id ord) of None \<Rightarrow> throw INTERNAL_ERROR 500
            | Some revisionId \<Rightarrow>
              case find (\<lambda>r. rv_id r = revisionId) (lb_revisions db) of None \<Rightarrow> uncaught
              | Some revision \<Rightarrow>
                Inr \<lparr>oc_order = ord, oc_stay = stay, oc_currentSegment = current, oc_revision = revision,
                  oc_segmentIds = map ss_id (bySequence segments)\<rparr>)"

definition loadOrderContextForProperty :: "lodging_db \<Rightarrow> string \<Rightarrow> string \<Rightarrow> order_context result" where
  "loadOrderContextForProperty db propertyId orderId =
     (if list_ex (\<lambda>r. lo_id r = orderId \<and> lo_property_id r = propertyId) (lb_orders db) then loadOrderContext db orderId
      else throw NOT_FOUND 404)"

text \<open>The active claims of the order's segments.\<close>

definition orderClaims :: "inventory_db \<Rightarrow> string list \<Rightarrow> claim_row list" where
  "orderClaims store segmentIds =
     sortBy (\<lambda>a b. c_serviceDate a < c_serviceDate b \<or> c_serviceDate a = c_serviceDate b \<and> c_id a \<le> c_id b)
       (filter (\<lambda>c. c_sourceType c = ORDER_SEGMENT \<and> c_sourceId c \<in> set segmentIds \<and> c_active c) (t_claims store))"

definition nightOf :: "claim_row list \<Rightarrow> string \<Rightarrow> stay_timeline_item result" where
  "nightOf claims serviceDate =
     (case filter (\<lambda>c. c_serviceDate c = serviceDate) claims of
        [c] \<Rightarrow> Inr \<lparr>ti_serviceDate = serviceDate, ti_inventoryUnitId = c_inventoryUnitId c\<rparr>
      | _ \<Rightarrow> throw INTERNAL_ERROR 500)"

definition loadActiveStayTimeline :: "lodging_db \<Rightarrow> order_context \<Rightarrow> stay_timeline_item list result" where
  "loadActiveStayTimeline db ctx =
     bindR (enumerateServiceDates (lo_arrival_date (oc_order ctx)) (lo_departure_date (oc_order ctx))) (\<lambda>expectedDates.
     let claims = orderClaims (lb_inventory db) (oc_segmentIds ctx) in
     if list_ex (\<lambda>c. c_serviceDate c \<notin> set expectedDates) claims then throw INTERNAL_ERROR 500
     else mapR (nightOf claims) expectedDates)"

text \<open>The tables as the queries of the inventory read them.\<close>

definition orderProjection :: "lodging_order \<Rightarrow> order_row" where
  "orderProjection r = \<lparr>o_id = lo_id r, o_propertyId = lo_property_id r, o_status = orderStateName (lo_status r),
     o_departureDate = lo_departure_date r\<rparr>"

definition segmentProjection :: "lodging_db \<Rightarrow> stay_segment \<Rightarrow> segment_row option" where
  "segmentProjection db s = map_option (\<lambda>stay. \<lparr>s_orderId = sy_order_id stay, s_stayId = sy_id stay, s_segmentId = ss_id s,
     s_inventoryUnitId = ss_inventory_unit_id s, s_sequence = ss_sequence s\<rparr>) (find (\<lambda>y. sy_id y = ss_stay_id s) (lb_stays db))"

definition inventoryTables :: "lodging_db \<Rightarrow> inventory_db" where
  "inventoryTables db = (lb_inventory db)\<lparr>t_orders := map orderProjection (lb_orders db),
     t_segments := List.map_filter (segmentProjection db) (lb_segments db)\<rparr>"

text \<open>The inventory an operation wrote, with the tables of orders left to this store.\<close>

definition putInventory :: "inventory_db \<Rightarrow> lodging_db \<Rightarrow> lodging_db" where
  "putInventory store db = db\<lparr>lb_inventory := store\<lparr>t_orders := t_orders (lb_inventory db), t_segments := t_segments (lb_inventory db)\<rparr>\<rparr>"

section \<open>Amendments\<close>

record amendment_reason =
  cr_code :: string
  cr_note :: string

definition appendAmendment :: "string \<Rightarrow> string \<Rightarrow> int \<Rightarrow> string \<Rightarrow> amendment_reason \<Rightarrow> int \<Rightarrow> string \<Rightarrow> lodging_db \<Rightarrow> lodging_db" where
  "appendAmendment amendmentId orderId sequence amendmentType reason priorVersion commandId db =
     db\<lparr>lb_amendments := lb_amendments db @ [\<lparr>am_id = amendmentId, am_order_id = orderId, am_sequence = sequence,
          am_amendment_type = amendmentType, am_reason_code = cr_code reason, am_reason_note = cr_note reason,
          am_prior_version = priorVersion, am_new_version = priorVersion + 1, am_command_id = commandId\<rparr>]\<rparr>"

definition updateOrder :: "string \<Rightarrow> (lodging_order \<Rightarrow> lodging_order) \<Rightarrow> lodging_db \<Rightarrow> lodging_db" where
  "updateOrder orderId f db = db\<lparr>lb_orders := updateWhere (\<lambda>r. lo_id r = orderId) f (lb_orders db)\<rparr>"

definition updateStay :: "string \<Rightarrow> stay_state \<Rightarrow> lodging_db \<Rightarrow> lodging_db" where
  "updateStay stayId st db = db\<lparr>lb_stays := updateWhere (\<lambda>s. sy_id s = stayId) (\<lambda>s. s\<lparr>sy_status := st\<rparr>) (lb_stays db)\<rparr>"

end
