(* ===== verification/ChannelOperating.thy ===== *)
theory ChannelOperating
  imports Lodging
begin

text \<open>
  The ledger of stays that an external channel sells: \<^verbatim>\<open>packages/db/src/channel-operating.ts\<close>. A revision of
  the price recognises a sale or a correction, a refund of the platform and its reversal are commands of their
  own. The insertion of a revision (\<^verbatim>\<open>insertRevision\<close> of \<^verbatim>\<open>commands/apply.ts\<close>) and the command block that
  applies a refund are here as well, since both write the ledger. The local day of a time stamp is an argument.
\<close>

definition externalChannel :: "string option \<Rightarrow> bool" where
  "externalChannel channel \<longleftrightarrow> channel \<in> {Some ''YOUMUDAO'', Some ''CTRIP'', Some ''MEITUAN''}"

record channel_summary =
  cm_initialized :: bool
  cm_businessDate :: string
  cm_currency :: string
  cm_originalSaleFactId :: "string option"
  cm_netMinor :: int
  cm_facts :: "channel_fact list"

definition orderInProperty :: "lodging_db \<Rightarrow> string \<Rightarrow> string \<Rightarrow> lodging_order option" where
  "orderInProperty db propertyId orderId = find (\<lambda>r. lo_id r = orderId \<and> lo_property_id r = propertyId) (lb_orders db)"

definition channelFacts :: "lodging_db \<Rightarrow> string \<Rightarrow> string \<Rightarrow> channel_fact list" where
  "channelFacts db propertyId orderId =
     sortBy (\<lambda>a b. ch_created_at a < ch_created_at b \<or> ch_created_at a = ch_created_at b \<and> ch_id a \<le> ch_id b)
       (filter (\<lambda>f. ch_property_id f = propertyId \<and> ch_order_id f = orderId) (lb_channel db))"

definition openingMinor :: "lodging_db \<Rightarrow> string \<Rightarrow> string \<Rightarrow> int" where
  "openingMinor db propertyId orderId =
     (case find (\<lambda>s. so_property_id s = propertyId \<and> so_source_kind s = ''CHANNEL_REFUND'' \<and> so_source_id s = orderId) (lb_openings db) of
        None \<Rightarrow> 0 | Some s \<Rightarrow> so_amount_minor s)"

definition channelNet :: "lodging_db \<Rightarrow> string \<Rightarrow> string \<Rightarrow> int" where
  "channelNet db propertyId orderId =
     sum_list (map ch_amount_minor (channelFacts db propertyId orderId)) - openingMinor db propertyId orderId"

text \<open>None is an order of another property or of no external channel.\<close>

definition channelOperatingSummary :: "lodging_db \<Rightarrow> string \<Rightarrow> string \<Rightarrow> channel_summary option result" where
  "channelOperatingSummary db propertyId orderId =
     (case (orderInProperty db propertyId orderId, map_of (lb_properties db) propertyId) of
        (Some ord, Some cur) \<Rightarrow>
          if \<not> externalChannel (lo_booking_channel_code ord) then Inr None
          else
            let rows = channelFacts db propertyId orderId in
            bindR (propertyLocalToday db propertyId) (\<lambda>today.
              Inr (Some \<lparr>cm_initialized = list_ex (\<lambda>(p, _). p = propertyId) (lb_baselines db), cm_businessDate = today,
                cm_currency = cur, cm_originalSaleFactId = map_option ch_id (find (\<lambda>f. ch_kind f = SALE) rows),
                cm_netMinor = channelNet db propertyId orderId, cm_facts = rows\<rparr>))
      | _ \<Rightarrow> Inr None)"

section \<open>Recognising a revision\<close>

definition olderRevisions :: "lodging_db \<Rightarrow> string \<Rightarrow> int \<Rightarrow> revision_record list" where
  "olderRevisions db orderId revisionNo =
     sortBy (\<lambda>a b. rv_revision_no b \<le> rv_revision_no a)
       (filter (\<lambda>r. rv_order_id r = orderId \<and> rv_revision_no r < revisionNo) (lb_revisions db))"

definition contractMinor :: "revision_record \<Rightarrow> int" where
  "contractMinor r = ps_currentContractAmountMinor (rv_pricing r)"

definition priorContract :: "lodging_db \<Rightarrow> string \<Rightarrow> int \<Rightarrow> int" where
  "priorContract db orderId revisionNo = (case olderRevisions db orderId revisionNo of [] \<Rightarrow> 0 | r # _ \<Rightarrow> contractMinor r)"

definition dateChangeCommands :: "string list" where
  "dateChangeCommands = [''RESCHEDULE_STAY'', ''EXTEND_STAY'', ''SHORTEN_STAY'', ''MOVE_UNIT'']"

definition amendmentOf :: "lodging_db \<Rightarrow> revision_record \<Rightarrow> amendment_record option" where
  "amendmentOf db r = find (\<lambda>a. am_id a = rv_amendment_id r) (lb_amendments db)"

text \<open>The day of the sale that a correction amends: of the last revision that was one.\<close>

definition saleRevision :: "lodging_db \<Rightarrow> string option \<Rightarrow> revision_record \<Rightarrow> bool" where
  "saleRevision db excludingRevisionId r \<longleftrightarrow>
     excludingRevisionId \<noteq> Some (rv_id r)
     \<and> (case amendmentOf db r of None \<Rightarrow> False
        | Some a \<Rightarrow> rv_revision_no r = 1
            \<or> am_amendment_type a \<in> set dateChangeCommands
              \<and> (case olderRevisions db (rv_order_id r) (rv_revision_no r) of [] \<Rightarrow> True | older # _ \<Rightarrow> contractMinor older \<noteq> contractMinor r))"

definition channelCorrectionDate :: "(int \<Rightarrow> string) \<Rightarrow> lodging_db \<Rightarrow> string \<Rightarrow> string option \<Rightarrow> string result" where
  "channelCorrectionDate localDay db orderId excludingRevisionId =
     (case sortBy (\<lambda>a b. rv_revision_no b \<le> rv_revision_no a)
             (filter (\<lambda>r. rv_order_id r = orderId \<and> saleRevision db excludingRevisionId r) (lb_revisions db)) of
        [] \<Rightarrow> validation_error
      | r # _ \<Rightarrow> Inr (localDay (rv_created_at r)))"

text \<open>The revision with its order, amendment and property, when the order is a paid stay of an external channel.\<close>

definition channelRevision :: "lodging_db \<Rightarrow> string \<Rightarrow> (revision_record \<times> lodging_order \<times> amendment_record) option" where
  "channelRevision db revisionId =
     (case find (\<lambda>r. rv_id r = revisionId) (lb_revisions db) of None \<Rightarrow> None
      | Some r \<Rightarrow>
        case (orderById db (rv_order_id r), amendmentOf db r) of
          (Some ord, Some a) \<Rightarrow>
            if map_of (lb_properties db) (lo_property_id ord) = None \<or> \<not> externalChannel (lo_booking_channel_code ord)
               \<or> lo_stay_type ord = ''FREE'' \<or> truthyId (lo_member_id ord) \<noteq> None \<or> truthyId (lo_member_contract_id ord) \<noteq> None
            then None else Some (r, ord, a)
        | _ \<Rightarrow> None)"

definition recognisedDelta :: "string \<Rightarrow> int \<Rightarrow> int \<Rightarrow> int \<Rightarrow> int \<Rightarrow> int result" where
  "recognisedDelta amendmentType revisionNo prior net goal =
     (let correction = amendmentType = ''REPRICE_ORDER'';
          sale = revisionNo = 1 \<or> amendmentType \<in> set dateChangeCommands in
      if sale \<and> revisionNo > 1 \<and> goal > prior \<and> net < prior then validation_error
      else if correction then channelRecognitionDelta CORRECTION_KIND (IntNum prior) net (IntNum goal)
      else if sale then channelRecognitionDelta SALE_KIND (IntNum prior) net (IntNum goal)
      else Inr 0)"

definition recordChannelRevision :: "(int \<Rightarrow> string) \<Rightarrow> string \<Rightarrow> string \<Rightarrow> lodging_db \<Rightarrow> lodging_db result" where
  "recordChannelRevision localDay factId revisionId db =
     (case channelRevision db revisionId of None \<Rightarrow> Inr db
      | Some (r, ord, a) \<Rightarrow>
        let prior = priorContract db (rv_order_id r) (rv_revision_no r);
            correction = am_amendment_type a = ''REPRICE_ORDER'' in
        bindR (channelOperatingSummary db (lo_property_id ord) (rv_order_id r)) (\<lambda>summary.
        case summary of None \<Rightarrow> uncaught
        | Some summary \<Rightarrow>
          bindR (recognisedDelta (am_amendment_type a) (rv_revision_no r) prior (cm_netMinor summary) (contractMinor r)) (\<lambda>delta.
          if delta = 0 then Inr db
          else if cm_netMinor summary + delta < 0 then validation_error
          else
            bindR (if correction then channelCorrectionDate localDay db (rv_order_id r) (Some revisionId)
                   else Inr (localDay (rv_created_at r))) (\<lambda>date.
            Inr (db\<lparr>lb_channel := lb_channel db @ [\<lparr>ch_id = factId, ch_property_id = lo_property_id ord, ch_order_id = rv_order_id r,
                ch_kind = (if correction then CORRECTION else SALE), ch_amount_minor = delta, ch_contract_effect_minor = 0,
                ch_currency = ps_currency (rv_pricing r), ch_business_date = date, ch_pricing_revision_id = Some revisionId,
                ch_references_fact_id = None, ch_refund_reference = None, ch_command_id = am_command_id a, ch_note = [],
                ch_created_at = rv_created_at r\<rparr>]\<rparr>)))))"

text \<open>What an operation draws and when: identifiers, and the time of the transaction.\<close>

record transaction =
  tx_now :: int
  tx_localDay :: "int \<Rightarrow> string"
  tx_commandId :: string
  tx_amendmentId :: string
  tx_secondAmendmentId :: string
  tx_thirdAmendmentId :: string
  tx_orderId :: string
  tx_stayId :: string
  tx_segmentId :: string
  tx_revisionId :: string
  tx_factId :: string
  tx_channelFactId :: string
  tx_claimIds :: "string \<Rightarrow> string \<Rightarrow> string"
  tx_entitlement :: entitlement_ids

definition insertRevision ::
  "transaction \<Rightarrow> string \<Rightarrow> int \<Rightarrow> string \<Rightarrow> string \<Rightarrow> string \<Rightarrow> string \<Rightarrow> pricing_snapshot \<Rightarrow> lodging_db \<Rightarrow> lodging_db result" where
  "insertRevision tx orderId revisionNo amendmentId policyVersionId arrivalDate departureDate pricing db =
     recordChannelRevision (tx_localDay tx) (tx_channelFactId tx) (tx_revisionId tx)
       (db\<lparr>lb_revisions := lb_revisions db @ [\<lparr>rv_id = tx_revisionId tx, rv_order_id = orderId, rv_revision_no = revisionNo,
          rv_amendment_id = amendmentId, rv_policy_version_id = policyVersionId, rv_arrival_date = arrivalDate,
          rv_departure_date = departureDate, rv_pricing = pricing, rv_created_at = tx_now tx\<rparr>]\<rparr>)"

section \<open>Refunds of the platform\<close>

definition channelText :: "json_object \<Rightarrow> string \<Rightarrow> string result" where
  "channelText input key =
     (case strOf (prop_of input key) of None \<Rightarrow> validation_error
      | Some value \<Rightarrow> if trim value = [] \<or> 1000 < length (trim value) then validation_error else Inr (trim value))"

record channel_effect =
  ce_orderId :: string
  ce_amountMinor :: int
  ce_currency :: string
  ce_referencesFactId :: string
  ce_refundReference :: "string option"
  ce_note :: string
  ce_businessDate :: string
  ce_contractBeforeMinor :: int
  ce_contractTargetMinor :: int

definition currentContract :: "lodging_db \<Rightarrow> string \<Rightarrow> string \<Rightarrow> int result" where
  "currentContract db propertyId orderId =
     (case orderInProperty db propertyId orderId of None \<Rightarrow> uncaught
      | Some ord \<Rightarrow>
        case lo_current_revision_id ord of None \<Rightarrow> uncaught
        | Some revisionId \<Rightarrow>
          case find (\<lambda>r. rv_id r = revisionId) (lb_revisions db) of None \<Rightarrow> uncaught | Some r \<Rightarrow> Inr (contractMinor r))"

text \<open>A revision of another command after the refund.\<close>

definition laterPricing :: "lodging_db \<Rightarrow> string \<Rightarrow> int \<Rightarrow> bool" where
  "laterPricing db orderId createdAt =
     list_ex (\<lambda>r. rv_order_id r = orderId \<and> createdAt < rv_created_at r
       \<and> (case amendmentOf db r of None \<Rightarrow> False | Some a \<Rightarrow> am_amendment_type a \<notin> {''RECORD_REFUND'', ''REVERSE_FACT''})) (lb_revisions db)"

definition buildChannelReversal :: "channel_summary \<Rightarrow> int \<Rightarrow> string \<Rightarrow> lodging_db \<Rightarrow> string \<Rightarrow> json_object \<Rightarrow> channel_effect result" where
  "buildChannelReversal summary contract note db orderId input =
     (case find (\<lambda>f. prop_of input ''reversesFactId'' = JStr (ch_id f) \<and> ch_kind f = CHANNEL_REFUND) (cm_facts summary) of
        None \<Rightarrow> throw NOT_FOUND 404
      | Some original \<Rightarrow>
        if list_ex (\<lambda>f. ch_kind f = CHANNEL_REVERSAL \<and> ch_references_fact_id f = Some (ch_id original)) (cm_facts summary)
        then throw FACT_ALREADY_REVERSED 409
        else if list_ex (\<lambda>f. ch_kind f \<in> {SALE, CORRECTION} \<and> ch_created_at original < ch_created_at f) (cm_facts summary)
        then throw AGGREGATE_VERSION_CONFLICT 409
        else if laterPricing db orderId (ch_created_at original) then throw AGGREGATE_VERSION_CONFLICT 409
        else
          let contractTarget = contract - ch_contract_effect_minor original in
          if 2147483600 < contractTarget then validation_error
          else if jsTruthy (prop_of input ''releaseExternalPaymentAllocation'') then validation_error
          else Inr \<lparr>ce_orderId = orderId, ce_amountMinor = - ch_amount_minor original, ce_currency = cm_currency summary,
            ce_referencesFactId = ch_id original, ce_refundReference = None, ce_note = note,
            ce_businessDate = ch_business_date original, ce_contractBeforeMinor = contract, ce_contractTargetMinor = contractTarget\<rparr>)"

text \<open>The platform's reference of an effective refund of the same channel.\<close>

definition refundRegistered :: "lodging_db \<Rightarrow> string \<Rightarrow> string \<Rightarrow> string \<Rightarrow> bool" where
  "refundRegistered db propertyId orderId refundReference =
     list_ex (\<lambda>f. ch_property_id f = propertyId \<and> ch_kind f = CHANNEL_REFUND \<and> ch_refund_reference f = Some refundReference
       \<and> (case (orderById db (ch_order_id f), orderById db orderId) of
            (Some existing, Some goal) \<Rightarrow> lo_booking_channel_code existing \<noteq> None
              \<and> lo_booking_channel_code existing = lo_booking_channel_code goal
          | _ \<Rightarrow> False)
       \<and> \<not> list_ex (\<lambda>x. ch_references_fact_id x = Some (ch_id f) \<and> ch_kind x = CHANNEL_REVERSAL) (lb_channel db)) (lb_channel db)"

definition refundAmount :: "channel_summary \<Rightarrow> json_object \<Rightarrow> int result" where
  "refundAmount summary input =
     (case prop_of input ''amountMinor'' of
        JNum n \<Rightarrow> if \<not> safe_int n \<or> n \<le> 0 \<or> 2147483600 < n \<or> cm_netMinor summary < n then validation_error else Inr n
      | _ \<Rightarrow> validation_error)"

definition refundDate :: "channel_summary \<Rightarrow> lodging_db \<Rightarrow> string \<Rightarrow> json_object \<Rightarrow> string result" where
  "refundDate summary db propertyId input =
     bindR (if prop_of input ''businessDate'' = JUndefined then Inr (cm_businessDate summary) else channelText input ''businessDate'') (\<lambda>date.
     bindR (parseLocalDate date) (\<lambda>_.
     let saleDate = map_option ch_business_date (find (\<lambda>f. Some (ch_id f) = cm_originalSaleFactId summary) (cm_facts summary)) in
     if cm_businessDate summary < date \<or> truthyId saleDate = None \<or> date < the saleDate then validation_error
     else if (propertyId, take 7 date @ ''-01'') \<in> set (lb_baselines db) then validation_error
     else Inr date))"

definition buildChannelRefund ::
  "channel_summary \<Rightarrow> int \<Rightarrow> string \<Rightarrow> lodging_db \<Rightarrow> string \<Rightarrow> string \<Rightarrow> json_object \<Rightarrow> channel_effect result" where
  "buildChannelRefund summary contract note db propertyId orderId input =
     (if prop_of input ''method'' \<noteq> JStr ''CHANNEL'' \<or> jsTruthy (prop_of input ''externalPaymentBillId'')
         \<or> jsTruthy (prop_of input ''transactionReference'') then validation_error
      else
        bindR (refundAmount summary input) (\<lambda>amount.
        if prop_of input ''referencesFactId'' \<noteq> (case cm_originalSaleFactId summary of None \<Rightarrow> JNull | Some i \<Rightarrow> JStr i) then validation_error
        else
          bindR (channelText input ''refundReference'') (\<lambda>refundReference.
          if refundRegistered db propertyId orderId refundReference then throw AGGREGATE_VERSION_CONFLICT 409
          else
            bindR (refundDate summary db propertyId input) (\<lambda>date.
            Inr \<lparr>ce_orderId = orderId, ce_amountMinor = amount, ce_currency = cm_currency summary,
              ce_referencesFactId = (case cm_originalSaleFactId summary of None \<Rightarrow> [] | Some i \<Rightarrow> i),
              ce_refundReference = Some refundReference, ce_note = note, ce_businessDate = date, ce_contractBeforeMinor = contract,
              ce_contractTargetMinor = min contract (cm_netMinor summary - amount)\<rparr>))))"

definition buildChannelFundsEffect ::
  "lodging_db \<Rightarrow> string \<Rightarrow> string \<Rightarrow> string \<Rightarrow> json_object \<Rightarrow> channel_effect result" where
  "buildChannelFundsEffect db propertyId orderId command input =
     bindR (channelOperatingSummary db propertyId orderId) (\<lambda>summary.
     case summary of None \<Rightarrow> validation_error
     | Some summary \<Rightarrow>
       if \<not> cm_initialized summary then validation_error
       else
         bindR (currentContract db propertyId orderId) (\<lambda>contract.
         if cm_netMinor summary < contract then validation_error
         else
           bindR (channelText input ''note'') (\<lambda>note.
           if command = ''REVERSE_FACT'' then buildChannelReversal summary contract note db orderId input
           else buildChannelRefund summary contract note db propertyId orderId input)))"

definition applyChannelFunds :: "transaction \<Rightarrow> string \<Rightarrow> string \<Rightarrow> channel_effect \<Rightarrow> lodging_db \<Rightarrow> lodging_db" where
  "applyChannelFunds tx command propertyId effect db =
     (let reversal = command = ''REVERSE_FACT'' in
      db\<lparr>lb_channel := lb_channel db @ [\<lparr>ch_id = tx_channelFactId tx, ch_property_id = propertyId, ch_order_id = ce_orderId effect,
          ch_kind = (if reversal then CHANNEL_REVERSAL else CHANNEL_REFUND),
          ch_amount_minor = (if reversal then ce_amountMinor effect else - ce_amountMinor effect),
          ch_contract_effect_minor = ce_contractTargetMinor effect - ce_contractBeforeMinor effect,
          ch_currency = ce_currency effect, ch_business_date = ce_businessDate effect, ch_pricing_revision_id = None,
          ch_references_fact_id = Some (ce_referencesFactId effect),
          ch_refund_reference = (if reversal then None else ce_refundReference effect), ch_command_id = tx_commandId tx,
          ch_note = ce_note effect, ch_created_at = tx_now tx\<rparr>]\<rparr>)"

text \<open>The block of applyCommand: the fact, the amendment, and a revision when the contract amount moves.\<close>

definition applyChannelCommand ::
  "transaction \<Rightarrow> string \<Rightarrow> string \<Rightarrow> amendment_reason \<Rightarrow> channel_effect \<Rightarrow> lodging_db \<Rightarrow> lodging_db result" where
  "applyChannelCommand tx propertyId command reason effect db =
     bindR (loadOrderContextForProperty db propertyId (ce_orderId effect)) (\<lambda>ctx.
     let orderId = ce_orderId effect; ord = oc_order ctx; revision = oc_revision ctx;
         db1 = appendAmendment (tx_amendmentId tx) orderId (lo_version ord + 1) command reason (lo_version ord) (tx_commandId tx)
                 (applyChannelFunds tx command (lo_property_id ord) effect db) in
     bindR (if ce_contractTargetMinor effect = contractMinor revision then Inr (rv_id revision, db1)
            else
              let pricing = (rv_pricing revision)\<lparr>ps_pricingBasis := CHANNEL_CONTRACT, ps_manualAdjustmentMinor := 0,
                    ps_currentContractAmountMinor := ce_contractTargetMinor effect\<rparr> in
              bindR (insertRevision tx orderId (rv_revision_no revision + 1) (tx_amendmentId tx) (lo_pricing_policy_version_id ord)
                  (lo_arrival_date ord) (lo_departure_date ord) pricing db1) (\<lambda>db2. Inr (tx_revisionId tx, db2))) (\<lambda>(revisionId, db2).
     Inr (updateOrder orderId (\<lambda>r. r\<lparr>lo_current_revision_id := Some revisionId, lo_version := lo_version ord + 1\<rparr>) db2)))"

end
