(* ===== verification/StayLifecycle.thy ===== *)
theory StayLifecycle
  imports ChannelOperating
begin

text \<open>
  The commands that end a stay or let a guest in, as \<^verbatim>\<open>commands/effects.ts\<close> builds and
  \<^verbatim>\<open>commands/apply.ts\<close> applies them: CHECK_IN, CHECK_OUT, CANCEL_ORDER, MARK_NO_SHOW, REVOKE_CHECK_IN. An effect
  is a record of the members that applying it reads. The loading of the evidence of a temporary other room and of
  the versions of the membership are read-only parts of a preview: what they throw is the argument \<open>evidence\<close>. The
  cleaning workflow is switched off in this release and left out.
\<close>

section \<open>Building an effect\<close>

datatype status_command = CHECK_IN | CHECK_OUT | CANCEL_ORDER | MARK_NO_SHOW | REVOKE_CHECK_IN

definition statusCommandName :: "status_command \<Rightarrow> string" where
  "statusCommandName c = (case c of CHECK_IN \<Rightarrow> ''CHECK_IN'' | CHECK_OUT \<Rightarrow> ''CHECK_OUT'' | CANCEL_ORDER \<Rightarrow> ''CANCEL_ORDER''
     | MARK_NO_SHOW \<Rightarrow> ''MARK_NO_SHOW'' | REVOKE_CHECK_IN \<Rightarrow> ''REVOKE_CHECK_IN'')"

record status_effect =
  se_orderId :: string
  se_inventoryUnitId :: string
  se_businessDate :: string
  se_effectiveDate :: "string option"
  se_onSchedule :: bool
  se_coverageCount :: nat
  se_amounts :: "amount_summary option"
  se_pricingRevision :: "(int \<times> pricing_basis) option"
  se_unusedRoomConfirmed :: bool

definition coverageWith :: "coverage_state \<Rightarrow> lodging_db \<Rightarrow> string \<Rightarrow> coverage_row list" where
  "coverageWith st db orderId = filter (\<lambda>c. cv_order_id c = orderId \<and> cv_status c = st) (en_coverage (lb_nights db))"

definition netEffects :: "lodging_db \<Rightarrow> string \<Rightarrow> int list" where
  "netEffects db orderId = map fa_net_effect_minor (filter (\<lambda>f. fu_order_id f = orderId) (lb_facts db))"

definition terminalBasis :: "lodging_order \<Rightarrow> pricing_basis" where
  "terminalBasis ord =
     (if lo_stay_type ord = ''FREE'' then FREE_BASIS
      else if truthyId (lo_member_id ord) \<noteq> None \<or> truthyId (lo_member_contract_id ord) \<noteq> None then MEMBER_ENTITLEMENT
      else if truthyId (lo_booking_channel_code ord) \<noteq> None \<and> lo_booking_channel_code ord \<noteq> Some ''WECOM'' then CHANNEL_CONTRACT
      else POLICY)"

definition convertedToMembership :: "lodging_db \<Rightarrow> string \<Rightarrow> bool" where
  "convertedToMembership db orderId =
     list_ex (\<lambda>a. am_order_id a = orderId \<and> am_amendment_type a = ''CONVERT_STAY_COLLECTIONS_TO_MEMBERSHIP'') (lb_amendments db)"

definition buildCheckIn :: "lodging_db \<Rightarrow> string \<Rightarrow> order_context \<Rightarrow> status_effect result" where
  "buildCheckIn db propertyId ctx =
     (let ord = oc_order ctx in
      if lo_status ord \<noteq> RESERVED then throw INVALID_ORDER_STATE 409
      else
        bindR (propertyLocalToday db propertyId) (\<lambda>businessDate.
        if businessDate < lo_arrival_date ord then throw INVALID_ORDER_STATE 409
        else if lo_departure_date ord \<le> businessDate then throw INVALID_ORDER_STATE 409
        else
          bindR (loadActiveStayTimeline db ctx) (\<lambda>timeline.
          case find (\<lambda>day. ti_serviceDate day = businessDate) timeline of None \<Rightarrow> uncaught
          | Some day \<Rightarrow>
            bindR (previousStayAwaitingCheckout (inventoryTables db) propertyId (ti_inventoryUnitId day) businessDate (lo_id ord)) (\<lambda>awaiting.
            if awaiting then throw INVENTORY_CONFLICT 409
            else Inr \<lparr>se_orderId = lo_id ord, se_inventoryUnitId = ss_inventory_unit_id (oc_currentSegment ctx),
              se_businessDate = businessDate, se_effectiveDate = Some (lo_arrival_date ord),
              se_onSchedule = (businessDate = lo_arrival_date ord), se_coverageCount = length (coverageWith HELD db (lo_id ord)),
              se_amounts = None, se_pricingRevision = None, se_unusedRoomConfirmed = False\<rparr>))))"

definition buildCheckOut :: "lodging_db \<Rightarrow> string \<Rightarrow> order_context \<Rightarrow> status_effect result" where
  "buildCheckOut db propertyId ctx =
     (let ord = oc_order ctx in
      if lo_status ord \<noteq> CHECKED_IN then throw INVALID_ORDER_STATE 409
      else
        bindR (propertyLocalToday db propertyId) (\<lambda>businessDate.
        if businessDate < lo_departure_date ord then throw INVALID_ORDER_STATE 409
        else if coverageWith HELD db (lo_id ord) \<noteq> [] then throw ENTITLEMENT_CONFLICT 409
        else
          bindR (amountSummary (ps_currency (rv_pricing (oc_revision ctx))) (contractMinor (oc_revision ctx)) (netEffects db (lo_id ord))) (\<lambda>amounts.
          Inr \<lparr>se_orderId = lo_id ord, se_inventoryUnitId = ss_inventory_unit_id (oc_currentSegment ctx),
            se_businessDate = businessDate, se_effectiveDate = Some (lo_departure_date ord),
            se_onSchedule = (businessDate = lo_departure_date ord), se_coverageCount = 0, se_amounts = Some amounts,
            se_pricingRevision = None, se_unusedRoomConfirmed = False\<rparr>)))"

text \<open>The cancellation of a reservation; a guest has not shown up from eight in the evening of the arrival on.\<close>

definition buildCancellation :: "string \<Rightarrow> lodging_db \<Rightarrow> string \<Rightarrow> status_command \<Rightarrow> order_context \<Rightarrow> status_effect result" where
  "buildCancellation localTime db propertyId command ctx =
     (let ord = oc_order ctx in
      if lo_status ord \<noteq> RESERVED then throw INVALID_ORDER_STATE 409
      else
        bindR (propertyLocalToday db propertyId) (\<lambda>localDate.
        if command = MARK_NO_SHOW
           \<and> (localDate < lo_arrival_date ord \<or> localDate = lo_arrival_date ord \<and> localTime < ''20:00'')
        then throw INVALID_ORDER_STATE 409
        else
          bindR (amountSummary (ps_currency (rv_pricing (oc_revision ctx))) 0 (netEffects db (lo_id ord))) (\<lambda>amounts.
          Inr \<lparr>se_orderId = lo_id ord, se_inventoryUnitId = ss_inventory_unit_id (oc_currentSegment ctx),
            se_businessDate = localDate, se_effectiveDate = None, se_onSchedule = False,
            se_coverageCount = length (coverageWith HELD db (lo_id ord)), se_amounts = Some amounts,
            se_pricingRevision = Some (0, terminalBasis ord), se_unusedRoomConfirmed = False\<rparr>)))"

definition buildCheckInRevocation :: "lodging_db \<Rightarrow> string \<Rightarrow> order_context \<Rightarrow> json_object \<Rightarrow> status_effect result" where
  "buildCheckInRevocation db propertyId ctx input =
     (let ord = oc_order ctx in
      if convertedToMembership db (lo_id ord) then throw INVALID_ORDER_STATE 409
      else if lo_status ord \<noteq> CHECKED_IN then throw INVALID_ORDER_STATE 409
      else if prop_of input ''unusedRoomConfirmed'' \<noteq> JBool True then validation_error
      else
        bindR (propertyLocalToday db propertyId) (\<lambda>businessDate.
        if businessDate \<noteq> lo_arrival_date ord then throw INVALID_ORDER_STATE 409
        else if coverageWith HELD db (lo_id ord) \<noteq> [] then throw ENTITLEMENT_CONFLICT 409
        else
          bindR (amountSummary (ps_currency (rv_pricing (oc_revision ctx))) 0 (netEffects db (lo_id ord))) (\<lambda>amounts.
          Inr \<lparr>se_orderId = lo_id ord, se_inventoryUnitId = ss_inventory_unit_id (oc_currentSegment ctx),
            se_businessDate = businessDate, se_effectiveDate = Some businessDate, se_onSchedule = True,
            se_coverageCount = length (coverageWith CONSUMED db (lo_id ord)), se_amounts = Some amounts,
            se_pricingRevision = Some (0, terminalBasis ord), se_unusedRoomConfirmed = True\<rparr>)))"

definition buildStatusEffect ::
  "unit result \<Rightarrow> string \<Rightarrow> lodging_db \<Rightarrow> string \<Rightarrow> status_command \<Rightarrow> json_object \<Rightarrow> status_effect result" where
  "buildStatusEffect evidence localTime db propertyId command input =
     bindR (requireString input ''orderId'') (\<lambda>orderId.
     bindR (loadOrderContextForProperty db propertyId orderId) (\<lambda>ctx.
     bindR evidence (\<lambda>_.
     case command of
       CHECK_IN \<Rightarrow> buildCheckIn db propertyId ctx
     | CHECK_OUT \<Rightarrow> buildCheckOut db propertyId ctx
     | REVOKE_CHECK_IN \<Rightarrow> buildCheckInRevocation db propertyId ctx input
     | _ \<Rightarrow> buildCancellation localTime db propertyId command ctx)))"

section \<open>Applying it\<close>

definition statusTarget :: "status_command \<Rightarrow> order_state \<times> stay_state" where
  "statusTarget c =
     (case c of CHECK_IN \<Rightarrow> (CHECKED_IN, IN_HOUSE) | CHECK_OUT \<Rightarrow> (CHECKED_OUT, COMPLETED) | CANCEL_ORDER \<Rightarrow> (CANCELLED, STAY_CANCELLED)
      | MARK_NO_SHOW \<Rightarrow> (NO_SHOW, STAY_NO_SHOW) | REVOKE_CHECK_IN \<Rightarrow> (CHECK_IN_REVOKED, STAY_CHECK_IN_REVOKED))"

definition releaseOrderClaims :: "string list \<Rightarrow> lodging_db \<Rightarrow> (string list \<times> lodging_db) result" where
  "releaseOrderClaims segmentIds db =
     bindR (releaseInventoryClaims (lb_inventory db) ORDER_SEGMENT segmentIds None) (\<lambda>(claimIds, store). Inr (claimIds, db\<lparr>lb_inventory := store\<rparr>))"

text \<open>The revision of a terminal command has no nights, no cash lines and no amount.\<close>

definition terminalPricing :: "string \<Rightarrow> pricing_basis \<Rightarrow> pricing_snapshot" where
  "terminalPricing cur basis = \<lparr>ps_coverageSet = [], ps_cashLines = [], ps_policyBaseAmountMinor = 0, ps_pricingBasis = basis,
     ps_manualAdjustmentMinor = 0, ps_currentContractAmountMinor = 0, ps_currency = cur\<rparr>"

definition endsWithoutStay :: "status_command \<Rightarrow> bool" where
  "endsWithoutStay c \<longleftrightarrow> c \<in> {CANCEL_ORDER, MARK_NO_SHOW, REVOKE_CHECK_IN}"

definition terminalRevision :: "transaction \<Rightarrow> order_context \<Rightarrow> status_effect \<Rightarrow> lodging_db \<Rightarrow> lodging_db result" where
  "terminalRevision tx ctx effect db =
     (case se_pricingRevision effect of None \<Rightarrow> throw INTERNAL_ERROR 500
      | Some (amountMinor, basis) \<Rightarrow>
        if amountMinor \<noteq> 0 then throw INTERNAL_ERROR 500
        else
          let ord = oc_order ctx in
          insertRevision tx (lo_id ord) (rv_revision_no (oc_revision ctx) + 1) (tx_amendmentId tx) (lo_pricing_policy_version_id ord)
            (lo_arrival_date ord) (lo_departure_date ord) (terminalPricing (ps_currency (rv_pricing (oc_revision ctx))) basis) db)"

definition withNights :: "lodging_db \<Rightarrow> coverage_refs \<times> entitlement_db \<Rightarrow> coverage_refs \<times> lodging_db" where
  "withNights db = (\<lambda>(refs, nights). (refs, db\<lparr>lb_nights := nights\<rparr>))"

text \<open>What a command does to the nights of the member and the claims of the stay.\<close>

definition settleStay ::
  "transaction \<Rightarrow> status_command \<Rightarrow> order_context \<Rightarrow> status_effect \<Rightarrow> lodging_db \<Rightarrow> (coverage_refs \<times> lodging_db) result" where
  "settleStay tx command ctx effect db =
     (let ids = tx_entitlement tx; orderId = lo_id (oc_order ctx); commandId = tx_commandId tx in
      case command of
        CHECK_IN \<Rightarrow> bindR (consumeCoverage ids orderId commandId None consumeReason (lb_nights db)) (\<lambda>r. Inr (withNights db r))
      | CHECK_OUT \<Rightarrow> bindR (releaseOrderClaims (oc_segmentIds ctx) db) (\<lambda>(_, db'). Inr (noRefs, db'))
      | REVOKE_CHECK_IN \<Rightarrow>
          if \<not> se_unusedRoomConfirmed effect then throw INTERNAL_ERROR 500
          else
            bindR (restoreConsumedCoverage ids orderId commandId (lb_nights db)) (\<lambda>r.
            let (refs, db1) = withNights db r in
            bindR (releaseOrderClaims (oc_segmentIds ctx) db1) (\<lambda>(_, db2). Inr (refs, db2)))
      | _ \<Rightarrow>
          let (refs, db1) = withNights db (releaseCoverage ids orderId commandId releaseAllHeld (lb_nights db)) in
          bindR (releaseOrderClaims (oc_segmentIds ctx) db1) (\<lambda>(_, db2). Inr (refs, db2)))"

definition applyStatusCommand ::
  "transaction \<Rightarrow> string \<Rightarrow> status_command \<Rightarrow> amendment_reason \<Rightarrow> status_effect \<Rightarrow> lodging_db \<Rightarrow> (coverage_refs \<times> lodging_db) result" where
  "applyStatusCommand tx propertyId command reason effect db =
     bindR (loadOrderContextForProperty db propertyId (se_orderId effect)) (\<lambda>ctx.
     let ord = oc_order ctx; orderId = lo_id ord;
         db1 = appendAmendment (tx_amendmentId tx) orderId (lo_version ord + 1) (statusCommandName command) reason (lo_version ord) (tx_commandId tx) db in
     bindR (if endsWithoutStay command then terminalRevision tx ctx effect db1 else Inr db1) (\<lambda>db2.
     bindR (settleStay tx command ctx effect db2) (\<lambda>(refs, db3).
     let revise = (\<lambda>r. r\<lparr>lo_status := fst (statusTarget command), lo_version := lo_version ord + 1\<rparr>
           \<lparr>lo_current_revision_id := (if endsWithoutStay command then Some (tx_revisionId tx) else lo_current_revision_id r)\<rparr>) in
     Inr (refs, updateStay (sy_id (oc_stay ctx)) (snd (statusTarget command)) (updateOrder orderId revise db3)))))"

end
