(* ===== verification/StayArrangement.thy ===== *)
theory StayArrangement
  imports StayLifecycle "HOL-Library.While_Combinator"
begin

text \<open>
  The commands that create and change the arrangement of a stay: the application of CREATE_ORDER
  (\<^verbatim>\<open>commands/apply.ts\<close>, with the checks on a backfill that \<^verbatim>\<open>commands/effects.ts\<close> makes), of
  RESCHEDULE_STAY, EXTEND_STAY and SHORTEN_STAY with the plan of their dates, and of REPRICE_ORDER and
  REFRESH_MEMBER_COVERAGE. What the pricing of the arrangement yields and what the projection of the history of an
  order finds are read-only parts of a preview and arguments.
\<close>

section \<open>Creating an order\<close>

record temporary_arrangement =
  ta_memberContractId :: string
  ta_actualInventoryUnitId :: string
  ta_actualRoomTypeCode :: string
  ta_arrivalDate :: string
  ta_departureDate :: string
  ta_entitlementLotId :: string

record stay_collection =
  sc_amountMinor :: int
  sc_method :: string
  sc_note :: "string option"
  sc_transactionReference :: "string option"

record backfill_effect =
  bf_status :: order_state
  bf_stayStatus :: stay_state
  bf_reason :: string
  bf_businessDate :: string
  bf_collection :: "stay_collection option"

record create_effect =
  cx_occupants :: "occupant_record list"
  cx_unitId :: string
  cx_unitKind :: inventory_unit_kind
  cx_unitRoomTypeCode :: "string option"
  cx_arrivalDate :: string
  cx_departureDate :: string
  cx_stayType :: string
  cx_policyVersionId :: string
  cx_memberId :: "string option"
  cx_memberContractId :: "string option"
  cx_bookingChannelCode :: js_value
  cx_channelOrderReference :: js_value
  cx_freeStayReason :: string
  cx_freeStayCategoryCode :: string
  cx_pricing :: pricing_snapshot
  cx_temporary :: "(temporary_arrangement \<times> string) option"
  cx_backfill :: "backfill_effect option"

definition memberStay :: "create_effect \<Rightarrow> bool" where
  "memberStay effect \<longleftrightarrow> truthyId (cx_memberId effect) \<noteq> None \<or> truthyId (cx_memberContractId effect) \<noteq> None"

definition nonblank :: "string \<Rightarrow> string result" where
  "nonblank s = (if trim s = [] then validation_error else Inr (trim s))"

definition occupantsOrdered :: "occupant_record list \<Rightarrow> bool" where
  "occupantsOrdered occupants \<longleftrightarrow> map oa_ordinal occupants = [1..<length occupants + 1]"

definition temporaryConsistent :: "create_effect \<Rightarrow> temporary_arrangement \<Rightarrow> bool result" where
  "temporaryConsistent effect ta =
     (let ps = cx_pricing effect in
      if truthyId (cx_memberId effect) = None \<or> cx_memberContractId effect \<noteq> Some (ta_memberContractId ta)
         \<or> cx_unitId effect \<noteq> ta_actualInventoryUnitId ta \<or> cx_unitKind effect \<noteq> ROOM
         \<or> cx_unitRoomTypeCode effect \<noteq> Some (ta_actualRoomTypeCode ta)
         \<or> cx_arrivalDate effect \<noteq> ta_arrivalDate ta \<or> cx_departureDate effect \<noteq> ta_departureDate ta then Inr False
      else
        bindR (enumerateServiceDates (cx_arrivalDate effect) (cx_departureDate effect)) (\<lambda>dates.
        Inr (length (ps_coverageSet ps) = length dates
          \<and> list_all (\<lambda>i. ci_inventoryUnitId i = cx_unitId effect \<and> ci_entitlementLotId i = ta_entitlementLotId ta
               \<and> ci_unitKind i = ROOM_NIGHT) (ps_coverageSet ps)
          \<and> ps_cashLines ps = [] \<and> ps_currentContractAmountMinor ps = 0 \<and> ps_manualAdjustmentMinor ps = 0)))"

definition checkTemporary :: "create_effect \<Rightarrow> unit result" where
  "checkTemporary effect =
     (case cx_temporary effect of None \<Rightarrow> Inr ()
      | Some (ta, _) \<Rightarrow> bindR (temporaryConsistent effect ta) (\<lambda>ok. if ok then Inr () else throw INTERNAL_ERROR 500))"

definition checkBackfill :: "create_effect \<Rightarrow> amendment_reason \<Rightarrow> unit result" where
  "checkBackfill effect reason =
     (case cx_backfill effect of
        Some bf \<Rightarrow>
          let completed = bf_status bf = CHECKED_OUT \<and> bf_stayStatus bf = COMPLETED;
              inHouse = bf_status bf = CHECKED_IN \<and> bf_stayStatus bf = IN_HOUSE in
          if \<not> completed \<and> \<not> inHouse then throw INTERNAL_ERROR 500
          else if bf_businessDate bf \<le> cx_arrivalDate effect \<or> completed \<and> bf_businessDate bf < cx_departureDate effect
             \<or> inHouse \<and> cx_departureDate effect \<le> bf_businessDate bf then throw INTERNAL_ERROR 500
          else if cr_code reason \<noteq> ''BACKFILL_STAY'' \<or> trim (cr_note reason) \<noteq> bf_reason bf then throw CONFIRMATION_MISMATCH 409
          else Inr ()
      | None \<Rightarrow>
          case cx_temporary effect of
            Some (_, temporaryReason) \<Rightarrow>
              if cr_code reason \<noteq> ''TEMPORARY_OTHER_ROOM'' \<or> cr_note reason \<noteq> temporaryReason then throw CONFIRMATION_MISMATCH 409
              else Inr ()
          | None \<Rightarrow>
              if cr_code reason \<noteq> ''CREATE_STANDARD_ORDER'' \<or> cr_note reason \<noteq> [] then throw CONFIRMATION_MISMATCH 409 else Inr ())"

text \<open>The text of a channel code, as the orders table keeps it.\<close>

definition channelName :: "booking_channel_code \<Rightarrow> string" where
  "channelName c = (case c of YOUMUDAO \<Rightarrow> ''YOUMUDAO'' | CTRIP \<Rightarrow> ''CTRIP'' | MEITUAN \<Rightarrow> ''MEITUAN'' | WECOM \<Rightarrow> ''WECOM'')"

definition orderChannel :: "create_effect \<Rightarrow> (string option \<times> string option) result" where
  "orderChannel effect =
     (let given = cx_bookingChannelCode effect \<noteq> Null \<or> cx_channelOrderReference effect \<noteq> Null in
      if memberStay effect \<and> given then validation_error
      else if cx_stayType effect = ''FREE'' \<and> given then validation_error
      else if memberStay effect \<or> cx_stayType effect = ''FREE'' then Inr (None, None)
      else bindR (validateBookingChannel (cx_bookingChannelCode effect) (cx_channelOrderReference effect)) (\<lambda>(channel, reference).
        Inr (Some (channelName channel), reference)))"

definition freeText :: "create_effect \<Rightarrow> string \<Rightarrow> string option result" where
  "freeText effect s = (if cx_stayType effect = ''FREE'' then bindR (nonblank s) (\<lambda>t. Inr (Some t)) else Inr None)"

definition bumpMembershipForCoverage :: "coverage_item_dto list \<Rightarrow> entitlement_db \<Rightarrow> entitlement_db result" where
  "bumpMembershipForCoverage coverageSet nights =
     (if coverageSet = [] then Inr nights
      else
        let lotIds = uniq (map ci_entitlementLotId coverageSet); lots = filter (\<lambda>l. el_id l \<in> set lotIds) (en_lots nights) in
        if length lots \<noteq> length lotIds then throw ENTITLEMENT_CONFLICT 409
        else Inr (incrementOwners (map (\<lambda>l. (el_contract_id l, el_id l)) lots) nights))"

text \<open>The claims on the nights of one unit; their identifiers are drawn per unit and night.\<close>

definition claimNights ::
  "(string \<Rightarrow> order_view result) \<Rightarrow> transaction \<Rightarrow> string \<Rightarrow> string \<Rightarrow> string list \<Rightarrow> string list \<Rightarrow> lodging_db
     \<Rightarrow> (string list \<times> lodging_db) result" where
  "claimNights view tx propertyId unitId dates excludeSourceIds db =
     bindR (loadInventoryUnit (lb_inventory db) propertyId unitId) (\<lambda>unit.
     bindR (createInventoryClaims view (inventoryTables db)
         \<lparr>co_propertyId = propertyId, co_unit = unit, co_sourceType = ORDER_SEGMENT, co_sourceId = tx_segmentId tx\<rparr>
         dates excludeSourceIds LODGING_NIGHTS (map (tx_claimIds tx unitId) dates)) (\<lambda>(claimIds, store).
     Inr (claimIds, putInventory store db)))"

definition holdNights :: "transaction \<Rightarrow> create_effect \<Rightarrow> string \<Rightarrow> lodging_db \<Rightarrow> lodging_db result" where
  "holdNights tx effect orderId db =
     (case truthyId (cx_memberContractId effect) of None \<Rightarrow> Inr db
      | Some contractId \<Rightarrow>
        bindR (holdCoverage (tx_entitlement tx) orderId contractId (cx_memberId effect) (tx_revisionId tx)
            (ps_coverageSet (cx_pricing effect)) (tx_commandId tx) (lb_nights db)) (\<lambda>(_, nights).
        bindR (bumpMembershipForCoverage (ps_coverageSet (cx_pricing effect)) nights) (\<lambda>nights'. Inr (db\<lparr>lb_nights := nights'\<rparr>))))"

text \<open>The rows of a new order, its stay, occupants, amendment and first segment.\<close>

definition insertOrder ::
  "transaction \<Rightarrow> string \<Rightarrow> string \<Rightarrow> string \<Rightarrow> amendment_reason \<Rightarrow> create_effect \<Rightarrow> string option \<times> string option
     \<Rightarrow> string option \<Rightarrow> string option \<Rightarrow> lodging_db \<Rightarrow> lodging_db" where
  "insertOrder tx orderId stayId propertyId reason effect channel freeReason freeCategory db =
     (let status = (case cx_backfill effect of None \<Rightarrow> RESERVED | Some bf \<Rightarrow> bf_status bf);
          stayStatus = (case cx_backfill effect of None \<Rightarrow> PLANNED | Some bf \<Rightarrow> bf_stayStatus bf) in
      appendAmendment (tx_amendmentId tx) orderId 1 ''CREATE_ORDER'' reason 0 (tx_commandId tx)
        (db\<lparr>lb_orders := lb_orders db @ [\<lparr>lo_id = orderId, lo_property_id = propertyId, lo_status = status, lo_stay_type = cx_stayType effect,
              lo_arrival_date = cx_arrivalDate effect, lo_departure_date = cx_departureDate effect,
              lo_booking_channel_code = fst channel, lo_channel_order_reference = snd channel, lo_free_stay_reason = freeReason,
              lo_free_stay_category_code = freeCategory, lo_pricing_policy_version_id = cx_policyVersionId effect,
              lo_member_id = cx_memberId effect, lo_member_contract_id = cx_memberContractId effect,
              lo_current_revision_id = None, lo_version = 1\<rparr>],
            lb_occupants := lb_occupants db @ map (\<lambda>p. p\<lparr>oa_order_id := orderId, oa_command_id := tx_commandId tx\<rparr>) (cx_occupants effect),
            lb_stays := lb_stays db @ [\<lparr>sy_id = stayId, sy_order_id = orderId, sy_status = stayStatus\<rparr>],
            lb_segments := lb_segments db @ [\<lparr>ss_id = tx_segmentId tx, ss_stay_id = stayId, ss_sequence = 1,
              ss_inventory_unit_id = cx_unitId effect, ss_arrival_date = cx_arrivalDate effect, ss_departure_date = cx_departureDate effect,
              ss_segment_type = ''INITIAL'', ss_supersedes_segment_id = None, ss_amendment_id = tx_amendmentId tx\<rparr>]\<rparr>))"

text \<open>A backfill records the check-in and, for a completed stay, the check-out, and what was paid.\<close>

definition backfillFact :: "transaction \<Rightarrow> string \<Rightarrow> create_effect \<Rightarrow> amendment_reason \<Rightarrow> stay_collection \<Rightarrow> fund_fact" where
  "backfillFact tx orderId effect reason col =
     \<lparr>fa_fact_id = tx_factId tx, fa_currency = ps_currency (cx_pricing effect), fa_amount_minor = sc_amountMinor col,
      fa_net_effect_minor = sc_amountMinor col, fa_pricing_revision_id = Some (tx_revisionId tx), fa_fact_type = COLLECTION,
      fa_references_fact_id = None, fa_reverses_fact_id = None, fu_order_id = orderId, fu_method = sc_method col,
      fu_note = (case sc_note col of None \<Rightarrow> cr_note reason | Some n \<Rightarrow> n), fu_transaction_reference = sc_transactionReference col,
      fu_refund_reference = None, fu_bill_id = None, fu_command_id = tx_commandId tx\<rparr>"

definition applyBackfill ::
  "transaction \<Rightarrow> string \<Rightarrow> amendment_reason \<Rightarrow> create_effect \<Rightarrow> backfill_effect \<Rightarrow> lodging_db \<Rightarrow> lodging_db result" where
  "applyBackfill tx orderId reason effect bf db =
     (let db1 = appendAmendment (tx_secondAmendmentId tx) orderId 2 ''CHECK_IN'' reason 1 (tx_commandId tx) db in
      bindR (if bf_status bf = CHECKED_OUT then
          bindR (releaseOrderClaims [tx_segmentId tx]
              (appendAmendment (tx_thirdAmendmentId tx) orderId 3 ''CHECK_OUT'' reason 2 (tx_commandId tx) db1)) (\<lambda>(_, db2).
          if truthyId (cx_memberContractId effect) = None then Inr db2
          else bindR (consumeCoverage (tx_entitlement tx) orderId (tx_commandId tx) None consumeReason (lb_nights db2)) (\<lambda>r.
            Inr (snd (withNights db2 r))))
        else Inr db1) (\<lambda>db3.
      let db4 = updateOrder orderId (\<lambda>r. r\<lparr>lo_version := (if bf_status bf = CHECKED_OUT then 3 else 2)\<rparr>) db3 in
      case bf_collection bf of None \<Rightarrow> Inr db4
      | Some col \<Rightarrow>
        if sc_amountMinor col < 0 then validation_error
        else if sc_amountMinor col = 0 then Inr db4
        else Inr (db4\<lparr>lb_facts := lb_facts db4 @ [backfillFact tx orderId effect reason col]\<rparr>)))"

definition applyCreateOrder ::
  "(string \<Rightarrow> order_view result) \<Rightarrow> transaction \<Rightarrow> string \<Rightarrow> amendment_reason \<Rightarrow> create_effect \<Rightarrow> lodging_db \<Rightarrow> lodging_db result" where
  "applyCreateOrder view tx propertyId reason effect db =
     (let orderId = tx_orderId tx; pricing = cx_pricing effect in
      if (case cx_temporary effect of None \<Rightarrow> False | Some (_, note) \<Rightarrow> trim note = []) then validation_error
      else if (case cx_temporary effect of None \<Rightarrow> False | Some (_, note) \<Rightarrow> 200 < length note) then throw INTERNAL_ERROR 500
      else if cx_occupants effect = [] \<or> \<not> occupantsOrdered (cx_occupants effect) then throw INTERNAL_ERROR 500
      else
        bindR (checkTemporary effect) (\<lambda>_.
        bindR (checkBackfill effect reason) (\<lambda>_.
        bindR (orderChannel effect) (\<lambda>channel.
        bindR (freeText effect (cx_freeStayReason effect)) (\<lambda>freeReason.
        bindR (freeText effect (cx_freeStayCategoryCode effect)) (\<lambda>freeCategory.
        let db1 = insertOrder tx orderId (tx_stayId tx) propertyId reason effect channel freeReason freeCategory db in
        bindR (insertRevision tx orderId 1 (tx_amendmentId tx) (cx_policyVersionId effect) (cx_arrivalDate effect) (cx_departureDate effect)
            pricing db1) (\<lambda>db2.
        let db3 = updateOrder orderId (\<lambda>r. r\<lparr>lo_current_revision_id := Some (tx_revisionId tx)\<rparr>) db2 in
        bindR (enumerateServiceDates (cx_arrivalDate effect) (cx_departureDate effect)) (\<lambda>dates.
        bindR (claimNights view tx propertyId (cx_unitId effect) dates [] db3) (\<lambda>(_, db4).
        bindR (holdNights tx effect orderId db4) (\<lambda>db5.
        case cx_backfill effect of None \<Rightarrow> Inr db5 | Some bf \<Rightarrow> applyBackfill tx orderId reason effect bf db5))))))))))"

text \<open>What the preview of CREATE_ORDER admits as a backfill: a paid or free stay that is no member's.\<close>

definition backfillAdmitted :: "create_effect \<Rightarrow> bool" where
  "backfillAdmitted effect \<longleftrightarrow> cx_backfill effect = None \<or> \<not> memberStay effect \<and> cx_temporary effect = None"

section \<open>Changing the dates of a stay\<close>

text \<open>The while loop that finds the first night of the last unit.\<close>

definition trailingStart :: "stay_timeline_item list \<Rightarrow> nat option" where
  "trailingStart timeline =
     while_option (\<lambda>i. 0 < i \<and> ti_inventoryUnitId (timeline ! (i - 1)) = ti_inventoryUnitId (last timeline)) (\<lambda>i. i - 1) (length timeline - 1)"

definition trailingTimelineRun :: "stay_timeline_item list \<Rightarrow> (string \<times> string) option" where
  "trailingTimelineRun timeline =
     map_option (\<lambda>i. (ti_inventoryUnitId (last timeline), ti_serviceDate (timeline ! i))) (trailingStart timeline)"

text \<open>
  The loop ends; it stops at the start of the last maximal run of one unit.
\<close>

lemma trailingStart_run:
  assumes "timeline \<noteq> []"
  shows "\<exists>k. trailingStart timeline = Some k \<and> k < length timeline
     \<and> (\<forall>j. k \<le> j \<and> j < length timeline \<longrightarrow> ti_inventoryUnitId (timeline ! j) = ti_inventoryUnitId (last timeline))
     \<and> (k = 0 \<or> ti_inventoryUnitId (timeline ! (k - 1)) \<noteq> ti_inventoryUnitId (last timeline))"
proof -
  let ?u = "ti_inventoryUnitId (last timeline)"
  let ?b = "\<lambda>i. 0 < i \<and> ti_inventoryUnitId (timeline ! (i - 1)) = ?u"
  let ?P = "\<lambda>k. k < length timeline \<and> (\<forall>j. k \<le> j \<and> j < length timeline \<longrightarrow> ti_inventoryUnitId (timeline ! j) = ?u)"
  have start: "?P (length timeline - 1)"
  proof -
    have "j = length timeline - 1" if "length timeline - 1 \<le> j" "j < length timeline" for j using that by linarith
    then show ?thesis using assms by (auto simp: last_conv_nth)
  qed
  have step: "?P (i - 1)" if "?P i" "?b i" for i
  proof -
    have "ti_inventoryUnitId (timeline ! j) = ?u" if "i - 1 \<le> j" "j < length timeline" for j
      using that \<open>?P i\<close> \<open>?b i\<close> by (cases "j = i - 1") auto
    then show ?thesis using \<open>?P i\<close> by auto
  qed
  have "\<exists>k. while_option ?b (\<lambda>i. i - 1) (length timeline - 1) = Some k"
    by (rule measure_while_option_Some [where P = "\<lambda>_. True" and f = id]) auto
  then obtain k where k: "trailingStart timeline = Some k" by (auto simp: trailingStart_def)
  then have w: "while_option ?b (\<lambda>i. i - 1) (length timeline - 1) = Some k" by (simp only: trailingStart_def)
  have "?P k" by (rule while_option_rule [where P = ?P, OF step w start])
  moreover have "k = 0 \<or> ti_inventoryUnitId (timeline ! (k - 1)) \<noteq> ?u" using while_option_stop [OF w] by linarith
  ultimately show ?thesis using k by (intro exI [of _ k] conjI) (elim conjE; assumption)+
qed

text \<open>
  C40: The search for the last run of nights in one unit ends on every timeline with a night and returns that
  unit with the first night of its last maximal run: every night from there on is in the unit, the one before is not.
\<close>
theorem trailingTimelineRun_terminates:
  assumes "timeline \<noteq> []"
  shows "\<exists>k<length timeline. trailingTimelineRun timeline = Some (ti_inventoryUnitId (last timeline), ti_serviceDate (timeline ! k))
     \<and> (\<forall>item\<in>set (drop k timeline). ti_inventoryUnitId item = ti_inventoryUnitId (last timeline))
     \<and> (k = 0 \<or> ti_inventoryUnitId (timeline ! (k - 1)) \<noteq> ti_inventoryUnitId (last timeline))"
proof -
  from trailingStart_run [OF assms] obtain k where k: "trailingStart timeline = Some k \<and> k < length timeline
     \<and> (\<forall>j. k \<le> j \<and> j < length timeline \<longrightarrow> ti_inventoryUnitId (timeline ! j) = ti_inventoryUnitId (last timeline))
     \<and> (k = 0 \<or> ti_inventoryUnitId (timeline ! (k - 1)) \<noteq> ti_inventoryUnitId (last timeline))" ..
  have "ti_inventoryUnitId item = ti_inventoryUnitId (last timeline)" if item: "item \<in> set (drop k timeline)" for item
  proof -
    from item obtain i where "i < length timeline - k" "item = timeline ! (k + i)" by (auto simp: in_set_conv_nth)
    then show ?thesis using k by simp
  qed
  with k show ?thesis by (intro exI [of _ k]) (simp add: trailingTimelineRun_def)
qed

lemma trailingTimelineRun_terminates_witness:
  "\<exists>k<3. trailingTimelineRun [\<lparr>ti_serviceDate = ''2025-05-01'', ti_inventoryUnitId = ''r1''\<rparr>, \<lparr>ti_serviceDate = ''2025-05-02'', ti_inventoryUnitId = ''r2''\<rparr>,
       \<lparr>ti_serviceDate = ''2025-05-03'', ti_inventoryUnitId = ''r2''\<rparr>]
     = Some (''r2'', ti_serviceDate ([\<lparr>ti_serviceDate = ''2025-05-01'', ti_inventoryUnitId = ''r1''\<rparr>, \<lparr>ti_serviceDate = ''2025-05-02'', ti_inventoryUnitId = ''r2''\<rparr>,
       \<lparr>ti_serviceDate = ''2025-05-03'', ti_inventoryUnitId = ''r2''\<rparr>] ! k))"
  using trailingTimelineRun_terminates [of "[\<lparr>ti_serviceDate = ''2025-05-01'', ti_inventoryUnitId = ''r1''\<rparr>, \<lparr>ti_serviceDate = ''2025-05-02'', ti_inventoryUnitId = ''r2''\<rparr>,
       \<lparr>ti_serviceDate = ''2025-05-03'', ti_inventoryUnitId = ''r2''\<rparr>]"] by (auto simp: eval_nat_numeral)

datatype date_command = RESCHEDULE_STAY | EXTEND_STAY

definition dateCommandName :: "date_command \<Rightarrow> string" where
  "dateCommandName c = (case c of RESCHEDULE_STAY \<Rightarrow> ''RESCHEDULE_STAY'' | EXTEND_STAY \<Rightarrow> ''EXTEND_STAY'')"

record arrangement_effect =
  ae_orderId :: string
  ae_arrivalDate :: string
  ae_departureDate :: string
  ae_stayTimeline :: "stay_timeline_item list"
  ae_inventoryUnitId :: string
  ae_preservedDates :: "string list"
  ae_releasedDates :: "string list"
  ae_addedDates :: "string list"
  ae_earlyCheckOut :: bool
  ae_businessDate :: string
  ae_pricing :: pricing_snapshot
  ae_coverageDates :: "string list"

text \<open>
  The plan that the preview makes; \<open>history\<close> is what the projection of the order's history
  and the checks on a temporary arrangement throw, \<open>priced\<close> the price
  of the new nights with the nights to be consumed.
\<close>

definition noConflict :: "lodging_db \<Rightarrow> (string \<Rightarrow> order_view result) \<Rightarrow> string \<Rightarrow> string list \<Rightarrow> stay_timeline_item \<Rightarrow> bool result" where
  "noConflict db view propertyId segmentIds item =
     bindR (nextServiceDate (ti_serviceDate item)) (\<lambda>next.
     bindR (inventoryFingerprint view (inventoryTables db) propertyId (ti_inventoryUnitId item) (ti_serviceDate item) next segmentIds
         LODGING_NIGHTS) (\<lambda>fingerprint. Inr (fingerprint = [])))"

definition planDateChange ::
  "unit result \<Rightarrow> (stay_timeline_item list \<Rightarrow> (pricing_snapshot \<times> string list) result) \<Rightarrow> (string \<Rightarrow> order_view result) \<Rightarrow> lodging_db
     \<Rightarrow> string \<Rightarrow> date_command \<Rightarrow> order_context \<Rightarrow> json_object \<Rightarrow> arrangement_effect result" where
  "planDateChange history priced view db propertyId command ctx input =
     (let ord = oc_order ctx; reschedule = command = RESCHEDULE_STAY in
      if reschedule \<and> lo_status ord \<noteq> RESERVED then throw INVALID_ORDER_STATE 409
      else if \<not> reschedule \<and> lo_status ord \<noteq> CHECKED_IN then throw INVALID_ORDER_STATE 409
      else
        bindR (propertyLocalToday db propertyId) (\<lambda>businessDate.
        bindR (loadActiveStayTimeline db ctx) (\<lambda>current.
        bindR history (\<lambda>_.
        bindR (if reschedule then requireString input ''newArrivalDate'' else Inr (lo_arrival_date ord)) (\<lambda>newArrival.
        bindR (requireString input ''newDepartureDate'') (\<lambda>newDeparture.
        bindR (enumerateServiceDates newArrival newDeparture) (\<lambda>_.
        if reschedule \<and> newArrival < businessDate then validation_error
        else if reschedule \<and> newArrival = lo_arrival_date ord \<and> newDeparture = lo_departure_date ord then validation_error
        else if \<not> reschedule \<and> newDeparture \<le> lo_departure_date ord then validation_error
        else if \<not> reschedule \<and> lo_departure_date ord < businessDate \<and> newDeparture \<le> businessDate then validation_error
        else
          bindR (planStayDateChangeTimeline current (lo_arrival_date ord) (lo_departure_date ord) newArrival newDeparture) (\<lambda>stayTimeline.
          let diff = timelinePairDiff current stayTimeline in
          bindR (mapR (noConflict db view propertyId (oc_segmentIds ctx)) (added diff)) (\<lambda>free.
          if \<not> list_all (\<lambda>b. b) free then throw INVENTORY_CONFLICT 409
          else if reschedule \<and> coverageWith CONSUMED db (lo_id ord) \<noteq> [] then throw ENTITLEMENT_CONFLICT 409
          else if \<not> reschedule \<and> coverageWith HELD db (lo_id ord) \<noteq> [] then throw ENTITLEMENT_CONFLICT 409
          else
            bindR (priced stayTimeline) (\<lambda>(pricing, coverageDates).
            Inr \<lparr>ae_orderId = lo_id ord, ae_arrivalDate = newArrival, ae_departureDate = newDeparture, ae_stayTimeline = stayTimeline,
              ae_inventoryUnitId = ti_inventoryUnitId (last stayTimeline), ae_preservedDates = map ti_serviceDate (preserved diff),
              ae_releasedDates = map ti_serviceDate (released diff), ae_addedDates = map ti_serviceDate (added diff),
              ae_earlyCheckOut = False, ae_businessDate = businessDate, ae_pricing = pricing, ae_coverageDates = coverageDates\<rparr>))))))))))"

definition insertSegment :: "transaction \<Rightarrow> order_context \<Rightarrow> string \<Rightarrow> string \<Rightarrow> string \<Rightarrow> string \<Rightarrow> lodging_db \<Rightarrow> lodging_db" where
  "insertSegment tx ctx unitId arrivalDate departureDate segmentType db =
     db\<lparr>lb_segments := lb_segments db @ [\<lparr>ss_id = tx_segmentId tx, ss_stay_id = sy_id (oc_stay ctx),
          ss_sequence = ss_sequence (oc_currentSegment ctx) + 1, ss_inventory_unit_id = unitId, ss_arrival_date = arrivalDate,
          ss_departure_date = departureDate, ss_segment_type = segmentType,
          ss_supersedes_segment_id = Some (ss_id (oc_currentSegment ctx)), ss_amendment_id = tx_amendmentId tx\<rparr>]\<rparr>"

text \<open>The added nights, by unit in the order of their first night.\<close>

definition addedByUnit :: "stay_timeline_item list \<Rightarrow> (string \<times> string list) list" where
  "addedByUnit items =
     fold (\<lambda>item m. jmap_set (ti_inventoryUnitId item)
         ((case jmap_get m (ti_inventoryUnitId item) of None \<Rightarrow> [] | Some dates \<Rightarrow> dates) @ [ti_serviceDate item]) m) items []"

definition claimAdded ::
  "(string \<Rightarrow> order_view result) \<Rightarrow> transaction \<Rightarrow> string \<Rightarrow> string list \<Rightarrow> nat \<times> lodging_db \<Rightarrow> string \<times> string list \<Rightarrow> (nat \<times> lodging_db) result" where
  "claimAdded view tx propertyId excludeSourceIds = (\<lambda>(n, db) (unitId, dates).
     bindR (claimNights view tx propertyId unitId dates excludeSourceIds db) (\<lambda>(claimIds, db'). Inr (n + length claimIds, db')))"

definition releaseNights :: "string list \<Rightarrow> string list \<Rightarrow> lodging_db \<Rightarrow> (string list \<times> lodging_db) result" where
  "releaseNights segmentIds dates db =
     bindR (releaseInventoryClaimsOnDates (lb_inventory db) ORDER_SEGMENT segmentIds dates) (\<lambda>(claimIds, store). Inr (claimIds, db\<lparr>lb_inventory := store\<rparr>))"

definition isMember :: "lodging_order \<Rightarrow> bool" where
  "isMember ord \<longleftrightarrow> truthyId (lo_member_id ord) \<noteq> None \<or> truthyId (lo_member_contract_id ord) \<noteq> None"

definition reconcileNights :: "transaction \<Rightarrow> lodging_order \<Rightarrow> pricing_snapshot \<Rightarrow> lodging_db \<Rightarrow> lodging_db result" where
  "reconcileNights tx ord pricing db =
     (if isMember ord then
        bindR (reconcileCoverage (tx_entitlement tx) (lo_id ord) (case lo_member_contract_id ord of None \<Rightarrow> [] | Some c \<Rightarrow> c)
            (lo_member_id ord) (tx_revisionId tx) (ps_coverageSet pricing) (tx_commandId tx) (lb_nights db)) (\<lambda>r. Inr (snd (withNights db r)))
      else Inr db)"

definition consumeNights :: "transaction \<Rightarrow> lodging_order \<Rightarrow> string list option \<Rightarrow> string \<Rightarrow> lodging_db \<Rightarrow> lodging_db result" where
  "consumeNights tx ord dates reason db =
     (if isMember ord then
        bindR (consumeCoverage (tx_entitlement tx) (lo_id ord) (tx_commandId tx) dates reason (lb_nights db)) (\<lambda>r. Inr (snd (withNights db r)))
      else Inr db)"

definition applyDateChange ::
  "(string \<Rightarrow> order_view result) \<Rightarrow> transaction \<Rightarrow> string \<Rightarrow> date_command \<Rightarrow> amendment_reason \<Rightarrow> arrangement_effect \<Rightarrow> lodging_db
     \<Rightarrow> lodging_db result" where
  "applyDateChange view tx propertyId command reason effect db =
     bindR (loadOrderContextForProperty db propertyId (ae_orderId effect)) (\<lambda>ctx.
     let ord = oc_order ctx; orderId = lo_id ord; stayTimeline = ae_stayTimeline effect;
         db1 = appendAmendment (tx_amendmentId tx) orderId (lo_version ord + 1) (dateCommandName command) reason (lo_version ord) (tx_commandId tx) db in
     if stayTimeline = [] then throw INTERNAL_ERROR 500
     else
       bindR (loadActiveStayTimeline db1 ctx) (\<lambda>current.
       bindR (planStayDateChangeTimeline current (lo_arrival_date ord) (lo_departure_date ord) (ae_arrivalDate effect) (ae_departureDate effect)) (\<lambda>expected.
       if stayTimeline \<noteq> expected then throw INTERNAL_ERROR 500
       else case trailingTimelineRun stayTimeline of None \<Rightarrow> uncaught
       | Some (tailUnit, tailArrival) \<Rightarrow>
         let diff = timelinePairDiff current stayTimeline in
         if ae_inventoryUnitId effect \<noteq> tailUnit then throw INTERNAL_ERROR 500
         else if ae_preservedDates effect \<noteq> map ti_serviceDate (preserved diff) \<or> ae_releasedDates effect \<noteq> map ti_serviceDate (released diff)
            \<or> ae_addedDates effect \<noteq> map ti_serviceDate (added diff) then throw INTERNAL_ERROR 500
         else
           let db2 = insertSegment tx ctx tailUnit tailArrival (ae_departureDate effect) (dateCommandName command) db1 in
           bindR (insertRevision tx orderId (rv_revision_no (oc_revision ctx) + 1) (tx_amendmentId tx) (lo_pricing_policy_version_id ord)
               (ae_arrivalDate effect) (ae_departureDate effect) (ae_pricing effect) db2) (\<lambda>db3.
           bindR (releaseNights (oc_segmentIds ctx) (ae_releasedDates effect) db3) (\<lambda>(releasedIds, db4).
           if length releasedIds \<noteq> length (released diff) then throw INTERNAL_ERROR 500
           else
             bindR (foldR (claimAdded view tx propertyId (oc_segmentIds ctx @ [tx_segmentId tx])) (0, db4) (addedByUnit (added diff))) (\<lambda>(n, db5).
             if n \<noteq> length (added diff) then throw INTERNAL_ERROR 500
             else
               bindR (reconcileNights tx ord (ae_pricing effect) db5) (\<lambda>db6.
               bindR (if command = EXTEND_STAY then consumeNights tx ord (Some (ae_coverageDates effect)) ''EXTEND_STAY_ENTITLEMENT_CONSUMED'' db6
                      else Inr db6) (\<lambda>db7.
               Inr (updateOrder orderId (\<lambda>r. r\<lparr>lo_arrival_date := ae_arrivalDate effect, lo_departure_date := ae_departureDate effect,
                   lo_current_revision_id := Some (tx_revisionId tx), lo_version := lo_version ord + 1\<rparr>) db7)))))))))"

text \<open>The plan of SHORTEN_STAY; \<open>priced\<close> also yields the consumed nights to give back.\<close>

definition planShorten ::
  "unit result \<Rightarrow> (stay_timeline_item list \<Rightarrow> (pricing_snapshot \<times> string list) result) \<Rightarrow> lodging_db \<Rightarrow> string \<Rightarrow> order_context \<Rightarrow> json_object
     \<Rightarrow> arrangement_effect result" where
  "planShorten history priced db propertyId ctx input =
     (let ord = oc_order ctx in
      if lo_status ord \<noteq> CHECKED_IN then throw INVALID_ORDER_STATE 409
      else
        bindR (propertyLocalToday db propertyId) (\<lambda>businessDate.
        bindR (loadActiveStayTimeline db ctx) (\<lambda>current.
        bindR history (\<lambda>_.
        if businessDate \<le> lo_arrival_date ord then throw INVALID_ORDER_STATE 409
        else if lo_departure_date ord \<le> businessDate then throw INVALID_ORDER_STATE 409
        else
          bindR (requireString input ''newDepartureDate'') (\<lambda>newDeparture.
          bindR (parseLocalDate newDeparture) (\<lambda>_.
          if lo_departure_date ord \<le> newDeparture then validation_error
          else if newDeparture < businessDate then validation_error
          else if newDeparture \<le> lo_arrival_date ord then validation_error
          else
            bindR (enumerateServiceDates (lo_arrival_date ord) newDeparture) (\<lambda>newDates.
            let oldDates = map ti_serviceDate current; stayTimeline = filter (\<lambda>i. ti_serviceDate i < newDeparture) current in
            if map ti_serviceDate stayTimeline \<noteq> newDates then throw INTERNAL_ERROR 500
            else if coverageWith HELD db (lo_id ord) \<noteq> [] then throw ENTITLEMENT_CONFLICT 409
            else
              bindR (priced stayTimeline) (\<lambda>(pricing, coverageDates).
              Inr \<lparr>ae_orderId = lo_id ord, ae_arrivalDate = lo_arrival_date ord, ae_departureDate = newDeparture, ae_stayTimeline = stayTimeline,
                ae_inventoryUnitId = ti_inventoryUnitId (last stayTimeline), ae_preservedDates = filter (\<lambda>d. d \<in> set newDates) oldDates,
                ae_releasedDates = filter (\<lambda>d. d \<notin> set newDates) oldDates, ae_addedDates = filter (\<lambda>d. d \<notin> set oldDates) newDates,
                ae_earlyCheckOut = (newDeparture = businessDate), ae_businessDate = businessDate, ae_pricing = pricing,
                ae_coverageDates = coverageDates\<rparr>))))))))"

definition applyShorten :: "transaction \<Rightarrow> string \<Rightarrow> amendment_reason \<Rightarrow> arrangement_effect \<Rightarrow> lodging_db \<Rightarrow> lodging_db result" where
  "applyShorten tx propertyId reason effect db =
     bindR (loadOrderContextForProperty db propertyId (ae_orderId effect)) (\<lambda>ctx.
     let ord = oc_order ctx; orderId = lo_id ord; early = ae_earlyCheckOut effect in
     if early \<and> ae_departureDate effect \<noteq> ae_businessDate effect \<or> \<not> early \<and> ae_departureDate effect \<le> ae_businessDate effect
     then throw INTERNAL_ERROR 500
     else if ae_stayTimeline effect = [] then throw INTERNAL_ERROR 500
     else case trailingTimelineRun (ae_stayTimeline effect) of None \<Rightarrow> uncaught
     | Some (tailUnit, tailArrival) \<Rightarrow>
       let db1 = appendAmendment (tx_amendmentId tx) orderId (lo_version ord + 1) ''SHORTEN_STAY'' reason (lo_version ord) (tx_commandId tx) db;
           db2 = insertSegment tx ctx tailUnit tailArrival (ae_departureDate effect) ''SHORTEN_STAY'' db1 in
       bindR (insertRevision tx orderId (rv_revision_no (oc_revision ctx) + 1) (tx_amendmentId tx) (lo_pricing_policy_version_id ord)
           (ae_arrivalDate effect) (ae_departureDate effect) (ae_pricing effect) db2) (\<lambda>db3.
       bindR (if early then releaseOrderClaims (oc_segmentIds ctx) db3 else releaseNights (oc_segmentIds ctx) (ae_releasedDates effect) db3) (\<lambda>(_, db4).
       let db5 = (if early then updateStay (sy_id (oc_stay ctx)) COMPLETED
             (appendAmendment (tx_secondAmendmentId tx) orderId (lo_version ord + 2) ''CHECK_OUT'' reason (lo_version ord + 1) (tx_commandId tx) db4)
             else db4) in
       bindR (restoreFutureConsumedCoverage (tx_entitlement tx) orderId (tx_commandId tx) (ae_coverageDates effect) (lb_nights db5)) (\<lambda>r.
       Inr (updateOrder orderId (\<lambda>o'. o'\<lparr>lo_departure_date := ae_departureDate effect, lo_current_revision_id := Some (tx_revisionId tx),
           lo_status := (if early then CHECKED_OUT else lo_status o'), lo_version := lo_version ord + (if early then 2 else 1)\<rparr>)
         (snd (withNights db5 r)))))))"

section \<open>Changing the price of a stay\<close>

datatype price_command = REPRICE_ORDER | REFRESH_MEMBER_COVERAGE

definition priceCommandName :: "price_command \<Rightarrow> string" where
  "priceCommandName c = (case c of REPRICE_ORDER \<Rightarrow> ''REPRICE_ORDER'' | REFRESH_MEMBER_COVERAGE \<Rightarrow> ''REFRESH_MEMBER_COVERAGE'')"

text \<open>The guards of the two previews on the state of the order.\<close>

definition pricingAdmitted :: "lodging_db \<Rightarrow> price_command \<Rightarrow> lodging_order \<Rightarrow> unit result" where
  "pricingAdmitted db command ord =
     (if convertedToMembership db (lo_id ord) then throw INVALID_ORDER_STATE 409
      else case command of
        REPRICE_ORDER \<Rightarrow> if canRepriceOrder (orderStateName (lo_status ord)) (lo_booking_channel_code ord) then Inr () else throw INVALID_ORDER_STATE 409
      | REFRESH_MEMBER_COVERAGE \<Rightarrow>
          if lo_status ord \<notin> {RESERVED, CHECKED_IN} then throw INVALID_ORDER_STATE 409
          else if isMember ord then Inr () else throw ENTITLEMENT_CONFLICT 409)"

definition applyPricing ::
  "transaction \<Rightarrow> string \<Rightarrow> price_command \<Rightarrow> amendment_reason \<Rightarrow> string \<Rightarrow> pricing_snapshot \<Rightarrow> lodging_db \<Rightarrow> lodging_db result" where
  "applyPricing tx propertyId command reason orderId pricing db =
     bindR (loadOrderContextForProperty db propertyId orderId) (\<lambda>ctx.
     let ord = oc_order ctx;
         db1 = appendAmendment (tx_amendmentId tx) orderId (lo_version ord + 1) (priceCommandName command) reason (lo_version ord) (tx_commandId tx) db in
     bindR (insertRevision tx orderId (rv_revision_no (oc_revision ctx) + 1) (tx_amendmentId tx) (lo_pricing_policy_version_id ord)
         (lo_arrival_date ord) (lo_departure_date ord) pricing db1) (\<lambda>db2.
     bindR (reconcileNights tx ord pricing db2) (\<lambda>db3.
     bindR (if lo_status ord = CHECKED_IN then consumeNights tx ord None consumeReason db3 else Inr db3) (\<lambda>db4.
     Inr (updateOrder orderId (\<lambda>r. r\<lparr>lo_current_revision_id := Some (tx_revisionId tx), lo_version := lo_version ord + 1\<rparr>) db4)))))"

end
