(* ===== verification/EntitlementSafety.thy ===== *)
theory EntitlementSafety
  imports Entitlements
begin

text \<open>
  The nights of members are conserved: the ledger of every item tells the story of its status, an order has at
  most one active item a night, and the balance of a lot is what was granted less its open items. Reconciling an
  order with a price leaves exactly the nights of the price and the nights already consumed.
\<close>

section \<open>The invariant\<close>

definition activeItem :: "coverage_row \<Rightarrow> bool" where
  "activeItem c \<longleftrightarrow> cv_status c \<noteq> RELEASED"

fun lifecycleDelta :: "ledger_entry_type \<Rightarrow> int" where
  "lifecycleDelta HOLD = -1"
| "lifecycleDelta CONVERSION_CONSUME = -1"
| "lifecycleDelta RELEASE = 1"
| "lifecycleDelta RESTORE = 1"
| "lifecycleDelta _ = 0"

definition lifecycleTypes :: "ledger_entry_type set" where
  "lifecycleTypes = {HOLD, RELEASE, CONSUME, RESTORE, CONVERSION_CONSUME}"

definition factOk :: "coverage_row list \<Rightarrow> ledger_row \<Rightarrow> bool" where
  "factOk items f \<longleftrightarrow> (\<forall>x. lg_coverage_id f = Some x \<longrightarrow>
     (\<exists>c\<in>set items. cv_id c = x \<and> cv_lot_id c = lg_lot_id f)
     \<and> (lg_entry_type f = EXPIRE \<or> lg_entry_type f \<in> lifecycleTypes \<and> lg_quantity_delta f = lifecycleDelta (lg_entry_type f)))"

definition oneANight :: "coverage_row list \<Rightarrow> bool" where
  "oneANight items \<longleftrightarrow> (\<forall>c\<in>set items. \<forall>d\<in>set items. activeItem c \<and> activeItem d \<and> cv_order_id c = cv_order_id d
     \<and> cv_service_date c = cv_service_date d \<longrightarrow> cv_id c = cv_id d)"

definition entInv :: "entitlement_db \<Rightarrow> bool" where
  "entInv db \<longleftrightarrow> distinct (map cv_id (en_coverage db)) \<and> list_all (factOk (en_coverage db)) (en_ledger db)
     \<and> (\<forall>c\<in>set (en_coverage db). coverageLifecycleIsConserved (cv_status c) (lifecycleCounts db c)) \<and> oneANight (en_coverage db)"

lemma entInvD:
  assumes "entInv db"
  shows "distinct (map cv_id (en_coverage db))" "f \<in> set (en_ledger db) \<Longrightarrow> factOk (en_coverage db) f"
    "c \<in> set (en_coverage db) \<Longrightarrow> coverageLifecycleIsConserved (cv_status c) (lifecycleCounts db c)"
    "c \<in> set (en_coverage db) \<Longrightarrow> d \<in> set (en_coverage db) \<Longrightarrow> activeItem c \<Longrightarrow> activeItem d \<Longrightarrow> cv_order_id c = cv_order_id d
       \<Longrightarrow> cv_service_date c = cv_service_date d \<Longrightarrow> c = d"
proof -
  show d: "distinct (map cv_id (en_coverage db))" using assms by (simp add: entInv_def)
  show "f \<in> set (en_ledger db) \<Longrightarrow> factOk (en_coverage db) f" using assms by (auto simp: entInv_def list_all_iff)
  show "c \<in> set (en_coverage db) \<Longrightarrow> coverageLifecycleIsConserved (cv_status c) (lifecycleCounts db c)" using assms by (simp add: entInv_def)
  show "c = d" if "c \<in> set (en_coverage db)" "d \<in> set (en_coverage db)" "activeItem c" "activeItem d" "cv_order_id c = cv_order_id d"
       "cv_service_date c = cv_service_date d"
  proof -
    have "cv_id c = cv_id d" using assms that unfolding entInv_def oneANight_def by blast
    with d that(1,2) show ?thesis by (auto simp: distinct_map dest: inj_onD)
  qed
qed

lemma same_item:
  "entInv db \<Longrightarrow> c \<in> set (en_coverage db) \<Longrightarrow> d \<in> set (en_coverage db) \<Longrightarrow> cv_id c = cv_id d \<Longrightarrow> c = d"
  using entInvD(1) by (auto simp: distinct_map dest: inj_onD)

lemma itemFacts_cong: "en_ledger db = en_ledger db' \<Longrightarrow> cv_id c = cv_id d \<Longrightarrow> itemFacts db t c = itemFacts db' t d"
  by (simp add: itemFacts_def)

lemma lifecycleCounts_cong: "en_ledger db = en_ledger db' \<Longrightarrow> cv_id c = cv_id d \<Longrightarrow> lifecycleCounts db c = lifecycleCounts db' d"
  unfolding lifecycleCounts_def by (simp add: itemFacts_cong [of db db' c d])

text \<open>The invariant is about the items and the ledger only.\<close>

lemma entInv_cong: "en_coverage db = en_coverage db' \<Longrightarrow> en_ledger db = en_ledger db' \<Longrightarrow> entInv db = entInv db'"
  unfolding entInv_def using lifecycleCounts_cong [of db db'] by simp

lemma increment_tables [simp]:
  "en_coverage (incrementContractAndLotVersions c ls db) = en_coverage db" "en_ledger (incrementContractAndLotVersions c ls db) = en_ledger db"
  by (simp_all add: incrementContractAndLotVersions_def)

lemma incrementOwners_tables [simp]:
  "en_coverage (incrementOwners owners db) = en_coverage db" "en_ledger (incrementOwners owners db) = en_ledger db"
proof -
  have "en_coverage (fold (\<lambda>c. incrementContractAndLotVersions c (ls c)) cs db) = en_coverage db
      \<and> en_ledger (fold (\<lambda>c. incrementContractAndLotVersions c (ls c)) cs db) = en_ledger db" for cs ls
    by (induction cs arbitrary: db) simp_all
  then show "en_coverage (incrementOwners owners db) = en_coverage db" "en_ledger (incrementOwners owners db) = en_ledger db"
    by (simp_all add: incrementOwners_def)
qed

lemma entInv_increment [simp]: "entInv (incrementContractAndLotVersions c ls db) = entInv db" "entInv (incrementOwners owners db) = entInv db"
  by (rule entInv_cong; simp)+

section \<open>One item changes its status\<close>

definition moved :: "coverage_state \<Rightarrow> ledger_row list \<Rightarrow> coverage_row \<Rightarrow> entitlement_db \<Rightarrow> entitlement_db \<Rightarrow> bool" where
  "moved st rows item db db' \<longleftrightarrow>
     en_coverage db' = updateWhere (\<lambda>c. cv_id c = cv_id item) (\<lambda>c. c\<lparr>cv_status := st\<rparr>) (en_coverage db)
     \<and> en_ledger db' = en_ledger db @ rows"

lemma itemFacts_moved:
  "moved st rows item db db' \<Longrightarrow> itemFacts db' t c = itemFacts db t c + countWhere (\<lambda>f. lg_coverage_id f = Some (cv_id c) \<and> lg_entry_type f = t) rows"
  by (simp add: moved_def itemFacts_def countWhere_def)

lemma moved_other:
  assumes "moved st rows item db db'" "\<forall>f\<in>set rows. lg_coverage_id f = Some (cv_id item)" "d \<in> set (en_coverage db)" "cv_id d \<noteq> cv_id item"
  shows "d \<in> set (en_coverage db') \<and> (\<forall>t. itemFacts db' t d = itemFacts db t d) \<and> lifecycleCounts db' d = lifecycleCounts db d"
proof -
  have "countWhere (\<lambda>f. lg_coverage_id f = Some (cv_id d) \<and> lg_entry_type f = t) rows = 0" for t
    using assms(2,4) by (auto simp: countWhere_def filter_empty_conv)
  then have "itemFacts db' t d = itemFacts db t d" for t using itemFacts_moved [OF assms(1)] by simp
  moreover have "d \<in> set (en_coverage db')" using assms(1,3,4) by (force simp: moved_def updateWhere_def)
  ultimately show ?thesis by (simp add: lifecycleCounts_def)
qed

lemma updateWhere_status:
  "c' \<in> set (updateWhere (\<lambda>c. cv_id c = i) (\<lambda>c. c\<lparr>cv_status := st\<rparr>) cs)
   \<longleftrightarrow> (\<exists>c\<in>set cs. c' = (if cv_id c = i then c\<lparr>cv_status := st\<rparr> else c))"
  unfolding updateWhere_def set_map image_iff ..

lemma updateWhere_status_keys:
  assumes "c \<in> set cs"
  shows "\<exists>c'\<in>set (updateWhere (\<lambda>c. cv_id c = i) (\<lambda>c. c\<lparr>cv_status := st\<rparr>) cs). cv_id c' = cv_id c \<and> cv_lot_id c' = cv_lot_id c"
proof (rule bexI)
  show "(if cv_id c = i then c\<lparr>cv_status := st\<rparr> else c) \<in> set (updateWhere (\<lambda>c. cv_id c = i) (\<lambda>c. c\<lparr>cv_status := st\<rparr>) cs)"
    unfolding updateWhere_status using assms by blast
qed simp

lemma moved_inv:
  assumes inv: "entInv db" and item: "item \<in> set (en_coverage db)" and m: "moved st rows item db db'"
    and rows: "\<forall>f\<in>set rows. lg_coverage_id f = Some (cv_id item) \<and> lg_lot_id f = cv_lot_id item
      \<and> (lg_entry_type f = EXPIRE \<or> lg_entry_type f \<in> lifecycleTypes \<and> lg_quantity_delta f = lifecycleDelta (lg_entry_type f))"
    and told: "coverageLifecycleIsConserved st (lifecycleCounts db' item)" and active: "st \<noteq> RELEASED \<Longrightarrow> activeItem item"
  shows "entInv db'"
proof -
  note D = entInvD [OF inv]
  have cov: "en_coverage db' = updateWhere (\<lambda>c. cv_id c = cv_id item) (\<lambda>c. c\<lparr>cv_status := st\<rparr>) (en_coverage db)"
    and led: "en_ledger db' = en_ledger db @ rows" using m by (simp_all add: moved_def)
  have "map cv_id (en_coverage db') = map cv_id (en_coverage db)" by (simp add: cov updateWhere_def)
  then have dist: "distinct (map cv_id (en_coverage db'))" using D(1) by simp
  have new: "\<exists>c'\<in>set (en_coverage db'). cv_id c' = cv_id c \<and> cv_lot_id c' = cv_lot_id c" if "c \<in> set (en_coverage db)" for c
    unfolding cov by (rule updateWhere_status_keys [OF that])
  have "factOk (en_coverage db') f" if "f \<in> set (en_ledger db')" for f
    unfolding factOk_def
  proof (intro allI impI conjI)
    fix x assume x: "lg_coverage_id f = Some x"
    from that consider "f \<in> set (en_ledger db)" | "f \<in> set rows" by (auto simp: led)
    then have "(\<exists>c\<in>set (en_coverage db). cv_id c = x \<and> cv_lot_id c = lg_lot_id f)
        \<and> (lg_entry_type f = EXPIRE \<or> lg_entry_type f \<in> lifecycleTypes \<and> lg_quantity_delta f = lifecycleDelta (lg_entry_type f))"
    proof cases
      case 1
      then show ?thesis using D(2) [of f] x by (simp add: factOk_def)
    next
      case 2
      then show ?thesis using rows item x by auto
    qed
    then show "\<exists>c\<in>set (en_coverage db'). cv_id c = x \<and> cv_lot_id c = lg_lot_id f"
      "lg_entry_type f = EXPIRE \<or> lg_entry_type f \<in> lifecycleTypes \<and> lg_quantity_delta f = lifecycleDelta (lg_entry_type f)"
      using new by force+
  qed
  then have facts: "list_all (factOk (en_coverage db')) (en_ledger db')" by (simp add: list_all_iff)
  have "coverageLifecycleIsConserved (cv_status c') (lifecycleCounts db' c')" if c': "c' \<in> set (en_coverage db')" for c'
  proof -
    from c' obtain c where c: "c \<in> set (en_coverage db)" "c' = (if cv_id c = cv_id item then c\<lparr>cv_status := st\<rparr> else c)"
      unfolding cov updateWhere_status by blast
    show ?thesis
    proof (cases "cv_id c = cv_id item")
      case True
      then show ?thesis using told c lifecycleCounts_cong [of db' db' c' item] by simp
    next
      case False
      then show ?thesis using D(3) [OF c(1)] c(2) moved_other [OF m _ c(1) False] rows by simp
    qed
  qed
  moreover have "oneANight (en_coverage db')"
    unfolding oneANight_def
  proof (intro ballI impI)
    fix c' d' assume c': "c' \<in> set (en_coverage db')" and d': "d' \<in> set (en_coverage db')"
      and h: "activeItem c' \<and> activeItem d' \<and> cv_order_id c' = cv_order_id d' \<and> cv_service_date c' = cv_service_date d'"
    from c' obtain c where c: "c \<in> set (en_coverage db)" "c' = (if cv_id c = cv_id item then c\<lparr>cv_status := st\<rparr> else c)"
      unfolding cov updateWhere_status by blast
    from d' obtain d where d: "d \<in> set (en_coverage db)" "d' = (if cv_id d = cv_id item then d\<lparr>cv_status := st\<rparr> else d)"
      unfolding cov updateWhere_status by blast
    have "activeItem c" using h c active same_item [OF inv c(1) item] by (auto simp: activeItem_def split: if_splits)
    moreover have "activeItem d" using h d active same_item [OF inv d(1) item] by (auto simp: activeItem_def split: if_splits)
    ultimately have "c = d" using D(4) [OF c(1) d(1)] h c(2) d(2) by (auto split: if_splits)
    then show "cv_id c' = cv_id d'" using c(2) d(2) by simp
  qed
  ultimately show ?thesis using dist facts by (simp add: entInv_def)
qed

text \<open>A loop over different items, each moved while it satisfies what its move needs.\<close>

lemma moves_fold:
  assumes "entInv db" "distinct (map cv_id items)" "\<forall>i\<in>set items. i \<in> set (en_coverage db) \<and> P db i"
    and step: "\<And>db i. entInv db \<Longrightarrow> i \<in> set (en_coverage db) \<Longrightarrow> P db i \<Longrightarrow> entInv (f i db) \<and> moved st (rows i) i db (f i db)"
    and own: "\<And>i. \<forall>r\<in>set (rows i). lg_coverage_id r = Some (cv_id i)"
    and stable: "\<And>db db' d. P db d \<Longrightarrow> \<forall>t. itemFacts db' t d = itemFacts db t d \<Longrightarrow> P db' d"
  shows "entInv (fold f items db)"
  using assms(1-3)
proof (induction items arbitrary: db)
  case (Cons i items)
  then have m: "entInv (f i db)" "moved st (rows i) i db (f i db)" using step [of db i] by auto
  have "d \<in> set (en_coverage (f i db)) \<and> P (f i db) d" if "d \<in> set items" for d
    using moved_other [OF m(2) own, of d] stable [of db d "f i db"] Cons.prems(2,3) that by (auto simp: image_iff)
  with Cons.IH [OF m(1)] Cons.prems(2) show ?case by simp
qed simp

text \<open>How the four moves change the counts.\<close>

lemma coverageFact_sel [simp]:
  "lg_coverage_id (coverageFact i t a r oid cm item) = Some (cv_id item)" "lg_lot_id (coverageFact i t a r oid cm item) = cv_lot_id item"
  "lg_entry_type (coverageFact i t a r oid cm item) = t" "lg_quantity_delta (coverageFact i t a r oid cm item) = a"
  by (simp_all add: coverageFact_def)

lemma counts_moved:
  assumes "moved st rows item db db'" "\<forall>f\<in>set rows. lg_coverage_id f = Some (cv_id item)"
  shows "lc_hold (lifecycleCounts db' item) = lc_hold (lifecycleCounts db item) + countWhere (\<lambda>f. lg_entry_type f = HOLD) rows"
    "lc_release (lifecycleCounts db' item) = lc_release (lifecycleCounts db item) + countWhere (\<lambda>f. lg_entry_type f = RELEASE) rows"
    "lc_consume (lifecycleCounts db' item) = lc_consume (lifecycleCounts db item) + countWhere (\<lambda>f. lg_entry_type f = CONSUME) rows"
    "lc_restore (lifecycleCounts db' item) = lc_restore (lifecycleCounts db item) + countWhere (\<lambda>f. lg_entry_type f = RESTORE) rows"
    "lc_conversionConsume (lifecycleCounts db' item)
      = lc_conversionConsume (lifecycleCounts db item) + countWhere (\<lambda>f. lg_entry_type f = CONVERSION_CONSUME) rows"
proof -
  have "countWhere (\<lambda>f. lg_coverage_id f = Some (cv_id item) \<and> lg_entry_type f = t) rows = countWhere (\<lambda>f. lg_entry_type f = t) rows" for t
    unfolding countWhere_def using assms(2) by (intro arg_cong [where f = length] filter_cong) auto
  then show "lc_hold (lifecycleCounts db' item) = lc_hold (lifecycleCounts db item) + countWhere (\<lambda>f. lg_entry_type f = HOLD) rows"
    "lc_release (lifecycleCounts db' item) = lc_release (lifecycleCounts db item) + countWhere (\<lambda>f. lg_entry_type f = RELEASE) rows"
    "lc_consume (lifecycleCounts db' item) = lc_consume (lifecycleCounts db item) + countWhere (\<lambda>f. lg_entry_type f = CONSUME) rows"
    "lc_restore (lifecycleCounts db' item) = lc_restore (lifecycleCounts db item) + countWhere (\<lambda>f. lg_entry_type f = RESTORE) rows"
    "lc_conversionConsume (lifecycleCounts db' item)
      = lc_conversionConsume (lifecycleCounts db item) + countWhere (\<lambda>f. lg_entry_type f = CONVERSION_CONSUME) rows"
    using itemFacts_moved [OF assms(1), of _ item] by (simp_all add: lifecycleCounts_def)
qed

lemmas lifecycle_simps = coverageLifecycleIsConserved_def countsAre_def lifecycleTypes_def countWhere_def

lemma releaseItem_moved:
  "moved RELEASED (coverageFact (ei_fact ids (cv_id item)) RELEASE 1 ''ORDER_COVERAGE_RELEASE'' ord cm item
     # (if expires item then [coverageFact (ei_expire ids (cv_id item)) EXPIRE (-1) ''RELEASE_AFTER_EXPIRY'' ord cm item] else []))
     item db (releaseItem ids ord cm expires item db)"
  by (simp add: moved_def releaseItem_def appendLedger_def setCoverageState_def Let_def)

lemma releaseItem_inv:
  assumes "entInv db" "item \<in> set (en_coverage db)" "cv_status item = HELD"
  shows "entInv (releaseItem ids ord cm expires item db)"
  by (rule moved_inv [OF assms(1,2) releaseItem_moved])
    (use entInvD(3) [OF assms(1,2)] assms(3) counts_moved [OF releaseItem_moved [of ids item ord cm expires db]] in \<open>auto simp: lifecycle_simps\<close>)

lemma consumeItem_moved:
  "moved CONSUMED [coverageFact (ei_fact ids (cv_id item)) CONSUME 0 reason ord cm item] item db (consumeItem ids ord cm reason item db)"
  by (simp add: moved_def consumeItem_def appendLedger_def setCoverageState_def)

lemma consumeItem_inv:
  assumes "entInv db" "item \<in> set (en_coverage db)" "cv_status item = HELD"
  shows "entInv (consumeItem ids ord cm reason item db)"
  by (rule moved_inv [OF assms(1,2) consumeItem_moved])
    (use entInvD(3) [OF assms(1,2)] assms(3) counts_moved [OF consumeItem_moved [of ids item reason ord cm db]]
      in \<open>auto simp: lifecycle_simps activeItem_def\<close>)

lemma updateWhere_same: "\<forall>c\<in>set cs. P c \<longrightarrow> f c = c \<Longrightarrow> updateWhere P f cs = cs"
  unfolding updateWhere_def by (intro map_idI) auto

lemma restoreFact_moved:
  assumes "entInv db" "item \<in> set (en_coverage db)" "cv_status item = CONSUMED"
  shows "moved CONSUMED [coverageFact (ei_fact ids (cv_id item)) RESTORE 1 reason ord cm item] item db (restoreFact ids ord cm reason item db)"
proof -
  have "item\<lparr>cv_status := CONSUMED\<rparr> = item" using assms(3) by (cases item) simp
  then have "updateWhere (\<lambda>c. cv_id c = cv_id item) (\<lambda>c. c\<lparr>cv_status := CONSUMED\<rparr>) (en_coverage db) = en_coverage db"
    using same_item [OF assms(1) _ assms(2)] by (intro updateWhere_same) metis
  then show ?thesis by (simp add: moved_def restoreFact_def appendLedger_def)
qed

lemma restoreFact_inv:
  assumes "entInv db" "item \<in> set (en_coverage db)" "cv_status item = CONSUMED" "itemFacts db CONSUME item \<noteq> 0" "itemFacts db RESTORE item = 0"
  shows "entInv (restoreFact ids ord cm reason item db)"
  by (rule moved_inv [OF assms(1,2) restoreFact_moved [OF assms(1-3)]])
    (use entInvD(3) [OF assms(1,2)] assms(3-5) counts_moved [OF restoreFact_moved [OF assms(1-3), of ids reason ord cm]]
      in \<open>auto simp: lifecycle_simps activeItem_def lifecycleCounts_def\<close>)

lemma restoreFutureItem_moved:
  assumes "entInv db" "item \<in> set (en_coverage db)" "cv_status item = CONSUMED"
  shows "moved RELEASED [coverageFact (ei_fact ids (cv_id item)) RESTORE 1 ''SHORTEN_STAY_FUTURE_ENTITLEMENT_RESTORED'' ord cm item] item db
    (restoreFutureItem ids ord cm item db)"
proof -
  have "updateWhere (\<lambda>c. cv_id c = cv_id item \<and> cv_status c = CONSUMED) f (en_coverage db)
      = updateWhere (\<lambda>c. cv_id c = cv_id item) f (en_coverage db)" for f
    unfolding updateWhere_def using same_item [OF assms(1) _ assms(2)] assms(3) by (intro map_cong) auto
  then show ?thesis by (simp add: moved_def restoreFutureItem_def restoreFact_def appendLedger_def setCoverageState_def)
qed

lemma restoreFutureItem_inv:
  assumes "entInv db" "item \<in> set (en_coverage db)" "cv_status item = CONSUMED" "consumptionCount db item = 1" "itemFacts db RESTORE item = 0"
  shows "entInv (restoreFutureItem ids ord cm item db)"
  by (rule moved_inv [OF assms(1,2) restoreFutureItem_moved [OF assms(1-3)]])
    (use entInvD(3) [OF assms(1,2)] assms(3-5) counts_moved [OF restoreFutureItem_moved [OF assms(1-3), of ids ord cm]]
      in \<open>auto simp: lifecycle_simps activeItem_def lifecycleCounts_def consumptionCount_def split: if_splits\<close>)

section \<open>One item more\<close>

lemma added_inv:
  assumes inv: "entInv db" and db': "en_coverage db' = en_coverage db @ [row]" "en_ledger db' = en_ledger db @ [f]"
    and new: "cv_id row \<notin> cv_id ` set (en_coverage db)"
    and f: "lg_coverage_id f = Some (cv_id row)" "lg_lot_id f = cv_lot_id row"
      "lg_entry_type f = HOLD \<and> cv_status row = HELD \<or> lg_entry_type f = CONVERSION_CONSUME \<and> cv_status row = CONSUMED" "lg_quantity_delta f = -1"
    and free: "\<And>c. c \<in> set (en_coverage db) \<Longrightarrow> cv_order_id c = cv_order_id row \<Longrightarrow> cv_service_date c = cv_service_date row \<Longrightarrow> \<not> activeItem c"
  shows "entInv db'"
proof -
  note D = entInvD [OF inv]
  have "lg_coverage_id g \<noteq> Some (cv_id row)" if "g \<in> set (en_ledger db)" for g
    using D(2) [OF that] new unfolding factOk_def by (metis image_eqI)
  then have none: "itemFacts db t row = 0" for t
    by (auto simp: itemFacts_def countWhere_def filter_empty_conv)
  have cnt: "itemFacts db' t c = itemFacts db t c + (if cv_id row = cv_id c \<and> lg_entry_type f = t then 1 else 0)" for t c
    using f(1) by (simp add: itemFacts_def countWhere_def db')
  have "coverageLifecycleIsConserved (cv_status row) (lifecycleCounts db' row)"
    using f(3) by (auto simp: lifecycle_simps lifecycleCounts_def cnt none)
  moreover have "coverageLifecycleIsConserved (cv_status c) (lifecycleCounts db' c)" if "c \<in> set (en_coverage db)" for c
  proof -
    have "cv_id row \<noteq> cv_id c" using that new by auto
    then have "lifecycleCounts db' c = lifecycleCounts db c" by (simp add: lifecycleCounts_def cnt)
    then show ?thesis using D(3) [OF that] by simp
  qed
  moreover have "list_all (factOk (en_coverage db')) (en_ledger db')"
  proof -
    have "factOk (en_coverage db') f" using f by (auto simp: factOk_def lifecycleTypes_def db')
    moreover have "factOk (en_coverage db') g" if "g \<in> set (en_ledger db)" for g using D(2) [OF that] by (auto simp: factOk_def db')
    ultimately show ?thesis by (simp add: list_all_iff db')
  qed
  moreover have "oneANight (en_coverage db')"
  proof -
    have "cv_id c = cv_id d" if "c \<in> set (en_coverage db')" "d \<in> set (en_coverage db')" "activeItem c" "activeItem d"
      "cv_order_id c = cv_order_id d" "cv_service_date c = cv_service_date d" for c d
    proof -
      from that(1,2) consider "c \<in> set (en_coverage db)" "d \<in> set (en_coverage db)" | "c = row" "d = row"
        | "c \<in> set (en_coverage db)" "d = row" | "c = row" "d \<in> set (en_coverage db)" by (auto simp: db')
      then show ?thesis
      proof cases
        case 1
        then show ?thesis using D(4) [OF 1 that(3-6)] by simp
      qed (use that(3-6) free [of c] free [of d] in simp_all)
    qed
    then show ?thesis unfolding oneANight_def by blast
  qed
  ultimately show ?thesis using D(1) new by (simp add: entInv_def db')
qed

section \<open>Every operation keeps the invariant\<close>

text \<open>The identifiers that newId draws are new and different.\<close>

definition freshItems :: "entitlement_ids \<Rightarrow> entitlement_db \<Rightarrow> bool" where
  "freshItems ids db \<longleftrightarrow> inj (ei_coverage ids) \<and> range (ei_coverage ids) \<inter> cv_id ` set (en_coverage db) = {}"

lemma activeOn_None:
  "activeOn db orderId d = None \<longleftrightarrow> (\<forall>c\<in>set (en_coverage db). cv_order_id c = orderId \<and> cv_service_date c = d \<longrightarrow> \<not> activeItem c)"
  by (auto simp: activeOn_def find_None_iff activeItem_def)

lemma activeOn_Some:
  assumes "entInv db"
  shows "activeOn db orderId d = Some c \<longleftrightarrow> c \<in> set (en_coverage db) \<and> cv_order_id c = orderId \<and> cv_service_date c = d \<and> activeItem c"
proof
  assume h: "c \<in> set (en_coverage db) \<and> cv_order_id c = orderId \<and> cv_service_date c = d \<and> activeItem c"
  then have "activeOn db orderId d \<noteq> None" unfolding activeOn_None by blast
  then obtain e where e: "activeOn db orderId d = Some e" by blast
  then have "e \<in> set (en_coverage db) \<and> cv_order_id e = orderId \<and> cv_service_date e = d \<and> activeItem e"
    unfolding activeOn_def activeItem_def by (blast dest: find_SomeD)
  with h have "e = c" using entInvD(4) [OF assms, of e c] by simp
  with e show "activeOn db orderId d = Some c" by simp
qed (auto simp: activeOn_def activeItem_def dest: find_SomeD)

lemma heldRow_sel [simp]:
  "cv_id (heldRow i oid c r item) = i" "cv_order_id (heldRow i oid c r item) = oid" "cv_service_date (heldRow i oid c r item) = ci_serviceDate item"
  "cv_status (heldRow i oid c r item) = HELD" "activeItem (heldRow i oid c r item)"
  "coverageMatches (heldRow i oid c r item) item c"
  by (simp_all add: heldRow_def activeItem_def coverageMatches_def)

lemma insertHeld_tables:
  "en_coverage (insertHeld ids oid c r cm item db) = en_coverage db @ [heldRow (ei_coverage ids (ci_serviceDate item)) oid c r item]"
  "\<exists>f. en_ledger (insertHeld ids oid c r cm item db) = en_ledger db @ [f] \<and> lg_coverage_id f = Some (ei_coverage ids (ci_serviceDate item))
    \<and> lg_lot_id f = cv_lot_id (heldRow (ei_coverage ids (ci_serviceDate item)) oid c r item) \<and> lg_entry_type f = HOLD \<and> lg_quantity_delta f = -1"
  by (simp_all add: insertHeld_def Let_def appendLedger_def)

lemma insertHeld_inv:
  assumes "entInv db" "ei_coverage ids (ci_serviceDate item) \<notin> cv_id ` set (en_coverage db)" "activeOn db oid (ci_serviceDate item) = None"
  shows "entInv (insertHeld ids oid c r cm item db)"
proof -
  from insertHeld_tables(2) [of ids oid c r cm item db] obtain f where
    "en_ledger (insertHeld ids oid c r cm item db) = en_ledger db @ [f]" "lg_coverage_id f = Some (ei_coverage ids (ci_serviceDate item))"
    "lg_lot_id f = cv_lot_id (heldRow (ei_coverage ids (ci_serviceDate item)) oid c r item)" "lg_entry_type f = HOLD" "lg_quantity_delta f = -1"
    by blast
  then show ?thesis
    by (intro added_inv [OF assms(1) insertHeld_tables(1)]) (use assms(2,3) in \<open>auto simp: activeOn_None\<close>)
qed

lemma activeOn_present:
  "c \<in> set (en_coverage db) \<Longrightarrow> cv_order_id c = oid \<Longrightarrow> cv_service_date c = d \<Longrightarrow> activeItem c \<Longrightarrow> activeOn db oid d \<noteq> None"
  unfolding activeOn_None by blast

text \<open>While holding, the drawn items are on nights that have an active item.\<close>

definition drawnActive :: "entitlement_ids \<Rightarrow> string \<Rightarrow> entitlement_db \<Rightarrow> bool" where
  "drawnActive ids oid db \<longleftrightarrow> (\<forall>d. ei_coverage ids d \<in> cv_id ` set (en_coverage db) \<longrightarrow> activeOn db oid d \<noteq> None)"

lemma drawnActive_fresh: "freshItems ids db \<Longrightarrow> drawnActive ids oid db"
  by (auto simp: drawnActive_def freshItems_def)

lemma activeOn_mono: "activeOn db oid d \<noteq> None \<Longrightarrow> set (en_coverage db) \<subseteq> set (en_coverage db') \<Longrightarrow> activeOn db' oid d \<noteq> None"
  unfolding not_None_eq [symmetric] activeOn_None by blast

lemma insertHeld_drawn:
  assumes "inj (ei_coverage ids)" "drawnActive ids oid db"
  shows "drawnActive ids oid (insertHeld ids oid c r cm item db)"
  unfolding drawnActive_def
proof (intro allI impI)
  let ?db = "insertHeld ids oid c r cm item db" and ?row = "heldRow (ei_coverage ids (ci_serviceDate item)) oid c r item"
  fix d assume "ei_coverage ids d \<in> cv_id ` set (en_coverage ?db)"
  then consider "ei_coverage ids d \<in> cv_id ` set (en_coverage db)" | "ei_coverage ids d = ei_coverage ids (ci_serviceDate item)"
    by (auto simp: insertHeld_tables(1))
  then show "activeOn ?db oid d \<noteq> None"
  proof cases
    case 1
    then show ?thesis using assms(2) activeOn_mono [of db oid d ?db] by (auto simp: drawnActive_def insertHeld_tables(1))
  next
    case 2
    then have "d = ci_serviceDate item" using assms(1) by (simp add: inj_eq)
    moreover have "?row \<in> set (en_coverage ?db)" by (simp add: insertHeld_tables(1))
    ultimately show ?thesis by (intro activeOn_present [of ?row]) simp_all
  qed
qed

lemma holdCoverage_inv:
  assumes "entInv db" "freshItems ids db" "holdCoverage ids oid c m r items cm db = Inr (refs, db')"
  shows "entInv db'"
proof -
  have inj: "inj (ei_coverage ids)" using assms(2) by (simp add: freshItems_def)
  have "(\<lambda>(refs, db). entInv db \<and> drawnActive ids oid db) (refs, db')"
  proof (rule foldR_invariant [OF assms(3) [unfolded holdCoverage_def]])
    show "(\<lambda>(refs, db). entInv db \<and> drawnActive ids oid db) (noRefs, db)" using assms(1) drawnActive_fresh [OF assms(2)] by simp
    fix s item s' assume P: "case s of (refs, db) \<Rightarrow> entInv db \<and> drawnActive ids oid db" and step: "holdStep ids oid c m r cm s item = Inr s'"
    obtain refs0 db0 where s: "s = (refs0, db0)" by (cases s)
    from step s obtain owner where o: "(case activeOn db0 oid (ci_serviceDate item) of
         Some existing \<Rightarrow> if \<not> coverageMatches existing item owner then throw ENTITLEMENT_CONFLICT 409
           else Inr (refs0\<lparr>rc_coverageIds := rc_coverageIds refs0 @ [cv_id existing]\<rparr>, db0)
       | None \<Rightarrow> Inr (\<lparr>rc_coverageIds = rc_coverageIds refs0 @ [ei_coverage ids (ci_serviceDate item)],
           rc_factIds = rc_factIds refs0 @ [ei_fact ids (ci_serviceDate item)]\<rparr>, insertHeld ids oid owner r cm item db0)) = Inr s'"
      by (auto simp: holdStep_def)
    show "case s' of (refs, db) \<Rightarrow> entInv db \<and> drawnActive ids oid db"
    proof (cases "activeOn db0 oid (ci_serviceDate item)")
      case None
      with P s have "ei_coverage ids (ci_serviceDate item) \<notin> cv_id ` set (en_coverage db0)" by (auto simp: drawnActive_def)
      with None o P s insertHeld_inv [of db0 ids item oid] insertHeld_drawn [OF inj, of oid db0] show ?thesis by auto
    next
      case (Some existing)
      with o P s show ?thesis by (auto split: if_splits)
    qed
  qed
  then show ?thesis by simp
qed

lemma release_fold:
  assumes "entInv db" "distinct (map cv_id items)" "\<forall>i\<in>set items. i \<in> set (en_coverage db) \<and> cv_status i = HELD"
  shows "entInv (fold (releaseItem ids oid cm expires) items db)"
  by (rule moves_fold [where P = "\<lambda>_ c. cv_status c = HELD", OF assms])
    (use releaseItem_inv releaseItem_moved [of ids _ oid cm expires] in \<open>blast, auto\<close>)

lemma consume_fold:
  assumes "entInv db" "distinct (map cv_id items)" "\<forall>i\<in>set items. i \<in> set (en_coverage db) \<and> cv_status i = HELD"
  shows "entInv (fold (consumeItem ids oid cm reason) items db)"
  by (rule moves_fold [where P = "\<lambda>_ c. cv_status c = HELD", OF assms])
    (use consumeItem_inv consumeItem_moved [of ids _ reason oid cm] in \<open>blast, auto\<close>)

lemma restore_fold:
  assumes "entInv db" "distinct (map cv_id items)"
    "\<forall>i\<in>set items. i \<in> set (en_coverage db) \<and> cv_status i = CONSUMED \<and> itemFacts db CONSUME i \<noteq> 0 \<and> itemFacts db RESTORE i = 0"
  shows "entInv (fold (restoreFact ids oid cm reason) items db)"
  by (rule moves_fold [where P = "\<lambda>db i. cv_status i = CONSUMED \<and> itemFacts db CONSUME i \<noteq> 0 \<and> itemFacts db RESTORE i = 0", OF assms])
    (use restoreFact_inv restoreFact_moved [of _ _ ids reason oid cm] in \<open>blast, auto\<close>)

lemma restoreFuture_fold:
  assumes "entInv db" "distinct (map cv_id items)"
    "\<forall>i\<in>set items. i \<in> set (en_coverage db) \<and> cv_status i = CONSUMED \<and> consumptionCount db i = 1 \<and> itemFacts db RESTORE i = 0"
  shows "entInv (fold (restoreFutureItem ids oid cm) items db)"
  by (rule moves_fold [where P = "\<lambda>db i. cv_status i = CONSUMED \<and> consumptionCount db i = 1 \<and> itemFacts db RESTORE i = 0", OF assms])
    (use restoreFutureItem_inv restoreFutureItem_moved [of _ _ ids oid cm] in \<open>blast, auto simp: consumptionCount_def split: if_splits\<close>)

lemma selected_items:
  assumes "entInv db"
  shows "distinct (map cv_id (filter Q (en_coverage db)))" "distinct (map cv_id (byServiceDate (filter Q (en_coverage db))))"
    "set (byServiceDate (filter Q (en_coverage db))) = set (filter Q (en_coverage db))"
  using entInvD(1) [OF assms] by (simp_all add: distinct_map_filter byServiceDate_def)

lemma releaseCoverage_inv: "entInv db \<Longrightarrow> entInv (snd (releaseCoverage ids oid cm options db))"
  by (simp add: releaseCoverage_def Let_def release_fold selected_items(1))

lemma consumeCoverage_inv: "entInv db \<Longrightarrow> consumeCoverage ids oid cm dates reason db = Inr (refs, db') \<Longrightarrow> entInv db'"
  by (auto simp: consumeCoverage_def Let_def intro!: consume_fold simp: selected_items split: if_splits)

lemma restoreConsumedCoverage_inv: "entInv db \<Longrightarrow> restoreConsumedCoverage ids oid cm db = Inr (refs, db') \<Longrightarrow> entInv db'"
  by (auto simp: restoreConsumedCoverage_def Let_def list_ex_iff intro!: restore_fold simp: selected_items split: if_splits)

lemma restoreFutureConsumedCoverage_inv:
  "entInv db \<Longrightarrow> restoreFutureConsumedCoverage ids oid cm dates db = Inr (refs, db') \<Longrightarrow> entInv db'"
  by (auto simp: restoreFutureConsumedCoverage_def Let_def list_ex_iff intro!: restoreFuture_fold simp: selected_items split: if_splits)
    (auto simp: consumptionCount_def split: if_splits)

section \<open>Reconciling the coverage of an order\<close>

lemma jmap_set_new: "jmap_get m k = None \<Longrightarrow> jmap_set k v m = m @ [(k, v)]"
  by (induction m) (auto simp: jmap_get_def split: if_splits)

lemma jmap_get_mem: "distinct (map fst m) \<Longrightarrow> jmap_get m k = Some v \<longleftrightarrow> (k, v) \<in> set m"
  by (simp add: jmap_get_def map_of_eq_Some_iff)

lemma jmap_get_None: "jmap_get m k = None \<longleftrightarrow> k \<notin> fst ` set m"
  by (simp add: jmap_get_def map_of_eq_None_iff)

text \<open>The nights of the price, with the contract each is held for.\<close>

definition wantedNights :: "entitlement_db \<Rightarrow> string \<Rightarrow> string option \<Rightarrow> coverage_item_dto list \<Rightarrow> desired_coverage \<Rightarrow> bool" where
  "wantedNights db c m items wanted \<longleftrightarrow> distinct (map fst wanted)
     \<and> (\<forall>d x owner. (d, x, owner) \<in> set wanted \<longleftrightarrow> x \<in> set items \<and> d = ci_serviceDate x \<and> coverageContract db c m x = Inr owner)
     \<and> (\<forall>x\<in>set items. \<exists>owner. coverageContract db c m x = Inr owner)"

lemma desired_loop:
  assumes "foldR (desiredStep db c m) before items = Inr wanted" "wantedNights db c m done before"
  shows "wantedNights db c m (done @ items) wanted"
  using assms
proof (induction items arbitrary: before "done")
  case (Cons x items)
  from Cons.prems(1) obtain next_map where s: "desiredStep db c m before x = Inr next_map"
    and r: "foldR (desiredStep db c m) next_map items = Inr wanted" by auto
  from s obtain owner where o: "coverageContract db c m x = Inr owner" and n: "jmap_get before (ci_serviceDate x) = None"
    and "next_map = jmap_set (ci_serviceDate x) (x, owner) before"
    unfolding desiredStep_def by (cases "jmap_get before (ci_serviceDate x)") auto
  with r have rest: "foldR (desiredStep db c m) (before @ [(ci_serviceDate x, x, owner)]) items = Inr wanted"
    by (simp add: jmap_set_new)
  have "wantedNights db c m (done @ [x]) (before @ [(ci_serviceDate x, x, owner)])"
    using Cons.prems(2) o n unfolding wantedNights_def jmap_get_None by auto
  from Cons.IH [OF rest this] show ?case by simp
qed simp

lemma wanted_unique:
  "wantedNights db c m items wanted \<Longrightarrow> (d, v) \<in> set wanted \<Longrightarrow> (d, w) \<in> set wanted \<Longrightarrow> v = w"
  unfolding wantedNights_def by (metis map_of_eq_Some_iff option.inject)

text \<open>
  Between two items: the nights of \<open>todo\<close> are still to be held, every other wanted night has an active item that
  matches it, and every active item of the order is still to be looked at (\<open>rest\<close>), matches a wanted night that
  is done, or was consumed before on a night that is not wanted.
\<close>

definition settled :: "string \<Rightarrow> desired_coverage \<Rightarrow> desired_coverage \<Rightarrow> entitlement_db \<Rightarrow> bool" where
  "settled oid wanted todo db \<longleftrightarrow> (\<forall>d x owner. (d, x, owner) \<in> set wanted \<and> (d, x, owner) \<notin> set todo \<longrightarrow>
     (\<exists>c\<in>set (en_coverage db). cv_order_id c = oid \<and> cv_service_date c = d \<and> activeItem c \<and> coverageMatches c x owner))"

definition explained :: "string \<Rightarrow> entitlement_db \<Rightarrow> desired_coverage \<Rightarrow> desired_coverage \<Rightarrow> coverage_row set \<Rightarrow> entitlement_db \<Rightarrow> bool" where
  "explained oid db0 wanted todo rest db \<longleftrightarrow> (\<forall>c\<in>set (en_coverage db). cv_order_id c = oid \<and> activeItem c \<longrightarrow> c \<in> rest
     \<or> (\<exists>x owner. (cv_service_date c, x, owner) \<in> set wanted - set todo \<and> coverageMatches c x owner)
     \<or> (cv_status c = CONSUMED \<and> c \<in> set (en_coverage db0) \<and> cv_service_date c \<notin> fst ` set wanted))"

definition reconciling :: "string \<Rightarrow> entitlement_db \<Rightarrow> desired_coverage \<Rightarrow> desired_coverage \<Rightarrow> coverage_row set \<Rightarrow> entitlement_db \<Rightarrow> bool" where
  "reconciling oid db0 wanted todo rest db \<longleftrightarrow> entInv db \<and> set todo \<subseteq> set wanted \<and> distinct (map fst todo)
     \<and> settled oid wanted todo db \<and> explained oid db0 wanted todo rest db
     \<and> (\<forall>i\<in>rest. i \<in> set (en_coverage db) \<and> i \<in> set (en_coverage db0) \<and> cv_order_id i = oid \<and> activeItem i
         \<and> cv_service_date i \<notin> fst ` (set wanted - set todo))"

lemma reconcilingD:
  assumes "reconciling oid db0 wanted todo rest db"
  shows "entInv db" "set todo \<subseteq> set wanted" "distinct (map fst todo)" "settled oid wanted todo db" "explained oid db0 wanted todo rest db"
    "i \<in> rest \<Longrightarrow> i \<in> set (en_coverage db)" "i \<in> rest \<Longrightarrow> i \<in> set (en_coverage db0)" "i \<in> rest \<Longrightarrow> cv_order_id i = oid"
    "i \<in> rest \<Longrightarrow> activeItem i" "i \<in> rest \<Longrightarrow> cv_service_date i \<notin> fst ` (set wanted - set todo)"
  using assms unfolding reconciling_def by blast+

text \<open>An item that matches its night is kept and its night is done.\<close>

lemma reconciling_match:
  assumes R: "reconciling oid db0 wanted todo rest db" and i: "i \<in> rest" "(cv_service_date i, x, owner) \<in> set todo" "coverageMatches i x owner"
    and uniq: "\<And>d v w. (d, v) \<in> set wanted \<Longrightarrow> (d, w) \<in> set wanted \<Longrightarrow> v = w"
  shows "reconciling oid db0 wanted (filter (\<lambda>(d, _). d \<noteq> cv_service_date i) todo) (rest - {i}) db"
proof -
  note D = reconcilingD [OF R]
  let ?todo = "filter (\<lambda>(d, _). d \<noteq> cv_service_date i) todo"
  have in_todo: "(d, v) \<in> set ?todo \<longleftrightarrow> (d, v) \<in> set todo \<and> d \<noteq> cv_service_date i" for d v by auto
  have w: "(cv_service_date i, x, owner) \<in> set wanted" using D(2) i(2) by blast
  have "settled oid wanted ?todo db"
    unfolding settled_def in_todo
  proof (intro allI impI, elim conjE)
    fix d y ow assume a: "(d, y, ow) \<in> set wanted" "\<not> ((d, y, ow) \<in> set todo \<and> d \<noteq> cv_service_date i)"
    show "\<exists>c\<in>set (en_coverage db). cv_order_id c = oid \<and> cv_service_date c = d \<and> activeItem c \<and> coverageMatches c y ow"
    proof (cases "d = cv_service_date i")
      case True
      then have "(y, ow) = (x, owner)" using uniq a(1) w by blast
      then show ?thesis using True D(6,8,9) [OF i(1)] i(3) by blast
    next
      case False
      then show ?thesis using D(4) a unfolding settled_def by blast
    qed
  qed
  moreover have "explained oid db0 wanted ?todo (rest - {i}) db"
    using D(5) w i(3) unfolding explained_def by (auto simp: in_todo)
  moreover have "cv_service_date j \<notin> fst ` (set wanted - set ?todo)" if j: "j \<in> rest" "j \<noteq> i" for j
  proof
    assume "cv_service_date j \<in> fst ` (set wanted - set ?todo)"
    then have "cv_service_date j = cv_service_date i" using D(10) [OF j(1)] by (force simp: in_todo)
    then show False using entInvD(4) [OF D(1) D(6) [OF j(1)] D(6) [OF i(1)]] D(8,9) j i(1) by simp
  qed
  ultimately show ?thesis using D unfolding reconciling_def by (auto simp: distinct_map_filter)
qed

text \<open>A consumed item on a night that is not wanted is kept.\<close>

lemma reconciling_consumed:
  assumes R: "reconciling oid db0 wanted todo rest db" and i: "i \<in> rest" "cv_status i = CONSUMED" "cv_service_date i \<notin> fst ` set todo"
  shows "reconciling oid db0 wanted todo (rest - {i}) db"
proof -
  note D = reconcilingD [OF R]
  have "cv_service_date i \<notin> fst ` set wanted" using D(10) [OF i(1)] i(3) by force
  then have "explained oid db0 wanted todo (rest - {i}) db" using D(5) i D(7) [OF i(1)] unfolding explained_def by blast
  then show ?thesis using D unfolding reconciling_def by blast
qed

text \<open>A held item that does not match is released.\<close>

lemma reconciling_release:
  assumes R: "reconciling oid db0 wanted todo rest db" and i: "i \<in> rest" "cv_status i = HELD"
  shows "reconciling oid db0 wanted todo (rest - {i}) (releaseItem ids ord cm expires i db)"
proof -
  note D = reconcilingD [OF R]
  let ?db = "releaseItem ids ord cm expires i db"
  have cov: "en_coverage ?db = updateWhere (\<lambda>c. cv_id c = cv_id i) (\<lambda>c. c\<lparr>cv_status := RELEASED\<rparr>) (en_coverage db)"
    using releaseItem_moved [of ids i ord cm expires db] by (simp add: moved_def)
  have kept: "c \<in> set (en_coverage ?db)" if "c \<in> set (en_coverage db)" "c \<noteq> i" for c
  proof -
    have "cv_id c \<noteq> cv_id i" using same_item [OF D(1) that(1) D(6) [OF i(1)]] that(2) by blast
    then show ?thesis unfolding cov updateWhere_status using that(1) by force
  qed
  have old: "c \<in> set (en_coverage db) \<and> c \<noteq> i" if c: "c \<in> set (en_coverage ?db)" "activeItem c" for c
  proof -
    from c(1) obtain b where b: "b \<in> set (en_coverage db)" "c = (if cv_id b = cv_id i then b\<lparr>cv_status := RELEASED\<rparr> else b)"
      unfolding cov updateWhere_status by blast
    have "cv_id b \<noteq> cv_id i" using b(2) c(2) by (auto simp: activeItem_def split: if_splits)
    with b show ?thesis by auto
  qed
  have "entInv ?db" by (rule releaseItem_inv [OF D(1) D(6) [OF i(1)] i(2)])
  moreover have "settled oid wanted todo ?db"
    unfolding settled_def
  proof (intro allI impI, elim conjE)
    fix d x owner assume a: "(d, x, owner) \<in> set wanted" "(d, x, owner) \<notin> set todo"
    then obtain c where c: "c \<in> set (en_coverage db)" "cv_order_id c = oid" "cv_service_date c = d" "activeItem c" "coverageMatches c x owner"
      using D(4) unfolding settled_def by blast
    have "c \<noteq> i" using D(10) [OF i(1)] a c(3) by force
    with c kept show "\<exists>c\<in>set (en_coverage ?db). cv_order_id c = oid \<and> cv_service_date c = d \<and> activeItem c \<and> coverageMatches c x owner" by blast
  qed
  moreover have "explained oid db0 wanted todo (rest - {i}) ?db" using D(5) old unfolding explained_def by blast
  ultimately show ?thesis using D kept unfolding reconciling_def by blast
qed

lemma releaseItem_ids: "cv_id ` set (en_coverage (releaseItem ids ord cm expires i db)) = cv_id ` set (en_coverage db)"
proof -
  have "map cv_id (en_coverage (releaseItem ids ord cm expires i db)) = map cv_id (en_coverage db)"
    using releaseItem_moved [of ids i ord cm expires db] by (simp add: moved_def updateWhere_def)
  then show ?thesis by (metis set_map)
qed

lemma reconcile_step:
  assumes step: "reconcileStep ids oid cm expired st i = Inr st'" and R: "reconciling oid db0 wanted (re_desired st) rest (re_tables st)"
    and i: "i \<in> rest" and uniq: "\<And>d v w. (d, v) \<in> set wanted \<Longrightarrow> (d, w) \<in> set wanted \<Longrightarrow> v = w"
  shows "reconciling oid db0 wanted (re_desired st') (rest - {i}) (re_tables st')
    \<and> cv_id ` set (en_coverage (re_tables st')) = cv_id ` set (en_coverage (re_tables st))"
proof -
  note D = reconcilingD [OF R]
  have st: "cv_status i = CONSUMED \<or> cv_status i = HELD" using D(9) [OF i] by (cases "cv_status i") (auto simp: activeItem_def)
  show ?thesis
  proof (cases "jmap_get (re_desired st) (cv_service_date i)")
    case None
    then have n: "cv_service_date i \<notin> fst ` set (re_desired st)" by (simp add: jmap_get_None)
    from st show ?thesis
    proof
      assume c: "cv_status i = CONSUMED"
      then have "st' = keepItem i False st" using step None by (simp add: reconcileStep_def)
      then show ?thesis using reconciling_consumed [OF R i c n] by (simp add: keepItem_def)
    next
      assume h: "cv_status i = HELD"
      then have "\<exists>e. re_tables st' = releaseItem ids oid cm e i (re_tables st)" "re_desired st' = re_desired st"
        using step None by (auto simp: reconcileStep_def Let_def)
      then show ?thesis using reconciling_release [OF R i h] releaseItem_ids by metis
    qed
  next
    case (Some v)
    obtain x owner where v: "v = (x, owner)" by (cases v)
    show ?thesis
    proof (cases "coverageMatches i x owner")
      case True
      then have "st' = keepItem i True st" using step Some v
        by (cases "cv_status i = CONSUMED") (simp_all add: reconcileStep_def Let_def)
      then show ?thesis
        using reconciling_match [OF R i _ True uniq] Some v jmap_get_mem [OF D(3)] by (simp add: keepItem_def)
    next
      case False
      then have h: "cv_status i = HELD" using st step Some v by (auto simp: reconcileStep_def)
      then have "\<exists>e. re_tables st' = releaseItem ids oid cm e i (re_tables st)" "re_desired st' = re_desired st"
        using step Some v False by (auto simp: reconcileStep_def Let_def)
      then show ?thesis using reconciling_release [OF R i h] releaseItem_ids by metis
    qed
  qed
qed

lemma reconcile_loop:
  assumes "foldR (reconcileStep ids oid cm expired) st items = Inr st'" "reconciling oid db0 wanted (re_desired st) (set items) (re_tables st)"
    "distinct items" and uniq: "\<And>d v w. (d, v) \<in> set wanted \<Longrightarrow> (d, w) \<in> set wanted \<Longrightarrow> v = w"
  shows "reconciling oid db0 wanted (re_desired st') {} (re_tables st')
    \<and> cv_id ` set (en_coverage (re_tables st')) = cv_id ` set (en_coverage (re_tables st))"
  using assms(1-3)
proof (induction items arbitrary: st)
  case (Cons i items)
  from Cons.prems(1) obtain s where s: "reconcileStep ids oid cm expired st i = Inr s" "foldR (reconcileStep ids oid cm expired) s items = Inr st'"
    by auto
  from reconcile_step [OF s(1) Cons.prems(2) _ uniq] Cons.prems(3)
  have "reconciling oid db0 wanted (re_desired s) (set items) (re_tables s)"
    "cv_id ` set (en_coverage (re_tables s)) = cv_id ` set (en_coverage (re_tables st))" by auto
  with Cons.IH [OF s(2)] Cons.prems(3) show ?case by simp
qed simp

text \<open>A night that is still to be held has no active item once all items were looked at; holding it settles it.\<close>

lemma reconciling_hold:
  assumes R: "reconciling oid db0 wanted ((d, x, owner) # todo) {} db" and d: "d = ci_serviceDate x"
    and new: "ei_coverage ids d \<notin> cv_id ` set (en_coverage db)"
    and uniq: "\<And>d v w. (d, v) \<in> set wanted \<Longrightarrow> (d, w) \<in> set wanted \<Longrightarrow> v = w"
  shows "reconciling oid db0 wanted todo {} (insertHeld ids oid owner r cm x db)"
proof -
  note D = reconcilingD [OF R]
  let ?db = "insertHeld ids oid owner r cm x db" and ?row = "heldRow (ei_coverage ids d) oid owner r x"
  have w: "(d, x, owner) \<in> set wanted" using D(2) by simp
  have fresh_key: "d \<notin> fst ` set todo" using D(3) by simp
  have "\<not> activeItem c" if "c \<in> set (en_coverage db)" "cv_order_id c = oid" "cv_service_date c = d" for c
  proof
    assume "activeItem c"
    with that have "(\<exists>y ow. (d, y, ow) \<in> set wanted - set ((d, x, owner) # todo)) \<or> d \<notin> fst ` set wanted"
      using D(5) [unfolded explained_def, rule_format, of c] by (metis empty_iff)
    then show False using uniq w by force
  qed
  then have none: "activeOn db oid d = None" unfolding activeOn_None by blast
  have cov: "en_coverage ?db = en_coverage db @ [?row]" by (simp add: insertHeld_tables(1) d)
  have "entInv ?db" by (rule insertHeld_inv) (use D(1) new none d in auto)
  moreover have "settled oid wanted todo ?db"
    unfolding settled_def
  proof (intro allI impI, elim conjE)
    fix e y ow assume a: "(e, y, ow) \<in> set wanted" "(e, y, ow) \<notin> set todo"
    show "\<exists>c\<in>set (en_coverage ?db). cv_order_id c = oid \<and> cv_service_date c = e \<and> activeItem c \<and> coverageMatches c y ow"
    proof (cases "(e, y, ow) = (d, x, owner)")
      case True
      then show ?thesis unfolding cov using d by (intro bexI [of _ ?row]) simp_all
    next
      case False
      with a(2) have "(e, y, ow) \<notin> set ((d, x, owner) # todo)" by auto
      with a(1) obtain c where "c \<in> set (en_coverage db)" "cv_order_id c = oid" "cv_service_date c = e" "activeItem c" "coverageMatches c y ow"
        using D(4) unfolding settled_def by blast
      then show ?thesis unfolding cov by (intro bexI [of _ c]) simp_all
    qed
  qed
  moreover have "explained oid db0 wanted todo {} ?db"
    unfolding explained_def
  proof (intro ballI impI)
    fix c assume c: "c \<in> set (en_coverage ?db)" "cv_order_id c = oid \<and> activeItem c"
    from c(1) consider "c = ?row" | "c \<in> set (en_coverage db)" by (auto simp: cov)
    then show "c \<in> {} \<or> (\<exists>x owner. (cv_service_date c, x, owner) \<in> set wanted - set todo \<and> coverageMatches c x owner)
      \<or> (cv_status c = CONSUMED \<and> c \<in> set (en_coverage db0) \<and> cv_service_date c \<notin> fst ` set wanted)"
    proof cases
      case 1
      moreover have "(d, x, owner) \<notin> set todo" using fresh_key by force
      ultimately show ?thesis using w d by (intro disjI2 disjI1 exI [of _ x] exI [of _ owner]) simp
    next
      case 2
      then show ?thesis using D(5) c(2) unfolding explained_def by auto
    qed
  qed
  ultimately show ?thesis using D(2,3) unfolding reconciling_def by simp
qed

lemma hold_loop:
  assumes "reconciling oid db0 wanted todo {} (re_tables st)" "\<forall>(d, x, owner)\<in>set todo. d = ci_serviceDate x"
    "\<forall>d\<in>fst ` set todo. ei_coverage ids d \<notin> cv_id ` set (en_coverage (re_tables st))" and inj: "inj (ei_coverage ids)"
    and uniq: "\<And>d v w. (d, v) \<in> set wanted \<Longrightarrow> (d, w) \<in> set wanted \<Longrightarrow> v = w"
  shows "reconciling oid db0 wanted [] {} (re_tables (fold (holdDesired ids oid r cm) (map snd todo) st))"
  using assms(1-3)
proof (induction todo arbitrary: st)
  case (Cons v todo)
  obtain d x owner where v: "v = (d, x, owner)" by (cases v)
  let ?st = "holdDesired ids oid r cm (x, owner) st"
  have t: "re_tables ?st = insertHeld ids oid owner r cm x (re_tables st)" by (simp add: holdDesired_def)
  have d: "d = ci_serviceDate x" using Cons.prems(2) v by simp
  have R: "reconciling oid db0 wanted todo {} (re_tables ?st)"
    unfolding t using reconciling_hold [OF Cons.prems(1) [unfolded v] d _ uniq] Cons.prems(3) v by simp
  have "ei_coverage ids e \<noteq> ei_coverage ids d" if "e \<in> fst ` set todo" for e
    using reconcilingD(3) [OF Cons.prems(1)] that v inj by (auto simp: inj_eq)
  then have "\<forall>e\<in>fst ` set todo. ei_coverage ids e \<notin> cv_id ` set (en_coverage (re_tables ?st))"
    using Cons.prems(3) by (simp add: t insertHeld_tables(1) d [symmetric])
  with Cons.IH [OF R] Cons.prems(2) v show ?case by simp
qed simp

lemma reconciling_cong:
  "en_coverage db = en_coverage db' \<Longrightarrow> en_ledger db = en_ledger db' \<Longrightarrow> reconciling oid db0 wanted todo rest db = reconciling oid db0 wanted todo rest db'"
  using entInv_cong [of db db'] by (simp add: reconciling_def settled_def explained_def)

lemma reconcileCoverage_reconciling:
  assumes inv: "entInv db" and fresh: "freshItems ids db" and r: "reconcileCoverage ids oid c m rv items cm db = Inr (refs, db')"
  obtains wanted where "wantedNights db c m items wanted" "reconciling oid db wanted [] {} db'"
proof -
  let ?active = "byServiceDate (filter (\<lambda>c. cv_order_id c = oid \<and> cv_status c \<noteq> RELEASED) (en_coverage db))"
  from r obtain wanted st where w: "foldR (desiredStep db c m) [] items = Inr wanted"
    and st: "foldR (reconcileStep ids oid cm (\<lambda>i. lotExpired db (cv_lot_id i)))
       \<lparr>re_refs = noRefs, re_changed = [], re_desired = wanted, re_tables = db\<rparr> ?active = Inr st"
    and db': "\<exists>owners. db' = incrementOwners owners (re_tables (fold (holdDesired ids oid rv cm) (map snd (re_desired st)) st))"
    unfolding reconcileCoverage_def Let_def by auto
  have W: "wantedNights db c m items wanted" using desired_loop [OF w, of "[]"] by (simp add: wantedNights_def)
  note uniq = wanted_unique [OF W]
  have act: "set ?active = {i \<in> set (en_coverage db). cv_order_id i = oid \<and> activeItem i}" "distinct ?active"
    using selected_items(2,3) [OF inv] by (auto simp: activeItem_def distinct_map)
  have "reconciling oid db wanted wanted (set ?active) db"
    using inv W by (auto simp: reconciling_def settled_def explained_def wantedNights_def act(1))
  with reconcile_loop [OF st _ act(2) uniq] have R: "reconciling oid db wanted (re_desired st) {} (re_tables st)"
    and same: "cv_id ` set (en_coverage (re_tables st)) = cv_id ` set (en_coverage db)" by auto
  have inj: "inj (ei_coverage ids)" using fresh by (simp add: freshItems_def)
  have new: "\<forall>d\<in>fst ` set (re_desired st). ei_coverage ids d \<notin> cv_id ` set (en_coverage (re_tables st))"
    using fresh by (auto simp: same freshItems_def)
  have dates: "\<forall>(d, x, owner)\<in>set (re_desired st). d = ci_serviceDate x"
    using reconcilingD(2) [OF R] W unfolding wantedNights_def by blast
  from db' obtain owners where o: "db' = incrementOwners owners (re_tables (fold (holdDesired ids oid rv cm) (map snd (re_desired st)) st))" by blast
  have "reconciling oid db wanted [] {} (re_tables (fold (holdDesired ids oid rv cm) (map snd (re_desired st)) st))"
    by (rule hold_loop [OF R dates new inj uniq])
  then have "reconciling oid db wanted [] {} db'" unfolding o using reconciling_cong incrementOwners_tables by metis
  with W show thesis by (rule that)
qed

lemma reconcileCoverage_inv:
  "entInv db \<Longrightarrow> freshItems ids db \<Longrightarrow> reconcileCoverage ids oid c m rv items cm db = Inr (refs, db') \<Longrightarrow> entInv db'"
  by (meson reconcileCoverage_reconciling reconcilingD(1))

section \<open>Conversions and facts of a lot\<close>

text \<open>Facts that concern no item change no history.\<close>

lemma free_facts_inv:
  assumes "entInv db" "en_coverage db' = en_coverage db" "en_ledger db' = en_ledger db @ fs" "\<forall>f\<in>set fs. lg_coverage_id f = None"
  shows "entInv db'"
proof -
  have "itemFacts db' t c = itemFacts db t c" for t c
    using assms(4) by (auto simp: itemFacts_def countWhere_def assms(3) filter_empty_conv)
  then have "lifecycleCounts db' c = lifecycleCounts db c" for c by (simp add: lifecycleCounts_def)
  moreover have "list_all (factOk (en_coverage db)) fs" using assms(4) by (simp add: list_all_iff factOk_def)
  ultimately show ?thesis using assms(1-3) by (simp add: entInv_def)
qed

lemma free_fact_inv:
  "entInv db \<Longrightarrow> en_coverage db' = en_coverage db \<Longrightarrow> en_ledger db' = en_ledger db @ [f] \<Longrightarrow> lg_coverage_id f = None \<Longrightarrow> entInv db'"
  by (rule free_facts_inv [where fs = "[f]"]) simp_all

lemma convertNight_inv:
  assumes inv: "entInv db" and new: "ei_coverage ids d \<notin> cv_id ` set (en_coverage db)" and none: "activeOn db oid d = None"
  shows "entInv (convertNight ids oid c lot r kind cm (d, unit) db)"
proof (cases unit)
  case None
  then show ?thesis by (intro free_fact_inv [OF inv]) (simp_all add: convertNight_def appendLedger_def, simp)
next
  case (Some u)
  let ?row = "\<lparr>cv_id = ei_coverage ids d, cv_order_id = oid, cv_contract_id = c, cv_lot_id = lot, cv_inventory_unit_id = u,
    cv_service_date = d, cv_unit_kind = kind, cv_status = CONSUMED, cv_held_by_revision_id = r\<rparr>"
  show ?thesis
    by (rule added_inv [OF inv, where row = ?row])
      (use new none Some in \<open>auto simp: convertNight_def appendLedger_def activeOn_None\<close>)
qed

lemma convertNight_others:
  assumes "x \<in> set (en_coverage (convertNight ids oid c lot r kind cm (d, unit) db))"
  shows "x \<in> set (en_coverage db) \<or> cv_service_date x = d \<and> cv_id x = ei_coverage ids d"
  using assms by (cases unit) (auto simp: convertNight_def appendLedger_def)

lemma convertNights_inv:
  assumes "entInv db" "distinct (map fst nights)" "\<forall>d\<in>fst ` set nights. ei_coverage ids d \<notin> cv_id ` set (en_coverage db) \<and> activeOn db oid d = None"
    and inj: "inj (ei_coverage ids)"
  shows "entInv (convertNights ids oid c lot r kind cm nights db)"
proof -
  have "entInv (fold (convertNight ids oid c lot r kind cm) nights db)"
    using assms(1-3)
  proof (induction nights arbitrary: db)
    case (Cons n nights)
    obtain d unit where n: "n = (d, unit)" by (cases n)
    let ?db = "convertNight ids oid c lot r kind cm (d, unit) db"
    have "ei_coverage ids e \<notin> cv_id ` set (en_coverage ?db) \<and> activeOn ?db oid e = None" if e: "e \<in> fst ` set nights" for e
    proof -
      have "e \<noteq> d" using Cons.prems(2) n e by auto
      then have "ei_coverage ids e \<noteq> ei_coverage ids d" using inj by (simp add: inj_eq)
      moreover have old: "ei_coverage ids e \<notin> cv_id ` set (en_coverage db)" "activeOn db oid e = None" using Cons.prems(3) e by auto
      ultimately have "ei_coverage ids e \<notin> cv_id ` set (en_coverage ?db)"
        using convertNight_others [of _ ids oid c lot r kind cm d unit db] by force
      moreover have "\<not> activeItem x" if "x \<in> set (en_coverage ?db)" "cv_order_id x = oid" "cv_service_date x = e" for x
        using convertNight_others [OF that(1)] that old(2) \<open>e \<noteq> d\<close> unfolding activeOn_None by auto
      ultimately show ?thesis unfolding activeOn_None by blast
    qed
    moreover have "entInv ?db" using convertNight_inv [OF Cons.prems(1)] Cons.prems(3) n by simp
    ultimately show ?case using Cons.IH [of ?db] Cons.prems(2) n by simp
  qed simp
  then show ?thesis by (simp add: convertNights_def)
qed

lemma lot_commands_inv:
  assumes "entInv db"
  shows "entInv (applyAddLot lotId factId reason cm la db)" "entInv (applyAdjust factId cm ad db)" "entInv (applyExpire factId cm ex db)"
proof -
  show "entInv (applyAddLot lotId factId reason cm la db)"
    by (rule free_fact_inv [OF assms]) (simp_all add: applyAddLot_def appendLedger_def Let_def lotFact_def, simp)
  show "entInv (applyAdjust factId cm ad db)"
    by (rule free_fact_inv [OF assms]) (simp_all add: applyAdjust_def appendLedger_def lotFact_def, simp)
  show "entInv (applyExpire factId cm ex db)"
    by (rule free_fact_inv [OF assms]) (simp_all add: applyExpire_def appendLedger_def lotFact_def, simp)
qed

section \<open>The steps\<close>

inductive entStep :: "entitlement_db \<Rightarrow> entitlement_db \<Rightarrow> bool" where
  hold: "freshItems ids db \<Longrightarrow> holdCoverage ids oid c m r items cm db = Inr (refs, db') \<Longrightarrow> entStep db db'"
| reconcile: "freshItems ids db \<Longrightarrow> reconcileCoverage ids oid c m r items cm db = Inr (refs, db') \<Longrightarrow> entStep db db'"
| release: "entStep db (snd (releaseCoverage ids oid cm options db))"
| consume: "consumeCoverage ids oid cm dates reason db = Inr (refs, db') \<Longrightarrow> entStep db db'"
| restore: "restoreConsumedCoverage ids oid cm db = Inr (refs, db') \<Longrightarrow> entStep db db'"
| restoreFuture: "restoreFutureConsumedCoverage ids oid cm dates db = Inr (refs, db') \<Longrightarrow> entStep db db'"
| convert: "freshItems ids db \<Longrightarrow> distinct (map fst nights) \<Longrightarrow> \<forall>d\<in>fst ` set nights. activeOn db oid d = None
    \<Longrightarrow> entStep db (convertNights ids oid c lot r kind cm nights db)"
| addLot: "buildAddLot evidence today db p input = Inr effect \<Longrightarrow> entStep db (applyAddLot lotId factId reason cm effect db)"
| adjust: "buildAdjust evidence today db p command input = Inr effect \<Longrightarrow> entStep db (applyAdjust factId cm effect db)"
| expire: "buildExpire evidence today db p input = Inr effect \<Longrightarrow> entStep db (applyExpire factId cm effect db)"
| other: "en_coverage db' = en_coverage db \<Longrightarrow> en_ledger db' = en_ledger db @ fs \<Longrightarrow> \<forall>f\<in>set fs. lg_coverage_id f = None \<Longrightarrow> entStep db db'"

definition noNights :: "entitlement_db \<Rightarrow> bool" where
  "noNights db \<longleftrightarrow> en_coverage db = [] \<and> (\<forall>f\<in>set (en_ledger db). lg_coverage_id f = None)"

lemma noNights_inv: "noNights db \<Longrightarrow> entInv db"
  by (simp add: noNights_def entInv_def oneANight_def list_all_iff factOk_def)

lemma entStep_inv: "entStep db db' \<Longrightarrow> entInv db \<Longrightarrow> entInv db'"
proof (induction rule: entStep.induct)
  case (convert ids db nights oid c lot r kind cm)
  then show ?case by (intro convertNights_inv) (auto simp: freshItems_def)
qed (auto intro: holdCoverage_inv reconcileCoverage_inv releaseCoverage_inv consumeCoverage_inv restoreConsumedCoverage_inv
  restoreFutureConsumedCoverage_inv lot_commands_inv free_facts_inv)

interpretation nights: invariant_system noNights entStep entInv
  by unfold_locales (use noNights_inv entStep_inv in blast)+

section \<open>The balance of a lot\<close>

definition granted :: "entitlement_db \<Rightarrow> string \<Rightarrow> int" where
  "granted db lot = sum_list (map lg_quantity_delta
     (filter (\<lambda>f. lg_lot_id f = lot \<and> (lg_coverage_id f = None \<or> lg_entry_type f = EXPIRE)) (en_ledger db)))"

definition openItems :: "entitlement_db \<Rightarrow> string \<Rightarrow> coverage_row list" where
  "openItems db lot = filter (\<lambda>c. cv_lot_id c = lot \<and> activeItem c \<and> itemFacts db RESTORE c = 0) (en_coverage db)"

definition itemDelta :: "ledger_row list \<Rightarrow> coverage_row \<Rightarrow> int" where
  "itemDelta fs c = sum_list (map lg_quantity_delta (filter (\<lambda>f. lg_coverage_id f = Some (cv_id c) \<and> lg_entry_type f \<noteq> EXPIRE) fs))"

lemma itemDelta_Cons:
  "itemDelta (f # fs) c = itemDelta fs c - (if cv_id c = x then - lg_quantity_delta f else 0)"
  if "lg_coverage_id f = Some x" "lg_entry_type f \<noteq> EXPIRE"
  using that by (simp add: itemDelta_def)

lemma itemDelta_free: "lg_coverage_id f = None \<or> lg_entry_type f = EXPIRE \<Longrightarrow> itemDelta (f # fs) c = itemDelta fs c"
  by (auto simp: itemDelta_def)

text \<open>The sum over the ledger, split by items.\<close>

lemma ledger_by_items:
  assumes "distinct (map cv_id items)" "list_all (factOk items) fs"
  shows "sum_list (map lg_quantity_delta (filter (\<lambda>f. lg_lot_id f = lot) fs))
    = sum_list (map lg_quantity_delta (filter (\<lambda>f. lg_lot_id f = lot \<and> (lg_coverage_id f = None \<or> lg_entry_type f = EXPIRE)) fs))
      + sum_list (map (itemDelta fs) (filter (\<lambda>c. cv_lot_id c = lot) items))"
  using assms(2)
proof (induction fs)
  case Nil
  have "itemDelta [] = (\<lambda>c. 0)" by (simp add: itemDelta_def fun_eq_iff)
  then show ?case by simp
next
  case (Cons f fs)
  let ?items = "filter (\<lambda>c. cv_lot_id c = lot) items"
  have dist: "distinct (map cv_id ?items)" using assms(1) by (simp add: distinct_map_filter)
  show ?case
  proof (cases "lg_coverage_id f = None \<or> lg_entry_type f = EXPIRE")
    case True
    then have d: "map (itemDelta (f # fs)) ?items = map (itemDelta fs) ?items" by (simp add: itemDelta_free)
    from Cons True show ?thesis unfolding d by auto
  next
    case False
    then obtain x where x: "lg_coverage_id f = Some x" "lg_entry_type f \<noteq> EXPIRE" by auto
    then obtain c where c: "c \<in> set items" "cv_id c = x" "cv_lot_id c = lg_lot_id f" using Cons.prems by (auto simp: factOk_def)
    have d: "map (itemDelta (f # fs)) ?items
        = map (\<lambda>b. itemDelta fs b - (if cv_id b = x then - lg_quantity_delta f else 0)) ?items"
      by (simp add: itemDelta_Cons [OF x])
    show ?thesis
    proof (cases "lg_lot_id f = lot")
      case True
      then have "c \<in> set ?items" using c by simp
      from sum_shift [OF dist this, of "itemDelta fs" "- lg_quantity_delta f"] Cons True False c(2) show ?thesis unfolding d by auto
    next
      case other: False
      have "cv_id b \<noteq> x" if "b \<in> set ?items" for b
      proof
        assume "cv_id b = x"
        then have "b = c" using assms(1) c(1,2) that by (auto simp: distinct_map dest: inj_onD)
        then show False using that c(3) other by simp
      qed
      then have e: "map (\<lambda>b. itemDelta fs b - (if cv_id b = x then - lg_quantity_delta f else 0)) ?items = map (itemDelta fs) ?items"
        by auto
      from Cons other show ?thesis unfolding d e by auto
    qed
  qed
qed

lemma itemDelta_counts:
  assumes "list_all (factOk items) fs"
  shows "itemDelta fs c = int (countWhere (\<lambda>f. lg_coverage_id f = Some (cv_id c) \<and> lg_entry_type f = RELEASE) fs)
    + int (countWhere (\<lambda>f. lg_coverage_id f = Some (cv_id c) \<and> lg_entry_type f = RESTORE) fs)
    - int (countWhere (\<lambda>f. lg_coverage_id f = Some (cv_id c) \<and> lg_entry_type f = HOLD) fs)
    - int (countWhere (\<lambda>f. lg_coverage_id f = Some (cv_id c) \<and> lg_entry_type f = CONVERSION_CONSUME) fs)"
  using assms
proof (induction fs)
  case (Cons f fs)
  have "factOk items f" using Cons.prems by simp
  with Cons show ?case
    by (cases "lg_entry_type f") (auto simp: itemDelta_def countWhere_def factOk_def lifecycleTypes_def)
qed (simp add: itemDelta_def countWhere_def)

lemma itemDelta_open:
  assumes "entInv db" "c \<in> set (en_coverage db)"
  shows "itemDelta (en_ledger db) c = (if activeItem c \<and> itemFacts db RESTORE c = 0 then -1 else 0)"
proof -
  have "list_all (factOk (en_coverage db)) (en_ledger db)" using assms(1) by (simp add: entInv_def)
  from itemDelta_counts [OF this, of c] have "itemDelta (en_ledger db) c = int (itemFacts db RELEASE c) + int (itemFacts db RESTORE c)
      - int (itemFacts db HOLD c) - int (itemFacts db CONVERSION_CONSUME c)" by (simp add: itemFacts_def)
  then show ?thesis using entInvD(3) [OF assms]
    by (cases "cv_status c") (auto simp: coverageLifecycleIsConserved_def countsAre_def lifecycleCounts_def activeItem_def)
qed

lemma lot_balance:
  assumes "entInv db"
  shows "ledgerSum db lot = granted db lot - int (length (openItems db lot))"
proof -
  have "ledgerSum db lot = granted db lot + sum_list (map (itemDelta (en_ledger db)) (filter (\<lambda>c. cv_lot_id c = lot) (en_coverage db)))"
    unfolding ledgerSum_def granted_def by (rule ledger_by_items) (use assms in \<open>auto simp: entInv_def\<close>)
  also have "map (itemDelta (en_ledger db)) (filter (\<lambda>c. cv_lot_id c = lot) (en_coverage db))
      = map (\<lambda>c. if activeItem c \<and> itemFacts db RESTORE c = 0 then -1 else 0) (filter (\<lambda>c. cv_lot_id c = lot) (en_coverage db))"
    using itemDelta_open [OF assms] by simp
  also have "sum_list (map (\<lambda>c. if activeItem c \<and> itemFacts db RESTORE c = 0 then -1 else 0) (filter (\<lambda>c. cv_lot_id c = lot) cs))
      = - int (length (filter (\<lambda>c. cv_lot_id c = lot \<and> activeItem c \<and> itemFacts db RESTORE c = 0) cs))" for cs
    by (induction cs) auto
  finally show ?thesis by (simp add: openItems_def)
qed

text \<open>What the driver reads back as text is the sum.\<close>

lemma parse_showInt: "parsePostgresBigInt (PgText (showInt n)) = Inr n"
proof (cases "n < 0")
  case True
  then have d: "list_all isDigit (showNat (- n)) \<and> numOf (showNat (- n)) = - n \<and> showNat (- n) \<noteq> []" by (intro showNat_digits) simp
  have "\<not> isDigit CHR ''-''" by (simp add: isDigit_def)
  with True d show ?thesis by (simp add: parsePostgresBigInt_def digits_def showInt_def)
next
  case False
  then have "list_all isDigit (showNat n) \<and> numOf (showNat n) = n \<and> showNat n \<noteq> []" by (intro showNat_digits) simp
  with False show ?thesis by (simp add: parsePostgresBigInt_def digits_def showInt_def)
qed

lemma availableBalance_Inr:
  "availableBalance db lot = Inr n \<longleftrightarrow> safe_int (el_total_units lot) \<and> 0 \<le> el_total_units lot
     \<and> n = el_total_units lot + ledgerSum db (el_id lot) \<and> 0 \<le> n \<and> n \<le> 2147483647"
  by (auto simp: availableBalance_def entitlementAvailableBalance_def parse_showInt boundedEntitlementBalance_def POSTGRES_INTEGER_MAX_def)

section \<open>Properties\<close>

text \<open>
  C3: the nights of members are conserved. In every state reached by holding, reconciling, releasing, consuming,
  restoring and converting nights and by adding, adjusting and expiring lots, the ledger of every item tells a
  history that the correction of a membership accepts for its status, an order has at most one active item a
  night, and the ledger of a lot sums to what was granted or expired less its items that still hold a night.
\<close>

theorem nights_conserved:
  assumes "noNights db0" "entStep\<^sup>*\<^sup>* db0 db" "c \<in> set (en_coverage db)"
  shows "coverageLifecycleIsConserved (cv_status c) (lifecycleCounts db c)
    \<and> (cv_status c \<noteq> RELEASED \<longrightarrow> activeOn db (cv_order_id c) (cv_service_date c) = Some c)
    \<and> ledgerSum db lot = granted db lot - int (length (openItems db lot))"
proof -
  note inv = nights.reachable_inv [OF assms(1,2)]
  show ?thesis using entInvD(3) [OF inv assms(3)] activeOn_Some [OF inv] assms(3) lot_balance [OF inv] by (simp add: activeItem_def)
qed

text \<open>A member of two nights: they are granted, held, and consumed at check-in.\<close>

definition demoNights :: "string list" where
  "demoNights = [''2026-03-01'', ''2026-03-02'']"

definition nightIds :: entitlement_ids where
  "nightIds = \<lparr>ei_coverage = (\<lambda>d. ''c'' @ d), ei_fact = (\<lambda>d. ''f'' @ d), ei_expire = (\<lambda>d. ''x'' @ d)\<rparr>"

definition demoItem :: "string \<Rightarrow> coverage_item_dto" where
  "demoItem d = \<lparr>ci_serviceDate = d, ci_inventoryUnitId = ''u'', ci_unitKind = BED_NIGHT, ci_entitlementLotId = ''lot''\<rparr>"

definition demoEnt0 :: entitlement_db where
  "demoEnt0 = \<lparr>en_contracts = [\<lparr>mc_id = ''k'', mc_property_id = ''p'', mc_member_id = Some ''m'', mc_status = CONTRACT_ACTIVE,
       mc_valid_from = ''2026-01-01'', mc_valid_until = ''2026-12-31'', mc_version = 1\<rparr>],
     en_lots = [\<lparr>el_id = ''lot'', el_contract_id = ''k'', el_unit_kind = BED_NIGHT, el_total_units = 0, el_expires_on = ''2026-12-31'',
       el_status = LOT_ACTIVE, el_version = 1\<rparr>],
     en_coverage = [], en_ledger = [lotFact ''a'' ''lot'' ADJUST 5 ''bought'' ''c0'']\<rparr>"

definition demoEnt1 :: entitlement_db where
  "demoEnt1 = (case holdCoverage nightIds ''o'' ''k'' (Some ''m'') ''r1'' (map demoItem demoNights) ''c1'' demoEnt0 of
     Inr (_, db) \<Rightarrow> db | Inl _ \<Rightarrow> demoEnt0)"

definition demoEnt2 :: entitlement_db where
  "demoEnt2 = (case consumeCoverage nightIds ''o'' ''c2'' None consumeReason demoEnt1 of Inr (_, db) \<Rightarrow> db | Inl _ \<Rightarrow> demoEnt1)"

lemma nightIds_fresh: "freshItems nightIds demoEnt0"
  by (simp add: freshItems_def nightIds_def demoEnt0_def inj_def)

lemma entStep_refl: "entStep db db"
  by (rule entStep.other [where fs = "[]"]) simp_all

lemma demoEnt_run: "entStep\<^sup>*\<^sup>* demoEnt0 demoEnt2"
proof -
  have "entStep demoEnt0 demoEnt1"
    unfolding demoEnt1_def using entStep.hold [OF nightIds_fresh] entStep_refl by (auto split: sum.splits)
  moreover have "entStep demoEnt1 demoEnt2"
    unfolding demoEnt2_def using entStep.consume entStep_refl by (auto split: sum.splits)
  ultimately show ?thesis by (meson rtranclp.rtrancl_into_rtrancl rtranclp.rtrancl_refl)
qed

theorem nights_conserved_witness:
  "ledgerSum demoEnt2 ''lot'' = 3 \<and> activeOn demoEnt2 ''o'' ''2026-03-02'' \<noteq> None"
proof -
  let ?c = "hd (tl (en_coverage demoEnt2))"
  have start: "noNights demoEnt0" by (simp add: noNights_def demoEnt0_def lotFact_def)
  have v: "?c \<in> set (en_coverage demoEnt2)" "cv_status ?c = CONSUMED" "cv_order_id ?c = ''o''" "cv_service_date ?c = ''2026-03-02''"
    "granted demoEnt2 ''lot'' = 5" "length (openItems demoEnt2 ''lot'') = 2"
    by code_simp+
  from nights_conserved [OF start demoEnt_run v(1), of "''lot''"] v(2-6) show ?thesis by simp
qed

text \<open>
  C9: reconciling leaves the nights of the price. When it succeeds, every night of the new coverage set has an
  active item of the order on the unit, the kind and the lot of the set, held for the contract that owns the lot,
  and every active item of the order is on such a night or was consumed before and stays as it was.
\<close>

theorem reconcileCoverage_exact:
  assumes "entInv db" "freshItems ids db" "reconcileCoverage ids oid contractId memberId revisionId items cm db = Inr (refs, db')"
  shows "(\<forall>x\<in>set items. \<exists>c owner. activeOn db' oid (ci_serviceDate x) = Some c
      \<and> coverageContract db contractId memberId x = Inr owner \<and> coverageMatches c x owner)
    \<and> (\<forall>d c. activeOn db' oid d = Some c \<longrightarrow> d \<in> ci_serviceDate ` set items \<or> cv_status c = CONSUMED \<and> activeOn db oid d = Some c)"
proof -
  from reconcileCoverage_reconciling [OF assms] obtain wanted where
    W: "wantedNights db contractId memberId items wanted" and R: "reconciling oid db wanted [] {} db'" .
  note D = reconcilingD [OF R]
  have wanted: "(d, x, owner) \<in> set wanted \<longleftrightarrow> x \<in> set items \<and> d = ci_serviceDate x \<and> coverageContract db contractId memberId x = Inr owner"
    for d x owner using W unfolding wantedNights_def by blast
  have "\<exists>c owner. activeOn db' oid (ci_serviceDate x) = Some c \<and> coverageContract db contractId memberId x = Inr owner \<and> coverageMatches c x owner"
    if x: "x \<in> set items" for x
  proof -
    from W x obtain owner where o: "coverageContract db contractId memberId x = Inr owner" unfolding wantedNights_def by blast
    with x wanted D(4) [unfolded settled_def, rule_format, of "ci_serviceDate x" x owner] obtain c where
      "c \<in> set (en_coverage db')" "cv_order_id c = oid" "cv_service_date c = ci_serviceDate x" "activeItem c" "coverageMatches c x owner" by auto
    with o activeOn_Some [OF D(1), of oid "ci_serviceDate x" c] show ?thesis by blast
  qed
  moreover have "d \<in> ci_serviceDate ` set items \<or> cv_status c = CONSUMED \<and> activeOn db oid d = Some c" if "activeOn db' oid d = Some c" for d c
  proof -
    from that have c: "c \<in> set (en_coverage db')" "cv_order_id c = oid" "cv_service_date c = d" "activeItem c"
      using activeOn_Some [OF D(1)] by auto
    from D(5) [unfolded explained_def, rule_format, OF c(1)] c(2,4)
    consider x owner where "(cv_service_date c, x, owner) \<in> set wanted" | "cv_status c = CONSUMED" "c \<in> set (en_coverage db)" by auto
    then show ?thesis
    proof cases
      case 1
      then show ?thesis using wanted c(3) by auto
    next
      case 2
      then show ?thesis using c activeOn_Some [OF assms(1), of oid d c] by simp
    qed
  qed
  ultimately show ?thesis by blast
qed

definition nightIds2 :: entitlement_ids where
  "nightIds2 = \<lparr>ei_coverage = (\<lambda>d. ''d'' @ d), ei_fact = (\<lambda>d. ''g'' @ d), ei_expire = (\<lambda>d. ''y'' @ d)\<rparr>"

definition demoReconciled :: "(coverage_refs \<times> entitlement_db) option" where
  "demoReconciled = (case reconcileCoverage nightIds2 ''o'' ''k'' (Some ''m'') ''r2'' [demoItem ''2026-03-02'', demoItem ''2026-03-03''] ''c3'' demoEnt1 of
     Inr r \<Rightarrow> Some r | Inl _ \<Rightarrow> None)"

theorem reconcileCoverage_exact_witness:
  "\<exists>refs db c. demoReconciled = Some (refs, db) \<and> activeOn db ''o'' ''2026-03-03'' = Some c \<and> activeOn db ''o'' ''2026-03-01'' = None"
proof -
  have "entStep demoEnt0 demoEnt1"
    unfolding demoEnt1_def using entStep.hold [OF nightIds_fresh] entStep_refl by (auto split: sum.splits)
  then have inv: "entInv demoEnt1" using entStep_inv noNights_inv [of demoEnt0] by (simp add: noNights_def demoEnt0_def lotFact_def)
  have m: "map cv_id (en_coverage demoEnt1) = [''c2026-03-01'', ''c2026-03-02'']" by code_simp
  have "cv_id ` set (en_coverage demoEnt1) = {''c2026-03-01'', ''c2026-03-02''}" unfolding set_map [symmetric] m by simp
  then have fresh: "freshItems nightIds2 demoEnt1" by (auto simp: freshItems_def nightIds2_def inj_def)
  have "demoReconciled \<noteq> None" and held: "map cv_status (en_coverage demoEnt1) = [HELD, HELD]" by code_simp+
  then obtain refs db where s: "demoReconciled = Some (refs, db)" by auto
  then have r: "reconcileCoverage nightIds2 ''o'' ''k'' (Some ''m'') ''r2'' [demoItem ''2026-03-02'', demoItem ''2026-03-03''] ''c3'' demoEnt1
      = Inr (refs, db)" by (auto simp: demoReconciled_def split: sum.splits)
  note X = reconcileCoverage_exact [OF inv fresh r]
  have "activeOn demoEnt1 ''o'' ''2026-03-01'' = Some (hd (en_coverage demoEnt1))" "cv_status (hd (en_coverage demoEnt1)) = HELD" by code_simp+
  then have "activeOn db ''o'' ''2026-03-01'' = None"
    using conjunct2 [OF X, rule_format, of "''2026-03-01''"]
    by (cases "activeOn db ''o'' ''2026-03-01''") (auto simp: demoItem_def)
  moreover have day: "ci_serviceDate (demoItem ''2026-03-03'') = ''2026-03-03''" by (simp add: demoItem_def)
  from conjunct1 [OF X] obtain c where "activeOn db ''o'' (ci_serviceDate (demoItem ''2026-03-03'')) = Some c" by auto
  then have "activeOn db ''o'' ''2026-03-03'' = Some c" unfolding day .
  ultimately show ?thesis using s by blast
qed

end
