(* ===== verification/LodgingInvariant.thy ===== *)
theory LodgingInvariant
  imports StayArrangement InventorySafety EntitlementSafety
begin

text \<open>
  The invariant of the tables of stays and what the loaders return under it: a reserved or arrived stay holds
  exactly one claim on each of its nights, an ended one holds no claim and no night of a member; the states of an
  order and its stay belong together; amendments and revisions are numbered without gaps; and the contract amount
  of a stay that an external channel sells is covered by what the channel ledger has recognised.
\<close>

section \<open>The invariant\<close>

fun stayStateOf :: "order_state \<Rightarrow> stay_state" where
  "stayStateOf RESERVED = PLANNED"
| "stayStateOf CHECKED_IN = IN_HOUSE"
| "stayStateOf CHECKED_OUT = COMPLETED"
| "stayStateOf CANCELLED = STAY_CANCELLED"
| "stayStateOf NO_SHOW = STAY_NO_SHOW"
| "stayStateOf CHECK_IN_REVOKED = STAY_CHECK_IN_REVOKED"

definition openOrder :: "lodging_order \<Rightarrow> bool" where
  "openOrder ord \<longleftrightarrow> lo_status ord = RESERVED \<or> lo_status ord = CHECKED_IN"

definition segmentsOf :: "lodging_db \<Rightarrow> string \<Rightarrow> string set" where
  "segmentsOf db orderId = {ss_id s |s y. s \<in> set (lb_segments db) \<and> y \<in> set (lb_stays db) \<and> ss_stay_id s = sy_id y \<and> sy_order_id y = orderId}"

definition stayClaims :: "lodging_db \<Rightarrow> string \<Rightarrow> claim_row set" where
  "stayClaims db orderId = {c \<in> activeClaims (lb_inventory db). c_sourceType c = ORDER_SEGMENT \<and> c_sourceId c \<in> segmentsOf db orderId}"

definition nightsHeld :: "lodging_db \<Rightarrow> string \<Rightarrow> string \<Rightarrow> string \<Rightarrow> bool" where
  "nightsHeld db orderId arrivalDate departureDate \<longleftrightarrow>
     (\<exists>dates. enumerateServiceDates arrivalDate departureDate = Inr dates
        \<and> (\<forall>c\<in>stayClaims db orderId. c_serviceDate c \<in> set dates)
        \<and> (\<forall>d\<in>set dates. \<exists>!c. c \<in> stayClaims db orderId \<and> c_serviceDate c = d))"

definition heldItems :: "entitlement_db \<Rightarrow> string \<Rightarrow> coverage_row set" where
  "heldItems nights orderId = {c \<in> set (en_coverage nights). cv_order_id c = orderId \<and> cv_status c = HELD}"

definition revisionsOf :: "lodging_db \<Rightarrow> string \<Rightarrow> revision_record list" where
  "revisionsOf db orderId = filter (\<lambda>r. rv_order_id r = orderId) (lb_revisions db)"

definition amendmentsOf :: "lodging_db \<Rightarrow> string \<Rightarrow> amendment_record list" where
  "amendmentsOf db orderId = filter (\<lambda>a. am_order_id a = orderId) (lb_amendments db)"

definition numbered :: "revision_record list \<Rightarrow> bool" where
  "numbered rs \<longleftrightarrow> map rv_revision_no rs = [1..int (length rs)]"

text \<open>A paid stay of an external channel in a known property.\<close>

definition channelStay :: "lodging_db \<Rightarrow> lodging_order \<Rightarrow> bool" where
  "channelStay db ord \<longleftrightarrow> externalChannel (lo_booking_channel_code ord) \<and> map_of (lb_properties db) (lo_property_id ord) \<noteq> None"

definition revisionsOk :: "lodging_db \<Rightarrow> lodging_order \<Rightarrow> bool" where
  "revisionsOk db ord \<longleftrightarrow>
     (let rs = revisionsOf db (lo_id ord) in
      rs \<noteq> [] \<and> numbered rs \<and> lo_current_revision_id ord = Some (rv_id (last rs))
      \<and> (channelStay db ord \<longrightarrow> 0 \<le> contractMinor (last rs) \<and> contractMinor (last rs) \<le> channelNet db (lo_property_id ord) (lo_id ord)))"

definition amendmentsOk :: "lodging_db \<Rightarrow> lodging_order \<Rightarrow> bool" where
  "amendmentsOk db ord \<longleftrightarrow> 1 \<le> lo_version ord \<and> map am_sequence (amendmentsOf db (lo_id ord)) = [1..lo_version ord]
     \<and> (\<forall>a\<in>set (amendmentsOf db (lo_id ord)). am_new_version a = am_sequence a \<and> am_prior_version a + 1 = am_new_version a)"

definition stayOk :: "lodging_db \<Rightarrow> lodging_order \<Rightarrow> bool" where
  "stayOk db ord \<longleftrightarrow> (\<exists>y\<in>set (lb_stays db). sy_order_id y = lo_id ord \<and> sy_status y = stayStateOf (lo_status ord)) \<and> segmentsOf db (lo_id ord) \<noteq> {}"

definition resourcesOk :: "lodging_db \<Rightarrow> lodging_order \<Rightarrow> bool" where
  "resourcesOk db ord \<longleftrightarrow>
     (if openOrder ord then nightsHeld db (lo_id ord) (lo_arrival_date ord) (lo_departure_date ord)
      else stayClaims db (lo_id ord) = {} \<and> heldItems (lb_nights db) (lo_id ord) = {})"

definition channelOrderOk :: "lodging_order \<Rightarrow> bool" where
  "channelOrderOk ord \<longleftrightarrow> (externalChannel (lo_booking_channel_code ord) \<longrightarrow> lo_stay_type ord \<noteq> ''FREE'' \<and> \<not> isMember ord)"

definition orderOk :: "lodging_db \<Rightarrow> lodging_order \<Rightarrow> bool" where
  "orderOk db ord \<longleftrightarrow> stayOk db ord \<and> revisionsOk db ord \<and> amendmentsOk db ord \<and> resourcesOk db ord \<and> channelOrderOk ord"

definition keysOk :: "lodging_db \<Rightarrow> bool" where
  "keysOk db \<longleftrightarrow> distinct (map lo_id (lb_orders db)) \<and> distinct (map sy_id (lb_stays db)) \<and> distinct (map sy_order_id (lb_stays db))
     \<and> distinct (map ss_id (lb_segments db)) \<and> distinct (map rv_id (lb_revisions db)) \<and> [] \<notin> rv_id ` set (lb_revisions db)
     \<and> distinct (map am_id (lb_amendments db))"

text \<open>A refund of a platform lowers the contract amount by no more than it returns.\<close>

definition ledgerOk :: "channel_fact list \<Rightarrow> bool" where
  "ledgerOk fs \<longleftrightarrow> (\<forall>f\<in>set fs. ch_kind f = CHANNEL_REFUND \<longrightarrow> ch_amount_minor f \<le> ch_contract_effect_minor f \<and> ch_contract_effect_minor f \<le> 0)"

text \<open>Claims of maintenance and internal use name no segment of a stay.\<close>

definition sourcesOk :: "lodging_db \<Rightarrow> bool" where
  "sourcesOk db \<longleftrightarrow> (\<forall>c\<in>activeClaims (lb_inventory db). c_sourceType c \<noteq> ORDER_SEGMENT \<longrightarrow> c_sourceId c \<notin> ss_id ` set (lb_segments db))"

definition lodgingInv :: "lodging_db \<Rightarrow> bool" where
  "lodgingInv db \<longleftrightarrow> inventoryInv (lb_inventory db) \<and> entInv (lb_nights db) \<and> keysOk db \<and> (\<forall>ord\<in>set (lb_orders db). orderOk db ord)
     \<and> ledgerOk (lb_channel db) \<and> sourcesOk db"

lemma lodgingInvD:
  assumes "lodgingInv db"
  shows "inventoryInv (lb_inventory db)" "entInv (lb_nights db)" "keysOk db" "ord \<in> set (lb_orders db) \<Longrightarrow> orderOk db ord"
    "ledgerOk (lb_channel db)" "sourcesOk db"
  using assms by (simp_all add: lodgingInv_def)

lemma keysOkD:
  assumes "keysOk db"
  shows "distinct (map lo_id (lb_orders db))" "distinct (map sy_id (lb_stays db))" "distinct (map sy_order_id (lb_stays db))"
    "distinct (map ss_id (lb_segments db))" "distinct (map rv_id (lb_revisions db))" "[] \<notin> rv_id ` set (lb_revisions db)"
    "distinct (map am_id (lb_amendments db))"
  using assms by (simp_all add: keysOk_def)

lemma orderOkD:
  assumes "orderOk db ord"
  shows "stayOk db ord" "revisionsOk db ord" "amendmentsOk db ord" "resourcesOk db ord" "channelOrderOk ord"
  using assms by (simp_all add: orderOk_def)

section \<open>What the loaders return\<close>

lemma orderById_iff:
  "keysOk db \<Longrightarrow> orderById db i = Some ord \<longleftrightarrow> ord \<in> set (lb_orders db) \<and> lo_id ord = i"
  unfolding orderById_def using find_key [of lo_id "lb_orders db" ord] keysOkD(1) by (auto dest: find_SomeD)

text \<open>An order has one stay, and its segments are those of that stay.\<close>

lemma segmentsOf_stay:
  assumes "keysOk db" "y \<in> set (lb_stays db)"
  shows "segmentsOf db (sy_order_id y) = ss_id ` {s \<in> set (lb_segments db). ss_stay_id s = sy_id y}"
proof -
  have "z = y" if "z \<in> set (lb_stays db)" "sy_order_id z = sy_order_id y" for z
    using distinct_key_eq [OF keysOkD(3) [OF assms(1)]] that assms(2) by blast
  then show ?thesis unfolding segmentsOf_def using assms(2) by (auto; metis)
qed

lemma segmentsOf_disjoint:
  assumes "keysOk db" "x \<in> segmentsOf db i" "x \<in> segmentsOf db j"
  shows "i = j"
proof -
  from assms(2,3) obtain s y s' y' where *: "s \<in> set (lb_segments db)" "y \<in> set (lb_stays db)" "ss_stay_id s = sy_id y" "sy_order_id y = i" "x = ss_id s"
    "s' \<in> set (lb_segments db)" "y' \<in> set (lb_stays db)" "ss_stay_id s' = sy_id y'" "sy_order_id y' = j" "x = ss_id s'"
    by (auto simp: segmentsOf_def)
  then have "s = s'" using distinct_key_eq [OF keysOkD(4) [OF assms(1)]] by metis
  with * have "y = y'" using distinct_key_eq [OF keysOkD(2) [OF assms(1)]] by metis
  with * show ?thesis by simp
qed

lemma stayClaims_disjoint: "keysOk db \<Longrightarrow> c \<in> stayClaims db i \<Longrightarrow> c \<in> stayClaims db j \<Longrightarrow> i = j"
  unfolding stayClaims_def using segmentsOf_disjoint by blast

lemma loadOrderContext_Inr:
  assumes "loadOrderContextForProperty db p i = Inr ctx"
  shows "loadOrderContext db i = Inr ctx"
  using assms by (simp add: loadOrderContextForProperty_def split: if_splits)

lemma loaded_context:
  assumes inv: "lodgingInv db" and load: "loadOrderContext db i = Inr ctx"
  shows "oc_order ctx \<in> set (lb_orders db)" and "lo_id (oc_order ctx) = i" and "oc_stay ctx \<in> set (lb_stays db)" and "sy_order_id (oc_stay ctx) = i"
    and "set (oc_segmentIds ctx) = segmentsOf db i" and "oc_revision ctx = last (revisionsOf db i)"
proof -
  note keys = lodgingInvD(3) [OF inv]
  from load obtain ord stay seg rest rid rev where o: "orderById db i = Some ord" and y: "find (\<lambda>s. sy_order_id s = i) (lb_stays db) = Some stay"
    and seg: "sortBy (\<lambda>a b. ss_sequence b \<le> ss_sequence a) (filter (\<lambda>s. ss_stay_id s = sy_id stay) (lb_segments db)) = seg # rest"
    and rid: "truthyId (lo_current_revision_id ord) = Some rid" and rev: "find (\<lambda>r. rv_id r = rid) (lb_revisions db) = Some rev"
    and ctx: "ctx = \<lparr>oc_order = ord, oc_stay = stay, oc_currentSegment = seg, oc_revision = rev,
      oc_segmentIds = map ss_id (bySequence (filter (\<lambda>s. ss_stay_id s = sy_id stay) (lb_segments db)))\<rparr>"
    by (auto simp: loadOrderContext_def Let_def split: option.splits list.splits)
  from o keys have ord: "ord \<in> set (lb_orders db)" "lo_id ord = i" by (simp_all add: orderById_iff)
  from find_SomeD [OF y] have stay: "stay \<in> set (lb_stays db)" "sy_order_id stay = i" by auto
  show "oc_order ctx \<in> set (lb_orders db)" "lo_id (oc_order ctx) = i" "oc_stay ctx \<in> set (lb_stays db)" "sy_order_id (oc_stay ctx) = i"
    by (simp_all add: ctx ord stay)
  show "set (oc_segmentIds ctx) = segmentsOf db i"
    using segmentsOf_stay [OF keys stay(1)] stay(2) by (simp add: ctx bySequence_def)
  from orderOkD(2) [OF lodgingInvD(4) [OF inv ord(1)]] ord(2) have r: "revisionsOf db i \<noteq> []"
    "lo_current_revision_id ord = Some (rv_id (last (revisionsOf db i)))" by (simp_all add: revisionsOk_def Let_def)
  then have "rid = rv_id (last (revisionsOf db i))" using rid by (auto simp: truthyId_def split: if_splits)
  moreover have "last (revisionsOf db i) \<in> set (lb_revisions db)" using last_in_set [OF r(1)] by (auto simp: revisionsOf_def)
  ultimately show "oc_revision ctx = last (revisionsOf db i)"
    using rev find_key [OF keysOkD(5) [OF keys]] by (simp add: ctx)
qed

lemma context_exists:
  assumes inv: "lodgingInv db" and ord: "ord \<in> set (lb_orders db)"
  shows "\<exists>ctx. loadOrderContextForProperty db (lo_property_id ord) (lo_id ord) = Inr ctx \<and> oc_order ctx = ord"
proof -
  note keys = lodgingInvD(3) [OF inv] and ok = lodgingInvD(4) [OF inv ord]
  have o: "orderById db (lo_id ord) = Some ord" using orderById_iff [OF keys] ord by simp
  from orderOkD(1) [OF ok] obtain y where y: "y \<in> set (lb_stays db)" "sy_order_id y = lo_id ord" and seg: "segmentsOf db (lo_id ord) \<noteq> {}"
    by (auto simp: stayOk_def)
  from y find_key [OF keysOkD(3) [OF keys] y(1)] have fy: "find (\<lambda>s. sy_order_id s = lo_id ord) (lb_stays db) = Some y" by simp
  have "filter (\<lambda>s. ss_stay_id s = sy_id y) (lb_segments db) \<noteq> []"
    using seg segmentsOf_stay [OF keys y(1)] y(2) by (auto simp: filter_empty_conv)
  then obtain s rest where s: "sortBy (\<lambda>a b. ss_sequence b \<le> ss_sequence a) (filter (\<lambda>s. ss_stay_id s = sy_id y) (lb_segments db)) = s # rest"
    by (metis sortBy_eq_Nil neq_Nil_conv)
  from orderOkD(2) [OF ok] have r: "revisionsOf db (lo_id ord) \<noteq> []" "lo_current_revision_id ord = Some (rv_id (last (revisionsOf db (lo_id ord))))"
    by (simp_all add: revisionsOk_def Let_def)
  then have m: "last (revisionsOf db (lo_id ord)) \<in> set (lb_revisions db)" using last_in_set [OF r(1)] by (auto simp: revisionsOf_def)
  then have "rv_id (last (revisionsOf db (lo_id ord))) \<noteq> []" using keysOkD(6) [OF keys] by (metis imageI)
  with r(2) have t: "truthyId (lo_current_revision_id ord) = Some (rv_id (last (revisionsOf db (lo_id ord))))" by (simp add: truthyId_def)
  have "list_ex (\<lambda>r. lo_id r = lo_id ord \<and> lo_property_id r = lo_property_id ord) (lb_orders db)" using ord by (auto simp: list_ex_iff)
  then show ?thesis
    by (simp add: loadOrderContextForProperty_def loadOrderContext_def o fy Let_def s t find_key [OF keysOkD(5) [OF keys] m])
qed

end
