(* ===== verification/LodgingFrames.thy ===== *)
theory LodgingFrames
  imports LodgingInvariant
begin

text \<open>
  What the operations that the commands on stays are composed of leave alone, and what they make of the rows of
  their own order: the claims of inventory, the held nights of members, the revisions with the channel ledger, and
  the tables of orders.
\<close>

section \<open>Held nights\<close>

text \<open>An operation that holds nothing, and one that holds nights of one order only.\<close>

definition noNewHeld :: "entitlement_db \<Rightarrow> entitlement_db \<Rightarrow> bool" where
  "noNewHeld n n' \<longleftrightarrow> (\<forall>c\<in>set (en_coverage n'). cv_status c = HELD \<longrightarrow> c \<in> set (en_coverage n))"

definition heldFrame :: "string \<Rightarrow> entitlement_db \<Rightarrow> entitlement_db \<Rightarrow> bool" where
  "heldFrame orderId n n' \<longleftrightarrow> (\<forall>c\<in>set (en_coverage n'). cv_status c = HELD \<and> cv_order_id c \<noteq> orderId \<longrightarrow> c \<in> set (en_coverage n))"

lemma noNewHeld_refl [simp]: "noNewHeld n n" by (simp add: noNewHeld_def)

lemma noNewHeld_trans: "noNewHeld n m \<Longrightarrow> noNewHeld m k \<Longrightarrow> noNewHeld n k" by (auto simp: noNewHeld_def)

lemma heldFrame_refl [simp]: "heldFrame i n n" by (simp add: heldFrame_def)

lemma heldFrame_trans: "heldFrame i n m \<Longrightarrow> heldFrame i m k \<Longrightarrow> heldFrame i n k" by (auto simp: heldFrame_def)

lemma noNewHeld_frame: "noNewHeld n n' \<Longrightarrow> heldFrame i n n'" by (auto simp: noNewHeld_def heldFrame_def)

lemma noNewHeld_items: "noNewHeld n n' \<Longrightarrow> heldItems n' i \<subseteq> heldItems n i" by (auto simp: noNewHeld_def heldItems_def)

lemma heldFrame_items: "heldFrame i n n' \<Longrightarrow> j \<noteq> i \<Longrightarrow> heldItems n' j \<subseteq> heldItems n j" by (auto simp: heldFrame_def heldItems_def)

lemma held_moves [simp]:
  "st \<noteq> HELD \<Longrightarrow> noNewHeld n m \<Longrightarrow> noNewHeld n (setCoverageState st P m)"
  "noNewHeld n (appendLedger f m) = noNewHeld n m" "noNewHeld n (incrementOwners owners m) = noNewHeld n m"
  "heldFrame i n (incrementOwners owners m) = heldFrame i n m"
  by (auto simp: noNewHeld_def heldFrame_def setCoverageState_def appendLedger_def updateWhere_def split: if_splits)

lemma fold_noNewHeld: "(\<And>x m. noNewHeld m (f x m)) \<Longrightarrow> noNewHeld n (fold f xs n)"
  by (rule fold_invariant [where P = "noNewHeld n" and Q = "\<lambda>_. True"]) (auto intro: noNewHeld_trans)

lemma item_noNewHeld:
  "noNewHeld n (releaseItem ids i cm ex c n)" "noNewHeld n (consumeItem ids i cm reason c n)" "noNewHeld n (restoreFact ids i cm reason c n)"
  "noNewHeld n (restoreFutureItem ids i cm c n)"
  by (simp_all add: releaseItem_def consumeItem_def restoreFact_def restoreFutureItem_def Let_def)

lemma coverage_noNewHeld:
  "noNewHeld n (snd (releaseCoverage ids i cm options n))"
  "consumeCoverage ids i cm dates reason n = Inr (refs, n') \<Longrightarrow> noNewHeld n n'"
  "restoreConsumedCoverage ids i cm n = Inr (refs, n') \<Longrightarrow> noNewHeld n n'"
  "restoreFutureConsumedCoverage ids i cm nights n = Inr (refs, n') \<Longrightarrow> noNewHeld n n'"
  by (auto simp: releaseCoverage_def consumeCoverage_def restoreConsumedCoverage_def restoreFutureConsumedCoverage_def Let_def
      split: if_splits intro!: fold_noNewHeld item_noNewHeld)

lemma insertHeld_frame: "heldFrame i n (insertHeld ids i c r cm item n)"
  by (auto simp: heldFrame_def insertHeld_def appendLedger_def heldRow_def Let_def)

lemma holdCoverage_frame:
  assumes "holdCoverage ids i c m r items cm n = Inr (refs, n')"
  shows "heldFrame i n n'"
proof -
  have "(\<lambda>(_, k). heldFrame i n k) (refs, n')"
    by (rule foldR_invariant [OF assms [unfolded holdCoverage_def]])
      (auto simp: holdStep_def split: option.splits if_splits intro: heldFrame_trans [OF _ insertHeld_frame])
  then show ?thesis by simp
qed

lemma reconcileCoverage_frame:
  assumes "reconcileCoverage ids i c m r items cm n = Inr (refs, n')"
  shows "heldFrame i n n'"
proof -
  from assms obtain wanted st active where st: "foldR (reconcileStep ids i cm (\<lambda>x. lotExpired n (cv_lot_id x)))
       \<lparr>re_refs = noRefs, re_changed = [], re_desired = wanted, re_tables = n\<rparr> active = Inr st"
    and n': "\<exists>owners. n' = incrementOwners owners (re_tables (fold (holdDesired ids i r cm) (map snd (re_desired st)) st))"
    unfolding reconcileCoverage_def Let_def by auto
  have "heldFrame i n (re_tables st)"
    by (rule foldR_invariant [where P = "\<lambda>st. heldFrame i n (re_tables st)", OF st])
      (auto simp: reconcileStep_def keepItem_def Let_def split: option.splits if_splits
        intro: heldFrame_trans [OF _ noNewHeld_frame [OF item_noNewHeld(1)]])
  moreover have "heldFrame i n (re_tables st) \<Longrightarrow> heldFrame i n (re_tables (fold (holdDesired ids i r cm) xs st))" for xs
    by (rule fold_invariant [where P = "\<lambda>st. heldFrame i n (re_tables st)" and Q = "\<lambda>_. True"])
      (auto simp: holdDesired_def intro: heldFrame_trans [OF _ insertHeld_frame])
  ultimately show ?thesis using n' by auto
qed

text \<open>A cancellation leaves no night of the order held.\<close>

lemma releaseItems_coverage:
  "en_coverage (fold (releaseItem ids i cm ex) items n) = updateWhere (\<lambda>c. cv_id c \<in> cv_id ` set items) (\<lambda>c. c\<lparr>cv_status := RELEASED\<rparr>) (en_coverage n)"
proof (induction items arbitrary: n)
  case Nil
  then show ?case by (simp add: updateWhere_def)
next
  case (Cons x items)
  have "en_coverage (releaseItem ids i cm ex x n) = updateWhere (\<lambda>c. cv_id c = cv_id x) (\<lambda>c. c\<lparr>cv_status := RELEASED\<rparr>) (en_coverage n)"
    by (simp add: releaseItem_def setCoverageState_def appendLedger_def Let_def)
  then show ?case using Cons by (simp add: updateWhere_def comp_def)
qed

lemma releaseAllHeld_none: "heldItems (snd (releaseCoverage ids i cm releaseAllHeld n)) i = {}"
proof -
  let ?items = "filter (\<lambda>c. cv_order_id c = i \<and> cv_status c = HELD) (en_coverage n)"
  have "\<exists>ex. en_coverage (snd (releaseCoverage ids i cm releaseAllHeld n)) = en_coverage (fold (releaseItem ids i cm ex) ?items n)"
    by (auto simp: releaseCoverage_def releaseAllHeld_def Let_def)
  then show ?thesis by (auto simp: heldItems_def releaseItems_coverage updateWhere_def split: if_splits)
qed

section \<open>Claims\<close>

text \<open>The invariant of the inventory does not read the tables of orders and local dates.\<close>

lemma inventoryInv_tables [simp]:
  "inventoryInv (db\<lparr>t_orders := a\<rparr>) = inventoryInv db" "inventoryInv (db\<lparr>t_segments := b\<rparr>) = inventoryInv db"
  "inventoryInv (db\<lparr>t_localDates := e\<rparr>) = inventoryInv db"
  by (simp_all add: inventoryInv_def claimsOk_def daysOk_def exclusive_def wholePtrs_def bedPtrs_def claimsOfKind_def activeClaims_def
      kindOf_def unitOf_def)

lemma activeClaims_tables [simp]:
  "activeClaims (db\<lparr>t_orders := a\<rparr>) = activeClaims db" "activeClaims (db\<lparr>t_segments := b\<rparr>) = activeClaims db"
  "activeClaims (db\<lparr>t_localDates := e\<rparr>) = activeClaims db"
  by (simp_all add: activeClaims_def)

text \<open>The identifiers of successfully inserted claims are new.\<close>

lemma claimNight_appends:
  assumes "claimNight opts db (d, i) = Inr db'"
  shows "i \<notin> c_id ` set (t_claims db)" "c_id ` set (t_claims db') = insert i (c_id ` set (t_claims db))"
  using assms by (auto simp: claimNight_def insertClaim_def list_ex_iff Let_def pointRoom_def pointBed_def insertBedDay_def split: if_splits)

lemma created_ids:
  assumes "foldR (claimNight opts) db (zip dates ids) = Inr db'" "length ids = length dates"
  shows "distinct ids \<and> set ids \<inter> c_id ` set (t_claims db) = {}"
  using assms
proof (induction dates arbitrary: db ids)
  case (Cons d dates)
  then obtain i js mid where ids: "ids = i # js" and m: "claimNight opts db (d, i) = Inr mid" and f: "foldR (claimNight opts) mid (zip dates js) = Inr db'"
    by (cases ids) auto
  from Cons.IH [OF f] Cons.prems(2) ids have "distinct js" "set js \<inter> c_id ` set (t_claims mid) = {}" by simp_all
  with claimNight_appends [OF m] ids show ?case by auto
qed simp

text \<open>Claiming the nights of one unit for the segment of a transaction.\<close>

definition claimsOn :: "string \<Rightarrow> string list \<Rightarrow> claim_row set \<Rightarrow> bool" where
  "claimsOn segmentId dates new \<longleftrightarrow>
     (\<forall>c\<in>new. c_active c \<and> c_sourceType c = ORDER_SEGMENT \<and> c_sourceId c = segmentId \<and> c_serviceDate c \<in> set dates)
     \<and> (\<forall>d\<in>set dates. \<exists>!c. c \<in> new \<and> c_serviceDate c = d)"

lemma newClaims_on:
  assumes "distinct dates" "length ids = length dates" "co_sourceType opts = ORDER_SEGMENT"
  shows "claimsOn (co_sourceId opts) dates (set (map2 (newClaim opts) dates ids))"
  unfolding claimsOn_def
proof (intro conjI ballI)
  fix c assume "c \<in> set (map2 (newClaim opts) dates ids)"
  then show "c_active c" "c_sourceType c = ORDER_SEGMENT" "c_sourceId c = co_sourceId opts" "c_serviceDate c \<in> set dates"
    using assms(3) by (auto dest: set_zip_leftD)
next
  fix d assume "d \<in> set dates"
  then obtain k where k: "k < length dates" "dates ! k = d" by (auto simp: in_set_conv_nth)
  show "\<exists>!c. c \<in> set (map2 (newClaim opts) dates ids) \<and> c_serviceDate c = d"
  proof (rule ex1I)
    show "newClaim opts d (ids ! k) \<in> set (map2 (newClaim opts) dates ids) \<and> c_serviceDate (newClaim opts d (ids ! k)) = d"
      using k assms(2) by (force simp: set_zip)
  next
    fix c assume "c \<in> set (map2 (newClaim opts) dates ids) \<and> c_serviceDate c = d"
    then obtain j where j: "j < length dates" "c = newClaim opts (dates ! j) (ids ! j)" "dates ! j = d" by (auto simp: set_zip)
    then have "j = k" using k assms(1) nth_eq_iff_index_eq by metis
    then show "c = newClaim opts d (ids ! k)" using j by simp
  qed
qed

lemma claimNights_Inr:
  assumes inv: "inventoryInv (lb_inventory db)" and c: "claimNights view tx p u dates X db = Inr (cids, db')" and dates: "distinct dates"
    and ids: "\<forall>d. tx_claimIds tx u d \<noteq> []" and free: "\<forall>c\<in>activeClaims (lb_inventory db). c_serviceDate c \<in> set dates \<longrightarrow> c_sourceId c \<notin> set X"
  obtains store new where "db' = db\<lparr>lb_inventory := store\<rparr>" "inventoryInv store" "activeClaims store = activeClaims (lb_inventory db) \<union> new"
    "claimsOn (tx_segmentId tx) dates new" "length cids = length dates"
proof -
  from c obtain unit store where unit: "loadInventoryUnit (lb_inventory db) p u = Inr unit"
    and cr: "createInventoryClaims view (inventoryTables db)
         \<lparr>co_propertyId = p, co_unit = unit, co_sourceType = ORDER_SEGMENT, co_sourceId = tx_segmentId tx\<rparr>
         dates X LODGING_NIGHTS (map (tx_claimIds tx u) dates) = Inr (cids, store)" (is "createInventoryClaims _ _ ?opts _ _ _ ?ids = _")
    and db': "db' = putInventory store db"
    by (auto simp: claimNights_def)
  have tables: "activeClaims (inventoryTables db) = activeClaims (lb_inventory db)" "t_units (inventoryTables db) = t_units (lb_inventory db)"
    "inventoryInv (inventoryTables db)" using inv by (simp_all add: inventoryTables_def)
  note b = load_backed(1) [OF inventoryInvD(1) [OF inv] unit [unfolded loadInventoryUnit_def]]
  have "distinct ?ids \<and> set ?ids \<inter> c_id ` set (t_claims (inventoryTables db)) = {}"
    using cr by (intro created_ids [of ?opts _ dates]) (auto simp: createInventoryClaims_def)
  then have "inventoryInv store \<and> activeClaims store = activeClaims (lb_inventory db) \<union> set (map2 (newClaim ?opts) dates ?ids) \<and> cids = ?ids"
  proof (elim conjE)
    assume i: "distinct ?ids" "set ?ids \<inter> c_id ` set (t_claims (inventoryTables db)) = {}"
    have "backed (inventoryTables db) (co_unit ?opts)" using b by (simp add: backed_cong [OF tables(2)])
    moreover have "\<forall>c\<in>activeClaims (inventoryTables db). c_roomId c = r_roomId (co_unit ?opts) \<and> c_serviceDate c \<in> set dates \<longrightarrow> c_sourceId c \<notin> set X"
      using free by (simp add: tables)
    moreover have "length ?ids = length dates" "[] \<notin> set ?ids" using ids by (auto simp: eq_commute)
    ultimately show ?thesis using create_inv [OF tables(3) _ cr _ dates i(1) _ _ i(2)] by (simp add: tables)
  qed
  then show thesis
    by (intro that [of "store\<lparr>t_orders := t_orders (lb_inventory db), t_segments := t_segments (lb_inventory db)\<rparr>" "set (map2 (newClaim ?opts) dates ?ids)"])
      (use newClaims_on [OF dates, of ?ids ?opts] in \<open>auto simp: db' putInventory_def\<close>)
qed

lemma releaseOrderClaims_Inr:
  assumes inv: "inventoryInv (lb_inventory db)"
  obtains ids store where "releaseOrderClaims segs db = Inr (ids, db\<lparr>lb_inventory := store\<rparr>)" "inventoryInv store"
    "activeClaims store = {c \<in> activeClaims (lb_inventory db). \<not> inSources ORDER_SEGMENT segs c}"
  using release_inv [OF inv, of ORDER_SEGMENT segs None] by (auto simp: releaseOrderClaims_def truthyId_def intro: that)

lemma releaseNights_Inr:
  assumes inv: "inventoryInv (lb_inventory db)"
  obtains ids store where "releaseNights segs dates db = Inr (ids, db\<lparr>lb_inventory := store\<rparr>)" "inventoryInv store"
    "activeClaims store = {c \<in> activeClaims (lb_inventory db). \<not> (inSources ORDER_SEGMENT segs c \<and> c_serviceDate c \<in> set dates)}"
  using releaseOnDates_inv [OF inv, of ORDER_SEGMENT segs dates] by (auto simp: releaseNights_def intro: that)

section \<open>Revisions and the channel ledger\<close>

lemma channelNet_cong:
  "lb_channel db' = lb_channel db @ fs \<Longrightarrow> lb_openings db' = lb_openings db \<Longrightarrow>
    channelNet db' p i = channelNet db p i + sum_list (map ch_amount_minor (filter (\<lambda>f. ch_property_id f = p \<and> ch_order_id f = i) fs))"
  by (simp add: channelNet_def channelFacts_def openingMinor_def sum_list_sortBy)

interpretation latest_first: comparator "\<lambda>a b. rv_revision_no b \<le> rv_revision_no a"
  by unfold_locales auto

lemma numbered_simps [simp]: "numbered []" "numbered (rs @ [r]) \<longleftrightarrow> numbered rs \<and> rv_revision_no r = int (length rs) + 1"
proof -
  have "[1..int (length rs) + 1] = [1..int (length rs)] @ [int (length rs) + 1]"
    using upto_rec2 [of 1 "int (length rs) + 1"] by simp
  then show "numbered (rs @ [r]) \<longleftrightarrow> numbered rs \<and> rv_revision_no r = int (length rs) + 1" by (simp add: numbered_def add.commute)
qed (simp add: numbered_def)

lemma numbered_bounds: "numbered rs \<Longrightarrow> r \<in> set rs \<Longrightarrow> rv_revision_no r \<le> int (length rs)"
proof (induction rs rule: rev_induct)
  case (snoc x rs)
  then show ?case by fastforce
qed simp

text \<open>The contract amount before a revision is that of the one before it.\<close>

definition priorMinor :: "revision_record list \<Rightarrow> int" where
  "priorMinor rs = (if rs = [] then 0 else contractMinor (last rs))"

lemma priorContract_last:
  assumes "numbered (revisionsOf db i)" "lb_revisions db' = lb_revisions db @ [r]" "rv_revision_no r = int (length (revisionsOf db i)) + 1"
  shows "priorContract db' i (rv_revision_no r) = priorMinor (revisionsOf db i)"
proof -
  let ?rs = "revisionsOf db i"
  have "olderRevisions db' i (rv_revision_no r) = sortBy (\<lambda>a b. rv_revision_no b \<le> rv_revision_no a) ?rs"
  proof -
    have "filter (\<lambda>x. rv_order_id x = i \<and> rv_revision_no x < rv_revision_no r) (lb_revisions db) = ?rs"
      unfolding revisionsOf_def
      by (rule filter_cong) (use numbered_bounds [OF assms(1)] assms(3) in \<open>force simp: revisionsOf_def\<close>)+
    then show ?thesis by (simp add: olderRevisions_def assms(2))
  qed
  moreover have "hd (sortBy (\<lambda>a b. rv_revision_no b \<le> rv_revision_no a) ?rs) = last ?rs" if ne: "?rs \<noteq> []"
  proof -
    from ne obtain xs x where rs: "?rs = xs @ [x]" by (metis append_butlast_last_id)
    let ?s = "sortBy (\<lambda>a b. rv_revision_no b \<le> rv_revision_no a) ?rs"
    have s: "hd ?s \<in> set ?rs" using ne by (metis sortBy_eq_Nil list.set_sel(1) set_sortBy)
    have n: "rv_revision_no x = int (length xs) + 1" "numbered xs" using assms(1) by (simp_all add: rs)
    have "rv_revision_no x \<le> rv_revision_no (hd ?s)" by (rule latest_first.hd_sortBy_least) (simp add: rs)
    then have "hd ?s \<notin> set xs" using numbered_bounds [OF n(2)] n(1) by fastforce
    then show ?thesis using s by (auto simp: rs)
  qed
  ultimately show ?thesis
    by (cases "sortBy (\<lambda>a b. rv_revision_no b \<le> rv_revision_no a) ?rs") (auto simp: priorContract_def priorMinor_def)
qed

definition newRevision :: "transaction \<Rightarrow> string \<Rightarrow> int \<Rightarrow> string \<Rightarrow> string \<Rightarrow> string \<Rightarrow> string \<Rightarrow> pricing_snapshot \<Rightarrow> revision_record" where
  "newRevision tx orderId revisionNo amendmentId policyVersionId arrivalDate departureDate pricing =
     \<lparr>rv_id = tx_revisionId tx, rv_order_id = orderId, rv_revision_no = revisionNo, rv_amendment_id = amendmentId,
      rv_policy_version_id = policyVersionId, rv_arrival_date = arrivalDate, rv_departure_date = departureDate, rv_pricing = pricing,
      rv_created_at = tx_now tx\<rparr>"

lemma newRevision_sel [simp]:
  "rv_id (newRevision tx i n a v ad dd ps) = tx_revisionId tx" "rv_order_id (newRevision tx i n a v ad dd ps) = i"
  "rv_revision_no (newRevision tx i n a v ad dd ps) = n" "contractMinor (newRevision tx i n a v ad dd ps) = ps_currentContractAmountMinor ps"
  "rv_amendment_id (newRevision tx i n a v ad dd ps) = a"
  by (simp_all add: newRevision_def contractMinor_def)

text \<open>The recognised amount keeps covering the contract amount.\<close>

lemma recognisedDelta_covers:
  assumes "recognisedDelta ty no prior net goal = Inr delta"
    and "prior \<le> net \<and> (no = 1 \<or> ty \<in> set (''REPRICE_ORDER'' # dateChangeCommands)) \<or> 0 \<le> goal \<and> goal \<le> net"
  shows "0 \<le> goal \<and> goal \<le> net + delta"
  using assms
  by (auto simp: recognisedDelta_def channelRecognitionDelta_def Let_def split: if_splits)

lemma recordChannelRevision_Inr:
  assumes rec: "recordChannelRevision localDay factId (rv_id r) db = Inr db'" and keys: "keysOk db"
    and r: "r \<in> set (lb_revisions db)" and ord: "ord \<in> set (lb_orders db)" "lo_id ord = rv_order_id r"
    and am: "a \<in> set (lb_amendments db)" "am_id a = rv_amendment_id r" and ok: "channelOrderOk ord"
    and goal: "\<not> channelStay db ord
       \<or> priorContract db (rv_order_id r) (rv_revision_no r) \<le> channelNet db (lo_property_id ord) (rv_order_id r)
         \<and> (rv_revision_no r = 1 \<or> am_amendment_type a \<in> set (''REPRICE_ORDER'' # dateChangeCommands))
       \<or> 0 \<le> contractMinor r \<and> contractMinor r \<le> channelNet db (lo_property_id ord) (rv_order_id r)"
  obtains fs where "db' = db\<lparr>lb_channel := lb_channel db @ fs\<rparr>" "\<forall>f\<in>set fs. ch_order_id f = rv_order_id r \<and> ch_property_id f = lo_property_id ord"
    "channelStay db ord \<longrightarrow> 0 \<le> contractMinor r \<and> contractMinor r \<le> channelNet db (lo_property_id ord) (rv_order_id r) + sum_list (map ch_amount_minor fs)"
    "\<forall>f\<in>set fs. ch_kind f = SALE \<or> ch_kind f = CORRECTION"
proof -
  have fr: "find (\<lambda>x. rv_id x = rv_id r) (lb_revisions db) = Some r" using find_key [OF keysOkD(5) [OF keys] r] by simp
  have fo: "orderById db (rv_order_id r) = Some ord" using orderById_iff [OF keys] ord by simp
  have fa: "amendmentOf db r = Some a" unfolding amendmentOf_def using find_key [OF keysOkD(7) [OF keys] am(1)] am(2) by simp
  show thesis
  proof (cases "channelStay db ord")
    case False
    then have "channelRevision db (rv_id r) = None" by (auto simp: channelRevision_def fr fo fa channelStay_def)
    then have "db' = db" using rec by (simp add: recordChannelRevision_def)
    then show thesis using False by (intro that [of "[]"]) auto
  next
    case True
    then have "channelRevision db (rv_id r) = Some (r, ord, a)" using ok
      by (auto simp: channelRevision_def fr fo fa channelStay_def channelOrderOk_def isMember_def)
    note cr = this
    from rec obtain s0 where s0: "channelOperatingSummary db (lo_property_id ord) (rv_order_id r) = Inr s0" "s0 \<noteq> None"
      unfolding recordChannelRevision_def cr option.case prod.case Let_def bindR_eq_Inr by (cases rule: option.exhaust) fastforce+
    then obtain summary where su: "channelOperatingSummary db (lo_property_id ord) (rv_order_id r) = Inr (Some summary)" by auto
    from rec obtain delta where de: "recognisedDelta (am_amendment_type a) (rv_revision_no r) (priorContract db (rv_order_id r) (rv_revision_no r))
        (cm_netMinor summary) (contractMinor r) = Inr delta"
      and d: "(if delta = 0 then Inr db
          else if cm_netMinor summary + delta < 0 then validation_error
          else
            bindR (if am_amendment_type a = ''REPRICE_ORDER'' then channelCorrectionDate localDay db (rv_order_id r) (Some (rv_id r))
                   else Inr (localDay (rv_created_at r))) (\<lambda>date.
            Inr (db\<lparr>lb_channel := lb_channel db @ [\<lparr>ch_id = factId, ch_property_id = lo_property_id ord, ch_order_id = rv_order_id r,
                ch_kind = (if am_amendment_type a = ''REPRICE_ORDER'' then CORRECTION else SALE), ch_amount_minor = delta, ch_contract_effect_minor = 0,
                ch_currency = ps_currency (rv_pricing r), ch_business_date = date, ch_pricing_revision_id = Some (rv_id r),
                ch_references_fact_id = None, ch_refund_reference = None, ch_command_id = am_command_id a, ch_note = [],
                ch_created_at = rv_created_at r\<rparr>]\<rparr>))) = Inr db'"
      unfolding recordChannelRevision_def cr option.case prod.case Let_def su bindR_simps bindR_eq_Inr by blast
    have db': "delta = 0 \<and> db' = db \<or> (\<exists>f. db' = db\<lparr>lb_channel := lb_channel db @ [f]\<rparr> \<and> ch_order_id f = rv_order_id r
        \<and> ch_property_id f = lo_property_id ord \<and> ch_amount_minor f = delta \<and> (ch_kind f = SALE \<or> ch_kind f = CORRECTION))"
    proof (cases "delta = 0")
      case False
      with d obtain date where "db' = db\<lparr>lb_channel := lb_channel db @ [\<lparr>ch_id = factId, ch_property_id = lo_property_id ord, ch_order_id = rv_order_id r,
                ch_kind = (if am_amendment_type a = ''REPRICE_ORDER'' then CORRECTION else SALE), ch_amount_minor = delta, ch_contract_effect_minor = 0,
                ch_currency = ps_currency (rv_pricing r), ch_business_date = date, ch_pricing_revision_id = Some (rv_id r),
                ch_references_fact_id = None, ch_refund_reference = None, ch_command_id = am_command_id a, ch_note = [],
                ch_created_at = rv_created_at r\<rparr>]\<rparr>" unfolding bindR_eq_Inr by (auto split: if_splits)
      then show ?thesis by - (rule disjI2, intro exI conjI, assumption, simp_all)
    qed (use d in simp)
    have "cm_netMinor summary = channelNet db (lo_property_id ord) (rv_order_id r)"
      using su by (auto simp: channelOperatingSummary_def Let_def split: option.splits if_splits)
    with de goal True have c: "0 \<le> contractMinor r \<and> contractMinor r \<le> channelNet db (lo_property_id ord) (rv_order_id r) + delta"
      using recognisedDelta_covers by (metis (no_types, lifting))
    show thesis
    proof (cases "delta = 0 \<and> db' = db")
      case True
      then show thesis using c by (intro that [of "[]"]) auto
    next
      case False
      with db' obtain f where "db' = db\<lparr>lb_channel := lb_channel db @ [f]\<rparr>" "ch_order_id f = rv_order_id r" "ch_property_id f = lo_property_id ord"
        "ch_amount_minor f = delta" "ch_kind f = SALE \<or> ch_kind f = CORRECTION" by blast
      then show thesis using c by (intro that [of "[f]"]) auto
    qed
  qed
qed

lemma insertRevision_Inr:
  assumes ins: "insertRevision tx i no am v ad dd ps db = Inr db'" and keys: "keysOk db"
    and rid: "tx_revisionId tx \<noteq> []" "tx_revisionId tx \<notin> rv_id ` set (lb_revisions db)"
    and ord: "ord \<in> set (lb_orders db)" "lo_id ord = i" and am: "a \<in> set (lb_amendments db)" "am_id a = am" and ok: "channelOrderOk ord"
    and no: "numbered (revisionsOf db i)" "no = int (length (revisionsOf db i)) + 1"
    and goal: "\<not> channelStay db ord
       \<or> priorMinor (revisionsOf db i) \<le> channelNet db (lo_property_id ord) i
         \<and> (no = 1 \<or> am_amendment_type a \<in> set (''REPRICE_ORDER'' # dateChangeCommands))
       \<or> 0 \<le> ps_currentContractAmountMinor ps \<and> ps_currentContractAmountMinor ps \<le> channelNet db (lo_property_id ord) i"
  obtains fs where "db' = db\<lparr>lb_revisions := lb_revisions db @ [newRevision tx i no am v ad dd ps], lb_channel := lb_channel db @ fs\<rparr>"
    "\<forall>f\<in>set fs. ch_order_id f = i \<and> ch_property_id f = lo_property_id ord" "ledgerOk fs"
    "channelStay db ord \<longrightarrow> 0 \<le> ps_currentContractAmountMinor ps
       \<and> ps_currentContractAmountMinor ps \<le> channelNet db (lo_property_id ord) i + sum_list (map ch_amount_minor fs)"
proof -
  let ?r = "newRevision tx i no am v ad dd ps"
  let ?db1 = "db\<lparr>lb_revisions := lb_revisions db @ [?r]\<rparr>"
  have keys1: "keysOk ?db1" using keys rid by (auto simp: keysOk_def)
  have net: "channelNet ?db1 p j = channelNet db p j" for p j using channelNet_cong [of ?db1 db "[]"] by simp
  have stay: "channelStay ?db1 ord = channelStay db ord" by (simp add: channelStay_def)
  have pc: "priorContract ?db1 i no = priorMinor (revisionsOf db i)" using priorContract_last [of db i ?db1 ?r] no by simp
  have "recordChannelRevision (tx_localDay tx) (tx_channelFactId tx) (rv_id ?r) ?db1 = Inr db'"
    using ins by (simp add: insertRevision_def newRevision_def)
  from recordChannelRevision_Inr [OF this keys1 _ _ _ _ _ ok, of a] ord am pc goal
  obtain fs where fs: "db' = ?db1\<lparr>lb_channel := lb_channel ?db1 @ fs\<rparr>" "\<forall>f\<in>set fs. ch_order_id f = i \<and> ch_property_id f = lo_property_id ord"
    "channelStay db ord \<longrightarrow> 0 \<le> ps_currentContractAmountMinor ps
       \<and> ps_currentContractAmountMinor ps \<le> channelNet db (lo_property_id ord) i + sum_list (map ch_amount_minor fs)"
    "\<forall>f\<in>set fs. ch_kind f = SALE \<or> ch_kind f = CORRECTION" by (auto simp: stay net)
  then show thesis by (intro that [of fs]) (auto simp: ledgerOk_def)
qed

section \<open>A command on one order\<close>

text \<open>The claims of an order, as a property of a claim.\<close>

definition ownClaim :: "lodging_db \<Rightarrow> string \<Rightarrow> claim_row \<Rightarrow> bool" where
  "ownClaim db orderId c \<longleftrightarrow> c_sourceType c = ORDER_SEGMENT \<and> c_sourceId c \<in> segmentsOf db orderId"

lemma stayClaims_own: "stayClaims db i = {c \<in> activeClaims (lb_inventory db). ownClaim db i c}"
  by (auto simp: stayClaims_def ownClaim_def)

text \<open>An order that a command does not concern.\<close>

lemma other_order:
  assumes ok: "orderOk db w" and ne: "lo_id w \<noteq> i"
    and const: "lb_properties db' = lb_properties db" "lb_openings db' = lb_openings db"
    and stays: "{y \<in> set (lb_stays db'). sy_order_id y \<noteq> i} = {y \<in> set (lb_stays db). sy_order_id y \<noteq> i}"
    and segs: "segmentsOf db' (lo_id w) = segmentsOf db (lo_id w)" and revs: "revisionsOf db' (lo_id w) = revisionsOf db (lo_id w)"
    and ams: "amendmentsOf db' (lo_id w) = amendmentsOf db (lo_id w)"
    and chan: "lb_channel db' = lb_channel db @ fs" "\<forall>f\<in>set fs. ch_order_id f = i"
    and claims: "stayClaims db' (lo_id w) = stayClaims db (lo_id w)" and held: "heldItems (lb_nights db') (lo_id w) \<subseteq> heldItems (lb_nights db) (lo_id w)"
  shows "orderOk db' w"
proof -
  have "filter (\<lambda>f. ch_property_id f = p \<and> ch_order_id f = lo_id w) fs = []" for p using chan(2) ne by (auto simp: filter_empty_conv)
  then have "channelNet db' p (lo_id w) = channelNet db p (lo_id w)" for p using channelNet_cong [OF chan(1) const(2)] by simp
  then have "revisionsOk db' w" using orderOkD(2) [OF ok] by (simp add: revisionsOk_def Let_def channelStay_def const revs)
  moreover have "stayOk db' w" using orderOkD(1) [OF ok] stays ne segs by (fastforce simp: stayOk_def)
  moreover have "amendmentsOk db' w" using orderOkD(3) [OF ok] by (simp add: amendmentsOk_def ams)
  moreover have "resourcesOk db' w" using orderOkD(4) [OF ok] held by (auto simp: resourcesOk_def nightsHeld_def claims split: if_splits)
  ultimately show ?thesis using orderOkD(5) [OF ok] by (simp add: orderOk_def)
qed

lemma segmentsOf_append:
  assumes keys: "keysOk db" and y: "y \<in> set (lb_stays db)" and segs: "\<forall>s\<in>set segs. ss_stay_id s = sy_id y"
    and db': "lb_segments db' = lb_segments db @ segs" "lb_stays db' = updateWhere (\<lambda>s. sy_id s = sy_id y) (\<lambda>s. s\<lparr>sy_status := st\<rparr>) (lb_stays db)"
  shows "segmentsOf db' j = segmentsOf db j \<union> (if j = sy_order_id y then ss_id ` set segs else {})"
proof -
  have "(\<exists>z\<in>set (lb_stays db'). sy_id z = k \<and> sy_order_id z = j) \<longleftrightarrow> (\<exists>z\<in>set (lb_stays db). sy_id z = k \<and> sy_order_id z = j)" for k
    unfolding db' bex_updateWhere by (rule bex_cong) auto
  then have "segmentsOf db' j = {ss_id s |s. s \<in> set (lb_segments db @ segs) \<and> (\<exists>z\<in>set (lb_stays db). sy_id z = ss_stay_id s \<and> sy_order_id z = j)}"
    unfolding segmentsOf_def db'(1) by (metis (mono_tags, lifting))
  moreover have "(\<exists>z\<in>set (lb_stays db). sy_id z = ss_stay_id s \<and> sy_order_id z = j) \<longleftrightarrow> sy_order_id y = j" if "s \<in> set segs" for s
    using segs that y distinct_key_eq [OF keysOkD(2) [OF keys]] by metis
  ultimately show ?thesis unfolding segmentsOf_def by (auto; metis)
qed

lemma distinct_keys_append:
  "distinct (map k xs) \<Longrightarrow> distinct (map k ys) \<Longrightarrow> (\<And>z. z \<in> set ys \<Longrightarrow> k z \<notin> k ` set xs) \<Longrightarrow> distinct (map k (xs @ ys))"
  by (auto simp: image_iff) metis

text \<open>
  The tables after a command on an order with the stay y: the row changed by f, the status of the stay, new rows of the order in the
  other tables, and inventory and nights in which only the order's own claims and held nights changed.
\<close>

lemma command_inv:
  assumes inv: "lodgingInv db" and ord: "ord \<in> set (lb_orders db)" and y: "y \<in> set (lb_stays db)" "sy_order_id y = lo_id ord"
    and orders: "lb_orders db' = updateWhere (\<lambda>r. lo_id r = lo_id ord) f (lb_orders db)"
    and f: "lo_id (f ord) = lo_id ord" "lo_property_id (f ord) = lo_property_id ord" "lo_booking_channel_code (f ord) = lo_booking_channel_code ord"
      "lo_stay_type (f ord) = lo_stay_type ord" "lo_member_id (f ord) = lo_member_id ord" "lo_member_contract_id (f ord) = lo_member_contract_id ord"
    and stays: "lb_stays db' = updateWhere (\<lambda>s. sy_id s = sy_id y) (\<lambda>s. s\<lparr>sy_status := stayStateOf (lo_status (f ord))\<rparr>) (lb_stays db)"
    and segs: "lb_segments db' = lb_segments db @ segs" "\<forall>s\<in>set segs. ss_stay_id s = sy_id y" "distinct (map ss_id segs)"
      "\<forall>s\<in>set segs. ss_id s \<notin> ss_id ` set (lb_segments db) \<and> ss_id s \<notin> c_sourceId ` activeClaims (lb_inventory db)"
    and ams: "lb_amendments db' = lb_amendments db @ ams" "map am_sequence ams = [lo_version ord + 1..lo_version (f ord)]" "distinct (map am_id ams)"
      "\<forall>a\<in>set ams. am_order_id a = lo_id ord \<and> am_id a \<notin> am_id ` set (lb_amendments db) \<and> am_new_version a = am_sequence a \<and> am_prior_version a + 1 = am_new_version a"
      "lo_version ord \<le> lo_version (f ord)"
    and revs: "lb_revisions db' = lb_revisions db @ rs" "numbered (revisionsOf db (lo_id ord) @ rs)" "distinct (map rv_id rs)"
      "\<forall>r\<in>set rs. rv_order_id r = lo_id ord \<and> rv_id r \<noteq> [] \<and> rv_id r \<notin> rv_id ` set (lb_revisions db)"
      "lo_current_revision_id (f ord) = Some (rv_id (last (revisionsOf db (lo_id ord) @ rs)))"
    and chan: "lb_channel db' = lb_channel db @ fs" "\<forall>x\<in>set fs. ch_order_id x = lo_id ord \<and> ch_property_id x = lo_property_id ord" "ledgerOk fs"
      "channelStay db ord \<longrightarrow> 0 \<le> contractMinor (last (revisionsOf db (lo_id ord) @ rs))
        \<and> contractMinor (last (revisionsOf db (lo_id ord) @ rs)) \<le> channelNet db (lo_property_id ord) (lo_id ord) + sum_list (map ch_amount_minor fs)"
    and const: "lb_properties db' = lb_properties db" "lb_openings db' = lb_openings db"
    and store: "inventoryInv (lb_inventory db')"
      "\<And>c. \<not> ownClaim db' (lo_id ord) c \<Longrightarrow> c \<in> activeClaims (lb_inventory db') \<longleftrightarrow> c \<in> activeClaims (lb_inventory db)"
    and nights: "entInv (lb_nights db')" "heldFrame (lo_id ord) (lb_nights db) (lb_nights db')"
    and res: "resourcesOk db' (f ord)"
  shows "lodgingInv db'"
proof -
  note keys = lodgingInvD(3) [OF inv] and ok = lodgingInvD(4) [OF inv ord]
  let ?i = "lo_id ord"
  note segsOf = segmentsOf_append [OF keys y(1) segs(2,1) stays]
  have cases: "w = f ord \<or> w \<in> set (lb_orders db) \<and> lo_id w \<noteq> ?i" if "w \<in> set (lb_orders db')" for w
    using that ord distinct_key_eq [OF keysOkD(1) [OF keys]] by (auto simp: orders set_updateWhere split: if_splits)
  have "map lo_id (lb_orders db') = map lo_id (lb_orders db)"
    using ord distinct_key_eq [OF keysOkD(1) [OF keys]] f(1) by (auto simp: orders updateWhere_def)
  moreover have "map sy_id (lb_stays db') = map sy_id (lb_stays db)" "map sy_order_id (lb_stays db') = map sy_order_id (lb_stays db)"
    by (simp_all add: stays map_updateWhere)
  moreover have "distinct (map ss_id (lb_segments db'))" "distinct (map am_id (lb_amendments db'))" "distinct (map rv_id (lb_revisions db'))"
    unfolding segs(1) ams(1) revs(1) using keysOkD(4,5,7) [OF keys] segs(3,4) ams(3,4) revs(3,4) by (blast intro: distinct_keys_append)+
  moreover have "[] \<notin> rv_id ` set (lb_revisions db')" using keysOkD(6) [OF keys] revs(4) by (auto simp: revs(1))
  ultimately have keys': "keysOk db'" using keys by (simp add: keysOk_def)
  have other: "orderOk db' w" if w: "w \<in> set (lb_orders db)" "lo_id w \<noteq> ?i" for w
  proof (rule other_order [OF lodgingInvD(4) [OF inv w(1)] w(2) const _ _ _ _ chan(1)])
    show "{z \<in> set (lb_stays db'). sy_order_id z \<noteq> ?i} = {z \<in> set (lb_stays db). sy_order_id z \<noteq> ?i}"
      using y distinct_key_eq [OF keysOkD(2) [OF keys]] by (auto simp: stays set_updateWhere split: if_splits) metis+
    show s: "segmentsOf db' (lo_id w) = segmentsOf db (lo_id w)" using w(2) by (simp add: segsOf y(2))
    show "revisionsOf db' (lo_id w) = revisionsOf db (lo_id w)" "amendmentsOf db' (lo_id w) = amendmentsOf db (lo_id w)"
      using revs(4) ams(4) w(2) by (auto simp: revisionsOf_def amendmentsOf_def revs(1) ams(1) filter_empty_conv)
    show "\<forall>x\<in>set fs. ch_order_id x = ?i" using chan(2) by blast
    have "\<not> ownClaim db' ?i c" if "ownClaim db' (lo_id w) c" for c
      using that segmentsOf_disjoint [OF keys'] w(2) by (auto simp: ownClaim_def)
    then show "stayClaims db' (lo_id w) = stayClaims db (lo_id w)" using store(2) s by (auto simp: stayClaims_own ownClaim_def)
    show "heldItems (lb_nights db') (lo_id w) \<subseteq> heldItems (lb_nights db) (lo_id w)" using heldFrame_items [OF nights(2) w(2)] .
  qed
  have "orderOk db' (f ord)"
  proof -
    have "y\<lparr>sy_status := stayStateOf (lo_status (f ord))\<rparr> \<in> set (lb_stays db')" using y(1) by (auto simp: stays set_updateWhere)
    then have "\<exists>z\<in>set (lb_stays db'). sy_order_id z = ?i \<and> sy_status z = stayStateOf (lo_status (f ord))" by (rule bexI [rotated]) (simp add: y(2))
    then have "stayOk db' (f ord)" using orderOkD(1) [OF ok] by (simp add: stayOk_def f segsOf)
    moreover have "revisionsOf db' ?i = revisionsOf db ?i @ rs" using revs(4) by (simp add: revisionsOf_def revs(1))
    moreover have "channelNet db' p ?i = channelNet db p ?i + sum_list (map ch_amount_minor fs)" if "p = lo_property_id ord" for p
    proof -
      have "filter (\<lambda>x. ch_property_id x = p \<and> ch_order_id x = ?i) fs = fs" using chan(2) that by simp
      then show ?thesis using channelNet_cong [OF chan(1) const(2)] by simp
    qed
    ultimately have "revisionsOk db' (f ord)" using orderOkD(2) [OF ok] revs(2,5) chan(4)
      by (simp add: revisionsOk_def Let_def f channelStay_def const)
    moreover have "amendmentsOf db' ?i = amendmentsOf db ?i @ ams" using ams(4) by (simp add: amendmentsOf_def ams(1))
    then have "amendmentsOk db' (f ord)" using orderOkD(3) [OF ok] ams(2,4,5) upto_split2 [of 1 "lo_version ord" "lo_version (f ord)"]
      by (auto simp: amendmentsOk_def f)
    moreover have "channelOrderOk (f ord)" using orderOkD(5) [OF ok] by (simp add: channelOrderOk_def f isMember_def)
    ultimately show ?thesis using \<open>stayOk db' (f ord)\<close> res by (simp add: orderOk_def)
  qed
  with cases other have "\<forall>w\<in>set (lb_orders db'). orderOk db' w" by blast
  moreover have "sourcesOk db'"
    unfolding sourcesOk_def
  proof (intro ballI impI)
    fix c assume c: "c \<in> activeClaims (lb_inventory db')" "c_sourceType c \<noteq> ORDER_SEGMENT"
    then have "c \<in> activeClaims (lb_inventory db)" using store(2) by (simp add: ownClaim_def)
    then have "c_sourceId c \<notin> ss_id ` set (lb_segments db)" "c_sourceId c \<in> c_sourceId ` activeClaims (lb_inventory db)"
      using lodgingInvD(6) [OF inv] c(2) by (auto simp: sourcesOk_def)
    then show "c_sourceId c \<notin> ss_id ` set (lb_segments db')" using segs(4) by (fastforce simp: segs(1))
  qed
  moreover have "ledgerOk (lb_channel db')" using lodgingInvD(5) [OF inv] chan(3) by (auto simp: ledgerOk_def chan(1))
  ultimately show ?thesis using store(1) nights(1) keys' by (simp add: lodgingInv_def)
qed

end
