(* ===== verification/LodgingSafety.thy ===== *)
theory LodgingSafety
  imports LodgingFrames
begin

text \<open>
  Every command on stays keeps the invariant of the tables, and what follows for every state they reach.
\<close>

section \<open>Drawn identifiers\<close>

definition freshTx :: "transaction \<Rightarrow> lodging_db \<Rightarrow> bool" where
  "freshTx tx db \<longleftrightarrow>
     tx_revisionId tx \<noteq> [] \<and> tx_revisionId tx \<notin> rv_id ` set (lb_revisions db)
     \<and> distinct [tx_amendmentId tx, tx_secondAmendmentId tx, tx_thirdAmendmentId tx]
     \<and> {tx_amendmentId tx, tx_secondAmendmentId tx, tx_thirdAmendmentId tx} \<inter> am_id ` set (lb_amendments db) = {}
     \<and> tx_segmentId tx \<notin> ss_id ` set (lb_segments db) \<and> tx_segmentId tx \<notin> c_sourceId ` set (t_claims (lb_inventory db))
     \<and> (\<forall>u d. tx_claimIds tx u d \<noteq> []) \<and> freshItems (tx_entitlement tx) (lb_nights db)
     \<and> tx_orderId tx \<notin> lo_id ` set (lb_orders db) \<union> sy_order_id ` set (lb_stays db) \<union> rv_order_id ` set (lb_revisions db)
         \<union> am_order_id ` set (lb_amendments db) \<union> ch_order_id ` set (lb_channel db) \<union> cv_order_id ` set (en_coverage (lb_nights db))
         \<union> so_source_id ` set (lb_openings db)
     \<and> tx_stayId tx \<notin> sy_id ` set (lb_stays db) \<union> ss_stay_id ` set (lb_segments db)"

lemma freshTxD:
  assumes "freshTx tx db"
  shows "tx_revisionId tx \<noteq> []" "tx_revisionId tx \<notin> rv_id ` set (lb_revisions db)"
    "tx_amendmentId tx \<notin> am_id ` set (lb_amendments db)" "tx_secondAmendmentId tx \<notin> am_id ` set (lb_amendments db)"
    "tx_thirdAmendmentId tx \<notin> am_id ` set (lb_amendments db)"
    "distinct [tx_amendmentId tx, tx_secondAmendmentId tx, tx_thirdAmendmentId tx]"
    "tx_segmentId tx \<notin> ss_id ` set (lb_segments db)" "tx_segmentId tx \<notin> c_sourceId ` activeClaims (lb_inventory db)"
    "\<forall>d. tx_claimIds tx u d \<noteq> []" "freshItems (tx_entitlement tx) (lb_nights db)"
  using assms by (auto simp: freshTx_def activeClaims_def)

section \<open>Amendments and revisions of a command\<close>

definition newAmendment :: "string \<Rightarrow> string \<Rightarrow> int \<Rightarrow> string \<Rightarrow> amendment_reason \<Rightarrow> int \<Rightarrow> string \<Rightarrow> amendment_record" where
  "newAmendment amendmentId orderId sequence amendmentType reason priorVersion commandId =
     \<lparr>am_id = amendmentId, am_order_id = orderId, am_sequence = sequence, am_amendment_type = amendmentType,
      am_reason_code = cr_code reason, am_reason_note = cr_note reason, am_prior_version = priorVersion,
      am_new_version = priorVersion + 1, am_command_id = commandId\<rparr>"

lemma newAmendment_sel [simp]:
  "am_id (newAmendment a i s ty rs pv cm) = a" "am_order_id (newAmendment a i s ty rs pv cm) = i" "am_sequence (newAmendment a i s ty rs pv cm) = s"
  "am_amendment_type (newAmendment a i s ty rs pv cm) = ty" "am_prior_version (newAmendment a i s ty rs pv cm) = pv"
  "am_new_version (newAmendment a i s ty rs pv cm) = pv + 1"
  by (simp_all add: newAmendment_def)

lemma appendAmendment_new:
  "appendAmendment a i s ty rs pv cm db = db\<lparr>lb_amendments := lb_amendments db @ [newAmendment a i s ty rs pv cm]\<rparr>"
  by (simp add: appendAmendment_def newAmendment_def)

lemma ledgerOk_simps [simp]: "ledgerOk []" "ledgerOk (fs @ gs) \<longleftrightarrow> ledgerOk fs \<and> ledgerOk gs"
  by (auto simp: ledgerOk_def)

lemma numbered_last: "numbered rs \<Longrightarrow> rs \<noteq> [] \<Longrightarrow> rv_revision_no (last rs) = int (length rs)"
  by (cases rs rule: rev_cases) auto

text \<open>
  The revision that a command writes on the tables db1, which differ from db by an amendment, a segment and facts of the
  channel ledger.
\<close>

lemma commandRevision:
  assumes inv: "lodgingInv db" and ctx: "loadOrderContext db i = Inr ctx" and fresh: "freshTx tx db"
    and ins: "insertRevision tx i (rv_revision_no (oc_revision ctx) + 1) (tx_amendmentId tx) v ad dd ps db1 = Inr db'"
    and keys: "keysOk db1" and same: "lb_orders db1 = lb_orders db" "lb_revisions db1 = lb_revisions db" "lb_channel db1 = lb_channel db @ gs"
      "lb_openings db1 = lb_openings db" "lb_properties db1 = lb_properties db"
    and gs: "\<forall>f\<in>set gs. ch_order_id f = i \<and> ch_property_id f = lo_property_id (oc_order ctx)" "ledgerOk gs"
    and a: "a \<in> set (lb_amendments db1)" "am_id a = tx_amendmentId tx"
    and goal: "\<not> channelStay db (oc_order ctx) \<or> gs = [] \<and> am_amendment_type a \<in> set (''REPRICE_ORDER'' # dateChangeCommands)
       \<or> 0 \<le> ps_currentContractAmountMinor ps
         \<and> ps_currentContractAmountMinor ps \<le> channelNet db (lo_property_id (oc_order ctx)) i + sum_list (map ch_amount_minor gs)"
  obtains r fs where "db' = db1\<lparr>lb_revisions := lb_revisions db @ [r], lb_channel := lb_channel db @ fs\<rparr>"
    "r = newRevision tx i (rv_revision_no (oc_revision ctx) + 1) (tx_amendmentId tx) v ad dd ps" "numbered (revisionsOf db i @ [r])"
    "\<forall>f\<in>set fs. ch_order_id f = i \<and> ch_property_id f = lo_property_id (oc_order ctx)" "ledgerOk fs"
    "channelStay db (oc_order ctx) \<longrightarrow> 0 \<le> contractMinor r
       \<and> contractMinor r \<le> channelNet db (lo_property_id (oc_order ctx)) i + sum_list (map ch_amount_minor fs)"
proof -
  let ?p = "lo_property_id (oc_order ctx)" and ?no = "rv_revision_no (oc_revision ctx) + 1"
  note c = loaded_context [OF inv ctx]
  note ok = lodgingInvD(4) [OF inv c(1)]
  have rs: "revisionsOf db1 i = revisionsOf db i" and stay: "channelStay db1 (oc_order ctx) = channelStay db (oc_order ctx)"
    by (simp_all add: revisionsOf_def channelStay_def same)
  have "filter (\<lambda>f. ch_property_id f = ?p \<and> ch_order_id f = i) gs = gs" using gs(1) by simp
  then have net: "channelNet db1 ?p i = channelNet db ?p i + sum_list (map ch_amount_minor gs)"
    using channelNet_cong [OF same(3,4), of ?p i] by simp
  have n: "revisionsOf db i \<noteq> []" "numbered (revisionsOf db i)"
    and p: "channelStay db (oc_order ctx) \<Longrightarrow> priorMinor (revisionsOf db i) \<le> channelNet db ?p i"
    using orderOkD(2) [OF ok] by (simp_all add: revisionsOk_def Let_def c(2) priorMinor_def)
  have no: "?no = int (length (revisionsOf db i)) + 1" using numbered_last [OF n(2,1)] c(6) by simp
  obtain fs where "db' = db1\<lparr>lb_revisions := lb_revisions db1 @ [newRevision tx i ?no (tx_amendmentId tx) v ad dd ps], lb_channel := lb_channel db1 @ fs\<rparr>"
    "\<forall>f\<in>set fs. ch_order_id f = i \<and> ch_property_id f = ?p" "ledgerOk fs"
    "channelStay db1 (oc_order ctx) \<longrightarrow> 0 \<le> ps_currentContractAmountMinor ps
       \<and> ps_currentContractAmountMinor ps \<le> channelNet db1 ?p i + sum_list (map ch_amount_minor fs)"
    by (rule insertRevision_Inr [OF ins keys _ _ _ _ a orderOkD(5) [OF ok]])
      (use freshTxD(1,2) [OF fresh] c(1,2) n(2) no p goal in \<open>auto simp: same rs net stay\<close>)
  then show thesis using gs
    by (intro that [of "gs @ fs" "newRevision tx i ?no (tx_amendmentId tx) v ad dd ps"])
      (auto simp: same net stay n(2) no ledgerOk_def add.assoc)
qed

section \<open>Commands on the state of a stay\<close>

definition arrivalCommand :: "status_command \<Rightarrow> bool" where
  "arrivalCommand c \<longleftrightarrow> c \<in> {CHECK_OUT, REVOKE_CHECK_IN}"

text \<open>What a built effect says of the order it was built on.\<close>

lemma build_cases:
  "buildCheckIn db p ctx = Inr effect \<Longrightarrow> se_orderId effect = lo_id (oc_order ctx) \<and> lo_status (oc_order ctx) = RESERVED"
  "buildCheckOut db p ctx = Inr effect \<Longrightarrow> se_orderId effect = lo_id (oc_order ctx) \<and> lo_status (oc_order ctx) = CHECKED_IN
     \<and> coverageWith HELD db (lo_id (oc_order ctx)) = []"
  "buildCancellation lt db p command ctx = Inr effect \<Longrightarrow> se_orderId effect = lo_id (oc_order ctx) \<and> lo_status (oc_order ctx) = RESERVED
     \<and> se_pricingRevision effect = Some (0, terminalBasis (oc_order ctx))"
  "buildCheckInRevocation db p ctx input = Inr effect \<Longrightarrow> se_orderId effect = lo_id (oc_order ctx) \<and> lo_status (oc_order ctx) = CHECKED_IN
     \<and> coverageWith HELD db (lo_id (oc_order ctx)) = [] \<and> se_pricingRevision effect = Some (0, terminalBasis (oc_order ctx))"
  by (auto simp: buildCheckIn_def buildCheckOut_def buildCancellation_def buildCheckInRevocation_def Let_def split: if_splits option.splits)

lemma coverageWith_held: "coverageWith HELD db i = [] \<longleftrightarrow> heldItems (lb_nights db) i = {}"
  by (auto simp: coverageWith_def heldItems_def filter_empty_conv)

lemma loaded_id: "loadOrderContext db i = Inr ctx \<Longrightarrow> lo_id (oc_order ctx) = i"
  by (auto simp: loadOrderContext_def orderById_def Let_def split: option.splits list.splits dest!: find_SomeD)

lemma buildStatusEffect_facts:
  assumes "buildStatusEffect evidence lt db p command input = Inr effect"
  obtains ctx where "loadOrderContextForProperty db p (se_orderId effect) = Inr ctx" "loadOrderContext db (se_orderId effect) = Inr ctx"
    "lo_status (oc_order ctx) = (if arrivalCommand command then CHECKED_IN else RESERVED)"
    "arrivalCommand command \<longrightarrow> heldItems (lb_nights db) (se_orderId effect) = {}"
    "endsWithoutStay command \<longrightarrow> se_pricingRevision effect = Some (0, terminalBasis (oc_order ctx))"
proof -
  from assms obtain i ctx where ctx: "loadOrderContextForProperty db p i = Inr ctx"
    and b: "(case command of CHECK_IN \<Rightarrow> buildCheckIn db p ctx | CHECK_OUT \<Rightarrow> buildCheckOut db p ctx
       | REVOKE_CHECK_IN \<Rightarrow> buildCheckInRevocation db p ctx input | _ \<Rightarrow> buildCancellation lt db p command ctx) = Inr effect"
    unfolding buildStatusEffect_def bindR_eq_Inr by blast
  note load = loadOrderContext_Inr [OF ctx]
  have "se_orderId effect = lo_id (oc_order ctx) \<and> lo_status (oc_order ctx) = (if arrivalCommand command then CHECKED_IN else RESERVED)
     \<and> (arrivalCommand command \<longrightarrow> coverageWith HELD db (lo_id (oc_order ctx)) = [])
     \<and> (endsWithoutStay command \<longrightarrow> se_pricingRevision effect = Some (0, terminalBasis (oc_order ctx)))"
  proof (cases command)
    case CHECK_IN
    then show ?thesis using build_cases(1) b by (simp add: arrivalCommand_def endsWithoutStay_def)
  next
    case CHECK_OUT
    then show ?thesis using build_cases(2) b by (simp add: arrivalCommand_def endsWithoutStay_def)
  next
    case CANCEL_ORDER
    then show ?thesis using build_cases(3) [of lt db p CANCEL_ORDER ctx] b by (simp add: arrivalCommand_def)
  next
    case MARK_NO_SHOW
    then show ?thesis using build_cases(3) [of lt db p MARK_NO_SHOW ctx] b by (simp add: arrivalCommand_def)
  next
    case REVOKE_CHECK_IN
    then show ?thesis using build_cases(4) b by (simp add: arrivalCommand_def)
  qed
  then show thesis using ctx load by (intro that [of ctx]) (simp_all add: coverageWith_held loaded_id [OF load])
qed

lemma settleStay_Inr:
  assumes st: "settleStay tx command ctx effect db = Inr (refs, db')" and inv: "inventoryInv (lb_inventory db)" and nights: "entInv (lb_nights db)"
  obtains store n where "db' = db\<lparr>lb_inventory := store, lb_nights := n\<rparr>" "inventoryInv store"
    "activeClaims store = {c \<in> activeClaims (lb_inventory db). command = CHECK_IN \<or> \<not> inSources ORDER_SEGMENT (oc_segmentIds ctx) c}"
    "entInv n" "noNewHeld (lb_nights db) n" "command \<in> {CANCEL_ORDER, MARK_NO_SHOW} \<longrightarrow> heldItems n (lo_id (oc_order ctx)) = {}"
proof (cases "command = CHECK_IN")
  case True
  with st obtain n where "consumeCoverage (tx_entitlement tx) (lo_id (oc_order ctx)) (tx_commandId tx) None consumeReason (lb_nights db) = Inr (refs, n)"
    "db' = db\<lparr>lb_nights := n\<rparr>" by (auto simp: settleStay_def withNights_def Let_def)
  then show thesis using True inv nights consumeCoverage_inv coverage_noNewHeld(2)
    by (intro that [of n "lb_inventory db"]) auto
next
  case False
  let ?mid = "\<lambda>n. db\<lparr>lb_nights := n\<rparr>"
  obtain rc1 n1 where rc: "releaseCoverage (tx_entitlement tx) (lo_id (oc_order ctx)) (tx_commandId tx) releaseAllHeld (lb_nights db) = (rc1, n1)"
    by (metis surj_pair)
  then have n1: "entInv n1" "noNewHeld (lb_nights db) n1" "heldItems n1 (lo_id (oc_order ctx)) = {}"
    using releaseCoverage_inv [OF nights] coverage_noNewHeld(1) releaseAllHeld_none by (metis snd_conv)+
  have "\<exists>n. (\<exists>ids. releaseOrderClaims (oc_segmentIds ctx) (?mid n) = Inr (ids, db')) \<and> entInv n \<and> noNewHeld (lb_nights db) n
     \<and> (command \<in> {CANCEL_ORDER, MARK_NO_SHOW} \<longrightarrow> heldItems n (lo_id (oc_order ctx)) = {})"
  proof (cases command)
    case CHECK_OUT
    then show ?thesis using st nights by (intro exI [of _ "lb_nights db"]) (auto simp: settleStay_def Let_def)
  next
    case REVOKE_CHECK_IN
    with st obtain refs' n ids where "restoreConsumedCoverage (tx_entitlement tx) (lo_id (oc_order ctx)) (tx_commandId tx) (lb_nights db) = Inr (refs', n)"
      "releaseOrderClaims (oc_segmentIds ctx) (?mid n) = Inr (ids, db')" by (auto simp: settleStay_def withNights_def Let_def split: if_splits)
    then show ?thesis using REVOKE_CHECK_IN nights restoreConsumedCoverage_inv coverage_noNewHeld(3) by blast
  next
    case CANCEL_ORDER
    with st rc n1 show ?thesis by (intro exI [of _ n1]) (auto simp: settleStay_def withNights_def Let_def)
  next
    case MARK_NO_SHOW
    with st rc n1 show ?thesis by (intro exI [of _ n1]) (auto simp: settleStay_def withNights_def Let_def)
  qed (use False in simp)
  then obtain n ids where n: "releaseOrderClaims (oc_segmentIds ctx) (?mid n) = Inr (ids, db')" "entInv n" "noNewHeld (lb_nights db) n"
     "command \<in> {CANCEL_ORDER, MARK_NO_SHOW} \<longrightarrow> heldItems n (lo_id (oc_order ctx)) = {}" by blast
  obtain ids' store where "releaseOrderClaims (oc_segmentIds ctx) (?mid n) = Inr (ids', (?mid n)\<lparr>lb_inventory := store\<rparr>)" "inventoryInv store"
    "activeClaims store = {c \<in> activeClaims (lb_inventory db). \<not> inSources ORDER_SEGMENT (oc_segmentIds ctx) c}"
    using releaseOrderClaims_Inr [of "?mid n" "oc_segmentIds ctx"] inv by auto
  then show thesis using n False by (intro that [of n store]) auto
qed

lemma keysOk_amendment:
  assumes "keysOk db" "freshTx tx db"
  shows "keysOk (db\<lparr>lb_amendments := lb_amendments db @ [newAmendment (tx_amendmentId tx) i s ty rs pv cm]\<rparr>)"
  using assms(1) freshTxD(3) [OF assms(2)] by (auto simp: keysOk_def)

text \<open>The order's revisions as they are satisfy what a command without a revision has to show.\<close>

lemma no_revision:
  assumes "lodgingInv db" "loadOrderContext db i = Inr ctx"
  shows "numbered (revisionsOf db i)" "lo_current_revision_id (oc_order ctx) = Some (rv_id (last (revisionsOf db i)))"
    "channelStay db (oc_order ctx) \<longrightarrow> 0 \<le> contractMinor (last (revisionsOf db i))
      \<and> contractMinor (last (revisionsOf db i)) \<le> channelNet db (lo_property_id (oc_order ctx)) i"
  using orderOkD(2) [OF lodgingInvD(4) [OF assms(1) loaded_context(1) [OF assms]]] loaded_context(2) [OF assms]
  by (simp_all add: revisionsOk_def Let_def)

lemma stayStateOf_target: "snd (statusTarget c) = stayStateOf (fst (statusTarget c))"
  by (cases c) (simp_all add: statusTarget_def)

lemma applyStatusCommand_inv:
  assumes inv: "lodgingInv db" and fresh: "freshTx tx db" and build: "buildStatusEffect evidence lt db p command input = Inr effect"
    and app: "applyStatusCommand tx p command reason effect db = Inr (refs, db')"
  shows "lodgingInv db'"
proof -
  obtain ctx where ctx: "loadOrderContextForProperty db p (se_orderId effect) = Inr ctx" and load: "loadOrderContext db (se_orderId effect) = Inr ctx"
    and st: "lo_status (oc_order ctx) = (if arrivalCommand command then CHECKED_IN else RESERVED)"
    and held: "arrivalCommand command \<longrightarrow> heldItems (lb_nights db) (se_orderId effect) = {}"
    and zero: "endsWithoutStay command \<longrightarrow> se_pricingRevision effect = Some (0, terminalBasis (oc_order ctx))"
    by (rule buildStatusEffect_facts [OF build])
  note c = loaded_context [OF inv load] and nr = no_revision [OF inv load]
  define w where "w = oc_order ctx"
  define i where "i = lo_id w"
  define a where "a = newAmendment (tx_amendmentId tx) i (lo_version w + 1) (statusCommandName command) reason (lo_version w) (tx_commandId tx)"
  define db1 where "db1 = db\<lparr>lb_amendments := lb_amendments db @ [a]\<rparr>"
  have i: "se_orderId effect = i" using c(2) by (simp add: i_def w_def)
  note c = c [unfolded i, folded w_def] and nr = nr [unfolded i, folded w_def]
  define revise where "revise = (\<lambda>r :: lodging_order. r\<lparr>lo_status := fst (statusTarget command), lo_version := lo_version w + 1\<rparr>
           \<lparr>lo_current_revision_id := (if endsWithoutStay command then Some (tx_revisionId tx) else lo_current_revision_id r)\<rparr>)"
  have "bindR (if endsWithoutStay command then terminalRevision tx ctx effect db1 else Inr db1) (\<lambda>db2.
      bindR (settleStay tx command ctx effect db2) (\<lambda>(refs, db3).
      Inr (refs, updateStay (sy_id (oc_stay ctx)) (snd (statusTarget command)) (updateOrder i revise db3)))) = Inr (refs, db')"
    using app unfolding applyStatusCommand_def ctx bindR_simps Let_def appendAmendment_new a_def db1_def i_def w_def revise_def .
  then obtain db2 db3 where d2: "(if endsWithoutStay command then terminalRevision tx ctx effect db1 else Inr db1) = Inr db2"
    and d3: "settleStay tx command ctx effect db2 = Inr (refs, db3)"
    and db': "db' = updateStay (sy_id (oc_stay ctx)) (snd (statusTarget command)) (updateOrder i revise db3)"
    unfolding bindR_eq_Inr by (auto split: prod.splits)
  have keys1: "keysOk db1" unfolding db1_def a_def by (rule keysOk_amendment [OF lodgingInvD(3) [OF inv] fresh])
  have "\<exists>rs fs. db2 = db1\<lparr>lb_revisions := lb_revisions db @ rs, lb_channel := lb_channel db @ fs\<rparr> \<and> numbered (revisionsOf db i @ rs)
      \<and> distinct (map rv_id rs) \<and> (\<forall>r\<in>set rs. rv_order_id r = i \<and> rv_id r \<noteq> [] \<and> rv_id r \<notin> rv_id ` set (lb_revisions db))
      \<and> lo_current_revision_id (revise w) = Some (rv_id (last (revisionsOf db i @ rs)))
      \<and> (\<forall>x\<in>set fs. ch_order_id x = i \<and> ch_property_id x = lo_property_id w) \<and> ledgerOk fs
      \<and> (channelStay db w \<longrightarrow> 0 \<le> contractMinor (last (revisionsOf db i @ rs))
        \<and> contractMinor (last (revisionsOf db i @ rs)) \<le> channelNet db (lo_property_id w) i + sum_list (map ch_amount_minor fs))"
  proof (cases "endsWithoutStay command")
    case True
    let ?ps = "terminalPricing (ps_currency (rv_pricing (oc_revision ctx))) (terminalBasis w)"
    from d2 zero True have ins: "insertRevision tx i (rv_revision_no (oc_revision ctx) + 1) (tx_amendmentId tx) (lo_pricing_policy_version_id w)
        (lo_arrival_date w) (lo_departure_date w) ?ps db1 = Inr db2" by (simp add: terminalRevision_def Let_def w_def i_def)
    have net: "channelStay db w \<longrightarrow> 0 \<le> channelNet db (lo_property_id w) i" using nr(3) by auto
    obtain r fs where "db2 = db1\<lparr>lb_revisions := lb_revisions db @ [r], lb_channel := lb_channel db @ fs\<rparr>"
      "r = newRevision tx i (rv_revision_no (oc_revision ctx) + 1) (tx_amendmentId tx) (lo_pricing_policy_version_id w)
        (lo_arrival_date w) (lo_departure_date w) ?ps" "numbered (revisionsOf db i @ [r])"
      "\<forall>f\<in>set fs. ch_order_id f = i \<and> ch_property_id f = lo_property_id w" "ledgerOk fs"
      "channelStay db w \<longrightarrow> 0 \<le> contractMinor r \<and> contractMinor r \<le> channelNet db (lo_property_id w) i + sum_list (map ch_amount_minor fs)"
      by (rule commandRevision [OF inv load [unfolded i] fresh ins keys1, of "[]" a, folded w_def])
        (use net in \<open>auto simp: db1_def a_def terminalPricing_def\<close>)
    then show ?thesis using True freshTxD(1,2) [OF fresh] by (intro exI [of _ "[r]"] exI [of _ fs]) (simp add: revise_def)
  next
    case False
    have "db1 = db1\<lparr>lb_revisions := lb_revisions db @ [], lb_channel := lb_channel db @ []\<rparr>" by (simp add: db1_def)
    moreover have "db2 = db1" using False d2 by simp
    ultimately show ?thesis using False nr by (intro exI [of _ "[]"] conjI) (simp_all add: revise_def ledgerOk_def)
  qed
  then obtain rs fs where db2: "db2 = db1\<lparr>lb_revisions := lb_revisions db @ rs, lb_channel := lb_channel db @ fs\<rparr>"
    and rs: "numbered (revisionsOf db i @ rs)" "distinct (map rv_id rs)"
      "\<forall>r\<in>set rs. rv_order_id r = i \<and> rv_id r \<noteq> [] \<and> rv_id r \<notin> rv_id ` set (lb_revisions db)"
      "lo_current_revision_id (revise w) = Some (rv_id (last (revisionsOf db i @ rs)))"
    and fs: "\<forall>x\<in>set fs. ch_order_id x = i \<and> ch_property_id x = lo_property_id w" "ledgerOk fs"
      "channelStay db w \<longrightarrow> 0 \<le> contractMinor (last (revisionsOf db i @ rs))
        \<and> contractMinor (last (revisionsOf db i @ rs)) \<le> channelNet db (lo_property_id w) i + sum_list (map ch_amount_minor fs)" by blast
  have same: "lb_inventory db2 = lb_inventory db" "lb_nights db2 = lb_nights db" by (simp_all add: db2 db1_def)
  obtain store n where db3: "db3 = db2\<lparr>lb_inventory := store, lb_nights := n\<rparr>" and store: "inventoryInv store"
    "activeClaims store = {c \<in> activeClaims (lb_inventory db). command = CHECK_IN \<or> \<not> inSources ORDER_SEGMENT (oc_segmentIds ctx) c}"
    and n: "entInv n" "noNewHeld (lb_nights db) n" "command \<in> {CANCEL_ORDER, MARK_NO_SHOW} \<longrightarrow> heldItems n i = {}"
    by (rule settleStay_Inr [OF d3, unfolded same, folded w_def, folded i_def, OF lodgingInvD(1,2) [OF inv]])
  have own: "inSources ORDER_SEGMENT (oc_segmentIds ctx) cl \<longleftrightarrow> ownClaim db i cl" for cl
    by (simp add: inSources_def ownClaim_def c(5))
  have fields: "lb_orders db' = updateWhere (\<lambda>r. lo_id r = i) revise (lb_orders db)" "lb_segments db' = lb_segments db"
    "lb_stays db' = updateWhere (\<lambda>s. sy_id s = sy_id (oc_stay ctx)) (\<lambda>s. s\<lparr>sy_status := snd (statusTarget command)\<rparr>) (lb_stays db)"
    "lb_amendments db' = lb_amendments db @ [a]" "lb_revisions db' = lb_revisions db @ rs" "lb_channel db' = lb_channel db @ fs"
    "lb_inventory db' = store" "lb_nights db' = n" "lb_properties db' = lb_properties db" "lb_openings db' = lb_openings db"
    by (simp_all add: db' db3 db2 db1_def updateStay_def updateOrder_def)
  have segs: "segmentsOf db' j = segmentsOf db j" for j
    using segmentsOf_append [OF lodgingInvD(3) [OF inv] c(3), of "[]" db' "snd (statusTarget command)" j] by (simp add: fields)
  have claims: "stayClaims db' i = (if command = CHECK_IN then stayClaims db i else {})"
    using store(2) by (auto simp: stayClaims_own own ownClaim_def segs fields)
  show ?thesis
  proof (rule command_inv [OF inv, of w "oc_stay ctx" db' revise "[]" "[a]" rs fs])
    show "resourcesOk db' (revise w)"
    proof (cases "command = CHECK_IN")
      case True
      then have "openOrder w" using st by (simp add: w_def openOrder_def arrivalCommand_def)
      then have "nightsHeld db i (lo_arrival_date w) (lo_departure_date w)"
        using orderOkD(4) [OF lodgingInvD(4) [OF inv c(1)]] by (simp add: resourcesOk_def i_def)
      then show ?thesis using True claims by (simp add: resourcesOk_def openOrder_def revise_def statusTarget_def nightsHeld_def i_def)
    next
      case False
      have "heldItems n i = {}"
        using n(3) noNewHeld_items [OF n(2), of i] held False by (cases command) (auto simp: arrivalCommand_def i)
      then show ?thesis using False claims
        by (cases command) (simp_all add: resourcesOk_def openOrder_def revise_def statusTarget_def i_def fields)
    qed
    show "c \<in> activeClaims (lb_inventory db') \<longleftrightarrow> c \<in> activeClaims (lb_inventory db)" if "\<not> ownClaim db' (lo_id w) c" for c
      using that store(2) by (simp add: fields own ownClaim_def segs i_def)
  qed (use c i_def rs fs store n noNewHeld_frame [OF n(2)] freshTxD(3) [OF fresh] in
      \<open>simp_all add: fields a_def revise_def stayStateOf_target\<close>)
qed

section \<open>Commands on the price of a stay\<close>

lemma same_status:
  assumes "keysOk db" "y \<in> set (lb_stays db)" "sy_status y = st"
  shows "updateWhere (\<lambda>s. sy_id s = sy_id y) (\<lambda>s. s\<lparr>sy_status := st\<rparr>) (lb_stays db) = lb_stays db"
proof (rule updateWhere_same, intro ballI impI)
  fix s assume "s \<in> set (lb_stays db)" "sy_id s = sy_id y"
  then have "s = y" using distinct_key_eq [OF keysOkD(2) [OF assms(1)]] assms(2) by metis
  then show "s\<lparr>sy_status := st\<rparr> = s" using assms(3) by (cases s) simp
qed

text \<open>A command that leaves the stay and its claims: an amendment, revisions, facts of the channel ledger and nights.\<close>

lemma sameStay_inv:
  fixes rid :: string
  assumes inv: "lodgingInv db" and w: "w \<in> set (lb_orders db)"
    and orders: "lb_orders db' = updateWhere (\<lambda>r. lo_id r = lo_id w) (\<lambda>r. r\<lparr>lo_current_revision_id := Some rid, lo_version := lo_version w + 1\<rparr>) (lb_orders db)"
    and same: "lb_stays db' = lb_stays db" "lb_segments db' = lb_segments db" "lb_inventory db' = lb_inventory db" "lb_properties db' = lb_properties db"
      "lb_openings db' = lb_openings db"
    and a: "lb_amendments db' = lb_amendments db @ [newAmendment ai (lo_id w) (lo_version w + 1) ty reason (lo_version w) cm]"
      "ai \<notin> am_id ` set (lb_amendments db)"
    and revs: "lb_revisions db' = lb_revisions db @ rs" "numbered (revisionsOf db (lo_id w) @ rs)" "distinct (map rv_id rs)"
      "\<forall>r\<in>set rs. rv_order_id r = lo_id w \<and> rv_id r \<noteq> [] \<and> rv_id r \<notin> rv_id ` set (lb_revisions db)"
      "rid = rv_id (last (revisionsOf db (lo_id w) @ rs))"
    and chan: "lb_channel db' = lb_channel db @ fs" "\<forall>x\<in>set fs. ch_order_id x = lo_id w \<and> ch_property_id x = lo_property_id w" "ledgerOk fs"
      "channelStay db w \<longrightarrow> 0 \<le> contractMinor (last (revisionsOf db (lo_id w) @ rs))
        \<and> contractMinor (last (revisionsOf db (lo_id w) @ rs)) \<le> channelNet db (lo_property_id w) (lo_id w) + sum_list (map ch_amount_minor fs)"
    and nights: "entInv (lb_nights db')" "heldFrame (lo_id w) (lb_nights db) (lb_nights db')" "openOrder w \<or> lb_nights db' = lb_nights db"
  shows "lodgingInv db'"
proof -
  let ?revise = "\<lambda>r :: lodging_order. r\<lparr>lo_current_revision_id := Some rid, lo_version := lo_version w + 1\<rparr>"
  note ok = lodgingInvD(4) [OF inv w]
  obtain y where y: "y \<in> set (lb_stays db)" "sy_order_id y = lo_id w" "sy_status y = stayStateOf (lo_status w)"
    using orderOkD(1) [OF ok] by (auto simp: stayOk_def)
  have claims: "stayClaims db' j = stayClaims db j" for j by (simp add: stayClaims_def segmentsOf_def same)
  show ?thesis
  proof (rule command_inv [where segs = "[]" and ams = "[newAmendment ai (lo_id w) (lo_version w + 1) ty reason (lo_version w) cm]" and rs = rs and fs = fs,
        OF inv w y(1,2) orders])
    show "resourcesOk db' (?revise w)" using orderOkD(4) [OF ok] nights(3) claims
      by (auto simp: resourcesOk_def openOrder_def nightsHeld_def)
    show "lb_stays db' = updateWhere (\<lambda>s. sy_id s = sy_id y) (\<lambda>s. s\<lparr>sy_status := stayStateOf (lo_status (?revise w))\<rparr>) (lb_stays db)"
      using same_status [OF lodgingInvD(3) [OF inv] y(1,3)] by (simp add: same)
  qed (use revs chan nights a lodgingInvD(1) [OF inv] in \<open>simp_all add: same\<close>)
qed

lemma reconcileNights_Inr:
  assumes r: "reconcileNights tx w ps db = Inr db'" and inv: "entInv (lb_nights db)" and fresh: "freshItems (tx_entitlement tx) (lb_nights db)"
  obtains n where "db' = db\<lparr>lb_nights := n\<rparr>" "entInv n" "heldFrame (lo_id w) (lb_nights db) n" "isMember w \<or> n = lb_nights db"
proof (cases "isMember w")
  case True
  with r obtain refs n where "reconcileCoverage (tx_entitlement tx) (lo_id w) (case lo_member_contract_id w of None \<Rightarrow> [] | Some c \<Rightarrow> c)
        (lo_member_id w) (tx_revisionId tx) (ps_coverageSet ps) (tx_commandId tx) (lb_nights db) = Inr (refs, n)" "db' = db\<lparr>lb_nights := n\<rparr>"
    by (auto simp: reconcileNights_def withNights_def)
  then show thesis using True by (intro that [of n]) (auto intro: reconcileCoverage_inv [OF inv fresh] reconcileCoverage_frame)
qed (use r inv in \<open>auto simp: reconcileNights_def intro: that [of "lb_nights db"]\<close>)

lemma consumeNights_Inr:
  assumes r: "consumeNights tx w dates reason db = Inr db'" and inv: "entInv (lb_nights db)"
  obtains n where "db' = db\<lparr>lb_nights := n\<rparr>" "entInv n" "noNewHeld (lb_nights db) n" "isMember w \<or> n = lb_nights db"
proof (cases "isMember w")
  case True
  with r obtain refs n where "consumeCoverage (tx_entitlement tx) (lo_id w) (tx_commandId tx) dates reason (lb_nights db) = Inr (refs, n)" "db' = db\<lparr>lb_nights := n\<rparr>"
    by (auto simp: consumeNights_def withNights_def)
  then show thesis using True by (intro that [of n]) (auto intro: consumeCoverage_inv [OF inv] coverage_noNewHeld(2))
qed (use r inv in \<open>auto simp: consumeNights_def intro: that [of "lb_nights db"]\<close>)

text \<open>Reconciling the nights with a price and consuming some of them.\<close>

lemma reconcileConsume_Inr:
  assumes r: "bindR (reconcileNights tx w ps db) (\<lambda>db1. bindR (if b then consumeNights tx w dates reason db1 else Inr db1) k) = Inr res"
    and inv: "entInv (lb_nights db)" and fresh: "freshItems (tx_entitlement tx) (lb_nights db)"
  obtains n where "k (db\<lparr>lb_nights := n\<rparr>) = Inr res" "entInv n" "heldFrame (lo_id w) (lb_nights db) n" "isMember w \<or> n = lb_nights db"
proof -
  from r obtain db1 db2 where r1: "reconcileNights tx w ps db = Inr db1" and r2: "(if b then consumeNights tx w dates reason db1 else Inr db1) = Inr db2"
    and k: "k db2 = Inr res" unfolding bindR_eq_Inr by blast
  obtain n where n: "db1 = db\<lparr>lb_nights := n\<rparr>" "entInv n" "heldFrame (lo_id w) (lb_nights db) n" "isMember w \<or> n = lb_nights db"
    by (rule reconcileNights_Inr [OF r1 inv fresh])
  show thesis
  proof (cases b)
    case True
    obtain m where "db2 = db1\<lparr>lb_nights := m\<rparr>" "entInv m" "noNewHeld (lb_nights db1) m" "isMember w \<or> m = lb_nights db1"
      by (rule consumeNights_Inr [of tx w dates reason db1 db2]) (use True r2 n in simp_all)
    then show thesis using n k noNewHeld_frame [of n m "lo_id w"] by (intro that [of m]) (auto intro: heldFrame_trans)
  qed (use n k r2 that in auto)
qed

lemma applyPricing_inv:
  assumes inv: "lodgingInv db" and fresh: "freshTx tx db" and ctx: "loadOrderContextForProperty db p i = Inr ctx"
    and admitted: "pricingAdmitted db command (oc_order ctx) = Inr ()" and app: "applyPricing tx p command reason i ps db = Inr db'"
  shows "lodgingInv db'"
proof -
  note load = loadOrderContext_Inr [OF ctx]
  note c = loaded_context [OF inv load]
  define w where "w = oc_order ctx"
  define a where "a = newAmendment (tx_amendmentId tx) i (lo_version w + 1) (priceCommandName command) reason (lo_version w) (tx_commandId tx)"
  define db1 where "db1 = db\<lparr>lb_amendments := lb_amendments db @ [a]\<rparr>"
  define revise where "revise = (\<lambda>r :: lodging_order. r\<lparr>lo_current_revision_id := Some (tx_revisionId tx), lo_version := lo_version w + 1\<rparr>)"
  note c = c [folded w_def] and ok = lodgingInvD(4) [OF inv c(1), folded w_def]
  have "bindR (insertRevision tx i (rv_revision_no (oc_revision ctx) + 1) (tx_amendmentId tx) (lo_pricing_policy_version_id w)
         (lo_arrival_date w) (lo_departure_date w) ps db1) (\<lambda>db2.
     bindR (reconcileNights tx w ps db2) (\<lambda>db3.
     bindR (if lo_status w = CHECKED_IN then consumeNights tx w None consumeReason db3 else Inr db3) (\<lambda>db4.
     Inr (updateOrder i revise db4)))) = Inr db'"
    using app unfolding applyPricing_def ctx bindR_simps Let_def appendAmendment_new a_def db1_def w_def revise_def loaded_id [OF load] .
  then obtain db2 where ins: "insertRevision tx i (rv_revision_no (oc_revision ctx) + 1) (tx_amendmentId tx) (lo_pricing_policy_version_id w)
         (lo_arrival_date w) (lo_departure_date w) ps db1 = Inr db2"
    and rest: "bindR (reconcileNights tx w ps db2) (\<lambda>db3.
     bindR (if lo_status w = CHECKED_IN then consumeNights tx w None consumeReason db3 else Inr db3) (\<lambda>db4.
     Inr (updateOrder i revise db4))) = Inr db'" unfolding bindR_eq_Inr by blast
  have keys1: "keysOk db1" unfolding db1_def a_def by (rule keysOk_amendment [OF lodgingInvD(3) [OF inv] fresh])
  have goal: "am_amendment_type a \<in> set (''REPRICE_ORDER'' # dateChangeCommands) \<or> \<not> channelStay db w"
  proof (cases command)
    case REFRESH_MEMBER_COVERAGE
    then have "isMember w" using admitted by (auto simp: pricingAdmitted_def w_def split: if_splits)
    then show ?thesis using orderOkD(5) [OF ok] by (auto simp: channelOrderOk_def channelStay_def)
  qed (simp add: a_def priceCommandName_def)
  obtain r fs where db2: "db2 = db1\<lparr>lb_revisions := lb_revisions db @ [r], lb_channel := lb_channel db @ fs\<rparr>"
    and r: "r = newRevision tx i (rv_revision_no (oc_revision ctx) + 1) (tx_amendmentId tx) (lo_pricing_policy_version_id w)
         (lo_arrival_date w) (lo_departure_date w) ps" "numbered (revisionsOf db i @ [r])"
    and fs: "\<forall>f\<in>set fs. ch_order_id f = i \<and> ch_property_id f = lo_property_id w" "ledgerOk fs"
      "channelStay db w \<longrightarrow> 0 \<le> contractMinor r \<and> contractMinor r \<le> channelNet db (lo_property_id w) i + sum_list (map ch_amount_minor fs)"
    by (rule commandRevision [OF inv load fresh ins keys1, of "[]" a, folded w_def]) (use goal in \<open>auto simp: db1_def a_def\<close>)
  have same: "lb_nights db2 = lb_nights db" by (simp add: db2 db1_def)
  obtain n where n: "Inr (updateOrder i revise (db2\<lparr>lb_nights := n\<rparr>)) = (Inr db' :: lodging_db result)" "entInv n" "heldFrame (lo_id w) (lb_nights db) n"
    "isMember w \<or> n = lb_nights db"
    by (rule reconcileConsume_Inr [OF rest, unfolded same, OF lodgingInvD(2) [OF inv] freshTxD(10) [OF fresh]])
  have status: "openOrder w \<or> \<not> isMember w"
    using admitted orderOkD(5) [OF ok] by (cases command)
      (auto simp: pricingAdmitted_def canRepriceOrder_def openOrder_def channelOrderOk_def externalChannel_def orderStateName_def w_def split: if_splits order_state.splits)
  have fields: "lb_orders db' = updateWhere (\<lambda>r. lo_id r = i) revise (lb_orders db)" "lb_segments db' = lb_segments db" "lb_stays db' = lb_stays db"
    "lb_amendments db' = lb_amendments db @ [a]" "lb_revisions db' = lb_revisions db @ [r]" "lb_channel db' = lb_channel db @ fs"
    "lb_inventory db' = lb_inventory db" "lb_nights db' = n" "lb_properties db' = lb_properties db" "lb_openings db' = lb_openings db"
    using n(1) by (auto simp: db2 db1_def updateOrder_def)
  have status': "openOrder w \<or> n = lb_nights db" using status n(4) by auto
  show ?thesis
    by (rule sameStay_inv [OF inv c(1), of db' "tx_revisionId tx" "tx_amendmentId tx" _ _ _ "[r]" fs])
      (use c r(2) fs n status' freshTxD(1-3) [OF fresh] in \<open>simp_all add: fields a_def revise_def r(1)\<close>)
qed

section \<open>Refunds of a platform\<close>

lemma loaded_property:
  assumes inv: "lodgingInv db" and ctx: "loadOrderContextForProperty db p i = Inr ctx"
  shows "lo_property_id (oc_order ctx) = p"
proof -
  note c = loaded_context [OF inv loadOrderContext_Inr [OF ctx]]
  from ctx obtain w where "w \<in> set (lb_orders db)" "lo_id w = i" "lo_property_id w = p"
    by (auto simp: loadOrderContextForProperty_def list_ex_iff split: if_splits)
  then show ?thesis using distinct_key_eq [OF keysOkD(1) [OF lodgingInvD(3) [OF inv]] _ c(1)] c(2) by auto
qed

lemma refundAmount_bounds: "refundAmount summary input = Inr n \<Longrightarrow> 0 < n \<and> n \<le> cm_netMinor summary"
  by (cases "prop_of input ''amountMinor''") (auto simp: refundAmount_def split: if_splits)

lemma buildChannelRefund_facts:
  assumes "buildChannelRefund summary contract remark db p i input = Inr effect"
  shows "ce_orderId effect = i \<and> ce_contractBeforeMinor effect = contract \<and> 0 < ce_amountMinor effect \<and> ce_amountMinor effect \<le> cm_netMinor summary
     \<and> ce_contractTargetMinor effect = min contract (cm_netMinor summary - ce_amountMinor effect)"
  using assms by (auto simp: buildChannelRefund_def split: if_splits dest!: refundAmount_bounds)

lemma buildChannelReversal_facts:
  assumes "buildChannelReversal summary contract remark db i input = Inr effect"
  obtains f where "f \<in> set (cm_facts summary)" "ch_kind f = CHANNEL_REFUND" "ce_orderId effect = i" "ce_contractBeforeMinor effect = contract"
    "ce_amountMinor effect = - ch_amount_minor f" "ce_contractTargetMinor effect = contract - ch_contract_effect_minor f"
  using assms by (auto simp: buildChannelReversal_def Let_def split: option.splits if_splits dest!: find_SomeD)

lemma buildChannelFunds_unpack:
  assumes b: "buildChannelFundsEffect db p i command input = Inr effect"
  obtains summary contract remark where "channelOperatingSummary db p i = Inr (Some summary)" "currentContract db p i = Inr contract"
    "contract \<le> cm_netMinor summary"
    "(if command = ''REVERSE_FACT'' then buildChannelReversal summary contract remark db i input
           else buildChannelRefund summary contract remark db p i input) = Inr effect"
proof -
  from b obtain s0 where su: "channelOperatingSummary db p i = Inr s0" "s0 \<noteq> None"
    unfolding buildChannelFundsEffect_def bindR_eq_Inr by (auto split: option.splits)
  then obtain summary where su: "channelOperatingSummary db p i = Inr (Some summary)" by auto
  from b have "bindR (currentContract db p i) (\<lambda>contract.
         if cm_netMinor summary < contract then validation_error
         else
           bindR (channelText input ''note'') (\<lambda>remark.
           if command = ''REVERSE_FACT'' then buildChannelReversal summary contract remark db i input
           else buildChannelRefund summary contract remark db p i input)) = Inr effect"
    unfolding buildChannelFundsEffect_def su bindR_simps option.case by (cases "cm_initialized summary") (simp_all del: bindR_eq_Inr)
  then obtain contract where co: "currentContract db p i = Inr contract" and c2: "(if cm_netMinor summary < contract then validation_error
         else
           bindR (channelText input ''note'') (\<lambda>remark.
           if command = ''REVERSE_FACT'' then buildChannelReversal summary contract remark db i input
           else buildChannelRefund summary contract remark db p i input)) = Inr effect"
    unfolding bindR_eq_Inr [of "currentContract db p i"] by blast
  then have le: "contract \<le> cm_netMinor summary" by (auto simp: not_less [symmetric])
  from c2 le obtain remark where e: "(if command = ''REVERSE_FACT'' then buildChannelReversal summary contract remark db i input
           else buildChannelRefund summary contract remark db p i input) = Inr effect"
    unfolding not_less [symmetric] by (simp only: if_False bindR_eq_Inr) blast
  show thesis by (rule that [OF su co le e])
qed

lemma buildChannelFunds_order: "buildChannelFundsEffect db p i command input = Inr effect \<Longrightarrow> ce_orderId effect = i"
  by (erule buildChannelFunds_unpack) (auto split: if_splits dest: buildChannelRefund_facts elim: buildChannelReversal_facts)

text \<open>What a refund or its reversal leaves of the contract amount is covered by what it leaves of the recognised amount.\<close>

lemma buildChannelFunds_facts:
  assumes inv: "lodgingInv db" and ctx: "loadOrderContextForProperty db p i = Inr ctx" and b: "buildChannelFundsEffect db p i command input = Inr effect"
  shows "channelStay db (oc_order ctx)" and "ce_contractBeforeMinor effect = contractMinor (oc_revision ctx)"
    and "0 \<le> ce_contractTargetMinor effect
      \<and> ce_contractTargetMinor effect \<le> channelNet db p i + (if command = ''REVERSE_FACT'' then ce_amountMinor effect else - ce_amountMinor effect)"
    and "command \<noteq> ''REVERSE_FACT'' \<Longrightarrow> - ce_amountMinor effect \<le> ce_contractTargetMinor effect - ce_contractBeforeMinor effect
      \<and> ce_contractTargetMinor effect \<le> ce_contractBeforeMinor effect"
proof -
  note load = loadOrderContext_Inr [OF ctx]
  note c = loaded_context [OF inv load]
  obtain summary contract remark where su: "channelOperatingSummary db p i = Inr (Some summary)" and co: "currentContract db p i = Inr contract"
    and le: "contract \<le> cm_netMinor summary"
    and e: "(if command = ''REVERSE_FACT'' then buildChannelReversal summary contract remark db i input
           else buildChannelRefund summary contract remark db p i input) = Inr effect"
    by (rule buildChannelFunds_unpack [OF b])
  have rows: "cm_netMinor summary = channelNet db p i" "cm_facts summary = channelFacts db p i"
    using su by (auto simp: channelOperatingSummary_def Let_def split: option.splits if_splits)
  have same: "w = oc_order ctx" if "orderInProperty db p i = Some w" for w
    using find_SomeD [OF that [unfolded orderInProperty_def]] distinct_key_eq [OF keysOkD(1) [OF lodgingInvD(3) [OF inv]] _ c(1)] c(2) by auto
  show stay: "channelStay db (oc_order ctx)"
  proof -
    from su obtain v cur where v: "orderInProperty db p i = Some v" "map_of (lb_properties db) p = Some cur" "externalChannel (lo_booking_channel_code v)"
      by (auto simp: channelOperatingSummary_def split: option.splits if_splits)
    with same loaded_property [OF inv ctx] show ?thesis by (simp add: channelStay_def)
  qed
  have ok: "0 \<le> contractMinor (oc_revision ctx)" using no_revision(3) [OF inv load] stay by (simp add: c(6))
  have "contract = contractMinor (oc_revision ctx)"
  proof -
    from co obtain ord rid r where ord: "orderInProperty db p i = Some ord" and rid: "lo_current_revision_id ord = Some rid"
      and r: "find (\<lambda>x. rv_id x = rid) (lb_revisions db) = Some r" "contract = contractMinor r"
      by (auto simp: currentContract_def split: option.splits)
    have "oc_revision ctx \<in> set (lb_revisions db)" "lo_current_revision_id (oc_order ctx) = Some (rv_id (oc_revision ctx))"
      using orderOkD(2) [OF lodgingInvD(4) [OF inv c(1)]] c(2,6) by (auto simp: revisionsOk_def Let_def revisionsOf_def intro: last_in_set subsetD [OF filter_is_subset])
    then show ?thesis using r rid same [OF ord] find_key [OF keysOkD(5) [OF lodgingInvD(3) [OF inv]]] by auto
  qed
  note contract = this
  show "ce_contractBeforeMinor effect = contractMinor (oc_revision ctx)"
    using e contract by (auto split: if_splits dest: buildChannelRefund_facts elim: buildChannelReversal_facts)
  show "0 \<le> ce_contractTargetMinor effect
      \<and> ce_contractTargetMinor effect \<le> channelNet db p i + (if command = ''REVERSE_FACT'' then ce_amountMinor effect else - ce_amountMinor effect)"
  proof (cases "command = ''REVERSE_FACT''")
    case True
    with e obtain f where f: "f \<in> set (cm_facts summary)" "ch_kind f = CHANNEL_REFUND"
      "ce_amountMinor effect = - ch_amount_minor f" "ce_contractTargetMinor effect = contract - ch_contract_effect_minor f"
      by (auto elim: buildChannelReversal_facts)
    then have "ch_amount_minor f \<le> ch_contract_effect_minor f \<and> ch_contract_effect_minor f \<le> 0"
      using lodgingInvD(5) [OF inv] by (auto simp: ledgerOk_def rows channelFacts_def)
    then show ?thesis using True f le ok rows contract by simp
  next
    case False
    then show ?thesis using e ok rows contract by (auto dest!: buildChannelRefund_facts)
  qed
  show "command \<noteq> ''REVERSE_FACT'' \<Longrightarrow> - ce_amountMinor effect \<le> ce_contractTargetMinor effect - ce_contractBeforeMinor effect
      \<and> ce_contractTargetMinor effect \<le> ce_contractBeforeMinor effect"
    using e le by (auto dest!: buildChannelRefund_facts)
qed

lemma applyChannelFunds_new:
  obtains f where "applyChannelFunds tx command p effect db = db\<lparr>lb_channel := lb_channel db @ [f]\<rparr>"
    "ch_order_id f = ce_orderId effect" "ch_property_id f = p"
    "ch_amount_minor f = (if command = ''REVERSE_FACT'' then ce_amountMinor effect else - ce_amountMinor effect)"
    "ch_kind f = (if command = ''REVERSE_FACT'' then CHANNEL_REVERSAL else CHANNEL_REFUND)"
    "ch_contract_effect_minor f = ce_contractTargetMinor effect - ce_contractBeforeMinor effect"
  by (rule that [OF applyChannelFunds_def [unfolded Let_def]]) simp_all

lemma applyChannelCommand_inv:
  assumes inv: "lodgingInv db" and fresh: "freshTx tx db" and b: "buildChannelFundsEffect db p i command input = Inr effect"
    and app: "applyChannelCommand tx p command reason effect db = Inr db'"
  shows "lodgingInv db'"
proof -
  have i: "ce_orderId effect = i" by (rule buildChannelFunds_order [OF b])
  obtain ctx where ctx: "loadOrderContextForProperty db p i = Inr ctx"
    using app by (auto simp: applyChannelCommand_def i)
  note load = loadOrderContext_Inr [OF ctx]
  note c = loaded_context [OF inv load] and nr = no_revision [OF inv load]
  define w where "w = oc_order ctx"
  note c = c [folded w_def] and nr = nr [folded w_def] and ok = lodgingInvD(4) [OF inv c(1), folded w_def]
    and scope = loaded_property [OF inv ctx, folded w_def]
  obtain f where f: "applyChannelFunds tx command p effect db = db\<lparr>lb_channel := lb_channel db @ [f]\<rparr>"
    "ch_order_id f = i" "ch_property_id f = p" "ch_amount_minor f = (if command = ''REVERSE_FACT'' then ce_amountMinor effect else - ce_amountMinor effect)"
    "ch_kind f = (if command = ''REVERSE_FACT'' then CHANNEL_REVERSAL else CHANNEL_REFUND)"
    "ch_contract_effect_minor f = ce_contractTargetMinor effect - ce_contractBeforeMinor effect"
    by (rule applyChannelFunds_new [of tx command p effect db, unfolded i])
  define a where "a = newAmendment (tx_amendmentId tx) i (lo_version w + 1) command reason (lo_version w) (tx_commandId tx)"
  define db0 where "db0 = db\<lparr>lb_channel := lb_channel db @ [f]\<rparr>"
  define db1 where "db1 = db0\<lparr>lb_amendments := lb_amendments db0 @ [a]\<rparr>"
  define goal where "goal = ce_contractTargetMinor effect"
  define ps where "ps = (rv_pricing (oc_revision ctx))\<lparr>ps_pricingBasis := CHANNEL_CONTRACT, ps_manualAdjustmentMinor := 0, ps_currentContractAmountMinor := goal\<rparr>"
  have "bindR (if goal = contractMinor (oc_revision ctx) then Inr (rv_id (oc_revision ctx), db1)
            else bindR (insertRevision tx i (rv_revision_no (oc_revision ctx) + 1) (tx_amendmentId tx) (lo_pricing_policy_version_id w)
                  (lo_arrival_date w) (lo_departure_date w) ps db1) (\<lambda>db2. Inr (tx_revisionId tx, db2))) (\<lambda>(revisionId, db2).
     Inr (updateOrder i (\<lambda>r. r\<lparr>lo_current_revision_id := Some revisionId, lo_version := lo_version w + 1\<rparr>) db2)) = Inr db'"
    using app unfolding applyChannelCommand_def i ctx bindR_simps Let_def scope [unfolded w_def] f(1) appendAmendment_new
      a_def db1_def db0_def w_def goal_def ps_def .
  then obtain rid db2 where d2: "(if goal = contractMinor (oc_revision ctx) then Inr (rv_id (oc_revision ctx), db1)
            else bindR (insertRevision tx i (rv_revision_no (oc_revision ctx) + 1) (tx_amendmentId tx) (lo_pricing_policy_version_id w)
                  (lo_arrival_date w) (lo_departure_date w) ps db1) (\<lambda>db2. Inr (tx_revisionId tx, db2))) = Inr (rid, db2)"
    and db': "db' = updateOrder i (\<lambda>r. r\<lparr>lo_current_revision_id := Some rid, lo_version := lo_version w + 1\<rparr>) db2"
    unfolding bindR_eq_Inr by (auto split: prod.splits)
  note facts = buildChannelFunds_facts [OF inv ctx b, folded w_def, folded goal_def]
  have net: "0 \<le> goal \<and> goal \<le> channelNet db (lo_property_id w) i + ch_amount_minor f" using facts(3) by (simp add: scope f(4))
  have f_ok: "ledgerOk [f]" using facts(2,4) by (auto simp: ledgerOk_def f goal_def)
  have keys1: "keysOk db1" using keysOk_amendment [OF lodgingInvD(3) [OF inv] fresh] by (simp add: db1_def db0_def a_def keysOk_def)
  have "\<exists>rs fs. db2 = db1\<lparr>lb_revisions := lb_revisions db @ rs, lb_channel := lb_channel db @ fs\<rparr> \<and> numbered (revisionsOf db i @ rs)
      \<and> distinct (map rv_id rs) \<and> (\<forall>r\<in>set rs. rv_order_id r = i \<and> rv_id r \<noteq> [] \<and> rv_id r \<notin> rv_id ` set (lb_revisions db))
      \<and> rid = rv_id (last (revisionsOf db i @ rs)) \<and> (\<forall>x\<in>set fs. ch_order_id x = i \<and> ch_property_id x = lo_property_id w) \<and> ledgerOk fs
      \<and> 0 \<le> contractMinor (last (revisionsOf db i @ rs))
      \<and> contractMinor (last (revisionsOf db i @ rs)) \<le> channelNet db (lo_property_id w) i + sum_list (map ch_amount_minor fs)"
  proof (cases "goal = contractMinor (oc_revision ctx)")
    case True
    have "db1 = db1\<lparr>lb_revisions := lb_revisions db @ [], lb_channel := lb_channel db @ [f]\<rparr>" by (simp add: db1_def db0_def)
    moreover have "db2 = db1" "rid = rv_id (oc_revision ctx)" using True d2 by simp_all
    ultimately show ?thesis using True nr net f_ok f(2,3) scope
      by (intro exI [of _ "[]"] exI [of _ "[f]"] conjI) (simp_all add: c(6))
  next
    case False
    with d2 have ins: "insertRevision tx i (rv_revision_no (oc_revision ctx) + 1) (tx_amendmentId tx) (lo_pricing_policy_version_id w)
                  (lo_arrival_date w) (lo_departure_date w) ps db1 = Inr db2" and rid: "rid = tx_revisionId tx" by auto
    obtain r fs where "db2 = db1\<lparr>lb_revisions := lb_revisions db @ [r], lb_channel := lb_channel db @ fs\<rparr>"
      "r = newRevision tx i (rv_revision_no (oc_revision ctx) + 1) (tx_amendmentId tx) (lo_pricing_policy_version_id w)
           (lo_arrival_date w) (lo_departure_date w) ps" "numbered (revisionsOf db i @ [r])"
      "\<forall>f\<in>set fs. ch_order_id f = i \<and> ch_property_id f = lo_property_id w" "ledgerOk fs"
      "channelStay db w \<longrightarrow> 0 \<le> contractMinor r \<and> contractMinor r \<le> channelNet db (lo_property_id w) i + sum_list (map ch_amount_minor fs)"
      by (rule commandRevision [OF inv load fresh ins keys1, of "[f]" a, folded w_def])
        (use net f_ok f(2,3) scope in \<open>auto simp: db1_def db0_def a_def ps_def\<close>)
    then show ?thesis using facts(1) rid freshTxD(1,2) [OF fresh] by (intro exI [of _ "[r]"] exI [of _ fs]) simp
  qed
  then obtain rs fs where db2: "db2 = db1\<lparr>lb_revisions := lb_revisions db @ rs, lb_channel := lb_channel db @ fs\<rparr>"
    and rs: "numbered (revisionsOf db i @ rs)" "distinct (map rv_id rs)"
      "\<forall>r\<in>set rs. rv_order_id r = i \<and> rv_id r \<noteq> [] \<and> rv_id r \<notin> rv_id ` set (lb_revisions db)"
      "rid = rv_id (last (revisionsOf db i @ rs))"
    and fs: "\<forall>x\<in>set fs. ch_order_id x = i \<and> ch_property_id x = lo_property_id w" "ledgerOk fs"
      "0 \<le> contractMinor (last (revisionsOf db i @ rs))
        \<and> contractMinor (last (revisionsOf db i @ rs)) \<le> channelNet db (lo_property_id w) i + sum_list (map ch_amount_minor fs)" by blast
  define revise where "revise = (\<lambda>r :: lodging_order. r\<lparr>lo_current_revision_id := Some rid, lo_version := lo_version w + 1\<rparr>)"
  have fields: "lb_orders db' = updateWhere (\<lambda>r. lo_id r = i) revise (lb_orders db)" "lb_segments db' = lb_segments db" "lb_stays db' = lb_stays db"
    "lb_amendments db' = lb_amendments db @ [a]" "lb_revisions db' = lb_revisions db @ rs" "lb_channel db' = lb_channel db @ fs"
    "lb_inventory db' = lb_inventory db" "lb_nights db' = lb_nights db" "lb_properties db' = lb_properties db" "lb_openings db' = lb_openings db"
    by (simp_all add: db' db2 db1_def db0_def updateOrder_def revise_def)
  show ?thesis
    by (rule sameStay_inv [OF inv c(1), of db' rid "tx_amendmentId tx" command reason "tx_commandId tx" rs fs])
      (use c rs fs lodgingInvD(2) [OF inv] freshTxD(3) [OF fresh] in \<open>simp_all add: fields a_def revise_def\<close>)
qed

end
