(* ===== verification/LodgingCreation.thy ===== *)
theory LodgingCreation
  imports LodgingSafety
begin

text \<open>
  A new order keeps the invariant of the tables: the rows that CREATE_ORDER inserts, the claims on its nights, the
  nights of a member it holds, and the amendments of a backfilled stay.
\<close>

section \<open>A new order\<close>

lemma freshTx_order:
  assumes "freshTx tx db"
  shows "tx_orderId tx \<notin> lo_id ` set (lb_orders db)" "tx_orderId tx \<notin> sy_order_id ` set (lb_stays db)" "revisionsOf db (tx_orderId tx) = []"
    "amendmentsOf db (tx_orderId tx) = []" "channelNet db p (tx_orderId tx) = 0" "heldItems (lb_nights db) (tx_orderId tx) = {}"
    "tx_stayId tx \<notin> sy_id ` set (lb_stays db)" "tx_stayId tx \<notin> ss_stay_id ` set (lb_segments db)"
proof -
  have f: "tx_orderId tx \<notin> rv_order_id ` set (lb_revisions db)" "tx_orderId tx \<notin> am_order_id ` set (lb_amendments db)"
    "tx_orderId tx \<notin> ch_order_id ` set (lb_channel db)" "tx_orderId tx \<notin> cv_order_id ` set (en_coverage (lb_nights db))"
    "tx_orderId tx \<notin> so_source_id ` set (lb_openings db)" using assms by (simp_all add: freshTx_def)
  show "revisionsOf db (tx_orderId tx) = []" "amendmentsOf db (tx_orderId tx) = []" "heldItems (lb_nights db) (tx_orderId tx) = {}"
    using f by (simp_all add: revisionsOf_def amendmentsOf_def heldItems_def filter_empty_conv) (metis imageI)+
  have "filter (\<lambda>x. ch_property_id x = p \<and> ch_order_id x = tx_orderId tx) (lb_channel db) = []"
    using f(3) by (simp add: filter_empty_conv) (metis imageI)
  then have "channelFacts db p (tx_orderId tx) = []" by (simp add: channelFacts_def)
  moreover have "find (\<lambda>s. so_property_id s = p \<and> so_source_kind s = ''CHANNEL_REFUND'' \<and> so_source_id s = tx_orderId tx) (lb_openings db) = None"
    using f(5) by (simp add: find_None_iff) (metis imageI)
  ultimately show "channelNet db p (tx_orderId tx) = 0" by (simp add: channelNet_def openingMinor_def)
qed (use assms in \<open>simp_all add: freshTx_def\<close>)

lemma segmentsOf_created:
  assumes "lb_stays db' = lb_stays db @ [y]" "lb_segments db' = lb_segments db @ [s]" "ss_stay_id s = sy_id y"
    and "sy_id y \<notin> sy_id ` set (lb_stays db)" "sy_order_id y \<notin> sy_order_id ` set (lb_stays db)" "sy_id y \<notin> ss_stay_id ` set (lb_segments db)"
  shows "segmentsOf db' j = (if j = sy_order_id y then {ss_id s} else segmentsOf db j)"
proof -
  let ?R = "\<lambda>d v. \<exists>z\<in>set (lb_stays d). ss_stay_id v = sy_id z \<and> sy_order_id z = j"
  have Q: "segmentsOf d j = ss_id ` {v \<in> set (lb_segments d). ?R d v}" for d by (auto simp: segmentsOf_def)
  have "\<forall>v\<in>set (lb_segments db). ss_stay_id v \<noteq> sy_id y" using assms(6) by (metis imageI)
  moreover have "\<forall>v\<in>set (lb_stays db). sy_id v \<noteq> sy_id y \<and> sy_order_id v \<noteq> sy_order_id y" using assms(4,5) by (metis imageI)
  ultimately have "{v \<in> set (lb_segments db'). ?R db' v} = (if j = sy_order_id y then {s} else {v \<in> set (lb_segments db). ?R db v})"
    by (auto simp: assms(1-3))
  then show ?thesis unfolding Q by simp
qed

text \<open>The tables after the rows of a new order.\<close>

lemma creation_inv:
  assumes inv: "lodgingInv db" and fresh: "freshTx tx db" and w: "lo_id w = tx_orderId tx"
    and orders: "lb_orders db' = lb_orders db @ [w]" and stays: "lb_stays db' = lb_stays db @ [y]" and segs: "lb_segments db' = lb_segments db @ [s]"
    and y: "sy_id y = tx_stayId tx" "sy_order_id y = tx_orderId tx" "sy_status y = stayStateOf (lo_status w)"
    and s: "ss_id s = tx_segmentId tx" "ss_stay_id s = tx_stayId tx"
    and ams: "lb_amendments db' = lb_amendments db @ ams" "map am_sequence ams = [1..lo_version w]" "distinct (map am_id ams)" "1 \<le> lo_version w"
      "\<forall>a\<in>set ams. am_order_id a = tx_orderId tx \<and> am_id a \<notin> am_id ` set (lb_amendments db) \<and> am_new_version a = am_sequence a \<and> am_prior_version a + 1 = am_new_version a"
    and revs: "lb_revisions db' = lb_revisions db @ [r]" "rv_revision_no r = 1" "rv_order_id r = tx_orderId tx" "rv_id r = tx_revisionId tx"
      "lo_current_revision_id w = Some (tx_revisionId tx)"
    and chan: "lb_channel db' = lb_channel db @ fs" "\<forall>x\<in>set fs. ch_order_id x = tx_orderId tx \<and> ch_property_id x = lo_property_id w" "ledgerOk fs"
      "channelStay db w \<longrightarrow> 0 \<le> contractMinor r \<and> contractMinor r \<le> sum_list (map ch_amount_minor fs)"
    and const: "lb_properties db' = lb_properties db" "lb_openings db' = lb_openings db"
    and store: "inventoryInv (lb_inventory db')"
      "\<And>c. \<not> (c_sourceType c = ORDER_SEGMENT \<and> c_sourceId c = tx_segmentId tx) \<Longrightarrow> c \<in> activeClaims (lb_inventory db') \<longleftrightarrow> c \<in> activeClaims (lb_inventory db)"
    and nights: "entInv (lb_nights db')" "heldFrame (tx_orderId tx) (lb_nights db) (lb_nights db')"
    and res: "resourcesOk db' w" and ok: "channelOrderOk w"
  shows "lodgingInv db'"
proof -
  let ?i = "tx_orderId tx"
  note keys = lodgingInvD(3) [OF inv] and fo = freshTx_order [OF fresh] and ft = freshTxD [OF fresh]
  have "distinct (map am_id (lb_amendments db'))"
    unfolding ams(1) using keysOkD(7) [OF keys] ams(3,5) by (blast intro: distinct_keys_append)
  then have keys': "keysOk db'" using keys fo(1,2,7) ft(1,2,7) by (simp add: keysOk_def orders stays segs revs w y s)
  have segsOf: "segmentsOf db' j = (if j = ?i then {tx_segmentId tx} else segmentsOf db j)" for j
    using segmentsOf_created [OF stays segs] y s fo(2,7,8) by simp
  have other: "orderOk db' v" if v: "v \<in> set (lb_orders db)" for v
  proof -
    have ne: "lo_id v \<noteq> ?i" using fo(1) v by (metis imageI)
    show ?thesis
    proof (rule other_order [OF lodgingInvD(4) [OF inv v] ne const _ _ _ _ chan(1)])
      show "{z \<in> set (lb_stays db'). sy_order_id z \<noteq> ?i} = {z \<in> set (lb_stays db). sy_order_id z \<noteq> ?i}" by (auto simp: stays y)
      show g: "segmentsOf db' (lo_id v) = segmentsOf db (lo_id v)" using ne by (simp add: segsOf)
      show "revisionsOf db' (lo_id v) = revisionsOf db (lo_id v)" "amendmentsOf db' (lo_id v) = amendmentsOf db (lo_id v)"
        using revs(3) ams(5) ne by (auto simp: revisionsOf_def amendmentsOf_def revs(1) ams(1) filter_empty_conv)
      show "\<forall>x\<in>set fs. ch_order_id x = ?i" using chan(2) by blast
      have "tx_segmentId tx \<notin> segmentsOf db (lo_id v)" using ft(7) by (auto simp: segmentsOf_def)
      moreover have "\<forall>c. c_sourceId c \<noteq> tx_segmentId tx \<longrightarrow> (c \<in> activeClaims (lb_inventory db') \<longleftrightarrow> c \<in> activeClaims (lb_inventory db))"
        using store(2) by blast
      ultimately show "stayClaims db' (lo_id v) = stayClaims db (lo_id v)" unfolding stayClaims_def g by (metis (mono_tags, lifting))
      show "heldItems (lb_nights db') (lo_id v) \<subseteq> heldItems (lb_nights db) (lo_id v)" using heldFrame_items [OF nights(2) ne] .
    qed
  qed
  have "orderOk db' w"
  proof -
    have "stayOk db' w" using y w by (auto simp: stayOk_def stays segsOf)
    moreover have "revisionsOf db' ?i = [r]" using fo(3) revs(3) by (simp add: revisionsOf_def revs(1))
    moreover have "channelNet db' p ?i = sum_list (map ch_amount_minor fs)" if "p = lo_property_id w" for p
    proof -
      have "filter (\<lambda>x. ch_property_id x = p \<and> ch_order_id x = ?i) fs = fs" using chan(2) that by simp
      then show ?thesis using channelNet_cong [OF chan(1) const(2)] fo(5) by simp
    qed
    ultimately have "revisionsOk db' w" using revs chan(4) numbered_simps(2) [of "[]" r]
      by (simp add: revisionsOk_def Let_def w channelStay_def const)
    moreover have "amendmentsOf db' ?i = ams" using fo(4) ams(5) by (simp add: amendmentsOf_def ams(1))
    then have "amendmentsOk db' w" using ams(2,4,5) by (simp add: amendmentsOk_def w)
    ultimately show ?thesis using \<open>stayOk db' w\<close> res ok by (simp add: orderOk_def)
  qed
  with other have "\<forall>v\<in>set (lb_orders db'). orderOk db' v" by (simp add: orders)
  moreover have "sourcesOk db'"
    unfolding sourcesOk_def
  proof (intro ballI impI)
    fix c assume c: "c \<in> activeClaims (lb_inventory db')" "c_sourceType c \<noteq> ORDER_SEGMENT"
    then have "c \<in> activeClaims (lb_inventory db)" using store(2) by simp
    then have "c_sourceId c \<notin> ss_id ` set (lb_segments db)" "c_sourceId c \<in> c_sourceId ` activeClaims (lb_inventory db)"
      using lodgingInvD(6) [OF inv] c(2) by (auto simp: sourcesOk_def)
    then show "c_sourceId c \<notin> ss_id ` set (lb_segments db')" using ft(8) by (auto simp: segs s)
  qed
  moreover have "ledgerOk (lb_channel db')" using lodgingInvD(5) [OF inv] chan(3) by (simp add: chan(1))
  ultimately show ?thesis using store(1) nights(1) keys' by (simp add: lodgingInv_def)
qed

text \<open>The row of a new order, and the tables up to its first revision.\<close>

definition newOrder :: "transaction \<Rightarrow> string \<Rightarrow> create_effect \<Rightarrow> string option \<times> string option \<Rightarrow> string option \<Rightarrow> string option \<Rightarrow> lodging_order" where
  "newOrder tx propertyId effect channel freeReason freeCategory =
     \<lparr>lo_id = tx_orderId tx, lo_property_id = propertyId,
      lo_status = (case cx_backfill effect of None \<Rightarrow> RESERVED | Some bf \<Rightarrow> bf_status bf), lo_stay_type = cx_stayType effect,
      lo_arrival_date = cx_arrivalDate effect, lo_departure_date = cx_departureDate effect,
      lo_booking_channel_code = fst channel, lo_channel_order_reference = snd channel, lo_free_stay_reason = freeReason,
      lo_free_stay_category_code = freeCategory, lo_pricing_policy_version_id = cx_policyVersionId effect,
      lo_member_id = cx_memberId effect, lo_member_contract_id = cx_memberContractId effect,
      lo_current_revision_id = None, lo_version = 1\<rparr>"

lemma newOrder_sel [simp]:
  "lo_id (newOrder tx p effect ch fr fc) = tx_orderId tx" "lo_property_id (newOrder tx p effect ch fr fc) = p"
  "lo_arrival_date (newOrder tx p effect ch fr fc) = cx_arrivalDate effect" "lo_departure_date (newOrder tx p effect ch fr fc) = cx_departureDate effect"
  "lo_status (newOrder tx p effect ch fr fc) = (case cx_backfill effect of None \<Rightarrow> RESERVED | Some bf \<Rightarrow> bf_status bf)"
  "lo_version (newOrder tx p effect ch fr fc) = 1" "isMember (newOrder tx p effect ch fr fc) \<longleftrightarrow> memberStay effect"
  "lo_booking_channel_code (newOrder tx p effect ch fr fc) = fst ch" "lo_stay_type (newOrder tx p effect ch fr fc) = cx_stayType effect"
  by (simp_all add: newOrder_def isMember_def memberStay_def)

lemma orderChannel_ok: "orderChannel effect = Inr channel \<Longrightarrow> channelOrderOk (newOrder tx p effect channel fr fc)"
  by (auto simp: orderChannel_def channelOrderOk_def externalChannel_def Let_def split: if_splits)

lemma checkBackfill_ok: "checkBackfill effect reason = Inr () \<Longrightarrow> cx_backfill effect = Some bf \<Longrightarrow>
    bf_status bf = CHECKED_OUT \<and> bf_stayStatus bf = COMPLETED \<or> bf_status bf = CHECKED_IN \<and> bf_stayStatus bf = IN_HOUSE"
  by (auto simp: checkBackfill_def Let_def split: if_splits)

lemma updateWhere_append_new: "i \<notin> k ` set xs \<Longrightarrow> k w = i \<Longrightarrow> updateWhere (\<lambda>r. k r = i) f (xs @ [w]) = xs @ [f w]"
  by (auto simp: updateWhere_def image_iff intro!: map_idI)

lemma holdNights_Inr:
  assumes h: "holdNights tx effect i db = Inr db'" and inv: "entInv (lb_nights db)" and fresh: "freshItems (tx_entitlement tx) (lb_nights db)"
  obtains nights where "db' = db\<lparr>lb_nights := nights\<rparr>" "entInv nights" "heldFrame i (lb_nights db) nights"
    "\<not> memberStay effect \<longrightarrow> nights = lb_nights db"
proof (cases "truthyId (cx_memberContractId effect)")
  case None
  then show thesis using h inv by (intro that [of "lb_nights db"]) (simp_all add: holdNights_def)
next
  case (Some c)
  with h obtain refs n nights where n: "holdCoverage (tx_entitlement tx) i c (cx_memberId effect) (tx_revisionId tx)
            (ps_coverageSet (cx_pricing effect)) (tx_commandId tx) (lb_nights db) = Inr (refs, n)"
    and b: "bumpMembershipForCoverage (ps_coverageSet (cx_pricing effect)) n = Inr nights" and db': "db' = db\<lparr>lb_nights := nights\<rparr>"
    by (auto simp: holdNights_def)
  from b have "\<exists>owners. nights = n \<or> nights = incrementOwners owners n"
    by (auto simp: bumpMembershipForCoverage_def Let_def split: if_splits)
  then show thesis using db' Some holdCoverage_inv [OF inv fresh n] holdCoverage_frame [OF n]
    by (intro that [of nights]) (auto simp: memberStay_def)
qed

lemma applyCreateOrder_unpack:
  assumes "applyCreateOrder view tx p reason effect db = Inr db'"
  obtains channel fr fc db2 dates cids db4 db5 where
    "checkBackfill effect reason = Inr ()" "orderChannel effect = Inr channel"
    "insertRevision tx (tx_orderId tx) 1 (tx_amendmentId tx) (cx_policyVersionId effect) (cx_arrivalDate effect) (cx_departureDate effect)
       (cx_pricing effect) (insertOrder tx (tx_orderId tx) (tx_stayId tx) p reason effect channel fr fc db) = Inr db2"
    "enumerateServiceDates (cx_arrivalDate effect) (cx_departureDate effect) = Inr dates"
    "claimNights view tx p (cx_unitId effect) dates []
       (updateOrder (tx_orderId tx) (\<lambda>r. r\<lparr>lo_current_revision_id := Some (tx_revisionId tx)\<rparr>) db2) = Inr (cids, db4)"
    "holdNights tx effect (tx_orderId tx) db4 = Inr db5"
    "(case cx_backfill effect of None \<Rightarrow> Inr db5 | Some bf \<Rightarrow> applyBackfill tx (tx_orderId tx) reason effect bf db5) = Inr db'"
proof -
  have "bindR (checkTemporary effect) (\<lambda>_.
        bindR (checkBackfill effect reason) (\<lambda>_.
        bindR (orderChannel effect) (\<lambda>channel.
        bindR (freeText effect (cx_freeStayReason effect)) (\<lambda>fr.
        bindR (freeText effect (cx_freeStayCategoryCode effect)) (\<lambda>fc.
        bindR (insertRevision tx (tx_orderId tx) 1 (tx_amendmentId tx) (cx_policyVersionId effect) (cx_arrivalDate effect) (cx_departureDate effect)
            (cx_pricing effect) (insertOrder tx (tx_orderId tx) (tx_stayId tx) p reason effect channel fr fc db)) (\<lambda>db2.
        bindR (enumerateServiceDates (cx_arrivalDate effect) (cx_departureDate effect)) (\<lambda>dates.
        bindR (claimNights view tx p (cx_unitId effect) dates []
           (updateOrder (tx_orderId tx) (\<lambda>r. r\<lparr>lo_current_revision_id := Some (tx_revisionId tx)\<rparr>) db2)) (\<lambda>(_, db4).
        bindR (holdNights tx effect (tx_orderId tx) db4) (\<lambda>db5.
        case cx_backfill effect of None \<Rightarrow> Inr db5 | Some bf \<Rightarrow> applyBackfill tx (tx_orderId tx) reason effect bf db5))))))))) = Inr db'"
    using assms unfolding applyCreateOrder_def Let_def by (simp only: split: if_splits) simp_all
  then show thesis unfolding bindR_eq_Inr split_paired_Ex prod.case by (elim exE conjE) (rule that; (assumption | simp))
qed

lemma applyBackfill_Inr:
  assumes app: "applyBackfill tx i reason effect bf db = Inr db'" and nm: "\<not> memberStay effect" and inv: "inventoryInv (lb_inventory db)"
  defines "a2 \<equiv> newAmendment (tx_secondAmendmentId tx) i 2 ''CHECK_IN'' reason 1 (tx_commandId tx)"
    and "a3 \<equiv> newAmendment (tx_thirdAmendmentId tx) i 3 ''CHECK_OUT'' reason 2 (tx_commandId tx)"
  obtains store facts where
    "db' = db\<lparr>lb_amendments := lb_amendments db @ (if bf_status bf = CHECKED_OUT then [a2, a3] else [a2]), lb_inventory := store,
       lb_orders := updateWhere (\<lambda>r. lo_id r = i) (\<lambda>r. r\<lparr>lo_version := (if bf_status bf = CHECKED_OUT then 3 else 2)\<rparr>) (lb_orders db),
       lb_facts := facts\<rparr>"
    "inventoryInv store"
    "activeClaims store = {c \<in> activeClaims (lb_inventory db). bf_status bf = CHECKED_OUT \<longrightarrow> \<not> inSources ORDER_SEGMENT [tx_segmentId tx] c}"
proof -
  have nc: "truthyId (cx_memberContractId effect) = None" using nm by (simp add: memberStay_def)
  define db1 where "db1 = db\<lparr>lb_amendments := lb_amendments db @ (if bf_status bf = CHECKED_OUT then [a2, a3] else [a2])\<rparr>"
  obtain ids store where rel: "releaseOrderClaims [tx_segmentId tx] db1 = Inr (ids, db1\<lparr>lb_inventory := store\<rparr>)" "inventoryInv store"
    "activeClaims store = {c \<in> activeClaims (lb_inventory db). \<not> inSources ORDER_SEGMENT [tx_segmentId tx] c}"
    using releaseOrderClaims_Inr [of db1 "[tx_segmentId tx]"] inv by (auto simp: db1_def)
  define store' where "store' = (if bf_status bf = CHECKED_OUT then store else lb_inventory db)"
  define db4 where "db4 = updateOrder i (\<lambda>r. r\<lparr>lo_version := (if bf_status bf = CHECKED_OUT then 3 else 2)\<rparr>) (db1\<lparr>lb_inventory := store'\<rparr>)"
  have mid: "(if bf_status bf = CHECKED_OUT then bindR (releaseOrderClaims [tx_segmentId tx]
          (appendAmendment (tx_thirdAmendmentId tx) i 3 ''CHECK_OUT'' reason 2 (tx_commandId tx)
            (appendAmendment (tx_secondAmendmentId tx) i 2 ''CHECK_IN'' reason 1 (tx_commandId tx) db))) (\<lambda>(_, db2).
          if truthyId (cx_memberContractId effect) = None then Inr db2
          else bindR (consumeCoverage (tx_entitlement tx) i (tx_commandId tx) None consumeReason (lb_nights db2)) (\<lambda>r.
            Inr (snd (withNights db2 r))))
        else Inr (appendAmendment (tx_secondAmendmentId tx) i 2 ''CHECK_IN'' reason 1 (tx_commandId tx) db)) = Inr (db1\<lparr>lb_inventory := store'\<rparr>)"
    using rel(1) by (cases "bf_status bf = CHECKED_OUT") (simp_all add: appendAmendment_new a2_def [symmetric] a3_def [symmetric] db1_def store'_def nc)
  have "\<exists>facts. db' = db4\<lparr>lb_facts := facts\<rparr>"
  proof (cases "bf_collection bf")
    case None
    then have "db' = db4\<lparr>lb_facts := lb_facts db4\<rparr>" using app by (simp add: applyBackfill_def mid db4_def)
    then show ?thesis ..
  next
    case (Some col)
    then have "db' = db4\<lparr>lb_facts := lb_facts db4\<rparr> \<or> db' = db4\<lparr>lb_facts := lb_facts db4 @ [backfillFact tx i effect reason col]\<rparr>"
      using app by (auto simp: applyBackfill_def mid db4_def Let_def split: if_splits)
    then show ?thesis by blast
  qed
  then obtain facts where "db' = db4\<lparr>lb_facts := facts\<rparr>" ..
  then show thesis using rel(2,3) inv
    by (intro that [of facts store']) (simp_all add: db4_def db1_def updateOrder_def store'_def)
qed

text \<open>The claims on the nights of a new segment are all that the order holds.\<close>

lemma nightsHeld_new:
  assumes "activeClaims (lb_inventory db') = A \<union> new" "tx_segmentId tx \<notin> c_sourceId ` A" "claimsOn (tx_segmentId tx) dates new"
    and "segmentsOf db' i = {tx_segmentId tx}" "enumerateServiceDates a d = Inr dates"
  shows "nightsHeld db' i a d"
proof -
  have "stayClaims db' i = new" using assms(1-4) by (auto simp: stayClaims_def claimsOn_def image_iff)
  then show ?thesis using assms(3,5) by (auto simp: nightsHeld_def claimsOn_def)
qed

lemma applyCreateOrder_inv:
  assumes inv: "lodgingInv db" and fresh: "freshTx tx db" and adm: "backfillAdmitted effect"
    and app: "applyCreateOrder view tx p reason effect db = Inr db'"
  shows "lodgingInv db'"
proof -
  let ?i = "tx_orderId tx" and ?cur = "\<lambda>r :: lodging_order. r\<lparr>lo_current_revision_id := Some (tx_revisionId tx)\<rparr>"
  obtain channel fr fc db2 dates cids db4 db5 where chk: "checkBackfill effect reason = Inr ()" and ch: "orderChannel effect = Inr channel"
    and ins: "insertRevision tx ?i 1 (tx_amendmentId tx) (cx_policyVersionId effect) (cx_arrivalDate effect) (cx_departureDate effect)
       (cx_pricing effect) (insertOrder tx ?i (tx_stayId tx) p reason effect channel fr fc db) = Inr db2"
    and dates: "enumerateServiceDates (cx_arrivalDate effect) (cx_departureDate effect) = Inr dates"
    and cl: "claimNights view tx p (cx_unitId effect) dates [] (updateOrder ?i ?cur db2) = Inr (cids, db4)"
    and h: "holdNights tx effect ?i db4 = Inr db5"
    and bf: "(case cx_backfill effect of None \<Rightarrow> Inr db5 | Some bf \<Rightarrow> applyBackfill tx ?i reason effect bf db5) = Inr db'"
    by (rule applyCreateOrder_unpack [OF app])
  note fo = freshTx_order [OF fresh] and ft = freshTxD [OF fresh] and keys = lodgingInvD(3) [OF inv]
  define w where "w = newOrder tx p effect channel fr fc"
  define st where "st = (case cx_backfill effect of None \<Rightarrow> PLANNED | Some bf \<Rightarrow> bf_stayStatus bf)"
  define y where "y = \<lparr>sy_id = tx_stayId tx, sy_order_id = ?i, sy_status = st\<rparr>"
  define s where "s = \<lparr>ss_id = tx_segmentId tx, ss_stay_id = tx_stayId tx, ss_sequence = 1, ss_inventory_unit_id = cx_unitId effect,
      ss_arrival_date = cx_arrivalDate effect, ss_departure_date = cx_departureDate effect, ss_segment_type = ''INITIAL'',
      ss_supersedes_segment_id = None, ss_amendment_id = tx_amendmentId tx\<rparr>"
  define a where "a = newAmendment (tx_amendmentId tx) ?i 1 ''CREATE_ORDER'' reason 0 (tx_commandId tx)"
  define os where "os = lb_occupants db @ map (\<lambda>p. p\<lparr>oa_order_id := ?i, oa_command_id := tx_commandId tx\<rparr>) (cx_occupants effect)"
  define db1 where "db1 = db\<lparr>lb_orders := lb_orders db @ [w], lb_occupants := os, lb_stays := lb_stays db @ [y], lb_segments := lb_segments db @ [s],
      lb_amendments := lb_amendments db @ [a]\<rparr>"
  have db1: "insertOrder tx ?i (tx_stayId tx) p reason effect channel fr fc db = db1"
    unfolding insertOrder_def Let_def appendAmendment_new db1_def w_def newOrder_def y_def st_def s_def a_def os_def by simp
  have w: "lo_id w = ?i" "lo_property_id w = p" and okw: "channelOrderOk w" using orderChannel_ok [OF ch] by (simp_all add: w_def)
  have keys1: "keysOk db1" using keys fo(1,2,7) ft(3,7) by (simp add: keysOk_def db1_def w y_def s_def a_def)
  have r0: "revisionsOf db1 ?i = []" and net: "channelNet db1 p ?i = 0"
    using fo(3) channelNet_cong [of db1 db "[]" p ?i] fo(5) by (simp_all add: revisionsOf_def db1_def)
  obtain fs where db2: "db2 = db1\<lparr>lb_revisions := lb_revisions db1 @ [newRevision tx ?i 1 (tx_amendmentId tx) (cx_policyVersionId effect)
       (cx_arrivalDate effect) (cx_departureDate effect) (cx_pricing effect)], lb_channel := lb_channel db1 @ fs\<rparr>"
    and fs: "\<forall>f\<in>set fs. ch_order_id f = ?i \<and> ch_property_id f = p" "ledgerOk fs"
      "channelStay db1 w \<longrightarrow> 0 \<le> ps_currentContractAmountMinor (cx_pricing effect)
       \<and> ps_currentContractAmountMinor (cx_pricing effect) \<le> sum_list (map ch_amount_minor fs)"
    by (rule insertRevision_Inr [OF ins [unfolded db1] keys1, of w a])
      (use ft(1,2) w okw r0 net in \<open>auto simp: priorMinor_def db1_def a_def\<close>)
  define r where "r = newRevision tx ?i 1 (tx_amendmentId tx) (cx_policyVersionId effect) (cx_arrivalDate effect) (cx_departureDate effect) (cx_pricing effect)"
  define db3 where "db3 = db1\<lparr>lb_orders := lb_orders db @ [?cur w], lb_revisions := lb_revisions db @ [r], lb_channel := lb_channel db @ fs\<rparr>"
  have db3: "updateOrder ?i ?cur db2 = db3"
    using updateWhere_append_new [of ?i lo_id "lb_orders db" w ?cur] fo(1) w(1) by (simp add: updateOrder_def db2 db3_def db1_def r_def)
  have inv3: "lb_inventory db3 = lb_inventory db" "lb_nights db3 = lb_nights db" by (simp_all add: db3_def db1_def)
  obtain store new where db4: "db4 = db3\<lparr>lb_inventory := store\<rparr>" and store: "inventoryInv store"
    "activeClaims store = activeClaims (lb_inventory db) \<union> new" and new: "claimsOn (tx_segmentId tx) dates new"
    by (rule claimNights_Inr [OF _ cl [unfolded db3] enumerateServiceDates_facts(4) [OF dates] ft(9)])
      (use lodgingInvD(1) [OF inv] in \<open>auto simp: inv3\<close>)
  obtain nights where db5: "db5 = db4\<lparr>lb_nights := nights\<rparr>" and nights: "entInv nights" "heldFrame ?i (lb_nights db) nights"
    and nm: "\<not> memberStay effect \<longrightarrow> nights = lb_nights db"
    by (rule holdNights_Inr [OF h]) (use lodgingInvD(2) [OF inv] ft(10) in \<open>auto simp: db4 inv3\<close>)
  define past where "past \<longleftrightarrow> (\<exists>bf. cx_backfill effect = Some bf \<and> bf_status bf = CHECKED_OUT)"
  have "\<exists>store' facts ams ver. db' = db5\<lparr>lb_amendments := lb_amendments db @ ams, lb_inventory := store', lb_orders := lb_orders db @ [(?cur w)\<lparr>lo_version := ver\<rparr>],
       lb_facts := facts\<rparr> \<and> inventoryInv store' \<and> activeClaims store' = {c \<in> activeClaims store. past \<longrightarrow> \<not> inSources ORDER_SEGMENT [tx_segmentId tx] c}
       \<and> map am_sequence ams = [1..ver] \<and> 1 \<le> ver \<and> distinct (map am_id ams)
       \<and> (\<forall>x\<in>set ams. am_order_id x = ?i \<and> am_id x \<notin> am_id ` set (lb_amendments db) \<and> am_new_version x = am_sequence x \<and> am_prior_version x + 1 = am_new_version x)"
  proof (cases "cx_backfill effect")
    case None
    then have "db' = db5" using bf by simp
    show ?thesis unfolding \<open>db' = db5\<close> using None store(1) ft(3)
      by (intro exI [of _ store] exI [of _ "lb_facts db5"] exI [of _ "[a]"] exI [of _ 1])
        (simp add: db5 db4 db3_def db1_def a_def past_def w_def newOrder_def)
  next
    case (Some b)
    then have nm': "\<not> memberStay effect" using adm by (simp add: backfillAdmitted_def)
    obtain store' facts where b: "db' = db5\<lparr>lb_amendments := lb_amendments db5 @ (if bf_status b = CHECKED_OUT
         then [newAmendment (tx_secondAmendmentId tx) ?i 2 ''CHECK_IN'' reason 1 (tx_commandId tx), newAmendment (tx_thirdAmendmentId tx) ?i 3 ''CHECK_OUT'' reason 2 (tx_commandId tx)]
         else [newAmendment (tx_secondAmendmentId tx) ?i 2 ''CHECK_IN'' reason 1 (tx_commandId tx)]), lb_inventory := store',
       lb_orders := updateWhere (\<lambda>r. lo_id r = ?i) (\<lambda>r. r\<lparr>lo_version := (if bf_status b = CHECKED_OUT then 3 else 2)\<rparr>) (lb_orders db5), lb_facts := facts\<rparr>"
      "inventoryInv store'" "activeClaims store' = {c \<in> activeClaims (lb_inventory db5). bf_status b = CHECKED_OUT \<longrightarrow> \<not> inSources ORDER_SEGMENT [tx_segmentId tx] c}"
      by (rule applyBackfill_Inr [of tx ?i reason effect b db5 db']) (use bf Some nm' store(1) in \<open>auto simp: db5 db4\<close>)
    have u: "updateWhere (\<lambda>r. lo_id r = ?i) f (lb_orders db @ [?cur w]) = lb_orders db @ [f (?cur w)]" for f
      using updateWhere_append_new [of ?i lo_id "lb_orders db" "?cur w" f] fo(1) w(1) by simp
    show ?thesis
    proof (cases "bf_status b = CHECKED_OUT")
      case True
      then show ?thesis using b Some ft(3-6)
        by (intro exI [of _ store'] exI [of _ facts] exI [of _ "[a, newAmendment (tx_secondAmendmentId tx) ?i 2 ''CHECK_IN'' reason 1 (tx_commandId tx),
             newAmendment (tx_thirdAmendmentId tx) ?i 3 ''CHECK_OUT'' reason 2 (tx_commandId tx)]"] exI [of _ 3])
          (simp add: u db5 db4 db3_def db1_def a_def past_def upto_rec1 [of 1] upto_rec1 [of 2] upto_rec1 [of 3])
    next
      case False
      then show ?thesis using b Some ft(3-6)
        by (intro exI [of _ store'] exI [of _ facts] exI [of _ "[a, newAmendment (tx_secondAmendmentId tx) ?i 2 ''CHECK_IN'' reason 1 (tx_commandId tx)]"] exI [of _ 2])
          (simp add: u db5 db4 db3_def db1_def a_def past_def upto_rec1 [of 1] upto_rec1 [of 2])
    qed
  qed
  then obtain store' facts ams ver where db': "db' = db5\<lparr>lb_amendments := lb_amendments db @ ams, lb_inventory := store',
       lb_orders := lb_orders db @ [(?cur w)\<lparr>lo_version := ver\<rparr>], lb_facts := facts\<rparr>"
    and store': "inventoryInv store'" "activeClaims store' = {c \<in> activeClaims store. past \<longrightarrow> \<not> inSources ORDER_SEGMENT [tx_segmentId tx] c}"
    and ams: "map am_sequence ams = [1..ver]" "1 \<le> ver" "distinct (map am_id ams)"
      "\<forall>x\<in>set ams. am_order_id x = ?i \<and> am_id x \<notin> am_id ` set (lb_amendments db) \<and> am_new_version x = am_sequence x \<and> am_prior_version x + 1 = am_new_version x"
    by blast
  define w' where "w' = (?cur w)\<lparr>lo_version := ver\<rparr>"
  have fields: "lb_orders db' = lb_orders db @ [w']" "lb_stays db' = lb_stays db @ [y]" "lb_segments db' = lb_segments db @ [s]"
    "lb_amendments db' = lb_amendments db @ ams" "lb_revisions db' = lb_revisions db @ [r]" "lb_channel db' = lb_channel db @ fs"
    "lb_inventory db' = store'" "lb_nights db' = nights" "lb_properties db' = lb_properties db" "lb_openings db' = lb_openings db"
    by (simp_all add: db' w'_def db5 db4 db3_def db1_def)
  have w': "lo_id w' = ?i" "lo_property_id w' = p" "lo_version w' = ver" "lo_current_revision_id w' = Some (tx_revisionId tx)"
    "lo_status w' = lo_status w" "lo_arrival_date w' = cx_arrivalDate effect" "lo_departure_date w' = cx_departureDate effect"
    "channelOrderOk w'" "channelStay db w' = channelStay db1 w"
    using w okw by (simp_all add: w'_def channelOrderOk_def isMember_def channelStay_def db1_def) (simp_all add: w_def)
  have status: "lo_status w = CHECKED_OUT \<and> past \<and> \<not> memberStay effect \<and> st = COMPLETED \<or> openOrder w \<and> \<not> past \<and> st = stayStateOf (lo_status w)"
    using chk adm by (cases "cx_backfill effect") (auto dest: checkBackfill_ok simp: w_def st_def past_def openOrder_def backfillAdmitted_def)
  have segsOf: "segmentsOf db' ?i = {tx_segmentId tx}"
    using segmentsOf_created [OF fields(2,3)] fo(2,7,8) by (simp add: s_def y_def)
  have "resourcesOk db' w'"
  proof (cases past)
    case True
    have "stayClaims db' ?i = {}" using True segsOf by (auto simp: stayClaims_def fields store'(2) inSources_def)
    moreover have "heldItems nights ?i = {}" using status True fo(6) nm by auto
    ultimately show ?thesis using status True w' by (auto simp: resourcesOk_def openOrder_def fields)
  next
    case False
    have "nightsHeld db' ?i (cx_arrivalDate effect) (cx_departureDate effect)"
      by (rule nightsHeld_new [OF _ ft(8) new segsOf dates]) (use False store in \<open>auto simp: fields store'(2)\<close>)
    then show ?thesis using status False w' by (auto simp: resourcesOk_def openOrder_def)
  qed
  moreover have "c \<in> activeClaims store' \<longleftrightarrow> c \<in> activeClaims (lb_inventory db)" if "\<not> (c_sourceType c = ORDER_SEGMENT \<and> c_sourceId c = tx_segmentId tx)" for c
    using that new by (auto simp: store'(2) store(2) inSources_def claimsOn_def)
  ultimately show ?thesis
    by (intro creation_inv [OF inv fresh w'(1) fields(1-3) _ _ _ _ _ fields(4) _ _ _ _ fields(5) _ _ _ _ fields(6) _ fs(2) _ fields(9,10)])
      (use w' ams fs status store' nights in \<open>auto simp: fields y_def s_def r_def\<close>)
qed

end
