(* ===== verification/LodgingDates.thy ===== *)
theory LodgingDates
  imports LodgingSafety "HOL-Library.Multiset"
begin

text \<open>
  The commands that change the dates of a stay keep the invariant of the tables: the nights released and added are
  the difference of two timelines, so that the stay holds exactly one claim on each of its new nights.
\<close>

section \<open>Timelines and their difference\<close>

lemma planned_dates:
  assumes "planStayDateChangeTimeline current oldArr oldDep newArr newDep = Inr plan"
  shows "enumerateServiceDates newArr newDep = Inr (map ti_serviceDate plan)"
  using assms
  by (auto simp: planStayDateChangeTimeline_def Let_def comp_def assertCompleteTimeline_iff completeTimeline_def split: if_splits)

lemma mapR_dates: "mapR (nightOf claims) ds = Inr items \<Longrightarrow> map ti_serviceDate items = ds"
proof (induction ds arbitrary: items)
  case (Cons d ds)
  then obtain x xs where "nightOf claims d = Inr x" "mapR (nightOf claims) ds = Inr xs" "items = x # xs" by auto
  moreover from this Cons.IH have "map ti_serviceDate xs = ds" by simp
  ultimately show ?case by (auto simp: nightOf_def split: list.splits)
qed simp

lemma active_dates:
  "loadActiveStayTimeline db ctx = Inr current \<Longrightarrow>
    enumerateServiceDates (lo_arrival_date (oc_order ctx)) (lo_departure_date (oc_order ctx)) = Inr (map ti_serviceDate current)"
  by (auto simp: loadActiveStayTimeline_def Let_def split: if_splits dest: mapR_dates)

text \<open>The dates of the difference: released and kept ones make up the old dates, added and kept ones the new dates.\<close>

lemma diff_dates:
  assumes before: "enumerateServiceDates a d = Inr (map ti_serviceDate xs)" and after: "enumerateServiceDates a' d' = Inr (map ti_serviceDate ys)"
  defines "D \<equiv> timelinePairDiff xs ys"
  shows "ti_serviceDate ` set (added D) \<inter> ti_serviceDate ` set (preserved D) = {}"
    "ti_serviceDate ` set (released D) = ti_serviceDate ` set xs - ti_serviceDate ` set (preserved D)"
    "ti_serviceDate ` set ys = ti_serviceDate ` set (preserved D) \<union> ti_serviceDate ` set (added D)"
    "distinct (map ti_serviceDate (added D))"
proof -
  have ld: "\<forall>i\<in>set xs \<union> set ys. localDate (ti_serviceDate i)"
    using enumerateServiceDates_facts(9) [OF before] enumerateServiceDates_facts(9) [OF after] by auto
  have P: "set (preserved D) = set xs \<inter> set ys" "set (released D) = set xs - set ys" "set (added D) = set ys - set xs"
    using ld pairKey_mem [of xs] pairKey_mem [of ys] by (auto simp: D_def timelinePairDiff_def Let_def simp del: set_map)
  have dx: "i = j" if "i \<in> set xs" "j \<in> set xs" "ti_serviceDate i = ti_serviceDate j" for i j
    using enumerateServiceDates_facts(4) [OF before] that by (auto simp: distinct_map dest: inj_onD)
  have dy: "i = j" if "i \<in> set ys" "j \<in> set ys" "ti_serviceDate i = ti_serviceDate j" for i j
    using enumerateServiceDates_facts(4) [OF after] that by (auto simp: distinct_map dest: inj_onD)
  show "ti_serviceDate ` set (added D) \<inter> ti_serviceDate ` set (preserved D) = {}" unfolding P using dy by blast
  show "ti_serviceDate ` set (released D) = ti_serviceDate ` set xs - ti_serviceDate ` set (preserved D)" unfolding P using dx by blast
  show "ti_serviceDate ` set ys = ti_serviceDate ` set (preserved D) \<union> ti_serviceDate ` set (added D)" unfolding P by blast
  show "distinct (map ti_serviceDate (added D))"
    using enumerateServiceDates_facts(4) [OF after] by (auto simp: D_def timelinePairDiff_def Let_def distinct_map_filter)
qed

lemma jmap_set_dates:
  "mset (concat (map snd (jmap_set k ((case jmap_get m k of None \<Rightarrow> [] | Some ds \<Rightarrow> ds) @ [d]) m))) = add_mset d (mset (concat (map snd m)))"
  by (induction m) (auto simp: jmap_get_def)

lemma addedByUnit_dates: "mset (concat (map snd (addedByUnit items))) = mset (map ti_serviceDate items)"
proof -
  let ?f = "\<lambda>item m. jmap_set (ti_inventoryUnitId item) ((case jmap_get m (ti_inventoryUnitId item) of None \<Rightarrow> [] | Some dates \<Rightarrow> dates) @ [ti_serviceDate item]) m"
  have "mset (concat (map snd (fold ?f items m))) = mset (concat (map snd m)) + mset (map ti_serviceDate items)" for m
    by (induction items arbitrary: m) (simp_all add: jmap_set_dates)
  then show ?thesis by (simp add: addedByUnit_def)
qed

section \<open>Claiming the added nights\<close>

lemma claimsOn_empty: "claimsOn seg [] {}" by (simp add: claimsOn_def)

lemma claimsOn_union:
  assumes "claimsOn seg ds A" "claimsOn seg es B" "set ds \<inter> set es = {}"
  shows "claimsOn seg (ds @ es) (A \<union> B)"
proof -
  have A: "\<forall>c\<in>A. c_serviceDate c \<in> set ds" "\<forall>d\<in>set ds. \<exists>!c. c \<in> A \<and> c_serviceDate c = d" using assms(1) by (simp_all add: claimsOn_def)
  have B: "\<forall>c\<in>B. c_serviceDate c \<in> set es" "\<forall>d\<in>set es. \<exists>!c. c \<in> B \<and> c_serviceDate c = d" using assms(2) by (simp_all add: claimsOn_def)
  have "\<exists>!c. c \<in> A \<union> B \<and> c_serviceDate c = d" if d: "d \<in> set (ds @ es)" for d
  proof (cases "d \<in> set ds")
    case True
    then have "c \<in> A \<union> B \<and> c_serviceDate c = d \<longleftrightarrow> c \<in> A \<and> c_serviceDate c = d" for c using assms(3) B(1) by blast
    then show ?thesis using A(2) True by simp
  next
    case False
    then have "c \<in> A \<union> B \<and> c_serviceDate c = d \<longleftrightarrow> c \<in> B \<and> c_serviceDate c = d" for c using A(1) by blast
    then show ?thesis using B(2) False d by simp
  qed
  moreover have "\<forall>c\<in>A \<union> B. c_active c \<and> c_sourceType c = ORDER_SEGMENT \<and> c_sourceId c = seg \<and> c_serviceDate c \<in> set (ds @ es)"
    using assms(1,2) by (auto simp: claimsOn_def)
  ultimately show ?thesis by (simp add: claimsOn_def)
qed

lemma claimsOn_cong: "set ds = set es \<Longrightarrow> claimsOn seg ds A \<Longrightarrow> claimsOn seg es A" by (simp add: claimsOn_def)

lemma claimAdded_Inr:
  assumes "foldR (claimAdded view tx p X) (n, db) es = Inr (n', db')" and "inventoryInv (lb_inventory db)" and "distinct (concat (map snd es))"
    and "\<forall>u d. tx_claimIds tx u d \<noteq> []"
    and "\<forall>c\<in>activeClaims (lb_inventory db). c_serviceDate c \<in> set (concat (map snd es)) \<longrightarrow> c_sourceId c \<notin> set X"
  shows "\<exists>store new. db' = db\<lparr>lb_inventory := store\<rparr> \<and> inventoryInv store \<and> activeClaims store = activeClaims (lb_inventory db) \<union> new
     \<and> claimsOn (tx_segmentId tx) (concat (map snd es)) new"
  using assms
proof (induction es arbitrary: n db)
  case Nil
  then show ?case by (intro exI [of _ "lb_inventory db"] exI [of _ "{}"]) (simp add: claimsOn_empty)
next
  case (Cons e es)
  obtain u ds where e: "e = (u, ds)" by (cases e)
  from Cons.prems(1) obtain cids db1 where c: "claimNights view tx p u ds X db = Inr (cids, db1)"
    and rest: "foldR (claimAdded view tx p X) (n + length cids, db1) es = Inr (n', db')" by (auto simp: e claimAdded_def)
  obtain store new where s: "db1 = db\<lparr>lb_inventory := store\<rparr>" "inventoryInv store" "activeClaims store = activeClaims (lb_inventory db) \<union> new"
    "claimsOn (tx_segmentId tx) ds new"
    by (rule claimNights_Inr [OF Cons.prems(2) c]) (use Cons.prems in \<open>auto simp: e\<close>)
  have "\<forall>c\<in>activeClaims (lb_inventory db1). c_serviceDate c \<in> set (concat (map snd es)) \<longrightarrow> c_sourceId c \<notin> set X"
    using Cons.prems(3,5) s(4) by (auto simp: s(1,3) e claimsOn_def)
  from Cons.IH [OF rest _ _ Cons.prems(4) this] Cons.prems(3) s(2) obtain store' new' where "db' = db1\<lparr>lb_inventory := store'\<rparr>" "inventoryInv store'"
    "activeClaims store' = activeClaims store \<union> new'" "claimsOn (tx_segmentId tx) (concat (map snd es)) new'" by (auto simp: s(1) e)
  moreover have "claimsOn (tx_segmentId tx) (ds @ concat (map snd es)) (new \<union> new')"
    using Cons.prems(3) by (intro claimsOn_union s(4) calculation) (simp add: e)
  ultimately show ?case using s(1,3) by (intro exI [of _ store'] exI [of _ "new \<union> new'"]) (simp add: e Un_assoc)
qed

text \<open>The claims of a stay after nights were released and others claimed for a new segment.\<close>

lemma nightsHeld_change:
  assumes old: "nightsHeld db i a d" "enumerateServiceDates a d = Inr ds" and new: "enumerateServiceDates a' d' = Inr es"
    and claims: "stayClaims db' i = {c \<in> stayClaims db i. c_serviceDate c \<notin> R} \<union> N" and N: "claimsOn seg A N"
    and dates: "set es = (set ds - R) \<union> set A" "set A \<inter> (set ds - R) = {}"
  shows "nightsHeld db' i a' d'"
proof -
  from old have o: "\<forall>c\<in>stayClaims db i. c_serviceDate c \<in> set ds" "\<forall>x\<in>set ds. \<exists>!c. c \<in> stayClaims db i \<and> c_serviceDate c = x"
    by (auto simp: nightsHeld_def)
  have "\<exists>!c. c \<in> stayClaims db' i \<and> c_serviceDate c = x" if x: "x \<in> set es" for x
  proof (cases "x \<in> set A")
    case True
    then have "x \<notin> set ds - R" using dates(2) by blast
    then have "c \<in> stayClaims db' i \<and> c_serviceDate c = x \<longleftrightarrow> c \<in> N \<and> c_serviceDate c = x" for c using o(1) by (auto simp: claims)
    then show ?thesis using N True by (simp add: claimsOn_def)
  next
    case False
    then have "x \<in> set ds" "x \<notin> R" using x dates(1) by auto
    moreover from False have "c \<in> stayClaims db' i \<and> c_serviceDate c = x \<longleftrightarrow> c \<in> stayClaims db i \<and> c_serviceDate c = x" for c
      using N \<open>x \<notin> R\<close> by (auto simp: claims claimsOn_def)
    ultimately show ?thesis using o(2) by simp
  qed
  moreover have "c_serviceDate c \<in> set es" if "c \<in> stayClaims db' i" for c
    using that o(1) N unfolding claims dates(1) by (auto simp: claimsOn_def)
  ultimately show ?thesis using new by (auto simp: nightsHeld_def)
qed

section \<open>The rows of a changed arrangement\<close>

lemma arrangementRevision:
  assumes inv: "lodgingInv db" and load: "loadOrderContext db i = Inr ctx" and fresh: "freshTx tx db"
    and ins: "insertRevision tx i (rv_revision_no (oc_revision ctx) + 1) (tx_amendmentId tx) v ad dd ps
       (insertSegment tx ctx u d dep ty (db\<lparr>lb_amendments := lb_amendments db @ [newAmendment (tx_amendmentId tx) i n ct reason pv cm]\<rparr>)) = Inr db3"
    and ct: "ct \<in> set dateChangeCommands"
  obtains sg r fs where "db3 = db\<lparr>lb_amendments := lb_amendments db @ [newAmendment (tx_amendmentId tx) i n ct reason pv cm],
      lb_segments := lb_segments db @ [sg], lb_revisions := lb_revisions db @ [r], lb_channel := lb_channel db @ fs\<rparr>"
    "ss_id sg = tx_segmentId tx" "ss_stay_id sg = sy_id (oc_stay ctx)"
    "rv_order_id r = i" "rv_id r = tx_revisionId tx" "numbered (revisionsOf db i @ [r])"
    "\<forall>f\<in>set fs. ch_order_id f = i \<and> ch_property_id f = lo_property_id (oc_order ctx)" "ledgerOk fs"
    "channelStay db (oc_order ctx) \<longrightarrow> 0 \<le> contractMinor r
       \<and> contractMinor r \<le> channelNet db (lo_property_id (oc_order ctx)) i + sum_list (map ch_amount_minor fs)"
proof -
  define a where "a = newAmendment (tx_amendmentId tx) i n ct reason pv cm"
  obtain sg where sg: "insertSegment tx ctx u d dep ty (db\<lparr>lb_amendments := lb_amendments db @ [a]\<rparr>)
      = db\<lparr>lb_amendments := lb_amendments db @ [a], lb_segments := lb_segments db @ [sg]\<rparr>" "ss_id sg = tx_segmentId tx" "ss_stay_id sg = sy_id (oc_stay ctx)"
    by (simp add: insertSegment_def)
  let ?db2 = "db\<lparr>lb_amendments := lb_amendments db @ [a], lb_segments := lb_segments db @ [sg]\<rparr>"
  have keys: "keysOk ?db2" using lodgingInvD(3) [OF inv] freshTxD(3,7) [OF fresh] by (simp add: keysOk_def a_def sg(2))
  obtain r fs where "db3 = ?db2\<lparr>lb_revisions := lb_revisions db @ [r], lb_channel := lb_channel db @ fs\<rparr>"
    "r = newRevision tx i (rv_revision_no (oc_revision ctx) + 1) (tx_amendmentId tx) v ad dd ps" "numbered (revisionsOf db i @ [r])"
    "\<forall>f\<in>set fs. ch_order_id f = i \<and> ch_property_id f = lo_property_id (oc_order ctx)" "ledgerOk fs"
    "channelStay db (oc_order ctx) \<longrightarrow> 0 \<le> contractMinor r
       \<and> contractMinor r \<le> channelNet db (lo_property_id (oc_order ctx)) i + sum_list (map ch_amount_minor fs)"
    by (rule commandRevision [OF inv load fresh ins [folded a_def, unfolded sg(1)] keys, of "[]" a]) (use ct in \<open>auto simp: a_def\<close>)
  then show thesis using sg(2,3) by (intro that [of fs r sg]) (simp_all add: a_def)
qed

text \<open>The status of the loaded stay is that of its order.\<close>

lemma loaded_stay_status:
  assumes "lodgingInv db" "loadOrderContext db i = Inr ctx"
  shows "sy_status (oc_stay ctx) = stayStateOf (lo_status (oc_order ctx))"
proof -
  note c = loaded_context [OF assms]
  obtain y where y: "y \<in> set (lb_stays db)" "sy_order_id y = lo_id (oc_order ctx)" "sy_status y = stayStateOf (lo_status (oc_order ctx))"
    using orderOkD(1) [OF lodgingInvD(4) [OF assms(1) c(1)]] by (auto simp: stayOk_def)
  then have "y = oc_stay ctx" using distinct_key_eq [OF keysOkD(3) [OF lodgingInvD(3) [OF assms(1)]] y(1) c(3)] c(2,4) by simp
  then show ?thesis using y(3) by simp
qed

section \<open>RESCHEDULE_STAY and EXTEND_STAY\<close>

lemma applyDateChange_unpack:
  assumes app: "applyDateChange view tx p command reason effect db = Inr db'" and ctx: "loadOrderContextForProperty db p (ae_orderId effect) = Inr ctx"
  defines "w \<equiv> oc_order ctx"
  defines "a \<equiv> newAmendment (tx_amendmentId tx) (lo_id w) (lo_version w + 1) (dateCommandName command) reason (lo_version w) (tx_commandId tx)"
  defines "db1 \<equiv> db\<lparr>lb_amendments := lb_amendments db @ [a]\<rparr>"
  obtains current u d db3 ids db4 n db5 db6 db7 where
    "loadActiveStayTimeline db1 ctx = Inr current"
    "planStayDateChangeTimeline current (lo_arrival_date w) (lo_departure_date w) (ae_arrivalDate effect) (ae_departureDate effect)
       = Inr (ae_stayTimeline effect)"
    "insertRevision tx (lo_id w) (rv_revision_no (oc_revision ctx) + 1) (tx_amendmentId tx) (lo_pricing_policy_version_id w)
       (ae_arrivalDate effect) (ae_departureDate effect) (ae_pricing effect)
       (insertSegment tx ctx u d (ae_departureDate effect) (dateCommandName command) db1) = Inr db3"
    "releaseNights (oc_segmentIds ctx) (map ti_serviceDate (released (timelinePairDiff current (ae_stayTimeline effect)))) db3 = Inr (ids, db4)"
    "foldR (claimAdded view tx p (oc_segmentIds ctx @ [tx_segmentId tx])) (0, db4)
       (addedByUnit (added (timelinePairDiff current (ae_stayTimeline effect)))) = Inr (n, db5)"
    "reconcileNights tx w (ae_pricing effect) db5 = Inr db6"
    "(if command = EXTEND_STAY then consumeNights tx w (Some (ae_coverageDates effect)) ''EXTEND_STAY_ENTITLEMENT_CONSUMED'' db6 else Inr db6) = Inr db7"
    "db' = updateOrder (lo_id w) (\<lambda>r. r\<lparr>lo_arrival_date := ae_arrivalDate effect, lo_departure_date := ae_departureDate effect,
         lo_current_revision_id := Some (tx_revisionId tx), lo_version := lo_version w + 1\<rparr>) db7"
proof -
  from app obtain current expected where l: "loadActiveStayTimeline db1 ctx = Inr current"
    and pl: "planStayDateChangeTimeline current (lo_arrival_date w) (lo_departure_date w) (ae_arrivalDate effect) (ae_departureDate effect) = Inr expected"
    and rest: "ae_stayTimeline effect = expected"
    unfolding applyDateChange_def ctx bindR_simps Let_def appendAmendment_new w_def [symmetric] a_def [symmetric] db1_def [symmetric]
    by (auto split: if_splits)
  define fin where "fin x = (if command = EXTEND_STAY
      then consumeNights tx w (Some (ae_coverageDates effect)) ''EXTEND_STAY_ENTITLEMENT_CONSUMED'' x else Inr x)" for x
  from app show thesis
    unfolding applyDateChange_def ctx bindR_simps Let_def appendAmendment_new w_def [symmetric] a_def [symmetric] db1_def [symmetric] l pl rest
      fin_def [symmetric]
    by (clarsimp simp: rest [symmetric] split: if_splits option.splits prod.splits)
      (rule that [OF l pl [folded rest]], assumption, assumption, assumption, assumption, simp only: fin_def, simp)
qed

lemma planDateChange_open:
  assumes "planDateChange history priced view db p command ctx input = Inr effect"
  shows "ae_orderId effect = lo_id (oc_order ctx)" "openOrder (oc_order ctx)"
  using assms by (auto simp: planDateChange_def Let_def openOrder_def split: if_splits prod.splits)

lemma applyDateChange_inv:
  assumes inv: "lodgingInv db" and fresh: "freshTx tx db" and ctx: "loadOrderContextForProperty db p i = Inr ctx"
    and plan: "planDateChange history priced view db p command ctx input = Inr effect"
    and app: "applyDateChange view tx p command reason effect db = Inr db'"
  shows "lodgingInv db'"
proof -
  note load = loadOrderContext_Inr [OF ctx]
  note c = loaded_context [OF inv load] and keys = lodgingInvD(3) [OF inv]
  define w where "w = oc_order ctx"
  note c = c [folded w_def] and opn = planDateChange_open [OF plan, folded w_def]
  have i: "ae_orderId effect = i" using opn(1) c(2) by simp
  define a where "a = newAmendment (tx_amendmentId tx) i (lo_version w + 1) (dateCommandName command) reason (lo_version w) (tx_commandId tx)"
  define revise where "revise = (\<lambda>r :: lodging_order. r\<lparr>lo_arrival_date := ae_arrivalDate effect, lo_departure_date := ae_departureDate effect,
         lo_current_revision_id := Some (tx_revisionId tx), lo_version := lo_version w + 1\<rparr>)"
  obtain current u d db3 ids db4 n db5 db6 db7 where
    cur: "loadActiveStayTimeline (db\<lparr>lb_amendments := lb_amendments db @ [a]\<rparr>) ctx = Inr current"
    and pl: "planStayDateChangeTimeline current (lo_arrival_date w) (lo_departure_date w) (ae_arrivalDate effect) (ae_departureDate effect)
       = Inr (ae_stayTimeline effect)"
    and ins: "insertRevision tx i (rv_revision_no (oc_revision ctx) + 1) (tx_amendmentId tx) (lo_pricing_policy_version_id w)
       (ae_arrivalDate effect) (ae_departureDate effect) (ae_pricing effect)
       (insertSegment tx ctx u d (ae_departureDate effect) (dateCommandName command) (db\<lparr>lb_amendments := lb_amendments db @ [a]\<rparr>)) = Inr db3"
    and rel: "releaseNights (oc_segmentIds ctx) (map ti_serviceDate (released (timelinePairDiff current (ae_stayTimeline effect)))) db3 = Inr (ids, db4)"
    and cl: "foldR (claimAdded view tx p (oc_segmentIds ctx @ [tx_segmentId tx])) (0, db4)
       (addedByUnit (added (timelinePairDiff current (ae_stayTimeline effect)))) = Inr (n, db5)"
    and rec: "reconcileNights tx w (ae_pricing effect) db5 = Inr db6"
    and con: "(if command = EXTEND_STAY then consumeNights tx w (Some (ae_coverageDates effect)) ''EXTEND_STAY_ENTITLEMENT_CONSUMED'' db6 else Inr db6) = Inr db7"
    and db': "db' = updateOrder i revise db7"
    unfolding a_def revise_def w_def
    by (rule applyDateChange_unpack [OF app ctx [folded i], unfolded c(2) [unfolded w_def]])
  define D where "D = timelinePairDiff current (ae_stayTimeline effect)"
  obtain sg r fs where db3: "db3 = db\<lparr>lb_amendments := lb_amendments db @ [a], lb_segments := lb_segments db @ [sg],
      lb_revisions := lb_revisions db @ [r], lb_channel := lb_channel db @ fs\<rparr>"
    and sg: "ss_id sg = tx_segmentId tx" "ss_stay_id sg = sy_id (oc_stay ctx)" and r: "rv_order_id r = i" "rv_id r = tx_revisionId tx" "numbered (revisionsOf db i @ [r])"
    and fs: "\<forall>f\<in>set fs. ch_order_id f = i \<and> ch_property_id f = lo_property_id w" "ledgerOk fs"
      "channelStay db w \<longrightarrow> 0 \<le> contractMinor r \<and> contractMinor r \<le> channelNet db (lo_property_id w) i + sum_list (map ch_amount_minor fs)"
    by (rule arrangementRevision [OF inv load fresh ins [unfolded a_def], folded a_def w_def])
      (cases command; simp add: dateCommandName_def dateChangeCommands_def)
  have same3: "lb_inventory db3 = lb_inventory db" "lb_nights db3 = lb_nights db" by (simp_all add: db3)
  define R where "R = ti_serviceDate ` set (released D)"
  have own: "inSources ORDER_SEGMENT (oc_segmentIds ctx) cl \<longleftrightarrow> ownClaim db i cl" for cl by (simp add: inSources_def ownClaim_def c(5))
  obtain st4 where db4: "db4 = db3\<lparr>lb_inventory := st4\<rparr>" and st4: "inventoryInv st4"
    "activeClaims st4 = {cl \<in> activeClaims (lb_inventory db). \<not> (ownClaim db i cl \<and> c_serviceDate cl \<in> R)}"
    by (rule releaseNights_Inr [of db3 "oc_segmentIds ctx" "map ti_serviceDate (released D)"])
      (use lodgingInvD(1) [OF inv] rel in \<open>simp_all add: same3 own D_def R_def\<close>)
  note olds = active_dates [OF cur, folded w_def] and news = planned_dates [OF pl]
  note dd = diff_dates [OF olds news, folded D_def]
  have "set (preserved D) \<subseteq> set current" by (auto simp: D_def timelinePairDiff_def Let_def)
  then have kept: "ti_serviceDate ` set current - R = ti_serviceDate ` set (preserved D)" unfolding R_def dd(2) by blast
  let ?A = "concat (map snd (addedByUnit (added D)))"
  have A: "set ?A = ti_serviceDate ` set (added D)" using mset_eq_setD [OF addedByUnit_dates [of "added D"]] by (simp only: set_map)
  have dA: "distinct ?A" using mset_eq_imp_distinct_iff [OF addedByUnit_dates [of "added D"]] dd(4) by blast
  have nights: "nightsHeld db i (lo_arrival_date w) (lo_departure_date w)"
    using orderOkD(4) [OF lodgingInvD(4) [OF inv c(1)]] opn(2) c(2) by (simp add: resourcesOk_def)
  have own_dates: "c_serviceDate cl \<in> ti_serviceDate ` set current" if "cl \<in> activeClaims (lb_inventory db)" "ownClaim db i cl" for cl
    using nights that olds by (auto simp: nightsHeld_def stayClaims_own)
  have free: "\<forall>cl\<in>activeClaims st4. c_serviceDate cl \<in> set ?A \<longrightarrow> c_sourceId cl \<notin> set (oc_segmentIds ctx @ [tx_segmentId tx])"
  proof (intro ballI impI)
    fix cl assume cl: "cl \<in> activeClaims st4" "c_serviceDate cl \<in> set ?A"
    then have a: "cl \<in> activeClaims (lb_inventory db)" by (simp add: st4)
    have "c_serviceDate cl \<notin> ti_serviceDate ` set (preserved D)" using cl(2) dd(1) unfolding A by blast
    then have "\<not> ownClaim db i cl" using own_dates [OF a] cl(1) unfolding st4(2) R_def dd(2) by blast
    moreover have "c_sourceId cl \<notin> segmentsOf db i" if "c_sourceType cl \<noteq> ORDER_SEGMENT"
      using lodgingInvD(6) [OF inv] a that by (auto simp: sourcesOk_def segmentsOf_def)
    ultimately have "c_sourceId cl \<notin> segmentsOf db i" by (auto simp: ownClaim_def)
    moreover have "c_sourceId cl \<noteq> tx_segmentId tx" using freshTxD(8) [OF fresh] a by (metis imageI)
    ultimately show "c_sourceId cl \<notin> set (oc_segmentIds ctx @ [tx_segmentId tx])" using c(5) by simp
  qed
  obtain store N where db5: "db5 = db4\<lparr>lb_inventory := store\<rparr>" and store: "inventoryInv store" "activeClaims store = activeClaims st4 \<union> N"
    and N: "claimsOn (tx_segmentId tx) ?A N"
    using claimAdded_Inr [OF cl [folded D_def] _ dA] st4(1) free freshTxD(9) [OF fresh] by (auto simp: db4)
  obtain m where db7: "db7 = db5\<lparr>lb_nights := m\<rparr>" and m: "entInv m" "heldFrame i (lb_nights db) m"
  proof (rule reconcileConsume_Inr [of tx w "ae_pricing effect" db5 "command = EXTEND_STAY" "Some (ae_coverageDates effect)" "''EXTEND_STAY_ENTITLEMENT_CONSUMED''" Inr db7])
    show "bindR (reconcileNights tx w (ae_pricing effect) db5) (\<lambda>db1. bindR (if command = EXTEND_STAY
       then consumeNights tx w (Some (ae_coverageDates effect)) ''EXTEND_STAY_ENTITLEMENT_CONSUMED'' db1 else Inr db1) Inr) = Inr db7"
      using rec con by simp
  qed (use lodgingInvD(2) [OF inv] freshTxD(10) [OF fresh] c(2) in \<open>auto simp: db5 db4 same3 intro: that\<close>)
  have fields: "lb_orders db' = updateWhere (\<lambda>r. lo_id r = i) revise (lb_orders db)" "lb_segments db' = lb_segments db @ [sg]" "lb_stays db' = lb_stays db"
    "lb_amendments db' = lb_amendments db @ [a]" "lb_revisions db' = lb_revisions db @ [r]" "lb_channel db' = lb_channel db @ fs"
    "lb_inventory db' = store" "lb_nights db' = m" "lb_properties db' = lb_properties db" "lb_openings db' = lb_openings db"
    by (simp_all add: db' db7 db5 db4 db3 updateOrder_def)
  have st: "lb_stays db' = updateWhere (\<lambda>s. sy_id s = sy_id (oc_stay ctx)) (\<lambda>s. s\<lparr>sy_status := stayStateOf (lo_status (revise w))\<rparr>) (lb_stays db)"
    using same_status [OF keys c(3) loaded_stay_status [OF inv load]] by (simp add: fields revise_def w_def)
  have segs: "segmentsOf db' i = insert (tx_segmentId tx) (segmentsOf db i)"
    using segmentsOf_append [OF keys c(3) _ fields(2) st, of i] sg c(4) by auto
  have own': "ownClaim db' i cl \<longleftrightarrow> ownClaim db i cl \<or> c_sourceType cl = ORDER_SEGMENT \<and> c_sourceId cl = tx_segmentId tx" for cl
    by (auto simp: ownClaim_def segs)
  show ?thesis
  proof (rule command_inv [OF inv c(1) c(3), of db' revise "[sg]" "[a]" "[r]" fs])
    have "stayClaims db' i = {cl \<in> stayClaims db i. c_serviceDate cl \<notin> R} \<union> N"
      using N freshTxD(8) [OF fresh] by (auto simp: stayClaims_own own' fields store(2) st4(2) claimsOn_def image_iff)
    then have "nightsHeld db' i (ae_arrivalDate effect) (ae_departureDate effect)"
      by (rule nightsHeld_change [OF nights olds news _ N]) (unfold A set_map kept dd(3), rule refl, rule dd(1))
    then show "resourcesOk db' (revise w)" using opn(2) c(2) by (simp add: resourcesOk_def openOrder_def revise_def)
    show "cl \<in> activeClaims (lb_inventory db') \<longleftrightarrow> cl \<in> activeClaims (lb_inventory db)" if "\<not> ownClaim db' (lo_id w) cl" for cl
      using that N c(2) by (auto simp: fields own' store(2) st4(2) claimsOn_def)
  qed (use c st sg r fs store m freshTxD [OF fresh] in \<open>simp_all add: fields a_def revise_def\<close>)
qed

section \<open>SHORTEN_STAY\<close>

lemma planShorten_facts:
  assumes plan: "planShorten history priced db p ctx input = Inr effect"
  defines "w \<equiv> oc_order ctx"
  obtains current newDates where "lo_status w = CHECKED_IN" "ae_orderId effect = lo_id w" "heldItems (lb_nights db) (lo_id w) = {}"
    "loadActiveStayTimeline db ctx = Inr current" "enumerateServiceDates (lo_arrival_date w) (ae_departureDate effect) = Inr newDates"
    "ae_departureDate effect < lo_departure_date w" "set (ae_releasedDates effect) = set (map ti_serviceDate current) - set newDates"
  using plan unfolding planShorten_def Let_def w_def [symmetric]
  by (clarsimp simp: coverageWith_held not_le split: if_splits prod.splits) (rule that, assumption, simp, assumption, assumption, simp, simp, auto)

lemma applyShorten_unpack:
  assumes app: "applyShorten tx p reason effect db = Inr db'" and ctx: "loadOrderContextForProperty db p (ae_orderId effect) = Inr ctx"
  defines "w \<equiv> oc_order ctx" and "early \<equiv> ae_earlyCheckOut effect"
  defines "a \<equiv> newAmendment (tx_amendmentId tx) (lo_id w) (lo_version w + 1) ''SHORTEN_STAY'' reason (lo_version w) (tx_commandId tx)"
    and "a2 \<equiv> newAmendment (tx_secondAmendmentId tx) (lo_id w) (lo_version w + 2) ''CHECK_OUT'' reason (lo_version w + 1) (tx_commandId tx)"
  obtains u d db3 ids db4 r where
    "insertRevision tx (lo_id w) (rv_revision_no (oc_revision ctx) + 1) (tx_amendmentId tx) (lo_pricing_policy_version_id w)
       (ae_arrivalDate effect) (ae_departureDate effect) (ae_pricing effect)
       (insertSegment tx ctx u d (ae_departureDate effect) ''SHORTEN_STAY'' (db\<lparr>lb_amendments := lb_amendments db @ [a]\<rparr>)) = Inr db3"
    "(if early then releaseOrderClaims (oc_segmentIds ctx) db3 else releaseNights (oc_segmentIds ctx) (ae_releasedDates effect) db3) = Inr (ids, db4)"
    "restoreFutureConsumedCoverage (tx_entitlement tx) (lo_id w) (tx_commandId tx) (ae_coverageDates effect) (lb_nights db4) = Inr r"
    "db' = updateOrder (lo_id w) (\<lambda>r. r\<lparr>lo_departure_date := ae_departureDate effect, lo_current_revision_id := Some (tx_revisionId tx),
           lo_status := (if early then CHECKED_OUT else lo_status r), lo_version := lo_version w + (if early then 2 else 1)\<rparr>)
         ((if early then updateStay (sy_id (oc_stay ctx)) COMPLETED (db4\<lparr>lb_amendments := lb_amendments db4 @ [a2]\<rparr>) else db4)\<lparr>lb_nights := snd r\<rparr>)"
proof -
  define fin where "fin x = (if early then updateStay (sy_id (oc_stay ctx)) COMPLETED (x\<lparr>lb_amendments := lb_amendments x @ [a2]\<rparr>) else x)" for x
  define rel where "rel x = (if early then releaseOrderClaims (oc_segmentIds ctx) x else releaseNights (oc_segmentIds ctx) (ae_releasedDates effect) x)" for x
  define ver where "ver = (\<lambda>r. r\<lparr>lo_departure_date := ae_departureDate effect, lo_current_revision_id := Some (tx_revisionId tx),
           lo_status := (if early then CHECKED_OUT else lo_status r), lo_version := lo_version w + (if early then 2 else 1)\<rparr>)"
  have n: "lb_nights (fin x) = lb_nights x" for x by (simp add: fin_def updateStay_def)
  note app = app [unfolded applyShorten_def ctx bindR_simps Let_def appendAmendment_new early_def [symmetric] w_def [symmetric] a_def [symmetric]
      a2_def [symmetric] rel_def [symmetric] fin_def [symmetric] ver_def [symmetric]]
  from app obtain u d where tail: "trailingTimelineRun (ae_stayTimeline effect) = Some (u, d)" "ae_stayTimeline effect \<noteq> []"
    and guard: "(early \<and> ae_departureDate effect \<noteq> ae_businessDate effect \<or> \<not> early \<and> ae_departureDate effect \<le> ae_businessDate effect) = False"
    by (auto split: if_splits option.splits prod.splits)
  from app [unfolded guard if_False tail option.case prod.case] tail(2) show thesis
    by (clarsimp simp: withNights_def n split: if_splits prod.splits)
      (rule that, assumption, simp only: rel_def, assumption, simp add: fin_def ver_def)+
qed

lemma applyShorten_inv:
  assumes inv: "lodgingInv db" and fresh: "freshTx tx db" and ctx: "loadOrderContextForProperty db p i = Inr ctx"
    and plan: "planShorten history priced db p ctx input = Inr effect" and app: "applyShorten tx p reason effect db = Inr db'"
  shows "lodgingInv db'"
proof -
  note load = loadOrderContext_Inr [OF ctx]
  note c = loaded_context [OF inv load] and keys = lodgingInvD(3) [OF inv]
  define w where "w = oc_order ctx"
  define early where "early = ae_earlyCheckOut effect"
  note c = c [folded w_def]
  obtain current newDates where st: "lo_status w = CHECKED_IN" and id: "ae_orderId effect = lo_id w" and held: "heldItems (lb_nights db) (lo_id w) = {}"
    and cur: "loadActiveStayTimeline db ctx = Inr current"
    and news: "enumerateServiceDates (lo_arrival_date w) (ae_departureDate effect) = Inr newDates" "ae_departureDate effect < lo_departure_date w"
    and R: "set (ae_releasedDates effect) = set (map ti_serviceDate current) - set newDates"
    by (rule planShorten_facts [OF plan, folded w_def])
  have i: "ae_orderId effect = i" using id c(2) by simp
  define a where "a = newAmendment (tx_amendmentId tx) i (lo_version w + 1) ''SHORTEN_STAY'' reason (lo_version w) (tx_commandId tx)"
  define a2 where "a2 = newAmendment (tx_secondAmendmentId tx) i (lo_version w + 2) ''CHECK_OUT'' reason (lo_version w + 1) (tx_commandId tx)"
  define revise where "revise = (\<lambda>r :: lodging_order. r\<lparr>lo_departure_date := ae_departureDate effect, lo_current_revision_id := Some (tx_revisionId tx),
           lo_status := (if early then CHECKED_OUT else lo_status r), lo_version := lo_version w + (if early then 2 else 1)\<rparr>)"
  obtain u d db3 ids db4 r' where
    ins: "insertRevision tx i (rv_revision_no (oc_revision ctx) + 1) (tx_amendmentId tx) (lo_pricing_policy_version_id w)
       (ae_arrivalDate effect) (ae_departureDate effect) (ae_pricing effect)
       (insertSegment tx ctx u d (ae_departureDate effect) ''SHORTEN_STAY'' (db\<lparr>lb_amendments := lb_amendments db @ [a]\<rparr>)) = Inr db3"
    and rel: "(if early then releaseOrderClaims (oc_segmentIds ctx) db3 else releaseNights (oc_segmentIds ctx) (ae_releasedDates effect) db3) = Inr (ids, db4)"
    and res: "restoreFutureConsumedCoverage (tx_entitlement tx) i (tx_commandId tx) (ae_coverageDates effect) (lb_nights db4) = Inr r'"
    and db': "db' = updateOrder i revise
         ((if early then updateStay (sy_id (oc_stay ctx)) COMPLETED (db4\<lparr>lb_amendments := lb_amendments db4 @ [a2]\<rparr>) else db4)\<lparr>lb_nights := snd r'\<rparr>)"
    unfolding a_def a2_def revise_def w_def early_def
    by (rule applyShorten_unpack [OF app ctx [folded i], unfolded c(2) [unfolded w_def]])
  obtain sg r fs where db3: "db3 = db\<lparr>lb_amendments := lb_amendments db @ [a], lb_segments := lb_segments db @ [sg],
      lb_revisions := lb_revisions db @ [r], lb_channel := lb_channel db @ fs\<rparr>"
    and sg: "ss_id sg = tx_segmentId tx" "ss_stay_id sg = sy_id (oc_stay ctx)" and r: "rv_order_id r = i" "rv_id r = tx_revisionId tx" "numbered (revisionsOf db i @ [r])"
    and fs: "\<forall>f\<in>set fs. ch_order_id f = i \<and> ch_property_id f = lo_property_id w" "ledgerOk fs"
      "channelStay db w \<longrightarrow> 0 \<le> contractMinor r \<and> contractMinor r \<le> channelNet db (lo_property_id w) i + sum_list (map ch_amount_minor fs)"
    by (rule arrangementRevision [OF inv load fresh ins [unfolded a_def], folded a_def w_def]) (simp add: dateChangeCommands_def)
  have own: "inSources ORDER_SEGMENT (oc_segmentIds ctx) cl \<longleftrightarrow> ownClaim db i cl" for cl by (simp add: inSources_def ownClaim_def c(5))
  have inv3: "inventoryInv (lb_inventory db3)" using lodgingInvD(1) [OF inv] by (simp add: db3)
  obtain ids' st1 where r1: "releaseOrderClaims (oc_segmentIds ctx) db3 = Inr (ids', db3\<lparr>lb_inventory := st1\<rparr>)" "inventoryInv st1"
    "activeClaims st1 = {cl \<in> activeClaims (lb_inventory db). \<not> ownClaim db i cl}"
    by (rule releaseOrderClaims_Inr [OF inv3, of "oc_segmentIds ctx"]) (simp add: own db3)
  obtain ids'' st2 where r2: "releaseNights (oc_segmentIds ctx) (ae_releasedDates effect) db3 = Inr (ids'', db3\<lparr>lb_inventory := st2\<rparr>)" "inventoryInv st2"
    "activeClaims st2 = {cl \<in> activeClaims (lb_inventory db). \<not> (ownClaim db i cl \<and> c_serviceDate cl \<in> set (ae_releasedDates effect))}"
    by (rule releaseNights_Inr [OF inv3, of "oc_segmentIds ctx" "ae_releasedDates effect"]) (simp add: own db3)
  define store where "store = (if early then st1 else st2)"
  have db4: "db4 = db3\<lparr>lb_inventory := store\<rparr>" using rel r1(1) r2(1) by (simp add: store_def split: if_splits)
  have store: "inventoryInv store" "activeClaims store = {cl \<in> activeClaims (lb_inventory db). \<not> (ownClaim db i cl \<and> (early \<or> c_serviceDate cl \<in> set (ae_releasedDates effect)))}"
    using r1(2,3) r2(2,3) by (auto simp: store_def)
  have "lb_nights db4 = lb_nights db" by (simp add: db4 db3)
  then obtain refs m where m0: "r' = (refs, m)" and m: "entInv m" "noNewHeld (lb_nights db) m"
    using res restoreFutureConsumedCoverage_inv [OF lodgingInvD(2) [OF inv]] coverage_noNewHeld(4) by (cases r') auto
  have fields: "lb_orders db' = updateWhere (\<lambda>r. lo_id r = i) revise (lb_orders db)" "lb_segments db' = lb_segments db @ [sg]"
    "lb_stays db' = (if early then updateWhere (\<lambda>s. sy_id s = sy_id (oc_stay ctx)) (\<lambda>s. s\<lparr>sy_status := COMPLETED\<rparr>) (lb_stays db) else lb_stays db)"
    "lb_amendments db' = lb_amendments db @ (if early then [a, a2] else [a])" "lb_revisions db' = lb_revisions db @ [r]" "lb_channel db' = lb_channel db @ fs"
    "lb_inventory db' = store" "lb_nights db' = m" "lb_properties db' = lb_properties db" "lb_openings db' = lb_openings db"
    by (simp_all add: db' db4 db3 m0 updateOrder_def updateStay_def)
  have stays: "lb_stays db' = updateWhere (\<lambda>s. sy_id s = sy_id (oc_stay ctx)) (\<lambda>s. s\<lparr>sy_status := stayStateOf (lo_status (revise w))\<rparr>) (lb_stays db)"
    using same_status [OF keys c(3) loaded_stay_status [OF inv load]] by (cases early) (simp_all add: fields revise_def w_def)
  have segs: "segmentsOf db' i = insert (tx_segmentId tx) (segmentsOf db i)"
    using segmentsOf_append [OF keys c(3) _ fields(2) stays, of i] sg c(4) by auto
  have own': "ownClaim db' i cl \<longleftrightarrow> ownClaim db i cl \<or> c_sourceType cl = ORDER_SEGMENT \<and> c_sourceId cl = tx_segmentId tx" for cl
    by (auto simp: ownClaim_def segs)
  have claims: "stayClaims db' i = {cl \<in> stayClaims db i. \<not> (early \<or> c_serviceDate cl \<in> set (ae_releasedDates effect))}"
    using freshTxD(8) [OF fresh] by (auto simp: stayClaims_own own' fields store(2) image_iff)
  have ver: "map am_sequence (if early then [a, a2] else [a]) = [lo_version w + 1..lo_version (revise w)]"
    by (simp add: a_def a2_def revise_def upto_rec1 [of "lo_version w + 1"] upto_rec1 [of "2 + lo_version w"])
  show ?thesis
  proof (rule command_inv [OF inv c(1) c(3), of db' revise "[sg]" "if early then [a, a2] else [a]" "[r]" fs])
    show "resourcesOk db' (revise w)"
    proof (cases early)
      case True
      have "heldItems m i = {}" using noNewHeld_items [OF m(2), of i] held c(2) by auto
      then show ?thesis using True c(2) claims by (simp add: resourcesOk_def openOrder_def revise_def fields)
    next
      case False
      note olds = active_dates [OF cur, folded w_def]
      have nights: "nightsHeld db i (lo_arrival_date w) (lo_departure_date w)"
        using orderOkD(4) [OF lodgingInvD(4) [OF inv c(1)]] st c(2) by (simp add: resourcesOk_def openOrder_def)
      have "set newDates \<subseteq> set (map ti_serviceDate current)"
        using enumerateServiceDates_facts(9) [OF news(1)] enumerateServiceDates_facts(9) [OF olds] news(2) by (meson subsetI order.strict_trans)
      then have "nightsHeld db' i (lo_arrival_date w) (ae_departureDate effect)"
        using False by (intro nightsHeld_change [OF nights olds news(1) _ claimsOn_empty, where R = "set (ae_releasedDates effect)"])
          (auto simp: claims R)
      then show ?thesis using False c(2) st by (simp add: resourcesOk_def openOrder_def revise_def)
    qed
    show "cl \<in> activeClaims (lb_inventory db') \<longleftrightarrow> cl \<in> activeClaims (lb_inventory db)" if "\<not> ownClaim db' (lo_id w) cl" for cl
      using that c(2) by (auto simp: fields own' store(2))
  qed (use c stays ver sg r fs store m noNewHeld_frame [OF m(2)] freshTxD [OF fresh] in \<open>simp_all add: fields a_def a2_def revise_def\<close>)
qed

end
