(* ===== verification/LodgingRun.thy ===== *)
theory LodgingRun
  imports LodgingCreation LodgingDates
begin

text \<open>
  The runs of the tables of stays: commands on stays in any order, between changes that the other parts of the
  program make. Every reachable state satisfies the invariant; from it follow the properties of stays.
\<close>

section \<open>Changes made elsewhere\<close>

lemma outside_inv:
  assumes inv: "lodgingInv db" and same: "lb_orders db' = lb_orders db" "lb_stays db' = lb_stays db" "lb_segments db' = lb_segments db"
      "lb_amendments db' = lb_amendments db" "lb_revisions db' = lb_revisions db" "lb_channel db' = lb_channel db"
      "lb_properties db' = lb_properties db" "lb_openings db' = lb_openings db"
    and store: "inventoryInv (lb_inventory db')"
      "\<And>c. c_sourceType c = ORDER_SEGMENT \<Longrightarrow> c \<in> activeClaims (lb_inventory db') \<longleftrightarrow> c \<in> activeClaims (lb_inventory db)"
    and sources: "sourcesOk db'"
    and nights: "entInv (lb_nights db')" "en_coverage (lb_nights db') = en_coverage (lb_nights db)"
  shows "lodgingInv db'"
proof -
  have segs: "segmentsOf db' j = segmentsOf db j" for j by (simp add: segmentsOf_def same)
  then have claims: "stayClaims db' j = stayClaims db j" for j using store(2) by (auto simp: stayClaims_def)
  have net: "channelNet db' p j = channelNet db p j" for p j using channelNet_cong [of db' db "[]"] by (simp add: same)
  have "heldItems (lb_nights db') j = heldItems (lb_nights db) j" "nightsHeld db' j a d = nightsHeld db j a d"
    "revisionsOf db' j = revisionsOf db j" "amendmentsOf db' j = amendmentsOf db j" for j a d
    by (simp_all add: heldItems_def nightsHeld_def claims nights(2) revisionsOf_def amendmentsOf_def same)
  then have "orderOk db' w" if "w \<in> set (lb_orders db)" for w
    using lodgingInvD(4) [OF inv that]
    by (simp add: orderOk_def stayOk_def revisionsOk_def amendmentsOk_def resourcesOk_def channelStay_def same segs claims net)
  moreover have "keysOk db'" using lodgingInvD(3) [OF inv] by (simp add: keysOk_def same)
  ultimately show ?thesis using lodgingInvD(5) [OF inv] store(1) sources nights(1) by (simp add: lodgingInv_def same)
qed

lemma sourcesOk_same:
  "sourcesOk db \<Longrightarrow> lb_inventory db' = lb_inventory db \<Longrightarrow> lb_segments db' = lb_segments db \<Longrightarrow> sourcesOk db'"
  by (simp add: sourcesOk_def)

section \<open>The step relation\<close>

text \<open>
  A step is a command on a stay, a claim or release of maintenance and internal use, locking the days of a unit,
  a change of the lots of members that leaves the items of orders, or a change of the tables that only the
  commands on money and the calendar write.
\<close>

inductive lodgingStep :: "(string \<Rightarrow> order_view result) \<Rightarrow> lodging_db \<Rightarrow> lodging_db \<Rightarrow> bool" for view :: "string \<Rightarrow> order_view result" where
  create: "freshTx tx db \<Longrightarrow> backfillAdmitted effect \<Longrightarrow> applyCreateOrder view tx p reason effect db = Inr db' \<Longrightarrow> lodgingStep view db db'"
| status: "freshTx tx db \<Longrightarrow> buildStatusEffect evidence localTime db p command input = Inr effect \<Longrightarrow>
    applyStatusCommand tx p command reason effect db = Inr (refs, db') \<Longrightarrow> lodgingStep view db db'"
| dates: "freshTx tx db \<Longrightarrow> loadOrderContextForProperty db p i = Inr ctx \<Longrightarrow>
    planDateChange history priced view db p dateCommand ctx input = Inr ae \<Longrightarrow>
    applyDateChange view tx p dateCommand reason ae db = Inr db' \<Longrightarrow> lodgingStep view db db'"
| shorten: "freshTx tx db \<Longrightarrow> loadOrderContextForProperty db p i = Inr ctx \<Longrightarrow> planShorten history priced db p ctx input = Inr ae \<Longrightarrow>
    applyShorten tx p reason ae db = Inr db' \<Longrightarrow> lodgingStep view db db'"
| pricing: "freshTx tx db \<Longrightarrow> loadOrderContextForProperty db p i = Inr ctx \<Longrightarrow> pricingAdmitted db priceCommand (oc_order ctx) = Inr () \<Longrightarrow>
    applyPricing tx p priceCommand reason i ps db = Inr db' \<Longrightarrow> lodgingStep view db db'"
| channel: "freshTx tx db \<Longrightarrow> buildChannelFundsEffect db p i channelCommand input = Inr ce \<Longrightarrow>
    applyChannelCommand tx p channelCommand reason ce db = Inr db' \<Longrightarrow> lodgingStep view db db'"
| occupy: "loadInventoryUnit (lb_inventory db) p u = Inr (co_unit opts) \<Longrightarrow> co_sourceType opts \<noteq> ORDER_SEGMENT \<Longrightarrow>
    co_sourceId opts \<notin> ss_id ` set (lb_segments db) \<Longrightarrow> distinct ds \<Longrightarrow>
    distinct ids \<and> length ids = length ds \<and> [] \<notin> set ids \<and> set ids \<inter> c_id ` set (t_claims (lb_inventory db)) = {} \<Longrightarrow>
    createInventoryClaims view (inventoryTables db) opts ds [] purpose ids = Inr (cids, store) \<Longrightarrow> lodgingStep view db (putInventory store db)"
| vacate: "ty \<noteq> ORDER_SEGMENT \<Longrightarrow> releaseInventoryClaims (lb_inventory db) ty srcs fromDate = Inr (cids, store) \<Longrightarrow>
    lodgingStep view db (db\<lparr>lb_inventory := store\<rparr>)"
| lock: "lockUnitDates localeLe (lb_inventory db) p u a d allowInactive = Inr (unit, store) \<Longrightarrow> lodgingStep view db (db\<lparr>lb_inventory := store\<rparr>)"
| lots: "entStep (lb_nights db) n \<Longrightarrow> en_coverage n = en_coverage (lb_nights db) \<Longrightarrow> lodgingStep view db (db\<lparr>lb_nights := n\<rparr>)"
| elsewhere: "lodgingStep view db (db\<lparr>lb_facts := facts, lb_baselines := months, lb_inventory := (lb_inventory db)\<lparr>t_localDates := days\<rparr>\<rparr>)"

definition emptyLodging :: "lodging_db \<Rightarrow> bool" where
  "emptyLodging db \<longleftrightarrow> lb_orders db = [] \<and> lb_stays db = [] \<and> lb_segments db = [] \<and> lb_amendments db = [] \<and> lb_revisions db = []
     \<and> lb_channel db = [] \<and> emptyStore (lb_inventory db) \<and> noNights (lb_nights db)"

lemma emptyLodging_inv: "emptyLodging db \<Longrightarrow> lodgingInv db"
  by (simp add: emptyLodging_def lodgingInv_def emptyStore_inv noNights_inv keysOk_def sourcesOk_def)

lemma lock_inv:
  assumes "inventoryInv db" "lockUnitDates localeLe db p u a d allowInactive = Inr (unit, db')"
  shows "inventoryInv db' \<and> activeClaims db' = activeClaims db"
  using assms(2) lock_fold [OF assms(1)] by (auto simp: lockUnitDates_def lockRoomDays_def Let_def split: if_splits)

lemma lodgingStep_inv:
  assumes "lodgingStep view db db'" "lodgingInv db"
  shows "lodgingInv db'"
  using assms
proof (induction rule: lodgingStep.induct)
  case (create tx db effect p reason db')
  then show ?case using applyCreateOrder_inv by blast
next
  case (status tx db evidence localTime p command input effect reason refs db')
  then show ?case using applyStatusCommand_inv by blast
next
  case (dates tx db p i ctx history priced dateCommand input ae reason db')
  then show ?case using applyDateChange_inv by blast
next
  case (shorten tx db p i ctx history priced input ae reason db')
  then show ?case using applyShorten_inv by blast
next
  case (pricing tx db p i ctx priceCommand reason ps db')
  then show ?case using applyPricing_inv by blast
next
  case (channel tx db p i channelCommand input ce reason db')
  then show ?case using applyChannelCommand_inv by blast
next
  case (occupy db p u opts ds ids purpose cids store)
  note inv = occupy.prems
  have tables: "activeClaims (inventoryTables db) = activeClaims (lb_inventory db)" "inventoryInv (inventoryTables db)"
    "t_units (inventoryTables db) = t_units (lb_inventory db)" "t_claims (inventoryTables db) = t_claims (lb_inventory db)"
    using lodgingInvD(1) [OF inv] by (simp_all add: inventoryTables_def)
  have "backed (inventoryTables db) (co_unit opts)"
    using load_backed(1) [OF inventoryInvD(1) [OF lodgingInvD(1) [OF inv]] occupy(1) [unfolded loadInventoryUnit_def]]
    by (simp add: backed_cong [OF tables(3)])
  then have "inventoryInv store \<and> activeClaims store = activeClaims (lb_inventory db) \<union> set (map2 (newClaim opts) ds ids)"
    using create_inv [OF tables(2) _ occupy(6) _ occupy(4)] occupy(5) by (simp add: tables)
  then have s: "inventoryInv (lb_inventory (putInventory store db))"
    "activeClaims (lb_inventory (putInventory store db)) = activeClaims (lb_inventory db) \<union> set (map2 (newClaim opts) ds ids)"
    by (simp_all add: putInventory_def)
  have new: "c_sourceType c = co_sourceType opts \<and> c_sourceId c = co_sourceId opts" if "c \<in> set (map2 (newClaim opts) ds ids)" for c
    using that by auto
  have "sourcesOk (putInventory store db)"
    unfolding sourcesOk_def
  proof (intro ballI impI)
    fix c assume c: "c \<in> activeClaims (lb_inventory (putInventory store db))" "c_sourceType c \<noteq> ORDER_SEGMENT"
    show "c_sourceId c \<notin> ss_id ` set (lb_segments (putInventory store db))"
    proof (cases "c \<in> activeClaims (lb_inventory db)")
      case True
      then show ?thesis using c(2) lodgingInvD(6) [OF inv] by (simp add: sourcesOk_def putInventory_def)
    next
      case False
      then have "c_sourceId c = co_sourceId opts" using c(1) new by (simp add: s(2) del: set_map)
      then show ?thesis using occupy(3) by (simp add: putInventory_def)
    qed
  qed
  moreover have "c \<in> activeClaims (lb_inventory (putInventory store db)) \<longleftrightarrow> c \<in> activeClaims (lb_inventory db)" if "c_sourceType c = ORDER_SEGMENT" for c
    using that new occupy(2) by (auto simp: s(2) simp del: set_map)
  ultimately show ?case
    by (intro outside_inv [OF inv _ _ _ _ _ _ _ _ s(1)]) (use lodgingInvD(2) [OF inv] in \<open>simp_all add: putInventory_def\<close>)
next
  case (vacate ty db srcs fromDate cids store)
  note inv = vacate.prems
  from release_inv [OF lodgingInvD(1) [OF inv], of ty srcs fromDate] vacate(2) have s: "inventoryInv store"
    "activeClaims store = {c \<in> activeClaims (lb_inventory db). \<not> (inSources ty srcs c \<and> (\<forall>d. truthyId fromDate = Some d \<longrightarrow> d \<le> c_serviceDate c))}"
    by auto
  then have "sourcesOk (db\<lparr>lb_inventory := store\<rparr>)" using lodgingInvD(6) [OF inv] by (auto simp: sourcesOk_def)
  then show ?case using vacate(1) s lodgingInvD(2) [OF inv] by (intro outside_inv [OF inv]) (auto simp: inSources_def)
next
  case (lock localeLe db p u a d allowInactive unit store)
  note inv = lock.prems
  have s: "inventoryInv store" "activeClaims store = activeClaims (lb_inventory db)"
    using lock_inv [OF lodgingInvD(1) [OF inv] lock(1)] by simp_all
  then have "sourcesOk (db\<lparr>lb_inventory := store\<rparr>)" using lodgingInvD(6) [OF inv] by (auto simp: sourcesOk_def)
  then show ?case using s lodgingInvD(2) [OF inv] by (intro outside_inv [OF inv]) auto
next
  case (lots db n)
  note inv = lots.prems
  have "entInv n" using entStep_inv [OF lots(1) lodgingInvD(2) [OF inv]] .
  moreover have "sourcesOk (db\<lparr>lb_nights := n\<rparr>)" using sourcesOk_same [OF lodgingInvD(6) [OF inv]] by simp
  ultimately show ?case using lots(2) lodgingInvD(1) [OF inv] by (intro outside_inv [OF inv]) simp_all
next
  case (elsewhere db days months facts)
  note inv = elsewhere.prems
  have "sourcesOk (db\<lparr>lb_facts := facts, lb_baselines := months, lb_inventory := (lb_inventory db)\<lparr>t_localDates := days\<rparr>\<rparr>)"
    using lodgingInvD(6) [OF inv] by (simp add: sourcesOk_def)
  then show ?case using lodgingInvD(1,2) [OF inv] by (intro outside_inv [OF inv]) simp_all
qed

interpretation lodging: invariant_system emptyLodging "lodgingStep view" lodgingInv for view
  by unfold_locales (use emptyLodging_inv lodgingStep_inv in blast)+

section \<open>A previewed command does not get stuck\<close>

lemma recordTerminal:
  assumes keys: "keysOk db" and r: "r \<in> set (lb_revisions db)" and ord: "ord \<in> set (lb_orders db)" "lo_id ord = rv_order_id r"
    and a: "a \<in> set (lb_amendments db)" "am_id a = rv_amendment_id r" "am_amendment_type a \<notin> set (''REPRICE_ORDER'' # dateChangeCommands)"
    and no: "rv_revision_no r \<noteq> 1" and today: "propertyLocalToday db (lo_property_id ord) = Inr t"
  shows "recordChannelRevision localDay factId (rv_id r) db = Inr db"
proof (cases "channelRevision db (rv_id r)")
  case None
  then show ?thesis by (simp add: recordChannelRevision_def)
next
  case (Some x)
  have fr: "find (\<lambda>x. rv_id x = rv_id r) (lb_revisions db) = Some r" using find_key [OF keysOkD(5) [OF keys] r] by simp
  have fo: "orderById db (rv_order_id r) = Some ord" using orderById_iff [OF keys] ord by simp
  have fa: "amendmentOf db r = Some a" unfolding amendmentOf_def using find_key [OF keysOkD(7) [OF keys] a(1)] a(2) by simp
  from Some have x: "x = (r, ord, a)" and ch: "map_of (lb_properties db) (lo_property_id ord) \<noteq> None" "externalChannel (lo_booking_channel_code ord)"
    by (auto simp: channelRevision_def fr fo fa split: if_splits)
  have "orderInProperty db (lo_property_id ord) (rv_order_id r) = Some ord"
    unfolding orderInProperty_def
  proof (cases "find (\<lambda>r'. lo_id r' = rv_order_id r \<and> lo_property_id r' = lo_property_id ord) (lb_orders db)")
    case None
    then show "find (\<lambda>r'. lo_id r' = rv_order_id r \<and> lo_property_id r' = lo_property_id ord) (lb_orders db) = Some ord"
      using ord by (auto simp: find_None_iff)
  next
    case (Some w)
    with find_SomeD [OF Some] ord distinct_key_eq [OF keysOkD(1) [OF keys], of w ord]
    show "find (\<lambda>r'. lo_id r' = rv_order_id r \<and> lo_property_id r' = lo_property_id ord) (lb_orders db) = Some ord" by simp
  qed
  then have "\<exists>s. channelOperatingSummary db (lo_property_id ord) (rv_order_id r) = Inr (Some s)"
    using ch today by (auto simp: channelOperatingSummary_def Let_def)
  then show ?thesis using a(3) no by (auto simp: recordChannelRevision_def Some x Let_def recognisedDelta_def)
qed

lemma build_today:
  assumes "buildStatusEffect evidence lt db p command input = Inr effect"
  shows "\<exists>t. propertyLocalToday db p = Inr t"
  using assms
  by (cases command) (auto simp: buildStatusEffect_def buildCheckIn_def buildCheckOut_def buildCancellation_def buildCheckInRevocation_def Let_def split: if_splits)

lemma settle_applies:
  assumes "inventoryInv (lb_inventory db)" "command \<noteq> REVOKE_CHECK_IN"
  shows "\<exists>refs store n. settleStay tx command ctx effect db = Inr (refs, db\<lparr>lb_inventory := store, lb_nights := n\<rparr>)"
proof -
  obtain rc n where n: "releaseCoverage (tx_entitlement tx) (lo_id (oc_order ctx)) (tx_commandId tx) releaseAllHeld (lb_nights db) = (rc, n)"
    by (metis surj_pair)
  obtain ids store where r: "releaseOrderClaims (oc_segmentIds ctx) db = Inr (ids, db\<lparr>lb_inventory := store\<rparr>)"
    using releaseOrderClaims_Inr [OF assms(1)] by metis
  obtain ids' store' where r': "releaseOrderClaims (oc_segmentIds ctx) (db\<lparr>lb_nights := n\<rparr>) = Inr (ids', db\<lparr>lb_nights := n\<rparr>\<lparr>lb_inventory := store'\<rparr>)"
    by (rule releaseOrderClaims_Inr [of "db\<lparr>lb_nights := n\<rparr>" "oc_segmentIds ctx"]) (use assms(1) in simp_all)
  show ?thesis
  proof (cases command)
    case CHECK_IN
    obtain rc' m where "consumeCoverage (tx_entitlement tx) (lo_id (oc_order ctx)) (tx_commandId tx) None consumeReason (lb_nights db) = Inr (rc', m)"
      by (simp add: consumeCoverage_def Let_def)
    then show ?thesis using CHECK_IN
      by (intro exI [of _ rc'] exI [of _ "lb_inventory db"] exI [of _ m]) (simp add: settleStay_def Let_def withNights_def)
  next
    case CHECK_OUT
    then show ?thesis using r
      by (intro exI [of _ noRefs] exI [of _ store] exI [of _ "lb_nights db"]) (simp add: settleStay_def Let_def)
  next
    case CANCEL_ORDER
    then show ?thesis using n r' by (intro exI [of _ rc] exI [of _ store'] exI [of _ n]) (simp add: settleStay_def Let_def withNights_def)
  next
    case MARK_NO_SHOW
    then show ?thesis using n r' by (intro exI [of _ rc] exI [of _ store'] exI [of _ n]) (simp add: settleStay_def Let_def withNights_def)
  qed (use assms(2) in simp)
qed

lemma terminal_applies:
  assumes inv: "lodgingInv db" and load: "loadOrderContext db i = Inr ctx" and fresh: "freshTx tx db"
    and pr: "se_pricingRevision effect = Some (0, basis)" and today: "propertyLocalToday db (lo_property_id (oc_order ctx)) = Inr t"
    and ty: "endsWithoutStay command"
  shows "\<exists>rs. terminalRevision tx ctx effect (db\<lparr>lb_amendments := lb_amendments db @ [newAmendment (tx_amendmentId tx) i n (statusCommandName command) reason v (tx_commandId tx)]\<rparr>)
     = Inr (db\<lparr>lb_amendments := lb_amendments db @ [newAmendment (tx_amendmentId tx) i n (statusCommandName command) reason v (tx_commandId tx)], lb_revisions := rs\<rparr>)"
proof -
  note c = loaded_context [OF inv load]
  let ?a = "newAmendment (tx_amendmentId tx) i n (statusCommandName command) reason v (tx_commandId tx)"
  let ?r = "newRevision tx i (rv_revision_no (oc_revision ctx) + 1) (tx_amendmentId tx) (lo_pricing_policy_version_id (oc_order ctx))
      (lo_arrival_date (oc_order ctx)) (lo_departure_date (oc_order ctx)) (terminalPricing (ps_currency (rv_pricing (oc_revision ctx))) basis)"
  let ?db = "db\<lparr>lb_amendments := lb_amendments db @ [?a], lb_revisions := lb_revisions db @ [?r]\<rparr>"
  have n: "revisionsOf db i \<noteq> []" "numbered (revisionsOf db i)"
    using orderOkD(2) [OF lodgingInvD(4) [OF inv c(1)]] by (simp_all add: revisionsOk_def Let_def c(2))
  then have no: "rv_revision_no ?r \<noteq> 1" using numbered_last [OF n(2,1)] by (simp add: c(6))
  have keys: "keysOk ?db" using lodgingInvD(3) [OF inv] freshTxD(1-3) [OF fresh] by (auto simp: keysOk_def)
  have types: "statusCommandName command \<notin> set (''REPRICE_ORDER'' # dateChangeCommands)"
    by (cases command) (simp_all add: statusCommandName_def dateChangeCommands_def)
  have "propertyLocalToday ?db (lo_property_id (oc_order ctx)) = Inr t" using today by (simp add: propertyLocalToday_def)
  then have "recordChannelRevision (tx_localDay tx) (tx_channelFactId tx) (rv_id ?r) ?db = Inr ?db"
    by (intro recordTerminal [OF keys _ _ _ _ _ _ no, of "oc_order ctx" ?a]) (use c types in simp_all)
  then show ?thesis
    using pr by (intro exI [of _ "lb_revisions db @ [?r]"]) (simp add: terminalRevision_def insertRevision_def newRevision_def c(2) Let_def)
qed

lemma status_applies:
  assumes inv: "lodgingInv db" and fresh: "freshTx tx db" and b: "buildStatusEffect evidence lt db p command input = Inr effect"
    and nr: "command \<noteq> REVOKE_CHECK_IN"
  shows "\<exists>refs db' ord. applyStatusCommand tx p command reason effect db = Inr (refs, db') \<and> ord \<in> set (lb_orders db')
     \<and> lo_id ord = se_orderId effect \<and> lo_status ord = fst (statusTarget command)"
proof -
  obtain ctx where ctx: "loadOrderContextForProperty db p (se_orderId effect) = Inr ctx" and load: "loadOrderContext db (se_orderId effect) = Inr ctx"
    and zero: "endsWithoutStay command \<longrightarrow> se_pricingRevision effect = Some (0, terminalBasis (oc_order ctx))"
    by (rule buildStatusEffect_facts [OF b])
  note c = loaded_context [OF inv load]
  obtain t where t: "propertyLocalToday db p = Inr t" using build_today [OF b] ..
  define a where "a = newAmendment (tx_amendmentId tx) (se_orderId effect) (lo_version (oc_order ctx) + 1) (statusCommandName command) reason
      (lo_version (oc_order ctx)) (tx_commandId tx)"
  define db1 where "db1 = db\<lparr>lb_amendments := lb_amendments db @ [a]\<rparr>"
  have "\<exists>rs. (if endsWithoutStay command then terminalRevision tx ctx effect db1 else Inr db1) = Inr (db1\<lparr>lb_revisions := rs\<rparr>)"
  proof (cases "endsWithoutStay command")
    case True
    then show ?thesis using terminal_applies [OF inv load fresh _ _ True] zero t loaded_property [OF inv ctx] by (simp add: db1_def a_def)
  next
    case False
    then show ?thesis by (intro exI [of _ "lb_revisions db1"]) simp
  qed
  then obtain rs where rs: "(if endsWithoutStay command then terminalRevision tx ctx effect db1 else Inr db1) = Inr (db1\<lparr>lb_revisions := rs\<rparr>)" ..
  obtain refs store n where st: "settleStay tx command ctx effect (db1\<lparr>lb_revisions := rs\<rparr>) = Inr (refs, db1\<lparr>lb_revisions := rs, lb_inventory := store, lb_nights := n\<rparr>)"
    using settle_applies [of "db1\<lparr>lb_revisions := rs\<rparr>" command tx ctx effect] lodgingInvD(1) [OF inv] nr by (auto simp: db1_def)
  define revise where "revise = (\<lambda>r :: lodging_order. r\<lparr>lo_status := fst (statusTarget command), lo_version := lo_version (oc_order ctx) + 1\<rparr>
           \<lparr>lo_current_revision_id := (if endsWithoutStay command then Some (tx_revisionId tx) else lo_current_revision_id r)\<rparr>)"
  define db' where "db' = updateStay (sy_id (oc_stay ctx)) (snd (statusTarget command)) (updateOrder (se_orderId effect) revise
      (db1\<lparr>lb_revisions := rs, lb_inventory := store, lb_nights := n\<rparr>))"
  have "applyStatusCommand tx p command reason effect db = Inr (refs, db')"
    unfolding applyStatusCommand_def ctx bindR_simps Let_def appendAmendment_new loaded_id [OF load] a_def [symmetric] db1_def [symmetric] rs st prod.case
      db'_def revise_def ..
  moreover have "revise (oc_order ctx) \<in> set (lb_orders db')"
    using c(1,2) by (auto simp: db'_def updateStay_def updateOrder_def db1_def set_updateWhere image_iff)
  moreover have "lo_id (revise (oc_order ctx)) = se_orderId effect \<and> lo_status (revise (oc_order ctx)) = fst (statusTarget command)"
    using c(2) by (simp add: revise_def)
  ultimately show ?thesis by blast
qed

section \<open>Properties\<close>

text \<open>Two claims of one unit and night are the same claim, so they are of one order.\<close>

lemma no_shared_night:
  assumes inv: "lodgingInv db" and c: "c \<in> stayClaims db i" "c' \<in> stayClaims db j" "i \<noteq> j"
  shows "c_inventoryUnitId c \<noteq> c_inventoryUnitId c' \<or> c_serviceDate c \<noteq> c_serviceDate c'"
proof (rule ccontr)
  note store = lodgingInvD(1) [OF inv]
  have a: "c \<in> activeClaims (lb_inventory db)" "c' \<in> activeClaims (lb_inventory db)" using c(1,2) by (simp_all add: stayClaims_def)
  assume "\<not> ?thesis"
  then have same: "c_inventoryUnitId c = c_inventoryUnitId c'" "c_serviceDate c = c_serviceDate c'" by simp_all
  have "\<exists>u. unitOf (lb_inventory db) (c_inventoryUnitId x) = Some u \<and> c_roomId x = roomIdOf u" if "x \<in> activeClaims (lb_inventory db)" for x
    using inventoryInvD(2) [OF store] that by (simp add: claimsOk_def activeClaims_def)
  then have "c_roomId c = c_roomId c'" using a same by (metis option.inject)
  then have "c = c'" using claim_unique [OF store a] same by blast
  then show False using stayClaims_disjoint [OF lodgingInvD(3) [OF inv]] c by blast
qed

text \<open>
  C4: In every state that commands on stays and changes made elsewhere reach from empty tables, a reserved or
  arrived order has exactly one active claim for each night from its arrival to its departure and no other, an
  ended order has no claim and no held night of a member, and no two orders hold the same unit on one night.
\<close>

theorem stays_hold_their_nights:
  assumes "emptyLodging db0" and "(lodgingStep view)\<^sup>*\<^sup>* db0 db" and "ord \<in> set (lb_orders db)"
  shows "(if lo_status ord \<in> {RESERVED, CHECKED_IN}
       then \<exists>dates. enumerateServiceDates (lo_arrival_date ord) (lo_departure_date ord) = Inr dates
          \<and> (\<forall>c\<in>stayClaims db (lo_id ord). c_serviceDate c \<in> set dates)
          \<and> (\<forall>d\<in>set dates. \<exists>!c. c \<in> stayClaims db (lo_id ord) \<and> c_serviceDate c = d)
       else stayClaims db (lo_id ord) = {} \<and> heldItems (lb_nights db) (lo_id ord) = {})
     \<and> (\<forall>c\<in>stayClaims db (lo_id ord). \<forall>other. other \<noteq> lo_id ord \<longrightarrow>
          (\<forall>c'\<in>stayClaims db other. c_inventoryUnitId c \<noteq> c_inventoryUnitId c' \<or> c_serviceDate c \<noteq> c_serviceDate c'))"
proof -
  note inv = lodging.reachable_inv [OF assms(1,2)]
  note res = orderOkD(4) [OF lodgingInvD(4) [OF inv assms(3)]]
  show ?thesis using res no_shared_night [OF inv] by (auto simp: resourcesOk_def openOrder_def nightsHeld_def split: if_splits)
qed

text \<open>
  C6: In every reachable state an order has one stay, whose status is the one that belongs to the status of the order,
  as many amendments as its version says, numbered from one, each raising the version by one, and revisions numbered
  from one, of which the last is the current one.
\<close>

theorem order_and_stay_agree:
  assumes "emptyLodging db0" and "(lodgingStep view)\<^sup>*\<^sup>* db0 db" and "ord \<in> set (lb_orders db)"
  shows "(\<exists>!y. y \<in> set (lb_stays db) \<and> sy_order_id y = lo_id ord)
     \<and> (\<forall>y\<in>set (lb_stays db). sy_order_id y = lo_id ord \<longrightarrow> sy_status y = stayStateOf (lo_status ord))
     \<and> map am_sequence (amendmentsOf db (lo_id ord)) = [1..lo_version ord]
     \<and> (\<forall>a\<in>set (amendmentsOf db (lo_id ord)). am_prior_version a = am_sequence a - 1 \<and> am_new_version a = am_sequence a)
     \<and> revisionsOf db (lo_id ord) \<noteq> [] \<and> map rv_revision_no (revisionsOf db (lo_id ord)) = [1..int (length (revisionsOf db (lo_id ord)))]
     \<and> lo_current_revision_id ord = Some (rv_id (last (revisionsOf db (lo_id ord))))"
proof -
  note inv = lodging.reachable_inv [OF assms(1,2)]
  note ok = lodgingInvD(4) [OF inv assms(3)] and keys = lodgingInvD(3) [OF inv]
  obtain y where y: "y \<in> set (lb_stays db)" "sy_order_id y = lo_id ord" "sy_status y = stayStateOf (lo_status ord)"
    using orderOkD(1) [OF ok] by (auto simp: stayOk_def)
  have one: "z = y" if "z \<in> set (lb_stays db)" "sy_order_id z = lo_id ord" for z
    using distinct_key_eq [OF keysOkD(3) [OF keys]] that y(1,2) by metis
  then have "\<exists>!y. y \<in> set (lb_stays db) \<and> sy_order_id y = lo_id ord" using y by blast
  moreover have "\<forall>y\<in>set (lb_stays db). sy_order_id y = lo_id ord \<longrightarrow> sy_status y = stayStateOf (lo_status ord)" using one y(3) by blast
  moreover have "map am_sequence (amendmentsOf db (lo_id ord)) = [1..lo_version ord]
     \<and> (\<forall>a\<in>set (amendmentsOf db (lo_id ord)). am_prior_version a = am_sequence a - 1 \<and> am_new_version a = am_sequence a)"
    using orderOkD(3) [OF ok] by (auto simp: amendmentsOk_def)
  moreover have "revisionsOf db (lo_id ord) \<noteq> [] \<and> map rv_revision_no (revisionsOf db (lo_id ord)) = [1..int (length (revisionsOf db (lo_id ord)))]
     \<and> lo_current_revision_id ord = Some (rv_id (last (revisionsOf db (lo_id ord))))"
    using orderOkD(2) [OF ok] by (simp add: revisionsOk_def numbered_def Let_def)
  ultimately show ?thesis by blast
qed

text \<open>
  C5: In every reachable state the contract amount of a stay that an external channel sells is not negative and is
  covered by what the channel ledger has recognised for it: no change of price or dates and no refund of a
  platform leaves more to be paid by the channel than it was booked for.
\<close>

theorem channel_contract_covered:
  assumes "emptyLodging db0" and "(lodgingStep view)\<^sup>*\<^sup>* db0 db" and "ord \<in> set (lb_orders db)"
    and "externalChannel (lo_booking_channel_code ord)" and "map_of (lb_properties db) (lo_property_id ord) = Some cur"
  shows "\<exists>r. r \<in> set (lb_revisions db) \<and> rv_order_id r = lo_id ord \<and> lo_current_revision_id ord = Some (rv_id r)
     \<and> 0 \<le> contractMinor r \<and> contractMinor r \<le> channelNet db (lo_property_id ord) (lo_id ord)"
proof -
  have ok: "revisionsOk db ord" using orderOkD(2) lodgingInvD(4) lodging.reachable_inv [OF assms(1,2)] assms(3) by blast
  then have "revisionsOf db (lo_id ord) \<noteq> []" by (simp add: revisionsOk_def Let_def)
  then have "last (revisionsOf db (lo_id ord)) \<in> set (revisionsOf db (lo_id ord))" by simp
  then show ?thesis using ok assms(4,5)
    by (intro exI [of _ "last (revisionsOf db (lo_id ord))"]) (auto simp: revisionsOk_def revisionsOf_def channelStay_def Let_def)
qed

text \<open>
  C7: In every reachable state a previewed arrival, departure, cancellation or no-show can be confirmed: applying
  what its preview built returns new tables, in which the order has the status of the command.
\<close>

theorem status_command_applies:
  assumes "emptyLodging db0" and "(lodgingStep view)\<^sup>*\<^sup>* db0 db" and "freshTx tx db"
    and "buildStatusEffect evidence localTime db p command input = Inr effect" and "command \<noteq> REVOKE_CHECK_IN"
  shows "\<exists>refs db' ord. applyStatusCommand tx p command reason effect db = Inr (refs, db') \<and> lodgingStep view db db'
     \<and> ord \<in> set (lb_orders db') \<and> lo_id ord = se_orderId effect \<and> lo_status ord = fst (statusTarget command)"
  using status_applies [OF lodging.reachable_inv [OF assms(1,2)] assms(3-5)] lodgingStep.status [OF assms(3,4)] by blast

section \<open>A run with one stay\<close>

definition demoTx :: "string \<Rightarrow> transaction" where
  "demoTx n = \<lparr>tx_now = 0, tx_localDay = (\<lambda>_. ''2026-06-01''), tx_commandId = ''command'' @ n, tx_amendmentId = ''first'' @ n,
     tx_secondAmendmentId = ''second'' @ n, tx_thirdAmendmentId = ''third'' @ n, tx_orderId = ''order'' @ n, tx_stayId = ''stay'' @ n,
     tx_segmentId = ''segment'' @ n, tx_revisionId = ''revision'' @ n, tx_factId = ''fact'' @ n, tx_channelFactId = ''channel'' @ n,
     tx_claimIds = (\<lambda>unit day. ''claim'' @ unit @ day), tx_entitlement = \<lparr>ei_coverage = (\<lambda>x. x), ei_fact = (\<lambda>x. x), ei_expire = (\<lambda>x. x)\<rparr>\<rparr>"

definition demoTables :: "inventory_db \<Rightarrow> lodging_db" where
  "demoTables store = \<lparr>lb_properties = [(''P'', ''CNY'')], lb_orders = [], lb_stays = [], lb_segments = [], lb_amendments = [], lb_revisions = [],
     lb_occupants = [], lb_facts = [], lb_channel = [], lb_openings = [], lb_baselines = [], lb_inventory = store,
     lb_nights = \<lparr>en_contracts = [], en_lots = [], en_coverage = [], en_ledger = []\<rparr>\<rparr>"

definition demoEffect :: create_effect where
  "demoEffect = \<lparr>cx_occupants = [\<lparr>oa_id = ''guest'', oa_order_id = [], oa_ordinal = 1, oa_full_name = ''Guest'', oa_nickname = ''G'',
       oa_phone = None, oa_document_number = None, oa_command_id = []\<rparr>],
     cx_unitId = ''R'', cx_unitKind = ROOM, cx_unitRoomTypeCode = None, cx_arrivalDate = ''2026-07-01'', cx_departureDate = ''2026-07-02'',
     cx_stayType = ''TRANSIENT'', cx_policyVersionId = ''policy'', cx_memberId = None, cx_memberContractId = None,
     cx_bookingChannelCode = Str ''CTRIP'', cx_channelOrderReference = Str ''A1'', cx_freeStayReason = [], cx_freeStayCategoryCode = [],
     cx_pricing = \<lparr>ps_coverageSet = [], ps_cashLines = [], ps_policyBaseAmountMinor = 20000, ps_pricingBasis = CHANNEL_CONTRACT,
       ps_manualAdjustmentMinor = 0, ps_currentContractAmountMinor = 18000, ps_currency = ''CNY''\<rparr>,
     cx_temporary = None, cx_backfill = None\<rparr>"

definition demoCreated :: "lodging_db result" where
  "demoCreated = applyCreateOrder demoView (demoTx ''1'') ''P'' \<lparr>cr_code = ''CREATE_STANDARD_ORDER'', cr_note = []\<rparr> demoEffect (demoTables demoLocked)"

definition demoReserved :: lodging_db where
  "demoReserved = (case demoCreated of Inr db \<Rightarrow> db | Inl _ \<Rightarrow> demoTables demoLocked)"

lemma demo_reserved:
  "(case demoCreated of Inr db \<Rightarrow> True | Inl _ \<Rightarrow> False)"
  "map (\<lambda>v. (lo_id v, lo_status v, lo_property_id v, lo_booking_channel_code v)) (lb_orders demoReserved) = [(''order1'', RESERVED, ''P'', Some ''CTRIP'')]"
  "map (\<lambda>f. (ch_kind f, ch_amount_minor f)) (lb_channel demoReserved) = [(SALE, 18000)]" "map_of (lb_properties demoReserved) ''P'' = Some ''CNY''"
  by code_simp+

lemma demo_tables_empty: "emptyLodging (demoTables demoStore)"
  by (simp add: emptyLodging_def demoTables_def demo_empty noNights_def)

lemma stay_run: "(lodgingStep demoView)\<^sup>*\<^sup>* (demoTables demoStore) demoReserved"
proof -
  have "lodgingStep demoView (demoTables demoStore) (demoTables demoStore\<lparr>lb_inventory := demoLocked\<rparr>)"
    by (rule lodgingStep.lock) (simp add: demoTables_def, rule demo_lock)
  moreover have "demoTables demoStore\<lparr>lb_inventory := demoLocked\<rparr> = demoTables demoLocked" by (simp add: demoTables_def)
  moreover have "freshTx (demoTx ''1'') (demoTables demoLocked)"
    by (simp add: freshTx_def demoTx_def demoTables_def demo_noClaims freshItems_def)
  then have "lodgingStep demoView (demoTables demoLocked) demoReserved"
    by (rule lodgingStep.create [where effect = demoEffect])
      (use demo_reserved(1) in \<open>auto simp: backfillAdmitted_def demoEffect_def demoReserved_def demoCreated_def split: sum.splits\<close>)
  ultimately show ?thesis by (metis converse_rtranclp_into_rtranclp rtranclp.rtrancl_refl)
qed

lemma demo_order:
  obtains ord where "lb_orders demoReserved = [ord]" "lo_id ord = ''order1''" "lo_status ord = RESERVED" "lo_property_id ord = ''P''"
    "lo_booking_channel_code ord = Some ''CTRIP''"
  using demo_reserved(2) that by (cases "lb_orders demoReserved") auto

theorem stays_hold_their_nights_witness: "stayClaims demoReserved ''order1'' \<noteq> {}"
proof -
  obtain ord where ord: "lb_orders demoReserved = [ord]" "lo_id ord = ''order1''" "lo_status ord = RESERVED" by (rule demo_order)
  have m: "ord \<in> set (lb_orders demoReserved)" by (simp add: ord)
  obtain dates where d: "enumerateServiceDates (lo_arrival_date ord) (lo_departure_date ord) = Inr dates"
    "\<forall>d\<in>set dates. \<exists>!c. c \<in> stayClaims demoReserved ''order1'' \<and> c_serviceDate c = d"
    using stays_hold_their_nights [OF demo_tables_empty stay_run m] ord(2,3) by auto
  have "hd dates \<in> set dates" using enumerateServiceDates_facts(1) [OF d(1)] by simp
  then show ?thesis using d(2) by blast
qed

theorem order_and_stay_agree_witness: "\<exists>y. y \<in> set (lb_stays demoReserved) \<and> sy_status y = PLANNED"
proof -
  obtain ord where ord: "lb_orders demoReserved = [ord]" "lo_id ord = ''order1''" "lo_status ord = RESERVED" by (rule demo_order)
  have "ord \<in> set (lb_orders demoReserved)" by (simp add: ord)
  from order_and_stay_agree [OF demo_tables_empty stay_run this] ord(3) show ?thesis by auto
qed

theorem channel_contract_covered_witness: "\<exists>r\<in>set (lb_revisions demoReserved). contractMinor r \<le> channelNet demoReserved ''P'' ''order1''"
proof -
  obtain ord where ord: "lb_orders demoReserved = [ord]" "lo_id ord = ''order1''" "lo_property_id ord = ''P''" "lo_booking_channel_code ord = Some ''CTRIP''"
    by (rule demo_order)
  have "ord \<in> set (lb_orders demoReserved)" by (simp add: ord)
  from channel_contract_covered [OF demo_tables_empty stay_run this] ord demo_reserved(4) show ?thesis by (auto simp: externalChannel_def)
qed

lemma demo_rows:
  "map lo_id (lb_orders demoReserved) = [''order1'']" "map sy_id (lb_stays demoReserved) = [''stay1'']"
  "map sy_order_id (lb_stays demoReserved) = [''order1'']" "map ss_id (lb_segments demoReserved) = [''segment1'']"
  "map ss_stay_id (lb_segments demoReserved) = [''stay1'']" "map am_id (lb_amendments demoReserved) = [''first1'']"
  "map am_order_id (lb_amendments demoReserved) = [''order1'']" "map rv_id (lb_revisions demoReserved) = [''revision1'']"
  "map rv_order_id (lb_revisions demoReserved) = [''order1'']" "map ch_order_id (lb_channel demoReserved) = [''order1'']"
  "map c_sourceId (t_claims (lb_inventory demoReserved)) = [''segment1'']" "map so_source_id (lb_openings demoReserved) = []"
  "map cv_id (en_coverage (lb_nights demoReserved)) = []" "map cv_order_id (en_coverage (lb_nights demoReserved)) = []"
  by code_simp+

lemma demo_fresh: "freshTx (demoTx ''2'') demoReserved"
  unfolding freshTx_def freshItems_def set_map [symmetric] demo_rows by (simp add: demoTx_def)

definition demoCancellation :: "status_effect result" where
  "demoCancellation = buildStatusEffect (Inr ()) ''12:00'' demoReserved ''P'' CANCEL_ORDER [(''orderId'', JStr ''order1'')]"

lemma demo_cancellation: "(case demoCancellation of Inr e \<Rightarrow> se_orderId e = ''order1'' | Inl _ \<Rightarrow> False)"
  by code_simp

theorem status_command_applies_witness:
  "\<exists>db ord. lodgingStep demoView demoReserved db \<and> ord \<in> set (lb_orders db) \<and> lo_id ord = ''order1'' \<and> lo_status ord = CANCELLED"
proof -
  obtain e where e: "buildStatusEffect (Inr ()) ''12:00'' demoReserved ''P'' CANCEL_ORDER [(''orderId'', JStr ''order1'')] = Inr e" "se_orderId e = ''order1''"
    using demo_cancellation by (auto simp: demoCancellation_def split: sum.splits)
  have nr: "CANCEL_ORDER \<noteq> REVOKE_CHECK_IN" by simp
  show ?thesis
    using status_command_applies [OF demo_tables_empty stay_run demo_fresh e(1) nr, where reason = "\<lparr>cr_code = ''GUEST'', cr_note = []\<rparr>"] e(2)
    by (auto simp: statusTarget_def)
qed

end
