(* ===== verification/Spec2Isabelle.thy ===== *)
theory Spec2Isabelle
  imports OperationalFacts InventorySafety CashLineAgreement CommandInput AuthorizedExecution FundsSafety LodgingRun
begin

text \<open>
  A verification development of GreenPMS, the property management system of QinTopia: a TypeScript monorepo
  whose server keeps rooms, stays, money and members of a small property in PostgreSQL.

  Parts of the program. A client asks the server for a \<^emph>\<open>preview\<close> of a command, shows its effect and
  \<^emph>\<open>confirms\<close> it. The protocol of the commands (\<^verbatim>\<open>packages/db/src/commands/service.ts\<close>) stores previews,
  executions and receipts; it lets \<^verbatim>\<open>command-authorization.ts\<close> decide who may run what, builds the effect
  (\<^verbatim>\<open>commands/effects.ts\<close>) and applies it (\<^verbatim>\<open>commands/apply.ts\<close>) in one transaction. Effects are
  composed of a few modules: local dates, prices and operational facts (\<^verbatim>\<open>packages/domain/src\<close>), the nights of
  a stay (\<^verbatim>\<open>stay-timeline-plan.ts\<close>, \<^verbatim>\<open>orders.ts\<close>), the claims on rooms and beds
  (\<^verbatim>\<open>inventory.ts\<close>), the money of orders (\<^verbatim>\<open>payment-allocation.ts\<close>, \<^verbatim>\<open>retained-funds.ts\<close>)
  and the nights of members (\<^verbatim>\<open>entitlement-balance.ts\<close>, \<^verbatim>\<open>orders.ts\<close>). Stored effects of earlier
  releases are read by \<^verbatim>\<open>historical-command-protocol.ts\<close>.

  Theories and what they model (paths under \<^verbatim>\<open>src/packages\<close>):

    \<^item> \<open>Prelude\<close>: the errors of \<^verbatim>\<open>contracts/src/index.ts\<close>, results as sums, loops that may fail
      (\<open>foldR\<close>), insertion-ordered maps, tables as lists, and the locale of systems with an invariant.
    \<^item> \<open>Dates\<close>: \<^verbatim>\<open>domain/src/dates.ts\<close>; a date is a string, compared as JavaScript compares strings.
    \<^item> \<open>Pricing\<close>, \<open>OperationalFacts\<close>: \<^verbatim>\<open>domain/src/pricing.ts\<close>,
      \<^verbatim>\<open>operational-facts.ts\<close> and \<^verbatim>\<open>channel-recognition.ts\<close>.
    \<^item> \<open>Timeline\<close>: \<^verbatim>\<open>db/src/stay-timeline-plan.ts\<close> and the arrangements of \<^verbatim>\<open>db/src/orders.ts\<close>.
    \<^item> \<open>Inventory\<close>, \<open>InventorySafety\<close>: \<^verbatim>\<open>db/src/inventory.ts\<close> and \<^verbatim>\<open>departure-day-stays.ts\<close>; the
      tables are a record of lists, each function of the source a function on it.
    \<^item> \<open>Json\<close>: \<^verbatim>\<open>domain/src/ids.ts\<close> and \<^verbatim>\<open>pms-projection-hash.ts\<close>. \<open>HistoricalProtocol\<close>,
      \<open>HistoricalReading\<close>, \<open>CashLineAgreement\<close>: \<^verbatim>\<open>db/src/historical-command-protocol.ts\<close> and that what
      pricing writes is read back.
    \<^item> \<open>Permissions\<close>, \<open>CommandAuthorization\<close>, \<open>AuthorizationSafety\<close>:
      \<^verbatim>\<open>domain/src/command-permissions.ts\<close>, \<^verbatim>\<open>db/src/command-authorization.ts\<close>.
    \<^item> \<open>CommandStore\<close>, \<open>CommandProtocol\<close>, \<open>CommandSafety\<close>, \<open>CommandOutcome\<close>, \<open>CommandInput\<close>:
      \<^verbatim>\<open>db/src/commands/service.ts\<close> and \<^verbatim>\<open>transaction-failure.ts\<close>; the state machine of the tables of
      the protocol over any business store. \<open>AuthorizedExecution\<close> joins it with the authorization.
    \<^item> \<open>InputFields\<close>, \<open>StayMoney\<close>, \<open>OrderFunds\<close>, \<open>FundsSafety\<close>: the readers of request fields,
      \<^verbatim>\<open>db/src/lodging-integrity.ts\<close>, \<^verbatim>\<open>retained-funds.ts\<close>, \<^verbatim>\<open>payment-allocation.ts\<close> and the commands
      that record, refund and reverse a payment.
    \<^item> \<open>Entitlements\<close>, \<open>EntitlementSafety\<close>: \<^verbatim>\<open>db/src/entitlement-balance.ts\<close>, the coverage operations of
      \<^verbatim>\<open>db/src/orders.ts\<close> and the commands on the lots of a member.
    \<^item> \<open>Lodging\<close>, \<open>ChannelOperating\<close>, \<open>StayLifecycle\<close>, \<open>StayArrangement\<close>: the tables of orders, stays,
      segments, amendments and revisions with their loaders (\<^verbatim>\<open>db/src/orders.ts\<close>), the channel ledger
      (\<^verbatim>\<open>db/src/channel-operating.ts\<close>), and the commands on stays of \<^verbatim>\<open>commands/effects.ts\<close> and
      \<^verbatim>\<open>commands/apply.ts\<close>: they create, reschedule, extend, shorten, reprice and end a stay and let its guest in.
    \<^item> \<open>LodgingInvariant\<close>, \<open>LodgingFrames\<close>: the invariant of these tables and what each operation leaves
      alone. \<open>LodgingSafety\<close>, \<open>LodgingCreation\<close>, \<open>LodgingDates\<close>: every command keeps it.
      \<open>LodgingRun\<close>: the step relation of commands and changes made elsewhere, and the properties of stays.

  State. A table is a list of records in insertion order, an update a map over the rows that match, a query a
  filter with the source's conditions; a transaction is a function from the tables to an error or new tables, so
  an error leaves the tables as they were. Identifiers that newId draws are arguments; where a proof needs that
  they are new, the freshness is a hypothesis of that step. Row locks serialize the transactions on the rows they
  name, so a run of the system is a sequence of whole transactions; the step relations interleave them in any
  order with the changes that other code may make.

  What the lemmas show. Each component theory has the functional behaviour of its operations on every branch,
  errors included. The Safety theories have the invariants that hold between the tables in every reachable state,
  proved once for the locale \<open>invariant_system\<close> and its interpretations: no bed is sold twice, money is
  spent once, a member's nights are conserved, a stay holds exactly its nights while it is open and nothing
  afterwards, its price is covered by the channel ledger, a preview is applied once and every execution has its receipt. The
  remaining theorems are about interfaces: the writer and the reader of cash lines, of dates and of arrangements
  agree, an authorization never exceeds the grants it is derived from and depends on no row of a target before
  the caller has shown its capability, an executed command was permitted, and a permitted resolution answers.

  Bounds and recursion. Loops over lists are structural; the loops over dates carry the number of nights, which
  the source bounds by MAX_SERVICE_NIGHTS; the while loop over the last run of a timeline is a \<open>while_option\<close>
  that is proved to end; no function of the development takes fuel. Amounts are
  integral doubles in the safe range where the source tests them so, 32-bit integers where a column is one.

  Not modelled. SQL triggers and constraints that repeat checks of the code, texts of messages, row locks within
  one transaction, the time zone database (local dates of the property are arguments), SHA-256 and localeCompare
  (parameters; of localeCompare only one theorem asks more, that it is a total preorder). Of
  \<^verbatim>\<open>effects.ts\<close> and \<^verbatim>\<open>apply.ts\<close> the price of a new or changed stay and the projection of its history are
  arguments of the commands, and MOVE_UNIT, COMPLETE_STAY, REVOKE_CHECK_OUT, the conversion of a paid stay to a
  membership, companions and internal use are left out: they compose the modelled operations with more tables.
  Also left out are the HTTP routes and schemas, the web
  client, the exchange with WeCom and the integrator, the assistant, the reports, the migrations and the
  corrections by an administrator, which have no logic of the core or only read it.
\<close>

end
